(* ===== verification/Prelude.thy ===== *)
theory Prelude
  imports Main "HOL-Library.List_Lexorder" "HOL-Library.Char_ord" "HOL-Library.Product_Lexorder"
begin

text \<open>
  Shared vocabulary of the development: Python exceptions as values, the sequencing of
  computations that may raise, database transactions, and tables of rows addressed by a
  primary key.  Strings are \<open>string\<close> (lists of Latin-1 code points) in Python's code point
  order, and pairs are ordered lexicographically, as \<open>ORDER BY a, b\<close> does.

  Collections: \<open>result_simps\<close> (raising computations), \<open>table_simps\<close> (rows), \<open>frame_simps\<close>
  (what an operation leaves alone).
\<close>

named_theorems result_simps
named_theorems table_simps
named_theorems frame_simps

section \<open>Exceptions as values\<close>

text \<open>
  \<open>HTTPException status detail\<close> is FastAPI's; \<open>IntegrityError\<close> is a violated database
  constraint nobody catches; \<open>OverflowError\<close>, \<open>TypeError\<close>, \<open>ValueError\<close>,
  \<open>RuntimeError\<close>, \<open>KeyError\<close> and \<open>FileNotFoundError\<close> are the built-ins.
\<close>

datatype py_error =
    HTTPException nat string
  | IntegrityError
  | OverflowError
  | TypeError
  | ValueError string
  | RuntimeError string
  | KeyError string
  | FileNotFoundError

type_synonym 'a result = "py_error + 'a"

definition andThen :: "'e + 'a \<Rightarrow> ('a \<Rightarrow> 'e + 'b) \<Rightarrow> 'e + 'b" where
  "andThen m f = (case m of Inl e \<Rightarrow> Inl e | Inr x \<Rightarrow> f x)"

definition ensure :: "bool \<Rightarrow> 'e \<Rightarrow> 'e + unit" where
  "ensure c e = (if c then Inr () else Inl e)"

fun traverse :: "('a \<Rightarrow> 'e + 'b) \<Rightarrow> 'a list \<Rightarrow> 'e + 'b list" where
  "traverse f [] = Inr []"
| "traverse f (x # xs) = andThen (f x) (\<lambda>y. andThen (traverse f xs) (\<lambda>ys. Inr (y # ys)))"

lemma andThen_Inl [simp, result_simps]: "andThen (Inl e) f = Inl e"
  by (simp add: andThen_def)

lemma andThen_Inr [simp, result_simps]: "andThen (Inr x) f = f x"
  by (simp add: andThen_def)

lemma ensure_True [simp, result_simps]: "ensure True e = Inr ()"
  by (simp add: ensure_def)

lemma ensure_False [simp, result_simps]: "ensure False e = Inl e"
  by (simp add: ensure_def)

lemma andThen_eq_Inr [result_simps]:
  "andThen m f = Inr y \<longleftrightarrow> (\<exists>x. m = Inr x \<and> f x = Inr y)"
  by (cases m) auto

lemma Inr_eq_andThen [result_simps]:
  "Inr y = andThen m f \<longleftrightarrow> (\<exists>x. m = Inr x \<and> f x = Inr y)"
  by (cases m) auto

lemma andThen_eq_Inl [result_simps]:
  "andThen m f = Inl e \<longleftrightarrow> m = Inl e \<or> (\<exists>x. m = Inr x \<and> f x = Inl e)"
  by (cases m) auto

lemma ensure_eq_Inr [simp, result_simps]: "ensure c e = Inr u \<longleftrightarrow> c"
  by (simp add: ensure_def)

lemma ensure_eq_Inl [simp, result_simps]: "ensure c e = Inl e' \<longleftrightarrow> \<not> c \<and> e = e'"
  by (auto simp: ensure_def)

lemma traverse_total: "(\<And>x. x \<in> set xs \<Longrightarrow> f x = Inr (g x)) \<Longrightarrow> traverse f xs = Inr (map g xs)"
  by (induction xs) auto

lemma traverse_eq_Inr:
  "traverse f xs = Inr ys \<longleftrightarrow> list_all2 (\<lambda>x y. f x = Inr y) xs ys"
  by (induction xs arbitrary: ys) (auto simp: andThen_eq_Inr list_all2_Cons1)

lemma traverse_unit_Inr:
  "(\<exists>ys. traverse f xs = Inr ys) \<longleftrightarrow> (\<forall>x\<in>set xs. \<exists>y. f x = Inr y)"
  by (induction xs) (auto simp: andThen_eq_Inr)

section \<open>Transactions\<close>

text \<open>
  \<open>with session.begin()\<close> commits when its body ends (also by \<open>return\<close>) and rolls back
  when an exception leaves it, so the database after an error is the one before it.
\<close>

text \<open>\<open>except IntegrityError\<close> around a transaction.\<close>

definition on_integrity_error :: "py_error \<Rightarrow> 'a result \<Rightarrow> 'a result" where
  "on_integrity_error e r = (case r of Inl IntegrityError \<Rightarrow> Inl e | _ \<Rightarrow> r)"

lemma on_integrity_error_Inr [simp]: "on_integrity_error e r = Inr x \<longleftrightarrow> r = Inr x"
  by (auto simp: on_integrity_error_def split: sum.splits py_error.splits)

definition transaction :: "'db \<Rightarrow> 'e + 'db \<times> 'a \<Rightarrow> 'db \<times> ('e + 'a)" where
  "transaction db body = (case body of Inl e \<Rightarrow> (db, Inl e) | Inr (db', x) \<Rightarrow> (db', Inr x))"

lemma transaction_simps [simp, result_simps]:
  "transaction db (Inl e) = (db, Inl e)"
  "transaction db (Inr (db', x)) = (db', Inr x)"
  by (simp_all add: transaction_def)

lemma transaction_Inr [result_simps]:
  "transaction db body = (db', Inr x) \<longleftrightarrow> body = Inr (db', x)"
  by (auto simp: transaction_def split: sum.splits)

lemma transaction_Inl [result_simps]:
  "transaction db body = (db', Inl e) \<longleftrightarrow> body = Inl e \<and> db' = db"
  by (auto simp: transaction_def split: sum.splits)

lemma transaction_cases:
  assumes "transaction db body = (db', res)"
  obtains (error) e where "res = Inl e" "db' = db" "body = Inl e"
    | (commit) x where "res = Inr x" "body = Inr (db', x)"
  using assms by (cases body) (auto simp: transaction_def split: prod.splits)

lemma transaction_preserves:
  assumes "P db" and "\<And>db' x. body = Inr (db', x) \<Longrightarrow> P db'"
  shows "P (fst (transaction db body))"
  using assms by (auto simp: transaction_def split: sum.splits)

lemma transaction_runs:
  assumes "run = transaction db body" and "P db" and "\<And>db' x. run = (db', Inr x) \<Longrightarrow> P db'"
  shows "P (fst run)"
  using transaction_preserves[of P db body] assms by (simp add: transaction_Inr)

lemma transaction_fst:
  assumes "fst (transaction db body) = db'"
  shows "db' = db \<or> (\<exists>x. transaction db body = (db', Inr x))"
  using assms by (cases body) (auto simp: transaction_def)

lemma transaction_Pair: "transaction db body = (db', res) \<Longrightarrow> db' = db \<or> (\<exists>x. body = Inr (db', x) \<and> res = Inr x)"
  by (rule transaction_cases) auto

section \<open>Tables\<close>

text \<open>
  A table is the list of its rows in insertion order.  \<open>fetch key k\<close> is \<open>session.get\<close>
  (or a \<open>scalar\<close> query on a unique column), \<open>save key r\<close> writes the attributes of a loaded
  row back, \<open>update_where\<close> is an \<open>UPDATE ... WHERE\<close>, and \<open>order_by\<close> is \<open>ORDER BY\<close>.
\<close>

definition fetch :: "('r \<Rightarrow> 'k) \<Rightarrow> 'k \<Rightarrow> 'r list \<Rightarrow> 'r option" where
  "fetch key k rows = List.find (\<lambda>r. key r = k) rows"

definition save :: "('r \<Rightarrow> 'k) \<Rightarrow> 'r \<Rightarrow> 'r list \<Rightarrow> 'r list" where
  "save key r rows = map (\<lambda>x. if key x = key r then r else x) rows"

definition update_where :: "('r \<Rightarrow> bool) \<Rightarrow> ('r \<Rightarrow> 'r) \<Rightarrow> 'r list \<Rightarrow> 'r list" where
  "update_where P f rows = map (\<lambda>r. if P r then f r else r) rows"

definition order_by :: "('r \<Rightarrow> 'k::linorder) \<Rightarrow> 'r list \<Rightarrow> 'r list" where
  "order_by k rows = sort_key k rows"

definition unique_on :: "('r \<Rightarrow> 'k) \<Rightarrow> 'r list \<Rightarrow> bool" where
  "unique_on key rows = distinct (map key rows)"

lemma find_eq_Some_first: "List.find P xs = Some x \<Longrightarrow> P x \<and> x \<in> set xs"
  by (induction xs) (auto split: if_splits)

lemma find_append: "List.find P (xs @ ys) =
    (case List.find P xs of None \<Rightarrow> List.find P ys | Some x \<Rightarrow> Some x)"
  by (induction xs) auto

lemma fetch_SomeD: "fetch key k rows = Some r \<Longrightarrow> key r = k \<and> r \<in> set rows"
  unfolding fetch_def by (rule find_eq_Some_first)

lemma fetch_None [table_simps]: "fetch key k rows = None \<longleftrightarrow> k \<notin> key ` set rows"
  by (auto simp: fetch_def find_None_iff)

lemma fetch_Nil [simp]: "fetch key k [] = None"
  by (simp add: fetch_def)

lemma fetch_Cons [simp]: "fetch key k (r # rows) = (if key r = k then Some r else fetch key k rows)"
  by (simp add: fetch_def)

lemma fetch_append [table_simps]:
  "fetch key k (xs @ ys) = (case fetch key k xs of None \<Rightarrow> fetch key k ys | Some r \<Rightarrow> Some r)"
  unfolding fetch_def by (simp add: find_append)

lemma fetch_unique: "unique_on key rows \<Longrightarrow> r \<in> set rows \<Longrightarrow> fetch key (key r) rows = Some r"
  by (induction rows) (auto simp: unique_on_def rev_image_eqI)

lemma fetch_eq_Some_iff:
  "unique_on key rows \<Longrightarrow> fetch key k rows = Some r \<longleftrightarrow> key r = k \<and> r \<in> set rows"
  using fetch_SomeD fetch_unique by metis

lemma unique_onD: "unique_on key rows \<Longrightarrow> r \<in> set rows \<Longrightarrow> s \<in> set rows \<Longrightarrow> key r = key s \<Longrightarrow> r = s"
  by (metis fetch_unique option.inject)

lemma map_key_save [simp]: "map key (save key r rows) = map key rows"
  by (simp add: save_def)

lemma unique_on_save [simp]: "unique_on key (save key r rows) = unique_on key rows"
  by (simp add: unique_on_def)

lemma in_set_save:
  "x \<in> set (save key r rows) \<longleftrightarrow>
     (x \<in> set rows \<and> key x \<noteq> key r) \<or> (x = r \<and> key r \<in> key ` set rows)"
  by (induction rows) (auto simp: save_def)

lemma fetch_save [table_simps]:
  "fetch key k (save key r rows) =
     (if k = key r \<and> fetch key k rows \<noteq> None then Some r else fetch key k rows)"
  by (induction rows) (auto simp: save_def)

lemma unique_on_snoc [simp]: "unique_on key (rows @ [r]) \<longleftrightarrow> unique_on key rows \<and> key r \<notin> key ` set rows"
  by (auto simp: unique_on_def)

lemma unique_on_Nil [simp]: "unique_on key []"
  by (simp add: unique_on_def)

lemma in_set_update_where:
  "x \<in> set (update_where P f rows) \<longleftrightarrow> (\<exists>r\<in>set rows. x = (if P r then f r else r))"
  by (auto simp: update_where_def)

lemma map_update_where: "(\<And>r. P r \<Longrightarrow> key (f r) = key r) \<Longrightarrow> map key (update_where P f rows) = map key rows"
  by (auto simp: update_where_def)

lemma unique_on_update_where:
  "(\<And>r. P r \<Longrightarrow> key (f r) = key r) \<Longrightarrow> unique_on key (update_where P f rows) = unique_on key rows"
  by (simp add: unique_on_def map_update_where)

lemma fetch_update_where:
  "(\<And>r. P r \<Longrightarrow> key (f r) = key r) \<Longrightarrow>
   fetch key k (update_where P f rows) =
     map_option (\<lambda>r. if P r then f r else r) (fetch key k rows)"
  by (induction rows) (auto simp: update_where_def)

lemma save_notin: "key r \<notin> key ` set rows \<Longrightarrow> save key r rows = rows"
  by (induction rows) (auto simp: save_def)

lemma filter_save:
  "(\<And>x. x \<in> set rows \<Longrightarrow> key x = key r \<Longrightarrow> P x = P r) \<Longrightarrow> filter P (save key r rows) = save key r (filter P rows)"
  by (induction rows) (auto simp: save_def)

lemma filter_update_where:
  "(\<And>x. x \<in> set rows \<Longrightarrow> Q x \<Longrightarrow> P (f x) = P x) \<Longrightarrow>
   filter P (update_where Q f rows) = update_where Q f (filter P rows)"
  by (induction rows) (auto simp: update_where_def)

lemma update_where_save:
  assumes "unique_on key rows" and "r \<in> set rows" and "P r"
    and "\<And>x. x \<in> set rows \<Longrightarrow> P x \<Longrightarrow> key x = key r" and "key (f r) = key r"
  shows "update_where P f rows = save key (f r) rows"
  unfolding update_where_def save_def
proof (rule map_cong[OF refl])
  fix x
  assume x: "x \<in> set rows"
  show "(if P x then f x else x) = (if key x = key (f r) then f r else x)"
  proof (cases "key x = key r")
    case True
    then have "x = r" by (rule unique_onD[OF assms(1) x assms(2)])
    then show ?thesis using assms(3,5) by simp
  next
    case False
    then have "\<not> P x" using assms(4)[OF x] by blast
    then show ?thesis using False assms(5) by simp
  qed
qed

lemma save_singleton [simp]: "key r = key x \<Longrightarrow> save key r [x] = [r]"
  by (simp add: save_def)

lemma keys_save [simp]: "key ` set (save key r rows) = key ` set rows"
  by (metis list.set_map map_key_save)

lemma set_order_by [simp]: "set (order_by k rows) = set rows"
  by (simp add: order_by_def)

lemma sorted_order_by: "sorted (map k (order_by k rows))"
  by (simp add: order_by_def)

lemma distinct_map_order_by: "distinct (map f rows) \<Longrightarrow> distinct (map f (order_by k rows))"
  unfolding order_by_def by (metis distinct_map distinct_sort set_sort)

lemma hd_order_by_least:
  assumes "order_by k rows = r # rs" and "x \<in> set rows"
  shows "k r \<le> k x"
proof -
  have "sorted (map k (r # rs))" using sorted_order_by[of k rows] assms(1) by simp
  moreover have "x \<in> set (r # rs)" using assms set_order_by[of k rows] by simp
  ultimately show ?thesis by auto
qed

section \<open>The table interface\<close>

text \<open>
  What the handlers rely on from a table with a primary key: a fetched row has the key
  asked for, writing a row back changes that row only, and keys stay unique.  The client
  lemmas are proved once here; every table of the schema interprets the locale.
\<close>

locale keyed_table =
  fixes pk :: "'r \<Rightarrow> 'k"
    and get_row :: "'k \<Rightarrow> 'r list \<Rightarrow> 'r option"
    and put_row :: "'r \<Rightarrow> 'r list \<Rightarrow> 'r list"
    and keys_ok :: "'r list \<Rightarrow> bool"
  assumes get_row_pk: "get_row k t = Some r \<Longrightarrow> pk r = k"
    and get_row_in: "get_row k t = Some r \<Longrightarrow> r \<in> set t"
    and get_row_hit: "keys_ok t \<Longrightarrow> r \<in> set t \<Longrightarrow> get_row (pk r) t = Some r"
    and get_put_same: "get_row (pk r) t \<noteq> None \<Longrightarrow> get_row (pk r) (put_row r t) = Some r"
    and get_put_other: "k \<noteq> pk r \<Longrightarrow> get_row k (put_row r t) = get_row k t"
    and keys_put: "keys_ok (put_row r t) = keys_ok t"
    and set_put: "x \<in> set (put_row r t) \<Longrightarrow> x = r \<or> (x \<in> set t \<and> pk x \<noteq> pk r)"
begin

lemma get_row_unique: "keys_ok t \<Longrightarrow> r \<in> set t \<Longrightarrow> s \<in> set t \<Longrightarrow> pk r = pk s \<Longrightarrow> r = s"
  using get_row_hit by (metis option.inject)

lemma put_row_all:
  assumes "\<And>x. x \<in> set t \<Longrightarrow> P x" and "P r"
  shows "\<forall>x\<in>set (put_row r t). P x"
  using assms set_put by blast

lemma put_loaded_row:
  assumes "get_row k t = Some r" and "pk r' = pk r"
  shows "get_row k (put_row r' t) = Some r'"
  using assms get_put_same get_row_pk by fastforce

lemma put_row_twice:
  assumes "pk r' = pk r" and "get_row (pk r) t \<noteq> None"
  shows "get_row k (put_row r' (put_row r t)) = get_row k (put_row r' t)"
  using assms get_put_other get_put_same by (metis option.distinct(1))

end

lemma keyed_table_fetch_save: "keyed_table key (fetch key) (save key) (unique_on key)"
  by unfold_locales
    (auto simp: in_set_save fetch_save dest: fetch_SomeD intro: fetch_unique split: if_splits)

end
