(* ===== verification/Text_Utils.thy ===== *)
theory Text_Utils
  imports Prelude
begin

text \<open>
  The string normalisers of \<open>app/utils.py\<close>: trimming, the choice lists, the capability
  grammar and duplicate detection.  Characters are Latin-1 code points, on which
  \<open>str.strip\<close> and \<open>str.lower\<close> are written out.
\<close>

section \<open>Python string primitives\<close>

definition py_space :: "char \<Rightarrow> bool" where
  "py_space c = (let n = (of_char c :: nat) in
     (9 \<le> n \<and> n \<le> 13) \<or> (28 \<le> n \<and> n \<le> 32) \<or> n = 133 \<or> n = 160)"

definition lstrip :: "string \<Rightarrow> string" where
  "lstrip s = dropWhile py_space s"

definition strip :: "string \<Rightarrow> string" where
  "strip s = rev (lstrip (rev (lstrip s)))"

definition lower_char :: "char \<Rightarrow> char" where
  "lower_char c = (let n = (of_char c :: nat) in
     if (65 \<le> n \<and> n \<le> 90) \<or> (192 \<le> n \<and> n \<le> 222 \<and> n \<noteq> 215) then char_of (n + 32) else c)"

definition lower :: "string \<Rightarrow> string" where
  "lower s = map lower_char s"

text \<open>
  \<open>str.casefold\<close>: lower case with the sharp s spelled out.  The micro sign folds to the Greek letter, which
  no Latin-1 text holds, so the sign itself stands for it.
\<close>

definition casefold :: "string \<Rightarrow> string" where
  "casefold s = concat (map (\<lambda>c. if (of_char c :: nat) = 223 then ''ss'' else [lower_char c]) s)"

fun join :: "string \<Rightarrow> string list \<Rightarrow> string" where
  "join sep [] = []"
| "join sep [x] = x"
| "join sep (x # xs) = x @ sep @ join sep xs"

definition startswith :: "string \<Rightarrow> string \<Rightarrow> bool" where
  "startswith s p \<longleftrightarrow> take (length p) s = p"

text \<open>\<open>re.split\<close> on single separator characters.\<close>

fun split_on :: "(char \<Rightarrow> bool) \<Rightarrow> string \<Rightarrow> string list" where
  "split_on p [] = [[]]"
| "split_on p (c # cs) =
     (if p c then [] # split_on p cs
      else (case split_on p cs of [] \<Rightarrow> [[c]] | w # ws \<Rightarrow> (c # w) # ws))"

section \<open>Generated identifiers\<close>

text \<open>\<open>uuid4().hex\<close> is the argument \<open>u\<close>: every handler receives the values it draws.\<close>

definition generate_prefixed_id :: "string \<Rightarrow> string \<Rightarrow> string" where
  "generate_prefixed_id prefix u = prefix @ ''_'' @ u"

section \<open>Normalisers\<close>

definition trim_required :: "string \<Rightarrow> string \<Rightarrow> string result" where
  "trim_required value field =
     (let trimmed = strip value in
      if trimmed = [] then Inl (HTTPException 422 (field @ '' must not be empty''))
      else Inr trimmed)"

definition normalize_required_string :: "string \<Rightarrow> string \<Rightarrow> string result" where
  "normalize_required_string value field = trim_required value field"

definition normalize_optional_string :: "string option \<Rightarrow> string \<Rightarrow> string option result" where
  "normalize_optional_string value field =
     (case value of None \<Rightarrow> Inr None | Some v \<Rightarrow> andThen (trim_required v field) (\<lambda>t. Inr (Some t)))"

definition normalize_agent_fingerprint :: "string \<Rightarrow> string result" where
  "normalize_agent_fingerprint value =
     andThen (trim_required value ''agent_fingerprint'') (\<lambda>t. Inr (lower t))"

definition normalize_choice :: "string \<Rightarrow> string \<Rightarrow> string list \<Rightarrow> string result" where
  "normalize_choice value field allowed =
     andThen (trim_required value field) (\<lambda>trimmed.
       if trimmed \<notin> set allowed
       then Inl (HTTPException 422 (field @ '' must be one of: '' @ join '', '' (sort allowed)))
       else Inr trimmed)"

definition endpoint_statuses :: "string list" where
  "endpoint_statuses = [''pending'', ''active'', ''stale'']"

definition endpoint_platforms :: "string list" where
  "endpoint_platforms = [''windows'', ''linux'', ''macos'']"

definition connectivity_statuses :: "string list" where
  "connectivity_statuses = [''online'', ''degraded'']"

definition agent_capabilities :: "string list" where
  "agent_capabilities = [''enroll'', ''heartbeat'', ''collect_posture_snapshot'', ''inspect_control'',
     ''apply_control'', ''rollback_control'', ''collect_security_context'',
     ''collect_remediation_evidence'', ''request_elevated_troubleshooting'']"

definition posture_statuses :: "string list" where
  "posture_statuses = [''pass'', ''fail'', ''warn'', ''error'', ''not_applicable'']"

definition approval_actions :: "string list" where
  "approval_actions = [''collect_security_context'', ''collect_remediation_evidence'',
     ''inspect_control'', ''apply_control'', ''rollback_control'', ''request_elevated_troubleshooting'']"

definition approval_request_kinds :: "string list" where
  "approval_request_kinds = [''hardening_change'', ''elevated_troubleshooting'']"

definition approval_request_statuses :: "string list" where
  "approval_request_statuses = [''pending'', ''approved'', ''denied'', ''expired'', ''revoked'']"

definition approval_decisions :: "string list" where
  "approval_decisions = [''approve'', ''deny'', ''revoke'']"

definition approval_risks :: "string list" where
  "approval_risks = [''low'', ''medium'', ''high'', ''critical'']"

definition troubleshooting_scopes :: "string list" where
  "troubleshooting_scopes = [''service_status'', ''security_logs'', ''firewall_state'',
     ''identity_state'', ''process_inventory'', ''network_bindings'']"

definition normalize_platform :: "string \<Rightarrow> string result" where
  "normalize_platform v = normalize_choice v ''platform'' endpoint_platforms"

definition normalize_connectivity_status :: "string \<Rightarrow> string result" where
  "normalize_connectivity_status v = normalize_choice v ''connectivity_status'' connectivity_statuses"

definition normalize_endpoint_status :: "string \<Rightarrow> string result" where
  "normalize_endpoint_status v = normalize_choice v ''status'' endpoint_statuses"

definition normalize_posture_status :: "string \<Rightarrow> string result" where
  "normalize_posture_status v = normalize_choice v ''status'' posture_statuses"

definition normalize_approval_action :: "string \<Rightarrow> string result" where
  "normalize_approval_action v = normalize_choice v ''allowed_action'' approval_actions"

definition normalize_approval_request_kind :: "string \<Rightarrow> string result" where
  "normalize_approval_request_kind v = normalize_choice v ''request_kind'' approval_request_kinds"

definition normalize_approval_request_status :: "string \<Rightarrow> string result" where
  "normalize_approval_request_status v = normalize_choice v ''status'' approval_request_statuses"

definition normalize_approval_decision :: "string \<Rightarrow> string result" where
  "normalize_approval_decision v = normalize_choice v ''decision'' approval_decisions"

definition normalize_approval_risk :: "string \<Rightarrow> string result" where
  "normalize_approval_risk v = normalize_choice v ''risk'' approval_risks"

definition normalize_troubleshooting_scope :: "string \<Rightarrow> string result" where
  "normalize_troubleshooting_scope v = normalize_choice v ''troubleshooting_scope'' troubleshooting_scopes"

definition normalize_endpoint_id :: "string \<Rightarrow> string result" where
  "normalize_endpoint_id v = trim_required v ''endpoint_id''"

definition normalize_control_key :: "string \<Rightarrow> (string \<times> string) result" where
  "normalize_control_key v = andThen (trim_required v ''control_key'') (\<lambda>t. Inr (t, lower t))"

definition normalize_list_strings :: "string list \<Rightarrow> string \<Rightarrow> string list result" where
  "normalize_list_strings values field = traverse (\<lambda>v. trim_required v field) values"

text \<open>
  \<open>CONTROL_ACTION_CAPABILITY_PATTERN.fullmatch\<close>: one of two verbs, a colon, and at least two
  non-empty runs of \<open>[a-z0-9]\<close> separated by single dots or dashes.
\<close>

definition slug_char :: "char \<Rightarrow> bool" where
  "slug_char c = (let n = (of_char c :: nat) in (97 \<le> n \<and> n \<le> 122) \<or> (48 \<le> n \<and> n \<le> 57))"

definition control_id_shape :: "string \<Rightarrow> bool" where
  "control_id_shape s =
     (let parts = split_on (\<lambda>c. c = CHR ''.'' \<or> c = CHR ''-'') s
      in 2 \<le> length parts \<and> list_all (\<lambda>w. w \<noteq> [] \<and> list_all slug_char w) parts)"

definition control_action_capability :: "string \<Rightarrow> bool" where
  "control_action_capability s \<longleftrightarrow>
     (startswith s ''apply_control:'' \<and> control_id_shape (drop 14 s)) \<or>
     (startswith s ''rollback_control:'' \<and> control_id_shape (drop 17 s))"

definition normalize_agent_capability :: "string \<Rightarrow> string result" where
  "normalize_agent_capability value =
     andThen (trim_required value ''declared_capability'') (\<lambda>trimmed.
       if trimmed \<in> set agent_capabilities \<or> control_action_capability trimmed then Inr trimmed
       else Inl (HTTPException 422
         (''declared_capability must be a known capability or a typed '' @
          ''apply_control:<control-id>/rollback_control:<control-id> capability; '' @
          ''known capabilities: '' @ join '', '' (sort agent_capabilities))))"

text \<open>\<open>has_duplicates\<close> walks the list with the set of keys seen so far.\<close>

fun dup_scan :: "('a \<Rightarrow> 'k) \<Rightarrow> 'k set \<Rightarrow> 'a list \<Rightarrow> bool" where
  "dup_scan key seen [] = False"
| "dup_scan key seen (v # vs) =
     (if key v \<in> seen then True else dup_scan key (insert (key v) seen) vs)"

definition has_duplicates :: "'a list \<Rightarrow> bool" where
  "has_duplicates values = dup_scan (\<lambda>v. v) {} values"

definition has_duplicates_by :: "('a \<Rightarrow> 'k) \<Rightarrow> 'a list \<Rightarrow> bool" where
  "has_duplicates_by key values = dup_scan key {} values"

section \<open>Facts\<close>

lemma dup_scan_iff: "dup_scan key seen vs \<longleftrightarrow> \<not> distinct (map key vs) \<or> key ` set vs \<inter> seen \<noteq> {}"
  by (induction vs arbitrary: seen) auto

lemma has_duplicates_iff [simp]: "has_duplicates vs \<longleftrightarrow> \<not> distinct vs"
  by (simp add: has_duplicates_def dup_scan_iff)

lemma has_duplicates_by_iff [simp]: "has_duplicates_by key vs \<longleftrightarrow> \<not> distinct (map key vs)"
  by (simp add: has_duplicates_by_def dup_scan_iff)

lemma dropWhile_id: "s = [] \<or> \<not> P (hd s) \<Longrightarrow> dropWhile P s = s"
  by (cases s) auto

lemma hd_dropWhile_not: "dropWhile P s \<noteq> [] \<Longrightarrow> \<not> P (hd (dropWhile P s))"
  by (induction s) auto

lemma dropWhile_suffix: "\<exists>p. s = p @ dropWhile P s"
  by (metis takeWhile_dropWhile_id)

lemma strip_ends:
  assumes "strip s \<noteq> []"
  shows "\<not> py_space (hd (strip s))" "\<not> py_space (last (strip s))"
proof -
  define l where "l = lstrip s"
  have st: "strip s = rev (dropWhile py_space (rev l))" by (simp add: strip_def l_def lstrip_def)
  obtain p where p: "rev l = p @ dropWhile py_space (rev l)" using dropWhile_suffix by blast
  then have l: "l = strip s @ rev p" unfolding st by (metis rev_append rev_rev_ident)
  have ne: "l \<noteq> []" using assms l by auto
  then have "\<not> py_space (hd l)" unfolding l_def lstrip_def by (rule hd_dropWhile_not)
  then show "\<not> py_space (hd (strip s))" using assms l by (metis hd_append2)
  have "dropWhile py_space (rev l) \<noteq> []" using assms st by auto
  then have "\<not> py_space (hd (dropWhile py_space (rev l)))" by (rule hd_dropWhile_not)
  then show "\<not> py_space (last (strip s))" unfolding st by (simp add: last_rev)
qed

lemma strip_fixed: "s = [] \<or> \<not> py_space (hd s) \<and> \<not> py_space (last s) \<Longrightarrow> strip s = s"
proof (cases "s = []")
  case False
  assume "s = [] \<or> \<not> py_space (hd s) \<and> \<not> py_space (last s)"
  with False have "lstrip s = s" "lstrip (rev s) = rev s"
    by (auto simp: lstrip_def hd_rev intro: dropWhile_id)
  then show ?thesis by (simp add: strip_def)
qed (simp add: strip_def lstrip_def)

lemma strip_idem [simp]: "strip (strip s) = strip s"
  using strip_ends strip_fixed by blast

lemma trim_required_eq_Inr [result_simps]:
  "trim_required v f = Inr t \<longleftrightarrow> t = strip v \<and> t \<noteq> []"
  by (auto simp: trim_required_def Let_def)

lemma trim_required_idem: "trim_required v f = Inr t \<Longrightarrow> trim_required t g = Inr t"
  by (auto simp: trim_required_def Let_def split: if_splits)

lemma normalize_choice_eq_Inr [result_simps]:
  "normalize_choice v f allowed = Inr t \<longleftrightarrow> t = strip v \<and> t \<noteq> [] \<and> t \<in> set allowed"
  by (auto simp: normalize_choice_def trim_required_def Let_def)

lemma normalize_choice_member:
  assumes "c \<in> set allowed" "c \<noteq> []" "\<not> py_space (hd c)" "\<not> py_space (last c)"
  shows "normalize_choice c f allowed = Inr c"
  using assms strip_fixed[of c] by (simp add: normalize_choice_def trim_required_def Let_def)

end
