(* ===== verification/Schema.thy ===== *)
theory Schema
  imports Text_Utils
begin

text \<open>
  The relational model of \<open>app/models.py\<close>: the enumerations of \<open>app/schemas/contracts.py\<close>, one
  record per table, and inserts that check the table's primary key, unique, foreign-key and check
  constraints and raise \<open>IntegrityError\<close>.  Check constraints that only list the members of an
  enumeration hold by typing.  JSON columns hold the value they encode.  Timestamps are the texts
  of \<open>Clock\<close>.  Lengths of \<open>String(n)\<close> columns are not modelled (SQLite ignores them).
\<close>

section \<open>Enumerations\<close>

datatype platform = Windows | Linux | MacOS

datatype endpoint_status = EpPending | EpActive | EpStale

datatype connectivity = Online | Degraded

datatype credential_mode = LegacyShared | DeviceMode

datatype hierarchy_state = HActive | HArchived | HQuarantine

datatype approval_policy = PolicyPending | PolicyApproved

datatype credential_status = CredActive | CredReplaced | CredRevoked

datatype approval_action = CollectSecurityContext | CollectRemediationEvidence | InspectControl
  | ApplyControl | RollbackControl | RequestElevatedTroubleshooting

datatype ts_scope = ServiceStatus | SecurityLogs | FirewallState | IdentityState
  | ProcessInventory | NetworkBindings

datatype request_kind = HardeningChange | ElevatedTroubleshooting

datatype risk = Low | Medium | High | Critical

datatype request_status = ReqPending | ReqApproved | ReqDenied | ReqExpired | ReqRevoked

datatype decision = Approve | Deny | Revoke

datatype grant_status = GrantApproved | GrantExpired | GrantRevoked

datatype action_status = Queued | Leased | Succeeded | Failed | Cancelled

datatype scope_state = ScopeActive | ScopeQuarantine

datatype scope_type = GlobalScope | ClientScope | LocationScope

datatype event_type = EvRequested | EvApproved | EvDenied | EvRevoked | EvExpired

datatype user_status = UserPending | UserActive | UserDisabled

datatype visibility = Private | Shared

datatype filter_match = MatchAll | MatchAny

datatype filter_field = FieldEndpointId | FieldHostname | FieldPlatform | FieldStatus | FieldConnectivity
  | FieldAgentVersion | FieldClientId | FieldLocationId | FieldTag

datatype filter_operator = OpEq | OpNeq | OpContains | OpStartsWith | OpIn

datatype filter_value = One string | Many "string list"

datatype posture_status = PosturePass | PostureFail | PostureWarn | PostureError | PostureNotApplicable

datatype installer_channel = Stable | Preview

datatype policy_mode = Observe | SafeAuto | ApprovalRequired

datatype runtime_kind = GoAgent | LegacyReporter

datatype audit_outcome = OutcomeSuccess | OutcomeDenied | OutcomeFailure

fun platform_value :: "platform \<Rightarrow> string" where
  "platform_value Windows = ''windows''"
| "platform_value Linux = ''linux''"
| "platform_value MacOS = ''macos''"

fun approval_action_value :: "approval_action \<Rightarrow> string" where
  "approval_action_value CollectSecurityContext = ''collect_security_context''"
| "approval_action_value CollectRemediationEvidence = ''collect_remediation_evidence''"
| "approval_action_value InspectControl = ''inspect_control''"
| "approval_action_value ApplyControl = ''apply_control''"
| "approval_action_value RollbackControl = ''rollback_control''"
| "approval_action_value RequestElevatedTroubleshooting = ''request_elevated_troubleshooting''"

fun ts_scope_value :: "ts_scope \<Rightarrow> string" where
  "ts_scope_value ServiceStatus = ''service_status''"
| "ts_scope_value SecurityLogs = ''security_logs''"
| "ts_scope_value FirewallState = ''firewall_state''"
| "ts_scope_value IdentityState = ''identity_state''"
| "ts_scope_value ProcessInventory = ''process_inventory''"
| "ts_scope_value NetworkBindings = ''network_bindings''"

fun request_kind_value :: "request_kind \<Rightarrow> string" where
  "request_kind_value HardeningChange = ''hardening_change''"
| "request_kind_value ElevatedTroubleshooting = ''elevated_troubleshooting''"

fun risk_value :: "risk \<Rightarrow> string" where
  "risk_value Low = ''low''"
| "risk_value Medium = ''medium''"
| "risk_value High = ''high''"
| "risk_value Critical = ''critical''"

fun decision_value :: "decision \<Rightarrow> string" where
  "decision_value Approve = ''approve''"
| "decision_value Deny = ''deny''"
| "decision_value Revoke = ''revoke''"

fun action_status_value :: "action_status \<Rightarrow> string" where
  "action_status_value Queued = ''queued''"
| "action_status_value Leased = ''leased''"
| "action_status_value Succeeded = ''succeeded''"
| "action_status_value Failed = ''failed''"
| "action_status_value Cancelled = ''cancelled''"

fun approval_policy_value :: "approval_policy \<Rightarrow> string" where
  "approval_policy_value PolicyPending = ''pending''"
| "approval_policy_value PolicyApproved = ''approved''"

text \<open>
  The normalisers of \<open>Text_Utils\<close> never change or reject the value of an enumeration member,
  which is why the typed handlers keep the member itself.
\<close>

lemma normalize_platform_member: "normalize_platform (platform_value p) = Inr (platform_value p)"
  unfolding normalize_platform_def
  by (cases p; rule normalize_choice_member) (simp_all add: endpoint_platforms_def py_space_def)

lemma normalize_approval_action_member:
  "normalize_approval_action (approval_action_value a) = Inr (approval_action_value a)"
  unfolding normalize_approval_action_def
  by (cases a; rule normalize_choice_member) (simp_all add: approval_actions_def py_space_def)

lemma normalize_troubleshooting_scope_member:
  "normalize_troubleshooting_scope (ts_scope_value s) = Inr (ts_scope_value s)"
  unfolding normalize_troubleshooting_scope_def
  by (cases s; rule normalize_choice_member) (simp_all add: troubleshooting_scopes_def py_space_def)

lemma normalize_approval_request_kind_member:
  "normalize_approval_request_kind (request_kind_value k) = Inr (request_kind_value k)"
  unfolding normalize_approval_request_kind_def
  by (cases k; rule normalize_choice_member) (simp_all add: approval_request_kinds_def py_space_def)

lemma normalize_approval_risk_member: "normalize_approval_risk (risk_value r) = Inr (risk_value r)"
  unfolding normalize_approval_risk_def
  by (cases r; rule normalize_choice_member) (simp_all add: approval_risks_def py_space_def)

lemma normalize_approval_decision_member:
  "normalize_approval_decision (decision_value d) = Inr (decision_value d)"
  unfolding normalize_approval_decision_def
  by (cases d; rule normalize_choice_member) (simp_all add: approval_decisions_def py_space_def)

section \<open>JSON values\<close>

datatype json = JNull | JBool bool | JInt int | JStr string | JList "json list"
  | JObj "(string \<times> json) list"

section \<open>Rows\<close>

record client_row =
  cl_id :: string
  cl_key :: "string option"
  cl_name :: string
  cl_name_normalized :: string
  cl_state :: hierarchy_state
  cl_is_system :: bool
  cl_created_at :: string
  cl_updated_at :: string

record location_row =
  lo_id :: string
  lo_client :: string
  lo_key :: "string option"
  lo_name :: string
  lo_name_normalized :: string
  lo_state :: hierarchy_state
  lo_is_system :: bool
  lo_created_at :: string
  lo_updated_at :: string

record user_row =
  us_id :: string
  us_status :: user_status
  us_display_name :: string
  us_email :: "string option"
  us_last_login_at :: "string option"
  us_disabled_at :: "string option"
  us_created_at :: string
  us_updated_at :: string

record role_row =
  ro_id :: string
  ro_key :: string
  ro_name :: string
  ro_is_system :: bool
  ro_created_at :: string
  ro_updated_at :: string

record role_permission_row =
  rp_role :: string
  rp_permission :: string

record binding_row =
  bi_id :: string
  bi_user :: string
  bi_role :: string
  bi_scope :: scope_type
  bi_client :: "string option"
  bi_location :: "string option"
  bi_created_by :: string
  bi_created_at :: string
  bi_revoked_at :: "string option"

record audit_row =
  au_id :: string
  au_type :: string
  au_outcome :: audit_outcome
  au_actor :: string
  au_user :: "string option"
  au_method :: string
  au_client :: "string option"
  au_location :: "string option"
  au_endpoint :: "string option"
  au_target_type :: "string option"
  au_target_id :: "string option"
  au_request_id :: "string option"
  au_metadata :: json
  au_created_at :: string

record identity_row =
  oi_id :: string
  oi_user :: string
  oi_issuer :: string
  oi_subject :: string
  oi_display_name :: string
  oi_email :: "string option"
  oi_created_at :: string
  oi_updated_at :: string
  oi_last_seen_at :: "string option"

record session_row =
  bs_id :: string
  bs_user :: string
  bs_identity :: string
  bs_token_hash :: string
  bs_hash_key :: string
  bs_authenticated_at :: string
  bs_last_seen_at :: string
  bs_idle_expires_at :: string
  bs_absolute_expires_at :: string
  bs_revoked_at :: "string option"
  bs_created_at :: string
  bs_updated_at :: string

record profile_row =
  pr_id :: string
  pr_name :: string
  pr_name_normalized :: string
  pr_platform :: platform
  pr_channel :: installer_channel
  pr_control_plane_url :: string
  pr_policy_mode :: policy_mode
  pr_runtime_kind :: runtime_kind
  pr_client :: string
  pr_location :: string
  pr_tenant :: "string option"
  pr_site :: "string option"
  pr_created_at :: string
  pr_updated_at :: string

record token_row =
  tk_id :: string
  tk_secret_hash :: string
  tk_hash_key :: string
  tk_client :: string
  tk_location :: string
  tk_profile :: "string option"
  tk_platform :: "platform option"
  tk_policy :: approval_policy
  tk_expires_at :: string
  tk_max_uses :: int
  tk_use_count :: int
  tk_revoked_at :: "string option"
  tk_created_by :: string
  tk_created_at :: string
  tk_updated_at :: string

text \<open>The values of \<open>execution_hooks_json\<close> and \<open>capability_manifest_json\<close>.\<close>

record execution_hooks =
  captures_rollback_artifacts :: bool
  reports_execution_results :: bool
  supports_dry_run :: bool

datatype capability_kind = KindCore | KindCollector | KindAction

datatype privilege_context = Elevated | UserPrivilege | UnknownPrivilege

datatype service_context = SystemService | InteractiveService | UnknownService

datatype health_state = Healthy | DegradedHealth

record capability_entry =
  cap_id :: string
  cap_kind :: capability_kind
  cap_versions :: "string list"

record capability_manifest =
  cm_schema_version :: string
  cm_capabilities :: "capability_entry list"
  cm_privilege :: privilege_context
  cm_service_context :: service_context
  cm_evidence_upload :: bool
  cm_terminal :: bool
  cm_max_concurrent_jobs :: int
  cm_max_output_bytes :: int
  cm_max_upload_bytes :: int
  cm_command_timeout_seconds :: int
  cm_health :: health_state
  cm_reasons :: "string list"

record endpoint_row =
  ep_id :: string
  ep_fingerprint :: string
  ep_hostname :: string
  ep_platform :: platform
  ep_platform_version :: "string option"
  ep_platform_profile :: "string option"
  ep_agent_version :: string
  ep_protocol :: string
  ep_architecture :: "string option"
  ep_installation :: "string option"
  ep_mode :: credential_mode
  ep_token :: "string option"
  ep_client :: string
  ep_location :: string
  ep_tenant :: "string option"
  ep_site :: "string option"
  ep_status :: endpoint_status
  ep_connectivity :: "connectivity option"
  ep_capabilities :: "string list option"
  ep_manifest :: "capability_manifest option"
  ep_hooks :: "execution_hooks option"
  ep_last_seen_at :: string
  ep_last_heartbeat_at :: "string option"
  ep_created_at :: string
  ep_updated_at :: string

record credential_row =
  dc_id :: string
  dc_endpoint :: string
  dc_secret_hash :: string
  dc_hash_key :: string
  dc_status :: credential_status
  dc_replaced_by :: "string option"
  dc_last_used_at :: "string option"
  dc_expires_at :: "string option"
  dc_created_at :: string
  dc_updated_at :: string
  dc_replaced_at :: "string option"
  dc_revoked_at :: "string option"

record redemption_row =
  rd_id :: string
  rd_token :: string
  rd_installation :: string
  rd_endpoint :: string
  rd_credential :: string
  rd_request_hash :: string
  rd_created_at :: string

record request_row =
  rq_id :: string
  rq_scope_state :: scope_state
  rq_client :: "string option"
  rq_location :: "string option"
  rq_endpoint_ids :: "string list"
  rq_kind :: request_kind
  rq_actions :: "approval_action list"
  rq_control_ids :: "string list"
  rq_scopes :: "ts_scope list"
  rq_ttl :: int
  rq_requested_by :: string
  rq_reason :: string
  rq_risk :: risk
  rq_status :: request_status
  rq_decision_by :: "string option"
  rq_decision_comment :: "string option"
  rq_decision_at :: "string option"
  rq_grant :: "string option"
  rq_created_at :: string
  rq_updated_at :: string

record event_row =
  ev_id :: string
  ev_request :: string
  ev_type :: event_type
  ev_actor :: string
  ev_comment :: string
  ev_created_at :: string

record grant_row =
  gr_id :: string
  gr_scope_state :: scope_state
  gr_client :: "string option"
  gr_location :: "string option"
  gr_request :: "string option"
  gr_endpoint_ids :: "string list"
  gr_actions :: "approval_action list"
  gr_control_ids :: "string list"
  gr_scopes :: "ts_scope list"
  gr_requested_by :: string
  gr_approved_by :: string
  gr_reason :: string
  gr_expires_at :: string
  gr_status :: grant_status
  gr_created_at :: string
  gr_updated_at :: string

record action_row =
  ac_id :: string
  ac_endpoint :: string
  ac_grant :: string
  ac_action :: approval_action
  ac_control :: "string option"
  ac_scope :: "ts_scope option"
  ac_idempotency :: string
  ac_requested_by :: string
  ac_reason :: string
  ac_status :: action_status
  ac_lease_hash :: "string option"
  ac_lease_expires_at :: "string option"
  ac_leased_at :: "string option"
  ac_attempts :: int
  ac_summary :: "string option"
  ac_created_at :: string
  ac_updated_at :: string
  ac_completed_at :: "string option"

record snapshot_row =
  sn_id :: string
  sn_endpoint :: string
  sn_observed_at :: string
  sn_platform_profile :: string
  sn_created_at :: string

record posture_row =
  po_id :: string
  po_snapshot :: string
  po_endpoint :: string
  po_control_key :: string
  po_control_key_normalized :: string
  po_status :: posture_status
  po_current_value :: "string option"
  po_recommended_value :: "string option"
  po_severity :: "string option"
  po_evidence_summary :: string
  po_reboot_required :: bool
  po_created_at :: string

text \<open>Tags, saved views with their versions, and dynamic groups; \<open>filter_json\<close> is the filter it encodes.\<close>

record filter_rule =
  fr_field :: filter_field
  fr_operator :: filter_operator
  fr_value :: filter_value

record endpoint_filter =
  ef_match :: filter_match
  ef_rules :: "filter_rule list"

record tag_row =
  tg_id :: string
  tg_name :: string
  tg_name_normalized :: string
  tg_description :: "string option"
  tg_scope :: scope_type
  tg_scope_key :: string
  tg_client :: "string option"
  tg_location :: "string option"
  tg_created_by :: string
  tg_created_at :: string
  tg_updated_at :: string

record assignment_row =
  ta_endpoint :: string
  ta_tag :: string
  ta_client :: string
  ta_location :: string
  ta_scope_key :: string
  ta_assigned_by :: string
  ta_assigned_at :: string

record view_row =
  vw_id :: string
  vw_name :: string
  vw_name_normalized :: string
  vw_description :: "string option"
  vw_visibility :: visibility
  vw_scope :: scope_type
  vw_scope_key :: string
  vw_client :: "string option"
  vw_location :: "string option"
  vw_owner_user :: "string option"
  vw_owner_actor :: string
  vw_current_version :: int
  vw_created_at :: string
  vw_updated_at :: string

record view_version_row =
  vv_view :: string
  vv_version :: int
  vv_filter :: endpoint_filter
  vv_hash :: string
  vv_created_by :: string
  vv_created_at :: string

record group_row =
  dg_id :: string
  dg_name :: string
  dg_name_normalized :: string
  dg_description :: "string option"
  dg_scope :: scope_type
  dg_scope_key :: string
  dg_client :: "string option"
  dg_location :: "string option"
  dg_view :: string
  dg_owner_user :: "string option"
  dg_owner_actor :: string
  dg_created_at :: string
  dg_updated_at :: string

record login_row =
  ol_id :: string
  ol_state_hash :: string
  ol_binding_hash :: string
  ol_hash_key :: string
  ol_nonce :: string
  ol_verifier :: string
  ol_issuer :: string
  ol_redirect_uri :: string
  ol_return_to :: string
  ol_expires_at :: string
  ol_consumed_at :: "string option"
  ol_created_at :: string

section \<open>The database\<close>

record db =
  db_clients :: "client_row list"
  db_locations :: "location_row list"
  db_users :: "user_row list"
  db_identities :: "identity_row list"
  db_sessions :: "session_row list"
  db_roles :: "role_row list"
  db_role_permissions :: "role_permission_row list"
  db_bindings :: "binding_row list"
  db_audits :: "audit_row list"
  db_profiles :: "profile_row list"
  db_tokens :: "token_row list"
  db_endpoints :: "endpoint_row list"
  db_credentials :: "credential_row list"
  db_redemptions :: "redemption_row list"
  db_requests :: "request_row list"
  db_events :: "event_row list"
  db_grants :: "grant_row list"
  db_actions :: "action_row list"
  db_snapshots :: "snapshot_row list"
  db_postures :: "posture_row list"
  db_logins :: "login_row list"
  db_tags :: "tag_row list"
  db_assignments :: "assignment_row list"
  db_views :: "view_row list"
  db_view_versions :: "view_version_row list"
  db_groups :: "group_row list"

definition empty_db :: db where
  "empty_db = \<lparr>db_clients = [], db_locations = [], db_users = [], db_identities = [], db_sessions = [],
     db_roles = [], db_role_permissions = [], db_bindings = [], db_audits = [], db_profiles = [],
     db_tokens = [], db_endpoints = [], db_credentials = [], db_redemptions = [], db_requests = [],
     db_events = [], db_grants = [], db_actions = [], db_snapshots = [], db_postures = [],
     db_logins = [], db_tags = [], db_assignments = [], db_views = [], db_view_versions = [], db_groups = []\<rparr>"

text \<open>A foreign key on a nullable column, and the composite one to a location of a client.\<close>

definition client_exists :: "db \<Rightarrow> string option \<Rightarrow> bool" where
  "client_exists db c = (case c of None \<Rightarrow> True | Some k \<Rightarrow> fetch cl_id k (db_clients db) \<noteq> None)"

definition location_exists :: "db \<Rightarrow> string option \<Rightarrow> string option \<Rightarrow> bool" where
  "location_exists db c l = (case (c, l) of (Some k, Some m) \<Rightarrow>
     List.find (\<lambda>x. lo_id x = m \<and> lo_client x = k) (db_locations db) \<noteq> None | _ \<Rightarrow> True)"

definition scope_state_ok :: "scope_state \<Rightarrow> string option \<Rightarrow> string option \<Rightarrow> bool" where
  "scope_state_ok s c l = (case s of ScopeActive \<Rightarrow> c \<noteq> None | ScopeQuarantine \<Rightarrow> c = None \<and> l = None)"

definition insert_request :: "request_row \<Rightarrow> db \<Rightarrow> db result" where
  "insert_request r db =
     (if fetch rq_id (rq_id r) (db_requests db) = None
         \<and> client_exists db (rq_client r) \<and> location_exists db (rq_client r) (rq_location r)
         \<and> scope_state_ok (rq_scope_state r) (rq_client r) (rq_location r)
      then Inr (db\<lparr>db_requests := db_requests db @ [r]\<rparr>) else Inl IntegrityError)"

definition insert_event :: "event_row \<Rightarrow> db \<Rightarrow> db result" where
  "insert_event e db =
     (if fetch ev_id (ev_id e) (db_events db) = None
         \<and> fetch rq_id (ev_request e) (db_requests db) \<noteq> None
         \<and> fetch (\<lambda>x. (ev_request x, ev_type x)) (ev_request e, ev_type e) (db_events db) = None
      then Inr (db\<lparr>db_events := db_events db @ [e]\<rparr>) else Inl IntegrityError)"

definition insert_grant :: "grant_row \<Rightarrow> db \<Rightarrow> db result" where
  "insert_grant g db =
     (if fetch gr_id (gr_id g) (db_grants db) = None
         \<and> client_exists db (gr_client g) \<and> location_exists db (gr_client g) (gr_location g)
         \<and> scope_state_ok (gr_scope_state g) (gr_client g) (gr_location g)
         \<and> (case gr_request g of None \<Rightarrow> True
            | Some q \<Rightarrow> fetch rq_id q (db_requests db) \<noteq> None \<and> fetch gr_request (Some q) (db_grants db) = None)
      then Inr (db\<lparr>db_grants := db_grants db @ [g]\<rparr>) else Inl IntegrityError)"

definition insert_action :: "action_row \<Rightarrow> db \<Rightarrow> db result" where
  "insert_action a db =
     (if fetch ac_id (ac_id a) (db_actions db) = None
         \<and> fetch ep_id (ac_endpoint a) (db_endpoints db) \<noteq> None
         \<and> fetch gr_id (ac_grant a) (db_grants db) \<noteq> None
         \<and> fetch (\<lambda>x. (ac_endpoint x, ac_idempotency x)) (ac_endpoint a, ac_idempotency a) (db_actions db) = None
      then Inr (db\<lparr>db_actions := db_actions db @ [a]\<rparr>) else Inl IntegrityError)"

definition insert_audit :: "audit_row \<Rightarrow> db \<Rightarrow> db result" where
  "insert_audit a db =
     (if fetch au_id (au_id a) (db_audits db) = None
         \<and> client_exists db (au_client a) \<and> location_exists db (au_client a) (au_location a)
         \<and> (case au_user a of None \<Rightarrow> True | Some u \<Rightarrow> fetch us_id u (db_users db) \<noteq> None)
      then Inr (db\<lparr>db_audits := db_audits db @ [a]\<rparr>) else Inl IntegrityError)"

definition insert_token :: "token_row \<Rightarrow> db \<Rightarrow> db result" where
  "insert_token t db =
     (if fetch tk_id (tk_id t) (db_tokens db) = None
         \<and> location_exists db (Some (tk_client t)) (Some (tk_location t))
         \<and> (case tk_profile t of None \<Rightarrow> True | Some p \<Rightarrow> fetch pr_id p (db_profiles db) \<noteq> None)
         \<and> 0 < tk_max_uses t \<and> 0 \<le> tk_use_count t \<and> tk_use_count t \<le> tk_max_uses t
      then Inr (db\<lparr>db_tokens := db_tokens db @ [t]\<rparr>) else Inl IntegrityError)"

definition insert_endpoint :: "endpoint_row \<Rightarrow> db \<Rightarrow> db result" where
  "insert_endpoint e db =
     (if fetch ep_id (ep_id e) (db_endpoints db) = None
         \<and> fetch ep_fingerprint (ep_fingerprint e) (db_endpoints db) = None
         \<and> (ep_installation e = None \<or> fetch ep_installation (ep_installation e) (db_endpoints db) = None)
         \<and> location_exists db (Some (ep_client e)) (Some (ep_location e))
         \<and> (case ep_token e of None \<Rightarrow> True | Some t \<Rightarrow> fetch tk_id t (db_tokens db) \<noteq> None)
      then Inr (db\<lparr>db_endpoints := db_endpoints db @ [e]\<rparr>) else Inl IntegrityError)"

definition active_credential_of :: "string \<Rightarrow> db \<Rightarrow> credential_row option" where
  "active_credential_of e db = List.find (\<lambda>c. dc_endpoint c = e \<and> dc_status c = CredActive) (db_credentials db)"

definition insert_credential :: "credential_row \<Rightarrow> db \<Rightarrow> db result" where
  "insert_credential c db =
     (if fetch dc_id (dc_id c) (db_credentials db) = None
         \<and> fetch ep_id (dc_endpoint c) (db_endpoints db) \<noteq> None
         \<and> (dc_status c = CredActive \<longrightarrow> active_credential_of (dc_endpoint c) db = None)
      then Inr (db\<lparr>db_credentials := db_credentials db @ [c]\<rparr>) else Inl IntegrityError)"

definition insert_redemption :: "redemption_row \<Rightarrow> db \<Rightarrow> db result" where
  "insert_redemption r db =
     (if fetch rd_id (rd_id r) (db_redemptions db) = None
         \<and> fetch (\<lambda>x. (rd_token x, rd_installation x)) (rd_token r, rd_installation r) (db_redemptions db) = None
         \<and> fetch rd_credential (rd_credential r) (db_redemptions db) = None
         \<and> fetch tk_id (rd_token r) (db_tokens db) \<noteq> None
         \<and> fetch ep_id (rd_endpoint r) (db_endpoints db) \<noteq> None
         \<and> fetch dc_id (rd_credential r) (db_credentials db) \<noteq> None
      then Inr (db\<lparr>db_redemptions := db_redemptions db @ [r]\<rparr>) else Inl IntegrityError)"

definition binding_scope_ok :: "scope_type \<Rightarrow> string option \<Rightarrow> string option \<Rightarrow> bool" where
  "binding_scope_ok s c l = (case s of GlobalScope \<Rightarrow> c = None \<and> l = None | ClientScope \<Rightarrow> c \<noteq> None \<and> l = None
     | LocationScope \<Rightarrow> c \<noteq> None \<and> l \<noteq> None)"

text \<open>The partial unique indexes: one active binding of a role per user and scope.\<close>

definition same_active_binding :: "binding_row \<Rightarrow> binding_row \<Rightarrow> bool" where
  "same_active_binding b x \<longleftrightarrow> bi_revoked_at b = None \<and> bi_revoked_at x = None \<and> bi_user x = bi_user b \<and>
     bi_role x = bi_role b \<and> bi_scope x = bi_scope b \<and> bi_client x = bi_client b \<and> bi_location x = bi_location b"

definition insert_binding :: "binding_row \<Rightarrow> db \<Rightarrow> db result" where
  "insert_binding b db =
     (if fetch bi_id (bi_id b) (db_bindings db) = None
         \<and> fetch us_id (bi_user b) (db_users db) \<noteq> None \<and> fetch ro_id (bi_role b) (db_roles db) \<noteq> None
         \<and> client_exists db (bi_client b) \<and> location_exists db (bi_client b) (bi_location b)
         \<and> binding_scope_ok (bi_scope b) (bi_client b) (bi_location b)
         \<and> List.find (same_active_binding b) (db_bindings db) = None
      then Inr (db\<lparr>db_bindings := db_bindings db @ [b]\<rparr>) else Inl IntegrityError)"

definition insert_user :: "user_row \<Rightarrow> db \<Rightarrow> db result" where
  "insert_user u db =
     (if fetch us_id (us_id u) (db_users db) = None
      then Inr (db\<lparr>db_users := db_users db @ [u]\<rparr>) else Inl IntegrityError)"

definition insert_identity :: "identity_row \<Rightarrow> db \<Rightarrow> db result" where
  "insert_identity i db =
     (if fetch oi_id (oi_id i) (db_identities db) = None
         \<and> fetch us_id (oi_user i) (db_users db) \<noteq> None
         \<and> fetch (\<lambda>x. (oi_issuer x, oi_subject x)) (oi_issuer i, oi_subject i) (db_identities db) = None
      then Inr (db\<lparr>db_identities := db_identities db @ [i]\<rparr>) else Inl IntegrityError)"

definition insert_session :: "session_row \<Rightarrow> db \<Rightarrow> db result" where
  "insert_session s db =
     (if fetch bs_id (bs_id s) (db_sessions db) = None
         \<and> fetch us_id (bs_user s) (db_users db) \<noteq> None \<and> fetch oi_id (bs_identity s) (db_identities db) \<noteq> None
         \<and> fetch bs_token_hash (bs_token_hash s) (db_sessions db) = None
      then Inr (db\<lparr>db_sessions := db_sessions db @ [s]\<rparr>) else Inl IntegrityError)"

definition insert_login :: "login_row \<Rightarrow> db \<Rightarrow> db result" where
  "insert_login t db =
     (if fetch ol_id (ol_id t) (db_logins db) = None
         \<and> fetch ol_state_hash (ol_state_hash t) (db_logins db) = None
         \<and> fetch ol_binding_hash (ol_binding_hash t) (db_logins db) = None
      then Inr (db\<lparr>db_logins := db_logins db @ [t]\<rparr>) else Inl IntegrityError)"

text \<open>The text that names a scope, as the \<open>CHECK\<close> constraints demand it.\<close>

fun scope_key_text :: "scope_type \<Rightarrow> string option \<Rightarrow> string option \<Rightarrow> string option" where
  "scope_key_text GlobalScope None None = Some ''global''"
| "scope_key_text ClientScope (Some c) None = Some (''client:'' @ c)"
| "scope_key_text LocationScope (Some c) (Some l) = Some (''location:'' @ c @ '':'' @ l)"
| "scope_key_text _ _ _ = None"

definition insert_tag :: "tag_row \<Rightarrow> db \<Rightarrow> db result" where
  "insert_tag t db =
     (if fetch tg_id (tg_id t) (db_tags db) = None
         \<and> client_exists db (tg_client t) \<and> location_exists db (tg_client t) (tg_location t)
         \<and> scope_key_text (tg_scope t) (tg_client t) (tg_location t) = Some (tg_scope_key t)
         \<and> fetch (\<lambda>x. (tg_scope_key x, tg_name_normalized x)) (tg_scope_key t, tg_name_normalized t) (db_tags db) = None
      then Inr (db\<lparr>db_tags := db_tags db @ [t]\<rparr>) else Inl IntegrityError)"

definition insert_assignment :: "assignment_row \<Rightarrow> db \<Rightarrow> db result" where
  "insert_assignment a db =
     (if fetch (\<lambda>x. (ta_endpoint x, ta_tag x)) (ta_endpoint a, ta_tag a) (db_assignments db) = None
         \<and> fetch (\<lambda>e. (ep_id e, ep_client e, ep_location e)) (ta_endpoint a, ta_client a, ta_location a) (db_endpoints db) \<noteq> None
         \<and> fetch (\<lambda>t. (tg_id t, tg_scope_key t)) (ta_tag a, ta_scope_key a) (db_tags db) \<noteq> None
         \<and> ta_scope_key a \<in> set [''global'', ''client:'' @ ta_client a, ''location:'' @ ta_client a @ '':'' @ ta_location a]
      then Inr (db\<lparr>db_assignments := db_assignments db @ [a]\<rparr>) else Inl IntegrityError)"

definition insert_view :: "view_row \<Rightarrow> db \<Rightarrow> db result" where
  "insert_view v db =
     (if fetch vw_id (vw_id v) (db_views db) = None
         \<and> client_exists db (vw_client v) \<and> location_exists db (vw_client v) (vw_location v)
         \<and> (case vw_owner_user v of None \<Rightarrow> True | Some u \<Rightarrow> fetch us_id u (db_users db) \<noteq> None)
         \<and> scope_key_text (vw_scope v) (vw_client v) (vw_location v) = Some (vw_scope_key v)
         \<and> 0 < vw_current_version v
         \<and> fetch (\<lambda>x. (vw_scope_key x, vw_name_normalized x)) (vw_scope_key v, vw_name_normalized v) (db_views db) = None
      then Inr (db\<lparr>db_views := db_views db @ [v]\<rparr>) else Inl IntegrityError)"

definition insert_view_version :: "view_version_row \<Rightarrow> db \<Rightarrow> db result" where
  "insert_view_version v db =
     (if fetch (\<lambda>x. (vv_view x, vv_version x)) (vv_view v, vv_version v) (db_view_versions db) = None
         \<and> fetch vw_id (vv_view v) (db_views db) \<noteq> None \<and> 0 < vv_version v
         \<and> fetch (\<lambda>x. (vv_view x, vv_hash x)) (vv_view v, vv_hash v) (db_view_versions db) = None
      then Inr (db\<lparr>db_view_versions := db_view_versions db @ [v]\<rparr>) else Inl IntegrityError)"

definition insert_group :: "group_row \<Rightarrow> db \<Rightarrow> db result" where
  "insert_group g db =
     (if fetch dg_id (dg_id g) (db_groups db) = None
         \<and> client_exists db (dg_client g) \<and> location_exists db (dg_client g) (dg_location g)
         \<and> fetch (\<lambda>v. (vw_id v, vw_scope_key v)) (dg_view g, dg_scope_key g) (db_views db) \<noteq> None
         \<and> (case dg_owner_user g of None \<Rightarrow> True | Some u \<Rightarrow> fetch us_id u (db_users db) \<noteq> None)
         \<and> scope_key_text (dg_scope g) (dg_client g) (dg_location g) = Some (dg_scope_key g)
         \<and> fetch (\<lambda>x. (dg_scope_key x, dg_name_normalized x)) (dg_scope_key g, dg_name_normalized g) (db_groups db) = None
      then Inr (db\<lparr>db_groups := db_groups db @ [g]\<rparr>) else Inl IntegrityError)"

text \<open>Every table with a primary key provides the table interface.\<close>

interpretation requests: keyed_table rq_id "fetch rq_id" "save rq_id" "unique_on rq_id"
  by (rule keyed_table_fetch_save)

interpretation grants: keyed_table gr_id "fetch gr_id" "save gr_id" "unique_on gr_id"
  by (rule keyed_table_fetch_save)

interpretation actions: keyed_table ac_id "fetch ac_id" "save ac_id" "unique_on ac_id"
  by (rule keyed_table_fetch_save)

interpretation endpoints: keyed_table ep_id "fetch ep_id" "save ep_id" "unique_on ep_id"
  by (rule keyed_table_fetch_save)

interpretation tokens: keyed_table tk_id "fetch tk_id" "save tk_id" "unique_on tk_id"
  by (rule keyed_table_fetch_save)

interpretation credentials: keyed_table dc_id "fetch dc_id" "save dc_id" "unique_on dc_id"
  by (rule keyed_table_fetch_save)

text \<open>What a successful insert says, and what it leaves alone.\<close>

lemmas insert_defs = insert_request_def insert_event_def insert_grant_def insert_action_def
  insert_audit_def insert_token_def insert_endpoint_def insert_credential_def insert_redemption_def

lemma insert_request_Inr [result_simps]:
  "insert_request r db = Inr db' \<longleftrightarrow> fetch rq_id (rq_id r) (db_requests db) = None
     \<and> client_exists db (rq_client r) \<and> location_exists db (rq_client r) (rq_location r)
     \<and> scope_state_ok (rq_scope_state r) (rq_client r) (rq_location r)
     \<and> db' = db\<lparr>db_requests := db_requests db @ [r]\<rparr>"
  by (auto simp: insert_request_def)

lemma insert_audit_frame [frame_simps]:
  assumes "insert_audit a db = Inr db'"
  shows "db' = db\<lparr>db_audits := db_audits db @ [a]\<rparr>"
  using assms by (auto simp: insert_audit_def split: if_splits)

end
