(* ===== verification/Token_Codec.thy ===== *)
theory Token_Codec
  imports Text_Utils
begin

text \<open>
  \<open>app/device_identity.py\<close>: enrollment tokens, device credentials and their canonical base64url
  secrets.  Bytes are natural numbers below 256.  \<open>a2b\<close> is CPython's non-strict
  \<open>binascii.a2b_base64\<close>, which skips foreign characters and stops at a complete padding, so that
  the canonical re-encoding check is seen to do its work.  HMAC-SHA256 is the argument
  \<open>hmac_hex\<close> (key and message to hex digest).
\<close>

section \<open>URL-safe base64\<close>

definition b64_char :: "nat \<Rightarrow> char" where
  "b64_char n = (if n < 26 then char_of (65 + n) else if n < 52 then char_of (97 + (n - 26))
     else if n < 62 then char_of (48 + (n - 52)) else if n = 62 then CHR ''-'' else CHR ''_'')"

definition b64_value :: "char \<Rightarrow> nat option" where
  "b64_value c = (let n = (of_char c :: nat) in
     if 65 \<le> n \<and> n \<le> 90 then Some (n - 65) else if 97 \<le> n \<and> n \<le> 122 then Some (n - 97 + 26)
     else if 48 \<le> n \<and> n \<le> 57 then Some (n - 48 + 52)
     else if c = CHR ''-'' \<or> c = CHR ''+'' then Some 62
     else if c = CHR ''_'' \<or> c = CHR ''/'' then Some 63 else None)"

fun urlsafe_b64encode :: "nat list \<Rightarrow> string" where
  "urlsafe_b64encode [] = []"
| "urlsafe_b64encode [a] = [b64_char (a div 4), b64_char (a mod 4 * 16), CHR ''='', CHR ''='']"
| "urlsafe_b64encode [a, b] = [b64_char (a div 4), b64_char (a mod 4 * 16 + b div 16),
     b64_char (b mod 16 * 4), CHR ''='']"
| "urlsafe_b64encode (a # b # c # rest) =
     b64_char (a div 4) # b64_char (a mod 4 * 16 + b div 16) # b64_char (b mod 16 * 4 + c div 64) #
     b64_char (c mod 64) # urlsafe_b64encode rest"

fun a2b :: "nat \<Rightarrow> nat \<Rightarrow> nat \<Rightarrow> string \<Rightarrow> nat list option" where
  "a2b quad left pads [] = (if quad = 0 then Some [] else None)"
| "a2b quad left pads (ch # rest) =
     (if ch = CHR ''='' then
        (if 2 \<le> quad \<and> 4 \<le> quad + (pads + 1) then Some []
         else a2b quad left (if 2 \<le> quad then pads + 1 else pads) rest)
      else case b64_value ch of
        None \<Rightarrow> a2b quad left pads rest
      | Some v \<Rightarrow>
          if quad = 0 then a2b 1 v 0 rest
          else if quad = 1 then map_option (Cons (left * 4 + v div 16)) (a2b 2 (v mod 16) 0 rest)
          else if quad = 2 then map_option (Cons (left * 16 + v div 4)) (a2b 3 (v mod 4) 0 rest)
          else map_option (Cons (left * 64 + v)) (a2b 0 0 0 rest))"

definition is_ascii :: "string \<Rightarrow> bool" where
  "is_ascii s = list_all (\<lambda>c. (of_char c :: nat) < 128) s"

text \<open>\<open>None\<close> stands for \<open>ValueError\<close> (non-ASCII text) and \<open>binascii.Error\<close>.\<close>

definition urlsafe_b64decode :: "string \<Rightarrow> nat list option" where
  "urlsafe_b64decode s = (if is_ascii s then a2b 0 0 0 s else None)"

definition rstrip_char :: "char \<Rightarrow> string \<Rightarrow> string" where
  "rstrip_char c s = rev (dropWhile (\<lambda>x. x = c) (rev s))"

definition b64_padding :: "nat \<Rightarrow> string" where
  "b64_padding n = replicate ((4 - n mod 4) mod 4) (CHR ''='')"

definition is_canonical_secret :: "string \<Rightarrow> bool" where
  "is_canonical_secret value =
     (if \<not> (43 \<le> length value \<and> length value \<le> 128) then False
      else case urlsafe_b64decode (value @ b64_padding (length value)) of
        None \<Rightarrow> False
      | Some raw \<Rightarrow>
          if length raw < 32 then False
          else rstrip_char (CHR ''='') (urlsafe_b64encode raw) = value)"

text \<open>\<open>secrets.token_urlsafe(32)\<close> on the 32 random bytes it draws.\<close>

definition token_urlsafe :: "nat list \<Rightarrow> string" where
  "token_urlsafe raw = rstrip_char (CHR ''='') (urlsafe_b64encode raw)"

section \<open>Token grammars\<close>

definition token_char :: "char \<Rightarrow> bool" where
  "token_char c = (let n = (of_char c :: nat) in (65 \<le> n \<and> n \<le> 90) \<or> (97 \<le> n \<and> n \<le> 122) \<or>
     (48 \<le> n \<and> n \<le> 57) \<or> n = 95 \<or> n = 45)"

definition hex_char :: "char \<Rightarrow> bool" where
  "hex_char c = (let n = (of_char c :: nat) in (48 \<le> n \<and> n \<le> 57) \<or> (97 \<le> n \<and> n \<le> 102))"

definition alnum_char :: "char \<Rightarrow> bool" where
  "alnum_char c = (let n = (of_char c :: nat) in (65 \<le> n \<and> n \<le> 90) \<or> (97 \<le> n \<and> n \<le> 122) \<or> (48 \<le> n \<and> n \<le> 57))"

definition run_of :: "(char \<Rightarrow> bool) \<Rightarrow> nat \<Rightarrow> nat \<Rightarrow> string \<Rightarrow> bool" where
  "run_of p lo hi s \<longleftrightarrow> lo \<le> length s \<and> length s \<le> hi \<and> list_all p s"

definition enrollment_id_ok :: "string \<Rightarrow> bool" where
  "enrollment_id_ok s \<longleftrightarrow> startswith s ''et_'' \<and> run_of hex_char 32 32 (drop 3 s)"

definition is_canonical_credential_id :: "string \<Rightarrow> bool" where
  "is_canonical_credential_id s \<longleftrightarrow> startswith s ''dc_'' \<and> run_of token_char 16 64 (drop 3 s)"

definition installation_char :: "char \<Rightarrow> bool" where
  "installation_char c \<longleftrightarrow> alnum_char c \<or> c \<in> set ''._:-''"

definition is_canonical_installation_id :: "string \<Rightarrow> bool" where
  "is_canonical_installation_id s =
     (case s of [] \<Rightarrow> False | c # cs \<Rightarrow> alnum_char c \<and> run_of installation_char 15 127 cs)"

definition dot :: "char \<Rightarrow> bool" where
  "dot c \<longleftrightarrow> c = CHR ''.''"

definition parse_dotted :: "string \<Rightarrow> (string \<Rightarrow> bool) \<Rightarrow> string \<Rightarrow> (string \<times> string) option" where
  "parse_dotted tag id_ok value =
     (case split_on dot value of
        [t, i, s] \<Rightarrow>
          if t = tag \<and> id_ok i \<and> run_of token_char 43 128 s \<and> is_canonical_secret s
          then Some (i, s) else None
      | _ \<Rightarrow> None)"

definition parse_enrollment_token :: "string \<Rightarrow> (string \<times> string) option" where
  "parse_enrollment_token value = parse_dotted ''sha_enroll'' enrollment_id_ok value"

definition parse_device_credential :: "string \<Rightarrow> (string \<times> string) option" where
  "parse_device_credential value = parse_dotted ''sha_device'' is_canonical_credential_id value"

definition print_dotted :: "string \<Rightarrow> string \<times> string \<Rightarrow> string" where
  "print_dotted tag p = tag @ ''.'' @ fst p @ ''.'' @ snd p"

definition generate_enrollment_token :: "nat list \<Rightarrow> string \<Rightarrow> string \<times> string" where
  "generate_enrollment_token raw token_id =
     (let secret = token_urlsafe raw in (''sha_enroll.'' @ token_id @ ''.'' @ secret, secret))"

section \<open>Keyed hashes\<close>

definition validate_hmac_key :: "nat list option \<Rightarrow> nat list option result" where
  "validate_hmac_key key =
     (case key of
        Some k \<Rightarrow> if length k < 32 then Inl (ValueError ''credential HMAC key must contain at least 32 bytes'')
                  else Inr key
      | None \<Rightarrow> Inr key)"

definition utf8 :: "string \<Rightarrow> nat list" where
  "utf8 s = concat (map (\<lambda>c. let n = of_char c in if n < 128 then [n] else [192 + n div 64, 128 + n mod 64]) s)"

definition keyed_message :: "string \<Rightarrow> string \<Rightarrow> string \<Rightarrow> nat list" where
  "keyed_message domain public_id secret = utf8 domain @ [0] @ utf8 public_id @ [0] @ utf8 secret"

definition keyed_hash :: "(nat list \<Rightarrow> nat list \<Rightarrow> string) \<Rightarrow> nat list \<Rightarrow> string \<Rightarrow> string \<Rightarrow> string \<Rightarrow> string" where
  "keyed_hash hmac_hex key domain public_id secret = hmac_hex key (keyed_message domain public_id secret)"

definition enrollment_secret_hash :: "(nat list \<Rightarrow> nat list \<Rightarrow> string) \<Rightarrow> nat list \<Rightarrow> string \<Rightarrow> string \<Rightarrow> string" where
  "enrollment_secret_hash hmac_hex key = keyed_hash hmac_hex key ''sha/enrollment-token/v1''"

definition device_secret_hash :: "(nat list \<Rightarrow> nat list \<Rightarrow> string) \<Rightarrow> nat list \<Rightarrow> string \<Rightarrow> string \<Rightarrow> string" where
  "device_secret_hash hmac_hex key = keyed_hash hmac_hex key ''sha/device-credential/v1''"

section \<open>Base64 round trip\<close>

definition bytes :: "nat list \<Rightarrow> bool" where
  "bytes raw \<longleftrightarrow> list_all (\<lambda>b. b < 256) raw"

lemma b64_char_code:
  "n < 64 \<Longrightarrow> (of_char (b64_char n) :: nat) =
     (if n < 26 then 65 + n else if n < 52 then 97 + (n - 26) else if n < 62 then 48 + (n - 52)
      else if n = 62 then 45 else 95)"
  by (auto simp: b64_char_def)

lemma b64_value_char [simp]: "n < 64 \<Longrightarrow> b64_value (b64_char n) = Some n"
proof -
  assume n: "n < 64"
  consider "n < 26" | "26 \<le> n \<and> n < 52" | "52 \<le> n \<and> n < 62" | "n = 62" | "n = 63" using n by linarith
  then show ?thesis
    by cases (auto simp: b64_value_def Let_def b64_char_code[OF n], simp_all add: b64_char_def)
qed

lemma token_char_b64 [simp]: "n < 64 \<Longrightarrow> token_char (b64_char n)"
  by (auto simp: token_char_def Let_def b64_char_code)

lemma b64_char_not_pad [simp]: "n < 64 \<Longrightarrow> b64_char n \<noteq> CHR ''=''"
  using token_char_b64[of n] by (auto simp: token_char_def)

fun b64_core :: "nat list \<Rightarrow> string" where
  "b64_core [] = []"
| "b64_core [a] = [b64_char (a div 4), b64_char (a mod 4 * 16)]"
| "b64_core [a, b] = [b64_char (a div 4), b64_char (a mod 4 * 16 + b div 16), b64_char (b mod 16 * 4)]"
| "b64_core (a # b # c # rest) =
     b64_char (a div 4) # b64_char (a mod 4 * 16 + b div 16) # b64_char (b mod 16 * 4 + c div 64) #
     b64_char (c mod 64) # b64_core rest"

lemma b64_padding_simps [simp]:
  "b64_padding 0 = []" "b64_padding (Suc (Suc 0)) = ''==''" "b64_padding (Suc (Suc (Suc 0))) = ''=''"
  "b64_padding (Suc (Suc (Suc (Suc n)))) = b64_padding n"
proof -
  have "Suc (Suc (Suc (Suc n))) = n + 4" by simp
  then show "b64_padding (Suc (Suc (Suc (Suc n)))) = b64_padding n"
    unfolding b64_padding_def by (simp only: mod_add_self2)
qed code_simp+

lemma encode_core: "urlsafe_b64encode raw = b64_core raw @ b64_padding (length (b64_core raw))"
  by (induction raw rule: b64_core.induct) simp_all

lemma length_core: "length (b64_core raw) = (4 * length raw + 2) div 3"
  by (induction raw rule: b64_core.induct) simp_all

lemma sextets [simp]:
  "a < 256 \<Longrightarrow> (a::nat) div 4 < 64" "(a::nat) mod 4 * 16 < 64"
  "b < 256 \<Longrightarrow> (a::nat) mod 4 * 16 + b div 16 < 64" "(b::nat) mod 16 * 4 < 64"
  "c < 256 \<Longrightarrow> (b::nat) mod 16 * 4 + c div 64 < 64" "(c::nat) mod 64 < 64"
  by (simp_all; linarith)+

lemma byte_parts [simp]:
  "(b::nat) < 256 \<Longrightarrow> b div 16 div 16 = 0" "(b::nat) < 256 \<Longrightarrow> b div 16 mod 16 = b div 16"
  "(b::nat) < 256 \<Longrightarrow> b div 64 div 4 = 0" "(b::nat) < 256 \<Longrightarrow> b div 64 mod 4 = b div 64"
  by (simp_all add: less_mult_imp_div_less div_mult2_eq[symmetric])

lemma core_token: "bytes raw \<Longrightarrow> list_all token_char (b64_core raw)"
  by (induction raw rule: b64_core.induct) (simp_all add: bytes_def)

lemma core_not_pad: "bytes raw \<Longrightarrow> CHR ''='' \<notin> set (b64_core raw)"
  using core_token[of raw] by (auto simp: list_all_iff token_char_def)

lemma rstrip_core: "bytes raw \<Longrightarrow> rstrip_char (CHR ''='') (urlsafe_b64encode raw) = b64_core raw"
proof -
  assume "bytes raw"
  then have np: "CHR ''='' \<notin> set (b64_core raw)" by (rule core_not_pad)
  have "dropWhile (\<lambda>x. x = c) (replicate k c @ ys) = dropWhile (\<lambda>x. x = c) ys" for c :: char and k ys
    by (induction k) auto
  moreover have "dropWhile (\<lambda>x. x = CHR ''='') (rev (b64_core raw)) = rev (b64_core raw)"
    using np by (intro dropWhile_id) (metis hd_in_set set_rev)
  ultimately show ?thesis by (simp add: rstrip_char_def encode_core b64_padding_def)
qed

lemma token_urlsafe_core: "bytes raw \<Longrightarrow> token_urlsafe raw = b64_core raw"
  by (simp add: token_urlsafe_def rstrip_core)

lemma a2b_encode: "bytes raw \<Longrightarrow> a2b 0 left pads (urlsafe_b64encode raw) = Some raw"
proof (induction raw arbitrary: left pads rule: urlsafe_b64encode.induct)
  case (2 a)
  then show ?case by (simp add: bytes_def)
next
  case (3 a b)
  then show ?case by (simp add: bytes_def)
next
  case (4 a b c rest)
  then show ?case by (simp add: bytes_def)
qed simp

lemma a2b_bytes:
  "a2b quad left pads s = Some raw \<Longrightarrow>
   (quad = 1 \<longrightarrow> left < 64) \<Longrightarrow> (quad = 2 \<longrightarrow> left < 16) \<Longrightarrow> (quad \<noteq> 0 \<and> quad \<noteq> 1 \<and> quad \<noteq> 2 \<longrightarrow> left < 4) \<Longrightarrow>
   bytes raw"
proof (induction quad left pads s arbitrary: raw rule: a2b.induct)
  case (1 quad left pads)
  then show ?case by (auto simp: bytes_def split: if_splits)
next
  case (2 quad left pads ch rest)
  have v64: "b64_value ch = Some v \<Longrightarrow> v < 64" for v
    by (auto simp: b64_value_def Let_def split: if_splits)
  then have v: "b64_value ch = Some v \<Longrightarrow> v div 16 < 4 \<and> v mod 16 < 16 \<and> v div 4 < 16 \<and> v mod 4 < 4" for v
    using less_mult_imp_div_less[of v 4 16] less_mult_imp_div_less[of v 16 4] by simp
  show ?case
    using 2 v64 v by (fastforce simp: bytes_def split: if_splits option.splits)
qed

text \<open>
  A string is a canonical secret iff it is the unpadded URL-safe base64 text of at least 32
  bytes and 43 to 128 characters long: every accepted secret has one spelling only, although the
  decoder it is checked with skips foreign characters and ignores trailing bits.
\<close>

theorem is_canonical_secret_iff:
  "is_canonical_secret s \<longleftrightarrow>
     43 \<le> length s \<and> length s \<le> 128 \<and> (\<exists>raw. bytes raw \<and> 32 \<le> length raw \<and> s = token_urlsafe raw)"
proof
  assume "is_canonical_secret s"
  then obtain raw where "43 \<le> length s \<and> length s \<le> 128" "32 \<le> length raw" "s = token_urlsafe raw"
      and d: "a2b 0 0 0 (s @ b64_padding (length s)) = Some raw"
    by (auto simp: is_canonical_secret_def urlsafe_b64decode_def token_urlsafe_def
        split: option.splits if_splits)
  moreover have "bytes raw" using a2b_bytes[OF d] by simp
  ultimately show "43 \<le> length s \<and> length s \<le> 128 \<and> (\<exists>raw. bytes raw \<and> 32 \<le> length raw \<and> s = token_urlsafe raw)"
    by blast
next
  assume "43 \<le> length s \<and> length s \<le> 128 \<and> (\<exists>raw. bytes raw \<and> 32 \<le> length raw \<and> s = token_urlsafe raw)"
  then obtain raw where len: "43 \<le> length s" "length s \<le> 128" and raw: "bytes raw" "32 \<le> length raw"
    and s: "s = b64_core raw" using token_urlsafe_core by auto
  have enc: "s @ b64_padding (length s) = urlsafe_b64encode raw" by (simp add: s encode_core)
  have "is_ascii (urlsafe_b64encode raw)"
    using core_token[OF raw(1)]
    by (auto simp: encode_core is_ascii_def b64_padding_def token_char_def list_all_iff Let_def)
  then show "is_canonical_secret s"
    unfolding is_canonical_secret_def urlsafe_b64decode_def enc
    using len raw by (simp add: a2b_encode rstrip_core s)
qed

lemma token_urlsafe_32:
  assumes "bytes raw" and "length raw = 32"
  shows "length (token_urlsafe raw) = 43" "list_all token_char (token_urlsafe raw)"
    "is_canonical_secret (token_urlsafe raw)"
  using assms length_core[of raw] core_token[of raw] is_canonical_secret_iff[of "b64_core raw"]
  by (auto simp: token_urlsafe_core)

section \<open>Printing and parsing tokens\<close>

lemma split_on_none: "list_all (\<lambda>c. \<not> p c) u \<Longrightarrow> split_on p u = [u]"
  by (induction u) auto

lemma split_on_app: "list_all (\<lambda>c. \<not> p c) u \<Longrightarrow> p c \<Longrightarrow> split_on p (u @ c # v) = u # split_on p v"
  by (induction u) auto

lemma split_on_nonempty: "split_on p s \<noteq> []"
  by (cases "(p, s)" rule: split_on.cases) (auto split: list.splits)

lemma join_split_dot: "join ''.'' (split_on dot s) = s"
proof (induction s)
  case (Cons c cs)
  obtain w ws where "split_on dot cs = w # ws" using split_on_nonempty by (metis list.exhaust)
  moreover have "dot c \<Longrightarrow> c = CHR ''.''" by (simp add: dot_def)
  ultimately show ?case using Cons.IH by (cases ws; cases "dot c") simp_all
qed simp

lemma token_char_not_dot: "list_all token_char s \<Longrightarrow> list_all (\<lambda>c. \<not> dot c) s"
  by (auto simp: list_all_iff dot_def token_char_def)

lemma hex_token_char: "hex_char c \<Longrightarrow> token_char c"
  by (auto simp: hex_char_def token_char_def Let_def)

lemma startswith_append: "startswith s p \<Longrightarrow> s = p @ drop (length p) s"
  unfolding startswith_def by (metis append_take_drop_id)

lemma prefixed_no_dot:
  assumes "startswith i p" "list_all token_char (drop (length p) i)" "list_all (\<lambda>c. \<not> dot c) p"
  shows "list_all (\<lambda>c. \<not> dot c) i"
  using startswith_append[OF assms(1)] token_char_not_dot[OF assms(2)] assms(3)
  by (metis list_all_append)

lemma id_no_dot:
  "enrollment_id_ok i \<Longrightarrow> list_all (\<lambda>c. \<not> dot c) i"
  "is_canonical_credential_id i \<Longrightarrow> list_all (\<lambda>c. \<not> dot c) i"
proof -
  show "list_all (\<lambda>c. \<not> dot c) i" if "enrollment_id_ok i"
    using that hex_token_char
    by (intro prefixed_no_dot[of i "''et_''"])
      (auto simp: enrollment_id_ok_def run_of_def list_all_iff numeral_3_eq_3, auto simp: dot_def)
  show "list_all (\<lambda>c. \<not> dot c) i" if "is_canonical_credential_id i"
    using that
    by (intro prefixed_no_dot[of i "''dc_''"])
      (auto simp: is_canonical_credential_id_def run_of_def list_all_iff numeral_3_eq_3, auto simp: dot_def)
qed

text \<open>
  The contract of a credential format: printing what is well-formed parses back, and a text
  that parses is the printed form of what it parses to.
\<close>

locale token_format =
  fixes print :: "'a \<Rightarrow> string" and parse :: "string \<Rightarrow> 'a option" and ok :: "'a \<Rightarrow> bool"
  assumes parse_print: "ok p \<Longrightarrow> parse (print p) = Some p"
    and parse_sound: "parse s = Some p \<Longrightarrow> ok p \<and> s = print p"
begin

lemma parse_iff: "parse s = Some p \<longleftrightarrow> ok p \<and> s = print p"
  using parse_print parse_sound by blast

lemma parse_inj: "parse s = Some p \<Longrightarrow> parse s' = Some p \<Longrightarrow> s = s'"
  using parse_sound by metis

lemma print_inj_on: "ok p \<Longrightarrow> ok q \<Longrightarrow> print p = print q \<Longrightarrow> p = q"
  using parse_print by (metis option.inject)

end

definition enrollment_parts_ok :: "string \<times> string \<Rightarrow> bool" where
  "enrollment_parts_ok p \<longleftrightarrow>
     enrollment_id_ok (fst p) \<and> run_of token_char 43 128 (snd p) \<and> is_canonical_secret (snd p)"

definition device_parts_ok :: "string \<times> string \<Rightarrow> bool" where
  "device_parts_ok p \<longleftrightarrow>
     is_canonical_credential_id (fst p) \<and> run_of token_char 43 128 (snd p) \<and> is_canonical_secret (snd p)"

lemma split_print_dotted:
  assumes "list_all (\<lambda>c. \<not> dot c) t" "list_all (\<lambda>c. \<not> dot c) i" "list_all token_char s"
  shows "split_on dot (print_dotted t (i, s)) = [t, i, s]"
proof -
  have "dot (CHR ''.'')" by (simp add: dot_def)
  then show ?thesis
    using assms split_on_app[of dot t "CHR ''.''" "i @ CHR ''.'' # s"] split_on_app[of dot i "CHR ''.''" s]
      split_on_none[OF token_char_not_dot[OF assms(3)]]
    by (simp add: print_dotted_def)
qed

lemma parse_dotted_sound:
  assumes "parse_dotted t id_ok v = Some (i, s)"
  shows "v = print_dotted t (i, s) \<and> id_ok i \<and> run_of token_char 43 128 s \<and> is_canonical_secret s"
proof -
  have "split_on dot v = [t, i, s]" and "id_ok i \<and> run_of token_char 43 128 s \<and> is_canonical_secret s"
    using assms by (auto simp: parse_dotted_def split: list.splits if_splits)
  moreover from this have "join ''.'' [t, i, s] = v" using join_split_dot[of v] by simp
  ultimately show ?thesis by (auto simp: print_dotted_def)
qed

lemma tags_no_dot: "list_all (\<lambda>c. \<not> dot c) ''sha_enroll''" "list_all (\<lambda>c. \<not> dot c) ''sha_device''"
  by (simp_all add: dot_def)

interpretation enrollment_format:
  token_format "print_dotted ''sha_enroll''" parse_enrollment_token enrollment_parts_ok
proof
  show "parse_enrollment_token (print_dotted ''sha_enroll'' p) = Some p" if "enrollment_parts_ok p" for p
    using that id_no_dot(1)[of "fst p"] split_print_dotted[OF tags_no_dot(1), of "fst p" "snd p"]
    by (simp add: enrollment_parts_ok_def parse_enrollment_token_def parse_dotted_def run_of_def)
qed (auto simp: parse_enrollment_token_def enrollment_parts_ok_def dest: parse_dotted_sound)

interpretation device_format:
  token_format "print_dotted ''sha_device''" parse_device_credential device_parts_ok
proof
  show "parse_device_credential (print_dotted ''sha_device'' p) = Some p" if "device_parts_ok p" for p
    using that id_no_dot(2)[of "fst p"] split_print_dotted[OF tags_no_dot(2), of "fst p" "snd p"]
    by (simp add: device_parts_ok_def parse_device_credential_def parse_dotted_def run_of_def)
qed (auto simp: parse_device_credential_def device_parts_ok_def dest: parse_dotted_sound)

section \<open>Properties of tokens and hashes\<close>

text \<open>
  What \<open>create_enrollment_token\<close> hands out is what \<open>parse_enrollment_token\<close> accepts: for a
  token id made from 32 hex digits and any 32 random bytes, the generated text parses to that id
  and that secret.
\<close>

theorem generated_enrollment_token_parses:
  assumes "run_of hex_char 32 32 u" and "bytes raw" and "length raw = 32"
    and "generate_enrollment_token raw (generate_prefixed_id ''et'' u) = (plain, secret)"
  shows "parse_enrollment_token plain = Some (generate_prefixed_id ''et'' u, secret) \<and> length secret = 43"
proof -
  have sec: "secret = token_urlsafe raw" and
    plain: "plain = print_dotted ''sha_enroll'' (generate_prefixed_id ''et'' u, secret)"
    using assms(4) by (auto simp: generate_enrollment_token_def print_dotted_def Let_def)
  have "enrollment_id_ok (generate_prefixed_id ''et'' u)"
    using assms(1) by (simp add: enrollment_id_ok_def generate_prefixed_id_def startswith_def numeral_3_eq_3)
  then have "enrollment_parts_ok (generate_prefixed_id ''et'' u, secret)"
    using token_urlsafe_32[OF assms(2,3)] by (simp add: enrollment_parts_ok_def run_of_def sec)
  then show ?thesis
    using enrollment_format.parse_print token_urlsafe_32(1)[OF assms(2,3)] by (simp add: plain sec)
qed

theorem generated_enrollment_token_parses_witness:
  "parse_enrollment_token (fst (generate_enrollment_token (replicate 32 0)
      (generate_prefixed_id ''et'' (replicate 32 (CHR ''a''))))) =
     Some (generate_prefixed_id ''et'' (replicate 32 (CHR ''a'')), snd (generate_enrollment_token (replicate 32 0)
      (generate_prefixed_id ''et'' (replicate 32 (CHR ''a'')))))"
  by (rule generated_enrollment_token_parses[THEN conjunct1, of _ "replicate 32 0"])
    (simp_all add: run_of_def hex_char_def bytes_def list_all_iff)

text \<open>
  The two bearer formats never overlap and each has one spelling: a text that parses as an
  enrollment token is exactly the printed form of its parts and does not parse as a device
  credential.
\<close>

theorem bearer_formats_disjoint:
  assumes "parse_enrollment_token v = Some p"
  shows "v = print_dotted ''sha_enroll'' p \<and> parse_device_credential v = None"
proof -
  have v: "v = print_dotted ''sha_enroll'' p" using assms enrollment_format.parse_sound by blast
  moreover have "v \<noteq> print_dotted ''sha_device'' q" for q by (simp add: v print_dotted_def)
  ultimately show ?thesis using device_format.parse_sound by (metis option.exhaust)
qed

theorem bearer_formats_disjoint_witness:
  "parse_device_credential (print_dotted ''sha_enroll''
     (''et_'' @ replicate 32 (CHR ''0''), token_urlsafe (replicate 32 0))) = None"
proof -
  have "enrollment_parts_ok (''et_'' @ replicate 32 (CHR ''0''), token_urlsafe (replicate 32 0))"
    using token_urlsafe_32[of "replicate 32 0"]
    by (simp add: enrollment_parts_ok_def enrollment_id_ok_def startswith_def run_of_def bytes_def
        list_all_iff hex_char_def numeral_3_eq_3)
  then show ?thesis using bearer_formats_disjoint enrollment_format.parse_print by blast
qed

lemma utf8_Cons: "utf8 (c # s) = (let n = of_char c in
    if n < 128 then [n] else [192 + n div 64, 128 + n mod 64]) @ utf8 s"
  by (simp add: utf8_def)

lemma utf8_Nil [simp]: "utf8 [] = []"
  by (simp add: utf8_def)

lemma utf8_no_zero: "CHR 0x00 \<notin> set s \<Longrightarrow> 0 \<notin> set (utf8 s)"
proof (induction s)
  case (Cons c s)
  then have "(of_char c :: nat) \<noteq> 0" 
    using of_char_eq_iff[of c "CHR 0x00", where ?'a = nat] by auto
  with Cons show ?case by (auto simp: utf8_Cons Let_def)
qed simp

lemma utf8_inj: "utf8 s = utf8 t \<Longrightarrow> s = t"
proof (induction s arbitrary: t)
  case Nil
  then show ?case by (cases t) (auto simp: utf8_Cons Let_def split: if_splits)
next
  case (Cons c s)
  then obtain d t' where t: "t = d # t'" by (cases t) (auto simp: utf8_Cons Let_def split: if_splits)
  have m: "n = k" if "n div 64 = k div 64" "n mod 64 = k mod 64" for n k :: nat
    using that by (metis div_mult_mod_eq)
  have "(of_char c :: nat) = of_char d \<and> utf8 s = utf8 t'"
    using Cons.prems m[of "of_char c" "of_char d"]
    by (auto simp: t utf8_Cons Let_def split: if_splits)
  then show ?case using Cons.IH by (simp add: t)
qed

lemma split_at_zero: "0 \<notin> set a \<Longrightarrow> 0 \<notin> set b \<Longrightarrow> a @ 0 # x = b @ (0::nat) # y \<Longrightarrow> a = b \<and> x = y"
  by (induction a arbitrary: b) (auto simp: Cons_eq_append_conv)

text \<open>
  The hashed message frames its three parts unambiguously: as long as the domain label and
  the public id contain no NUL character, equal messages have equal domain, id and secret, so a
  hash for one purpose or one id can never be reused for another.
\<close>

theorem keyed_message_injective:
  assumes "CHR 0x00 \<notin> set d" "CHR 0x00 \<notin> set d'" "CHR 0x00 \<notin> set i" "CHR 0x00 \<notin> set i'"
    and "keyed_message d i s = keyed_message d' i' s'"
  shows "d = d' \<and> i = i' \<and> s = s'"
proof -
  note z = assms(1-4)[THEN utf8_no_zero]
  have "utf8 d = utf8 d' \<and> utf8 i @ 0 # utf8 s = utf8 i' @ 0 # utf8 s'"
    using assms(5) split_at_zero[OF z(1,2)] by (simp add: keyed_message_def)
  then show ?thesis using split_at_zero[OF z(3,4)] utf8_inj by blast
qed

theorem keyed_message_injective_witness:
  "keyed_message ''sha/enrollment-token/v1'' ''et_1'' ''s'' \<noteq> keyed_message ''sha/device-credential/v1'' ''et_1'' ''s''"
proof
  assume "keyed_message ''sha/enrollment-token/v1'' ''et_1'' ''s'' = keyed_message ''sha/device-credential/v1'' ''et_1'' ''s''"
  then have "''sha/enrollment-token/v1'' = ''sha/device-credential/v1''"
    by (intro keyed_message_injective[THEN conjunct1, of _ _ "''et_1''" "''et_1''" "''s''" "''s''"]) simp_all
  then show False by simp
qed

end
