(* ===== verification/Json_Text.thy ===== *)
theory Json_Text
  imports Schema Token_Codec
begin

text \<open>
  The JSON texts the server writes: \<open>json.dumps\<close> with compact separators and sorted keys, on the
  values of \<open>Schema\<close>.  Strings hold Latin-1 code points, so an escape is one of the short ones or
  \<open>\u00xx\<close>.  The text decides what the audit log keeps and what an enrollment exchange hashes.
\<close>

section \<open>Numbers and strings\<close>

fun nat_text :: "nat \<Rightarrow> string" where
  "nat_text n = (if n < 10 then [char_of (48 + n)] else nat_text (n div 10) @ [char_of (48 + n mod 10)])"

definition int_text :: "int \<Rightarrow> string" where
  "int_text i = (if i < 0 then CHR ''-'' # nat_text (nat (- i)) else nat_text (nat i))"

definition hex_digit_char :: "nat \<Rightarrow> char" where
  "hex_digit_char n = (if n < 10 then char_of (48 + n) else char_of (87 + n))"

definition json_char :: "bool \<Rightarrow> char \<Rightarrow> string" where
  "json_char ensure_ascii c = (let n = (of_char c :: nat) in
     if n = 34 then [CHR 0x5C, CHR 0x22]
     else if n = 92 then [CHR 0x5C, CHR 0x5C]
     else if n = 10 then [CHR 0x5C, CHR ''n'']
     else if n = 13 then [CHR 0x5C, CHR ''r'']
     else if n = 9 then [CHR 0x5C, CHR ''t'']
     else if n = 12 then [CHR 0x5C, CHR ''f'']
     else if n = 8 then [CHR 0x5C, CHR ''b'']
     else if n < 32 \<or> (ensure_ascii \<and> 126 < n)
       then [CHR 0x5C, CHR ''u'', CHR ''0'', CHR ''0'', hex_digit_char (n div 16), hex_digit_char (n mod 16)]
     else [c])"

definition json_string :: "bool \<Rightarrow> string \<Rightarrow> string" where
  "json_string ensure_ascii s = CHR 0x22 # concat (map (json_char ensure_ascii) s) @ [CHR 0x22]"

section \<open>Values\<close>

text \<open>\<open>separators=(",", ":")\<close>; \<open>sort_keys=True\<close> orders the pairs of an object by key.\<close>

fun json_dumps :: "bool \<Rightarrow> json \<Rightarrow> string" where
  "json_dumps ea JNull = ''null''"
| "json_dumps ea (JBool b) = (if b then ''true'' else ''false'')"
| "json_dumps ea (JInt i) = int_text i"
| "json_dumps ea (JStr s) = json_string ea s"
| "json_dumps ea (JList xs) = ''['' @ join '','' (map (json_dumps ea) xs) @ '']''"
| "json_dumps ea (JObj kvs) = ''{'' @ join '','' (map snd (sort_key fst
     (map (\<lambda>kv. (fst kv, json_string ea (fst kv) @ '':'' @ json_dumps ea (snd kv))) kvs))) @ ''}''"

definition json_bytes :: "bool \<Rightarrow> json \<Rightarrow> nat" where
  "json_bytes ea v = length (utf8 (json_dumps ea v))"

text \<open>\<open>device_identity.exchange_request_hash\<close> over the values of one exchange.\<close>

definition exchange_request_hash ::
  "(nat list \<Rightarrow> nat list \<Rightarrow> string) \<Rightarrow> nat list \<Rightarrow> string \<Rightarrow> (string \<times> json) list \<Rightarrow> string" where
  "exchange_request_hash hmac_hex key token_id values =
     keyed_hash hmac_hex key ''sha/enrollment-exchange/v1'' token_id (json_dumps False (JObj values))"

end
