(* ===== verification/Clock.thy ===== *)
theory Clock
  imports Prelude
begin

text \<open>
  Dates and the timestamp columns (\<open>utc_now\<close>, \<open>coerce_utc\<close> and \<open>to_utc_z\<close> of
  \<open>app/utils.py\<close>).  An aware UTC \<open>datetime\<close> without microseconds is the number of seconds
  since 0001-01-01T00:00:00Z (Python's proleptic Gregorian calendar), so \<open>timedelta\<close>
  arithmetic is addition.  The tables store the rendering of \<open>to_utc_z\<close> and compare it as text;
  the main result is that this text order is the order of time up to the end of year 9999.
\<close>

section \<open>The proleptic Gregorian calendar\<close>

definition is_leap :: "nat \<Rightarrow> bool" where
  "is_leap y \<longleftrightarrow> y mod 4 = 0 \<and> (y mod 100 \<noteq> 0 \<or> y mod 400 = 0)"

definition year_len :: "nat \<Rightarrow> nat" where
  "year_len y = (if is_leap y then 366 else 365)"

definition month_lens :: "nat \<Rightarrow> nat list" where
  "month_lens y = [31, if is_leap y then 29 else 28, 31, 30, 31, 30, 31, 31, 30, 31, 30, 31]"

function year_day :: "nat \<Rightarrow> nat \<Rightarrow> nat \<times> nat" where
  "year_day y d = (if d < year_len y then (y, d) else year_day (y + 1) (d - year_len y))"
  by pat_completeness auto
termination
  by (relation "measure snd") (auto simp: year_len_def split: if_splits)

declare year_day.simps [simp del]

fun month_day :: "nat list \<Rightarrow> nat \<Rightarrow> nat \<Rightarrow> nat \<times> nat" where
  "month_day [] m d = (m, d + 1)"
| "month_day (l # ls) m d = (if d < l then (m, d + 1) else month_day ls (m + 1) (d - l))"

definition year_of_days :: "nat \<Rightarrow> nat \<times> nat" where
  "year_of_days d = year_day (1 + 400 * (d div 146097)) (d mod 146097)"

definition date_of_days :: "nat \<Rightarrow> nat \<times> nat \<times> nat" where
  "date_of_days d = (let (y, r) = year_of_days d in (y, month_day (month_lens y) 1 r))"

definition time_of_secs :: "nat \<Rightarrow> nat \<times> nat \<times> nat" where
  "time_of_secs s = (s div 3600, (s div 60) mod 60, s mod 60)"

text \<open>\<open>datetime.max\<close> is the last second before this many.\<close>

definition datetime_end :: nat where
  "datetime_end = 315537897600"

definition year_of :: "nat \<Rightarrow> nat" where
  "year_of t = fst (year_of_days (t div 86400))"

section \<open>Rendering\<close>

definition digit :: "nat \<Rightarrow> char" where
  "digit n = char_of (48 + n mod 10)"

definition pad2 :: "nat \<Rightarrow> string" where
  "pad2 n = [digit (n div 10), digit n]"

definition pad4 :: "nat \<Rightarrow> string" where
  "pad4 n = [digit (n div 1000), digit (n div 100), digit (n div 10), digit n]"

definition strftime_z :: "nat \<Rightarrow> string" where
  "strftime_z t =
     (let (y, mo, da) = date_of_days (t div 86400); (h, mi, s) = time_of_secs (t mod 86400)
      in pad4 y @ ''-'' @ pad2 mo @ ''-'' @ pad2 da @ ''T'' @
         pad2 h @ '':'' @ pad2 mi @ '':'' @ pad2 s @ ''Z'')"

text \<open>
  A \<open>datetime\<close> argument: wall-clock seconds, microseconds and the UTC offset in seconds, absent
  for a naive value.  \<open>astimezone\<close> raises \<open>OverflowError\<close> outside years 1 to 9999.
\<close>

record py_datetime =
  dt_wall :: int
  dt_micros :: nat
  dt_offset :: "int option"

definition coerce_utc :: "py_datetime \<Rightarrow> nat result" where
  "coerce_utc v =
     (let s = dt_wall v - (case dt_offset v of None \<Rightarrow> 0 | Some off \<Rightarrow> off)
      in if 0 \<le> s \<and> s < int datetime_end then Inr (nat s) else Inl OverflowError)"

definition to_utc_z :: "py_datetime \<Rightarrow> string result" where
  "to_utc_z v = andThen (coerce_utc v) (\<lambda>t. Inr (strftime_z t))"

text \<open>\<open>utc_now\<close>: the clock reading as a \<open>datetime\<close>, microseconds dropped.\<close>

definition utc_now :: "nat \<Rightarrow> py_datetime" where
  "utc_now t = \<lparr>dt_wall = int t, dt_micros = 0, dt_offset = Some 0\<rparr>"

text \<open>\<open>d + timedelta(seconds=k)\<close> on an aware UTC instant: outside years 1 to 9999 it overflows.\<close>

definition add_seconds :: "nat \<Rightarrow> int \<Rightarrow> nat result" where
  "add_seconds t k =
     (let s = int t + k in if 0 \<le> s \<and> s < int datetime_end then Inr (nat s) else Inl OverflowError)"

lemma add_seconds_Inr [result_simps]:
  "add_seconds t k = Inr s \<longleftrightarrow> int s = int t + k \<and> s < datetime_end"
  by (auto simp: add_seconds_def Let_def)

lemma coerce_utc_now: "t < datetime_end \<Longrightarrow> coerce_utc (utc_now t) = Inr t"
  by (simp add: coerce_utc_def utc_now_def)

lemma coerce_utc_bound: "coerce_utc v = Inr t \<Longrightarrow> t < datetime_end"
  by (auto simp: coerce_utc_def Let_def split: if_splits)

text \<open>Evaluation on concrete instants.\<close>

lemma digit_chars [simp]:
  "char_of (48::nat) = CHR ''0''" "char_of (49::nat) = CHR ''1''" "char_of (50::nat) = CHR ''2''"
  "char_of (51::nat) = CHR ''3''" "char_of (52::nat) = CHR ''4''" "char_of (53::nat) = CHR ''5''"
  "char_of (54::nat) = CHR ''6''" "char_of (55::nat) = CHR ''7''" "char_of (56::nat) = CHR ''8''"
  "char_of (57::nat) = CHR ''9''"
  by (simp_all add: char_of_def bit_0)

lemmas strftime_eval = strftime_z_def date_of_days_def year_of_days_def year_day.simps
  month_lens_def year_len_def is_leap_def time_of_secs_def pad2_def pad4_def digit_def

section \<open>The calendar is monotone\<close>

fun days_of_years :: "nat \<Rightarrow> nat \<Rightarrow> nat" where
  "days_of_years y 0 = 0"
| "days_of_years y (Suc n) = year_len y + days_of_years (y + 1) n"

lemma year_len_pos [simp]: "0 < year_len y"
  by (simp add: year_len_def)

lemma year_len_periodic: "year_len (y + 400 * c) = year_len y"
proof -
  have "(y + 400 * c) mod 4 = y mod 4"
    using mod_mult_self2[of y 4 "100 * c"] by (simp add: mult.assoc)
  moreover have "(y + 400 * c) mod 100 = y mod 100"
    using mod_mult_self2[of y 100 "4 * c"] by (simp add: mult.assoc)
  moreover have "(y + 400 * c) mod 400 = y mod 400" by simp
  ultimately show ?thesis by (simp add: year_len_def is_leap_def)
qed

lemma days_of_years_periodic: "days_of_years (y + 400 * c) n = days_of_years y n"
proof (induction n arbitrary: y)
  case (Suc n)
  then show ?case using year_len_periodic[of y c] Suc.IH[of "y + 1"] by simp
qed simp

lemma days_of_years_add: "days_of_years y (m + n) = days_of_years y m + days_of_years (y + m) n"
  by (induction m arbitrary: y) simp_all

lemma year_day_spec:
  assumes "year_day y d = (y', r)"
  shows "y \<le> y' \<and> r < year_len y' \<and> days_of_years y (y' - y) + r = d"
  using assms
proof (induction y d rule: year_day.induct)
  case (1 y d)
  show ?case
  proof (cases "d < year_len y")
    case True
    with "1.prems" show ?thesis by (simp add: year_day.simps[of y d])
  next
    case False
    with "1.prems" have "year_day (y + 1) (d - year_len y) = (y', r)"
      by (simp add: year_day.simps[of y d])
    with "1.IH" False have ih: "y + 1 \<le> y' \<and> r < year_len y' \<and>
      days_of_years (y + 1) (y' - (y + 1)) + r = d - year_len y" by blast
    then have "y' - y = Suc (y' - (y + 1))" by arith
    then have "days_of_years y (y' - y) = year_len y + days_of_years (y + 1) (y' - (y + 1))"
      by (simp only: days_of_years.simps)
    moreover have "year_len y + days_of_years (y + 1) (y' - (y + 1)) + r = d"
      using ih False by linarith
    ultimately show ?thesis using ih by simp
  qed
qed

lemma year_day_mono: "d < d' \<Longrightarrow> year_day y d < year_day y d'"
proof (induction y d arbitrary: d' rule: year_day.induct)
  case (1 y d)
  show ?case
  proof (cases "d < year_len y")
    case inside: True
    show ?thesis
    proof (cases "d' < year_len y")
      case True
      with inside "1.prems" show ?thesis by (simp add: year_day.simps[of y d] year_day.simps[of y d'])
    next
      case False
      obtain y' r where e: "year_day (y + 1) (d' - year_len y) = (y', r)" by fastforce
      then have "y + 1 \<le> y'" using year_day_spec by blast
      with False inside e show ?thesis by (simp add: year_day.simps[of y d] year_day.simps[of y d'])
    qed
  next
    case False
    with "1.prems" have "d - year_len y < d' - year_len y" and "\<not> d' < year_len y" by simp_all
    with False "1.IH" show ?thesis by (simp add: year_day.simps[of y d] year_day.simps[of y d'])
  qed
qed

lemma year_day_below:
  assumes "year_day y d = (y', r)" and "d < days_of_years y n"
  shows "y' < y + n"
proof (rule ccontr)
  assume "\<not> y' < y + n"
  then obtain k where "y' = y + n + k" by (metis le_Suc_ex not_less)
  then have k: "y' - y = n + k" by simp
  have "days_of_years y n \<le> d"
    using year_day_spec[OF assms(1)] unfolding k days_of_years_add by simp
  with assms(2) show False by simp
qed

lemma year_len_step:
  "year_len (Suc m) + Suc m div 100 + (m div 4 + m div 400) =
     365 + (Suc m div 4 + Suc m div 400) + m div 100"
proof -
  have a: "Suc m mod 400 = 0 \<longrightarrow> Suc m mod 100 = 0"
    using dvd_trans[of 100 400 "Suc m"] by (simp add: mod_eq_0_iff_dvd del: mod_Suc_eq)
  have b: "Suc m mod 100 = 0 \<longrightarrow> Suc m mod 4 = 0"
    using dvd_trans[of 4 100 "Suc m"] by (simp add: mod_eq_0_iff_dvd del: mod_Suc_eq)
  show ?thesis
    unfolding year_len_def is_leap_def div_Suc[of m 4] div_Suc[of m 100] div_Suc[of m 400]
    using a b by (cases "Suc m mod 4 = 0"; cases "Suc m mod 100 = 0"; cases "Suc m mod 400 = 0") simp_all
qed

lemma year_sum_step:
  fixes x y :: nat
  assumes "y + p' + (a + b) = 365 + (a' + b') + p" and "x + w + p = q + a + b + u"
  shows "x + y + w + p' = q + 365 + a' + b' + u"
  using assms by linarith

lemma days_of_years_closed:
  "days_of_years (Suc z) n + (365 * z + z div 4 + z div 400) + (z + n) div 100 =
   365 * (z + n) + (z + n) div 4 + (z + n) div 400 + z div 100"
proof (induction n)
  case (Suc n)
  let ?m = "z + n"
  have s: "days_of_years (Suc z) (Suc n) = days_of_years (Suc z) n + year_len (Suc ?m)"
    using days_of_years_add[of "Suc z" n 1] by simp
  have "year_len (Suc ?m) + Suc ?m div 100 + (?m div 4 + ?m div 400) =
      365 + (Suc ?m div 4 + Suc ?m div 400) + ?m div 100"
    by (rule year_len_step)
  then have "days_of_years (Suc z) n + year_len (Suc ?m) + (365 * z + z div 4 + z div 400) +
      Suc ?m div 100 = 365 * ?m + 365 + Suc ?m div 4 + Suc ?m div 400 + z div 100"
    using Suc.IH by (rule year_sum_step)
  then show ?case unfolding s by (simp only: add_Suc_right mult_Suc_right add.assoc add.commute)
qed simp

lemma cycle_days: "days_of_years (Suc (400 * c)) 400 = 146097" "days_of_years (Suc (400 * c)) 399 = 145731"
proof -
  have 1: "days_of_years (Suc (0 + 400 * c)) n = days_of_years 1 n" for n
    using days_of_years_periodic[of 1 c n] by simp
  show "days_of_years (Suc (400 * c)) 400 = 146097" "days_of_years (Suc (400 * c)) 399 = 145731"
    using 1 days_of_years_closed[of 0 400] days_of_years_closed[of 0 399] by simp_all
qed

lemma year_of_days_mono:
  assumes "d < d'"
  shows "year_of_days d < year_of_days d'"
proof (cases "d div 146097 = d' div 146097")
  case True
  then have "d mod 146097 < d' mod 146097"
    using assms by (metis add_less_cancel_left div_mult_mod_eq)
  with True show ?thesis by (simp add: year_of_days_def year_day_mono)
next
  case False
  with assms have c: "d div 146097 + 1 \<le> d' div 146097"
    by (metis Suc_eq_plus1 Suc_leI div_le_mono le_neq_implies_less less_or_eq_imp_le)
  obtain y r where a: "year_of_days d = (y, r)" by fastforce
  obtain y' r' where b: "year_of_days d' = (y', r')" by fastforce
  have "y < 1 + 400 * (d div 146097) + 400"
    using a year_day_below[of "Suc (400 * (d div 146097))" _ y r 400]
    by (simp add: year_of_days_def cycle_days)
  also have "\<dots> \<le> 1 + 400 * (d' div 146097)" using c by simp
  also have "\<dots> \<le> y'" using b year_day_spec unfolding year_of_days_def by blast
  finally show ?thesis by (simp add: a b)
qed

lemma year_of_days_bound:
  assumes "year_of_days d = (y, r)" and "d < 3652059"
  shows "1 \<le> y \<and> y \<le> 9999 \<and> r < year_len y"
proof -
  have s: "1 + 400 * (d div 146097) \<le> y \<and> r < year_len y"
    using assms(1) year_day_spec unfolding year_of_days_def by blast
  have y400: "y < 1 + 400 * (d div 146097) + 400"
    using assms(1) year_day_below[of "Suc (400 * (d div 146097))" _ y r 400]
    by (simp add: year_of_days_def cycle_days)
  have "y \<le> 9999"
  proof (cases "d div 146097 = 24")
    case True
    with assms(2) have "d mod 146097 < 145731" by (simp add: modulo_nat_def)
    then have "y < 1 + 400 * (d div 146097) + 399"
      using assms(1) year_day_below[of "Suc (400 * (d div 146097))" _ y r 399]
      by (simp add: year_of_days_def cycle_days)
    with True show ?thesis by simp
  next
    case False
    with assms(2) have "d div 146097 < 24" by linarith
    with y400 show ?thesis by simp
  qed
  with s show ?thesis by simp
qed

lemma month_day_ge: "month_day ls m d = (m', r) \<Longrightarrow> m \<le> m'"
  by (induction ls m d rule: month_day.induct) (auto split: if_splits)

lemma month_day_mono: "d < d' \<Longrightarrow> month_day ls m d < month_day ls m d'"
proof (induction ls m d arbitrary: d' rule: month_day.induct)
  case (2 l ls m d)
  obtain m' r where e: "month_day ls (m + 1) (d' - l) = (m', r)" by fastforce
  then have "m + 1 \<le> m'" by (rule month_day_ge)
  moreover have "month_day ls (m + 1) (d - l) < (m', r)" if "\<not> d < l"
    using "2.IH"[OF that, of "d' - l"] "2.prems" that e by simp
  ultimately show ?case using "2.prems" e by auto
qed simp

lemma month_day_bound:
  "month_day ls m d = (m', r) \<Longrightarrow> d < sum_list ls \<Longrightarrow> \<forall>l\<in>set ls. l \<le> 31 \<Longrightarrow>
   m' < m + length ls \<and> r \<le> 31"
  by (induction ls m d rule: month_day.induct) (fastforce split: if_splits)+

section \<open>Text order is time order\<close>

lemma list_less_append:
  fixes u v :: "'a::linorder list"
  assumes "length u = length v"
  shows "u @ x < v @ y \<longleftrightarrow> u < v \<or> (u = v \<and> x < y)"
  using assms by (induction u v rule: list_induct2) auto

lemma digit_less: "digit m < digit n \<longleftrightarrow> m mod 10 < n mod 10"
proof -
  have "of_char (digit k) = 48 + k mod (10::nat)" for k by (simp add: digit_def)
  then show ?thesis by (simp add: less_char_def)
qed

lemma digit_eq: "digit m = digit n \<longleftrightarrow> m mod 10 = n mod 10"
  using digit_less[of m n] digit_less[of n m] by (metis less_irrefl linorder_neqE)

lemma length_pad [simp]: "length (pad2 n) = 2" "length (pad4 n) = 4"
  by (simp_all add: pad2_def pad4_def)

lemma radix_less:
  fixes q r s t :: nat
  assumes "r < 10" "t < 10"
  shows "10 * q + r < 10 * s + t \<longleftrightarrow> q < s \<or> q = s \<and> r < t"
  using assms by arith

lemma div_mod_less:
  "(m::nat) < n \<longleftrightarrow> m div 10 < n div 10 \<or> m div 10 = n div 10 \<and> m mod 10 < n mod 10"
  using radix_less[of "m mod 10" "n mod 10" "m div 10" "n div 10"] by simp

lemma pad2_less: "m < 100 \<Longrightarrow> n < 100 \<Longrightarrow> pad2 m < pad2 n \<longleftrightarrow> m < n"
  using div_mod_less[of m n] by (auto simp: pad2_def digit_less digit_eq)

lemma pad2_eq: "m < 100 \<Longrightarrow> n < 100 \<Longrightarrow> pad2 m = pad2 n \<longleftrightarrow> m = n"
  using pad2_less by (metis less_irrefl linorder_neqE_nat)

lemma pad4_pad2: "pad4 n = pad2 (n div 100) @ pad2 (n mod 100)"
proof -
  have "n mod 100 = 10 * (n div 10 mod 10) + n mod 10" using mod_mult2_eq[of n 10 10] by simp
  then have "n div 10 mod 10 = (n mod 100) div 10" by simp
  moreover have "n mod 100 mod 10 = n mod 10" by (simp add: mod_mod_cancel)
  moreover have "n div 1000 = n div 100 div 10" using div_mult2_eq[of n 100 10] by simp
  moreover have "n mod 100 div 10 mod 10 = n mod 100 div 10"
    by (simp add: less_mult_imp_div_less)
  ultimately show ?thesis by (simp add: pad4_def pad2_def digit_def)
qed

lemma pad4_less: "m < 10000 \<Longrightarrow> n < 10000 \<Longrightarrow> pad4 m < pad4 n \<longleftrightarrow> m < n"
proof -
  assume "m < 10000" "n < 10000"
  then have "m div 100 < 100" "n div 100 < 100" by (simp_all add: less_mult_imp_div_less)
  then have "pad4 m < pad4 n \<longleftrightarrow> m div 100 < n div 100 \<or> m div 100 = n div 100 \<and> m mod 100 < n mod 100"
    by (simp add: pad4_pad2 list_less_append pad2_less pad2_eq)
  also have "\<dots> \<longleftrightarrow> 100 * (m div 100) + m mod 100 < 100 * (n div 100) + n mod 100"
    using mod_less_divisor[of 100 m] mod_less_divisor[of 100 n] by linarith
  finally show ?thesis by simp
qed

lemma pad4_eq: "m < 10000 \<Longrightarrow> n < 10000 \<Longrightarrow> pad4 m = pad4 n \<longleftrightarrow> m = n"
  using pad4_less by (metis less_irrefl linorder_neqE_nat)

lemma pad2_field_less:
  "m < 100 \<Longrightarrow> n < 100 \<Longrightarrow> pad2 m @ c # x < pad2 n @ c # y \<longleftrightarrow> m < n \<or> m = n \<and> x < y"
  by (simp add: list_less_append pad2_less pad2_eq)

lemma pad4_field_less:
  "m < 10000 \<Longrightarrow> n < 10000 \<Longrightarrow> pad4 m @ c # x < pad4 n @ c # y \<longleftrightarrow> m < n \<or> m = n \<and> x < y"
  by (simp add: list_less_append pad4_less pad4_eq)

lemma date_of_days_mono: "d < d' \<Longrightarrow> date_of_days d < date_of_days d'"
  using year_of_days_mono[of d d'] month_day_mono
  by (auto simp: date_of_days_def Let_def split: prod.splits)

lemma date_of_days_bound:
  assumes "date_of_days d = (y, mo, da)" and "d < 3652059"
  shows "1 \<le> y \<and> y < 10000 \<and> mo < 100 \<and> da < 100"
proof -
  obtain r where y: "year_of_days d = (y, r)" and md: "month_day (month_lens y) 1 r = (mo, da)"
    using assms(1) by (auto simp: date_of_days_def Let_def split: prod.splits)
  have b: "1 \<le> y \<and> y \<le> 9999 \<and> r < year_len y" using y assms(2) by (rule year_of_days_bound)
  then have "r < sum_list (month_lens y)" by (auto simp: year_len_def month_lens_def)
  moreover have "\<forall>l\<in>set (month_lens y). l \<le> 31" "length (month_lens y) = 12"
    by (auto simp: month_lens_def)
  ultimately show ?thesis using month_day_bound[OF md] b by simp
qed

lemma time_of_secs_mono: "s < s' \<Longrightarrow> time_of_secs s < time_of_secs s'"
proof -
  assume l: "s < s'"
  have d: "k div 3600 = k div 60 div 60" for k :: nat using div_mult2_eq[of k 60 60] by simp
  have step: "a div 60 < b div 60 \<or> a div 60 = b div 60 \<and> a mod 60 < b mod 60" if "a < b" for a b :: nat
    using that div_mult_mod_eq[of a 60] div_mult_mod_eq[of b 60]
    by (metis add_less_cancel_left div_le_mono le_neq_implies_less less_imp_le)
  show ?thesis
    using step[OF l] step[of "s div 60" "s' div 60"] by (auto simp: time_of_secs_def d)
qed

lemma time_of_secs_bound:
  "time_of_secs s = (h, mi, se) \<Longrightarrow> s < 86400 \<Longrightarrow> h < 100 \<and> mi < 100 \<and> se < 100"
  using mod_less_divisor[of 60 "s div 60"] mod_less_divisor[of 60 s]
  by (auto simp: time_of_secs_def less_mult_imp_div_less)

lemma strftime_z_strict_mono:
  assumes "t < t'" and "t' < datetime_end"
  shows "strftime_z t < strftime_z t'"
proof -
  obtain y mo da where D: "date_of_days (t div 86400) = (y, mo, da)" by (cases "date_of_days (t div 86400)")
  obtain y' mo' da' where D': "date_of_days (t' div 86400) = (y', mo', da')" by (cases "date_of_days (t' div 86400)")
  obtain h mi s where T: "time_of_secs (t mod 86400) = (h, mi, s)" by (cases "time_of_secs (t mod 86400)")
  obtain h' mi' s' where T': "time_of_secs (t' mod 86400) = (h', mi', s')" by (cases "time_of_secs (t' mod 86400)")
  have lt: "t div 86400 < 3652059" "t' div 86400 < 3652059"
    using assms by (auto simp: datetime_end_def less_mult_imp_div_less)
  note bs = date_of_days_bound[OF D lt(1)] date_of_days_bound[OF D' lt(2)]
    time_of_secs_bound[OF T] time_of_secs_bound[OF T']
  have "t div 86400 < t' div 86400 \<or> t div 86400 = t' div 86400 \<and> t mod 86400 < t' mod 86400"
    using assms(1) by (metis add_less_cancel_left div_le_mono div_mult_mod_eq le_neq_implies_less less_imp_le)
  then have "(y, mo, da) < (y', mo', da') \<or> (y, mo, da) = (y', mo', da') \<and> (h, mi, s) < (h', mi', s')"
    using date_of_days_mono D D' time_of_secs_mono T T' by metis
  then show ?thesis
    using bs by (auto simp: strftime_z_def D D' T T' pad4_field_less pad2_field_less)
qed

text \<open>
  The interface through which the handlers compare timestamps: a rendering of instants into
  an ordered column type that keeps the order of time up to a horizon.
\<close>

locale chronological =
  fixes stamp :: "nat \<Rightarrow> 's::linorder" and horizon :: nat
  assumes stamp_strict: "t < t' \<Longrightarrow> t' < horizon \<Longrightarrow> stamp t < stamp t'"
begin

lemma stamp_less_iff: "t < horizon \<Longrightarrow> t' < horizon \<Longrightarrow> stamp t < stamp t' \<longleftrightarrow> t < t'"
  using stamp_strict by (metis linorder_neqE_nat not_less_iff_gr_or_eq)

lemma stamp_le_iff: "t < horizon \<Longrightarrow> t' < horizon \<Longrightarrow> stamp t \<le> stamp t' \<longleftrightarrow> t \<le> t'"
  using stamp_less_iff by (metis linorder_not_le)

lemma stamp_eq_iff: "t < horizon \<Longrightarrow> t' < horizon \<Longrightarrow> stamp t = stamp t' \<longleftrightarrow> t = t'"
  using stamp_less_iff by (metis less_irrefl linorder_neqE_nat)

lemma deadline_open: "n < n' + d \<Longrightarrow> n' + d < horizon \<Longrightarrow> stamp n < stamp (n' + d)"
  by (simp add: stamp_strict)

lemma deadline_passed: "n' + d \<le> n \<Longrightarrow> n < horizon \<Longrightarrow> stamp (n' + d) \<le> stamp n"
  using stamp_le_iff by simp

end

interpretation utc: chronological strftime_z datetime_end
  by unfold_locales (rule strftime_z_strict_mono)

text \<open>
  Comparing the stored time texts compares the instants: two datetimes that \<open>to_utc_z\<close> can
  write are ordered as their UTC seconds, whatever their offsets are, so the text comparisons of
  expiry times throughout the program decide what they mean.
\<close>

theorem to_utc_z_order:
  assumes "to_utc_z a = Inr s" and "to_utc_z b = Inr t"
  shows "(s < t \<longleftrightarrow> projr (coerce_utc a) < projr (coerce_utc b)) \<and>
     (s = t \<longleftrightarrow> projr (coerce_utc a) = projr (coerce_utc b))"
proof -
  from assms obtain i j where "coerce_utc a = Inr i" "s = strftime_z i" "coerce_utc b = Inr j" "t = strftime_z j"
    by (auto simp: to_utc_z_def andThen_eq_Inr)
  then show ?thesis using coerce_utc_bound utc.stamp_less_iff utc.stamp_eq_iff by auto
qed

lemma to_utc_z_order_witness:
  "\<exists>s t. to_utc_z \<lparr>dt_wall = 63912139200, dt_micros = 0, dt_offset = Some 3600\<rparr> = Inr s \<and>
     to_utc_z \<lparr>dt_wall = 63912138000, dt_micros = 5, dt_offset = None\<rparr> = Inr t \<and> s < t"
proof -
  let ?a = "\<lparr>dt_wall = 63912139200, dt_micros = 0, dt_offset = Some 3600\<rparr>"
  let ?b = "\<lparr>dt_wall = 63912138000, dt_micros = 5, dt_offset = None\<rparr>"
  have c: "coerce_utc ?a = Inr 63912135600" "coerce_utc ?b = Inr 63912138000"
    by (simp_all add: coerce_utc_def datetime_end_def)
  then obtain s t where "to_utc_z ?a = Inr s" "to_utc_z ?b = Inr t" by (simp add: to_utc_z_def)
  with to_utc_z_order[OF this] c show ?thesis by simp
qed

end
