(* ===== verification/Authorization.thy ===== *)
theory Authorization
  imports Json_Text Clock
begin

text \<open>
  \<open>app/authorization.py\<close>: permissions, scoped grants and the principal that carries them, the
  in-memory permission tests, the SQL clauses that filter list queries, the grants loaded from role
  bindings, the audit log writer with its redaction, and the start-up check of the route table.
\<close>

section \<open>Permissions\<close>

definition all_permissions :: "string list" where
  "all_permissions =
    [''action.approve'', ''action.request'', ''approval.decide'', ''approval.grant'', ''approval.read'',
     ''approval.request'', ''audit.read'', ''audit.export'', ''bulk_action.execute'', ''catalog.read'',
     ''command.execute'', ''compliance.exception'', ''compliance_evidence.export'',
     ''containment.execute'', ''containment.release'', ''credential.admin'',
     ''device_credential.manage'', ''dynamic_group.manage'', ''dynamic_group.read'',
     ''endpoint.approve'', ''endpoint.read'', ''evidence.collect'', ''evidence.read'',
     ''enrollment.admin'', ''enrollment.manage'', ''enrollment.read'', ''hierarchy.manage'',
     ''hierarchy.read'', ''identity.manage'', ''installer_artifact.download'',
     ''installer_profile.manage'', ''installer_profile.read'', ''incident.manage'', ''inventory.read'',
     ''inventory.refresh'', ''process.mutate'', ''reboot.execute'', ''response_action.create'',
     ''response_action.read'', ''saved_view.manage'', ''saved_view.read'', ''schedule.approve'',
     ''schedule.create'', ''service.mutate'', ''tag.manage'', ''tag.read'', ''terminal.open'']"

definition readonly_permissions :: "string list" where
  "readonly_permissions =
    [''approval.read'', ''audit.read'', ''catalog.read'', ''compliance_evidence.export'',
     ''dynamic_group.read'', ''endpoint.read'', ''evidence.read'', ''hierarchy.read'',
     ''inventory.read'', ''installer_profile.read'', ''response_action.read'', ''saved_view.read'',
     ''tag.read'']"

definition legacy_operator_permissions :: "string list" where
  "legacy_operator_permissions =
    [''approval.decide'', ''approval.grant'', ''approval.read'', ''approval.request'', ''audit.read'',
     ''catalog.read'', ''compliance_evidence.export'', ''device_credential.manage'',
     ''dynamic_group.manage'', ''dynamic_group.read'', ''endpoint.approve'', ''endpoint.read'',
     ''enrollment.manage'', ''enrollment.read'', ''hierarchy.manage'', ''hierarchy.read'',
     ''installer_artifact.download'', ''installer_profile.manage'', ''installer_profile.read'',
     ''response_action.create'', ''response_action.read'', ''saved_view.manage'', ''saved_view.read'',
     ''tag.manage'', ''tag.read'']"

section \<open>Grants and principals\<close>

record scope_grant =
  sg_binding :: string
  sg_role_key :: string
  sg_scope :: scope_type
  sg_client :: "string option"
  sg_location :: "string option"
  sg_permissions :: "string set"

definition permits :: "scope_grant \<Rightarrow> string \<Rightarrow> string option \<Rightarrow> string option \<Rightarrow> bool" where
  "permits g permission client location =
     (if permission \<notin> sg_permissions g then False
      else if sg_scope g = GlobalScope then True
      else if client = None \<or> sg_client g \<noteq> client then False
      else if sg_scope g = ClientScope then True
      else location \<noteq> None \<and> sg_location g = location)"

definition synthetic_global_grant :: "string \<Rightarrow> string list \<Rightarrow> scope_grant" where
  "synthetic_global_grant role_key permissions =
     \<lparr>sg_binding = ''synthetic:'' @ role_key, sg_role_key = role_key, sg_scope = GlobalScope,
      sg_client = None, sg_location = None, sg_permissions = set permissions\<rparr>"

datatype principal_role = Operator | Readonly | Human | Agent | Enrollment

datatype auth_method = DevelopmentOpen | OperatorToken | ReadonlyToken | AgentToken
  | DeviceCredential | EnrollmentTokenAuth | ExternalProxy | OidcSession

fun auth_method_value :: "auth_method \<Rightarrow> string" where
  "auth_method_value DevelopmentOpen = ''development_open''"
| "auth_method_value OperatorToken = ''operator_token''"
| "auth_method_value ReadonlyToken = ''readonly_token''"
| "auth_method_value AgentToken = ''agent_token''"
| "auth_method_value DeviceCredential = ''device_credential''"
| "auth_method_value EnrollmentTokenAuth = ''enrollment_token''"
| "auth_method_value ExternalProxy = ''external_proxy''"
| "auth_method_value OidcSession = ''oidc_session''"

record principal =
  p_subject :: string
  p_display_name :: string
  p_role :: principal_role
  p_method :: auth_method
  p_user :: "string option"
  p_identity :: "string option"
  p_session :: "string option"
  p_grants :: "scope_grant list"
  p_endpoint :: "string option"
  p_credential :: "string option"
  p_token :: "string option"

definition audit_actor :: "principal \<Rightarrow> string" where
  "audit_actor p = p_subject p"

section \<open>Permission tests\<close>

definition has_permission :: "principal \<Rightarrow> string \<Rightarrow> bool" where
  "has_permission p permission = list_ex (\<lambda>g. permission \<in> sg_permissions g) (p_grants p)"

definition permits_scope :: "principal \<Rightarrow> string \<Rightarrow> string option \<Rightarrow> string option \<Rightarrow> bool" where
  "permits_scope p permission client location =
     list_ex (\<lambda>g. permits g permission client location) (p_grants p)"

definition require_permission :: "string \<Rightarrow> principal \<Rightarrow> principal result" where
  "require_permission permission p =
     (if p_role p \<in> {Agent, Enrollment} \<or> \<not> has_permission p permission
      then Inl (HTTPException 403 ''permission denied'') else Inr p)"

definition has_global_permission :: "principal \<Rightarrow> string \<Rightarrow> bool" where
  "has_global_permission p permission =
     list_ex (\<lambda>g. sg_scope g = GlobalScope \<and> permission \<in> sg_permissions g) (p_grants p)"

definition require_global_permission :: "principal \<Rightarrow> string \<Rightarrow> unit result" where
  "require_global_permission p permission =
     ensure (has_global_permission p permission) (HTTPException 403 ''global permission is required'')"

definition require_scope :: "principal \<Rightarrow> string \<Rightarrow> string \<Rightarrow> string option \<Rightarrow> bool \<Rightarrow> unit result" where
  "require_scope p permission client location conceal =
     (if permits_scope p permission (Some client) location then Inr ()
      else if conceal then Inl (HTTPException 404 ''resource not found'')
      else Inl (HTTPException 403 ''permission denied for scope''))"

section \<open>SQL clauses\<close>

text \<open>
  A clause over the client and location columns of a row.  Comparisons with \<open>NULL\<close> are unknown
  (\<open>None\<close>), the connectives are SQL's three-valued ones, and \<open>WHERE\<close> keeps the rows whose
  clause is true.
\<close>

datatype clause = CTrue | CFalse | CClient string | CLocation string
  | CAnd clause clause | COr "clause list" | CClientIn "string list"

definition sql_eq :: "string option \<Rightarrow> string \<Rightarrow> bool option" where
  "sql_eq column v = map_option (\<lambda>x. x = v) column"

fun sql_and :: "bool option \<Rightarrow> bool option \<Rightarrow> bool option" where
  "sql_and (Some False) _ = Some False"
| "sql_and _ (Some False) = Some False"
| "sql_and (Some True) (Some True) = Some True"
| "sql_and _ _ = None"

fun sql_or :: "bool option \<Rightarrow> bool option \<Rightarrow> bool option" where
  "sql_or (Some True) _ = Some True"
| "sql_or _ (Some True) = Some True"
| "sql_or (Some False) (Some False) = Some False"
| "sql_or _ _ = None"

fun eval_clause :: "string option \<Rightarrow> string option \<Rightarrow> clause \<Rightarrow> bool option" where
  "eval_clause c l CTrue = Some True"
| "eval_clause c l CFalse = Some False"
| "eval_clause c l (CClient v) = sql_eq c v"
| "eval_clause c l (CLocation v) = sql_eq l v"
| "eval_clause c l (CAnd a b) = sql_and (eval_clause c l a) (eval_clause c l b)"
| "eval_clause c l (COr cs) = foldr sql_or (map (eval_clause c l) cs) (Some False)"
| "eval_clause c l (CClientIn vs) = foldr sql_or (map (sql_eq c) vs) (Some False)"

definition where_clause :: "clause \<Rightarrow> string option \<Rightarrow> string option \<Rightarrow> bool" where
  "where_clause cl c l \<longleftrightarrow> eval_clause c l cl = Some True"

text \<open>The loop of \<open>scope_clause\<close> with the clauses collected so far.\<close>

fun scope_clause_loop :: "string \<Rightarrow> clause list \<Rightarrow> scope_grant list \<Rightarrow> clause" where
  "scope_clause_loop permission acc [] = (if acc \<noteq> [] then COr acc else CFalse)"
| "scope_clause_loop permission acc (g # gs) =
     (if permission \<notin> sg_permissions g then scope_clause_loop permission acc gs
      else case (sg_scope g, sg_client g, sg_location g) of
        (GlobalScope, _, _) \<Rightarrow> CTrue
      | (ClientScope, Some c, _) \<Rightarrow> scope_clause_loop permission (acc @ [CClient c]) gs
      | (LocationScope, Some c, Some l) \<Rightarrow>
          scope_clause_loop permission (acc @ [CAnd (CClient c) (CLocation l)]) gs
      | _ \<Rightarrow> scope_clause_loop permission acc gs)"

definition scope_clause :: "principal \<Rightarrow> string \<Rightarrow> clause" where
  "scope_clause p permission = scope_clause_loop permission [] (p_grants p)"

fun client_scope_loop :: "string \<Rightarrow> string set \<Rightarrow> scope_grant list \<Rightarrow> clause" where
  "client_scope_loop permission ids [] = (if ids \<noteq> {} then CClientIn (sorted_list_of_set ids) else CFalse)"
| "client_scope_loop permission ids (g # gs) =
     (if permission \<notin> sg_permissions g then client_scope_loop permission ids gs
      else if sg_scope g = GlobalScope then CTrue
      else case sg_client g of None \<Rightarrow> client_scope_loop permission ids gs
      | Some c \<Rightarrow> client_scope_loop permission (insert c ids) gs)"

definition client_scope_clause :: "principal \<Rightarrow> string \<Rightarrow> clause" where
  "client_scope_clause p permission = client_scope_loop permission {} (p_grants p)"

section \<open>Grants of a user\<close>

text \<open>The inner join of bindings, roles and role permissions, ordered by binding and permission.\<close>

definition grant_join :: "db \<Rightarrow> string \<Rightarrow> (binding_row \<times> string \<times> string) list" where
  "grant_join db user =
     order_by (\<lambda>(b, _, permission). (bi_id b, permission))
       [(b, ro_key r, rp_permission q).
          b \<leftarrow> db_bindings db, bi_user b = user \<and> bi_revoked_at b = None,
          r \<leftarrow> db_roles db, ro_id r = bi_role b,
          q \<leftarrow> db_role_permissions db, rp_role q = ro_id r]"

text \<open>The two dictionaries the loop fills: permissions and the last row of each binding.\<close>

fun collect_grants :: "(string \<Rightarrow> string set) \<Rightarrow> (string \<Rightarrow> (binding_row \<times> string) option) \<Rightarrow>
    (binding_row \<times> string \<times> string) list \<Rightarrow>
    (string \<Rightarrow> string set) \<times> (string \<Rightarrow> (binding_row \<times> string) option)" where
  "collect_grants perms rows [] = (perms, rows)"
| "collect_grants perms rows ((b, role_key, permission) # rest) =
     collect_grants (perms(bi_id b := insert permission (perms (bi_id b))))
       (rows(bi_id b \<mapsto> (b, role_key))) rest"

definition load_user_grants :: "db \<Rightarrow> string \<Rightarrow> scope_grant list" where
  "load_user_grants db user =
     (let joined = grant_join db user;
          (perms, rows) = collect_grants (\<lambda>_. {}) (\<lambda>_. None) joined
      in map (\<lambda>k. case rows k of Some (b, role_key) \<Rightarrow>
           \<lparr>sg_binding = bi_id b, sg_role_key = role_key, sg_scope = bi_scope b,
            sg_client = bi_client b, sg_location = bi_location b, sg_permissions = perms k\<rparr>)
         (sort (remdups (map (\<lambda>(b, _, _). bi_id b) joined))))"

section \<open>The audit log\<close>

definition contains_text :: "string \<Rightarrow> string \<Rightarrow> bool" where
  "contains_text marker s = list_ex (\<lambda>i. take (length marker) (drop i s) = marker) [0..<Suc (length s)]"

definition redaction_markers :: "string list" where
  "redaction_markers = [''token'', ''secret'', ''password'', ''credential'', ''verifier'', ''code'']"

definition sensitive_key :: "string \<Rightarrow> bool" where
  "sensitive_key key = list_ex (\<lambda>marker. contains_text marker (lower key)) redaction_markers"

fun redact_metadata :: "json \<Rightarrow> json" where
  "redact_metadata (JObj kvs) = JObj (map (\<lambda>kv.
     if sensitive_key (fst kv) then (fst kv, JStr ''[REDACTED]'')
     else (fst kv, redact_metadata (snd kv))) kvs)"
| "redact_metadata (JList xs) = JList (take 100 (map redact_metadata xs))"
| "redact_metadata v = v"

text \<open>The keyword arguments of \<open>record_audit_event\<close>.\<close>

record audit_call =
  ax_type :: string
  ax_principal :: "principal option"
  ax_actor :: "string option"
  ax_method :: "string option"
  ax_outcome :: audit_outcome
  ax_client :: "string option"
  ax_location :: "string option"
  ax_endpoint :: "string option"
  ax_target_type :: "string option"
  ax_target_id :: "string option"
  ax_request :: "string option"
  ax_metadata :: "(string \<times> json) list"
  ax_created_at :: "string option"

definition audit_call_of :: "string \<Rightarrow> audit_call" where
  "audit_call_of event_type =
     \<lparr>ax_type = event_type, ax_principal = None, ax_actor = None, ax_method = None,
      ax_outcome = OutcomeSuccess, ax_client = None, ax_location = None, ax_endpoint = None,
      ax_target_type = None, ax_target_id = None, ax_request = None, ax_metadata = [],
      ax_created_at = None\<rparr>"

text \<open>Python's \<open>a or b\<close> on an optional text: the empty text is false.\<close>

definition text_or :: "string option \<Rightarrow> string \<Rightarrow> string" where
  "text_or a b = (case a of Some t \<Rightarrow> if t \<noteq> [] then t else b | None \<Rightarrow> b)"

definition safe_metadata :: "(string \<times> json) list \<Rightarrow> json" where
  "safe_metadata metadata =
     (let safe = redact_metadata (JObj metadata)
      in if 8192 < json_bytes True safe then JObj [(''truncated'', JBool True)] else safe)"

definition audit_event :: "string \<Rightarrow> string \<Rightarrow> audit_call \<Rightarrow> audit_row" where
  "audit_event u now x =
     \<lparr>au_id = generate_prefixed_id ''aud'' u, au_type = ax_type x, au_outcome = ax_outcome x,
      au_actor = text_or (ax_actor x) (case ax_principal x of Some p \<Rightarrow> audit_actor p | None \<Rightarrow> ''system''),
      au_user = (case ax_principal x of Some p \<Rightarrow> p_user p | None \<Rightarrow> None),
      au_method = text_or (ax_method x)
        (case ax_principal x of Some p \<Rightarrow> auth_method_value (p_method p) | None \<Rightarrow> ''system''),
      au_client = ax_client x, au_location = ax_location x, au_endpoint = ax_endpoint x,
      au_target_type = ax_target_type x, au_target_id = ax_target_id x, au_request_id = ax_request x,
      au_metadata = safe_metadata (ax_metadata x),
      au_created_at = text_or (ax_created_at x) now\<rparr>"

definition record_audit_event :: "string \<Rightarrow> string \<Rightarrow> audit_call \<Rightarrow> db \<Rightarrow> db result" where
  "record_audit_event u now x db = insert_audit (audit_event u now x) db"

lemma record_audit_Inr:
  "record_audit_event u now x db = Inr db' \<Longrightarrow> db' = db\<lparr>db_audits := db_audits db @ [audit_event u now x]\<rparr>"
  unfolding record_audit_event_def by (rule insert_audit_frame)

section \<open>The route table\<close>

text \<open>
  A FastAPI route: its path, its methods, whether it is an \<open>APIRoute\<close>, and the permissions of
  its \<open>require_permission\<close> dependencies.
\<close>

record api_route =
  rt_api :: bool
  rt_path :: string
  rt_methods :: "string list"
  rt_permissions :: "string list"

definition special_route_policies :: "((string \<times> string) \<times> string) list" where
  "special_route_policies =
    [((''GET'', ''/api/auth/oidc/login''), ''public:oidc_login''),
     ((''GET'', ''/api/auth/oidc/callback''), ''public:oidc_callback''),
     ((''GET'', ''/api/auth/session''), ''self:session''),
     ((''POST'', ''/api/auth/logout''), ''self:logout''),
     ((''POST'', ''/api/auth/logout-all''), ''self:logout_all''),
     ((''POST'', ''/api/endpoints/enroll''), ''agent:legacy_enroll''),
     ((''POST'', ''/api/endpoints/{endpoint_id}/heartbeat''), ''agent:heartbeat''),
     ((''POST'', ''/api/posture-snapshots''), ''agent:posture''),
     ((''POST'', ''/api/endpoints/{endpoint_id}/response-actions/claim''), ''agent:action_claim''),
     ((''POST'', ''/api/response-actions/{response_action_id}/result''), ''agent:action_result''),
     ((''POST'', ''/api/agent/bootstrap''), ''enrollment:bootstrap''),
     ((''GET'', ''/api/agent/me''), ''device:self''),
     ((''POST'', ''/api/agent/credentials/rotate''), ''device:credential_rotate'')]"

record classification =
  cf_classes :: "(string \<times> string) \<Rightarrow> string option"
  cf_actual :: "(string \<times> string) list"
  cf_errors :: "string list"

definition classify_method :: "api_route \<Rightarrow> string \<Rightarrow> classification \<Rightarrow> classification" where
  "classify_method route method st =
     (if method \<in> {''HEAD'', ''OPTIONS''} then st
      else
        let key = (method, rt_path route);
            st = st\<lparr>cf_actual := cf_actual st @ [key]\<rparr>;
            deps = remdups (rt_permissions route)
        in case map_of special_route_policies key of
          Some policy \<Rightarrow>
            st\<lparr>cf_errors := cf_errors st @ (if deps \<noteq> []
                 then [method @ '' '' @ rt_path route @ '' has conflicting special and permission policy'']
                 else []),
               cf_classes := (cf_classes st)(key \<mapsto> policy)\<rparr>
        | None \<Rightarrow>
            (case deps of
               [permission] \<Rightarrow> st\<lparr>cf_classes := (cf_classes st)(key \<mapsto> ''human:'' @ permission)\<rparr>
             | _ \<Rightarrow> st\<lparr>cf_errors := cf_errors st @
                 [method @ '' '' @ rt_path route @ '' requires exactly one human permission dependency'']\<rparr>))"

definition classify_route :: "classification \<Rightarrow> api_route \<Rightarrow> classification" where
  "classify_route st route =
     (if \<not> rt_api route \<or> \<not> startswith (rt_path route) ''/api/'' then st
      else foldl (\<lambda>st method. classify_method route method st) st (sort (remdups (rt_methods route))))"

definition classify_api_routes :: "api_route list \<Rightarrow> ((string \<times> string) \<Rightarrow> string option) result" where
  "classify_api_routes routes =
     (let st = foldl classify_route \<lparr>cf_classes = (\<lambda>_. None), cf_actual = [], cf_errors = []\<rparr> routes;
          stale = filter (\<lambda>k. k \<notin> set (cf_actual st)) (map fst special_route_policies);
          errors = cf_errors st @ map (\<lambda>(method, path). ''stale special route policy for '' @ method @ '' '' @ path)
            (sort stale)
      in if errors \<noteq> [] then Inl (RuntimeError (''invalid API route authorization policy: '' @ join ''; '' errors))
         else Inr (cf_classes st))"

section \<open>Clauses and permission tests agree\<close>

lemma sql_or_true [simp]: "sql_or a b = Some True \<longleftrightarrow> a = Some True \<or> b = Some True"
  by (cases "(a, b)" rule: sql_or.cases) auto

lemma sql_and_true [simp]: "sql_and a b = Some True \<longleftrightarrow> a = Some True \<and> b = Some True"
  by (cases "(a, b)" rule: sql_and.cases) auto

lemma foldr_sql_or_true: "foldr sql_or vs (Some False) = Some True \<longleftrightarrow> Some True \<in> set vs"
  by (induction vs) auto

lemma some_true_image: "Some True \<in> f ` A \<longleftrightarrow> (\<exists>x\<in>A. f x = Some True)"
  by force

lemma sql_eq_true [simp]: "sql_eq column v = Some True \<longleftrightarrow> column = Some v"
  by (cases column) (auto simp: sql_eq_def)

lemma scope_clause_loop_true:
  "eval_clause c l (scope_clause_loop permission acc gs) = Some True \<longleftrightarrow>
     (\<exists>a\<in>set acc. eval_clause c l a = Some True) \<or> (\<exists>g\<in>set gs. permits g permission c l)"
proof (induction gs arbitrary: acc)
  case Nil
  then show ?case by (auto simp: foldr_sql_or_true some_true_image)
next
  case (Cons g gs)
  show ?case
    by (cases "sg_scope g"; cases "sg_client g"; cases "sg_location g")
      (auto simp: Cons.IH permits_def)
qed

lemma client_scope_loop_true:
  assumes "finite ids"
  shows "eval_clause (Some c) l (client_scope_loop permission ids gs) = Some True \<longleftrightarrow>
     c \<in> ids \<or> (\<exists>g\<in>set gs. permission \<in> sg_permissions g \<and> (sg_scope g = GlobalScope \<or> sg_client g = Some c))"
  using assms
proof (induction gs arbitrary: ids)
  case Nil
  then show ?case by (auto simp: foldr_sql_or_true some_true_image)
next
  case (Cons g gs)
  then show ?case by (cases "sg_client g") (auto simp: Cons.IH)
qed

text \<open>
  C7.  The list filter and the object check never disagree: on every row, whatever its columns and
  however malformed a grant is, the SQL clause of \<open>scope_clause\<close> keeps the row iff
  \<open>permits_scope\<close> allows the principal to see it.
\<close>

theorem scope_clause_permits:
  "where_clause (scope_clause p permission) client location \<longleftrightarrow> permits_scope p permission client location"
  by (simp add: where_clause_def scope_clause_def scope_clause_loop_true permits_scope_def list_ex_iff)

text \<open>
  The client list shows exactly the clients under which the principal's grants reach
  something: those of a global grant or of a grant, for the client or one of its locations, that
  names it.
\<close>

theorem client_scope_clause_lists:
  "where_clause (client_scope_clause p permission) (Some c) location \<longleftrightarrow>
     (\<exists>g\<in>set (p_grants p). permission \<in> sg_permissions g \<and>
        (sg_scope g = GlobalScope \<or> sg_client g = Some c))"
  by (simp add: where_clause_def client_scope_clause_def client_scope_loop_true)

section \<open>Loaded grants\<close>

lemma collect_grants_perms:
  "fst (collect_grants perms rows js) k = perms k \<union> (\<lambda>j. snd (snd j)) ` {j \<in> set js. bi_id (fst j) = k}"
proof (induction perms rows js rule: collect_grants.induct)
  case (2 perms rows b r q rest)
  have "{j \<in> set ((b, r, q) # rest). bi_id (fst j) = k} =
      (if bi_id b = k then {(b, r, q)} else {}) \<union> {j \<in> set rest. bi_id (fst j) = k}" by auto
  then show ?case by (auto simp: 2 image_Un)
qed simp

lemma collect_grants_dom:
  "dom (snd (collect_grants perms rows js)) = dom rows \<union> (\<lambda>j. bi_id (fst j)) ` set js"
proof (induction perms rows js rule: collect_grants.induct)
  case (2 perms rows b r q rest)
  show ?case by (subst collect_grants.simps, subst 2) auto
qed simp

lemma collect_grants_rows_from:
  "snd (collect_grants perms rows js) k = Some (b, r) \<Longrightarrow>
     rows k = Some (b, r) \<or> (bi_id b = k \<and> (\<exists>q. (b, r, q) \<in> set js))"
  by (induction perms rows js rule: collect_grants.induct) (fastforce split: if_splits)+

definition binding_of_user :: "db \<Rightarrow> string \<Rightarrow> binding_row \<Rightarrow> bool" where
  "binding_of_user db user b \<longleftrightarrow> b \<in> set (db_bindings db) \<and> bi_user b = user \<and> bi_revoked_at b = None"

definition role_permission :: "db \<Rightarrow> role_row \<Rightarrow> string \<Rightarrow> bool" where
  "role_permission db r q \<longleftrightarrow> (\<exists>x\<in>set (db_role_permissions db). rp_role x = ro_id r \<and> rp_permission x = q)"

lemma in_grant_join:
  "(b, k, q) \<in> set (grant_join db user) \<longleftrightarrow> binding_of_user db user b \<and>
     (\<exists>r\<in>set (db_roles db). ro_id r = bi_role b \<and> ro_key r = k \<and> role_permission db r q)"
  by (auto simp: grant_join_def binding_of_user_def role_permission_def) metis

lemma grant_join_of_binding:
  assumes "unique_on bi_id (db_bindings db)" and "unique_on ro_id (db_roles db)"
    and b: "binding_of_user db user b" and r: "r \<in> set (db_roles db)" "ro_id r = bi_role b"
  shows "(b', k, q) \<in> set (grant_join db user) \<and> bi_id b' = bi_id b \<longleftrightarrow>
     b' = b \<and> k = ro_key r \<and> role_permission db r q"
proof -
  have "b' = b" if "binding_of_user db user b'" "bi_id b' = bi_id b"
    using that b unique_onD[OF assms(1)] by (simp add: binding_of_user_def)
  moreover have "r' = r" if "r' \<in> set (db_roles db)" "ro_id r' = bi_role b" for r'
    using that r unique_onD[OF assms(2)] by simp
  ultimately show ?thesis using b r unfolding in_grant_join by blast
qed

definition grant_of_binding :: "db \<Rightarrow> binding_row \<Rightarrow> role_row \<Rightarrow> scope_grant" where
  "grant_of_binding db b r =
     \<lparr>sg_binding = bi_id b, sg_role_key = ro_key r, sg_scope = bi_scope b, sg_client = bi_client b,
      sg_location = bi_location b, sg_permissions = Collect (role_permission db r)\<rparr>"

lemma load_user_grants_set:
  assumes ub: "unique_on bi_id (db_bindings db)" and ur: "unique_on ro_id (db_roles db)"
  shows "g \<in> set (load_user_grants db user) \<longleftrightarrow>
     (\<exists>b r q. binding_of_user db user b \<and> r \<in> set (db_roles db) \<and> ro_id r = bi_role b \<and>
        role_permission db r q \<and> g = grant_of_binding db b r)"
proof -
  define js where "js = grant_join db user"
  define mk where "mk = (\<lambda>k. case snd (collect_grants (\<lambda>_. {}) (\<lambda>_. None) js) k of Some (b, role_key) \<Rightarrow>
       \<lparr>sg_binding = bi_id b, sg_role_key = role_key, sg_scope = bi_scope b, sg_client = bi_client b,
        sg_location = bi_location b, sg_permissions = fst (collect_grants (\<lambda>_. {}) (\<lambda>_. None) js) k\<rparr>)"
  have set_eq: "set (load_user_grants db user) = mk ` (\<lambda>j. bi_id (fst j)) ` set js"
    by (simp add: load_user_grants_def mk_def Let_def case_prod_unfold image_image flip: js_def)
  have mk_eq: "mk (bi_id b) = grant_of_binding db b r"
    if b: "binding_of_user db user b" and r: "r \<in> set (db_roles db)" "ro_id r = bi_role b"
      and q: "role_permission db r q" for b r q
  proof -
    have "(b, ro_key r, q) \<in> set js" using b r q by (auto simp: js_def in_grant_join)
    then have "bi_id b \<in> dom (snd (collect_grants (\<lambda>_. {}) (\<lambda>_. None) js))"
      unfolding collect_grants_dom by force
    then obtain b' k' where s: "snd (collect_grants (\<lambda>_. {}) (\<lambda>_. None) js) (bi_id b) = Some (b', k')" by auto
    from collect_grants_rows_from[OF this] obtain q' where
      "bi_id b' = bi_id b" "(b', k', q') \<in> set js" by auto
    moreover note joined = grant_join_of_binding[OF ub ur b r, folded js_def]
    ultimately have same: "b' = b" "k' = ro_key r" by blast+
    have "{j \<in> set js. bi_id (fst j) = bi_id b} = (\<lambda>q. (b, ro_key r, q)) ` Collect (role_permission db r)"
      using joined by (auto simp: image_iff) blast+
    then have "fst (collect_grants (\<lambda>_. {}) (\<lambda>_. None) js) (bi_id b) = Collect (role_permission db r)"
      by (simp add: collect_grants_perms image_image)
    then show ?thesis by (simp add: mk_def s same grant_of_binding_def)
  qed
  show ?thesis (is "?L \<longleftrightarrow> ?R")
  proof
    assume ?L
    then obtain j where "j \<in> set js" "g = mk (bi_id (fst j))" by (auto simp: set_eq)
    moreover obtain b k q where "j = (b, k, q)" by (cases j)
    ultimately have "(b, k, q) \<in> set (grant_join db user)" "g = mk (bi_id b)" by (simp_all add: js_def)
    then obtain r where "binding_of_user db user b" "r \<in> set (db_roles db)" "ro_id r = bi_role b"
        "role_permission db r q" "g = mk (bi_id b)" unfolding in_grant_join by blast
    with mk_eq show ?R by metis
  next
    assume ?R
    then obtain b r q where *: "binding_of_user db user b" "r \<in> set (db_roles db)" "ro_id r = bi_role b"
        "role_permission db r q" "g = grant_of_binding db b r" by blast
    then have "(b, ro_key r, q) \<in> set js" by (auto simp: js_def in_grant_join)
    moreover have "g = mk (bi_id b)" using * mk_eq by simp
    ultimately show ?L unfolding set_eq by force
  qed
qed

definition binding_covers :: "binding_row \<Rightarrow> string option \<Rightarrow> string option \<Rightarrow> bool" where
  "binding_covers b client location = (case bi_scope b of
     GlobalScope \<Rightarrow> True
   | ClientScope \<Rightarrow> client \<noteq> None \<and> bi_client b = client
   | LocationScope \<Rightarrow> client \<noteq> None \<and> bi_client b = client \<and> location \<noteq> None \<and> bi_location b = location)"

lemma permits_grant_of_binding:
  "permits (grant_of_binding db b r) q client location \<longleftrightarrow>
     role_permission db r q \<and> binding_covers b client location"
  by (cases "bi_scope b") (auto simp: permits_def grant_of_binding_def binding_covers_def)

text \<open>
  C8.  A signed-in user can do on a scope exactly what the live role bindings say: some binding of
  the user that has not been revoked, whose role holds the permission, covers that client and
  location.  Revoking a binding therefore takes effect with the next request.
\<close>

theorem load_user_grants_permits:
  assumes "unique_on bi_id (db_bindings db)" and "unique_on ro_id (db_roles db)"
  shows "list_ex (\<lambda>g. permits g q client location) (load_user_grants db user) \<longleftrightarrow>
     (\<exists>b\<in>set (db_bindings db). \<exists>r\<in>set (db_roles db).
        bi_user b = user \<and> bi_revoked_at b = None \<and> ro_id r = bi_role b \<and>
        role_permission db r q \<and> binding_covers b client location)"
  unfolding list_ex_iff Bex_def load_user_grants_set[OF assms]
  using permits_grant_of_binding by (auto simp: binding_of_user_def) blast+

definition demo_binding_db :: db where
  "demo_binding_db = empty_db\<lparr>
     db_roles := [\<lparr>ro_id = ''role_op'', ro_key = ''operator'', ro_name = ''Operator'', ro_is_system = True,
       ro_created_at = ''2026-01-01T00:00:00Z'', ro_updated_at = ''2026-01-01T00:00:00Z''\<rparr>],
     db_role_permissions := [\<lparr>rp_role = ''role_op'', rp_permission = ''endpoint.read''\<rparr>],
     db_bindings := [\<lparr>bi_id = ''rb_1'', bi_user = ''usr_1'', bi_role = ''role_op'', bi_scope = ClientScope,
       bi_client = Some ''cli_1'', bi_location = None, bi_created_by = ''system'',
       bi_created_at = ''2026-01-01T00:00:00Z'', bi_revoked_at = None\<rparr>]\<rparr>"

lemma load_user_grants_permits_witness:
  "list_ex (\<lambda>g. permits g ''endpoint.read'' (Some ''cli_1'') (Some ''loc_1'')) (load_user_grants demo_binding_db ''usr_1'')
   \<and> \<not> list_ex (\<lambda>g. permits g ''endpoint.read'' (Some ''cli_2'') None) (load_user_grants demo_binding_db ''usr_1'')"
proof -
  have "unique_on bi_id (db_bindings demo_binding_db)" "unique_on ro_id (db_roles demo_binding_db)"
    by (simp_all add: demo_binding_db_def unique_on_def)
  note perm = load_user_grants_permits[OF this]
  show ?thesis
    unfolding perm by (simp add: demo_binding_db_def role_permission_def binding_covers_def)
qed

section \<open>Redaction\<close>

text \<open>No sensitive key keeps a value, at any depth.\<close>

fun redacted :: "json \<Rightarrow> bool" where
  "redacted (JObj kvs) \<longleftrightarrow> (\<forall>kv\<in>set kvs.
     if sensitive_key (fst kv) then snd kv = JStr ''[REDACTED]'' else redacted (snd kv))"
| "redacted (JList xs) \<longleftrightarrow> length xs \<le> 100 \<and> (\<forall>x\<in>set xs. redacted x)"
| "redacted v \<longleftrightarrow> True"

lemma redacted_redact: "redacted (redact_metadata v)"
  by (induction v rule: redact_metadata.induct) (auto simp: take_map dest: in_set_takeD)

lemma redact_redacted: "redacted v \<Longrightarrow> redact_metadata v = v"
proof (induction v rule: redact_metadata.induct)
  case (1 kvs)
  have "map (\<lambda>kv. if sensitive_key (fst kv) then (fst kv, JStr ''[REDACTED]'')
          else (fst kv, redact_metadata (snd kv))) kvs = map (\<lambda>kv. kv) kvs"
    using 1 by (intro map_cong refl) (auto simp: prod_eq_iff split: if_splits)
  then show ?case by simp
next
  case (2 xs)
  then have "map redact_metadata xs = map (\<lambda>x. x) xs" by (intro map_cong refl) auto
  then show ?case using 2 by simp
qed auto

lemma truncated_redacted: "redacted (JObj [(''truncated'', JBool True)])"
  "json_bytes True (JObj [(''truncated'', JBool True)]) \<le> 8192"
  by code_simp+

text \<open>
  C9.  Whatever metadata a handler passes, the audit row it writes holds no value under a key that
  names a token, secret, password, credential, verifier or code, at any depth; its serialised
  metadata is at most 8192 bytes; and redacting it again changes nothing.
\<close>

theorem audit_metadata_safe:
  "redacted (au_metadata (audit_event u now x)) \<and>
   json_bytes True (au_metadata (audit_event u now x)) \<le> 8192 \<and>
   redact_metadata (au_metadata (audit_event u now x)) = au_metadata (audit_event u now x)"
proof -
  have "redacted (safe_metadata m) \<and> json_bytes True (safe_metadata m) \<le> 8192" for m
    using truncated_redacted redacted_redact
    by (simp add: safe_metadata_def Let_def del: redacted.simps redact_metadata.simps)
  then show ?thesis using redact_redacted by (simp add: audit_event_def)
qed

section \<open>Route classification\<close>

text \<open>The route and method pairs the two loops visit, in order, and what one pair contributes.\<close>

definition route_methods :: "api_route list \<Rightarrow> (api_route \<times> string) list" where
  "route_methods routes = concat (map (\<lambda>r.
     if rt_api r \<and> startswith (rt_path r) ''/api/''
     then map (Pair r) (filter (\<lambda>m. m \<notin> {''HEAD'', ''OPTIONS''}) (sort (remdups (rt_methods r)))) else []) routes)"

definition route_key :: "api_route \<times> string \<Rightarrow> string \<times> string" where
  "route_key rm = (snd rm, rt_path (fst rm))"

definition route_ok :: "api_route \<times> string \<Rightarrow> bool" where
  "route_ok rm = (if map_of special_route_policies (route_key rm) = None
     then length (remdups (rt_permissions (fst rm))) = 1 else rt_permissions (fst rm) = [])"

definition route_class :: "api_route \<times> string \<Rightarrow> string" where
  "route_class rm = (case map_of special_route_policies (route_key rm) of
     Some policy \<Rightarrow> policy | None \<Rightarrow> ''human:'' @ hd (remdups (rt_permissions (fst rm))))"

lemma classify_skip: "m \<in> {''HEAD'', ''OPTIONS''} \<Longrightarrow> classify_method r m st = st"
  by (simp add: classify_method_def)

lemma classify_method_filter:
  "foldl (\<lambda>st m. classify_method r m st) st ms =
     foldl (\<lambda>st m. classify_method r m st) st (filter (\<lambda>m. m \<notin> {''HEAD'', ''OPTIONS''}) ms)"
  by (induction ms arbitrary: st) (auto simp: classify_skip)

lemma foldl_classify_pairs:
  "foldl (\<lambda>st m. classify_method r m st) st ms = foldl (\<lambda>st (r, m). classify_method r m st) st (map (Pair r) ms)"
  by (induction ms arbitrary: st) auto

lemma classify_routes_pairs:
  "foldl classify_route st routes = foldl (\<lambda>st (r, m). classify_method r m st) st (route_methods routes)"
proof (induction routes arbitrary: st)
  case (Cons r routes)
  have "classify_route st r = foldl (\<lambda>st (r, m). classify_method r m st) st (route_methods [r])"
    using classify_method_filter[of r st] by (simp add: classify_route_def route_methods_def foldl_classify_pairs)
  then show ?case by (simp add: Cons.IH route_methods_def)
qed (simp add: route_methods_def)

lemma remdups_single: "remdups xs = [x] \<longleftrightarrow> xs \<noteq> [] \<and> set xs = {x}"
proof
  assume "remdups xs = [x]"
  then have "set xs = set [x]" by (metis set_remdups)
  then show "xs \<noteq> [] \<and> set xs = {x}" by auto
next
  assume *: "xs \<noteq> [] \<and> set xs = {x}"
  then have "set (remdups xs) = {x}" by simp
  moreover have "length (remdups xs) = card (set xs)" by (simp add: length_remdups_card_conv)
  ultimately show "remdups xs = [x]" using * by (cases "remdups xs") auto
qed

lemma classify_method_ok:
  assumes "m \<notin> {''HEAD'', ''OPTIONS''}" and "route_ok (r, m)"
  shows "classify_method r m st = st\<lparr>cf_actual := cf_actual st @ [(m, rt_path r)],
     cf_classes := (cf_classes st)((m, rt_path r) \<mapsto> route_class (r, m))\<rparr>"
proof (cases "map_of special_route_policies (m, rt_path r)")
  case None
  then obtain p where "remdups (rt_permissions r) = [p]"
    using assms by (auto simp: route_ok_def route_key_def length_Suc_conv)
  then show ?thesis using assms None by (simp add: classify_method_def Let_def route_class_def route_key_def)
next
  case (Some policy)
  then have "rt_permissions r = []" using assms by (auto simp: route_ok_def route_key_def)
  then show ?thesis using assms Some by (simp add: classify_method_def Let_def route_class_def route_key_def)
qed

lemma classify_method_errors:
  assumes "m \<notin> {''HEAD'', ''OPTIONS''}"
  shows "\<exists>es. cf_errors (classify_method r m st) = cf_errors st @ es \<and> (es = [] \<longleftrightarrow> route_ok (r, m))"
proof (cases "route_ok (r, m)")
  case True
  then show ?thesis using classify_method_ok[OF assms] by simp
next
  case False
  show ?thesis
  proof (cases "map_of special_route_policies (m, rt_path r)")
    case None
    then have "\<nexists>p. remdups (rt_permissions r) = [p]"
      using False by (auto simp: route_ok_def route_key_def length_Suc_conv)
    then show ?thesis using assms None False
      by (auto simp: classify_method_def Let_def split: list.split)
  next
    case (Some policy)
    then show ?thesis using assms False
      by (auto simp: classify_method_def Let_def route_ok_def route_key_def)
  qed
qed

lemma classify_pairs_errors:
  assumes "\<forall>p\<in>set ps. snd p \<notin> {''HEAD'', ''OPTIONS''}"
  shows "\<exists>es. cf_errors (foldl (\<lambda>st (r, m). classify_method r m st) st ps) = cf_errors st @ es \<and>
     (es = [] \<longleftrightarrow> (\<forall>p\<in>set ps. route_ok p))"
  using assms
proof (induction ps arbitrary: st)
  case (Cons p ps)
  obtain r m where p: "p = (r, m)" by (cases p)
  have "m \<notin> {''HEAD'', ''OPTIONS''}" using Cons.prems p by simp
  from classify_method_errors[OF this] obtain es where
    es: "cf_errors (classify_method r m st) = cf_errors st @ es" "es = [] \<longleftrightarrow> route_ok (r, m)" by blast
  from Cons.IH[of "classify_method r m st"] Cons.prems obtain es' where
    "cf_errors (foldl (\<lambda>st (r, m). classify_method r m st) (classify_method r m st) ps) =
       cf_errors (classify_method r m st) @ es'" "es' = [] \<longleftrightarrow> (\<forall>p\<in>set ps. route_ok p)" by auto
  with es show ?case unfolding p by (intro exI[of _ "es @ es'"]) simp
qed simp

lemma classify_pairs_ok:
  assumes "\<forall>p\<in>set ps. snd p \<notin> {''HEAD'', ''OPTIONS''}" and "\<forall>p\<in>set ps. route_ok p"
  shows "foldl (\<lambda>st (r, m). classify_method r m st) st ps =
     st\<lparr>cf_actual := cf_actual st @ map route_key ps,
        cf_classes := cf_classes st ++ map_of (rev (map (\<lambda>p. (route_key p, route_class p)) ps))\<rparr>"
  using assms
proof (induction ps arbitrary: st)
  case (Cons p ps)
  obtain r m where p: "p = (r, m)" by (cases p)
  have "classify_method r m st = st\<lparr>cf_actual := cf_actual st @ [(m, rt_path r)],
     cf_classes := (cf_classes st)((m, rt_path r) \<mapsto> route_class (r, m))\<rparr>"
    using Cons.prems p by (intro classify_method_ok) auto
  then show ?case using Cons by (simp add: p route_key_def map_add_def fun_eq_iff split: option.splits)
qed simp

lemma classify_api_routes_Inr:
  "classify_api_routes routes = Inr table \<longleftrightarrow>
     (\<forall>p\<in>set (route_methods routes). route_ok p) \<and>
     (\<forall>k\<in>fst ` set special_route_policies. k \<in> route_key ` set (route_methods routes)) \<and>
     table = map_of (rev (map (\<lambda>p. (route_key p, route_class p)) (route_methods routes)))"
proof -
  define ps where "ps = route_methods routes"
  define st0 :: classification where "st0 = \<lparr>cf_classes = (\<lambda>_. None), cf_actual = [], cf_errors = []\<rparr>"
  have ms: "\<forall>p\<in>set ps. snd p \<notin> {''HEAD'', ''OPTIONS''}" by (auto simp: ps_def route_methods_def)
  from classify_pairs_errors[OF this, of st0] obtain es where
    es: "cf_errors (foldl classify_route st0 routes) = es" "es = [] \<longleftrightarrow> (\<forall>p\<in>set ps. route_ok p)"
    by (auto simp: st0_def classify_routes_pairs ps_def)
  show ?thesis
  proof (cases "\<forall>p\<in>set ps. route_ok p")
    case False
    then have "es \<noteq> []" using es by blast
    then show ?thesis using es False by (simp add: classify_api_routes_def Let_def flip: st0_def ps_def)
  next
    case True
    have st: "foldl classify_route st0 routes = st0\<lparr>cf_actual := map route_key ps,
        cf_classes := map_of (rev (map (\<lambda>p. (route_key p, route_class p)) ps))\<rparr>"
      using classify_pairs_ok[OF ms True, of st0] by (simp add: classify_routes_pairs ps_def st0_def)
    have sort_Nil: "sort xs = [] \<longleftrightarrow> xs = []" for xs :: "(string \<times> string) list"
      by (metis set_empty set_sort)
    have "cf_errors st0 = []" "cf_actual st0 = []" by (simp_all add: st0_def)
    then show ?thesis using True
      by (auto simp: classify_api_routes_def Let_def st sort_Nil filter_empty_conv image_iff simp flip: st0_def ps_def)
  qed
qed

text \<open>
  If the application starts, every method of every API route is classified: either the route
  is one of the listed special routes and carries no permission dependency, or exactly one
  permission guards it and is its class.  Nothing else is classified and no special policy is stale.
\<close>

theorem classify_api_routes_complete:
  assumes "classify_api_routes routes = Inr table"
  shows "dom table = {(m, rt_path r) | r m. r \<in> set routes \<and> rt_api r \<and> startswith (rt_path r) ''/api/'' \<and>
            m \<in> set (rt_methods r) \<and> m \<notin> {''HEAD'', ''OPTIONS''}}
    \<and> fst ` set special_route_policies \<subseteq> dom table
    \<and> (\<forall>r m. r \<in> set routes \<and> rt_api r \<and> startswith (rt_path r) ''/api/'' \<and>
            m \<in> set (rt_methods r) \<and> m \<notin> {''HEAD'', ''OPTIONS''} \<longrightarrow>
         (case map_of special_route_policies (m, rt_path r) of
            Some policy \<Rightarrow> rt_permissions r = [] \<and> table (m, rt_path r) = Some policy
          | None \<Rightarrow> \<exists>q. set (rt_permissions r) = {q}))"
  (is "_ = ?keys \<and> _ \<and> ?routes")
proof -
  define ps where "ps = route_methods routes"
  from assms have ok: "\<forall>p\<in>set ps. route_ok p"
    and stale: "\<forall>k\<in>fst ` set special_route_policies. k \<in> route_key ` set ps"
    and table: "table = map_of (rev (map (\<lambda>p. (route_key p, route_class p)) ps))"
    by (auto simp: classify_api_routes_Inr ps_def)
  have in_ps: "(r, m) \<in> set ps \<longleftrightarrow> r \<in> set routes \<and> rt_api r \<and> startswith (rt_path r) ''/api/'' \<and>
      m \<in> set (rt_methods r) \<and> m \<notin> {''HEAD'', ''OPTIONS''}" for r m
    by (auto simp: ps_def route_methods_def)
  have dom: "dom table = route_key ` set ps" by (auto simp: table dom_map_of_conv_image_fst image_image)
  have "route_key ` set ps = {(m, rt_path r) | r m. (r, m) \<in> set ps}" by (force simp: route_key_def)
  then have keys: "route_key ` set ps = ?keys" by (simp only: in_ps conj_assoc)
  have special: "table k = Some policy" if "k \<in> dom table" "map_of special_route_policies k = Some policy" for k policy
  proof -
    from that(1) obtain v where v: "table k = Some v" by auto
    then have "(k, v) \<in> set (rev (map (\<lambda>p. (route_key p, route_class p)) ps))"
      unfolding table by (rule map_of_SomeD)
    then show ?thesis using v that(2) by (auto simp: route_class_def)
  qed
  have "?routes"
  proof (intro allI impI)
    fix r m
    assume "r \<in> set routes \<and> rt_api r \<and> startswith (rt_path r) ''/api/'' \<and> m \<in> set (rt_methods r) \<and> m \<notin> {''HEAD'', ''OPTIONS''}"
    then have rm: "(r, m) \<in> set ps" by (simp add: in_ps)
    then have "(m, rt_path r) \<in> dom table" unfolding dom by (force simp: route_key_def)
    then show "case map_of special_route_policies (m, rt_path r) of
        Some policy \<Rightarrow> rt_permissions r = [] \<and> table (m, rt_path r) = Some policy
      | None \<Rightarrow> \<exists>q. set (rt_permissions r) = {q}"
      using bspec[OF ok rm] special[of "(m, rt_path r)"]
      by (auto simp: route_ok_def route_key_def length_Suc_conv remdups_single split: option.splits)
  qed
  moreover have "dom table = ?keys" using dom keys by (rule trans)
  moreover have "fst ` set special_route_policies \<subseteq> dom table" using stale dom by auto
  ultimately show ?thesis by (intro conjI)
qed

definition demo_route :: "(string \<times> string) \<Rightarrow> api_route" where
  "demo_route k = \<lparr>rt_api = True, rt_path = snd k, rt_methods = [fst k], rt_permissions = []\<rparr>"

definition demo_routes :: "api_route list" where
  "demo_routes = \<lparr>rt_api = True, rt_path = ''/api/clients'', rt_methods = [''GET''], rt_permissions = [''hierarchy.read'']\<rparr>
     # map (\<lambda>e. demo_route (fst e)) special_route_policies"

lemma demo_routes_classified: "\<exists>table. classify_api_routes demo_routes = Inr table"
proof -
  have "(\<forall>p\<in>set (route_methods demo_routes). route_ok p) \<and>
     (\<forall>k\<in>fst ` set special_route_policies. k \<in> route_key ` set (route_methods demo_routes))"
    by code_simp
  then show ?thesis unfolding classify_api_routes_Inr by blast
qed

lemma classify_api_routes_complete_witness:
  "\<exists>table. classify_api_routes demo_routes = Inr table \<and> fst ` set special_route_policies \<subseteq> dom table"
  using demo_routes_classified classify_api_routes_complete by blast

end
