(* ===== verification/Control_Registry.thy ===== *)
theory Control_Registry
  imports Schema
begin

text \<open>
  \<open>app/control_registry.py\<close>: the canonical registry of controls, its alias table for posture
  observations, and the check that a control supports an action on a platform.  The controls of the
  source packs (\<open>load_source_packs\<close>, read from data files) are the argument \<open>packs\<close>, a list of
  packs of (id, title, platform); \<open>lru_cache\<close> makes no difference to a pure function.
\<close>

section \<open>Dictionaries\<close>

text \<open>A Python \<open>dict\<close> is an association list in insertion order with one entry per key.\<close>

definition dict_put :: "'k \<Rightarrow> 'v \<Rightarrow> ('k \<times> 'v) list \<Rightarrow> ('k \<times> 'v) list" where
  "dict_put k v d = (if k \<in> fst ` set d then map (\<lambda>e. if fst e = k then (k, v) else e) d else d @ [(k, v)])"

definition dict_update :: "('k \<times> 'v) list \<Rightarrow> ('k \<times> 'v) list \<Rightarrow> ('k \<times> 'v) list" where
  "dict_update d es = foldl (\<lambda>d (k, v). dict_put k v d) d es"

lemma map_of_replace:
  "map_of (map (\<lambda>e. if fst e = k then (k, v) else e) d) x =
     (if x = k \<and> k \<in> fst ` set d then Some v else map_of d x)"
  by (induction d) (auto, metis fst_conv image_eqI)

lemma map_of_dict_put [simp]: "map_of (dict_put k v d) = (map_of d)(k \<mapsto> v)"
proof
  fix x
  show "map_of (dict_put k v d) x = ((map_of d)(k \<mapsto> v)) x"
  proof (cases "k \<in> fst ` set d")
    case True
    then show ?thesis by (simp add: dict_put_def map_of_replace)
  next
    case False
    then have "map_of d k = None" by (simp add: map_of_eq_None_iff)
    with False show ?thesis by (simp add: dict_put_def map_of_append map_add_def split: option.split)
  qed
qed

lemma keys_dict_put: "fst ` set (dict_put k v d) = insert k (fst ` set d)"
  by (simp flip: dom_map_of_conv_image_fst)

lemma distinct_dict_put: "distinct (map fst d) \<Longrightarrow> distinct (map fst (dict_put k v d))"
proof -
  have "map fst (map (\<lambda>e. if fst e = k then (k, v) else e) d) = map fst d" by (induction d) auto
  then show "distinct (map fst d) \<Longrightarrow> distinct (map fst (dict_put k v d))"
    by (auto simp: dict_put_def simp del: map_map)
qed

lemma keys_dict_update: "fst ` set (dict_update d es) = fst ` set d \<union> fst ` set es"
  unfolding dict_update_def
proof (induction es arbitrary: d)
  case (Cons e es)
  then show ?case by (cases e) (simp add: keys_dict_put)
qed simp

lemma distinct_dict_update: "distinct (map fst d) \<Longrightarrow> distinct (map fst (dict_update d es))"
  unfolding dict_update_def
proof (induction es arbitrary: d)
  case (Cons e es)
  then show ?case by (cases e) (simp add: distinct_dict_put)
qed simp

section \<open>The registry\<close>

datatype control_action = ActApply | ActRollback

fun control_action_value :: "control_action \<Rightarrow> string" where
  "control_action_value ActApply = ''apply_control''"
| "control_action_value ActRollback = ''rollback_control''"

datatype control_kind = BenchmarkControl | OperationalObservation

record registered_control =
  rc_id :: string
  rc_title :: string
  rc_platform :: platform
  rc_kind :: control_kind
  rc_aliases :: "string list"
  rc_actions :: "control_action list"

definition supported_actions :: "(string \<times> control_action list) list" where
  "supported_actions = map (\<lambda>k. (k, [ActApply, ActRollback]))
    [''linux.network.endpoint-isolated'',
     ''linux.ssh.password-authentication-disabled'',
     ''control.windows.defender-real-time-protection'',
     ''control.windows.firewall-all-profiles'',
     ''control.windows.firewall-endpoint-isolated'']"

definition observation_aliases :: "(string \<times> string list) list" where
  "observation_aliases =
    [(''linux.firewall.service-active'', [''ufw.enabled'']),
     (''linux.ssh.password-authentication-disabled'', [''linux.ssh.disable_password_authentication'', ''ssh.disable-password-authentication'']),
     (''linux.telemetry.security-logging'', [''journald.storage-persistent'']),
     (''control.windows.defender-real-time-protection'', [''windows.defender.real-time-protection'', ''windows.defender.real_time_protection'']),
     (''control.windows.firewall-all-profiles'', [''windows.firewall.all-profiles-enabled'', ''windows.firewall.all_profiles''])]"

definition operational_observations :: "(string \<times> string \<times> platform) list" where
  "operational_observations =
    [(''linux.agent.privileged'', ''Linux agent privilege state'', Linux),
     (''linux.auditd.ruleset_integrity'', ''Linux audit ruleset integrity'', Linux),
     (''linux.firewall.service-active'', ''Linux firewall service active'', Linux),
     (''linux.kernel.ipv4_source_route'', ''Linux IPv4 source routing disabled'', Linux),
     (''linux.root.password-locked'', ''Linux root password locked'', Linux),
     (''linux.telemetry.hardware-summary'', ''Linux hardware summary'', Linux),
     (''linux.telemetry.login-sessions'', ''Linux login sessions'', Linux),
     (''linux.telemetry.network-listeners'', ''Linux network listeners'', Linux),
     (''linux.telemetry.package-inventory'', ''Linux package inventory'', Linux),
     (''linux.telemetry.process-inventory'', ''Linux process inventory'', Linux),
     (''linux.telemetry.security-logging'', ''Linux security logging'', Linux),
     (''linux.telemetry.service-status'', ''Linux service status'', Linux),
     (''linux.telemetry.startup-services'', ''Linux startup services'', Linux),
     (''linux.telemetry.unsupported-scope'', ''Linux unsupported collection scope'', Linux),
     (''linux.updates.automatic-enabled'', ''Linux automatic updates enabled'', Linux),
     (''macos.agent.present'', ''macOS agent present'', MacOS),
     (''macos.telemetry.hardware-summary'', ''macOS hardware summary'', MacOS),
     (''macos.telemetry.identity-state'', ''macOS identity state'', MacOS),
     (''macos.telemetry.login-sessions'', ''macOS login sessions'', MacOS),
     (''macos.telemetry.network-bindings'', ''macOS network bindings'', MacOS),
     (''macos.telemetry.process-inventory'', ''macOS process inventory'', MacOS),
     (''macos.telemetry.security-logging'', ''macOS security logging'', MacOS),
     (''macos.telemetry.service-status'', ''macOS service status'', MacOS),
     (''macos.telemetry.software-inventory'', ''macOS software inventory'', MacOS),
     (''macos.telemetry.startup-services'', ''macOS startup services'', MacOS),
     (''macos.telemetry.unsupported-scope'', ''macOS unsupported collection scope'', MacOS),
     (''macos.updates.automatic-check-enabled'', ''macOS automatic update checks enabled'', MacOS),
     (''windows.agent.present'', ''Windows agent present'', Windows),
     (''windows.bitlocker.system-drive-protected'', ''Windows system drive protected by BitLocker'', Windows),
     (''windows.local_admin.laps'', ''Windows local administrator managed by LAPS'', Windows),
     (''windows.powershell.constrained_language_mode'', ''Windows PowerShell constrained language mode'', Windows),
     (''windows.rdp.network_level_authentication'', ''Windows RDP network level authentication'', Windows),
     (''windows.secure-boot.enabled'', ''Windows Secure Boot enabled'', Windows),
     (''windows.security_log.forwarding'', ''Windows Security log forwarding'', Windows),
     (''windows.telemetry.identity-state'', ''Windows identity state'', Windows),
     (''windows.telemetry.network-bindings'', ''Windows network bindings'', Windows),
     (''windows.telemetry.process-inventory'', ''Windows process inventory'', Windows),
     (''windows.telemetry.security-logs'', ''Windows Security logs'', Windows),
     (''windows.telemetry.service-status'', ''Windows service status'', Windows),
     (''windows.telemetry.software-inventory'', ''Windows software inventory'', Windows),
     (''windows.telemetry.startup-services'', ''Windows startup services'', Windows),
     (''windows.telemetry.unsupported-scope'', ''Windows unsupported collection scope'', Windows)]"

type_synonym pack = "(string \<times> string \<times> platform) list"

definition control_registry :: "pack list \<Rightarrow> (string \<times> registered_control) list result" where
  "control_registry packs =
     (let definitions = dict_update [] (map (\<lambda>(k, title, p). (k, (title, p, BenchmarkControl))) (concat packs));
          collisions = sort (filter (\<lambda>k. k \<in> fst ` set operational_observations) (map fst definitions))
      in if collisions \<noteq> []
         then Inl (RuntimeError (''operational observation duplicates source definition: '' @ join '', '' collisions))
         else let
           definitions = dict_update definitions
             (map (\<lambda>(k, title, p). (k, (title, p, OperationalObservation))) operational_observations);
           unknown_actions = sort (filter (\<lambda>k. k \<notin> fst ` set definitions) (map fst supported_actions));
           unknown_alias_targets = sort (filter (\<lambda>k. k \<notin> fst ` set definitions) (map fst observation_aliases))
         in if unknown_actions \<noteq> []
            then Inl (RuntimeError (''implemented control behavior is missing definition: '' @ join '', '' unknown_actions))
            else if unknown_alias_targets \<noteq> []
            then Inl (RuntimeError (''observation alias target is missing definition: '' @ join '', '' unknown_alias_targets))
            else Inr (map (\<lambda>(k, title, p, kind). (k,
              \<lparr>rc_id = k, rc_title = title, rc_platform = p, rc_kind = kind,
               rc_aliases = (case map_of observation_aliases k of Some xs \<Rightarrow> xs | None \<Rightarrow> []),
               rc_actions = (case map_of supported_actions k of Some xs \<Rightarrow> xs | None \<Rightarrow> [])\<rparr>)) definitions))"

section \<open>Observation aliases\<close>

text \<open>The two nested loops, over all (key, control id) pairs in order.\<close>

fun alias_loop :: "(string \<Rightarrow> string option) \<Rightarrow> (string \<times> string) list \<Rightarrow> (string \<Rightarrow> string option) result" where
  "alias_loop aliases [] = Inr aliases"
| "alias_loop aliases ((key, c) # rest) =
     (let normalized = lower key in
      case aliases normalized of
        Some existing \<Rightarrow>
          if existing \<noteq> c
          then Inl (RuntimeError (''observation key '' @ key @ '' maps to both '' @ existing @ '' and '' @ c))
          else alias_loop (aliases(normalized \<mapsto> c)) rest
      | None \<Rightarrow> alias_loop (aliases(normalized \<mapsto> c)) rest)"

definition observation_keys :: "(string \<times> registered_control) list \<Rightarrow> (string \<times> string) list" where
  "observation_keys registry =
     concat (map (\<lambda>(_, c). map (\<lambda>key. (key, rc_id c)) (rc_id c # rc_aliases c)) registry)"

definition observation_control_ids :: "pack list \<Rightarrow> (string \<Rightarrow> string option) result" where
  "observation_control_ids packs =
     andThen (control_registry packs) (\<lambda>registry. alias_loop (\<lambda>_. None) (observation_keys registry))"

definition normalize_observation_control_id :: "pack list \<Rightarrow> string \<Rightarrow> platform option \<Rightarrow> string result" where
  "normalize_observation_control_id packs value platform =
     andThen (observation_control_ids packs) (\<lambda>aliases.
       case aliases (lower (strip value)) of
         None \<Rightarrow> Inl (ValueError ''control_key is not present in the canonical control registry'')
       | Some canonical \<Rightarrow>
           andThen (control_registry packs) (\<lambda>registry.
             case map_of registry canonical of
               None \<Rightarrow> Inl (KeyError canonical)
             | Some control \<Rightarrow>
                 (case platform of
                    Some p \<Rightarrow> if rc_platform control \<noteq> p
                      then Inl (ValueError (''control_key is for '' @ platform_value (rc_platform control) @
                             '', not endpoint platform '' @ platform_value p))
                      else Inr canonical
                  | None \<Rightarrow> Inr canonical)))"

definition require_control_action :: "pack list \<Rightarrow> string \<Rightarrow> platform \<Rightarrow> control_action \<Rightarrow> registered_control result" where
  "require_control_action packs control_id platform action =
     andThen (control_registry packs) (\<lambda>registry.
       case map_of registry control_id of
         None \<Rightarrow> Inl (ValueError ''control_id is not present in the canonical control registry'')
       | Some control \<Rightarrow>
           if rc_platform control \<noteq> platform
           then Inl (ValueError (''control_id is for '' @ platform_value (rc_platform control) @
                  '', not endpoint platform '' @ platform_value platform))
           else if action \<notin> set (rc_actions control)
           then Inl (ValueError (''control_id does not support '' @ control_action_value action))
           else Inr control)"

section \<open>What the registry guarantees\<close>

lemma control_registry_keys:
  assumes "control_registry packs = Inr registry"
  shows "distinct (map fst registry)" and "\<And>k c. (k, c) \<in> set registry \<Longrightarrow> rc_id c = k"
    and "fst ` set registry = fst ` set (concat packs) \<union> fst ` set operational_observations"
    and "fst ` set supported_actions \<subseteq> fst ` set registry"
    and "\<And>k c. (k, c) \<in> set registry \<Longrightarrow>
           rc_actions c = (case map_of supported_actions k of Some xs \<Rightarrow> xs | None \<Rightarrow> [])"
proof -
  define defs where "defs = dict_update (dict_update [] (map (\<lambda>(k, title, p). (k, (title, p, BenchmarkControl))) (concat packs)))
      (map (\<lambda>(k, title, p). (k, (title, p, OperationalObservation))) operational_observations)"
  have d: "distinct (map fst defs)" unfolding defs_def by (intro distinct_dict_update) simp
  have keys: "fst ` set defs = fst ` set (concat packs) \<union> fst ` set operational_observations"
    unfolding defs_def keys_dict_update by (force simp: image_iff)
  from assms have reg: "registry = map (\<lambda>(k, title, p, kind). (k,
              \<lparr>rc_id = k, rc_title = title, rc_platform = p, rc_kind = kind,
               rc_aliases = (case map_of observation_aliases k of Some xs \<Rightarrow> xs | None \<Rightarrow> []),
               rc_actions = (case map_of supported_actions k of Some xs \<Rightarrow> xs | None \<Rightarrow> [])\<rparr>)) defs"
    and unknown: "sort (filter (\<lambda>k. k \<notin> fst ` set defs) (map fst supported_actions)) = []"
    by (auto simp: control_registry_def Let_def defs_def split: if_splits)
  have fst_reg: "map fst registry = map fst defs" by (auto simp: reg)
  then show "distinct (map fst registry)" using d by simp
  have "fst ` set registry = fst ` set defs" using fst_reg by (metis list.set_map)
  then show "fst ` set registry = fst ` set (concat packs) \<union> fst ` set operational_observations"
    using keys by simp
  have "filter (\<lambda>k. k \<notin> fst ` set defs) (map fst supported_actions) = []"
    using unknown by (metis set_empty set_sort)
  then show "fst ` set supported_actions \<subseteq> fst ` set registry"
    unfolding \<open>fst ` set registry = fst ` set defs\<close> by (auto simp: filter_empty_conv)
  show "\<And>k c. (k, c) \<in> set registry \<Longrightarrow> rc_id c = k" by (auto simp: reg)
  show "\<And>k c. (k, c) \<in> set registry \<Longrightarrow>
           rc_actions c = (case map_of supported_actions k of Some xs \<Rightarrow> xs | None \<Rightarrow> [])"
    by (auto simp: reg)
qed

lemma require_control_action_Inr [result_simps]:
  "require_control_action packs k p act = Inr c \<longleftrightarrow> (\<exists>registry. control_registry packs = Inr registry \<and>
     map_of registry k = Some c \<and> rc_platform c = p \<and> act \<in> set (rc_actions c))"
proof (cases "control_registry packs")
  case (Inr registry)
  then show ?thesis
    by (cases "map_of registry k") (auto simp: require_control_action_def)
qed (simp add: require_control_action_def)

lemma registered_action_supported:
  assumes "control_registry packs = Inr registry" and "map_of registry k = Some c" and "act \<in> set (rc_actions c)"
  shows "k \<in> fst ` set supported_actions"
proof -
  have "(k, c) \<in> set registry" using assms(2) by (rule map_of_SomeD)
  from control_registry_keys(5)[OF assms(1) this] have
    acts: "rc_actions c = (case map_of supported_actions k of Some xs \<Rightarrow> xs | None \<Rightarrow> [])" .
  obtain xs where "map_of supported_actions k = Some xs"
  proof (cases "map_of supported_actions k")
    case None
    then show ?thesis using assms(3) acts by simp
  qed
  then have "(k, xs) \<in> set supported_actions" by (rule map_of_SomeD)
  then show ?thesis by (rule rev_image_eqI) simp
qed

text \<open>
  Only the five implemented controls can ever be acted on, whatever the source packs contain:
  a successful check returns the registered control with that id, for that platform.
\<close>

theorem require_control_action_sound:
  assumes "require_control_action packs control_id platform action = Inr control"
  shows "rc_id control = control_id \<and> rc_platform control = platform \<and> action \<in> set (rc_actions control) \<and>
     control_id \<in> fst ` set supported_actions"
proof -
  from assms obtain registry where r: "control_registry packs = Inr registry"
      "map_of registry control_id = Some control"
    and ok: "rc_platform control = platform" "action \<in> set (rc_actions control)"
    unfolding require_control_action_Inr by blast
  have reg: "(control_id, control) \<in> set registry" using r(2) by (rule map_of_SomeD)
  have "control_id \<in> fst ` set supported_actions" by (rule registered_action_supported[OF r ok(2)])
  with ok control_registry_keys(2)[OF r(1) reg] show ?thesis by (intro conjI)
qed

text \<open>The alias loop records each key once and rejects a second owner.\<close>

lemma alias_loop_step:
  assumes "alias_loop aliases ((key, c) # rest) = Inr table"
  shows "alias_loop (aliases(lower key \<mapsto> c)) rest = Inr table"
    and "aliases (lower key) = None \<or> aliases (lower key) = Some c"
  using assms by (auto simp: Let_def split: option.splits if_splits)

lemma alias_loop_keeps: "alias_loop aliases ks = Inr table \<Longrightarrow> aliases n = Some c \<Longrightarrow> table n = Some c"
proof (induction ks arbitrary: aliases)
  case (Cons k ks)
  obtain key d where k: "k = (key, d)" by (cases k)
  note step = alias_loop_step[OF Cons.prems(1)[unfolded k]]
  have "(aliases(lower key \<mapsto> d)) n = Some c" using step(2) Cons.prems(2) by (cases "n = lower key") auto
  then show ?case by (rule Cons.IH[OF step(1)])
qed simp

lemma alias_loop_hits: "alias_loop aliases ks = Inr table \<Longrightarrow> (key, c) \<in> set ks \<Longrightarrow> table (lower key) = Some c"
proof (induction ks arbitrary: aliases)
  case (Cons k ks)
  obtain key' d where k: "k = (key', d)" by (cases k)
  note step = alias_loop_step[OF Cons.prems(1)[unfolded k]]
  show ?case
  proof (cases "(key, c) \<in> set ks")
    case True
    then show ?thesis by (rule Cons.IH[OF step(1)])
  next
    case False
    then have "key' = key" "d = c" using Cons.prems(2) k by auto
    then show ?thesis using alias_loop_keeps[OF step(1), of "lower key'" d] by simp
  qed
qed simp

lemma alias_loop_from: "alias_loop aliases ks = Inr table \<Longrightarrow> table n = Some c \<Longrightarrow>
    aliases n = Some c \<or> (\<exists>key. (key, c) \<in> set ks \<and> lower key = n)"
proof (induction ks arbitrary: aliases)
  case (Cons k ks)
  obtain key d where k: "k = (key, d)" by (cases k)
  note step = alias_loop_step[OF Cons.prems(1)[unfolded k]]
  show ?case using Cons.IH[OF step(1) Cons.prems(2)] k by (auto split: if_splits)
qed simp

text \<open>
  Observation names are unambiguous and canonical: when the table can be built, a name,
  trimmed and in any letter case, is accepted iff it is the id or an alias of a registered control
  of the endpoint's platform, and the id stored is that control's.
\<close>

theorem normalize_observation_control_id_iff:
  assumes "observation_control_ids packs = Inr table" and "control_registry packs = Inr registry"
  shows "normalize_observation_control_id packs value (Some p) = Inr k \<longleftrightarrow>
     (\<exists>c. (k, c) \<in> set registry \<and> rc_platform c = p \<and>
        (\<exists>key\<in>set (rc_id c # rc_aliases c). lower key = lower (strip value)))"
proof -
  have run: "alias_loop (\<lambda>_. None) (observation_keys registry) = Inr table"
    using assms by (simp add: observation_control_ids_def)
  have keys: "(key, d) \<in> set (observation_keys registry) \<longleftrightarrow>
      (\<exists>c. (d, c) \<in> set registry \<and> key \<in> set (rc_id c # rc_aliases c))" for key d
    using control_registry_keys(2)[OF assms(2)] by (fastforce simp: observation_keys_def)
  have table: "table n = Some d \<longleftrightarrow> (\<exists>c. (d, c) \<in> set registry \<and> (\<exists>key\<in>set (rc_id c # rc_aliases c). lower key = n))" for n d
    using alias_loop_from[OF run, of n d] alias_loop_hits[OF run] unfolding keys by blast
  have get: "map_of registry d = Some c \<longleftrightarrow> (d, c) \<in> set registry" for d c
    using control_registry_keys(1)[OF assms(2)] by (rule map_of_eq_Some_iff)
  have "normalize_observation_control_id packs value (Some p) = Inr k \<longleftrightarrow>
      table (lower (strip value)) = Some k \<and> (\<exists>c. map_of registry k = Some c \<and> rc_platform c = p)"
    using assms by (auto simp: normalize_observation_control_id_def split: option.splits if_splits)
  also have "\<dots> \<longleftrightarrow> (\<exists>c. (k, c) \<in> set registry \<and> rc_platform c = p \<and>
        (\<exists>key\<in>set (rc_id c # rc_aliases c). lower key = lower (strip value)))"
    unfolding table get using get by (metis option.inject)
  finally show ?thesis .
qed

definition demo_packs :: "pack list" where
  "demo_packs = [[(''linux.network.endpoint-isolated'', ''Isolation'', Linux),
     (''linux.ssh.password-authentication-disabled'', ''SSH'', Linux)],
    [(''control.windows.defender-real-time-protection'', ''Defender'', Windows),
     (''control.windows.firewall-all-profiles'', ''Firewall'', Windows),
     (''control.windows.firewall-endpoint-isolated'', ''Isolation'', Windows)]]"

lemma demo_packs_ok:
  "\<exists>registry. control_registry demo_packs = Inr registry"
  "\<exists>table. observation_control_ids demo_packs = Inr table"
proof -
  have "\<not> isl (control_registry demo_packs)" "\<not> isl (observation_control_ids demo_packs)" by code_simp+
  then show "\<exists>registry. control_registry demo_packs = Inr registry"
    "\<exists>table. observation_control_ids demo_packs = Inr table"
    by (metis isl_def sum.exhaust_sel)+
qed

lemma require_control_action_demo:
  "\<exists>c. require_control_action demo_packs ''linux.network.endpoint-isolated'' Linux ActApply = Inr c"
proof -
  have "\<not> isl (require_control_action demo_packs ''linux.network.endpoint-isolated'' Linux ActApply)" by code_simp
  then show ?thesis by (metis isl_def sum.exhaust_sel)
qed

lemma require_control_action_sound_witness:
  "case require_control_action demo_packs ''linux.network.endpoint-isolated'' Linux ActApply of
     Inr c \<Rightarrow> rc_id c = ''linux.network.endpoint-isolated'' \<and> rc_platform c = Linux | Inl _ \<Rightarrow> False"
proof -
  obtain c where "require_control_action demo_packs ''linux.network.endpoint-isolated'' Linux ActApply = Inr c"
    using require_control_action_demo by blast
  with require_control_action_sound[OF this] show ?thesis by simp
qed

lemma normalize_observation_control_id_iff_witness:
  "\<exists>registry c. control_registry demo_packs = Inr registry \<and>
     (''linux.firewall.service-active'', c) \<in> set registry \<and> rc_platform c = Linux \<and>
     (\<exists>key\<in>set (rc_id c # rc_aliases c). lower key = lower (strip '' UFW.enabled ''))"
proof -
  obtain table registry where *: "observation_control_ids demo_packs = Inr table" "control_registry demo_packs = Inr registry"
    using demo_packs_ok by blast
  have "normalize_observation_control_id demo_packs '' UFW.enabled '' (Some Linux) = Inr ''linux.firewall.service-active''"
    by code_simp
  with normalize_observation_control_id_iff[OF *] * show ?thesis by blast
qed

end
