(* ===== verification/Approvals.thy ===== *)
theory Approvals
  imports Authorization Control_Registry
begin

text \<open>
  \<open>app/api/endpoints/approvals.py\<close>: approval requests, the decisions on them, the grants they
  produce, manual grants and their automatic expiry.  A handler gets \<open>draw\<close> (the successive
  \<open>uuid4().hex\<close> of the call), the clock reading \<open>now\<close>, the principal and the payload, and returns
  the database after the transaction with the response or the error.  Enumeration members in
  payloads pass the normalisers unchanged (lemmas of \<open>Schema\<close>).
\<close>

section \<open>Payloads\<close>

record approval_request_in =
  ai_endpoint_ids :: "string list"
  ai_kind :: request_kind
  ai_actions :: "approval_action list"
  ai_control_ids :: "string list"
  ai_scopes :: "ts_scope list"
  ai_ttl :: int
  ai_reason :: string
  ai_risk :: risk

record approval_decision_in =
  di_decision :: decision
  di_comment :: string
  di_expires_at :: "py_datetime option"

record approval_grant_in =
  gi_endpoint_ids :: "string list"
  gi_actions :: "approval_action list"
  gi_control_ids :: "string list"
  gi_scopes :: "ts_scope list"
  gi_reason :: string
  gi_expires_at :: py_datetime

section \<open>Validation\<close>

definition hardening_actions :: "approval_action list" where
  "hardening_actions = [ApplyControl, RollbackControl]"

definition troubleshooting_actions :: "approval_action list" where
  "troubleshooting_actions = [RequestElevatedTroubleshooting, CollectSecurityContext,
     CollectRemediationEvidence, InspectControl]"

definition approval_ttl_bounds_minutes :: "int \<times> int" where
  "approval_ttl_bounds_minutes = (15, 240)"

definition unprocessable :: "string \<Rightarrow> py_error" where
  "unprocessable detail = HTTPException 422 detail"

definition conflict :: "string \<Rightarrow> py_error" where
  "conflict detail = HTTPException 409 detail"

text \<open>
  The latest expiry is rounded up to the next whole minute; the comparisons are on the texts
  \<open>to_utc_z\<close> writes.
\<close>

definition validate_grant_expiry :: "py_datetime \<Rightarrow> nat \<Rightarrow> int \<Rightarrow> string result" where
  "validate_grant_expiry expires_at_dt now maximum_ttl_minutes =
     (let (minimum_ttl, global_maximum_ttl) = approval_ttl_bounds_minutes;
          maximum_ttl = min maximum_ttl_minutes global_maximum_ttl
      in andThen (to_utc_z expires_at_dt) (\<lambda>expires_at.
         andThen (add_seconds now (maximum_ttl * 60)) (\<lambda>maximum_expiry.
         andThen (if maximum_expiry mod 60 \<noteq> 0 then add_seconds (maximum_expiry - maximum_expiry mod 60) 60
                  else Inr maximum_expiry) (\<lambda>maximum_expiry.
         andThen (add_seconds now (minimum_ttl * 60)) (\<lambda>minimum_expiry.
           if strftime_z minimum_expiry \<le> expires_at \<and> expires_at \<le> strftime_z maximum_expiry
           then Inr expires_at
           else Inl (unprocessable (''expires_at must be between '' @ int_text minimum_ttl @ '' and '' @
                  int_text maximum_ttl @ '' minutes from creation time'')))))))"

definition normalize_endpoint_ids :: "db \<Rightarrow> string list \<Rightarrow> string list result" where
  "normalize_endpoint_ids db raw =
     andThen (traverse normalize_endpoint_id raw) (\<lambda>endpoint_ids.
       if set (filter (\<lambda>k. k \<in> set endpoint_ids) (map ep_id (db_endpoints db))) \<noteq> set endpoint_ids
       then Inl (unprocessable ''one or more endpoint_ids were not found'')
       else if has_duplicates endpoint_ids
       then Inl (unprocessable ''duplicate endpoint_ids are not allowed'')
       else Inr endpoint_ids)"

definition approval_scope :: "db \<Rightarrow> string list \<Rightarrow> principal \<Rightarrow> string \<Rightarrow> (string \<times> string option) result" where
  "approval_scope db endpoint_ids p permission =
     (let endpoints = filter (\<lambda>e. ep_id e \<in> set endpoint_ids) (db_endpoints db) in
      if length endpoints \<noteq> length endpoint_ids
      then Inl (unprocessable ''one or more endpoint_ids were not found'')
      else case remdups (map ep_client endpoints) of
        [client_id] \<Rightarrow>
          let location_id = (case remdups (map ep_location endpoints) of [l] \<Rightarrow> Some l | _ \<Rightarrow> None)
          in andThen (require_scope p permission client_id location_id True) (\<lambda>_. Inr (client_id, location_id))
      | _ \<Rightarrow> Inl (unprocessable ''approval requests cannot cross client boundaries''))"

definition normalize_control_ids :: "string list \<Rightarrow> string list result" where
  "normalize_control_ids raw =
     andThen (traverse (\<lambda>c. normalize_required_string c ''control_id'') raw) (\<lambda>control_ids.
       if has_duplicates control_ids then Inl (unprocessable ''duplicate control_ids are not allowed'')
       else Inr control_ids)"

definition value_error_to_422 :: "'a result \<Rightarrow> 'a result" where
  "value_error_to_422 r = (case r of Inl (ValueError detail) \<Rightarrow> Inl (unprocessable detail) | _ \<Rightarrow> r)"

definition validate_control_actions_for_endpoints ::
  "pack list \<Rightarrow> db \<Rightarrow> string list \<Rightarrow> approval_action list \<Rightarrow> string list \<Rightarrow> unit result" where
  "validate_control_actions_for_endpoints packs db endpoint_ids actions control_ids =
     (let hardening = map (\<lambda>a. if a = ApplyControl then ActApply else ActRollback)
            (filter (\<lambda>a. a \<in> set hardening_actions) actions)
      in if hardening = [] then Inr ()
         else andThen (traverse (\<lambda>endpoint.
           case endpoint of
             None \<Rightarrow> Inl (unprocessable ''one or more endpoint_ids were not found'')
           | Some e \<Rightarrow> andThen (traverse (\<lambda>control_id.
               traverse (\<lambda>action. value_error_to_422 (require_control_action packs control_id (ep_platform e) action))
                 hardening) control_ids) (\<lambda>_. Inr ()))
           (map (\<lambda>k. fetch ep_id k (db_endpoints db)) endpoint_ids)) (\<lambda>_. Inr ()))"

definition normalize_troubleshooting_scopes :: "ts_scope list \<Rightarrow> ts_scope list result" where
  "normalize_troubleshooting_scopes scopes =
     (if has_duplicates scopes then Inl (unprocessable ''duplicate troubleshooting_scopes are not allowed'')
      else Inr scopes)"

definition normalize_actions :: "approval_action list \<Rightarrow> approval_action list result" where
  "normalize_actions actions =
     (if has_duplicates actions then Inl (unprocessable ''duplicate allowed_actions are not allowed'')
      else Inr actions)"

definition validate_request_shape ::
  "request_kind \<Rightarrow> approval_action list \<Rightarrow> string list \<Rightarrow> ts_scope list \<Rightarrow> unit result" where
  "validate_request_shape kind actions control_ids scopes =
     (if kind = HardeningChange then
        if actions = [] \<or> list_ex (\<lambda>a. a \<notin> set hardening_actions) actions
        then Inl (unprocessable ''hardening_change requests may only use apply_control or rollback_control'')
        else if control_ids = [] then Inl (unprocessable ''hardening_change requests require control_ids'')
        else if scopes \<noteq> []
        then Inl (unprocessable ''hardening_change requests must not include troubleshooting_scopes'')
        else Inr ()
      else if RequestElevatedTroubleshooting \<notin> set actions
      then Inl (unprocessable ''elevated_troubleshooting requests must include request_elevated_troubleshooting'')
      else if list_ex (\<lambda>a. a \<notin> set troubleshooting_actions) actions
      then Inl (unprocessable ''elevated_troubleshooting requests may only use bounded troubleshooting actions'')
      else if control_ids \<noteq> []
      then Inl (unprocessable ''elevated_troubleshooting requests must not include control_ids'')
      else if scopes = []
      then Inl (unprocessable ''elevated_troubleshooting requests require troubleshooting_scopes'')
      else Inr ())"

definition validate_manual_grant_shape ::
  "approval_action list \<Rightarrow> string list \<Rightarrow> ts_scope list \<Rightarrow> unit result" where
  "validate_manual_grant_shape actions control_ids scopes =
     (let has_hardening_signal = list_ex (\<lambda>a. a \<in> set hardening_actions) actions \<or> control_ids \<noteq> [];
          has_troubleshooting_signal = list_ex (\<lambda>a. a \<in> set troubleshooting_actions) actions \<or> scopes \<noteq> []
      in if has_hardening_signal \<and> has_troubleshooting_signal
         then Inl (unprocessable (''manual approval grants must represent either hardening changes or '' @
                ''elevated troubleshooting, not both''))
         else if has_troubleshooting_signal then
           if RequestElevatedTroubleshooting \<notin> set actions
           then Inl (unprocessable ''elevated troubleshooting grants must include request_elevated_troubleshooting'')
           else if list_ex (\<lambda>a. a \<notin> set troubleshooting_actions) actions
           then Inl (unprocessable ''elevated troubleshooting grants may only use bounded troubleshooting actions'')
           else if control_ids \<noteq> []
           then Inl (unprocessable ''elevated troubleshooting grants must not include control_ids'')
           else if scopes = []
           then Inl (unprocessable ''elevated troubleshooting grants require troubleshooting_scopes'')
           else Inr ()
         else if actions = [] \<or> list_ex (\<lambda>a. a \<notin> set hardening_actions) actions
         then Inl (unprocessable ''hardening grants may only use apply_control or rollback_control'')
         else if control_ids = [] then Inl (unprocessable ''hardening grants require control_ids'')
         else if scopes \<noteq> []
         then Inl (unprocessable ''hardening grants must not include troubleshooting_scopes'')
         else Inr ())"

section \<open>Events and expiry\<close>

definition create_audit_event :: "string \<Rightarrow> string \<Rightarrow> event_type \<Rightarrow> string \<Rightarrow> string \<Rightarrow> string \<Rightarrow> event_row" where
  "create_audit_event u request_id event_type actor comment created_at =
     \<lparr>ev_id = generate_prefixed_id ''ape'' u, ev_request = request_id, ev_type = event_type,
      ev_actor = actor, ev_comment = comment, ev_created_at = created_at\<rparr>"

definition expired_comment :: string where
  "expired_comment = ''Grant expired automatically.''"

text \<open>
  One approved grant of the expiry sweep.  \<open>n\<close> counts the ids drawn so far; the event is inserted
  under a savepoint, so an \<open>IntegrityError\<close> loses only the event.
\<close>

definition expire_grant :: "(nat \<Rightarrow> string) \<Rightarrow> string \<Rightarrow> grant_row \<Rightarrow> nat \<times> db \<Rightarrow> nat \<times> db" where
  "expire_grant draw now_str g st =
     (let (n, db) = st in
      if now_str < gr_expires_at g then (n, db)
      else
        let db = db\<lparr>db_grants := save gr_id (g\<lparr>gr_status := GrantExpired, gr_updated_at := now_str\<rparr>) (db_grants db)\<rparr>
        in case gr_request g of
          None \<Rightarrow> (n, db)
        | Some q \<Rightarrow>
            if q = [] then (n, db)
            else case fetch rq_id q (db_requests db) of
              None \<Rightarrow> (n, db)
            | Some r \<Rightarrow>
                if rq_status r = ReqApproved then
                  let db = db\<lparr>db_requests :=
                        save rq_id (r\<lparr>rq_status := ReqExpired, rq_updated_at := now_str\<rparr>) (db_requests db)\<rparr>;
                      ev = create_audit_event (draw n) (rq_id r) EvExpired
                        (text_or (rq_decision_by r) ''system'') expired_comment now_str
                  in (Suc n, case insert_event ev db of Inr db' \<Rightarrow> db' | Inl _ \<Rightarrow> db)
                else (n, db))"

definition sync_expired_grants :: "(nat \<Rightarrow> string) \<Rightarrow> string \<Rightarrow> db \<Rightarrow> nat \<times> db" where
  "sync_expired_grants draw now_str db =
     fold (expire_grant draw now_str)
       (order_by (\<lambda>g. (gr_created_at g, gr_id g)) (filter (\<lambda>g. gr_status g = GrantApproved) (db_grants db)))
       (0, db)"

definition collect_request_events :: "db \<Rightarrow> string \<Rightarrow> event_row list" where
  "collect_request_events db request_id =
     order_by (\<lambda>e. (ev_created_at e, ev_id e)) (filter (\<lambda>e. ev_request e = request_id) (db_events db))"

section \<open>Requests\<close>

type_synonym approval_response = "request_row \<times> event_row list"

text \<open>The query both list handlers use: the rows of a table the principal may see, oldest first.\<close>

definition visible_requests :: "principal \<Rightarrow> string \<Rightarrow> db \<Rightarrow> request_row list" where
  "visible_requests p permission db =
     filter (\<lambda>r. rq_scope_state r = ScopeActive \<and>
         where_clause (scope_clause p permission) (rq_client r) (rq_location r)) (db_requests db)"

definition visible_grants :: "principal \<Rightarrow> string \<Rightarrow> db \<Rightarrow> grant_row list" where
  "visible_grants p permission db =
     filter (\<lambda>g. gr_scope_state g = ScopeActive \<and>
         where_clause (scope_clause p permission) (gr_client g) (gr_location g)) (db_grants db)"

definition list_approval_requests ::
  "(nat \<Rightarrow> string) \<Rightarrow> nat \<Rightarrow> principal \<Rightarrow> db \<Rightarrow> db \<times> approval_response list result" where
  "list_approval_requests draw now p db =
     (case require_permission ''approval.read'' p of
        Inl e \<Rightarrow> (db, Inl e)
      | Inr p \<Rightarrow>
          let (n, db) = sync_expired_grants draw (strftime_z now) db;
              requests = order_by (\<lambda>r. (rq_created_at r, rq_id r)) (visible_requests p ''approval.read'' db)
          in (db, Inr (map (\<lambda>r. (r, collect_request_events db (rq_id r))) requests)))"

definition create_approval_request ::
  "pack list \<Rightarrow> (nat \<Rightarrow> string) \<Rightarrow> nat \<Rightarrow> principal \<Rightarrow> approval_request_in \<Rightarrow> db \<Rightarrow> db \<times> approval_response result" where
  "create_approval_request packs draw now p payload db = transaction db (
     andThen (require_permission ''approval.request'' p) (\<lambda>p.
     andThen (normalize_actions (ai_actions payload)) (\<lambda>requested_actions.
     andThen (normalize_control_ids (ai_control_ids payload)) (\<lambda>control_ids.
     andThen (normalize_troubleshooting_scopes (ai_scopes payload)) (\<lambda>scopes.
     andThen (normalize_required_string (ai_reason payload) ''reason'') (\<lambda>reason.
     let (minimum_ttl, maximum_ttl) = approval_ttl_bounds_minutes; requested_by = audit_actor p in
     if \<not> (minimum_ttl \<le> ai_ttl payload \<and> ai_ttl payload \<le> maximum_ttl)
     then Inl (unprocessable (''requested_ttl_minutes must be between '' @ int_text minimum_ttl @ '' and '' @
            int_text maximum_ttl))
     else
     andThen (validate_request_shape (ai_kind payload) requested_actions control_ids scopes) (\<lambda>_.
     let now_str = strftime_z now in
     andThen (normalize_endpoint_ids db (ai_endpoint_ids payload)) (\<lambda>endpoint_ids.
     andThen (approval_scope db endpoint_ids p ''approval.request'') (\<lambda>(client_id, location_id).
     andThen (validate_control_actions_for_endpoints packs db endpoint_ids requested_actions control_ids) (\<lambda>_.
     let request = \<lparr>rq_id = generate_prefixed_id ''apr'' (draw 0), rq_scope_state = ScopeActive,
           rq_client = Some client_id, rq_location = location_id, rq_endpoint_ids = endpoint_ids,
           rq_kind = ai_kind payload, rq_actions = requested_actions, rq_control_ids = control_ids,
           rq_scopes = scopes, rq_ttl = ai_ttl payload, rq_requested_by = requested_by,
           rq_reason = reason, rq_risk = ai_risk payload, rq_status = ReqPending,
           rq_decision_by = None, rq_decision_comment = None, rq_decision_at = None, rq_grant = None,
           rq_created_at = now_str, rq_updated_at = now_str\<rparr> in
     andThen (insert_request request db) (\<lambda>db.
     let event = create_audit_event (draw 1) (rq_id request) EvRequested requested_by reason now_str in
     andThen (insert_event event db) (\<lambda>db.
     andThen (record_audit_event (draw 2) now_str
       ((audit_call_of ''approval_requested'')\<lparr>ax_principal := Some p, ax_client := Some client_id,
          ax_location := location_id, ax_target_type := Some ''approval_request'',
          ax_target_id := Some (rq_id request),
          ax_metadata := [(''risk'', JStr (risk_value (rq_risk request))),
            (''request_kind'', JStr (request_kind_value (rq_kind request)))],
          ax_created_at := Some now_str\<rparr>) db) (\<lambda>db.
     Inr (db, (request, [event])))))))))))))))"

section \<open>Decisions\<close>

definition wrong_state :: py_error where
  "wrong_state = conflict ''approval request is not in a state that allows this decision''"

text \<open>\<open>UPDATE ... WHERE id = ... AND status = ...\<close> with its row count.\<close>

definition update_request ::
  "string \<Rightarrow> request_status \<Rightarrow> (request_row \<Rightarrow> request_row) \<Rightarrow> db \<Rightarrow> db result" where
  "update_request request_id current f db =
     (let P = (\<lambda>r. rq_id r = request_id \<and> rq_status r = current) in
      if length (filter P (db_requests db)) \<noteq> 1 then Inl wrong_state
      else Inr (db\<lparr>db_requests := update_where P f (db_requests db)\<rparr>))"

definition decide_approve ::
  "(nat \<Rightarrow> string) \<Rightarrow> nat \<Rightarrow> nat \<Rightarrow> string \<Rightarrow> string \<Rightarrow> py_datetime option \<Rightarrow> request_row \<Rightarrow> db \<Rightarrow> db result" where
  "decide_approve draw n now decided_by comment expires request db =
     (let now_str = strftime_z now in
      if rq_status request \<noteq> ReqPending then Inl wrong_state
      else case expires of
        None \<Rightarrow> Inl (unprocessable ''expires_at is required for approve decisions'')
      | Some expires_at_dt \<Rightarrow>
        andThen (validate_grant_expiry expires_at_dt now (rq_ttl request)) (\<lambda>expires_at.
        let grant = \<lparr>gr_id = generate_prefixed_id ''grant'' (draw n), gr_scope_state = ScopeActive,
              gr_client = rq_client request, gr_location = rq_location request,
              gr_request = Some (rq_id request), gr_endpoint_ids = rq_endpoint_ids request,
              gr_actions = rq_actions request, gr_control_ids = rq_control_ids request,
              gr_scopes = rq_scopes request, gr_requested_by = rq_requested_by request,
              gr_approved_by = decided_by, gr_reason = rq_reason request, gr_expires_at = expires_at,
              gr_status = GrantApproved, gr_created_at = now_str, gr_updated_at = now_str\<rparr> in
        andThen (update_request (rq_id request) ReqPending
          (\<lambda>r. r\<lparr>rq_status := ReqApproved, rq_decision_by := Some decided_by, rq_decision_comment := Some comment,
               rq_decision_at := Some now_str, rq_grant := Some (gr_id grant), rq_updated_at := now_str\<rparr>) db) (\<lambda>db.
        case insert_grant grant db of
          Inl _ \<Rightarrow> Inl wrong_state
        | Inr db \<Rightarrow> insert_event
            (create_audit_event (draw (n + 1)) (rq_id request) EvApproved decided_by comment now_str) db)))"

definition decide_deny ::
  "(nat \<Rightarrow> string) \<Rightarrow> nat \<Rightarrow> nat \<Rightarrow> string \<Rightarrow> string \<Rightarrow> py_datetime option \<Rightarrow> request_row \<Rightarrow> db \<Rightarrow> db result" where
  "decide_deny draw n now decided_by comment expires request db =
     (let now_str = strftime_z now in
      if rq_status request \<noteq> ReqPending then Inl wrong_state
      else if expires \<noteq> None then Inl (unprocessable ''expires_at is not allowed for deny decisions'')
      else andThen (update_request (rq_id request) ReqPending
          (\<lambda>r. r\<lparr>rq_status := ReqDenied, rq_decision_by := Some decided_by, rq_decision_comment := Some comment,
               rq_decision_at := Some now_str, rq_updated_at := now_str\<rparr>) db) (\<lambda>db.
        insert_event (create_audit_event (draw n) (rq_id request) EvDenied decided_by comment now_str) db))"

definition decide_revoke ::
  "(nat \<Rightarrow> string) \<Rightarrow> nat \<Rightarrow> nat \<Rightarrow> string \<Rightarrow> string \<Rightarrow> py_datetime option \<Rightarrow> request_row \<Rightarrow> db \<Rightarrow> db result" where
  "decide_revoke draw n now decided_by comment expires request db =
     (let now_str = strftime_z now in
      if rq_status request \<noteq> ReqApproved then Inl wrong_state
      else if expires \<noteq> None then Inl (unprocessable ''expires_at is not allowed for revoke decisions'')
      else andThen (update_request (rq_id request) ReqApproved
          (\<lambda>r. r\<lparr>rq_status := ReqRevoked, rq_decision_by := Some decided_by, rq_decision_comment := Some comment,
               rq_decision_at := Some now_str, rq_updated_at := now_str\<rparr>) db) (\<lambda>db.
        let db = db\<lparr>db_grants := update_where
              (\<lambda>g. gr_request g = Some (rq_id request) \<and> gr_status g = GrantApproved)
              (\<lambda>g. g\<lparr>gr_status := GrantRevoked, gr_updated_at := now_str\<rparr>) (db_grants db)\<rparr>
        in insert_event (create_audit_event (draw n) (rq_id request) EvRevoked decided_by comment now_str) db))"

definition decide_approval_request ::
  "(nat \<Rightarrow> string) \<Rightarrow> nat \<Rightarrow> principal \<Rightarrow> string \<Rightarrow> approval_decision_in \<Rightarrow> db \<Rightarrow> db \<times> approval_response result" where
  "decide_approval_request draw now p raw_request_id payload db = transaction db (
     andThen (require_permission ''approval.decide'' p) (\<lambda>p.
     andThen (normalize_required_string raw_request_id ''approval_request_id'') (\<lambda>request_id.
     andThen (normalize_required_string (di_comment payload) ''decision_comment'') (\<lambda>comment.
     let decided_by = audit_actor p; now_str = strftime_z now;
         (n, db) = sync_expired_grants draw now_str db
     in case List.find (\<lambda>r. rq_id r = request_id) (visible_requests p ''approval.decide'' db) of
       None \<Rightarrow> Inl (HTTPException 404 ''approval request not found'')
     | Some request \<Rightarrow>
       let (step, audit_draw) = (case di_decision payload of
             Approve \<Rightarrow> (decide_approve, n + 2) | Deny \<Rightarrow> (decide_deny, n + 1) | Revoke \<Rightarrow> (decide_revoke, n + 1))
       in andThen (step draw n now decided_by comment (di_expires_at payload) request db) (\<lambda>db.
          andThen (record_audit_event (draw audit_draw) now_str
            ((audit_call_of (''approval_'' @ decision_value (di_decision payload)))\<lparr>ax_principal := Some p,
               ax_client := rq_client request, ax_location := rq_location request,
               ax_target_type := Some ''approval_request'', ax_target_id := Some (rq_id request),
               ax_created_at := Some now_str\<rparr>) db) (\<lambda>db.
          case fetch rq_id request_id (db_requests db) of
            None \<Rightarrow> Inl (HTTPException 404 ''approval request not found'')
          | Some request \<Rightarrow> Inr (db, (request, collect_request_events db (rq_id request)))))))))"

section \<open>Grants\<close>

definition list_approval_grants ::
  "(nat \<Rightarrow> string) \<Rightarrow> nat \<Rightarrow> principal \<Rightarrow> db \<Rightarrow> db \<times> grant_row list result" where
  "list_approval_grants draw now p db =
     (case require_permission ''approval.read'' p of
        Inl e \<Rightarrow> (db, Inl e)
      | Inr p \<Rightarrow>
          let (n, db) = sync_expired_grants draw (strftime_z now) db
          in (db, Inr (order_by (\<lambda>g. (gr_created_at g, gr_id g)) (visible_grants p ''approval.read'' db))))"

definition create_approval_grant ::
  "pack list \<Rightarrow> (nat \<Rightarrow> string) \<Rightarrow> nat \<Rightarrow> principal \<Rightarrow> approval_grant_in \<Rightarrow> db \<Rightarrow> db \<times> grant_row result" where
  "create_approval_grant packs draw now p payload db = transaction db (
     andThen (require_permission ''approval.grant'' p) (\<lambda>p.
     andThen (normalize_actions (gi_actions payload)) (\<lambda>allowed_actions.
     andThen (normalize_control_ids (gi_control_ids payload)) (\<lambda>control_ids.
     andThen (normalize_troubleshooting_scopes (gi_scopes payload)) (\<lambda>scopes.
     andThen (normalize_required_string (gi_reason payload) ''reason'') (\<lambda>reason.
     andThen (to_utc_z (gi_expires_at payload)) (\<lambda>expires_at.
     let now_str = strftime_z now in
     if expires_at \<le> now_str then Inl (unprocessable ''expires_at must be in the future'')
     else
     andThen (validate_grant_expiry (gi_expires_at payload) now (snd approval_ttl_bounds_minutes)) (\<lambda>expires_at.
     andThen (normalize_endpoint_ids db (gi_endpoint_ids payload)) (\<lambda>endpoint_ids.
     andThen (approval_scope db endpoint_ids p ''approval.grant'') (\<lambda>(client_id, location_id).
     andThen (validate_manual_grant_shape allowed_actions control_ids scopes) (\<lambda>_.
     andThen (validate_control_actions_for_endpoints packs db endpoint_ids allowed_actions control_ids) (\<lambda>_.
     let grant = \<lparr>gr_id = generate_prefixed_id ''grant'' (draw 0), gr_scope_state = ScopeActive,
           gr_client = Some client_id, gr_location = location_id, gr_request = None,
           gr_endpoint_ids = endpoint_ids, gr_actions = allowed_actions, gr_control_ids = control_ids,
           gr_scopes = scopes, gr_requested_by = audit_actor p, gr_approved_by = audit_actor p,
           gr_reason = reason, gr_expires_at = expires_at, gr_status = GrantApproved,
           gr_created_at = now_str, gr_updated_at = now_str\<rparr> in
     andThen (insert_grant grant db) (\<lambda>db.
     andThen (record_audit_event (draw 1) now_str
       ((audit_call_of ''approval_granted_manually'')\<lparr>ax_principal := Some p, ax_client := Some client_id,
          ax_location := location_id, ax_target_type := Some ''approval_grant'',
          ax_target_id := Some (gr_id grant), ax_created_at := Some now_str\<rparr>) db) (\<lambda>db.
     Inr (db, grant)))))))))))))))"

end
