(* ===== verification/Example_Data.thy ===== *)
theory Example_Data
  imports Authorization Control_Registry
begin

text \<open>
  A small fleet on which the concrete runs of the other theories are evaluated: one client with one
  location and one Linux endpoint with a device credential, the operator token's principal, the
  endpoint's own principal, and a supply of distinct ids.
\<close>

definition ex_client :: client_row where
  "ex_client = \<lparr>cl_id = ''cl_1'', cl_key = Some ''acme'', cl_name = ''Acme'', cl_name_normalized = ''acme'',
     cl_state = HActive, cl_is_system = False, cl_created_at = ''2026-01-01T00:00:00Z'',
     cl_updated_at = ''2026-01-01T00:00:00Z''\<rparr>"

definition ex_location :: location_row where
  "ex_location = \<lparr>lo_id = ''loc_1'', lo_client = ''cl_1'', lo_key = Some ''hq'', lo_name = ''HQ'',
     lo_name_normalized = ''hq'', lo_state = HActive, lo_is_system = False,
     lo_created_at = ''2026-01-01T00:00:00Z'', lo_updated_at = ''2026-01-01T00:00:00Z''\<rparr>"

definition ex_endpoint :: endpoint_row where
  "ex_endpoint = \<lparr>ep_id = ''ep_1'', ep_fingerprint = ''fp-1'', ep_hostname = ''host-1'', ep_platform = Linux,
     ep_platform_version = None, ep_platform_profile = None, ep_agent_version = ''1.0.0'',
     ep_protocol = ''sha-agent-v1'', ep_architecture = None, ep_installation = Some ''installation-0001'',
     ep_mode = DeviceMode, ep_token = None, ep_client = ''cl_1'', ep_location = ''loc_1'', ep_tenant = None,
     ep_site = None, ep_status = EpActive, ep_connectivity = Some Online,
     ep_capabilities = Some [''request_elevated_troubleshooting'', ''apply_control:linux.network.endpoint-isolated''],
     ep_manifest = None, ep_hooks = None, ep_last_seen_at = ''2026-01-01T00:00:00Z'',
     ep_last_heartbeat_at = None, ep_created_at = ''2026-01-01T00:00:00Z'',
     ep_updated_at = ''2026-01-01T00:00:00Z''\<rparr>"

definition ex_db :: db where
  "ex_db = empty_db\<lparr>db_clients := [ex_client], db_locations := [ex_location], db_endpoints := [ex_endpoint]\<rparr>"

definition ex_operator :: principal where
  "ex_operator = \<lparr>p_subject = ''api-token:operator'', p_display_name = ''Operator API token'', p_role = Operator,
     p_method = OperatorToken, p_user = None, p_identity = None, p_session = None,
     p_grants = [synthetic_global_grant ''legacy_operator'' legacy_operator_permissions],
     p_endpoint = None, p_credential = None, p_token = None\<rparr>"

definition ex_device :: principal where
  "ex_device = \<lparr>p_subject = ''device:ep_1'', p_display_name = ''host-1'', p_role = Agent,
     p_method = DeviceCredential, p_user = None, p_identity = None, p_session = None, p_grants = [],
     p_endpoint = Some ''ep_1'', p_credential = Some ''dc_1'', p_token = None\<rparr>"

definition ex_draw :: "nat \<Rightarrow> string" where
  "ex_draw n = replicate n (CHR ''0'')"

lemma ex_draw_inj: "inj ex_draw"
  by (rule injI) (simp add: ex_draw_def replicate_eq_replicate)

lemma ex_draw_not: "c \<noteq> CHR ''0'' \<Longrightarrow> ex_draw n \<noteq> c # cs"
  by (cases n) (simp_all add: ex_draw_def)

lemmas ex_defs = ex_db_def ex_client_def ex_location_def ex_endpoint_def empty_db_def

lemma ex_operator_permits:
  "q \<in> set legacy_operator_permissions \<Longrightarrow> permits_scope ex_operator q c l"
  "q \<in> set legacy_operator_permissions \<Longrightarrow> has_permission ex_operator q"
  "q \<in> set legacy_operator_permissions \<Longrightarrow> require_permission q ex_operator = Inr ex_operator"
  by (simp_all add: ex_operator_def permits_scope_def has_permission_def require_permission_def
      synthetic_global_grant_def permits_def)

lemma ex_tables [simp]:
  "db_clients ex_db = [ex_client]" "db_locations ex_db = [ex_location]" "db_endpoints ex_db = [ex_endpoint]"
  "db_users ex_db = []" "db_audits ex_db = []" "db_tokens ex_db = []" "db_credentials ex_db = []"
  "db_redemptions ex_db = []" "db_requests ex_db = []" "db_events ex_db = []" "db_grants ex_db = []"
  "db_actions ex_db = []" "db_profiles ex_db = []" "db_snapshots ex_db = []" "db_postures ex_db = []"
  by (simp_all add: ex_db_def empty_db_def)

lemma ex_keys [simp]:
  "cl_id ex_client = ''cl_1''" "cl_state ex_client = HActive" "cl_key ex_client = Some ''acme''"
  "lo_id ex_location = ''loc_1''" "lo_client ex_location = ''cl_1''" "lo_state ex_location = HActive"
  "ep_id ex_endpoint = ''ep_1''" "ep_client ex_endpoint = ''cl_1''" "ep_location ex_endpoint = ''loc_1''"
  "ep_platform ex_endpoint = Linux" "ep_mode ex_endpoint = DeviceMode" "ep_status ex_endpoint = EpActive"
  "p_user ex_operator = None" "p_user ex_device = None"
  by (simp_all add: ex_client_def ex_location_def ex_endpoint_def ex_operator_def ex_device_def)

text \<open>An approved troubleshooting request with its grant and audit trail.\<close>

definition ex_request :: request_row where
  "ex_request = \<lparr>rq_id = ''apr_1'', rq_scope_state = ScopeActive, rq_client = Some ''cl_1'',
     rq_location = Some ''loc_1'', rq_endpoint_ids = [''ep_1''], rq_kind = ElevatedTroubleshooting,
     rq_actions = [RequestElevatedTroubleshooting], rq_control_ids = [], rq_scopes = [ServiceStatus],
     rq_ttl = 60, rq_requested_by = ''user:usr_1'', rq_reason = ''disk alert'', rq_risk = Low,
     rq_status = ReqApproved, rq_decision_by = Some ''api-token:operator'',
     rq_decision_comment = Some ''ok'', rq_decision_at = Some ''2026-01-01T00:00:00Z'',
     rq_grant = Some ''grant_1'', rq_created_at = ''2026-01-01T00:00:00Z'',
     rq_updated_at = ''2026-01-01T00:00:00Z''\<rparr>"

definition ex_grant :: grant_row where
  "ex_grant = \<lparr>gr_id = ''grant_1'', gr_scope_state = ScopeActive, gr_client = Some ''cl_1'',
     gr_location = Some ''loc_1'', gr_request = Some ''apr_1'', gr_endpoint_ids = [''ep_1''],
     gr_actions = [RequestElevatedTroubleshooting], gr_control_ids = [], gr_scopes = [ServiceStatus],
     gr_requested_by = ''user:usr_1'', gr_approved_by = ''api-token:operator'', gr_reason = ''disk alert'',
     gr_expires_at = ''2026-01-01T01:00:00Z'', gr_status = GrantApproved,
     gr_created_at = ''2026-01-01T00:00:00Z'', gr_updated_at = ''2026-01-01T00:00:00Z''\<rparr>"

definition ex_event :: "string \<Rightarrow> event_type \<Rightarrow> event_row" where
  "ex_event k t = \<lparr>ev_id = k, ev_request = ''apr_1'', ev_type = t, ev_actor = ''user:usr_1'',
     ev_comment = ''disk alert'', ev_created_at = ''2026-01-01T00:00:00Z''\<rparr>"

definition ex_approved_db :: db where
  "ex_approved_db = ex_db\<lparr>db_requests := [ex_request], db_grants := [ex_grant],
     db_events := [ex_event ''ape_r'' EvRequested, ex_event ''ape_a'' EvApproved]\<rparr>"

lemmas ex_approval_defs = ex_approved_db_def ex_request_def ex_grant_def ex_event_def

end
