(* ===== verification/Approval_Lifecycle.thy ===== *)
theory Approval_Lifecycle
  imports Approvals Example_Data
begin

text \<open>
  What the approvals API guarantees: the life-cycle contract of requests, grants and audit events and
  its preservation by every handler, the exact effect of the expiry sweep, the legal moves of a
  request, the expiry window, the two grant shapes, and the authority behind every approval.
\<close>

section \<open>The request life cycle\<close>

text \<open>
  The contract of the approval tables.  The status of a request determines its audit trail, in
  order, and the states of the grants made from it; such a grant copies the request it was made
  from, and the request points back to it.
\<close>

fun trail :: "request_status \<Rightarrow> event_type list" where
  "trail ReqPending = [EvRequested]"
| "trail ReqApproved = [EvRequested, EvApproved]"
| "trail ReqDenied = [EvRequested, EvDenied]"
| "trail ReqExpired = [EvRequested, EvApproved, EvExpired]"
| "trail ReqRevoked = [EvRequested, EvApproved, EvRevoked]"

fun grant_states :: "request_status \<Rightarrow> grant_status list" where
  "grant_states ReqPending = []"
| "grant_states ReqApproved = [GrantApproved]"
| "grant_states ReqDenied = []"
| "grant_states ReqExpired = [GrantExpired]"
| "grant_states ReqRevoked = [GrantRevoked]"

definition grants_of :: "db \<Rightarrow> string \<Rightarrow> grant_row list" where
  "grants_of db q = filter (\<lambda>g. gr_request g = Some q) (db_grants db)"

definition events_of :: "db \<Rightarrow> string \<Rightarrow> event_row list" where
  "events_of db q = filter (\<lambda>e. ev_request e = q) (db_events db)"

definition grant_copies :: "request_row \<Rightarrow> grant_row \<Rightarrow> bool" where
  "grant_copies r g \<longleftrightarrow> rq_grant r = Some (gr_id g) \<and> gr_client g = rq_client r \<and> gr_location g = rq_location r \<and>
     gr_endpoint_ids g = rq_endpoint_ids r \<and> gr_actions g = rq_actions r \<and> gr_control_ids g = rq_control_ids r \<and>
     gr_scopes g = rq_scopes r \<and> gr_requested_by g = rq_requested_by r \<and> gr_reason g = rq_reason r"

definition request_ok :: "db \<Rightarrow> request_row \<Rightarrow> bool" where
  "request_ok db r \<longleftrightarrow> rq_id r \<noteq> [] \<and> map gr_status (grants_of db (rq_id r)) = grant_states (rq_status r) \<and>
     map ev_type (events_of db (rq_id r)) = trail (rq_status r) \<and>
     (\<forall>g\<in>set (grants_of db (rq_id r)). grant_copies r g)"

definition approvals_ok :: "db \<Rightarrow> bool" where
  "approvals_ok db \<longleftrightarrow> unique_on rq_id (db_requests db) \<and> unique_on gr_id (db_grants db) \<and> unique_on ev_id (db_events db) \<and>
     (\<forall>r\<in>set (db_requests db). request_ok db r) \<and>
     (\<forall>g\<in>set (db_grants db). \<forall>q. gr_request g = Some q \<longrightarrow> q \<in> rq_id ` set (db_requests db)) \<and>
     (\<forall>e\<in>set (db_events db). ev_request e \<in> rq_id ` set (db_requests db))"

text \<open>The ids a call draws are new: \<open>uuid4\<close> does not repeat a value.\<close>

definition fresh_draws :: "(nat \<Rightarrow> string) \<Rightarrow> db \<Rightarrow> bool" where
  "fresh_draws draw db \<longleftrightarrow> inj draw \<and> (\<forall>i. generate_prefixed_id ''ape'' (draw i) \<notin> ev_id ` set (db_events db))"

lemma approvals_ok_cong:
  assumes "db_requests db' = db_requests db" "db_grants db' = db_grants db" "db_events db' = db_events db"
  shows "approvals_ok db' = approvals_ok db"
  using assms by (simp add: approvals_ok_def request_ok_def grants_of_def events_of_def)

lemma approvals_ok_grants:
  assumes "approvals_ok db" and "g \<in> set (db_grants db)" and "gr_request g = Some q"
  obtains r where "r \<in> set (db_requests db)" "rq_id r = q" "fetch rq_id q (db_requests db) = Some r"
    "grants_of db q = [g]" "grant_states (rq_status r) = [gr_status g]" "grant_copies r g"
proof -
  from assms obtain r where r: "r \<in> set (db_requests db)" "rq_id r = q" "request_ok db r"
    unfolding approvals_ok_def by fastforce
  have "fetch rq_id q (db_requests db) = Some r"
    using r assms(1) fetch_unique[of rq_id] by (auto simp: approvals_ok_def)
  moreover have g: "g \<in> set (grants_of db q)" using assms by (simp add: grants_of_def)
  moreover have "grants_of db q = [g]"
    using g r(2,3) by (cases "rq_status r") (auto simp: request_ok_def)
  ultimately show ?thesis using that r by (auto simp: request_ok_def)
qed

lemma approvals_ok_transition:
  assumes ok: "approvals_ok db" and r: "r \<in> set (db_requests db)" and r': "rq_id r' = rq_id r"
    and reqs: "db_requests db' = save rq_id r' (db_requests db)"
    and events: "db_events db' = db_events db @ [e]" "ev_request e = rq_id r" "ev_id e \<notin> ev_id ` set (db_events db)"
    and trail: "trail (rq_status r') = trail (rq_status r) @ [ev_type e]"
    and grants: "unique_on gr_id (db_grants db')" "\<And>q. q \<noteq> rq_id r \<Longrightarrow> grants_of db' q = grants_of db q"
      "map gr_status (grants_of db' (rq_id r)) = grant_states (rq_status r')"
      "\<And>g. g \<in> set (grants_of db' (rq_id r)) \<Longrightarrow> grant_copies r' g"
  shows "approvals_ok db'"
proof -
  have u: "unique_on rq_id (db_requests db)" using ok by (simp add: approvals_ok_def)
  have ids: "rq_id ` set (db_requests db') = rq_id ` set (db_requests db)" by (simp add: reqs)
  have ev_same: "events_of db' q = events_of db q @ (if q = rq_id r then [e] else [])" for q
    using events by (simp add: events_of_def)
  have "request_ok db' x" if x: "x \<in> set (db_requests db')" for x
  proof (cases "rq_id x = rq_id r")
    case True
    then have "x = r'" using x r' by (auto simp: reqs in_set_save)
    then show ?thesis using r r' ok grants(3,4) trail
      by (auto simp: request_ok_def ev_same approvals_ok_def)
  next
    case False
    then have "x \<in> set (db_requests db)" using x r' by (auto simp: reqs in_set_save)
    then have "request_ok db x" using ok by (simp add: approvals_ok_def)
    then show ?thesis using False grants(2) by (simp add: request_ok_def ev_same)
  qed
  moreover have "q \<in> rq_id ` set (db_requests db')" if "g \<in> set (db_grants db')" "gr_request g = Some q" for g q
  proof (cases "q = rq_id r")
    case True
    then show ?thesis using r ids by auto
  next
    case False
    have "g \<in> set (grants_of db' q)" using that by (simp add: grants_of_def)
    then have "g \<in> set (grants_of db q)" by (simp only: grants(2)[OF False])
    then show ?thesis using ok ids by (auto simp: grants_of_def approvals_ok_def)
  qed
  ultimately show ?thesis
    using ok events r u grants(1) ids by (auto simp: approvals_ok_def reqs)
qed

text \<open>The grants of other requests do not see a grant row of this one being rewritten.\<close>

lemma grants_of_save:
  assumes "unique_on gr_id (db_grants db)" and "g \<in> set (db_grants db)"
    and "gr_id g' = gr_id g" and "gr_request g' = gr_request g" and "db_grants db' = save gr_id g' (db_grants db)"
  shows "grants_of db' q = (if gr_request g = Some q then save gr_id g' (grants_of db q) else grants_of db q)"
proof -
  have f: "filter (\<lambda>x. gr_request x = Some q) (save gr_id g' (db_grants db)) =
      save gr_id g' (filter (\<lambda>x. gr_request x = Some q) (db_grants db))"
    using assms unique_onD[OF assms(1) _ assms(2)] by (intro filter_save) fastforce
  show ?thesis
  proof (cases "gr_request g = Some q")
    case True
    then show ?thesis by (simp add: grants_of_def assms(5) f)
  next
    case False
    have "gr_id g' \<notin> gr_id ` set (grants_of db q)"
      using False assms(3) unique_onD[OF assms(1) _ assms(2)] by (fastforce simp: grants_of_def)
    then show ?thesis using False by (simp add: grants_of_def assms(5) f save_notin)
  qed
qed

section \<open>Expiry\<close>

lemma expire_grant_cases:
  assumes "approvals_ok db" and "g \<in> set (db_grants db)" and "gr_status g = GrantApproved"
    and "\<forall>i. generate_prefixed_id ''ape'' (draw i) \<notin> ev_id ` set (db_events db) \<or> i < n"
  obtains (alive) "now_str < gr_expires_at g" "expire_grant draw now_str g (n, db) = (n, db)"
  | (manual) "gr_expires_at g \<le> now_str" "gr_request g = None"
      "expire_grant draw now_str g (n, db) = (n, db\<lparr>db_grants :=
         save gr_id (g\<lparr>gr_status := GrantExpired, gr_updated_at := now_str\<rparr>) (db_grants db)\<rparr>)"
  | (request) r e where "gr_expires_at g \<le> now_str" "r \<in> set (db_requests db)" "gr_request g = Some (rq_id r)"
      "rq_status r = ReqApproved" "grants_of db (rq_id r) = [g]" "grant_copies r g"
      "ev_request e = rq_id r" "ev_type e = EvExpired" "ev_id e = generate_prefixed_id ''ape'' (draw n)"
      "ev_id e \<notin> ev_id ` set (db_events db)"
      "expire_grant draw now_str g (n, db) = (Suc n, db\<lparr>db_grants :=
         save gr_id (g\<lparr>gr_status := GrantExpired, gr_updated_at := now_str\<rparr>) (db_grants db),
         db_requests := save rq_id (r\<lparr>rq_status := ReqExpired, rq_updated_at := now_str\<rparr>) (db_requests db),
         db_events := db_events db @ [e]\<rparr>)"
proof (cases "now_str < gr_expires_at g")
  case True
  then show ?thesis using alive by (simp add: expire_grant_def)
next
  case late: False
  show ?thesis
  proof (cases "gr_request g")
    case None
    then show ?thesis using late manual by (simp add: expire_grant_def)
  next
    case (Some q)
    from approvals_ok_grants[OF assms(1,2) Some] obtain r where
      r: "r \<in> set (db_requests db)" "rq_id r = q" "fetch rq_id q (db_requests db) = Some r"
      "grants_of db q = [g]" "grant_states (rq_status r) = [gr_status g]" "grant_copies r g" by blast
    have st: "rq_status r = ReqApproved" using r(5) assms(3) by (cases "rq_status r") auto
    have rok: "request_ok db r" using assms(1) r(1) by (simp add: approvals_ok_def)
    define e where "e = create_audit_event (draw n) q EvExpired
      (text_or (rq_decision_by r) ''system'') expired_comment now_str"
    have new: "ev_id e \<notin> ev_id ` set (db_events db)"
      using assms(4) by (auto simp: e_def create_audit_event_def)
    have "EvExpired \<notin> set (map ev_type (events_of db q))"
      using rok st r(2) by (simp add: request_ok_def)
    then have none: "(q, EvExpired) \<notin> (\<lambda>x. (ev_request x, ev_type x)) ` set (db_events db)"
      by (auto simp: events_of_def)
    have "rq_id r \<in> rq_id ` set (save rq_id (r\<lparr>rq_status := ReqExpired, rq_updated_at := now_str\<rparr>) (db_requests db))"
      using r(1) by simp
    then have ins: "insert_event e (db\<lparr>db_grants := save gr_id (g\<lparr>gr_status := GrantExpired, gr_updated_at := now_str\<rparr>) (db_grants db),
        db_requests := save rq_id (r\<lparr>rq_status := ReqExpired, rq_updated_at := now_str\<rparr>) (db_requests db)\<rparr>) =
      Inr (db\<lparr>db_grants := save gr_id (g\<lparr>gr_status := GrantExpired, gr_updated_at := now_str\<rparr>) (db_grants db),
        db_requests := save rq_id (r\<lparr>rq_status := ReqExpired, rq_updated_at := now_str\<rparr>) (db_requests db),
        db_events := db_events db @ [e]\<rparr>)"
      using new none r(2) by (auto simp: insert_event_def fetch_None e_def create_audit_event_def)
    have "expire_grant draw now_str g (n, db) = (Suc n, db\<lparr>db_grants :=
         save gr_id (g\<lparr>gr_status := GrantExpired, gr_updated_at := now_str\<rparr>) (db_grants db),
         db_requests := save rq_id (r\<lparr>rq_status := ReqExpired, rq_updated_at := now_str\<rparr>) (db_requests db),
         db_events := db_events db @ [e]\<rparr>)"
      using late Some r st rok ins by (simp add: expire_grant_def Let_def request_ok_def e_def)
    then show ?thesis
      using late Some r st new by (intro request[of r e]) (auto simp: e_def create_audit_event_def)
  qed
qed

lemma approvals_ok_expire_manual:
  assumes "approvals_ok db" and "g \<in> set (db_grants db)" and "gr_request g = None"
  shows "approvals_ok (db\<lparr>db_grants := save gr_id (g\<lparr>gr_status := s, gr_updated_at := t\<rparr>) (db_grants db)\<rparr>)"
proof -
  let ?g = "g\<lparr>gr_status := s, gr_updated_at := t\<rparr>"
  let ?db = "db\<lparr>db_grants := save gr_id ?g (db_grants db)\<rparr>"
  have same: "grants_of ?db q = grants_of db q" for q
    using assms grants_of_save[of db g ?g ?db q] by (simp add: approvals_ok_def)
  have "events_of ?db q = events_of db q" for q by (simp add: events_of_def)
  then show ?thesis using assms same
    by (auto simp: approvals_ok_def request_ok_def in_set_save)
qed

lemma approvals_ok_expire_request:
  assumes ok: "approvals_ok db" and g: "g \<in> set (db_grants db)" "gr_request g = Some (rq_id r)"
    and r: "r \<in> set (db_requests db)" "rq_status r = ReqApproved" "grants_of db (rq_id r) = [g]" "grant_copies r g"
    and e: "ev_request e = rq_id r" "ev_type e = EvExpired" "ev_id e \<notin> ev_id ` set (db_events db)"
  shows "approvals_ok (db\<lparr>db_grants := save gr_id (g\<lparr>gr_status := GrantExpired, gr_updated_at := t\<rparr>) (db_grants db),
    db_requests := save rq_id (r\<lparr>rq_status := ReqExpired, rq_updated_at := t\<rparr>) (db_requests db),
    db_events := db_events db @ [e]\<rparr>)" (is "approvals_ok ?db")
proof -
  let ?g = "g\<lparr>gr_status := GrantExpired, gr_updated_at := t\<rparr>"
  have u: "unique_on gr_id (db_grants db)" using ok by (simp add: approvals_ok_def)
  have gs: "grants_of ?db q = (if gr_request g = Some q then save gr_id ?g (grants_of db q) else grants_of db q)" for q
    using grants_of_save[OF u g(1), of ?g ?db q] by simp
  show ?thesis
    by (rule approvals_ok_transition[OF ok r(1), where r' = "r\<lparr>rq_status := ReqExpired, rq_updated_at := t\<rparr>" and e = e])
      (use e g r u in \<open>auto simp: gs grant_copies_def\<close>)
qed

text \<open>What the sweep does to a grant and to a request.\<close>

definition expire_grant_row :: "string \<Rightarrow> grant_row \<Rightarrow> grant_row" where
  "expire_grant_row t g = g\<lparr>gr_status := GrantExpired, gr_updated_at := t\<rparr>"

definition expire_request_row :: "string \<Rightarrow> request_row \<Rightarrow> request_row" where
  "expire_request_row t r = r\<lparr>rq_status := ReqExpired, rq_updated_at := t\<rparr>"

lemma save_as_map:
  assumes "unique_on key rows" and "r \<in> set rows" and "key r' = key r"
  shows "save key r' rows = map (\<lambda>x. if x = r then r' else x) rows"
  unfolding save_def using assms unique_onD[OF assms(1) _ assms(2)] by (intro map_cong) auto

lemma update_where_cong:
  "(\<And>x. x \<in> set rows \<Longrightarrow> P x = Q x) \<Longrightarrow> update_where P f rows = update_where Q f rows"
  unfolding update_where_def by (intro map_cong) auto

lemma update_where_after:
  assumes "\<And>x. x \<in> set rows \<Longrightarrow> x \<noteq> r \<Longrightarrow> P x = Q x" and "\<not> P (f r)" and "Q r"
  shows "update_where P f (map (\<lambda>x. if x = r then f r else x) rows) = update_where Q f rows"
  unfolding update_where_def map_map using assms by (intro map_cong) auto

definition sweeps_grant :: "grant_row list \<Rightarrow> string \<Rightarrow> grant_row \<Rightarrow> bool" where
  "sweeps_grant gs t g \<longleftrightarrow> g \<in> set gs \<and> gr_expires_at g \<le> t"

definition sweeps_request :: "grant_row list \<Rightarrow> string \<Rightarrow> request_row \<Rightarrow> bool" where
  "sweeps_request gs t r \<longleftrightarrow> rq_status r = ReqApproved \<and>
     (\<exists>g\<in>set gs. gr_request g = Some (rq_id r) \<and> gr_expires_at g \<le> t)"

definition swept :: "grant_row list \<Rightarrow> string \<Rightarrow> db \<Rightarrow> event_row list \<Rightarrow> db" where
  "swept gs t db evs = db\<lparr>
     db_requests := update_where (sweeps_request gs t) (expire_request_row t) (db_requests db),
     db_grants := update_where (sweeps_grant gs t) (expire_grant_row t) (db_grants db),
     db_events := db_events db @ evs\<rparr>"

lemma swept_Nil: "swept [] t db [] = db"
  by (simp add: swept_def sweeps_request_def sweeps_grant_def update_where_def)

lemma swept_alive: "t < gr_expires_at g \<Longrightarrow> swept (g # gs) t db evs = swept gs t db evs"
proof -
  assume "t < gr_expires_at g"
  then have "sweeps_request (g # gs) t = sweeps_request gs t" "sweeps_grant (g # gs) t = sweeps_grant gs t"
    by (auto simp: sweeps_request_def sweeps_grant_def fun_eq_iff)
  then show ?thesis by (simp add: swept_def)
qed

lemma swept_row_notin: "gr_id g \<notin> gr_id ` set gs \<Longrightarrow> expire_grant_row t g \<notin> set gs"
  by (metis expire_grant_row_def grant_row.select_convs(1) grant_row.surjective grant_row.update_convs(14,16) image_eqI)

lemma swept_manual:
  assumes "unique_on gr_id (db_grants db)" and "g \<in> set (db_grants db)" and "gr_id g \<notin> gr_id ` set gs"
    and "gr_expires_at g \<le> t" and "gr_request g = None"
  shows "swept gs t (db\<lparr>db_grants := save gr_id (expire_grant_row t g) (db_grants db)\<rparr>) evs = swept (g # gs) t db evs"
proof -
  have "sweeps_request (g # gs) t = sweeps_request gs t"
    using assms by (auto simp: sweeps_request_def fun_eq_iff)
  moreover have "save gr_id (expire_grant_row t g) (db_grants db) =
      map (\<lambda>x. if x = g then expire_grant_row t g else x) (db_grants db)"
    by (rule save_as_map[OF assms(1,2)]) (simp add: expire_grant_row_def)
  moreover have "update_where (sweeps_grant gs t) (expire_grant_row t)
      (map (\<lambda>x. if x = g then expire_grant_row t g else x) (db_grants db)) =
      update_where (sweeps_grant (g # gs) t) (expire_grant_row t) (db_grants db)"
    using assms(4) swept_row_notin[OF assms(3)] by (intro update_where_after) (auto simp: sweeps_grant_def)
  ultimately show ?thesis by (simp add: swept_def)
qed

lemma swept_request:
  assumes "unique_on gr_id (db_grants db)" "g \<in> set (db_grants db)" "gr_id g \<notin> gr_id ` set gs" "gr_expires_at g \<le> t"
    and "unique_on rq_id (db_requests db)" "r \<in> set (db_requests db)" "gr_request g = Some (rq_id r)" "rq_status r = ReqApproved"
  shows "swept gs t (db\<lparr>db_grants := save gr_id (expire_grant_row t g) (db_grants db),
      db_requests := save rq_id (expire_request_row t r) (db_requests db), db_events := db_events db @ [e]\<rparr>) evs =
    swept (g # gs) t db (e # evs)"
proof -
  have "save gr_id (expire_grant_row t g) (db_grants db) =
      map (\<lambda>x. if x = g then expire_grant_row t g else x) (db_grants db)"
    by (rule save_as_map[OF assms(1,2)]) (simp add: expire_grant_row_def)
  moreover have "update_where (sweeps_grant gs t) (expire_grant_row t)
      (map (\<lambda>x. if x = g then expire_grant_row t g else x) (db_grants db)) =
      update_where (sweeps_grant (g # gs) t) (expire_grant_row t) (db_grants db)"
    using assms(4) swept_row_notin[OF assms(3)] by (intro update_where_after) (auto simp: sweeps_grant_def)
  moreover have "save rq_id (expire_request_row t r) (db_requests db) =
      map (\<lambda>x. if x = r then expire_request_row t r else x) (db_requests db)"
    by (rule save_as_map[OF assms(5,6)]) (simp add: expire_request_row_def)
  moreover have "update_where (sweeps_request gs t) (expire_request_row t)
      (map (\<lambda>x. if x = r then expire_request_row t r else x) (db_requests db)) =
      update_where (sweeps_request (g # gs) t) (expire_request_row t) (db_requests db)"
  proof (rule update_where_after)
    fix x assume "x \<in> set (db_requests db)" "x \<noteq> r"
    then have "rq_id x \<noteq> rq_id r" using unique_onD[OF assms(5) _ assms(6)] by blast
    then show "sweeps_request gs t x = sweeps_request (g # gs) t x" using assms(7) by (simp add: sweeps_request_def)
  next
    show "\<not> sweeps_request gs t (expire_request_row t r)" by (simp add: sweeps_request_def expire_request_row_def)
    show "sweeps_request (g # gs) t r" using assms(4,7,8) by (simp add: sweeps_request_def)
  qed
  ultimately show ?thesis by (simp add: swept_def)
qed

lemma expire_fold:
  assumes "approvals_ok db" and "\<forall>g\<in>set gs. g \<in> set (db_grants db) \<and> gr_status g = GrantApproved"
    and "distinct (map gr_id gs)" and "inj draw"
    and "\<forall>i. generate_prefixed_id ''ape'' (draw i) \<notin> ev_id ` set (db_events db) \<or> i < n"
    and "fold (expire_grant draw t) gs (n, db) = (n', db')"
  shows "approvals_ok db' \<and> n \<le> n' \<and>
    (\<forall>i. generate_prefixed_id ''ape'' (draw i) \<notin> ev_id ` set (db_events db') \<or> i < n') \<and>
    (\<exists>evs. db' = swept gs t db evs)"
  using assms
proof (induction gs arbitrary: n db)
  case Nil
  then show ?case using swept_Nil[of t db, symmetric] by auto
next
  case (Cons g gs)
  have g: "g \<in> set (db_grants db)" "gr_status g = GrantApproved" using Cons.prems(2) by auto
  have u: "unique_on gr_id (db_grants db)" "unique_on rq_id (db_requests db)"
    using Cons.prems(1) by (simp_all add: approvals_ok_def)
  have notin: "gr_id g \<notin> gr_id ` set gs" and dist: "distinct (map gr_id gs)" using Cons.prems(3) by simp_all
  have rest: "\<forall>x\<in>set gs. x \<in> set (save gr_id (expire_grant_row t g) (db_grants db)) \<and> gr_status x = GrantApproved"
    using Cons.prems(2) notin by (auto simp: in_set_save expire_grant_row_def) (metis image_eqI)
  from Cons.prems(1) g Cons.prems(5) show ?case
  proof (cases rule: expire_grant_cases[where now_str = t])
    case alive
    then have "fold (expire_grant draw t) gs (n, db) = (n', db')" using Cons.prems(6) by simp
    from Cons.IH[OF Cons.prems(1) _ dist Cons.prems(4,5) this] Cons.prems(2) show ?thesis
      unfolding swept_alive[OF alive(1)] by simp
  next
    case manual
    let ?db = "db\<lparr>db_grants := save gr_id (expire_grant_row t g) (db_grants db)\<rparr>"
    have run: "fold (expire_grant draw t) gs (n, ?db) = (n', db')"
      using manual Cons.prems(6) by (simp add: expire_grant_row_def)
    have ok: "approvals_ok ?db"
      unfolding expire_grant_row_def by (rule approvals_ok_expire_manual[OF Cons.prems(1) g(1) manual(2)])
    have fresh: "\<forall>i. generate_prefixed_id ''ape'' (draw i) \<notin> ev_id ` set (db_events ?db) \<or> i < n"
      using Cons.prems(5) by simp
    from Cons.IH[OF ok _ dist Cons.prems(4) fresh run] rest show ?thesis
      using swept_manual[OF u(1) g(1) notin manual(1,2)] by simp
  next
    case (request r e)
    let ?db = "db\<lparr>db_grants := save gr_id (expire_grant_row t g) (db_grants db),
      db_requests := save rq_id (expire_request_row t r) (db_requests db), db_events := db_events db @ [e]\<rparr>"
    have run: "fold (expire_grant draw t) gs (Suc n, ?db) = (n', db')"
      using request(11) Cons.prems(6) by (simp add: expire_grant_row_def expire_request_row_def)
    have ok: "approvals_ok ?db" unfolding expire_grant_row_def expire_request_row_def
      using approvals_ok_expire_request[OF Cons.prems(1) g(1) request(3,2,4,5,6,7,8,10)] .
    have fresh: "\<forall>i. generate_prefixed_id ''ape'' (draw i) \<notin> ev_id ` set (db_events ?db) \<or> i < Suc n"
      using Cons.prems(4,5) request(9) by (auto simp: generate_prefixed_id_def less_Suc_eq dest: injD)
    from Cons.IH[OF ok _ dist Cons.prems(4) fresh run] rest show ?thesis
      using swept_request[OF u(1) g(1) notin request(1) u(2) request(2,3,4)] by (auto simp: Suc_le_eq)
  qed
qed

lemma sync_expired_grants_swept:
  assumes "approvals_ok db" and "fresh_draws draw db" and "sync_expired_grants draw t db = (n, db')"
  obtains evs where "approvals_ok db'"
    "\<forall>i. generate_prefixed_id ''ape'' (draw (n + i)) \<notin> ev_id ` set (db_events db')"
    "db' = swept (filter (\<lambda>g. gr_status g = GrantApproved) (db_grants db)) t db evs"
proof -
  let ?gs = "order_by (\<lambda>g. (gr_created_at g, gr_id g)) (filter (\<lambda>g. gr_status g = GrantApproved) (db_grants db))"
  have dist: "distinct (map gr_id ?gs)"
    using assms(1) by (intro distinct_map_order_by) (simp add: approvals_ok_def unique_on_def distinct_map_filter)
  have run: "fold (expire_grant draw t) ?gs (0, db) = (n, db')" using assms(3) by (simp add: sync_expired_grants_def)
  from expire_fold[OF assms(1) _ dist _ _ run] assms(2) obtain evs where
    *: "approvals_ok db'" "\<forall>i. generate_prefixed_id ''ape'' (draw i) \<notin> ev_id ` set (db_events db') \<or> i < n"
      "db' = swept ?gs t db evs"
    by (auto simp: fresh_draws_def)
  have "swept ?gs t db evs = swept (filter (\<lambda>g. gr_status g = GrantApproved) (db_grants db)) t db evs"
    by (simp add: swept_def sweeps_grant_def sweeps_request_def cong: update_where_cong)
  with * that show ?thesis by (metis not_add_less1)
qed

lemma approved_request_grants:
  assumes "approvals_ok db" and "r \<in> set (db_requests db)" and "rq_status r = ReqApproved"
    and "g \<in> set (db_grants db)" and "gr_request g = Some (rq_id r)"
  shows "gr_status g = GrantApproved"
proof -
  have "map gr_status (grants_of db (rq_id r)) = [GrantApproved]"
    using assms(1-3) by (simp add: approvals_ok_def request_ok_def)
  moreover have "g \<in> set (grants_of db (rq_id r))" using assms(4,5) by (simp add: grants_of_def)
  ultimately show ?thesis by (auto simp: map_eq_Cons_conv)
qed

text \<open>
  C4.  The expiry sweep is exactly one bulk update: it expires the approved grants whose deadline
  has come and the approved requests they were made from, and nothing else, keeps the life-cycle
  contract, and leaves no approved grant past its deadline.
\<close>

theorem sync_expired_grants_exact:
  assumes "approvals_ok db" and "fresh_draws draw db" and "sync_expired_grants draw t db = (n, db')"
  shows "approvals_ok db' \<and>
    db_grants db' = update_where (\<lambda>g. gr_status g = GrantApproved \<and> gr_expires_at g \<le> t)
      (expire_grant_row t) (db_grants db) \<and>
    db_requests db' = update_where (\<lambda>r. rq_status r = ReqApproved \<and>
        (\<exists>g\<in>set (grants_of db (rq_id r)). gr_expires_at g \<le> t)) (expire_request_row t) (db_requests db) \<and>
    (\<forall>g\<in>set (db_grants db'). gr_status g = GrantApproved \<longrightarrow> t < gr_expires_at g) \<and>
    db' = db\<lparr>db_requests := db_requests db', db_grants := db_grants db', db_events := db_events db'\<rparr>"
proof -
  let ?gs = "filter (\<lambda>g. gr_status g = GrantApproved) (db_grants db)"
  from sync_expired_grants_swept[OF assms] obtain evs where ok: "approvals_ok db'" and sw: "db' = swept ?gs t db evs"
    by blast
  have same: "sweeps_request ?gs t r \<longleftrightarrow> rq_status r = ReqApproved \<and> (\<exists>g\<in>set (grants_of db (rq_id r)). gr_expires_at g \<le> t)"
    if "r \<in> set (db_requests db)" for r
    using approved_request_grants[OF assms(1) that] by (auto simp: sweeps_request_def grants_of_def)
  have reqs: "db_requests db' = update_where (\<lambda>r. rq_status r = ReqApproved \<and>
        (\<exists>g\<in>set (grants_of db (rq_id r)). gr_expires_at g \<le> t)) (expire_request_row t) (db_requests db)"
    unfolding sw swept_def by (simp, rule update_where_cong)
      (rule same)
  have grants: "db_grants db' = update_where (\<lambda>g. gr_status g = GrantApproved \<and> gr_expires_at g \<le> t)
      (expire_grant_row t) (db_grants db)"
    unfolding sw swept_def by (simp, rule update_where_cong) (auto simp: sweeps_grant_def)
  have "t < gr_expires_at g" if "g \<in> set (db_grants db')" "gr_status g = GrantApproved" for g
  proof -
    from that(1)[unfolded grants in_set_update_where] obtain x where
      "g = (if gr_status x = GrantApproved \<and> gr_expires_at x \<le> t then expire_grant_row t x else x)" by blast
    then show ?thesis using that(2) by (cases "gr_status x = GrantApproved \<and> gr_expires_at x \<le> t")
      (simp_all add: expire_grant_row_def not_le)
  qed
  then show ?thesis using ok grants reqs unfolding sw swept_def by simp
qed

section \<open>The handlers keep the life cycle\<close>

lemma insert_event_Inr [result_simps]:
  "insert_event e db = Inr db' \<longleftrightarrow> ev_id e \<notin> ev_id ` set (db_events db) \<and>
     ev_request e \<in> rq_id ` set (db_requests db) \<and>
     (ev_request e, ev_type e) \<notin> (\<lambda>x. (ev_request x, ev_type x)) ` set (db_events db) \<and>
     db' = db\<lparr>db_events := db_events db @ [e]\<rparr>"
  unfolding insert_event_def fetch_None by auto

lemma insert_grant_Inr [result_simps]:
  "insert_grant g db = Inr db' \<longleftrightarrow> gr_id g \<notin> gr_id ` set (db_grants db) \<and>
     client_exists db (gr_client g) \<and> location_exists db (gr_client g) (gr_location g) \<and>
     scope_state_ok (gr_scope_state g) (gr_client g) (gr_location g) \<and>
     (\<forall>q. gr_request g = Some q \<longrightarrow> q \<in> rq_id ` set (db_requests db) \<and> Some q \<notin> gr_request ` set (db_grants db)) \<and>
     db' = db\<lparr>db_grants := db_grants db @ [g]\<rparr>"
proof -
  have "(case gr_request g of None \<Rightarrow> True
      | Some q \<Rightarrow> fetch rq_id q (db_requests db) \<noteq> None \<and> fetch gr_request (Some q) (db_grants db) = None) \<longleftrightarrow>
    (\<forall>q. gr_request g = Some q \<longrightarrow> q \<in> rq_id ` set (db_requests db) \<and> Some q \<notin> gr_request ` set (db_grants db))"
    unfolding fetch_None by (cases "gr_request g") simp_all
  then show ?thesis unfolding insert_grant_def fetch_None[of gr_id] by (simp only:) auto
qed

lemma approvals_ok_request: "approvals_ok db \<Longrightarrow> r \<in> set (db_requests db) \<Longrightarrow> request_ok db r"
  by (simp add: approvals_ok_def)

lemma pending_no_grants:
  "approvals_ok db \<Longrightarrow> r \<in> set (db_requests db) \<Longrightarrow> rq_status r = ReqPending \<Longrightarrow> grants_of db (rq_id r) = []"
  using approvals_ok_request[of db r] by (simp add: request_ok_def)

lemma update_request_Inr:
  assumes "update_request q s f db = Inr db'" and "unique_on rq_id (db_requests db)"
    and "r \<in> set (db_requests db)" "rq_id r = q" "rq_status r = s" "\<And>x. rq_id (f x) = rq_id x"
  shows "db' = db\<lparr>db_requests := save rq_id (f r) (db_requests db)\<rparr>"
proof -
  have "update_where (\<lambda>r. rq_id r = q \<and> rq_status r = s) f (db_requests db) = save rq_id (f r) (db_requests db)"
    by (rule update_where_save[OF assms(2,3)]) (use assms(4-6) in auto)
  then show ?thesis using assms(1) by (simp add: update_request_def Let_def split: if_splits)
qed

lemma audit_keeps_approvals:
  assumes "record_audit_event u now x db = Inr db'"
  shows "approvals_ok db' = approvals_ok db" and "db_requests db' = db_requests db"
    "db_grants db' = db_grants db" "db_events db' = db_events db"
proof -
  have eq: "db' = db\<lparr>db_audits := db_audits db @ [audit_event u now x]\<rparr>"
    using assms unfolding record_audit_event_def by (rule insert_audit_frame)
  show "db_requests db' = db_requests db" "db_grants db' = db_grants db" "db_events db' = db_events db"
    unfolding eq by simp_all
  then show "approvals_ok db' = approvals_ok db" by (rule approvals_ok_cong)
qed

lemma decide_approve_Inr:
  assumes ok: "approvals_ok db" and r: "request \<in> set (db_requests db)"
    and run: "decide_approve draw n now by_whom comment expires request db = Inr db'"
  obtains e s g where "expires = Some e" "validate_grant_expiry e now (rq_ttl request) = Inr s"
    "rq_status request = ReqPending" "approvals_ok db'"
    "g = \<lparr>gr_id = generate_prefixed_id ''grant'' (draw n), gr_scope_state = ScopeActive,
              gr_client = rq_client request, gr_location = rq_location request,
              gr_request = Some (rq_id request), gr_endpoint_ids = rq_endpoint_ids request,
              gr_actions = rq_actions request, gr_control_ids = rq_control_ids request,
              gr_scopes = rq_scopes request, gr_requested_by = rq_requested_by request,
              gr_approved_by = by_whom, gr_reason = rq_reason request, gr_expires_at = s,
              gr_status = GrantApproved, gr_created_at = strftime_z now, gr_updated_at = strftime_z now\<rparr>"
    "db_grants db' = db_grants db @ [g]"
    "db_requests db' = save rq_id (request\<lparr>rq_status := ReqApproved, rq_decision_by := Some by_whom,
        rq_decision_comment := Some comment, rq_decision_at := Some (strftime_z now),
        rq_grant := Some (gr_id g), rq_updated_at := strftime_z now\<rparr>) (db_requests db)"
proof -
  have u: "unique_on rq_id (db_requests db)" using ok by (simp add: approvals_ok_def)
  obtain e s where e: "expires = Some e" "validate_grant_expiry e now (rq_ttl request) = Inr s"
      "rq_status request = ReqPending"
    using run by (auto simp: decide_approve_def Let_def andThen_eq_Inr split: if_splits option.splits)
  define g where "g = \<lparr>gr_id = generate_prefixed_id ''grant'' (draw n), gr_scope_state = ScopeActive,
              gr_client = rq_client request, gr_location = rq_location request,
              gr_request = Some (rq_id request), gr_endpoint_ids = rq_endpoint_ids request,
              gr_actions = rq_actions request, gr_control_ids = rq_control_ids request,
              gr_scopes = rq_scopes request, gr_requested_by = rq_requested_by request,
              gr_approved_by = by_whom, gr_reason = rq_reason request, gr_expires_at = s,
              gr_status = GrantApproved, gr_created_at = strftime_z now, gr_updated_at = strftime_z now\<rparr>"
  define f where "f = (\<lambda>r :: request_row. r\<lparr>rq_status := ReqApproved, rq_decision_by := Some by_whom, rq_decision_comment := Some comment,
               rq_decision_at := Some (strftime_z now), rq_grant := Some (gr_id g), rq_updated_at := strftime_z now\<rparr>)"
  have "andThen (update_request (rq_id request) ReqPending f db) (\<lambda>db. case insert_grant g db of
          Inl _ \<Rightarrow> Inl wrong_state
        | Inr db \<Rightarrow> insert_event
            (create_audit_event (draw (n + 1)) (rq_id request) EvApproved by_whom comment (strftime_z now)) db) = Inr db'"
    using run e by (simp add: decide_approve_def Let_def g_def f_def)
  then obtain db1 where upd: "update_request (rq_id request) ReqPending f db = Inr db1"
    and "(case insert_grant g db1 of Inl _ \<Rightarrow> Inl wrong_state | Inr db \<Rightarrow> insert_event
            (create_audit_event (draw (n + 1)) (rq_id request) EvApproved by_whom comment (strftime_z now)) db) = Inr db'"
    unfolding andThen_eq_Inr by blast
  then obtain db2 where step: "insert_grant g db1 = Inr db2"
      "insert_event (create_audit_event (draw (n + 1)) (rq_id request) EvApproved by_whom comment (strftime_z now)) db2 = Inr db'"
    by (cases "insert_grant g db1") simp_all
  have db1: "db1 = db\<lparr>db_requests := save rq_id (f request) (db_requests db)\<rparr>"
    by (rule update_request_Inr[OF upd u r refl e(3)]) (simp add: f_def)
  have gnew: "gr_id g \<notin> gr_id ` set (db_grants db)" and db2: "db2 = db1\<lparr>db_grants := db_grants db @ [g]\<rparr>"
    using step(1) by (auto simp: insert_grant_Inr db1)
  let ?e = "create_audit_event (draw (n + 1)) (rq_id request) EvApproved by_whom comment (strftime_z now)"
  have enew: "ev_id ?e \<notin> ev_id ` set (db_events db)" and db': "db' = db2\<lparr>db_events := db_events db @ [?e]\<rparr>"
    using step(2) by (auto simp: insert_event_Inr db2 db1)
  have gs: "grants_of db' q = grants_of db q @ (if q = rq_id request then [g] else [])" for q
    by (simp add: db' db2 grants_of_def g_def)
  have none: "grants_of db (rq_id request) = []" by (rule pending_no_grants[OF ok r e(3)])
  have ug: "unique_on gr_id (db_grants db')" using ok gnew by (simp add: approvals_ok_def db' db2)
  have reqs: "db_requests db' = save rq_id (f request) (db_requests db)" by (simp add: db' db2 db1)
  have evs: "db_events db' = db_events db @ [?e]" by (simp add: db')
  have "approvals_ok db'"
    by (rule approvals_ok_transition[OF ok r, where r' = "f request" and e = ?e])
      (use ug enew none e(3) in \<open>simp_all add: gs reqs evs f_def create_audit_event_def g_def grant_copies_def\<close>)
  then show ?thesis using that[OF e _ g_def] by (simp add: db' db2 db1 f_def)
qed

lemma decide_deny_Inr:
  assumes ok: "approvals_ok db" and r: "request \<in> set (db_requests db)"
    and run: "decide_deny draw n now by_whom comment expires request db = Inr db'"
  shows "rq_status request = ReqPending \<and> approvals_ok db' \<and> db_grants db' = db_grants db \<and>
    db_requests db' = save rq_id (request\<lparr>rq_status := ReqDenied, rq_decision_by := Some by_whom,
        rq_decision_comment := Some comment, rq_decision_at := Some (strftime_z now),
        rq_updated_at := strftime_z now\<rparr>) (db_requests db)"
proof -
  have u: "unique_on rq_id (db_requests db)" using ok by (simp add: approvals_ok_def)
  define f where "f = (\<lambda>r :: request_row. r\<lparr>rq_status := ReqDenied, rq_decision_by := Some by_whom, rq_decision_comment := Some comment,
               rq_decision_at := Some (strftime_z now), rq_updated_at := strftime_z now\<rparr>)"
  let ?e = "create_audit_event (draw n) (rq_id request) EvDenied by_whom comment (strftime_z now)"
  obtain db1 where st: "rq_status request = ReqPending" and step: "update_request (rq_id request) ReqPending f db = Inr db1"
      "insert_event ?e db1 = Inr db'"
    using run by (auto simp: decide_deny_def Let_def andThen_eq_Inr f_def split: if_splits)
  have db1: "db1 = db\<lparr>db_requests := save rq_id (f request) (db_requests db)\<rparr>"
    by (rule update_request_Inr[OF step(1) u r refl st]) (simp add: f_def)
  have enew: "ev_id ?e \<notin> ev_id ` set (db_events db)" and db': "db' = db1\<lparr>db_events := db_events db @ [?e]\<rparr>"
    using step(2) by (auto simp: insert_event_Inr db1)
  have gs: "grants_of db' q = grants_of db q" for q by (simp add: db' db1 grants_of_def)
  have none: "grants_of db (rq_id request) = []" by (rule pending_no_grants[OF ok r st])
  have ug: "unique_on gr_id (db_grants db')" using ok by (simp add: approvals_ok_def db' db1)
  have reqs: "db_requests db' = save rq_id (f request) (db_requests db)" by (simp add: db' db1)
  have evs: "db_events db' = db_events db @ [?e]" by (simp add: db')
  have "approvals_ok db'"
    by (rule approvals_ok_transition[OF ok r, where r' = "f request" and e = ?e])
      (use ug enew none st in \<open>simp_all add: gs reqs evs f_def create_audit_event_def\<close>)
  then show ?thesis using st by (simp add: db' db1 f_def)
qed

lemma decide_revoke_Inr:
  assumes ok: "approvals_ok db" and r: "request \<in> set (db_requests db)"
    and run: "decide_revoke draw n now by_whom comment expires request db = Inr db'"
  shows "rq_status request = ReqApproved \<and> approvals_ok db' \<and>
    db_grants db' = update_where (\<lambda>g. gr_request g = Some (rq_id request) \<and> gr_status g = GrantApproved)
              (\<lambda>g. g\<lparr>gr_status := GrantRevoked, gr_updated_at := strftime_z now\<rparr>) (db_grants db) \<and>
    db_requests db' = save rq_id (request\<lparr>rq_status := ReqRevoked, rq_decision_by := Some by_whom,
        rq_decision_comment := Some comment, rq_decision_at := Some (strftime_z now),
        rq_updated_at := strftime_z now\<rparr>) (db_requests db)"
proof -
  have u: "unique_on rq_id (db_requests db)" using ok by (simp add: approvals_ok_def)
  define f where "f = (\<lambda>r :: request_row. r\<lparr>rq_status := ReqRevoked, rq_decision_by := Some by_whom, rq_decision_comment := Some comment,
               rq_decision_at := Some (strftime_z now), rq_updated_at := strftime_z now\<rparr>)"
  define P where "P = (\<lambda>g :: grant_row. gr_request g = Some (rq_id request) \<and> gr_status g = GrantApproved)"
  define h where "h = (\<lambda>g :: grant_row. g\<lparr>gr_status := GrantRevoked, gr_updated_at := strftime_z now\<rparr>)"
  let ?e = "create_audit_event (draw n) (rq_id request) EvRevoked by_whom comment (strftime_z now)"
  obtain db1 where st: "rq_status request = ReqApproved" and step: "update_request (rq_id request) ReqApproved f db = Inr db1"
      "insert_event ?e (db1\<lparr>db_grants := update_where P h (db_grants db1)\<rparr>) = Inr db'"
    using run by (auto simp: decide_revoke_def Let_def andThen_eq_Inr f_def P_def h_def split: if_splits)
  have db1: "db1 = db\<lparr>db_requests := save rq_id (f request) (db_requests db)\<rparr>"
    by (rule update_request_Inr[OF step(1) u r refl st]) (simp add: f_def)
  have enew: "ev_id ?e \<notin> ev_id ` set (db_events db)" and db': "db' = db1\<lparr>db_grants := update_where P h (db_grants db),
      db_events := db_events db @ [?e]\<rparr>"
    using step(2) by (auto simp: insert_event_Inr db1)
  have gs: "grants_of db' q = update_where P h (grants_of db q)" for q
    unfolding grants_of_def db' by (simp, rule filter_update_where) (simp add: h_def)
  have other: "update_where P h (grants_of db q) = grants_of db q" if "q \<noteq> rq_id request" for q
    unfolding update_where_def by (rule map_idI) (use that in \<open>auto simp: P_def grants_of_def\<close>)
  obtain g where one: "grants_of db (rq_id request) = [g]" "gr_status g = GrantApproved" "grant_copies request g"
    using approvals_ok_request[OF ok r] st unfolding request_ok_def by (auto simp: map_eq_Cons_conv)
  then have "gr_request g = Some (rq_id request)" by (metis (mono_tags, lifting) Cons_eq_filterD grants_of_def)
  then have this_one: "grants_of db' (rq_id request) = [h g]"
    using one by (simp add: gs update_where_def P_def)
  have ug: "unique_on gr_id (db_grants db')"
    using ok by (simp add: db' approvals_ok_def unique_on_update_where h_def)
  have reqs: "db_requests db' = save rq_id (f request) (db_requests db)" by (simp add: db' db1)
  have evs: "db_events db' = db_events db @ [?e]" by (simp add: db')
  have "approvals_ok db'"
    by (rule approvals_ok_transition[OF ok r, where r' = "f request" and e = ?e])
      (use ug enew one(2,3) this_one other st in \<open>simp_all add: gs reqs evs f_def create_audit_event_def h_def grant_copies_def\<close>)
  then show ?thesis using st by (simp add: db' db1 f_def P_def h_def)
qed

section \<open>What every handler preserves\<close>

text \<open>The legal moves of a request.\<close>

inductive request_step :: "request_status \<Rightarrow> request_status \<Rightarrow> bool" where
  approve: "request_step ReqPending ReqApproved"
| deny: "request_step ReqPending ReqDenied"
| revoke: "request_step ReqApproved ReqRevoked"
| expire: "request_step ReqApproved ReqExpired"

code_pred request_step .

inductive_cases request_stepE: "request_step s s'"
inductive_simps request_step_pending: "request_step ReqPending s"
inductive_simps request_step_approved: "request_step ReqApproved s"
inductive_simps request_step_denied: "request_step ReqDenied s"
inductive_simps request_step_expired: "request_step ReqExpired s"
inductive_simps request_step_revoked: "request_step ReqRevoked s"

lemmas request_step_simps = request_step_pending request_step_approved request_step_denied
  request_step_expired request_step_revoked

definition same_ask :: "request_row \<Rightarrow> request_row \<Rightarrow> bool" where
  "same_ask r r' \<longleftrightarrow> rq_id r' = rq_id r \<and> rq_scope_state r' = rq_scope_state r \<and> rq_client r' = rq_client r \<and>
     rq_location r' = rq_location r \<and> rq_endpoint_ids r' = rq_endpoint_ids r \<and> rq_kind r' = rq_kind r \<and>
     rq_actions r' = rq_actions r \<and> rq_control_ids r' = rq_control_ids r \<and> rq_scopes r' = rq_scopes r \<and>
     rq_ttl r' = rq_ttl r \<and> rq_requested_by r' = rq_requested_by r \<and> rq_reason r' = rq_reason r \<and>
     rq_risk r' = rq_risk r \<and> rq_created_at r' = rq_created_at r"

definition evolves :: "db \<Rightarrow> db \<Rightarrow> bool" where
  "evolves db db' \<longleftrightarrow> (\<forall>r\<in>set (db_requests db). \<exists>r'\<in>set (db_requests db').
     same_ask r r' \<and> request_step\<^sup>*\<^sup>* (rq_status r) (rq_status r'))"

lemma same_ask_refl [simp]: "same_ask r r"
  by (simp add: same_ask_def)

lemma same_ask_trans: "same_ask r s \<Longrightarrow> same_ask s t \<Longrightarrow> same_ask r t"
  by (simp add: same_ask_def)

lemma evolves_refl [simp]: "evolves db db"
  by (force simp: evolves_def)

lemma evolves_trans: "evolves db1 db2 \<Longrightarrow> evolves db2 db3 \<Longrightarrow> evolves db1 db3"
  unfolding evolves_def by (meson rtranclp_trans same_ask_trans)

lemma evolves_same_requests: "db_requests db' = db_requests db \<Longrightarrow> evolves db db'"
  by (force simp: evolves_def)

lemma evolves_save:
  assumes "db_requests db' = save rq_id r' (db_requests db)" and "unique_on rq_id (db_requests db)"
    and "r \<in> set (db_requests db)" "same_ask r r'" "request_step\<^sup>*\<^sup>* (rq_status r) (rq_status r')"
  shows "evolves db db'"
proof -
  have id: "rq_id r' = rq_id r" using assms(4) by (simp add: same_ask_def)
  have "\<exists>y\<in>set (db_requests db'). same_ask x y \<and> request_step\<^sup>*\<^sup>* (rq_status x) (rq_status y)"
    if x: "x \<in> set (db_requests db)" for x
  proof (cases "x = r")
    case True
    have "r' \<in> set (db_requests db')" using assms(3) id by (auto simp: assms(1) in_set_save)
    then show ?thesis using True assms(4,5) by blast
  next
    case False
    then have "rq_id x \<noteq> rq_id r'" using id unique_onD[OF assms(2) x assms(3)] by auto
    then have "x \<in> set (db_requests db')" using x by (simp add: assms(1) in_set_save)
    then show ?thesis by (intro bexI[of _ x]) auto
  qed
  then show ?thesis by (simp add: evolves_def)
qed

lemma evolves_update_where:
  assumes "db_requests db' = update_where P f (db_requests db)"
    and "\<And>r. P r \<Longrightarrow> same_ask r (f r) \<and> request_step (rq_status r) (rq_status (f r))"
  shows "evolves db db'"
proof -
  have "\<exists>y\<in>set (db_requests db'). same_ask x y \<and> request_step\<^sup>*\<^sup>* (rq_status x) (rq_status y)"
    if x: "x \<in> set (db_requests db)" for x
    unfolding assms(1) using x assms(2)[of x]
    by (intro bexI[of _ "if P x then f x else x"]) (auto simp: in_set_update_where)
  then show ?thesis by (simp add: evolves_def)
qed

lemma sync_evolves:
  assumes "approvals_ok db" and "fresh_draws draw db" and "sync_expired_grants draw t db = (n, db')"
  shows "evolves db db'"
proof -
  from sync_expired_grants_swept[OF assms] obtain evs where
    sw: "db' = swept (filter (\<lambda>g. gr_status g = GrantApproved) (db_grants db)) t db evs" by blast
  show ?thesis
    by (rule evolves_update_where[where P = "sweeps_request (filter (\<lambda>g. gr_status g = GrantApproved) (db_grants db)) t"
          and f = "expire_request_row t"])
      (auto simp: sw swept_def sweeps_request_def expire_request_row_def same_ask_def intro: request_step.intros)
qed

lemma visible_requests_subset: "r \<in> set (visible_requests p q db) \<Longrightarrow> r \<in> set (db_requests db)
    \<and> rq_scope_state r = ScopeActive \<and> permits_scope p q (rq_client r) (rq_location r)"
  using scope_clause_loop_true by (simp add: visible_requests_def where_clause_def scope_clause_def permits_scope_def list_ex_iff)

text \<open>The parts of a successful decision.\<close>

lemma decide_parts:
  assumes "decide_approval_request draw now p raw payload db = (db', Inr (r, evs))"
  obtains comment n db1 request db2 u x where
    "has_permission p ''approval.decide''" "comment = strip (di_comment payload)"
    "sync_expired_grants draw (strftime_z now) db = (n, db1)"
    "request \<in> set (visible_requests p ''approval.decide'' db1)" "rq_id request = strip raw"
    "(case di_decision payload of Approve \<Rightarrow> decide_approve | Deny \<Rightarrow> decide_deny | Revoke \<Rightarrow> decide_revoke)
       draw n now (audit_actor p) comment (di_expires_at payload) request db1 = Inr db2"
    "record_audit_event u (strftime_z now) x db2 = Inr db'" "fetch rq_id (strip raw) (db_requests db') = Some r"
    "evs = collect_request_events db' (rq_id r)"
proof -
  obtain n db1 where sync: "sync_expired_grants draw (strftime_z now) db = (n, db1)" by fastforce
  from assms obtain request where
    req: "List.find (\<lambda>r. rq_id r = strip raw) (visible_requests p ''approval.decide'' db1) = Some request"
    and perm: "has_permission p ''approval.decide''"
    by (auto simp: decide_approval_request_def transaction_Inr andThen_eq_Inr sync Let_def
        require_permission_def normalize_required_string_def trim_required_eq_Inr split: option.splits if_splits)
  from find_eq_Some_first[OF req] have vis: "request \<in> set (visible_requests p ''approval.decide'' db1)" "rq_id request = strip raw"
    by simp_all
  show ?thesis
    by (cases "di_decision payload")
      (use assms req perm vis sync that in \<open>auto simp: decide_approval_request_def transaction_Inr andThen_eq_Inr Let_def
        require_permission_def normalize_required_string_def trim_required_eq_Inr split: option.splits if_splits\<close>)
qed

lemma visible_in: "r \<in> set (visible_requests p q db) \<Longrightarrow> r \<in> set (db_requests db)"
  by (simp add: visible_requests_def)

lemma decide_Inr_keeps:
  assumes ok: "approvals_ok db" and fresh: "fresh_draws draw db"
    and run: "decide_approval_request draw now p raw payload db = (db', Inr (r, evs))"
  shows "approvals_ok db' \<and> evolves db db'"
proof -
  from run show ?thesis
  proof (rule decide_parts)
    fix comment n db1 request db2 u x
    assume sync: "sync_expired_grants draw (strftime_z now) db = (n, db1)"
      and vis: "request \<in> set (visible_requests p ''approval.decide'' db1)"
      and step: "(case di_decision payload of Approve \<Rightarrow> decide_approve | Deny \<Rightarrow> decide_deny | Revoke \<Rightarrow> decide_revoke)
         draw n now (audit_actor p) comment (di_expires_at payload) request db1 = Inr db2"
      and audit: "record_audit_event u (strftime_z now) x db2 = Inr db'"
    have ok1: "approvals_ok db1" using sync_expired_grants_swept[OF ok fresh sync] by blast
    have u1: "unique_on rq_id (db_requests db1)" using ok1 by (simp add: approvals_ok_def)
    note r1 = visible_in[OF vis]
    have "approvals_ok db2 \<and> evolves db1 db2"
    proof (cases "di_decision payload")
      case Approve
      from step Approve have run2: "decide_approve draw n now (audit_actor p) comment (di_expires_at payload) request db1 = Inr db2"
        by simp
      show ?thesis
        by (rule decide_approve_Inr[OF ok1 r1 run2], intro conjI, assumption, erule evolves_save[OF _ u1 r1])
          (auto simp: same_ask_def intro: request_step.intros)
    next
      case Deny
      with step decide_deny_Inr[OF ok1 r1] have *: "rq_status request = ReqPending" "approvals_ok db2"
        and reqs: "db_requests db2 = save rq_id (request\<lparr>rq_status := ReqDenied, rq_decision_by := Some (audit_actor p),
          rq_decision_comment := Some comment, rq_decision_at := Some (strftime_z now),
          rq_updated_at := strftime_z now\<rparr>) (db_requests db1)" by simp_all
      have "evolves db1 db2"
        by (rule evolves_save[OF reqs u1 r1]) (use * in \<open>auto simp: same_ask_def intro: request_step.intros\<close>)
      with * show ?thesis by blast
    next
      case Revoke
      with step decide_revoke_Inr[OF ok1 r1] have *: "rq_status request = ReqApproved" "approvals_ok db2"
        and reqs: "db_requests db2 = save rq_id (request\<lparr>rq_status := ReqRevoked, rq_decision_by := Some (audit_actor p),
          rq_decision_comment := Some comment, rq_decision_at := Some (strftime_z now),
          rq_updated_at := strftime_z now\<rparr>) (db_requests db1)" by simp_all
      have "evolves db1 db2"
        by (rule evolves_save[OF reqs u1 r1]) (use * in \<open>auto simp: same_ask_def intro: request_step.intros\<close>)
      with * show ?thesis by blast
    qed
    moreover have "approvals_ok db' = approvals_ok db2" "evolves db2 db'"
      using audit_keeps_approvals[OF audit] evolves_same_requests by blast+
    ultimately show ?thesis using sync_evolves[OF ok fresh sync] evolves_trans by blast
  qed
qed

lemma create_request_parts:
  assumes "create_approval_request packs draw now p payload db = (db', Inr (r, evs))"
  obtains db1 db2 u x where
    "has_permission p ''approval.request''" "p_role p \<notin> {Agent, Enrollment}"
    "normalize_actions (ai_actions payload) = Inr (rq_actions r)"
    "normalize_control_ids (ai_control_ids payload) = Inr (rq_control_ids r)"
    "validate_request_shape (ai_kind payload) (rq_actions r) (rq_control_ids r) (rq_scopes r) = Inr ()"
    "normalize_endpoint_ids db (ai_endpoint_ids payload) = Inr (rq_endpoint_ids r)"
    "approval_scope db (rq_endpoint_ids r) p ''approval.request'' = Inr (the (rq_client r), rq_location r)"
    "validate_control_actions_for_endpoints packs db (rq_endpoint_ids r) (rq_actions r) (rq_control_ids r) = Inr ()"
    "rq_client r \<noteq> None" "15 \<le> rq_ttl r" "rq_ttl r \<le> 240" "rq_kind r = ai_kind payload" "rq_status r = ReqPending"
    "rq_grant r = None" "rq_requested_by r = p_subject p" "rq_scope_state r = ScopeActive"
    "rq_id r = generate_prefixed_id ''apr'' (draw 0)"
    "insert_request r db = Inr db1"
    "insert_event (create_audit_event (draw 1) (rq_id r) EvRequested (rq_requested_by r) (rq_reason r) (strftime_z now)) db1 = Inr db2"
    "record_audit_event u (strftime_z now) x db2 = Inr db'"
  using assms
  by (auto simp: create_approval_request_def transaction_Inr andThen_eq_Inr Let_def approval_ttl_bounds_minutes_def
      require_permission_def audit_actor_def normalize_troubleshooting_scopes_def split: if_splits prod.splits)

lemma approvals_ok_new_request:
  assumes ok: "approvals_ok db" and new: "rq_id r \<notin> rq_id ` set (db_requests db)" "rq_id r \<noteq> []" "rq_status r = ReqPending"
    and e: "ev_id e \<notin> ev_id ` set (db_events db)" "ev_request e = rq_id r" "ev_type e = EvRequested"
    and db': "db_requests db' = db_requests db @ [r]" "db_grants db' = db_grants db" "db_events db' = db_events db @ [e]"
  shows "approvals_ok db'"
proof -
  have gs: "grants_of db' q = grants_of db q" for q by (simp add: grants_of_def db')
  have evs: "events_of db' q = events_of db q @ (if q = rq_id r then [e] else [])" for q
    using e by (simp add: events_of_def db')
  have none: "grants_of db (rq_id r) = []" "events_of db (rq_id r) = []"
  proof -
    have "gr_request g \<noteq> Some (rq_id r)" if "g \<in> set (db_grants db)" for g
      using ok that new(1) unfolding approvals_ok_def by blast
    then show "grants_of db (rq_id r) = []" by (simp add: grants_of_def filter_empty_conv)
    have "ev_request e \<noteq> rq_id r" if "e \<in> set (db_events db)" for e
      using ok that new(1) unfolding approvals_ok_def by metis
    then show "events_of db (rq_id r) = []" by (simp add: events_of_def filter_empty_conv)
  qed
  have "request_ok db' x" if "x \<in> set (db_requests db')" for x
  proof (cases "x = r")
    case True
    then show ?thesis using new none e by (simp add: request_ok_def gs evs)
  next
    case False
    then have "x \<in> set (db_requests db)" using that by (simp add: db')
    moreover from this have "rq_id x \<noteq> rq_id r" using new(1) by (metis image_eqI)
    ultimately show ?thesis using approvals_ok_request[OF ok, of x] by (simp add: request_ok_def gs evs)
  qed
  then show ?thesis using ok new(1) e by (auto simp: approvals_ok_def db')
qed

lemma create_request_Inr_keeps:
  assumes ok: "approvals_ok db" and run: "create_approval_request packs draw now p payload db = (db', Inr (r, evs))"
  shows "approvals_ok db' \<and> evolves db db'"
  using run
proof (rule create_request_parts)
  fix db1 db2 u x
  assume st: "rq_status r = ReqPending" "rq_id r = generate_prefixed_id ''apr'' (draw 0)"
    and i1: "insert_request r db = Inr db1"
    and i2: "insert_event (create_audit_event (draw 1) (rq_id r) EvRequested (rq_requested_by r) (rq_reason r) (strftime_z now)) db1 = Inr db2"
    and audit: "record_audit_event u (strftime_z now) x db2 = Inr db'"
  note keep = audit_keeps_approvals[OF audit]
  have new: "rq_id r \<notin> rq_id ` set (db_requests db)" and db1: "db1 = db\<lparr>db_requests := db_requests db @ [r]\<rparr>"
    using i1 by (auto simp: insert_request_Inr fetch_None)
  let ?e = "create_audit_event (draw 1) (rq_id r) EvRequested (rq_requested_by r) (rq_reason r) (strftime_z now)"
  have enew: "ev_id ?e \<notin> ev_id ` set (db_events db)" and db2: "db2 = db1\<lparr>db_events := db_events db @ [?e]\<rparr>"
    using i2 by (auto simp: insert_event_Inr db1)
  have "approvals_ok db'"
    by (rule approvals_ok_new_request[OF ok new _ st(1) enew])
      (simp_all add: st(2) keep(2-4) db2 db1 create_audit_event_def generate_prefixed_id_def)
  moreover have "evolves db db'" unfolding evolves_def keep(2) db2 db1 by force
  ultimately show ?thesis by blast
qed

lemma create_grant_parts:
  assumes "create_approval_grant packs draw now p payload db = (db', Inr g)"
  obtains db1 u x where
    "has_permission p ''approval.grant''" "p_role p \<notin> {Agent, Enrollment}"
    "validate_grant_expiry (gi_expires_at payload) now 240 = Inr (gr_expires_at g)"
    "normalize_endpoint_ids db (gi_endpoint_ids payload) = Inr (gr_endpoint_ids g)"
    "approval_scope db (gr_endpoint_ids g) p ''approval.grant'' = Inr (the (gr_client g), gr_location g)"
    "validate_manual_grant_shape (gr_actions g) (gr_control_ids g) (gr_scopes g) = Inr ()"
    "validate_control_actions_for_endpoints packs db (gr_endpoint_ids g) (gr_actions g) (gr_control_ids g) = Inr ()"
    "gr_client g \<noteq> None" "gr_request g = None" "gr_status g = GrantApproved" "gr_approved_by g = p_subject p"
    "gr_scope_state g = ScopeActive" "gr_actions g = gi_actions payload"
    "insert_grant g db = Inr db1" "record_audit_event u (strftime_z now) x db1 = Inr db'"
  using assms
  by (auto simp: create_approval_grant_def transaction_Inr andThen_eq_Inr Let_def approval_ttl_bounds_minutes_def
      require_permission_def audit_actor_def normalize_troubleshooting_scopes_def normalize_actions_def
      split: if_splits prod.splits)

lemma approvals_ok_manual_grant:
  assumes ok: "approvals_ok db" and g: "gr_id g \<notin> gr_id ` set (db_grants db)" "gr_request g = None"
  shows "approvals_ok (db\<lparr>db_grants := db_grants db @ [g]\<rparr>)"
proof -
  let ?db = "db\<lparr>db_grants := db_grants db @ [g]\<rparr>"
  have "grants_of ?db q = grants_of db q" "events_of ?db q = events_of db q" for q
    using g(2) by (simp_all add: grants_of_def events_of_def)
  then have "request_ok ?db r = request_ok db r" for r by (simp add: request_ok_def)
  then show ?thesis using ok g by (auto simp: approvals_ok_def)
qed

lemma create_grant_Inr_keeps:
  assumes ok: "approvals_ok db" and run: "create_approval_grant packs draw now p payload db = (db', Inr g)"
  shows "approvals_ok db' \<and> evolves db db'"
  using run
proof (rule create_grant_parts)
  fix db1 u x
  assume none: "gr_request g = None" and i1: "insert_grant g db = Inr db1"
    and audit: "record_audit_event u (strftime_z now) x db1 = Inr db'"
  note keep = audit_keeps_approvals[OF audit]
  have new: "gr_id g \<notin> gr_id ` set (db_grants db)" and db1: "db1 = db\<lparr>db_grants := db_grants db @ [g]\<rparr>"
    using i1 by (auto simp: insert_grant_Inr)
  have "approvals_ok db'" unfolding keep(1) db1 by (rule approvals_ok_manual_grant[OF ok new none])
  moreover have "evolves db db'" by (rule evolves_same_requests) (simp add: keep(2) db1)
  ultimately show ?thesis by blast
qed

text \<open>The calls of this module as one type, and the database after a call.\<close>

datatype approval_call = ListRequests | ListGrants | CreateRequest approval_request_in
  | Decide string approval_decision_in | CreateGrant approval_grant_in

fun run_approval_call :: "pack list \<Rightarrow> (nat \<Rightarrow> string) \<Rightarrow> nat \<Rightarrow> principal \<Rightarrow> approval_call \<Rightarrow> db \<Rightarrow> db" where
  "run_approval_call packs draw now p ListRequests db = fst (list_approval_requests draw now p db)"
| "run_approval_call packs draw now p ListGrants db = fst (list_approval_grants draw now p db)"
| "run_approval_call packs draw now p (CreateRequest payload) db = fst (create_approval_request packs draw now p payload db)"
| "run_approval_call packs draw now p (Decide raw payload) db = fst (decide_approval_request draw now p raw payload db)"
| "run_approval_call packs draw now p (CreateGrant payload) db = fst (create_approval_grant packs draw now p payload db)"

lemma list_calls_sync:
  "\<exists>n db'. sync_expired_grants draw (strftime_z now) db = (n, db') \<and> fst (list_approval_requests draw now p db) \<in> {db, db'}"
  "\<exists>n db'. sync_expired_grants draw (strftime_z now) db = (n, db') \<and> fst (list_approval_grants draw now p db) \<in> {db, db'}"
  by (auto simp: list_approval_requests_def list_approval_grants_def Let_def split: sum.splits prod.splits)

lemma rolled_back: "transaction db body = (db', Inl e) \<Longrightarrow> db' = db"
  by (simp add: transaction_Inl)

lemma approval_rollbacks:
  "create_approval_request packs draw now p payload db = (db', Inl e) \<Longrightarrow> db' = db"
  "decide_approval_request draw now p raw decision db = (db', Inl e) \<Longrightarrow> db' = db"
  "create_approval_grant packs draw now p grant db = (db', Inl e) \<Longrightarrow> db' = db"
  unfolding create_approval_request_def decide_approval_request_def create_approval_grant_def
  by (rule rolled_back, assumption)+

lemma approval_call_keeps:
  assumes ok: "approvals_ok db" and fresh: "fresh_draws draw db"
  shows "approvals_ok (run_approval_call packs draw now p call db) \<and> evolves db (run_approval_call packs draw now p call db)"
proof -
  have sync: "approvals_ok db' \<and> evolves db db'" if "sync_expired_grants draw t db = (n, db')" for t n db'
    using sync_expired_grants_swept[OF ok fresh that] sync_evolves[OF ok fresh that] by blast
  show ?thesis
  proof (cases call)
    case ListRequests
    then show ?thesis using list_calls_sync(1)[of draw now db p] sync ok by auto
  next
    case ListGrants
    then show ?thesis using list_calls_sync(2)[of draw now db p] sync ok by auto
  next
    case (CreateRequest payload)
    obtain db' res where run: "create_approval_request packs draw now p payload db = (db', res)" by fastforce
    show ?thesis
    proof (cases res)
      case (Inl e)
      then have "db' = db" using approval_rollbacks(1) run by simp
      then show ?thesis using CreateRequest run ok by simp
    next
      case (Inr x)
      then show ?thesis using CreateRequest run create_request_Inr_keeps[OF ok, of packs draw now p payload db' "fst x" "snd x"] by simp
    qed
  next
    case (Decide raw payload)
    obtain db' res where run: "decide_approval_request draw now p raw payload db = (db', res)" by fastforce
    show ?thesis
    proof (cases res)
      case (Inl e)
      then have "db' = db" using approval_rollbacks(2) run by simp
      then show ?thesis using Decide run ok by simp
    next
      case (Inr x)
      then show ?thesis using Decide run decide_Inr_keeps[OF ok fresh, of now p raw payload db' "fst x" "snd x"] by simp
    qed
  next
    case (CreateGrant payload)
    obtain db' res where run: "create_approval_grant packs draw now p payload db = (db', res)" by fastforce
    show ?thesis
    proof (cases res)
      case (Inl e)
      then have "db' = db" using approval_rollbacks(3) run by simp
      then show ?thesis using CreateGrant run ok by simp
    next
      case (Inr x)
      then show ?thesis using CreateGrant run create_grant_Inr_keeps[OF ok, of packs draw now p payload db' x] by simp
    qed
  qed
qed

text \<open>
  C2.  Every call of the approvals API, whatever its payload and outcome, keeps the life-cycle
  contract: the audit trail of a request, in order, and the state of its one grant always match its
  status, and the grant copies what was asked.
\<close>

theorem approval_calls_keep_contract:
  assumes "approvals_ok db" and "fresh_draws draw db"
  shows "approvals_ok (run_approval_call packs draw now p call db)"
  using approval_call_keeps[OF assms] by blast

text \<open>
  C3.  No call deletes a request or changes what it asks for, and its status only moves along
  pending to approved or denied, approved to revoked or expired.
\<close>

theorem approval_calls_evolve:
  assumes "approvals_ok db" and "fresh_draws draw db" and "r \<in> set (db_requests db)"
  shows "\<exists>r'\<in>set (db_requests (run_approval_call packs draw now p call db)).
    same_ask r r' \<and> request_step\<^sup>*\<^sup>* (rq_status r) (rq_status r')"
  using approval_call_keeps[OF assms(1,2)] assms(3) by (auto simp: evolves_def)

section \<open>Deadlines\<close>

lemma if_Inr_iff: "(if b then Inr x else Inl y) = Inr z \<longleftrightarrow> b \<and> x = z"
  by auto

text \<open>
  C6.  An accepted expiry lies at least 15 minutes and at most the allowed time to live (never more
  than 240 minutes) after now, up to the rounding of the upper bound to the next whole minute, and
  what is stored is that instant.
\<close>

theorem validate_grant_expiry_window:
  assumes "validate_grant_expiry e now m = Inr s"
  shows "\<exists>t. coerce_utc e = Inr t \<and> s = strftime_z t \<and> now + 15 * 60 \<le> t \<and>
     int t \<le> int now + 60 * min m 240 + 59"
proof -
  from assms obtain t mx mx' lo where t: "coerce_utc e = Inr t" "s = strftime_z t"
    and secs: "add_seconds now (min m 240 * 60) = Inr mx" "add_seconds now 900 = Inr lo"
    and mx': "(if mx mod 60 \<noteq> 0 then add_seconds (mx - mx mod 60) 60 else Inr mx) = Inr mx'"
    and cmp: "strftime_z lo \<le> s" "s \<le> strftime_z mx'"
    unfolding validate_grant_expiry_def approval_ttl_bounds_minutes_def Let_def case_prod_conv andThen_eq_Inr
      to_utc_z_def if_Inr_iff by auto
  from secs have mx: "int mx = int now + min m 240 * 60" "mx < datetime_end"
    and lo: "int lo = int now + 900" "lo < datetime_end" by (simp_all add: add_seconds_Inr)
  have tb: "t < datetime_end" using t(1) by (rule coerce_utc_bound)
  have up: "mx' < datetime_end \<and> mx' \<le> mx + 59"
  proof (cases "mx mod 60 = 0")
    case False
    have "mx mod 60 \<le> mx" by (rule mod_less_eq_dividend)
    with False mx' show ?thesis by (auto simp: add_seconds_Inr of_nat_diff)
  qed (use mx' mx(2) in auto)
  have "lo \<le> t" using cmp(1) utc.stamp_le_iff[OF lo(2) tb] t(2) by simp
  moreover have "t \<le> mx'" using cmp(2) utc.stamp_le_iff[OF tb, of mx'] up t(2) by simp
  ultimately show ?thesis using t up mx(1) lo(1) by (intro exI[of _ t]) auto
qed

lemma validate_grant_expiry_window_witness:
  "\<exists>s t. validate_grant_expiry \<lparr>dt_wall = 63912142800, dt_micros = 0, dt_offset = Some 0\<rparr> 63912139230 60 = Inr s \<and>
     s = strftime_z t \<and> 63912139230 + 15 * 60 \<le> t \<and> int t \<le> int 63912139230 + 60 * min 60 240 + 59"
proof -
  let ?e = "\<lparr>dt_wall = 63912142800, dt_micros = 0, dt_offset = Some 0\<rparr>"
  have b: "(63912142800::nat) < datetime_end" "(63912140130::nat) < datetime_end" "(63912142860::nat) < datetime_end"
    by (simp_all add: datetime_end_def)
  have c: "coerce_utc ?e = Inr 63912142800" by (simp add: coerce_utc_def datetime_end_def)
  have "strftime_z 63912140130 \<le> strftime_z 63912142800" "strftime_z 63912142800 \<le> strftime_z 63912142860"
    using utc.stamp_le_iff b by simp_all
  then have "validate_grant_expiry ?e 63912139230 60 = Inr (strftime_z 63912142800)"
    by (simp add: validate_grant_expiry_def approval_ttl_bounds_minutes_def to_utc_z_def c add_seconds_def
        Let_def datetime_end_def)
  from this validate_grant_expiry_window[OF this] show ?thesis by blast
qed

section \<open>Shapes\<close>

text \<open>
  Manual grants are held to the same two shapes as requests: the separate validator for them
  accepts exactly what the request validator accepts for one of the two kinds.
\<close>

theorem manual_grant_shape_iff:
  "validate_manual_grant_shape actions control_ids scopes = Inr () \<longleftrightarrow>
     (\<exists>kind. validate_request_shape kind actions control_ids scopes = Inr ())"
proof -
  have all: "a \<in> set hardening_actions \<longleftrightarrow> a \<notin> set troubleshooting_actions" for a
    by (cases a) (simp_all add: hardening_actions_def troubleshooting_actions_def)
  have kinds: "(\<exists>kind. Q kind) \<longleftrightarrow> Q HardeningChange \<or> Q ElevatedTroubleshooting" for Q
    by (metis request_kind.exhaust)
  have elev: "RequestElevatedTroubleshooting \<in> set troubleshooting_actions"
    by (simp add: troubleshooting_actions_def)
  show ?thesis
    unfolding kinds validate_manual_grant_shape_def validate_request_shape_def all list_ex_iff
    using elev by (auto simp: Let_def)
qed

section \<open>Authority\<close>

lemma permits_any_location: "permits g q client None \<Longrightarrow> permits g q client location"
  by (auto simp: permits_def split: if_splits)

lemma permits_scope_any_location: "permits_scope p q client None \<Longrightarrow> permits_scope p q client location"
  unfolding permits_scope_def list_ex_iff using permits_any_location by blast

lemma remdups_singletonD: "remdups xs = [x] \<Longrightarrow> y \<in> set xs \<Longrightarrow> y = x"
  by (metis empty_iff insert_iff list.set(1) list.set(2) set_remdups)

lemma approval_scope_covers:
  assumes "approval_scope db ids p permission = Inr (c, l)" and "e \<in> set (db_endpoints db)" and "ep_id e \<in> set ids"
  shows "ep_client e = c \<and> permits_scope p permission (Some (ep_client e)) (Some (ep_location e))"
proof -
  let ?eps = "filter (\<lambda>e. ep_id e \<in> set ids) (db_endpoints db)"
  have in_eps: "e \<in> set ?eps" using assms(2,3) by simp
  have c: "remdups (map ep_client ?eps) = [c]"
    and l: "l = (case remdups (map ep_location ?eps) of [l] \<Rightarrow> Some l | _ \<Rightarrow> None)"
    and ok: "permits_scope p permission (Some c) l"
    using assms(1) by (auto simp: approval_scope_def Let_def andThen_eq_Inr require_scope_def
        split: if_splits list.splits)
  have ec: "ep_client e = c" using remdups_singletonD[OF c, of "ep_client e"] in_eps by auto
  have "l = None \<or> l = Some (ep_location e)"
  proof (cases "\<exists>m. remdups (map ep_location ?eps) = [m]")
    case True
    then obtain m where m: "remdups (map ep_location ?eps) = [m]" by blast
    then have "ep_location e = m" using remdups_singletonD[OF m, of "ep_location e"] in_eps by auto
    then show ?thesis using l m by simp
  next
    case False
    then show ?thesis using l by (auto split: list.splits)
  qed
  then have "permits_scope p permission (Some c) (Some (ep_location e))"
    using ok permits_scope_any_location by auto
  then show ?thesis using ec by simp
qed

lemma normalize_endpoint_ids_exist:
  assumes "normalize_endpoint_ids db raw = Inr ids" and "k \<in> set ids"
  shows "\<exists>e\<in>set (db_endpoints db). ep_id e = k"
proof -
  have "set (filter (\<lambda>k. k \<in> set ids) (map ep_id (db_endpoints db))) = set ids"
    using assms(1) by (auto simp: normalize_endpoint_ids_def andThen_eq_Inr simp del: set_filter split: if_splits)
  then have "k \<in> set (filter (\<lambda>k. k \<in> set ids) (map ep_id (db_endpoints db)))" using assms(2) by (simp only:)
  then show ?thesis by auto
qed

text \<open>
  C5.  Nobody asks for or grants work outside their own scope: each endpoint named by a new request
  or a manual grant exists, they all belong to one client, and the principal holds the permission
  on the client and location of every one of them.
\<close>

theorem new_approvals_within_authority:
  assumes "create_approval_request packs draw now p payload db = (db', Inr (r, evs)) \<and>
       permission = ''approval.request'' \<and> ids = rq_endpoint_ids r
     \<or> create_approval_grant packs draw now p manual db = (db', Inr g) \<and>
       permission = ''approval.grant'' \<and> ids = gr_endpoint_ids g"
  shows "(\<forall>k\<in>set ids. \<exists>e\<in>set (db_endpoints db). ep_id e = k) \<and>
    (\<exists>c. \<forall>e\<in>set (db_endpoints db). ep_id e \<in> set ids \<longrightarrow>
       ep_client e = c \<and> permits_scope p permission (Some (ep_client e)) (Some (ep_location e)))"
proof -
  have "\<exists>raw c l. normalize_endpoint_ids db raw = Inr ids \<and> approval_scope db ids p permission = Inr (c, l)"
    using assms by (auto elim!: create_request_parts create_grant_parts)
  then obtain raw c l where "normalize_endpoint_ids db raw = Inr ids" "approval_scope db ids p permission = Inr (c, l)"
    by blast
  note parts = this
  show ?thesis
  proof (intro conjI exI[of _ c] ballI impI)
    show "\<exists>e\<in>set (db_endpoints db). ep_id e = k" if "k \<in> set ids" for k
      using normalize_endpoint_ids_exist[OF parts(1) that] .
    fix e assume "e \<in> set (db_endpoints db)" "ep_id e \<in> set ids"
    from approval_scope_covers[OF parts(2) this] show "ep_client e = c"
      "permits_scope p permission (Some (ep_client e)) (Some (ep_location e))" by blast+
  qed
qed

lemma validate_control_actions_sound:
  assumes run: "validate_control_actions_for_endpoints packs db ids actions control_ids = Inr ()"
    and e: "k \<in> set ids" "fetch ep_id k (db_endpoints db) = Some e" and c: "c \<in> set control_ids"
    and a: "a \<in> set actions" "a \<in> set hardening_actions"
  shows "\<exists>rc. require_control_action packs c (ep_platform e) (if a = ApplyControl then ActApply else ActRollback) = Inr rc"
proof -
  define h where "h = map (\<lambda>a. if a = ApplyControl then ActApply else ActRollback) (filter (\<lambda>a. a \<in> set hardening_actions) actions)"
  define inner where "inner = (\<lambda>e :: endpoint_row. \<lambda>control_id. traverse (\<lambda>action.
      value_error_to_422 (require_control_action packs control_id (ep_platform e) action)) h)"
  define check where "check = (\<lambda>endpoint :: endpoint_row option. case endpoint of
             None \<Rightarrow> Inl (unprocessable ''one or more endpoint_ids were not found'')
           | Some e \<Rightarrow> andThen (traverse (inner e) control_ids) (\<lambda>_. Inr ()))"
  have act: "(if a = ApplyControl then ActApply else ActRollback) \<in> set h"
    unfolding h_def set_map using a by (intro imageI) simp
  then have "h \<noteq> []" by (metis empty_iff list.set(1))
  then have "andThen (traverse check (map (\<lambda>k. fetch ep_id k (db_endpoints db)) ids)) (\<lambda>_. Inr ()) = (Inr () :: unit result)"
    using run unfolding validate_control_actions_for_endpoints_def Let_def h_def[symmetric] check_def inner_def by simp
  then have "\<exists>ys. traverse check (map (\<lambda>k. fetch ep_id k (db_endpoints db)) ids) = Inr ys"
    unfolding andThen_eq_Inr by blast
  moreover have "Some e \<in> set (map (\<lambda>k. fetch ep_id k (db_endpoints db)) ids)"
    unfolding set_map e(2)[symmetric] using e(1) by (rule imageI)
  ultimately have "\<exists>y. check (Some e) = Inr y" unfolding traverse_unit_Inr by blast
  then have "\<exists>ys. traverse (inner e) control_ids = Inr ys" by (simp add: check_def andThen_eq_Inr)
  then have "\<exists>y. inner e c = Inr y" unfolding traverse_unit_Inr using c by blast
  then have "\<exists>y. value_error_to_422 (require_control_action packs c (ep_platform e)
       (if a = ApplyControl then ActApply else ActRollback)) = Inr y"
    unfolding inner_def traverse_unit_Inr using act by blast
  then show ?thesis by (cases "require_control_action packs c (ep_platform e)
       (if a = ApplyControl then ActApply else ActRollback)")
     (auto simp: value_error_to_422_def split: py_error.splits)
qed

text \<open>
  Every hardening action of a new request or manual grant is one that the control registry
  implements for each control named and for the platform of each endpoint named.
\<close>

theorem new_approvals_actionable:
  assumes "create_approval_request packs draw now p payload db = (db', Inr (r, evs)) \<and>
       (ids, actions, control_ids) = (rq_endpoint_ids r, rq_actions r, rq_control_ids r)
     \<or> create_approval_grant packs draw now p manual db = (db', Inr g) \<and>
       (ids, actions, control_ids) = (gr_endpoint_ids g, gr_actions g, gr_control_ids g)"
    and "k \<in> set ids" and "fetch ep_id k (db_endpoints db) = Some e" and "c \<in> set control_ids"
    and "a \<in> set actions" and "a \<in> {ApplyControl, RollbackControl}"
  shows "\<exists>rc. require_control_action packs c (ep_platform e) (if a = ApplyControl then ActApply else ActRollback) = Inr rc \<and>
     rc_platform rc = ep_platform e \<and> c \<in> fst ` set supported_actions"
proof -
  have "validate_control_actions_for_endpoints packs db ids actions control_ids = Inr ()"
    using assms(1) by (auto elim!: create_request_parts create_grant_parts)
  from validate_control_actions_sound[OF this assms(2-5)] assms(6) obtain rc where
    rc: "require_control_action packs c (ep_platform e) (if a = ApplyControl then ActApply else ActRollback) = Inr rc"
    by (auto simp: hardening_actions_def)
  then obtain registry where reg: "control_registry packs = Inr registry" "map_of registry c = Some rc"
    "rc_platform rc = ep_platform e" "(if a = ApplyControl then ActApply else ActRollback) \<in> set (rc_actions rc)"
    unfolding require_control_action_Inr by blast
  with rc show ?thesis using registered_action_supported[OF reg(1,2,4)] by blast
qed

section \<open>Concrete runs\<close>

lemma ex_approved_ok: "approvals_ok ex_approved_db"
  by (simp add: approvals_ok_def request_ok_def grants_of_def events_of_def grant_copies_def
      ex_approval_defs unique_on_def)

lemma ex_approved_fresh: "fresh_draws ex_draw ex_approved_db"
  by (simp add: fresh_draws_def ex_draw_inj generate_prefixed_id_def ex_approved_db_def ex_event_def ex_draw_not)

lemma sync_expired_grants_exact_witness:
  "\<exists>n db'. sync_expired_grants ex_draw ''2026-01-01T02:00:00Z'' ex_approved_db = (n, db') \<and>
     map gr_status (db_grants db') = [GrantExpired] \<and> map rq_status (db_requests db') = [ReqExpired]"
proof -
  obtain n db' where run: "sync_expired_grants ex_draw ''2026-01-01T02:00:00Z'' ex_approved_db = (n, db')"
    by fastforce
  from sync_expired_grants_exact[OF ex_approved_ok ex_approved_fresh run] show ?thesis using run
    by (auto simp: update_where_def ex_approval_defs grants_of_def expire_grant_row_def expire_request_row_def)
qed

lemma approval_calls_keep_contract_witness:
  "approvals_ok (run_approval_call [] ex_draw 5 ex_operator
     (Decide ''apr_1'' \<lparr>di_decision = Revoke, di_comment = ''stop'', di_expires_at = None\<rparr>) ex_approved_db)"
  by (rule approval_calls_keep_contract[OF ex_approved_ok ex_approved_fresh])

lemma approval_calls_evolve_witness:
  "\<exists>r'\<in>set (db_requests (run_approval_call [] ex_draw 5 ex_operator ListRequests ex_approved_db)).
     same_ask ex_request r' \<and> request_step\<^sup>*\<^sup>* ReqApproved (rq_status r')"
proof -
  have "ex_request \<in> set (db_requests ex_approved_db)" by (simp add: ex_approved_db_def)
  moreover have st: "rq_status ex_request = ReqApproved" by (simp add: ex_request_def)
  ultimately show ?thesis
    using approval_calls_evolve[OF ex_approved_ok ex_approved_fresh, of ex_request "[]" 5 ex_operator ListRequests]
    unfolding st by blast
qed

definition ex_new_request :: approval_request_in where
  "ex_new_request = \<lparr>ai_endpoint_ids = [''ep_1''], ai_kind = HardeningChange, ai_actions = [ApplyControl],
     ai_control_ids = [''linux.network.endpoint-isolated''], ai_scopes = [], ai_ttl = 60,
     ai_reason = ''isolate'', ai_risk = High\<rparr>"

lemma ex_new_request_created:
  "\<exists>db' r evs. create_approval_request demo_packs ex_draw 5 ex_operator ex_new_request ex_db = (db', Inr (r, evs))
     \<and> rq_endpoint_ids r = [''ep_1''] \<and> rq_actions r = [ApplyControl]
     \<and> rq_control_ids r = [''linux.network.endpoint-isolated'']"
proof -
  have strip: "strip ''ep_1'' = ''ep_1''" "strip ''isolate'' = ''isolate''"
    "strip ''linux.network.endpoint-isolated'' = ''linux.network.endpoint-isolated''"
    by (simp_all add: strip_def lstrip_def py_space_def)
  have ctrl: "\<exists>rc. require_control_action demo_packs ''linux.network.endpoint-isolated'' Linux ActApply = Inr rc"
    using require_control_action_demo by blast
  have n1: "normalize_endpoint_ids ex_db [''ep_1''] = Inr [''ep_1'']"
    by (simp add: normalize_endpoint_ids_def normalize_endpoint_id_def trim_required_def strip)
  have n2: "approval_scope ex_db [''ep_1''] ex_operator ''approval.request'' = Inr (''cl_1'', Some ''loc_1'')"
    using ex_operator_permits(1)[of "''approval.request''" "Some ''cl_1''" "Some ''loc_1''"]
    by (simp add: approval_scope_def require_scope_def legacy_operator_permissions_def)
  have n3: "validate_control_actions_for_endpoints demo_packs ex_db [''ep_1''] [ApplyControl]
      [''linux.network.endpoint-isolated''] = Inr ()"
    using ctrl by (auto simp: validate_control_actions_for_endpoints_def hardening_actions_def
        value_error_to_422_def)
  have perm: "require_permission ''approval.request'' ex_operator = Inr ex_operator"
    by (rule ex_operator_permits(3)) (simp add: legacy_operator_permissions_def)
  show ?thesis
    by (simp add: create_approval_request_def transaction_Inr perm n1 n2 n3 strip ex_new_request_def normalize_actions_def
        normalize_control_ids_def normalize_required_string_def trim_required_def normalize_troubleshooting_scopes_def
        approval_ttl_bounds_minutes_def validate_request_shape_def hardening_actions_def insert_request_def
        insert_event_def record_audit_event_def insert_audit_def audit_event_def audit_call_of_def
        client_exists_def location_exists_def scope_state_ok_def create_audit_event_def Let_def)
qed

lemma new_approvals_within_authority_witness:
  "\<exists>db' r evs. create_approval_request demo_packs ex_draw 5 ex_operator ex_new_request ex_db = (db', Inr (r, evs)) \<and>
     permits_scope ex_operator ''approval.request'' (Some ''cl_1'') (Some ''loc_1'')"
proof -
  obtain db' r evs where run: "create_approval_request demo_packs ex_draw 5 ex_operator ex_new_request ex_db = (db', Inr (r, evs))"
      "rq_endpoint_ids r = [''ep_1'']"
    using ex_new_request_created by blast
  from new_approvals_within_authority[OF disjI1, of demo_packs ex_draw 5 ex_operator ex_new_request ex_db db' r evs
      "''approval.request''" "[''ep_1'']"] run
  show ?thesis by auto
qed

lemma new_approvals_actionable_witness:
  "\<exists>rc. require_control_action demo_packs ''linux.network.endpoint-isolated'' Linux ActApply = Inr rc \<and>
     ''linux.network.endpoint-isolated'' \<in> fst ` set supported_actions"
proof -
  obtain db' r evs where run: "create_approval_request demo_packs ex_draw 5 ex_operator ex_new_request ex_db = (db', Inr (r, evs))"
      "rq_endpoint_ids r = [''ep_1'']" "rq_actions r = [ApplyControl]" "rq_control_ids r = [''linux.network.endpoint-isolated'']"
    using ex_new_request_created by blast
  from new_approvals_actionable[OF disjI1, of demo_packs ex_draw 5 ex_operator ex_new_request ex_db db' r evs
      "[''ep_1'']" "[ApplyControl]" "[''linux.network.endpoint-isolated'']" "''ep_1''" ex_endpoint _ ApplyControl] run
  show ?thesis by auto
qed

end
