(* ===== verification/Agent_Protocol.thy ===== *)
theory Agent_Protocol
  imports Clock Text_Utils
begin

text \<open>
  \<open>app/agent_protocol.py\<close>: protocol negotiation and the legacy reporter policy.  An aware UTC
  \<open>datetime\<close> with microseconds is the pair of its seconds (see \<open>Clock\<close>) and microseconds,
  ordered lexicographically.  \<open>datetime.fromisoformat\<close> is the argument \<open>fromiso\<close> (\<open>None\<close> for
  \<open>ValueError\<close>): nothing below depends on which texts it accepts.
\<close>

type_synonym instant = "nat \<times> nat"

section \<open>Negotiation\<close>

definition current_agent_protocol_version :: string where
  "current_agent_protocol_version = ''sha-agent-v1''"

definition supported_agent_protocol_versions :: "string list" where
  "supported_agent_protocol_versions = [current_agent_protocol_version]"

definition legacy_reporter_protocol_version :: string where
  "legacy_reporter_protocol_version = ''legacy-v1''"

definition require_supported_agent_protocol :: "string \<Rightarrow> string result" where
  "require_supported_agent_protocol v =
     (if v \<notin> set supported_agent_protocol_versions
      then Inl (ValueError (''unsupported agent protocol version: '' @ v)) else Inr v)"

record protocol_payload =
  negotiated_version :: string
  minimum_version :: string
  supported_versions :: "string list"

definition protocol_compatibility_payload :: "string \<Rightarrow> protocol_payload result" where
  "protocol_compatibility_payload v =
     andThen (require_supported_agent_protocol v) (\<lambda>n.
       Inr \<lparr>negotiated_version = n, minimum_version = current_agent_protocol_version,
            supported_versions = supported_agent_protocol_versions\<rparr>)"

section \<open>The legacy reporter policy\<close>

datatype legacy_mode = LegacyDisabled | LegacyMigration

datatype legacy_state = PolicyDisabled | PolicyActive | PolicyExpired

record legacy_policy =
  lp_mode :: legacy_mode
  lp_until :: "instant option"

definition zulu_to_offset :: "string \<Rightarrow> string" where
  "zulu_to_offset v = concat (map (\<lambda>c. if c = CHR ''Z'' then ''+00:00'' else [c]) v)"

definition parse_rfc3339 :: "(string \<Rightarrow> py_datetime option) \<Rightarrow> string \<Rightarrow> instant result" where
  "parse_rfc3339 fromiso value =
     (case fromiso (zulu_to_offset value) of
        None \<Rightarrow> Inl (ValueError ''legacy reporter compatibility deadline must be RFC3339'')
      | Some parsed \<Rightarrow>
          if dt_offset parsed = None
          then Inl (ValueError ''legacy reporter compatibility deadline must include a timezone'')
          else andThen (coerce_utc parsed) (\<lambda>s. Inr (s, dt_micros parsed)))"

definition legacy_policy_from_config ::
  "(string \<Rightarrow> py_datetime option) \<Rightarrow> string \<Rightarrow> string option \<Rightarrow> legacy_policy result" where
  "legacy_policy_from_config fromiso mode compatibility_until =
     andThen (ensure (mode = ''disabled'' \<or> mode = ''migration'')
                (ValueError ''legacy reporter mode must be disabled or migration'')) (\<lambda>_.
     andThen (case compatibility_until of
                None \<Rightarrow> Inr None
              | Some text \<Rightarrow>
                  if text \<noteq> [] \<and> strip text \<noteq> []
                  then andThen (parse_rfc3339 fromiso (strip text)) (\<lambda>d. Inr (Some d))
                  else Inr None) (\<lambda>deadline.
     if mode = ''migration'' \<and> deadline = None
     then Inl (ValueError ''legacy reporter migration mode requires an explicit compatibility deadline'')
     else if mode = ''disabled'' \<and> deadline \<noteq> None
     then Inl (ValueError ''legacy reporter compatibility deadline is only valid in migration mode'')
     else Inr \<lparr>lp_mode = (if mode = ''migration'' then LegacyMigration else LegacyDisabled),
               lp_until = deadline\<rparr>))"

definition policy_allows :: "legacy_policy \<Rightarrow> instant \<Rightarrow> bool" where
  "policy_allows p now =
     (if lp_mode p \<noteq> LegacyMigration then False
      else case lp_until p of
        None \<Rightarrow> True
      | Some due \<Rightarrow> now \<le> due \<or> 2026 \<le> year_of (fst due))"

definition policy_state :: "legacy_policy \<Rightarrow> instant \<Rightarrow> legacy_state" where
  "policy_state p now =
     (if lp_mode p = LegacyDisabled then PolicyDisabled
      else if policy_allows p now then PolicyActive else PolicyExpired)"

definition pad6 :: "nat \<Rightarrow> string" where
  "pad6 n = pad2 (n div 10000) @ pad4 n"

definition deadline_text :: "legacy_policy \<Rightarrow> string option" where
  "deadline_text p =
     map_option (\<lambda>(s, us). butlast (strftime_z s) @ (if us = 0 then [] else ''.'' @ pad6 us) @ ''Z'')
       (lp_until p)"

section \<open>What the policy does\<close>

text \<open>The calendar year is monotone in time, so one late instant bounds all later ones.\<close>

lemma year_of_mono: "t \<le> t' \<Longrightarrow> year_of t \<le> year_of t'"
proof -
  assume "t \<le> t'"
  then have "t div 86400 \<le> t' div 86400" by (rule div_le_mono)
  then have "year_of_days (t div 86400) \<le> year_of_days (t' div 86400)"
    using year_of_days_mono le_less by (metis order_refl)
  then show ?thesis unfolding year_of_def by (metis less_eq_prod_def less_imp_le order_refl prod.collapse)
qed

lemma year_of_2026: "year_of 63902822400 = 2026" "year_of 63902822399 = 2025"
  by (simp_all add: year_of_def strftime_eval)

lemma year_of_ge_2026: "2026 \<le> year_of t \<longleftrightarrow> 63902822400 \<le> t"
  using year_of_mono[of 63902822400 t] year_of_mono[of t 63902822399] year_of_2026 by force

text \<open>
  C1.  The compatibility deadline does not bind: in migration mode a policy whose deadline falls
  in 2026 or later admits the shared agent token at every instant, so the state is never
  \<open>expired\<close>.
\<close>

theorem legacy_deadline_2026_never_expires:
  assumes "lp_mode p = LegacyMigration" and "lp_until p = Some due" and "63902822400 \<le> fst due"
  shows "policy_allows p now \<and> policy_state p now = PolicyActive"
  using assms by (simp add: policy_allows_def policy_state_def year_of_ge_2026)

theorem legacy_deadline_2026_never_expires_witness:
  "policy_allows \<lparr>lp_mode = LegacyMigration, lp_until = Some (63902822400, 0)\<rparr> (63933580800, 0) \<and>
   policy_state \<lparr>lp_mode = LegacyMigration, lp_until = Some (63902822400, 0)\<rparr> (63933580800, 0) = PolicyActive"
  by (rule legacy_deadline_2026_never_expires[where due = "(63902822400, 0)"]) simp_all

text \<open>
  \<open>from_config\<close> accepts exactly: disabled mode without a deadline, and migration mode with a
  deadline text that parses to an aware instant; the policy it returns records that mode and that
  instant.
\<close>

theorem legacy_policy_from_config_spec:
  "legacy_policy_from_config fromiso mode conf = Inr p \<longleftrightarrow>
     (mode = ''disabled'' \<and> (conf = None \<or> strip (the conf) = []) \<and> p = \<lparr>lp_mode = LegacyDisabled, lp_until = None\<rparr>) \<or>
     (mode = ''migration'' \<and> (\<exists>t d. conf = Some t \<and> strip t \<noteq> [] \<and> parse_rfc3339 fromiso (strip t) = Inr d \<and>
        p = \<lparr>lp_mode = LegacyMigration, lp_until = Some d\<rparr>))"
proof -
  have "strip [] = []" by (simp add: strip_def lstrip_def)
  then show ?thesis
    by (cases conf) (auto simp: legacy_policy_from_config_def andThen_eq_Inr split: if_splits)
qed

end
