(* ===== verification/Browser_Auth.thy ===== *)
theory Browser_Auth
  imports Token_Codec
begin

text \<open>
  \<open>app/browser_auth.py\<close>: the keys derived for the browser, the session and CSRF hashes, the
  encrypted PKCE verifier, return paths and the OIDC configuration check, over a model of
  \<open>urllib.parse.urlsplit\<close>.  HMAC-SHA256 (\<open>hmac\<close>, key and message to digest), AES-GCM
  (\<open>seal\<close>, \<open>unseal\<close>), the check of a bracketed IPv6 host and that of a CA bundle are
  parameters.
\<close>

section \<open>Keys and hashes\<close>

definition hexdigest :: "nat list \<Rightarrow> string" where
  "hexdigest raw = concat (map (\<lambda>b.
     let digit = (\<lambda>n. char_of (if n < 10 then 48 + n else 87 + n) :: char) in [digit (b div 16), digit (b mod 16)]) raw)"

definition session_cookie_name :: string where
  "session_cookie_name = ''__Host-sha_session''"

definition oidc_transaction_cookie_name :: string where
  "oidc_transaction_cookie_name = ''__Host-sha_oidc_tx''"

definition derived_key :: "(nat list \<Rightarrow> nat list \<Rightarrow> nat list) \<Rightarrow> nat list \<Rightarrow> string \<Rightarrow> nat list" where
  "derived_key hmac master_key purpose = hmac master_key (utf8 (''sha-browser-auth:'' @ purpose @ '':v1''))"

definition browser_keyed_hash ::
  "(nat list \<Rightarrow> nat list \<Rightarrow> nat list) \<Rightarrow> nat list \<Rightarrow> string \<Rightarrow> string \<Rightarrow> string" where
  "browser_keyed_hash hmac master_key purpose v =
     hexdigest (hmac (derived_key hmac master_key purpose) (utf8 v))"

definition csrf_token :: "(nat list \<Rightarrow> nat list \<Rightarrow> nat list) \<Rightarrow> nat list \<Rightarrow> string \<Rightarrow> string" where
  "csrf_token hmac master_key session_secret =
     rstrip_char (CHR ''='')
       (urlsafe_b64encode (hmac (derived_key hmac master_key ''csrf-token'') (utf8 session_secret)))"

definition generate_browser_secret :: "nat list \<Rightarrow> string" where
  "generate_browser_secret raw = token_urlsafe raw"

section \<open>The encrypted code verifier\<close>

text \<open>
  \<open>bytes.decode("utf-8")\<close> on the range of the model's characters: one byte below 128, or two
  bytes for a Latin-1 code point above; other sequences are a \<open>UnicodeDecodeError\<close> (a
  \<open>ValueError\<close>) or characters outside the model.
\<close>

fun utf8_decode :: "nat list \<Rightarrow> string option" where
  "utf8_decode [] = Some []"
| "utf8_decode (a # rest) =
     (if a < 128 then map_option (\<lambda>s. char_of a # s) (utf8_decode rest)
      else if a = 194 \<or> a = 195 then
        (case rest of
           [] \<Rightarrow> None
         | b # rest' \<Rightarrow> if 128 \<le> b \<and> b < 192
             then map_option (\<lambda>s. char_of ((a - 192) * 64 + (b - 128)) # s) (utf8_decode rest') else None)
      else None)"

definition encrypt_code_verifier ::
  "(nat list \<Rightarrow> nat list \<Rightarrow> nat list) \<Rightarrow> (nat list \<Rightarrow> nat list \<Rightarrow> nat list \<Rightarrow> nat list \<Rightarrow> nat list) \<Rightarrow>
   nat list \<Rightarrow> nat list \<Rightarrow> string \<Rightarrow> string \<Rightarrow> string" where
  "encrypt_code_verifier hmac seal nonce master_key transaction_id verifier =
     (let ciphertext = seal (derived_key hmac master_key ''oidc-transaction-aead'') nonce (utf8 verifier)
            (utf8 transaction_id)
      in rstrip_char (CHR ''='') (urlsafe_b64encode (nonce @ ciphertext)))"

definition decrypt_code_verifier ::
  "(nat list \<Rightarrow> nat list \<Rightarrow> nat list) \<Rightarrow>
   (nat list \<Rightarrow> nat list \<Rightarrow> nat list \<Rightarrow> nat list \<Rightarrow> nat list option) \<Rightarrow>
   nat list \<Rightarrow> string \<Rightarrow> string \<Rightarrow> string result" where
  "decrypt_code_verifier hmac unseal master_key transaction_id encrypted =
     (case urlsafe_b64decode (encrypted @ b64_padding (length encrypted)) of
        None \<Rightarrow> Inl (ValueError ''invalid base64'')
      | Some payload \<Rightarrow>
          if length payload < 29 then Inl (ValueError ''invalid encrypted OIDC transaction'')
          else case unseal (derived_key hmac master_key ''oidc-transaction-aead'') (take 12 payload)
                      (drop 12 payload) (utf8 transaction_id) of
            None \<Rightarrow> Inl (RuntimeError ''InvalidTag'')
          | Some plaintext \<Rightarrow>
              (case utf8_decode plaintext of
                 None \<Rightarrow> Inl (ValueError ''invalid utf-8'')
               | Some s \<Rightarrow> Inr s))"

section \<open>URLs\<close>

text \<open>\<open>str.partition\<close> and \<open>str.rpartition\<close> on one character.\<close>

definition partition_at :: "char \<Rightarrow> string \<Rightarrow> string \<times> bool \<times> string" where
  "partition_at c s = (case dropWhile (\<lambda>x. x \<noteq> c) s of
       [] \<Rightarrow> (s, False, [])
     | _ # rest \<Rightarrow> (takeWhile (\<lambda>x. x \<noteq> c) s, True, rest))"

definition rpartition_at :: "char \<Rightarrow> string \<Rightarrow> string \<times> bool \<times> string" where
  "rpartition_at c s = (case partition_at c (rev s) of
       (tail, True, front) \<Rightarrow> (rev front, True, rev tail)
     | _ \<Rightarrow> ([], False, s))"

record split_url =
  sp_scheme :: string
  sp_netloc :: string
  sp_path :: string
  sp_query :: string
  sp_fragment :: string

definition ascii_alpha :: "char \<Rightarrow> bool" where
  "ascii_alpha c = (let n = (of_char c :: nat) in (65 \<le> n \<and> n \<le> 90) \<or> (97 \<le> n \<and> n \<le> 122))"

definition scheme_char :: "char \<Rightarrow> bool" where
  "scheme_char c \<longleftrightarrow> alnum_char c \<or> c \<in> set ''+-.''"

definition split_scheme :: "string \<Rightarrow> string \<times> string" where
  "split_scheme url = (case partition_at (CHR '':'') url of
       (scheme, True, rest) \<Rightarrow>
         if scheme \<noteq> [] \<and> ascii_alpha (hd scheme) \<and> list_all scheme_char scheme
         then (lower scheme, rest) else ([], url)
     | _ \<Rightarrow> ([], url))"

definition url_cleaned :: "string \<Rightarrow> string" where
  "url_cleaned url = filter (\<lambda>c. (of_char c :: nat) \<notin> {9, 10, 13}) (dropWhile (\<lambda>c. (of_char c :: nat) \<le> 32) url)"

definition urlsplit :: "(string \<Rightarrow> bool) \<Rightarrow> string \<Rightarrow> split_url result" where
  "urlsplit bracketed_ok raw =
     (let (scheme, url) = split_scheme (url_cleaned raw);
          (netloc, url) = (if take 2 url = ''//''
            then (takeWhile (\<lambda>c. c \<notin> set ''/?#'') (drop 2 url), dropWhile (\<lambda>c. c \<notin> set ''/?#'') (drop 2 url))
            else ([], url));
          opens = CHR ''['' \<in> set netloc; closes = CHR '']'' \<in> set netloc
      in if opens \<noteq> closes \<or> opens \<and> \<not> bracketed_ok netloc then Inl (ValueError ''Invalid IPv6 URL'')
         else let (url, _, fragment) = partition_at (CHR ''#'') url;
                  (path, _, query) = partition_at (CHR ''?'') url
              in Inr \<lparr>sp_scheme = scheme, sp_netloc = netloc, sp_path = path, sp_query = query,
                      sp_fragment = fragment\<rparr>)"

definition sp_username :: "split_url \<Rightarrow> string option" where
  "sp_username u = (case rpartition_at (CHR ''@'') (sp_netloc u) of
       (userinfo, True, _) \<Rightarrow> Some (fst (partition_at (CHR '':'') userinfo))
     | _ \<Rightarrow> None)"

definition sp_password :: "split_url \<Rightarrow> string option" where
  "sp_password u = (case rpartition_at (CHR ''@'') (sp_netloc u) of
       (userinfo, True, _) \<Rightarrow>
         (case partition_at (CHR '':'') userinfo of (_, True, password) \<Rightarrow> Some password | _ \<Rightarrow> None)
     | _ \<Rightarrow> None)"

section \<open>Return paths\<close>

definition return_to_error :: py_error where
  "return_to_error = ValueError ''return_to must be a same-origin absolute path''"

definition validate_return_to :: "(string \<Rightarrow> bool) \<Rightarrow> string option \<Rightarrow> string result" where
  "validate_return_to bracketed_ok arg =
     (case arg of
        None \<Rightarrow> Inr ''/''
      | Some v \<Rightarrow>
          if v = [] then Inr ''/''
          else if 2048 < length v \<or> \<not> startswith v ''/'' \<or> startswith v ''//'' then Inl return_to_error
          else if CHR 0x5C \<in> set v \<or> list_ex (\<lambda>c. (of_char c :: nat) < 32) v then Inl return_to_error
          else andThen (urlsplit bracketed_ok v) (\<lambda>parsed.
            if sp_scheme parsed \<noteq> [] \<or> sp_netloc parsed \<noteq> [] then Inl return_to_error else Inr v))"

section \<open>OIDC configuration\<close>

record oidc_config =
  oc_issuer :: string
  oc_metadata_url :: string
  oc_client_id :: string
  oc_client_secret :: string
  oc_public_base_url :: string
  oc_ca_bundle_file :: "string option"

definition callback_uri :: "oidc_config \<Rightarrow> string" where
  "callback_uri c = rstrip_char (CHR ''/'') (oc_public_base_url c) @ ''/api/auth/oidc/callback''"

definition truthy :: "string option \<Rightarrow> bool" where
  "truthy v \<longleftrightarrow> v \<noteq> None \<and> v \<noteq> Some []"

definition check_https_url :: "(string \<Rightarrow> bool) \<Rightarrow> string \<times> string \<Rightarrow> split_url result" where
  "check_https_url bracketed_ok entry =
     (let (label, v) = entry in
      andThen (urlsplit bracketed_ok v) (\<lambda>parsed.
        if sp_scheme parsed \<noteq> ''https'' \<or> sp_netloc parsed = [] \<or> truthy (sp_username parsed) \<or> truthy (sp_password parsed)
        then Inl (ValueError (label @ '' must be an absolute HTTPS URL without user information''))
        else if sp_fragment parsed \<noteq> [] then Inl (ValueError (label @ '' must not contain a fragment''))
        else Inr parsed))"

definition validate_oidc_config ::
  "(string \<Rightarrow> bool) \<Rightarrow> (string \<Rightarrow> unit result) \<Rightarrow> oidc_config \<Rightarrow> unit result" where
  "validate_oidc_config bracketed_ok ca_bundle_check c =
     andThen (traverse (check_https_url bracketed_ok)
       [(''OIDC issuer'', oc_issuer c), (''OIDC metadata URL'', oc_metadata_url c),
        (''public base URL'', oc_public_base_url c)]) (\<lambda>_.
     andThen (urlsplit bracketed_ok (oc_issuer c)) (\<lambda>issuer.
     if sp_query issuer \<noteq> [] then Inl (ValueError ''OIDC issuer must not contain a query'')
     else andThen (urlsplit bracketed_ok (oc_public_base_url c)) (\<lambda>base.
     if sp_query base \<noteq> [] then Inl (ValueError ''public base URL must not contain a query'')
     else if sp_path base \<notin> {[], ''/''} then Inl (ValueError ''public base URL must not contain a path'')
     else if strip (oc_client_id c) = [] then Inl (ValueError ''OIDC client ID must not be empty'')
     else if strip (oc_client_secret c) = [] then Inl (ValueError ''OIDC client secret must not be empty'')
     else case oc_ca_bundle_file c of
       None \<Rightarrow> Inr ()
     | Some path \<Rightarrow> if path = [] then Inr () else ca_bundle_check path)))"

section \<open>Accepted return paths\<close>

lemma url_cleaned_plain:
  assumes "list_all (\<lambda>c. 32 \<le> (of_char c :: nat)) v" and "startswith v ''/''"
  shows "url_cleaned v = v"
proof -
  have "filter (\<lambda>c. (of_char c :: nat) \<notin> {9, 10, 13}) v = v"
    using assms(1) by (fastforce simp: filter_id_conv list_all_iff)
  moreover have "dropWhile (\<lambda>c. (of_char c :: nat) \<le> 32) v = v"
    using assms(2) by (cases v) (auto simp: startswith_def)
  ultimately show ?thesis by (simp add: url_cleaned_def)
qed

lemma split_scheme_absolute: "startswith v ''/'' \<Longrightarrow> split_scheme v = ([], v)"
  by (cases v) (auto simp: startswith_def split_scheme_def partition_at_def ascii_alpha_def split: list.splits bool.splits)

text \<open>On an absolute path the URL parser finds neither a scheme nor a host, and never raises.\<close>

lemma urlsplit_absolute_path:
  assumes "list_all (\<lambda>c. 32 \<le> (of_char c :: nat)) v" and "startswith v ''/''" and "\<not> startswith v ''//''"
  shows "\<exists>u. urlsplit ok v = Inr u \<and> sp_scheme u = [] \<and> sp_netloc u = []"
proof -
  have "take 2 v \<noteq> ''//''" using assms(3) by (simp add: startswith_def numeral_2_eq_2)
  then show ?thesis
    unfolding urlsplit_def url_cleaned_plain[OF assms(1,2)] split_scheme_absolute[OF assms(2)]
    by (simp add: Let_def case_prod_beta)
qed

text \<open>
  The login redirect stays on the site: \<open>validate_return_to\<close> accepts exactly the empty value (as
  the root) and, unchanged, the paths of at most 2048 characters that start with one slash and hold no
  backslash and no control character.  The final URL check never rejects anything more, and
  nothing depends on how IPv6 hosts are checked.
\<close>

theorem validate_return_to_iff:
  "validate_return_to ok arg = Inr r \<longleftrightarrow>
     (if truthy arg then arg = Some r \<and> length r \<le> 2048 \<and> startswith r ''/'' \<and> \<not> startswith r ''//'' \<and>
        CHR 0x5C \<notin> set r \<and> list_all (\<lambda>c. 32 \<le> (of_char c :: nat)) r
      else r = ''/'')"
proof (cases "truthy arg")
  case False
  then show ?thesis by (auto simp: truthy_def validate_return_to_def split: option.splits)
next
  case True
  then obtain v where v: "arg = Some v" "v \<noteq> []" by (auto simp: truthy_def)
  have ctl: "list_ex (\<lambda>c. (of_char c :: nat) < 32) v \<longleftrightarrow> \<not> list_all (\<lambda>c. 32 \<le> (of_char c :: nat)) v"
    by (auto simp: list_ex_iff list_all_iff not_le)
  show ?thesis
    using True v urlsplit_absolute_path[of v ok]
    by (auto simp: validate_return_to_def ctl split: if_splits)
qed

section \<open>The verifier survives the round trip\<close>

lemma utf8_decode_utf8: "utf8_decode (utf8 s) = Some s"
proof (induction s)
  case (Cons c s)
  have lt: "(of_char c :: nat) < 256" by simp
  show ?case
  proof (cases "(of_char c :: nat) < 128")
    case True
    then show ?thesis using Cons by (simp add: utf8_def Let_def)
  next
    case False
    then have "(of_char c :: nat) div 64 = 2 \<or> (of_char c :: nat) div 64 = 3" using lt by linarith
    moreover have "(of_char c :: nat) mod 64 < 64" by simp
    moreover have "(of_char c :: nat) = (of_char c div 64) * 64 + of_char c mod 64" by simp
    ultimately have "char_of ((192 + (of_char c :: nat) div 64 - 192) * 64 + (128 + of_char c mod 64 - 128)) = c"
      by (metis add_diff_cancel_left' char_of_char)
    then show ?thesis using Cons False \<open>_ \<or> _\<close> by (auto simp: utf8_def Let_def)
  qed
qed (simp add: utf8_def)

lemma utf8_bytes: "bytes (utf8 s)"
proof (induction s)
  case (Cons c s)
  have "(of_char c :: nat) < 256" by simp
  then have "192 + (of_char c :: nat) div 64 < 256" by linarith
  moreover have "128 + (of_char c :: nat) mod 64 < 256" using mod_less_divisor[of 64 "of_char c :: nat"] by linarith
  ultimately show ?case using Cons by (simp add: utf8_def bytes_def Let_def)
qed (simp add: utf8_def bytes_def)

lemma decode_unpadded:
  assumes "bytes raw"
  shows "urlsafe_b64decode (rstrip_char (CHR ''='') (urlsafe_b64encode raw) @
    b64_padding (length (rstrip_char (CHR ''='') (urlsafe_b64encode raw)))) = Some raw"
proof -
  have "rstrip_char (CHR ''='') (urlsafe_b64encode raw) @
      b64_padding (length (rstrip_char (CHR ''='') (urlsafe_b64encode raw))) = urlsafe_b64encode raw"
    using assms by (simp only: rstrip_core) (simp only: encode_core)
  moreover have "is_ascii (urlsafe_b64encode raw)"
  proof -
    have "list_all (\<lambda>c. (of_char c :: nat) < 128) (b64_core raw)"
      using core_token[OF assms] by (auto simp: list_all_iff token_char_def Let_def)
    then show ?thesis by (auto simp: is_ascii_def encode_core b64_padding_def list_all_iff)
  qed
  ultimately show ?thesis using a2b_encode[OF assms] by (simp add: urlsafe_b64decode_def)
qed

text \<open>
  A login that was started can be finished: what \<open>encrypt_code_verifier\<close> stores for a
  transaction decrypts to the same verifier under the same key and transaction id, given only that
  AES-GCM opens what it sealed and adds a tag of 16 bytes.  The length test on the payload refuses
  exactly the empty verifier.
\<close>

theorem code_verifier_roundtrip:
  assumes open_sealed: "\<And>k n p a. bytes p \<Longrightarrow> unseal k n (seal k n p a) a = Some p"
    and tag: "\<And>k n p a. bytes p \<Longrightarrow> length (seal k n p a) = length p + 16 \<and> bytes (seal k n p a)"
    and nonce: "length nonce = 12" "bytes nonce"
  shows "decrypt_code_verifier hmac unseal key tx (encrypt_code_verifier hmac seal nonce key tx verifier) =
    (if verifier = [] then Inl (ValueError ''invalid encrypted OIDC transaction'') else Inr verifier)"
proof -
  define sealed where "sealed = seal (derived_key hmac key ''oidc-transaction-aead'') nonce (utf8 verifier) (utf8 tx)"
  note tag = tag[OF utf8_bytes] and open_sealed = open_sealed[OF utf8_bytes]
  have raw: "bytes (nonce @ sealed)" using tag nonce by (simp add: sealed_def bytes_def)
  have len: "length (nonce @ sealed) = 28 + length (utf8 verifier)" using tag nonce by (simp add: sealed_def)
  have nonempty: "(utf8 verifier = []) = (verifier = [])" by (cases verifier) (auto simp: utf8_def Let_def)
  then have short: "length (nonce @ sealed) < 29 \<longleftrightarrow> verifier = []" using len by (cases "utf8 verifier") auto
  have "unseal (derived_key hmac key ''oidc-transaction-aead'') (take 12 (nonce @ sealed)) (drop 12 (nonce @ sealed))
      (utf8 tx) = Some (utf8 verifier)"
    using nonce open_sealed by (simp add: sealed_def)
  then show ?thesis
    unfolding decrypt_code_verifier_def encrypt_code_verifier_def Let_def
    using decode_unpadded[OF raw] short by (simp add: sealed_def[symmetric] utf8_decode_utf8)
qed

definition demo_seal :: "nat list \<Rightarrow> nat list \<Rightarrow> nat list \<Rightarrow> nat list \<Rightarrow> nat list" where
  "demo_seal k n p a = p @ replicate 16 7"

definition demo_unseal :: "nat list \<Rightarrow> nat list \<Rightarrow> nat list \<Rightarrow> nat list \<Rightarrow> nat list option" where
  "demo_unseal k n c a = Some (take (length c - 16) c)"

theorem code_verifier_roundtrip_witness:
  "decrypt_code_verifier (\<lambda>k m. m) demo_unseal [1] ''tx_1''
     (encrypt_code_verifier (\<lambda>k m. m) demo_seal (replicate 12 0) [1] ''tx_1'' ''v'') = Inr ''v''"
proof -
  have "decrypt_code_verifier (\<lambda>k m. m) demo_unseal [1] ''tx_1''
     (encrypt_code_verifier (\<lambda>k m. m) demo_seal (replicate 12 0) [1] ''tx_1'' ''v'') =
     (if ''v'' = [] then Inl (ValueError ''invalid encrypted OIDC transaction'') else Inr ''v'')"
    by (rule code_verifier_roundtrip) (simp_all add: demo_seal_def demo_unseal_def bytes_def list_all_iff)
  then show ?thesis by simp
qed

end
