(* ===== verification/Principals.thy ===== *)
theory Principals
  imports Authorization Agent_Protocol Browser_Auth Example_Data
begin

text \<open>
  \<open>app/auth.py\<close>: who a request is from and which part of the API that principal may reach.  The
  middleware gets the application state, the request, the clock and the database, and either
  forwards the request with a principal or refuses it with a status; the only rows it writes are the
  session or the credential it authenticated.  \<open>hmac\<close> is HMAC-SHA256.
\<close>

section \<open>Requests and the application state\<close>

record http_request =
  h_method :: string
  h_path :: string
  h_header :: "string \<Rightarrow> string option"
  h_cookie :: "string \<Rightarrow> string option"

record app_state =
  st_auth_mode :: string
  st_api_token :: "string option"
  st_agent_bearer :: "string option"
  st_readonly_token :: "string option"
  st_external_token :: "string option"
  st_credential_key :: "nat list option"
  st_oidc_client :: bool
  st_oidc_issuer :: "string option"
  st_session_key :: "nat list option"
  st_idle_minutes :: int
  st_public_base_url :: "string option"
  st_policy :: "legacy_policy option"
  st_lifetime_days :: int

definition header_or :: "http_request \<Rightarrow> string \<Rightarrow> string" where
  "header_or r name = (case h_header r name of Some v \<Rightarrow> v | None \<Rightarrow> [])"

text \<open>\<open>secrets.compare_digest\<close> on texts refuses characters outside ASCII.\<close>

definition compare_digest :: "string \<Rightarrow> string \<Rightarrow> bool result" where
  "compare_digest a b = (if is_ascii a \<and> is_ascii b then Inr (a = b) else Inl TypeError)"

section \<open>Principals of a handler\<close>

definition forbidden :: "string \<Rightarrow> py_error" where
  "forbidden detail = HTTPException 403 detail"

definition current_principal :: "principal option \<Rightarrow> principal result" where
  "current_principal p =
     (case p of Some q \<Rightarrow> Inr q | None \<Rightarrow> Inl (HTTPException 401 ''authenticated principal is required''))"

definition require_operator_principal :: "principal option \<Rightarrow> principal result" where
  "require_operator_principal p = andThen (current_principal p) (\<lambda>q.
     if p_role q = Operator then Inr q
     else if p_role q = Human \<and> list_ex (\<lambda>g. sg_scope g = GlobalScope \<and> ''identity.manage'' \<in> sg_permissions g) (p_grants q)
     then Inr q
     else Inl (forbidden ''operator role is required''))"

definition require_device_principal :: "principal option \<Rightarrow> principal result" where
  "require_device_principal p = andThen (current_principal p) (\<lambda>q.
     if p_method q \<noteq> DeviceCredential \<or> p_endpoint q = None \<or> p_credential q = None
     then Inl (forbidden ''device credential is required'') else Inr q)"

definition enforce_device_endpoint :: "principal \<Rightarrow> string \<Rightarrow> unit result" where
  "enforce_device_endpoint p endpoint_id =
     (if p_method p = DeviceCredential \<and> p_endpoint p \<noteq> Some endpoint_id
      then Inl (forbidden ''device credential is not authorized for this endpoint'') else Inr ())"

definition enforce_endpoint_credential_mode :: "principal \<Rightarrow> credential_mode \<Rightarrow> unit result" where
  "enforce_endpoint_credential_mode p mode =
     (if mode = DeviceMode \<and> p_method p \<noteq> DeviceCredential
      then Inl (forbidden ''device credential is required for this endpoint'') else Inr ())"

section \<open>Tokens of a request\<close>

definition request_bearer_token :: "http_request \<Rightarrow> string" where
  "request_bearer_token r =
     (let authorization = header_or r ''authorization'' in
      if startswith (lower authorization) ''bearer '' then strip (drop 7 authorization) else [])"

definition request_token :: "http_request \<Rightarrow> string" where
  "request_token r =
     (let authorization = header_or r ''authorization'' in
      if startswith (lower authorization) ''bearer '' then strip (drop 7 authorization)
      else strip (header_or r ''x-sha-api-token''))"

section \<open>Paths\<close>

definition open_paths :: "string list" where
  "open_paths = [''/health'', ''/api/auth/oidc/login'', ''/api/auth/oidc/callback'']"

definition path_parts :: "string \<Rightarrow> string list" where
  "path_parts path = split_on (\<lambda>c. c = CHR ''/'') (rstrip_char (CHR ''/'') (dropWhile (\<lambda>c. c = CHR ''/'') path))"

definition is_existing_agent_path :: "http_request \<Rightarrow> bool" where
  "is_existing_agent_path r =
     (let method = h_method r; parts = path_parts (h_path r) in
      if method = ''POST'' \<and> parts = [''api'', ''endpoints'', ''enroll''] then True
      else if method = ''POST'' \<and> parts = [''api'', ''posture-snapshots''] then True
      else if length parts = 4 \<and> take 2 parts = [''api'', ''endpoints''] \<and> parts ! 3 = ''heartbeat''
      then method = ''POST''
      else if length parts = 5 \<and> take 2 parts = [''api'', ''endpoints''] \<and> drop 3 parts = [''response-actions'', ''claim'']
      then method = ''POST''
      else if length parts = 4 \<and> take 2 parts = [''api'', ''response-actions''] \<and> parts ! 3 = ''result''
      then method = ''POST''
      else False)"

definition is_bootstrap_path :: "http_request \<Rightarrow> bool" where
  "is_bootstrap_path r \<longleftrightarrow> h_method r = ''POST'' \<and> h_path r = ''/api/agent/bootstrap''"

definition is_device_only_path :: "http_request \<Rightarrow> bool" where
  "is_device_only_path r =
     (if h_path r = ''/api/agent/me'' then h_method r = ''GET''
      else if h_path r = ''/api/agent/credentials/rotate'' then h_method r = ''POST''
      else False)"

definition is_agent_path :: "http_request \<Rightarrow> bool" where
  "is_agent_path r \<longleftrightarrow> is_existing_agent_path r \<or> is_bootstrap_path r \<or> is_device_only_path r"

definition is_readonly_path :: "http_request \<Rightarrow> bool" where
  "is_readonly_path r =
     (if h_method r \<notin> {''GET'', ''HEAD'', ''OPTIONS''} \<or> is_agent_path r then False
      else let parts = path_parts (h_path r) in
        if length parts = 4 \<and> take 2 parts = [''api'', ''installer-profiles''] \<and> parts ! 3 = ''artifact'' then False
        else startswith (h_path r) ''/api/'')"

section \<open>Which principal reaches which path\<close>

text \<open>
  \<open>Forward\<close> calls the route with \<open>request.state.principal\<close> and \<open>request.state.session_token\<close>;
  \<open>Refuse\<close> is the JSON response, with whether it deletes the session cookie.
\<close>

datatype gate = Forward "principal option" "string option" | Refuse nat string bool

fun role_value :: "principal_role \<Rightarrow> string" where
  "role_value Operator = ''operator''"
| "role_value Readonly = ''readonly''"
| "role_value Human = ''human''"
| "role_value Agent = ''agent''"
| "role_value Enrollment = ''enrollment''"

definition authorize :: "http_request \<Rightarrow> principal \<Rightarrow> string option \<Rightarrow> gate" where
  "authorize r p tok =
     (let call_next = Forward (Some p) tok in
      if p_role p = Enrollment then
        if is_bootstrap_path r then call_next else Refuse 403 ''forbidden for enrollment token'' False
      else if p_role p = Agent then
        if p_method p = DeviceCredential then
          if (is_existing_agent_path r \<and> h_path r \<noteq> ''/api/endpoints/enroll'') \<or> is_device_only_path r then call_next
          else Refuse 403 ''forbidden for device credential'' False
        else if is_existing_agent_path r then call_next
        else Refuse 403 ''forbidden for agent token'' False
      else if is_agent_path r then
        let role_label = (if p_role p = Readonly then ''read-only'' else role_value (p_role p))
        in Refuse 403 (''forbidden for '' @ role_label @ '' principal'') False
      else if p_role p = Human then call_next
      else if p_role p = Operator then call_next
      else if is_readonly_path r then call_next
      else Refuse 403 ''forbidden for read-only principal'' False)"

section \<open>Browser sessions\<close>

definition browser_session_principal ::
  "(nat list \<Rightarrow> nat list \<Rightarrow> nat list) \<Rightarrow> app_state \<Rightarrow> nat \<Rightarrow> http_request \<Rightarrow> db \<Rightarrow>
   db \<times> (principal \<times> string) option result" where
  "browser_session_principal hmac st now r db =
     (case (h_cookie r session_cookie_name, st_session_key st) of
        (Some raw_session_token, Some key) \<Rightarrow>
          if raw_session_token = [] then (db, Inr None)
          else let token_hash = browser_keyed_hash hmac key ''session-token'' raw_session_token;
                   now_str = strftime_z now
          in transaction db (
             case fetch bs_token_hash token_hash (db_sessions db) of
               None \<Rightarrow> Inr (db, None)
             | Some s \<Rightarrow>
               if bs_hash_key s \<noteq> ''primary'' \<or> bs_revoked_at s \<noteq> None \<or> bs_idle_expires_at s \<le> now_str
                  \<or> bs_absolute_expires_at s \<le> now_str
               then Inr (db, None)
               else case (fetch us_id (bs_user s) (db_users db), fetch oi_id (bs_identity s) (db_identities db)) of
                 (Some user, Some identity) \<Rightarrow>
                   if us_status user = UserDisabled \<or>
                      (case st_oidc_issuer st of Some issuer \<Rightarrow> oi_issuer identity \<noteq> issuer | None \<Rightarrow> False)
                   then Inr (db, None)
                   else andThen (add_seconds now (st_idle_minutes st * 60)) (\<lambda>idle.
                     let s' = s\<lparr>bs_last_seen_at := now_str,
                           bs_idle_expires_at := min (strftime_z idle) (bs_absolute_expires_at s),
                           bs_updated_at := now_str\<rparr>;
                         grants = (if us_status user = UserActive then load_user_grants db (us_id user) else [])
                     in Inr (db\<lparr>db_sessions := save bs_id s' (db_sessions db)\<rparr>,
                          Some (\<lparr>p_subject = ''user:'' @ us_id user, p_display_name = us_display_name user,
                            p_role = Human, p_method = OidcSession, p_user = Some (us_id user),
                            p_identity = Some (oi_id identity), p_session = Some (bs_id s), p_grants = grants,
                            p_endpoint = None, p_credential = None, p_token = None\<rparr>, raw_session_token)))
               | _ \<Rightarrow> Inr (db, None))
      | _ \<Rightarrow> (db, Inr None))"

definition origin_of :: "split_url \<Rightarrow> string" where
  "origin_of u = sp_scheme u @ ''://'' @ sp_netloc u"

definition origin_matches :: "(string \<Rightarrow> bool) \<Rightarrow> app_state \<Rightarrow> http_request \<Rightarrow> bool result" where
  "origin_matches bracketed_ok st r =
     (case st_public_base_url st of
        None \<Rightarrow> Inr False
      | Some public_base_url \<Rightarrow>
          if public_base_url = [] then Inr False
          else andThen (urlsplit bracketed_ok public_base_url) (\<lambda>target.
            let expected = rstrip_char (CHR ''/'') (origin_of target) in
            if truthy (h_header r ''origin'')
            then compare_digest (rstrip_char (CHR ''/'') (header_or r ''origin'')) expected
            else if \<not> truthy (h_header r ''referer'') then Inr False
            else andThen (urlsplit bracketed_ok (header_or r ''referer'')) (\<lambda>parsed.
              compare_digest (rstrip_char (CHR ''/'') (origin_of parsed)) expected)))"

definition safe_methods :: "string list" where
  "safe_methods = [''GET'', ''HEAD'', ''OPTIONS'']"

definition browser_csrf_valid ::
  "(nat list \<Rightarrow> nat list \<Rightarrow> nat list) \<Rightarrow> (string \<Rightarrow> bool) \<Rightarrow> app_state \<Rightarrow> http_request \<Rightarrow> string option \<Rightarrow> bool result" where
  "browser_csrf_valid hmac bracketed_ok st r session_token =
     (if h_method r \<in> set safe_methods then Inr True
      else if lower (header_or r ''sec-fetch-site'') = ''cross-site'' then Inr False
      else case (st_session_key st, session_token) of
        (Some key, Some raw_session_token) \<Rightarrow>
          let supplied = header_or r ''x-sha-csrf'' in
          if supplied = [] then Inr False
          else andThen (origin_matches bracketed_ok st r) (\<lambda>same.
            if same then compare_digest supplied (csrf_token hmac key raw_session_token) else Inr False)
      | _ \<Rightarrow> Inr False)"

section \<open>Device credentials\<close>

definition authenticate_device_principal ::
  "(nat list \<Rightarrow> nat list \<Rightarrow> nat list) \<Rightarrow> app_state \<Rightarrow> nat \<Rightarrow> string \<Rightarrow> string \<Rightarrow> db \<Rightarrow> db \<times> principal option result" where
  "authenticate_device_principal hmac st now credential_id secret db =
     (case st_credential_key st of
        None \<Rightarrow> (db, Inr None)
      | Some key \<Rightarrow>
        let supplied_hash = device_secret_hash (\<lambda>k m. hexdigest (hmac k m)) key credential_id secret;
            now_str = strftime_z now;
            credential = fetch dc_id credential_id (db_credentials db);
            expected_hash = (case credential of Some c \<Rightarrow> dc_secret_hash c | None \<Rightarrow> replicate 64 (CHR ''0''))
        in transaction db (
           andThen (compare_digest supplied_hash expected_hash) (\<lambda>secret_matches.
           case credential of
             None \<Rightarrow> Inr (db, None)
           | Some c \<Rightarrow>
             if \<not> secret_matches \<or> dc_status c \<noteq> CredActive \<or> dc_hash_key c \<noteq> ''primary'' \<or>
                (case dc_expires_at c of Some e \<Rightarrow> e \<le> now_str | None \<Rightarrow> False)
             then Inr (db, None)
             else case fetch ep_id (dc_endpoint c) (db_endpoints db) of
               None \<Rightarrow> Inr (db, None)
             | Some endpoint \<Rightarrow>
               if ep_mode endpoint \<noteq> DeviceMode then Inr (db, None)
               else Inr (db\<lparr>db_credentials :=
                      save dc_id (c\<lparr>dc_last_used_at := Some now_str, dc_updated_at := now_str\<rparr>) (db_credentials db)\<rparr>,
                    Some \<lparr>p_subject = ''device:'' @ ep_id endpoint, p_display_name = ep_hostname endpoint,
                      p_role = Agent, p_method = DeviceCredential, p_user = None, p_identity = None,
                      p_session = None, p_grants = [], p_endpoint = Some (ep_id endpoint),
                      p_credential = Some (dc_id c), p_token = None\<rparr>))))"

section \<open>Principals of the shared tokens\<close>

definition token_principal ::
  "string \<Rightarrow> string \<Rightarrow> principal_role \<Rightarrow> auth_method \<Rightarrow> scope_grant list \<Rightarrow> principal" where
  "token_principal subject display_name role method grants =
     \<lparr>p_subject = subject, p_display_name = display_name, p_role = role, p_method = method, p_user = None,
      p_identity = None, p_session = None, p_grants = grants, p_endpoint = None, p_credential = None, p_token = None\<rparr>"

definition development_principal :: principal where
  "development_principal = token_principal ''development:operator'' ''Development operator'' Operator DevelopmentOpen
     [synthetic_global_grant ''development_admin'' all_permissions]"

definition operator_principal :: principal where
  "operator_principal = token_principal ''api-token:operator'' ''Operator API token'' Operator OperatorToken
     [synthetic_global_grant ''legacy_operator'' legacy_operator_permissions]"

definition agent_principal :: principal where
  "agent_principal = token_principal ''api-token:agent'' ''Agent API token'' Agent AgentToken []"

definition readonly_principal :: principal where
  "readonly_principal = token_principal ''api-token:readonly'' ''Read-only API token'' Readonly ReadonlyToken
     [synthetic_global_grant ''viewer'' readonly_permissions]"

definition enrollment_principal :: "string \<Rightarrow> principal" where
  "enrollment_principal token_id =
     (token_principal (''enrollment:'' @ token_id) ''Enrollment token'' Enrollment EnrollmentTokenAuth [])
       \<lparr>p_token := Some token_id\<rparr>"

definition external_principal :: "string \<Rightarrow> principal_role \<Rightarrow> principal" where
  "external_principal user role = token_principal (''external:'' @ lower user) user role ExternalProxy
     [synthetic_global_grant (''external_'' @ role_value role)
        (if role = Operator then legacy_operator_permissions else readonly_permissions)]"

section \<open>The middleware\<close>

definition authentication_configured :: "app_state \<Rightarrow> bool" where
  "authentication_configured st \<longleftrightarrow> truthy (st_api_token st) \<or> truthy (st_agent_bearer st) \<or>
     truthy (st_readonly_token st) \<or> truthy (st_external_token st) \<or>
     (st_credential_key st \<noteq> None \<and> st_credential_key st \<noteq> Some []) \<or> st_oidc_client st"

text \<open>\<open>token and compare_digest(supplied, token)\<close>.\<close>

definition token_matches :: "string option \<Rightarrow> string \<Rightarrow> bool result" where
  "token_matches configured supplied =
     (case configured of
        None \<Rightarrow> Inr False
      | Some t \<Rightarrow> if t = [] then Inr False else compare_digest supplied t)"

definition shared_token_gate :: "app_state \<Rightarrow> instant \<Rightarrow> http_request \<Rightarrow> gate result" where
  "shared_token_gate st clock r =
     (let tok = request_token r in
      andThen (token_matches (st_api_token st) tok) (\<lambda>operator.
      if operator then Inr (authorize r operator_principal None)
      else andThen (token_matches (st_agent_bearer st) tok) (\<lambda>agent.
      if agent then
        case st_policy st of
          None \<Rightarrow> Inr (Refuse 403 ''legacy reporter compatibility is disabled or expired'' False)
        | Some policy \<Rightarrow>
            if \<not> policy_allows policy clock
            then Inr (Refuse 403 ''legacy reporter compatibility is disabled or expired'' False)
            else Inr (authorize r agent_principal None)
      else andThen (token_matches (st_readonly_token st) tok) (\<lambda>readonly.
      if readonly then Inr (authorize r readonly_principal None)
      else Inr (Refuse 401 ''authentication required'' False)))))"

definition external_gate :: "app_state \<Rightarrow> http_request \<Rightarrow> gate" where
  "external_gate st r =
     (if st_oidc_client st
      then Refuse 403 ''external proxy roles are disabled when scoped OIDC is enabled'' False
      else let external_role = lower (strip (header_or r ''x-sha-external-role''));
               external_user = strip (header_or r ''x-sha-external-user'')
      in if external_role \<notin> {''operator'', ''readonly''} then Refuse 403 ''forbidden for external auth role'' False
         else if external_user = [] then Refuse 403 ''external auth user is required'' False
         else authorize r (external_principal external_user
                (if external_role = ''operator'' then Operator else Readonly)) None)"

definition bearer_gate ::
  "(nat list \<Rightarrow> nat list \<Rightarrow> nat list) \<Rightarrow> app_state \<Rightarrow> instant \<Rightarrow> http_request \<Rightarrow> db \<Rightarrow> db \<times> gate result" where
  "bearer_gate hmac st clock r db =
     (let bearer = request_bearer_token r in
      case parse_device_credential bearer of
        Some (credential_id, secret) \<Rightarrow>
          (case authenticate_device_principal hmac st (fst clock) credential_id secret db of
             (db, Inl e) \<Rightarrow> (db, Inl e)
           | (db, Inr None) \<Rightarrow> (db, Inr (Refuse 401 ''authentication required'' False))
           | (db, Inr (Some p)) \<Rightarrow> (db, Inr (authorize r p None)))
      | None \<Rightarrow>
          (case parse_enrollment_token bearer of
             Some (token_id, _) \<Rightarrow>
               (db, Inr (if \<not> is_bootstrap_path r then Refuse 403 ''forbidden for enrollment token'' False
                         else authorize r (enrollment_principal token_id) None))
           | None \<Rightarrow> (db, shared_token_gate st clock r)))"

text \<open>Past the session cookie: the external proxy, then the bearer formats.\<close>

definition header_gate ::
  "(nat list \<Rightarrow> nat list \<Rightarrow> nat list) \<Rightarrow> app_state \<Rightarrow> instant \<Rightarrow> http_request \<Rightarrow> db \<Rightarrow> db \<times> gate result" where
  "header_gate hmac st clock r db =
     (let external_header_token = strip (header_or r ''x-sha-external-auth'') in
      (case (if external_header_token = [] then Inr False
             else token_matches (st_external_token st) external_header_token) of
         Inl e \<Rightarrow> (db, Inl e)
       | Inr True \<Rightarrow> (db, Inr (external_gate st r))
       | Inr False \<Rightarrow> bearer_gate hmac st clock r db))"

definition api_token_middleware ::
  "(nat list \<Rightarrow> nat list \<Rightarrow> nat list) \<Rightarrow> (string \<Rightarrow> bool) \<Rightarrow> app_state \<Rightarrow> instant \<Rightarrow> http_request \<Rightarrow> db \<Rightarrow>
   db \<times> gate result" where
  "api_token_middleware hmac bracketed_ok st clock r db =
     (if h_path r \<in> set open_paths then (db, Inr (Forward None None))
      else if \<not> authentication_configured st then
        if st_auth_mode st \<noteq> ''development_open''
        then (db, Inr (Refuse 503 ''authentication is not configured'' False))
        else (db, Inr (Forward (Some development_principal) None))
      else case browser_session_principal hmac st (fst clock) r db of
        (db, Inl e) \<Rightarrow> (db, Inl e)
      | (db, Inr (Some (p, session_token))) \<Rightarrow>
          (db, andThen (browser_csrf_valid hmac bracketed_ok st r (Some session_token)) (\<lambda>valid.
             if \<not> valid then Inr (Refuse 403 ''CSRF validation failed'' False)
             else Inr (authorize r p (Some session_token))))
      | (db, Inr None) \<Rightarrow>
          if truthy (h_cookie r session_cookie_name) then (db, Inr (Refuse 401 ''authentication required'' True))
          else header_gate hmac st clock r db)"

section \<open>Authentic principals\<close>

text \<open>
  What each way of authenticating has to show, independently of how the middleware is written.
\<close>

definition live_session ::
  "(nat list \<Rightarrow> nat list \<Rightarrow> nat list) \<Rightarrow> app_state \<Rightarrow> nat \<Rightarrow> http_request \<Rightarrow> db \<Rightarrow> string \<Rightarrow> session_row \<Rightarrow> user_row \<Rightarrow> bool" where
  "live_session hmac st now r db raw s u \<longleftrightarrow>
     h_cookie r session_cookie_name = Some raw \<and> raw \<noteq> [] \<and> s \<in> set (db_sessions db) \<and>
     (\<exists>key. st_session_key st = Some key \<and> bs_token_hash s = browser_keyed_hash hmac key ''session-token'' raw) \<and>
     bs_revoked_at s = None \<and> strftime_z now < bs_idle_expires_at s \<and> strftime_z now < bs_absolute_expires_at s \<and>
     u \<in> set (db_users db) \<and> us_id u = bs_user s \<and> us_status u \<noteq> UserDisabled"

definition live_credential ::
  "(nat list \<Rightarrow> nat list \<Rightarrow> nat list) \<Rightarrow> app_state \<Rightarrow> nat \<Rightarrow> db \<Rightarrow> string \<Rightarrow> string \<Rightarrow> credential_row \<Rightarrow> endpoint_row \<Rightarrow> bool" where
  "live_credential hmac st now db cid secret c e \<longleftrightarrow>
     c \<in> set (db_credentials db) \<and> dc_id c = cid \<and>
     (\<exists>key. st_credential_key st = Some key \<and>
        dc_secret_hash c = device_secret_hash (\<lambda>k m. hexdigest (hmac k m)) key cid secret) \<and>
     dc_status c = CredActive \<and> (\<forall>t\<in>set_option (dc_expires_at c). strftime_z now < t) \<and>
     e \<in> set (db_endpoints db) \<and> ep_id e = dc_endpoint c \<and> ep_mode e = DeviceMode"

definition authentic ::
  "(nat list \<Rightarrow> nat list \<Rightarrow> nat list) \<Rightarrow> (string \<Rightarrow> bool) \<Rightarrow> app_state \<Rightarrow> instant \<Rightarrow> http_request \<Rightarrow> db \<Rightarrow> principal \<Rightarrow> bool" where
  "authentic hmac bracketed_ok st clock r db p =
     (case p_method p of
        DevelopmentOpen \<Rightarrow> \<not> authentication_configured st \<and> st_auth_mode st = ''development_open'' \<and> p = development_principal
      | OperatorToken \<Rightarrow> p = operator_principal \<and> request_token r \<noteq> [] \<and> st_api_token st = Some (request_token r)
      | ReadonlyToken \<Rightarrow> p = readonly_principal \<and> request_token r \<noteq> [] \<and> st_readonly_token st = Some (request_token r)
      | AgentToken \<Rightarrow> p = agent_principal \<and> request_token r \<noteq> [] \<and> st_agent_bearer st = Some (request_token r) \<and>
          (\<exists>policy. st_policy st = Some policy \<and> policy_allows policy clock)
      | ExternalProxy \<Rightarrow> \<not> st_oidc_client st \<and> strip (header_or r ''x-sha-external-auth'') \<noteq> [] \<and>
          st_external_token st = Some (strip (header_or r ''x-sha-external-auth'')) \<and>
          (\<exists>user role. user \<noteq> [] \<and> role \<in> {Operator, Readonly} \<and> p = external_principal user role)
      | EnrollmentTokenAuth \<Rightarrow> is_bootstrap_path r \<and>
          (\<exists>tid secret. parse_enrollment_token (request_bearer_token r) = Some (tid, secret) \<and> p = enrollment_principal tid)
      | DeviceCredential \<Rightarrow> (\<exists>cid secret c e. parse_device_credential (request_bearer_token r) = Some (cid, secret) \<and>
          live_credential hmac st (fst clock) db cid secret c e \<and> p_role p = Agent \<and> p_grants p = [] \<and>
          p_endpoint p = Some (ep_id e) \<and> p_credential p = Some cid)
      | OidcSession \<Rightarrow> (\<exists>raw s u. live_session hmac st (fst clock) r db raw s u \<and> p_role p = Human \<and>
          p_user p = Some (us_id u) \<and> p_session p = Some (bs_id s) \<and>
          p_grants p = (if us_status u = UserActive then load_user_grants db (us_id u) else []) \<and>
          (h_method r \<notin> set safe_methods \<longrightarrow>
             (\<exists>key. st_session_key st = Some key \<and> h_header r ''x-sha-csrf'' = Some (csrf_token hmac key raw)) \<and>
             origin_matches bracketed_ok st r = Inr True)))"

text \<open>Which part of the API a role may reach.\<close>

definition reachable_path :: "http_request \<Rightarrow> principal \<Rightarrow> bool" where
  "reachable_path r p =
     (case p_role p of
        Enrollment \<Rightarrow> is_bootstrap_path r
      | Agent \<Rightarrow>
          if p_method p = DeviceCredential
          then is_device_only_path r \<or> (is_existing_agent_path r \<and> h_path r \<noteq> ''/api/endpoints/enroll'')
          else is_existing_agent_path r
      | Readonly \<Rightarrow> \<not> is_agent_path r \<and> h_method r \<in> set safe_methods \<and> startswith (h_path r) ''/api/''
      | Human \<Rightarrow> \<not> is_agent_path r
      | Operator \<Rightarrow> \<not> is_agent_path r)"

lemma authorize_Forward:
  "authorize r p tok = Forward q tok' \<Longrightarrow> q = Some p \<and> tok' = tok \<and> reachable_path r p"
  by (cases "p_role p")
    (auto simp: authorize_def reachable_path_def is_readonly_path_def safe_methods_def Let_def split: if_splits)

lemma authorize_Some: "authorize r p tok = Forward q tok' \<Longrightarrow> \<exists>p. q = Some p"
  using authorize_Forward by blast

lemma compare_digest_True [simp]: "compare_digest a b = Inr True \<longleftrightarrow> is_ascii a \<and> is_ascii b \<and> a = b"
  by (auto simp: compare_digest_def)

lemma token_matches_True: "token_matches configured supplied = Inr True \<Longrightarrow> configured = Some supplied \<and> supplied \<noteq> []"
  by (auto simp: token_matches_def split: option.splits if_splits)

lemma authenticate_device_cases:
  assumes "authenticate_device_principal hmac st now cid secret db = (db', Inr (Some p))"
  obtains c e where "live_credential hmac st now db cid secret c e" "p_role p = Agent" "p_method p = DeviceCredential"
    "p_grants p = []" "p_endpoint p = Some (ep_id e)" "p_credential p = Some cid"
    "db' = db\<lparr>db_credentials := save dc_id (c\<lparr>dc_last_used_at := Some (strftime_z now), dc_updated_at := strftime_z now\<rparr>)
       (db_credentials db)\<rparr>"
proof -
  note [simp] = authenticate_device_principal_def Let_def transaction_Inr andThen_eq_Inr
  obtain key where key: "st_credential_key st = Some key"
    using assms by (cases "st_credential_key st") auto
  obtain c where c: "fetch dc_id cid (db_credentials db) = Some c"
    using assms key by (cases "fetch dc_id cid (db_credentials db)") auto
  obtain e where e: "fetch ep_id (dc_endpoint c) (db_endpoints db) = Some e"
    using assms key c by (cases "fetch ep_id (dc_endpoint c) (db_endpoints db)") (auto split: if_splits)
  show ?thesis
    using assms key c e fetch_SomeD[OF c] fetch_SomeD[OF e]
    by (intro that[of c e]) (auto simp: live_credential_def not_le split: if_splits option.splits)
qed

lemma browser_session_cases:
  assumes "browser_session_principal hmac st now r db = (db', Inr (Some (p, raw)))"
  obtains s u idle where "live_session hmac st now r db raw s u" "p_role p = Human" "p_method p = OidcSession"
    "p_user p = Some (us_id u)" "p_session p = Some (bs_id s)"
    "p_grants p = (if us_status u = UserActive then load_user_grants db (us_id u) else [])"
    "add_seconds now (st_idle_minutes st * 60) = Inr idle"
    "db' = db\<lparr>db_sessions := save bs_id (s\<lparr>bs_last_seen_at := strftime_z now,
       bs_idle_expires_at := min (strftime_z idle) (bs_absolute_expires_at s), bs_updated_at := strftime_z now\<rparr>)
       (db_sessions db)\<rparr>"
proof -
  note [simp] = browser_session_principal_def Let_def transaction_Inr andThen_eq_Inr
  obtain raw' key where raw: "h_cookie r session_cookie_name = Some raw'" "st_session_key st = Some key" "raw' \<noteq> []"
    using assms by (auto split: option.splits if_splits)
  let ?h = "browser_keyed_hash hmac key ''session-token'' raw'"
  obtain s where s: "fetch bs_token_hash ?h (db_sessions db) = Some s"
    using assms raw by (cases "fetch bs_token_hash ?h (db_sessions db)") auto
  obtain u where u: "fetch us_id (bs_user s) (db_users db) = Some u"
    using assms raw s by (cases "fetch us_id (bs_user s) (db_users db)") (auto split: if_splits)
  obtain i where i: "fetch oi_id (bs_identity s) (db_identities db) = Some i"
    using assms raw s u by (cases "fetch oi_id (bs_identity s) (db_identities db)") (auto split: if_splits)
  obtain idle where idle: "add_seconds now (st_idle_minutes st * 60) = Inr idle"
    using assms raw s u i by (cases "add_seconds now (st_idle_minutes st * 60)") (auto split: if_splits)
  show ?thesis
    using assms raw s u i idle fetch_SomeD[OF s] fetch_SomeD[OF u]
    by (intro that[of s u idle]) (auto simp: live_session_def not_le split: if_splits)
qed

lemma shared_token_gate_sound:
  assumes "shared_token_gate st clock r = Inr (Forward (Some p) tok)"
  shows "authentic hmac ok st clock r db p \<and> reachable_path r p"
proof -
  note [simp] = authentic_def operator_principal_def agent_principal_def readonly_principal_def token_principal_def
  consider (operator) "token_matches (st_api_token st) (request_token r) = Inr True"
      "authorize r operator_principal None = Forward (Some p) tok"
    | (agent) policy where "token_matches (st_agent_bearer st) (request_token r) = Inr True"
      "st_policy st = Some policy" "policy_allows policy clock" "authorize r agent_principal None = Forward (Some p) tok"
    | (readonly) "token_matches (st_readonly_token st) (request_token r) = Inr True"
      "authorize r readonly_principal None = Forward (Some p) tok"
    using assms by (auto simp: shared_token_gate_def Let_def andThen_eq_Inr split: if_splits option.splits)
  then show ?thesis
    by cases (auto dest!: token_matches_True authorize_Forward)
qed

lemma external_gate_sound:
  assumes "external_gate st r = Forward (Some p) tok" and "strip (header_or r ''x-sha-external-auth'') \<noteq> []"
    and "token_matches (st_external_token st) (strip (header_or r ''x-sha-external-auth'')) = Inr True"
  shows "authentic hmac ok st clock r db p \<and> reachable_path r p"
  using assms
  by (auto simp: external_gate_def authentic_def external_principal_def token_principal_def Let_def
      dest!: token_matches_True authorize_Forward split: if_splits)

lemma bearer_gate_sound:
  assumes "bearer_gate hmac st clock r db = (db', Inr (Forward (Some p) tok))"
  shows "authentic hmac ok st clock r db p \<and> reachable_path r p"
proof (cases "parse_device_credential (request_bearer_token r)")
  case (Some bearer)
  then obtain cid secret where b: "parse_device_credential (request_bearer_token r) = Some (cid, secret)" by (cases bearer) auto
  obtain q where q: "authenticate_device_principal hmac st (fst clock) cid secret db = (db', Inr (Some q))"
    and a: "authorize r q None = Forward (Some p) tok"
    using assms b by (auto simp: bearer_gate_def Let_def split: prod.splits sum.splits option.splits)
  have p: "p = q" "reachable_path r p" using authorize_Forward[OF a] by auto
  show ?thesis
    using p b by (cases rule: authenticate_device_cases[OF q]) (auto simp: authentic_def)
next
  case None
  show ?thesis
  proof (cases "parse_enrollment_token (request_bearer_token r)")
    case None
    then have "shared_token_gate st clock r = Inr (Forward (Some p) tok)"
      using assms \<open>parse_device_credential _ = None\<close> by (simp add: bearer_gate_def Let_def)
    then show ?thesis by (rule shared_token_gate_sound)
  next
    case (Some t)
    then obtain tid secret where t: "parse_enrollment_token (request_bearer_token r) = Some (tid, secret)" by (cases t) auto
    then have "is_bootstrap_path r" "authorize r (enrollment_principal tid) None = Forward (Some p) tok"
      using assms None by (auto simp: bearer_gate_def Let_def split: if_splits)
    then show ?thesis
      using t by (auto simp: authentic_def enrollment_principal_def token_principal_def dest!: authorize_Forward)
  qed
qed

lemma shared_token_gate_Some: "shared_token_gate st clock r = Inr (Forward q tok) \<Longrightarrow> \<exists>p. q = Some p"
  by (auto simp: shared_token_gate_def Let_def andThen_eq_Inr dest: authorize_Some split: if_splits option.splits)

lemma bearer_gate_Some:
  assumes "bearer_gate hmac st clock r db = (db', Inr (Forward q tok))"
  shows "\<exists>p. q = Some p"
proof (cases "parse_device_credential (request_bearer_token r)")
  case None
  then show ?thesis
    using assms
    by (auto simp: bearer_gate_def Let_def dest: authorize_Some shared_token_gate_Some split: if_splits option.splits)
next
  case (Some b)
  then show ?thesis
    using assms
    by (auto simp: bearer_gate_def Let_def dest: authorize_Some split: prod.splits sum.splits option.splits)
qed

lemma csrf_sound:
  assumes "browser_csrf_valid hmac ok st r (Some raw) = Inr True" and "h_method r \<notin> set safe_methods"
  shows "(\<exists>key. st_session_key st = Some key \<and> h_header r ''x-sha-csrf'' = Some (csrf_token hmac key raw)) \<and>
    origin_matches ok st r = Inr True"
  using assms
  by (auto simp: browser_csrf_valid_def header_or_def andThen_eq_Inr Let_def split: if_splits option.splits)

lemma middleware_configured:
  assumes "authentication_configured st" and "h_path r \<notin> set open_paths"
    and "browser_session_principal hmac st (fst clock) r db = (db1, s)"
  shows "api_token_middleware hmac ok st clock r db =
    (case s of
       Inl e \<Rightarrow> (db1, Inl e)
     | Inr None \<Rightarrow> if truthy (h_cookie r session_cookie_name) then (db1, Inr (Refuse 401 ''authentication required'' True))
         else header_gate hmac st clock r db1
     | Inr (Some (p, raw)) \<Rightarrow> (db1, andThen (browser_csrf_valid hmac ok st r (Some raw)) (\<lambda>valid.
         if \<not> valid then Inr (Refuse 403 ''CSRF validation failed'' False) else Inr (authorize r p (Some raw)))))"
  unfolding api_token_middleware_def assms(3) using assms(1,2) by simp

lemma header_gate_cases:
  assumes "header_gate hmac st clock r db = (db', Inr g)"
  obtains (external) "db' = db" "g = external_gate st r" "strip (header_or r ''x-sha-external-auth'') \<noteq> []"
      "token_matches (st_external_token st) (strip (header_or r ''x-sha-external-auth'')) = Inr True"
    | (bearer) "bearer_gate hmac st clock r db = (db', Inr g)"
proof (cases "strip (header_or r ''x-sha-external-auth'') = []")
  case True
  then have "bearer_gate hmac st clock r db = (db', Inr g)" using assms by (simp add: header_gate_def)
  then show ?thesis by (rule bearer)
next
  case False
  note eq = assms[unfolded header_gate_def Let_def if_not_P[OF False]]
  show ?thesis
  proof (cases "token_matches (st_external_token st) (strip (header_or r ''x-sha-external-auth''))")
    case (Inl e)
    then show ?thesis using eq by simp
  next
    case (Inr b)
    show ?thesis
    proof (cases b)
      case True
      with eq Inr have "db' = db" "g = external_gate st r" by simp_all
      then show ?thesis using False Inr True by (intro external) simp_all
    next
      case b: False
      with eq Inr have "bearer_gate hmac st clock r db = (db', Inr g)" by simp
      then show ?thesis by (rule bearer)
    qed
  qed
qed

lemma api_token_middleware_cases:
  assumes "api_token_middleware hmac ok st clock r db = (db', Inr (Forward q tok))" and "h_path r \<notin> set open_paths"
  obtains (development) "\<not> authentication_configured st" "st_auth_mode st = ''development_open''"
      "q = Some development_principal" "db' = db"
    | (session) p raw where "browser_session_principal hmac st (fst clock) r db = (db', Inr (Some (p, raw)))"
      "browser_csrf_valid hmac ok st r (Some raw) = Inr True" "authorize r p (Some raw) = Forward q tok"
    | (external) "browser_session_principal hmac st (fst clock) r db = (db', Inr None)"
      "external_gate st r = Forward q tok" "strip (header_or r ''x-sha-external-auth'') \<noteq> []"
      "token_matches (st_external_token st) (strip (header_or r ''x-sha-external-auth'')) = Inr True"
    | (bearer) db1 where "browser_session_principal hmac st (fst clock) r db = (db1, Inr None)"
      "bearer_gate hmac st clock r db1 = (db', Inr (Forward q tok))"
proof (cases "authentication_configured st")
  case False
  then show ?thesis
    using assms by (intro development) (simp_all add: api_token_middleware_def split: if_splits)
next
  case True
  obtain db1 s where s: "browser_session_principal hmac st (fst clock) r db = (db1, s)" by fastforce
  note eq = assms(1)[unfolded middleware_configured[OF True assms(2) s]]
  consider (raises) e where "s = Inl e" | (absent) "s = Inr None" | (present) p raw where "s = Inr (Some (p, raw))"
    by (cases s; cases "projr s") auto
  then show ?thesis
  proof cases
    case raises
    then show ?thesis using eq by simp
  next
    case present
    then have "db' = db1" "browser_csrf_valid hmac ok st r (Some raw) = Inr True" "authorize r p (Some raw) = Forward q tok"
      using eq by (auto simp: andThen_eq_Inr split: if_splits)
    then show ?thesis using s present by (intro session[of p raw]) simp_all
  next
    case absent
    then have "header_gate hmac st clock r db1 = (db', Inr (Forward q tok))"
      using eq by (simp split: if_splits)
    then show ?thesis
    proof (cases rule: header_gate_cases)
      case a: external
      show ?thesis by (rule external) (use a s absent in simp_all)
    next
      case b: bearer
      show ?thesis by (rule bearer[OF _ b]) (use s absent in simp)
    qed
  qed
qed

text \<open>Without a session principal the session lookup has written nothing.\<close>

lemma browser_session_None:
  "browser_session_principal hmac st now r db = (db', Inr None) \<Longrightarrow> db' = db"
  by (auto simp: browser_session_principal_def Let_def transaction_Inr andThen_eq_Inr split: option.splits if_splits)

text \<open>
  C15.  Nobody is taken for someone they did not prove to be: whenever the middleware forwards a
  request with a principal, the request carried what that principal's way of authenticating demands.
  A device has a live credential with the keyed hash of the secret on an endpoint in device mode; a
  user has a live session, is not disabled, holds exactly the grants of their role bindings and, for a
  method that changes state, sent the session's CSRF token from the same origin; a shared token
  equals the configured one.
\<close>

theorem forwarded_principal_authentic:
  assumes "api_token_middleware hmac ok st clock r db = (db', Inr (Forward (Some p) tok))"
  shows "authentic hmac ok st clock r db p"
proof -
  have "h_path r \<notin> set open_paths" using assms by (auto simp: api_token_middleware_def)
  with assms show ?thesis
  proof (cases rule: api_token_middleware_cases)
    case development
    then show ?thesis by (simp add: authentic_def development_principal_def token_principal_def)
  next
    case (session p' raw)
    then have "p' = p" using authorize_Forward by blast
    from session(1) show ?thesis
      by (cases rule: browser_session_cases) (use csrf_sound[OF session(2)] \<open>p' = p\<close> in \<open>auto simp: authentic_def\<close>)
  next
    case external
    then show ?thesis using external_gate_sound by blast
  next
    case (bearer db1)
    then show ?thesis using browser_session_None[OF bearer(1)] bearer_gate_sound by blast
  qed
qed

text \<open>
  C16.  Every role stays in its part of the API once authentication is configured: enrollment tokens
  reach only the bootstrap exchange, devices and the shared agent token only the agent routes (and a
  device never the legacy enrollment), read-only principals only safe methods, and operators and
  users never an agent route.  A request without a principal is forwarded only on the three open paths.
\<close>

theorem forwarded_path_reachable:
  assumes "api_token_middleware hmac ok st clock r db = (db', Inr (Forward q tok))" and "authentication_configured st"
  shows "case q of None \<Rightarrow> h_path r \<in> set open_paths | Some p \<Rightarrow> reachable_path r p"
proof (cases "h_path r \<in> set open_paths")
  case True
  then show ?thesis using assms(1) by (auto simp: api_token_middleware_def)
next
  case False
  with assms(1) have "\<exists>p. q = Some p \<and> reachable_path r p"
  proof (cases rule: api_token_middleware_cases)
    case development
    then show ?thesis using assms(2) by simp
  next
    case (session p raw)
    then show ?thesis using authorize_Forward by blast
  next
    case external
    obtain p where "q = Some p"
      using external(2) by (auto simp: external_gate_def Let_def dest: authorize_Some split: if_splits)
    then show ?thesis using external external_gate_sound by blast
  next
    case (bearer db1)
    obtain p where "q = Some p" using bearer_gate_Some[OF bearer(2)] by blast
    then show ?thesis using bearer(2) bearer_gate_sound by blast
  qed
  then show ?thesis by auto
qed

section \<open>What authenticating writes\<close>

text \<open>A row without the columns that record its last use.\<close>

definition session_identity :: "session_row \<Rightarrow> session_row" where
  "session_identity s = s\<lparr>bs_last_seen_at := [], bs_idle_expires_at := [], bs_updated_at := []\<rparr>"

definition credential_identity :: "credential_row \<Rightarrow> credential_row" where
  "credential_identity c = c\<lparr>dc_last_used_at := None, dc_updated_at := []\<rparr>"

definition sessions_capped :: "db \<Rightarrow> bool" where
  "sessions_capped db \<longleftrightarrow> (\<forall>s\<in>set (db_sessions db). bs_idle_expires_at s \<le> bs_absolute_expires_at s)"

text \<open>
  \<open>touched db db'\<close>: only last-use columns differ, and no idle deadline passes the absolute one that
  did not before.
\<close>

definition touched :: "db \<Rightarrow> db \<Rightarrow> bool" where
  "touched db db' \<longleftrightarrow>
     db'\<lparr>db_sessions := db_sessions db, db_credentials := db_credentials db\<rparr> = db \<and>
     map session_identity (db_sessions db') = map session_identity (db_sessions db) \<and>
     map credential_identity (db_credentials db') = map credential_identity (db_credentials db) \<and>
     (sessions_capped db \<longrightarrow> sessions_capped db')"

lemma touched_refl [simp]: "touched db db"
  by (simp add: touched_def)

lemma map_save_same:
  assumes "unique_on key rows" and "r \<in> set rows" and "key r' = key r" and "f r' = f r"
  shows "map f (save key r' rows) = map f rows"
  using assms by (auto simp: save_def dest: unique_onD)

lemma touched_session:
  assumes "unique_on bs_id (db_sessions db)" and "s \<in> set (db_sessions db)"
  shows "touched db (db\<lparr>db_sessions := save bs_id (s\<lparr>bs_last_seen_at := a,
    bs_idle_expires_at := min b (bs_absolute_expires_at s), bs_updated_at := c\<rparr>) (db_sessions db)\<rparr>)"
  using assms map_save_same[OF assms, of "s\<lparr>bs_last_seen_at := a,
    bs_idle_expires_at := min b (bs_absolute_expires_at s), bs_updated_at := c\<rparr>" session_identity]
  by (auto simp: touched_def session_identity_def sessions_capped_def in_set_save)

lemma touched_credential:
  assumes "unique_on dc_id (db_credentials db)" and "c \<in> set (db_credentials db)"
  shows "touched db (db\<lparr>db_credentials := save dc_id (c\<lparr>dc_last_used_at := a, dc_updated_at := b\<rparr>) (db_credentials db)\<rparr>)"
  using map_save_same[OF assms, of "c\<lparr>dc_last_used_at := a, dc_updated_at := b\<rparr>" credential_identity]
  by (auto simp: touched_def credential_identity_def sessions_capped_def)

lemma browser_session_touched:
  assumes "unique_on bs_id (db_sessions db)" and run: "browser_session_principal hmac st now r db = (db', res)"
  shows "touched db db'"
proof (cases res)
  case (Inl e)
  then have "db' = db"
    using run by (auto simp: browser_session_principal_def Let_def transaction_Inl split: option.splits if_splits)
  then show ?thesis by simp
next
  case (Inr x)
  show ?thesis
  proof (cases x)
    case None
    then show ?thesis using Inr run browser_session_None by (metis touched_refl)
  next
    case (Some y)
    then obtain p raw where "browser_session_principal hmac st now r db = (db', Inr (Some (p, raw)))"
      using Inr run by (cases y) auto
    then show ?thesis
      by (cases rule: browser_session_cases) (use touched_session[OF assms(1)] in \<open>auto simp: live_session_def\<close>)
  qed
qed

lemma authenticate_device_touched:
  assumes "unique_on dc_id (db_credentials db)" and run: "authenticate_device_principal hmac st now cid secret db = (db', res)"
  shows "touched db db'"
proof (cases "\<exists>p. res = Inr (Some p)")
  case True
  then obtain p where "authenticate_device_principal hmac st now cid secret db = (db', Inr (Some p))" using run by auto
  then show ?thesis
    by (cases rule: authenticate_device_cases) (use touched_credential[OF assms(1)] in \<open>auto simp: live_credential_def\<close>)
next
  case False
  then have "db' = db"
    using run by (auto simp: authenticate_device_principal_def Let_def transaction_Inr transaction_Inl andThen_eq_Inr
        split: option.splits if_splits dest!: transaction_Pair)
  then show ?thesis by simp
qed

lemma bearer_gate_touched:
  assumes "unique_on dc_id (db_credentials db)" and "bearer_gate hmac st clock r db = (db', res)"
  shows "touched db db'"
proof (cases "parse_device_credential (request_bearer_token r)")
  case None
  then have "db' = db" using assms(2) by (auto simp: bearer_gate_def Let_def split: option.splits)
  then show ?thesis by simp
next
  case (Some b)
  then obtain cid secret where b: "parse_device_credential (request_bearer_token r) = Some (cid, secret)" by (cases b) auto
  obtain db1 res1 where run: "authenticate_device_principal hmac st (fst clock) cid secret db = (db1, res1)" by fastforce
  then have "db' = db1" using assms(2) b by (auto simp: bearer_gate_def Let_def split: sum.splits option.splits)
  then show ?thesis using authenticate_device_touched[OF assms(1) run] by simp
qed

text \<open>
  Authenticating a request writes nothing but when the session or credential was last used:
  whatever the request and outcome, every other column of every table is unchanged, and the sliding
  idle deadline of a session never passes its absolute deadline.
\<close>

theorem middleware_only_touches:
  assumes "unique_on bs_id (db_sessions db)" and "unique_on dc_id (db_credentials db)"
  shows "touched db (fst (api_token_middleware hmac ok st clock r db))"
proof (cases "authentication_configured st \<and> h_path r \<notin> set open_paths")
  case False
  then show ?thesis by (auto simp: api_token_middleware_def)
next
  case True
  obtain db1 s where s: "browser_session_principal hmac st (fst clock) r db = (db1, s)" by fastforce
  note eq = middleware_configured[OF conjunct1[OF True] conjunct2[OF True] s, of ok]
  have t: "touched db db1" by (rule browser_session_touched[OF assms(1) s])
  show ?thesis
  proof (cases "s = Inr None")
    case True
    then have "db1 = db" using s browser_session_None by blast
    moreover have "touched db (fst (header_gate hmac st clock r db))"
      using bearer_gate_touched[OF assms(2)]
      by (auto simp: header_gate_def Let_def split: sum.splits bool.splits) (metis fst_conv surj_pair)+
    ultimately show ?thesis using eq True by simp
  next
    case False
    then have "fst (api_token_middleware hmac ok st clock r db) = db1"
      unfolding eq by (auto split: sum.splits option.splits)
    then show ?thesis using t by simp
  qed
qed

section \<open>A concrete request\<close>

text \<open>A constant function in place of HMAC-SHA256, one device credential and its heartbeat.\<close>

definition demo_hmac :: "nat list \<Rightarrow> nat list \<Rightarrow> nat list" where
  "demo_hmac k m = [171, 205]"

definition demo_state :: app_state where
  "demo_state = \<lparr>st_auth_mode = ''protected'', st_api_token = None, st_agent_bearer = None, st_readonly_token = None,
     st_external_token = None, st_credential_key = Some (replicate 32 1), st_oidc_client = False,
     st_oidc_issuer = None, st_session_key = None, st_idle_minutes = 30, st_public_base_url = None,
     st_policy = None, st_lifetime_days = 90\<rparr>"

definition demo_credential :: credential_row where
  "demo_credential = \<lparr>dc_id = ''dc_0123456789abcdef'', dc_endpoint = ''ep_1'', dc_secret_hash = ''abcd'',
     dc_hash_key = ''primary'', dc_status = CredActive, dc_replaced_by = None, dc_last_used_at = None,
     dc_expires_at = None, dc_created_at = ''2026-01-01T00:00:00Z'', dc_updated_at = ''2026-01-01T00:00:00Z'',
     dc_replaced_at = None, dc_revoked_at = None\<rparr>"

definition demo_heartbeat :: http_request where
  "demo_heartbeat = \<lparr>h_method = ''POST'', h_path = ''/api/endpoints/ep_1/heartbeat'',
     h_header = (\<lambda>n. if n = ''authorization''
       then Some (''Bearer sha_device.dc_0123456789abcdef.'' @ replicate 43 (CHR ''A'')) else None),
     h_cookie = (\<lambda>_. None)\<rparr>"

definition demo_principal :: principal where
  "demo_principal = \<lparr>p_subject = ''device:ep_1'', p_display_name = ''host-1'', p_role = Agent,
     p_method = DeviceCredential, p_user = None, p_identity = None, p_session = None, p_grants = [],
     p_endpoint = Some ''ep_1'', p_credential = Some ''dc_0123456789abcdef'', p_token = None\<rparr>"

lemma demo_bearer:
  "parse_device_credential (request_bearer_token demo_heartbeat) =
     Some (''dc_0123456789abcdef'', replicate 43 (CHR ''A''))"
  by code_simp

lemma demo_reachable: "is_existing_agent_path demo_heartbeat" "h_path demo_heartbeat \<noteq> ''/api/endpoints/enroll''"
  by code_simp+

lemma demo_run:
  "\<exists>db'. api_token_middleware demo_hmac (\<lambda>_. True) demo_state clock demo_heartbeat
     (ex_db\<lparr>db_credentials := [demo_credential]\<rparr>) = (db', Inr (Forward (Some demo_principal) None))"
proof -
  have hash: "device_secret_hash (\<lambda>k m. hexdigest (demo_hmac k m)) key cid secret = ''abcd''" for key cid secret
    unfolding device_secret_hash_def keyed_hash_def demo_hmac_def by code_simp
  have ascii: "is_ascii ''abcd''" by code_simp
  have conf: "authentication_configured demo_state"
    by (simp add: authentication_configured_def demo_state_def truthy_def)
  have no_session: "browser_session_principal demo_hmac demo_state (fst clock) demo_heartbeat db = (db, Inr None)" for db
    by (simp add: browser_session_principal_def demo_heartbeat_def)
  have no_headers: "strip (header_or demo_heartbeat ''x-sha-external-auth'') = []"
    "\<not> truthy (h_cookie demo_heartbeat session_cookie_name)" "h_path demo_heartbeat \<notin> set open_paths"
    by (simp_all add: header_or_def demo_heartbeat_def strip_def lstrip_def truthy_def open_paths_def)
  show ?thesis
    using demo_reachable unfolding middleware_configured[OF conf no_headers(3) no_session]
    by (simp add: Let_def no_headers header_gate_def bearer_gate_def demo_bearer authenticate_device_principal_def hash ascii demo_state_def demo_credential_def
        compare_digest_def authorize_def demo_principal_def ex_endpoint_def)
qed

theorem forwarded_principal_authentic_witness:
  "authentic demo_hmac (\<lambda>_. True) demo_state (0, 0) demo_heartbeat (ex_db\<lparr>db_credentials := [demo_credential]\<rparr>)
     demo_principal"
  using demo_run forwarded_principal_authentic by blast

theorem forwarded_path_reachable_witness: "reachable_path demo_heartbeat demo_principal"
proof -
  have "authentication_configured demo_state"
    by (simp add: authentication_configured_def demo_state_def truthy_def)
  with demo_run obtain db' where "case Some demo_principal of None \<Rightarrow> h_path demo_heartbeat \<in> set open_paths
      | Some p \<Rightarrow> reachable_path demo_heartbeat p"
    using forwarded_path_reachable by blast
  then show ?thesis by simp
qed

theorem middleware_only_touches_witness:
  "touched (ex_db\<lparr>db_credentials := [demo_credential]\<rparr>)
     (fst (api_token_middleware demo_hmac (\<lambda>_. True) demo_state (0, 0) demo_heartbeat
       (ex_db\<lparr>db_credentials := [demo_credential]\<rparr>)))"
  by (rule middleware_only_touches) (simp_all add: ex_db_def empty_db_def unique_on_def)

end
