(* ===== verification/Response_Actions.thy ===== *)
theory Response_Actions
  imports Approvals Principals
begin

text \<open>
  \<open>app/api/endpoints/response_actions.py\<close>: actions queued on an endpoint under an approval grant, the
  leases an agent claims them with, and the results it reports.  \<open>sha\<close> is SHA-256 on bytes and
  \<open>raw\<close> the random bytes of a lease token.  \<open>now\<close> is the clock reading of the call.
\<close>

section \<open>Payloads\<close>

record response_action_in =
  ci_endpoint_id :: string
  ci_grant_id :: string
  ci_action :: approval_action
  ci_control_id :: "string option"
  ci_scope :: "ts_scope option"
  ci_idempotency :: "string option"
  ci_reason :: string

record action_result_in =
  re_status :: action_status
  re_summary :: string
  re_lease_token :: string

text \<open>The response shows the row without the hash of its lease token.\<close>

definition response_action_payload :: "action_row \<Rightarrow> action_row" where
  "response_action_payload a = a\<lparr>ac_lease_hash := None\<rparr>"

section \<open>Validation\<close>

definition unscoped_response_actions :: "approval_action list" where
  "unscoped_response_actions = [CollectRemediationEvidence]"

definition lease_seconds :: int where
  "lease_seconds = 120"

definition parse_declared_capabilities :: "endpoint_row \<Rightarrow> string list" where
  "parse_declared_capabilities e = (case ep_capabilities e of None \<Rightarrow> [] | Some xs \<Rightarrow> xs)"

definition declares_action_capability :: "string list \<Rightarrow> approval_action \<Rightarrow> string option \<Rightarrow> bool" where
  "declares_action_capability declared action control_id =
     (if approval_action_value action \<in> set declared then True
      else case control_id of
        None \<Rightarrow> False
      | Some c \<Rightarrow> approval_action_value action @ '':'' @ c \<in> set declared)"

definition normalize_action_shape ::
  "approval_action \<Rightarrow> string option \<Rightarrow> ts_scope option \<Rightarrow> (approval_action \<times> string option \<times> ts_scope option) result" where
  "normalize_action_shape action raw_control_id scope =
     andThen (normalize_optional_string raw_control_id ''control_id'') (\<lambda>control_id.
       if action \<in> set hardening_actions then
         if \<not> truthy control_id then Inl (unprocessable ''hardening actions require control_id'')
         else if scope \<noteq> None then Inl (unprocessable ''hardening actions must not include troubleshooting_scope'')
         else Inr (action, control_id, None)
       else if action \<in> set unscoped_response_actions then
         if truthy control_id then Inl (unprocessable ''unscoped response actions must not include control_id'')
         else if scope \<noteq> None
         then Inl (unprocessable ''unscoped response actions must not include troubleshooting_scope'')
         else Inr (action, None, None)
       else if truthy control_id then Inl (unprocessable ''troubleshooting actions must not include control_id'')
       else if scope = None then Inl (unprocessable ''troubleshooting actions require troubleshooting_scope'')
       else Inr (action, None, scope))"

definition same_action_request ::
  "action_row \<Rightarrow> string \<Rightarrow> approval_action \<Rightarrow> string option \<Rightarrow> ts_scope option \<Rightarrow> string \<Rightarrow> string \<Rightarrow> bool" where
  "same_action_request existing grant_id action control_id scope requested_by reason \<longleftrightarrow>
     ac_grant existing = grant_id \<and> ac_action existing = action \<and> ac_control existing = control_id \<and>
     ac_scope existing = scope \<and> ac_requested_by existing = requested_by \<and> ac_reason existing = reason"

definition validate_grant_scope ::
  "grant_row \<Rightarrow> string \<Rightarrow> approval_action \<Rightarrow> string option \<Rightarrow> ts_scope option \<Rightarrow> string \<Rightarrow> unit result" where
  "validate_grant_scope g endpoint_id action control_id scope now_str =
     (if gr_status g \<noteq> GrantApproved \<or> gr_expires_at g \<le> now_str
      then Inl (conflict ''approval grant is not active'')
      else if endpoint_id \<notin> set (gr_endpoint_ids g)
      then Inl (unprocessable ''approval grant does not include endpoint_id'')
      else if action \<notin> set (gr_actions g) then Inl (unprocessable ''approval grant does not allow action'')
      else if (case control_id of Some c \<Rightarrow> c \<notin> set (gr_control_ids g) | None \<Rightarrow> False)
      then Inl (unprocessable ''approval grant does not include control_id'')
      else if (case scope of Some s \<Rightarrow> s \<notin> set (gr_scopes g) | None \<Rightarrow> False)
      then Inl (unprocessable ''approval grant does not include troubleshooting_scope'')
      else Inr ())"

section \<open>Creating an action\<close>

definition not_found :: "string \<Rightarrow> py_error" where
  "not_found detail = HTTPException 404 detail"

text \<open>\<open>select(Endpoint).where(endpoint_id = ..., scope_clause(...))\<close>.\<close>

definition visible_endpoint :: "principal \<Rightarrow> string \<Rightarrow> string \<Rightarrow> db \<Rightarrow> endpoint_row option" where
  "visible_endpoint p permission endpoint_id db =
     List.find (\<lambda>e. ep_id e = endpoint_id \<and>
         where_clause (scope_clause p permission) (Some (ep_client e)) (Some (ep_location e))) (db_endpoints db)"

definition action_with_key :: "string \<Rightarrow> string \<Rightarrow> db \<Rightarrow> action_row option" where
  "action_with_key endpoint_id idempotency_key db =
     List.find (\<lambda>a. ac_endpoint a = endpoint_id \<and> ac_idempotency a = idempotency_key) (db_actions db)"

definition key_taken :: py_error where
  "key_taken = conflict ''idempotency_key is already bound to a different response action''"

definition grant_for_endpoint :: "string \<Rightarrow> endpoint_row \<Rightarrow> db \<Rightarrow> grant_row option" where
  "grant_for_endpoint grant_id e db =
     List.find (\<lambda>g. gr_id g = grant_id \<and> gr_scope_state g = ScopeActive \<and> gr_client g = Some (ep_client e) \<and>
         (gr_location g = None \<or> gr_location g = Some (ep_location e))) (db_grants db)"

definition new_action ::
  "string \<Rightarrow> string \<Rightarrow> string \<Rightarrow> approval_action \<Rightarrow> string option \<Rightarrow> ts_scope option \<Rightarrow> string \<Rightarrow> string \<Rightarrow> string \<Rightarrow>
   string \<Rightarrow> action_row" where
  "new_action u endpoint_id grant_id action control_id scope idempotency_key requested_by reason now_str =
     \<lparr>ac_id = generate_prefixed_id ''act'' u, ac_endpoint = endpoint_id, ac_grant = grant_id, ac_action = action,
      ac_control = control_id, ac_scope = scope, ac_idempotency = idempotency_key, ac_requested_by = requested_by,
      ac_reason = reason, ac_status = Queued, ac_lease_hash = None, ac_lease_expires_at = None,
      ac_leased_at = None, ac_attempts = 0, ac_summary = None, ac_created_at = now_str,
      ac_updated_at = now_str, ac_completed_at = None\<rparr>"

text \<open>The transaction after the payload has been normalised; \<open>n\<close> ids have been drawn.\<close>

definition store_response_action ::
  "pack list \<Rightarrow> (nat \<Rightarrow> string) \<Rightarrow> nat \<Rightarrow> string \<Rightarrow> principal \<Rightarrow> string \<Rightarrow> string \<Rightarrow> approval_action \<Rightarrow> string option \<Rightarrow>
   ts_scope option \<Rightarrow> string \<Rightarrow> string \<Rightarrow> db \<Rightarrow> (db \<times> action_row) result" where
  "store_response_action packs draw n now_str p endpoint_id grant_id action control_id scope reason idempotency_key db =
     (case visible_endpoint p ''response_action.create'' endpoint_id db of
        None \<Rightarrow> Inl (not_found ''endpoint not found'')
      | Some e \<Rightarrow>
        andThen (case control_id of
            Some c \<Rightarrow> if action \<in> set hardening_actions
              then andThen (value_error_to_422 (require_control_action packs c (ep_platform e)
                     (if action = ApplyControl then ActApply else ActRollback))) (\<lambda>_. Inr ())
              else Inr ()
          | None \<Rightarrow> Inr ()) (\<lambda>_.
        if \<not> declares_action_capability (parse_declared_capabilities e) action control_id
        then Inl (unprocessable ''endpoint has not declared action capability'')
        else case grant_for_endpoint grant_id e db of
          None \<Rightarrow> Inl (not_found ''approval grant not found'')
        | Some g \<Rightarrow>
          andThen (validate_grant_scope g endpoint_id action control_id scope now_str) (\<lambda>_.
          let requested_by = audit_actor p;
              replay = (\<lambda>existing. if same_action_request existing grant_id action control_id scope requested_by reason
                 then Inr (db, response_action_payload existing) else Inl key_taken)
          in case action_with_key endpoint_id idempotency_key db of
            Some existing \<Rightarrow> replay existing
          | None \<Rightarrow>
            let a = new_action (draw n) endpoint_id grant_id action control_id scope idempotency_key requested_by reason now_str
            in case insert_action a db of
              Inl _ \<Rightarrow> (case action_with_key endpoint_id idempotency_key db of
                  Some existing \<Rightarrow> replay existing | None \<Rightarrow> Inl key_taken)
            | Inr db \<Rightarrow>
              andThen (record_audit_event (draw (n + 1)) now_str
                ((audit_call_of ''response_action_created'')\<lparr>ax_principal := Some p, ax_client := Some (ep_client e),
                   ax_location := Some (ep_location e), ax_endpoint := Some (ep_id e),
                   ax_target_type := Some ''response_action'', ax_target_id := Some (ac_id a),
                   ax_metadata := [(''action'', JStr (approval_action_value action))],
                   ax_created_at := Some now_str\<rparr>) db) (\<lambda>db.
              Inr (db, response_action_payload a)))))"

definition create_response_action ::
  "pack list \<Rightarrow> (nat \<Rightarrow> string) \<Rightarrow> nat \<Rightarrow> principal \<Rightarrow> response_action_in \<Rightarrow> db \<Rightarrow> db \<times> action_row result" where
  "create_response_action packs draw now p payload db = transaction db (
     andThen (require_permission ''response_action.create'' p) (\<lambda>p.
     andThen (normalize_endpoint_id (ci_endpoint_id payload)) (\<lambda>endpoint_id.
     andThen (normalize_required_string (ci_grant_id payload) ''approval_grant_id'') (\<lambda>grant_id.
     andThen (normalize_action_shape (ci_action payload) (ci_control_id payload) (ci_scope payload))
       (\<lambda>(action, control_id, scope).
     andThen (normalize_required_string (ci_reason payload) ''reason'') (\<lambda>reason.
     andThen (case ci_idempotency payload of
         Some k \<Rightarrow> andThen (normalize_required_string k ''idempotency_key'') (\<lambda>k. Inr (k, draw))
       | None \<Rightarrow> Inr (generate_prefixed_id ''idem'' (draw 0), \<lambda>k. draw (Suc k))) (\<lambda>(idempotency_key, draw).
     let now_str = strftime_z now; (n, db) = sync_expired_grants draw now_str db
     in store_response_action packs draw n now_str p endpoint_id grant_id action control_id scope reason
          idempotency_key db)))))))"

section \<open>Claiming\<close>

definition claimable :: "string \<Rightarrow> action_row \<Rightarrow> bool" where
  "claimable now_str a \<longleftrightarrow> ac_status a = Queued \<or>
     ac_status a = Leased \<and> (case ac_lease_expires_at a of Some e \<Rightarrow> e \<le> now_str | None \<Rightarrow> False)"

text \<open>The join with the grant of the action, restricted to active grants.\<close>

definition under_active_grant :: "string \<Rightarrow> db \<Rightarrow> action_row \<Rightarrow> bool" where
  "under_active_grant now_str db a =
     (case fetch gr_id (ac_grant a) (db_grants db) of
        Some g \<Rightarrow> gr_status g = GrantApproved \<and> now_str < gr_expires_at g
      | None \<Rightarrow> False)"

definition claim_candidates :: "string \<Rightarrow> string \<Rightarrow> db \<Rightarrow> action_row list" where
  "claim_candidates now_str endpoint_id db =
     order_by (\<lambda>a. (ac_created_at a, ac_id a))
       (filter (\<lambda>a. ac_endpoint a = endpoint_id \<and> claimable now_str a \<and> under_active_grant now_str db a) (db_actions db))"

definition lease_action :: "string \<Rightarrow> string \<Rightarrow> string \<Rightarrow> action_row \<Rightarrow> action_row" where
  "lease_action token_hash expires now_str a =
     a\<lparr>ac_status := Leased, ac_lease_hash := Some token_hash, ac_lease_expires_at := Some expires,
       ac_leased_at := Some now_str, ac_attempts := ac_attempts a + 1, ac_updated_at := now_str\<rparr>"

definition enforce_agent_endpoint :: "principal \<Rightarrow> string \<Rightarrow> db \<Rightarrow> endpoint_row result" where
  "enforce_agent_endpoint p endpoint_id db =
     (case fetch ep_id endpoint_id (db_endpoints db) of
        None \<Rightarrow> Inl (not_found ''endpoint not found'')
      | Some e \<Rightarrow> andThen (enforce_endpoint_credential_mode p (ep_mode e)) (\<lambda>_.
          if ep_status e = EpPending then Inl (forbidden ''endpoint approval is pending'') else Inr e))"

definition lease_token_hash :: "(nat list \<Rightarrow> nat list) \<Rightarrow> string \<Rightarrow> string" where
  "lease_token_hash sha token = hexdigest (sha (utf8 token))"

definition claim_endpoint_response_action ::
  "(nat list \<Rightarrow> nat list) \<Rightarrow> nat list \<Rightarrow> (nat \<Rightarrow> string) \<Rightarrow> nat \<Rightarrow> principal \<Rightarrow> string \<Rightarrow> db \<Rightarrow>
   db \<times> (action_row \<times> string) list result" where
  "claim_endpoint_response_action sha raw draw now p raw_endpoint_id db = transaction db (
     andThen (normalize_endpoint_id raw_endpoint_id) (\<lambda>endpoint_id.
     andThen (enforce_device_endpoint p endpoint_id) (\<lambda>_.
     andThen (add_seconds now lease_seconds) (\<lambda>expires.
     let now_str = strftime_z now; lease_expires_at = strftime_z expires; token = token_urlsafe raw;
         token_hash = lease_token_hash sha token; (n, db) = sync_expired_grants draw now_str db
     in andThen (enforce_agent_endpoint p endpoint_id db) (\<lambda>_.
        case claim_candidates now_str endpoint_id db of
          [] \<Rightarrow> Inr (db, [])
        | candidate # _ \<Rightarrow>
            let P = (\<lambda>a. ac_id a = ac_id candidate \<and> ac_endpoint a = endpoint_id \<and> claimable now_str a);
                actions = update_where P (lease_action token_hash lease_expires_at now_str) (db_actions db)
            in (case List.find P (db_actions db) of
                  None \<Rightarrow> Inr (db\<lparr>db_actions := actions\<rparr>, [])
                | Some a \<Rightarrow> Inr (db\<lparr>db_actions := actions\<rparr>,
                    [(response_action_payload (lease_action token_hash lease_expires_at now_str a), token)])))))))"

section \<open>Listing\<close>

definition list_endpoint_response_actions ::
  "(nat \<Rightarrow> string) \<Rightarrow> nat \<Rightarrow> principal \<Rightarrow> string \<Rightarrow> bool \<Rightarrow> db \<Rightarrow> db \<times> action_row list result" where
  "list_endpoint_response_actions draw now p raw_endpoint_id include_terminal db =
     (case andThen (require_permission ''response_action.read'' p) (\<lambda>p.
           andThen (normalize_endpoint_id raw_endpoint_id) (\<lambda>endpoint_id. Inr (p, endpoint_id))) of
        Inl e \<Rightarrow> (db, Inl e)
      | Inr (p, endpoint_id) \<Rightarrow>
          let now_str = strftime_z now; (n, db) = sync_expired_grants draw now_str db
          in (db, if visible_endpoint p ''response_action.read'' endpoint_id db = None
                  then Inl (not_found ''endpoint not found'')
                  else Inr (map response_action_payload (order_by (\<lambda>a. (ac_created_at a, ac_id a))
                    (filter (\<lambda>a. ac_endpoint a = endpoint_id \<and> (include_terminal \<or>
                        ac_status a \<in> {Queued, Leased} \<and> under_active_grant now_str db a)) (db_actions db))))))"

section \<open>Reporting the result\<close>

definition complete_response_action ::
  "(nat list \<Rightarrow> nat list) \<Rightarrow> (nat \<Rightarrow> string) \<Rightarrow> nat \<Rightarrow> principal \<Rightarrow> string \<Rightarrow> action_result_in \<Rightarrow> db \<Rightarrow> db \<times> action_row result" where
  "complete_response_action sha draw now p raw_action_id payload db = transaction db (
     andThen (normalize_required_string raw_action_id ''response_action_id'') (\<lambda>action_id.
     if re_status payload \<notin> {Succeeded, Failed} then Inl (unprocessable ''result status must be succeeded or failed'')
     else andThen (normalize_required_string (re_summary payload) ''result_summary'') (\<lambda>summary.
     let now_str = strftime_z now; token_hash = lease_token_hash sha (re_lease_token payload)
     in case fetch ac_id action_id (db_actions db) of
       None \<Rightarrow> Inl (not_found ''response action not found'')
     | Some a \<Rightarrow>
       andThen (enforce_device_endpoint p (ac_endpoint a)) (\<lambda>_.
       andThen (enforce_agent_endpoint p (ac_endpoint a) db) (\<lambda>e.
       andThen (case ac_lease_hash a of
           None \<Rightarrow> Inr False | Some h \<Rightarrow> if h = [] then Inr False else compare_digest token_hash h) (\<lambda>lease_matches.
       if ac_status a \<in> {Succeeded, Failed} then
         if lease_matches \<and> ac_status a = re_status payload \<and> ac_summary a = Some summary
         then Inr (db, response_action_payload a)
         else Inl (conflict ''response action is already terminal'')
       else if ac_status a \<noteq> Leased then Inl (conflict ''response action does not have an active lease'')
       else if \<not> lease_matches then Inl (conflict ''response action lease does not match'')
       else if (case ac_lease_expires_at a of None \<Rightarrow> True | Some t \<Rightarrow> t \<le> now_str)
       then Inl (conflict ''response action lease has expired'')
       else
         let a' = a\<lparr>ac_status := re_status payload, ac_summary := Some summary, ac_updated_at := now_str,
               ac_completed_at := Some now_str\<rparr>;
             db = db\<lparr>db_actions := save ac_id a' (db_actions db)\<rparr>
         in andThen (record_audit_event (draw 0) now_str
              ((audit_call_of ''response_action_completed'')\<lparr>ax_principal := Some p, ax_client := Some (ep_client e),
                 ax_location := Some (ep_location e), ax_endpoint := Some (ep_id e),
                 ax_target_type := Some ''response_action'', ax_target_id := Some (ac_id a'),
                 ax_metadata := [(''status'', JStr (action_status_value (ac_status a')))],
                 ax_created_at := Some now_str\<rparr>) db) (\<lambda>db.
            Inr (db, response_action_payload a'))))))))"

end
