(* ===== verification/Action_Lifecycle.thy ===== *)
theory Action_Lifecycle
  imports Response_Actions Approval_Lifecycle
begin

text \<open>
  What response actions guarantee: the sweep that precedes every call expires exactly the due grants,
  every stored action lies inside its grant, and each action is an abstract job whose lease has one
  holder at a time.
\<close>

section \<open>The expiry sweep on grants\<close>

definition approval_tables_only :: "db \<Rightarrow> db \<Rightarrow> bool" where
  "approval_tables_only db db' \<longleftrightarrow>
     db'\<lparr>db_requests := db_requests db, db_grants := db_grants db, db_events := db_events db\<rparr> = db"

lemma approval_tables_only_refl [simp]: "approval_tables_only db db"
  by (simp add: approval_tables_only_def)

lemma approval_tables_only_eq [frame_simps]:
  assumes "approval_tables_only db db'"
  shows "db' = db\<lparr>db_requests := db_requests db', db_grants := db_grants db', db_events := db_events db'\<rparr>"
proof -
  have "db'\<lparr>db_requests := db_requests db, db_grants := db_grants db, db_events := db_events db\<rparr>
      \<lparr>db_requests := db_requests db', db_grants := db_grants db', db_events := db_events db'\<rparr> = db'" by simp
  then show ?thesis using assms unfolding approval_tables_only_def by metis
qed

lemma approval_tables_only_fields:
  assumes "approval_tables_only db db'"
  shows "db_actions db' = db_actions db" "db_endpoints db' = db_endpoints db" "db_clients db' = db_clients db"
    "db_locations db' = db_locations db" "db_audits db' = db_audits db" "db_users db' = db_users db"
  by (subst approval_tables_only_eq[OF assms]; simp)+

lemma approval_tables_only_trans:
  assumes "approval_tables_only db db1" and "approval_tables_only db1 db2"
  shows "approval_tables_only db db2"
  unfolding approval_tables_only_def
  by (subst approval_tables_only_eq[OF assms(2)], subst approval_tables_only_eq[OF assms(1)]) simp

lemma expire_grant_effect:
  assumes "expire_grant draw t g (n, db) = (n', db')"
  shows "approval_tables_only db db' \<and>
    db_grants db' = (if t < gr_expires_at g then db_grants db else save gr_id (expire_grant_row t g) (db_grants db))"
  using assms
  by (auto simp: expire_grant_def expire_grant_row_def approval_tables_only_def Let_def insert_event_def
      split: if_splits option.splits sum.splits)

lemma update_sweeps_grant:
  assumes "unique_on gr_id rows" and "g \<in> set rows" and "gr_id g \<notin> gr_id ` set gs" and "gr_expires_at g \<le> t"
  shows "update_where (sweeps_grant gs t) (expire_grant_row t) (save gr_id (expire_grant_row t g) rows) =
    update_where (sweeps_grant (g # gs) t) (expire_grant_row t) rows"
proof -
  have "save gr_id (expire_grant_row t g) rows = map (\<lambda>x. if x = g then expire_grant_row t g else x) rows"
    by (rule save_as_map[OF assms(1,2)]) (simp add: expire_grant_row_def)
  then show ?thesis
    using assms(4) swept_row_notin[OF assms(3)] by (simp only:) (intro update_where_after; auto simp: sweeps_grant_def)
qed

lemma expire_fold_grants:
  assumes "unique_on gr_id (db_grants db)" and "\<forall>g\<in>set gs. g \<in> set (db_grants db)" and "distinct (map gr_id gs)"
    and "fold (expire_grant draw t) gs (n, db) = (n', db')"
  shows "approval_tables_only db db' \<and> db_grants db' = update_where (sweeps_grant gs t) (expire_grant_row t) (db_grants db)"
  using assms
proof (induction gs arbitrary: n db)
  case Nil
  then show ?case by (simp add: update_where_def sweeps_grant_def)
next
  case (Cons g gs)
  obtain n1 db1 where one: "expire_grant draw t g (n, db) = (n1, db1)" by fastforce
  note eff = expire_grant_effect[OF one]
  have notin: "gr_id g \<notin> gr_id ` set gs" and dist: "distinct (map gr_id gs)" using Cons.prems(3) by simp_all
  have run: "fold (expire_grant draw t) gs (n1, db1) = (n', db')" using Cons.prems(4) one by simp
  show ?case
  proof (cases "t < gr_expires_at g")
    case True
    then have same: "db_grants db1 = db_grants db" using eff by simp
    have "sweeps_grant (g # gs) t = sweeps_grant gs t" using True by (auto simp: sweeps_grant_def fun_eq_iff)
    then show ?thesis
      using Cons.IH[of db1 n1] Cons.prems(1,2) dist run same eff approval_tables_only_trans[of db db1 db'] by simp
  next
    case False
    then have g1: "db_grants db1 = save gr_id (expire_grant_row t g) (db_grants db)" using eff by simp
    have "\<forall>x\<in>set gs. x \<in> set (db_grants db1)"
      using Cons.prems(2) notin by (auto simp: g1 in_set_save expire_grant_row_def) (metis image_eqI)
    from Cons.IH[OF _ this dist run] Cons.prems(1) show ?thesis
      using update_sweeps_grant[OF Cons.prems(1) _ notin, of t] Cons.prems(2) False eff approval_tables_only_trans[of db db1 db']
      by (auto simp: g1 not_less)
  qed
qed

definition expiry_swept :: "string \<Rightarrow> grant_row list \<Rightarrow> grant_row list" where
  "expiry_swept t rows =
     update_where (\<lambda>g. gr_status g = GrantApproved \<and> gr_expires_at g \<le> t) (expire_grant_row t) rows"

lemma sync_expired_grants_effect:
  assumes "unique_on gr_id (db_grants db)" and "sync_expired_grants draw t db = (n, db')"
  shows "approval_tables_only db db' \<and> db_grants db' = expiry_swept t (db_grants db)"
proof -
  let ?gs = "order_by (\<lambda>g. (gr_created_at g, gr_id g)) (filter (\<lambda>g. gr_status g = GrantApproved) (db_grants db))"
  have dist: "distinct (map gr_id ?gs)"
    using assms(1) by (intro distinct_map_order_by) (simp add: unique_on_def distinct_map_filter)
  have run: "fold (expire_grant draw t) ?gs (0, db) = (n, db')" using assms(2) by (simp add: sync_expired_grants_def)
  have "update_where (sweeps_grant ?gs t) (expire_grant_row t) (db_grants db) = expiry_swept t (db_grants db)"
    unfolding expiry_swept_def by (rule update_where_cong) (auto simp: sweeps_grant_def)
  then show ?thesis using expire_fold_grants[OF assms(1) _ dist run] by auto
qed

text \<open>The sweep hides no active grant and keeps what a grant allows.\<close>

definition same_allowance :: "grant_row \<Rightarrow> grant_row \<Rightarrow> bool" where
  "same_allowance g g' \<longleftrightarrow> gr_id g' = gr_id g \<and> gr_client g' = gr_client g \<and> gr_location g' = gr_location g \<and>
     gr_endpoint_ids g' = gr_endpoint_ids g \<and> gr_actions g' = gr_actions g \<and>
     gr_control_ids g' = gr_control_ids g \<and> gr_scopes g' = gr_scopes g \<and> gr_expires_at g' = gr_expires_at g"

lemma same_allowance_refl [simp]: "same_allowance g g"
  by (simp add: same_allowance_def)

lemma fetch_expiry_swept:
  "fetch gr_id k (expiry_swept t rows) = map_option
     (\<lambda>g. if gr_status g = GrantApproved \<and> gr_expires_at g \<le> t then expire_grant_row t g else g) (fetch gr_id k rows)"
  unfolding expiry_swept_def by (rule fetch_update_where) (simp add: expire_grant_row_def)

lemma unique_expiry_swept [simp]: "unique_on gr_id (expiry_swept t rows) = unique_on gr_id rows"
  unfolding expiry_swept_def by (rule unique_on_update_where) (simp add: expire_grant_row_def)

lemma expiry_swept_twice [simp]: "expiry_swept t (expiry_swept t rows) = expiry_swept t rows"
  by (auto simp: expiry_swept_def update_where_def expire_grant_row_def)

lemma under_active_grant_sync:
  assumes "unique_on gr_id (db_grants db)" and "sync_expired_grants draw t db = (n, db')"
  shows "under_active_grant t db' a = under_active_grant t db a"
  using sync_expired_grants_effect[OF assms]
  by (auto simp: under_active_grant_def fetch_expiry_swept expire_grant_row_def split: option.splits)

lemma claim_candidates_sync:
  assumes "unique_on gr_id (db_grants db)" and "sync_expired_grants draw t db = (n, db')"
  shows "claim_candidates t endpoint_id db' = claim_candidates t endpoint_id db"
  using approval_tables_only_fields(1)[of db db'] sync_expired_grants_effect[OF assms] under_active_grant_sync[OF assms]
  by (simp add: claim_candidates_def)

section \<open>Creating an action\<close>

lemma insert_action_Inr [result_simps]:
  "insert_action a db = Inr db' \<longleftrightarrow> ac_id a \<notin> ac_id ` set (db_actions db) \<and>
     ac_endpoint a \<in> ep_id ` set (db_endpoints db) \<and> ac_grant a \<in> gr_id ` set (db_grants db) \<and>
     (ac_endpoint a, ac_idempotency a) \<notin> (\<lambda>x. (ac_endpoint x, ac_idempotency x)) ` set (db_actions db) \<and>
     db' = db\<lparr>db_actions := db_actions db @ [a]\<rparr>"
  unfolding insert_action_def fetch_None by auto

definition control_check :: "pack list \<Rightarrow> approval_action \<Rightarrow> string option \<Rightarrow> platform \<Rightarrow> bool" where
  "control_check packs action control_id p \<longleftrightarrow> (\<forall>c. control_id = Some c \<and> action \<in> set hardening_actions \<longrightarrow>
     (\<exists>rc. require_control_action packs c p (if action = ApplyControl then ActApply else ActRollback) = Inr rc))"

lemma value_error_to_422_Inr [simp]: "value_error_to_422 r = Inr x \<longleftrightarrow> r = Inr x"
  by (auto simp: value_error_to_422_def split: sum.splits py_error.splits)

text \<open>The two ways a creation ends: an earlier action is returned, or a new one is stored.\<close>

definition action_replayed :: "db \<Rightarrow> string \<Rightarrow> string \<Rightarrow> (action_row \<Rightarrow> bool) \<Rightarrow> db \<Rightarrow> action_row \<Rightarrow> bool" where
  "action_replayed db eid key same db' row \<longleftrightarrow>
     (\<exists>a. action_with_key eid key db = Some a \<and> same a \<and> db' = db \<and> row = response_action_payload a)"

definition action_stored :: "db \<Rightarrow> string \<Rightarrow> string \<Rightarrow> action_row \<Rightarrow> db \<Rightarrow> action_row \<Rightarrow> bool" where
  "action_stored db eid key a db' row \<longleftrightarrow> action_with_key eid key db = None \<and>
     insert_action a db = Inr (db\<lparr>db_actions := db_actions db @ [a]\<rparr>) \<and>
     (\<exists>u. db' = db\<lparr>db_actions := db_actions db @ [a], db_audits := db_audits db @ [u]\<rparr>) \<and>
     row = response_action_payload a"

lemma store_response_action_cases:
  assumes "store_response_action packs draw n now_str p eid gid action control scope reason key db = Inr (db', row)"
  obtains (checked) e g where "visible_endpoint p ''response_action.create'' eid db = Some e"
    "control_check packs action control (ep_platform e)"
    "declares_action_capability (parse_declared_capabilities e) action control"
    "grant_for_endpoint gid e db = Some g" "validate_grant_scope g eid action control scope now_str = Inr ()"
    "action_replayed db eid key (\<lambda>a. same_action_request a gid action control scope (audit_actor p) reason) db' row \<or>
     action_stored db eid key (new_action (draw n) eid gid action control scope key (audit_actor p) reason now_str) db' row"
proof -
  note run = assms[unfolded store_response_action_def Let_def]
  obtain e where e: "visible_endpoint p ''response_action.create'' eid db = Some e"
    using run by (cases "visible_endpoint p ''response_action.create'' eid db") auto
  have ctl: "control_check packs action control (ep_platform e)"
    using run e by (auto simp: control_check_def andThen_eq_Inr split: option.splits if_splits)
  have decl: "declares_action_capability (parse_declared_capabilities e) action control"
    using run e by (auto simp: andThen_eq_Inr split: if_splits)
  obtain g where g: "grant_for_endpoint gid e db = Some g"
    using run e decl by (cases "grant_for_endpoint gid e db") (auto simp: andThen_eq_Inr)
  have ok: "validate_grant_scope g eid action control scope now_str = Inr ()"
    using run e decl g by (auto simp: andThen_eq_Inr)
  define a where "a = new_action (draw n) eid gid action control scope key (audit_actor p) reason now_str"
  have "action_replayed db eid key (\<lambda>a. same_action_request a gid action control scope (audit_actor p) reason) db' row \<or>
     action_stored db eid key a db' row"
  proof (cases "action_with_key eid key db")
    case (Some x)
    then show ?thesis using run e decl g ok by (auto simp: action_replayed_def andThen_eq_Inr split: if_splits)
  next
    case None
    obtain db1 where ins: "insert_action a db = Inr db1"
      using run e decl g ok None by (cases "insert_action a db") (auto simp: andThen_eq_Inr a_def)
    then have db1: "db1 = db\<lparr>db_actions := db_actions db @ [a]\<rparr>" by (simp add: insert_action_Inr)
    obtain u x where au: "record_audit_event u now_str x db1 = Inr db'" and row: "row = response_action_payload a"
      using run e decl g ok None ins by (auto simp: andThen_eq_Inr a_def)
    have "db' = db\<lparr>db_actions := db_actions db @ [a], db_audits := db_audits db @ [audit_event u now_str x]\<rparr>"
      using record_audit_Inr[OF au] unfolding db1 by simp
    then show ?thesis using None ins db1 row by (auto simp: action_stored_def)
  qed
  then show ?thesis unfolding a_def by (rule checked[OF e ctl decl g ok])
qed

text \<open>A successful call of the whole handler.\<close>

definition action_key :: "(nat \<Rightarrow> string) \<Rightarrow> response_action_in \<Rightarrow> (string \<times> (nat \<Rightarrow> string)) result" where
  "action_key draw payload = (case ci_idempotency payload of
     Some k \<Rightarrow> andThen (normalize_required_string k ''idempotency_key'') (\<lambda>k. Inr (k, draw))
   | None \<Rightarrow> Inr (generate_prefixed_id ''idem'' (draw 0), \<lambda>k. draw (Suc k)))"

lemma create_response_action_cases:
  assumes "create_response_action packs draw now p payload db = (db', Inr row)"
  obtains (checked) gid action control scope reason key draw' n db1 e g where
    "has_permission p ''response_action.create''" "p_role p \<notin> {Agent, Enrollment}"
    "normalize_action_shape (ci_action payload) (ci_control_id payload) (ci_scope payload) = Inr (action, control, scope)"
    "normalize_required_string (ci_grant_id payload) ''approval_grant_id'' = Inr gid"
    "normalize_required_string (ci_reason payload) ''reason'' = Inr reason"
    "action_key draw payload = Inr (key, draw')"
    "sync_expired_grants draw' (strftime_z now) db = (n, db1)"
    "normalize_endpoint_id (ci_endpoint_id payload) = Inr (ep_id e)"
    "visible_endpoint p ''response_action.create'' (ep_id e) db1 = Some e"
    "control_check packs action control (ep_platform e)"
    "declares_action_capability (parse_declared_capabilities e) action control"
    "grant_for_endpoint gid e db1 = Some g" "validate_grant_scope g (ep_id e) action control scope (strftime_z now) = Inr ()"
    "action_replayed db1 (ep_id e) key (\<lambda>a. same_action_request a gid action control scope (audit_actor p) reason) db' row \<or>
     action_stored db1 (ep_id e) key
       (new_action (draw' n) (ep_id e) gid action control scope key (audit_actor p) reason (strftime_z now)) db' row"
proof -
  note run = assms[unfolded create_response_action_def transaction_Inr andThen_eq_Inr Let_def, folded action_key_def]
  have p: "has_permission p ''response_action.create''" "p_role p \<notin> {Agent, Enrollment}"
    and perm: "require_permission ''response_action.create'' p = Inr q \<longleftrightarrow> q = p" for q
    using run by (auto simp: require_permission_def split: if_splits)
  obtain eid gid sh where 1: "normalize_endpoint_id (ci_endpoint_id payload) = Inr eid"
    "normalize_required_string (ci_grant_id payload) ''approval_grant_id'' = Inr gid"
    "normalize_action_shape (ci_action payload) (ci_control_id payload) (ci_scope payload) = Inr sh"
    using run by blast
  obtain action control scope where sh: "sh = (action, control, scope)" by (cases sh) auto
  obtain reason kd where 2: "normalize_required_string (ci_reason payload) ''reason'' = Inr reason"
    "action_key draw payload = Inr kd"
    using run 1 unfolding sh by (auto simp: andThen_eq_Inr)
  obtain key draw' where kd: "kd = (key, draw')" by (cases kd) auto
  obtain n db1 where sync: "sync_expired_grants draw' (strftime_z now) db = (n, db1)" by fastforce
  have "store_response_action packs draw' n (strftime_z now) p eid gid action control scope reason key db1 = Inr (db', row)"
    using run 1 2 by (auto simp: perm sh kd sync andThen_eq_Inr)
  then show ?thesis
  proof (cases rule: store_response_action_cases)
    case (checked e g)
    then have "ep_id e = eid" by (auto simp: visible_endpoint_def dest: find_eq_Some_first)
    with checked p 1 2 sync show ?thesis
      unfolding sh kd by (intro that[of action control scope gid reason key draw' n db1 e g]) simp_all
  qed
qed

section \<open>Claiming and completing\<close>

definition leased_row :: "(nat list \<Rightarrow> nat list) \<Rightarrow> nat list \<Rightarrow> nat \<Rightarrow> action_row \<Rightarrow> action_row" where
  "leased_row sha raw now a =
     lease_action (lease_token_hash sha (token_urlsafe raw)) (strftime_z (now + 120)) (strftime_z now) a"

lemma leased_row_fields [simp]:
  "ac_id (leased_row sha raw now a) = ac_id a" "ac_endpoint (leased_row sha raw now a) = ac_endpoint a"
  "ac_grant (leased_row sha raw now a) = ac_grant a" "ac_created_at (leased_row sha raw now a) = ac_created_at a"
  "ac_status (leased_row sha raw now a) = Leased"
  by (simp_all add: leased_row_def lease_action_def)

text \<open>When an agent may act for an endpoint at all.\<close>

definition agent_admitted :: "principal \<Rightarrow> string \<Rightarrow> db \<Rightarrow> bool" where
  "agent_admitted p eid db \<longleftrightarrow> enforce_device_endpoint p eid = Inr () \<and> (\<exists>e. enforce_agent_endpoint p eid db = Inr e)"

lemma enforce_agent_endpoint_cong:
  "db_endpoints db' = db_endpoints db \<Longrightarrow> enforce_agent_endpoint p eid db' = enforce_agent_endpoint p eid db"
  by (simp add: enforce_agent_endpoint_def)

lemma claim_candidatesD:
  "a \<in> set (claim_candidates t eid db) \<Longrightarrow>
     a \<in> set (db_actions db) \<and> ac_endpoint a = eid \<and> claimable t a \<and> under_active_grant t db a"
  by (simp add: claim_candidates_def)

lemma find_unique:
  assumes "unique_on key rows" and "a \<in> set rows" and "P a" and "\<And>x. x \<in> set rows \<Longrightarrow> P x \<Longrightarrow> key x = key a"
  shows "List.find P rows = Some a"
proof (cases "List.find P rows")
  case None
  then show ?thesis using assms(2,3) by (auto simp: find_None_iff)
next
  case (Some x)
  then show ?thesis using assms unique_onD find_eq_Some_first by metis
qed

text \<open>The handler as one equation: what a claim does to the database.\<close>

lemma claim_eq:
  assumes "unique_on gr_id (db_grants db)" and "unique_on ac_id (db_actions db)"
    and "normalize_endpoint_id raw_id = Inr eid" and "agent_admitted p eid db" and "now + 120 < datetime_end"
    and sync: "sync_expired_grants draw (strftime_z now) db = (n, db1)"
  shows "claim_endpoint_response_action sha raw draw now p raw_id db =
    (case claim_candidates (strftime_z now) eid db of
       [] \<Rightarrow> (db1, Inr [])
     | a # _ \<Rightarrow> (db1\<lparr>db_actions := save ac_id (leased_row sha raw now a) (db_actions db)\<rparr>,
         Inr [(response_action_payload (leased_row sha raw now a), token_urlsafe raw)]))"
proof -
  let ?t = "strftime_z now"
  have eff: "approval_tables_only db db1" using sync_expired_grants_effect[OF assms(1) sync] by simp
  note same = approval_tables_only_fields[OF eff]
  have add: "add_seconds now lease_seconds = Inr (now + 120)"
    using assms(5) by (simp add: add_seconds_Inr lease_seconds_def)
  obtain e where dev: "enforce_device_endpoint p eid = Inr ()" and agent: "enforce_agent_endpoint p eid db1 = Inr e"
    using assms(4) enforce_agent_endpoint_cong[OF same(2)] by (auto simp: agent_admitted_def)
  note cand = claim_candidates_sync[OF assms(1) sync]
  show ?thesis
  proof (cases "claim_candidates ?t eid db")
    case Nil
    then show ?thesis
      unfolding claim_endpoint_response_action_def by (simp add: assms(3) dev add sync agent cand)
  next
    case (Cons a rest)
    then have a: "a \<in> set (db_actions db)" "ac_endpoint a = eid" "claimable ?t a"
      using claim_candidatesD[of a ?t eid db] by simp_all
    let ?P = "\<lambda>x. ac_id x = ac_id a \<and> ac_endpoint x = eid \<and> claimable ?t x"
    have find: "List.find ?P (db_actions db) = Some a" by (rule find_unique[OF assms(2) a(1)]) (use a in auto)
    have upd: "update_where ?P (lease_action h x y) (db_actions db) = save ac_id (lease_action h x y a) (db_actions db)" for h x y
      by (rule update_where_save[OF assms(2) a(1)]) (use a in \<open>auto simp: lease_action_def\<close>)
    show ?thesis
      unfolding claim_endpoint_response_action_def
      by (simp add: assms(3) dev add sync agent cand Cons Let_def same(1) find upd leased_row_def)
  qed
qed

text \<open>A claim that succeeds passed all the checks.\<close>

lemma claim_InrD:
  assumes "claim_endpoint_response_action sha raw draw now p raw_id db = (db', Inr items)"
    and "unique_on gr_id (db_grants db)"
  obtains eid n db1 where "normalize_endpoint_id raw_id = Inr eid" "agent_admitted p eid db" "now + 120 < datetime_end"
    "sync_expired_grants draw (strftime_z now) db = (n, db1)"
proof -
  obtain n db1 where sync: "sync_expired_grants draw (strftime_z now) db = (n, db1)" by fastforce
  have "db_endpoints db1 = db_endpoints db"
    using sync_expired_grants_effect[OF assms(2) sync] approval_tables_only_fields(2) by blast
  note cong = enforce_agent_endpoint_cong[OF this]
  obtain eid expires where 1: "normalize_endpoint_id raw_id = Inr eid" "enforce_device_endpoint p eid = Inr ()"
    "add_seconds now lease_seconds = Inr expires"
    using assms(1) by (auto simp: claim_endpoint_response_action_def transaction_Inr andThen_eq_Inr)
  have "\<exists>e. enforce_agent_endpoint p eid db1 = Inr e"
    using assms(1) 1 by (auto simp: claim_endpoint_response_action_def transaction_Inr andThen_eq_Inr Let_def sync)
  then have "agent_admitted p eid db" using 1(2) by (simp add: agent_admitted_def cong)
  moreover have "now + 120 < datetime_end" using 1(3) by (auto simp: add_seconds_Inr lease_seconds_def)
  ultimately show ?thesis using that 1(1) sync by blast
qed

lemma complete_cases:
  assumes "complete_response_action sha draw now p raw_id payload db = (db', Inr row)"
  obtains (replay) a where "fetch ac_id (strip raw_id) (db_actions db) = Some a" "agent_admitted p (ac_endpoint a) db"
      "ac_status a = re_status payload" "ac_summary a = Some (strip (re_summary payload))" "re_status payload \<in> {Succeeded, Failed}"
      "ac_lease_hash a = Some (lease_token_hash sha (re_lease_token payload))" "db' = db" "row = response_action_payload a"
    | (finish) a e u where "fetch ac_id (strip raw_id) (db_actions db) = Some a" "agent_admitted p (ac_endpoint a) db"
      "ac_status a = Leased" "re_status payload \<in> {Succeeded, Failed}" "strip (re_summary payload) \<noteq> []"
      "ac_lease_hash a = Some (lease_token_hash sha (re_lease_token payload))"
      "ac_lease_expires_at a = Some e" "strftime_z now < e"
      "db' = db\<lparr>db_actions := save ac_id (a\<lparr>ac_status := re_status payload, ac_summary := Some (strip (re_summary payload)),
          ac_updated_at := strftime_z now, ac_completed_at := Some (strftime_z now)\<rparr>) (db_actions db),
        db_audits := db_audits db @ [u]\<rparr>"
      "row = response_action_payload (a\<lparr>ac_status := re_status payload, ac_summary := Some (strip (re_summary payload)),
          ac_updated_at := strftime_z now, ac_completed_at := Some (strftime_z now)\<rparr>)"
proof -
  note run = assms[unfolded complete_response_action_def transaction_Inr andThen_eq_Inr Let_def]
  have ids: "strip raw_id \<noteq> []" "strip (re_summary payload) \<noteq> []" and st: "re_status payload \<in> {Succeeded, Failed}"
    using run by (auto simp: normalize_required_string_def trim_required_def andThen_eq_Inr Let_def split: if_splits)
  obtain a where a: "fetch ac_id (strip raw_id) (db_actions db) = Some a"
    using run ids st by (cases "fetch ac_id (strip raw_id) (db_actions db)")
      (auto simp: normalize_required_string_def trim_required_def andThen_eq_Inr Let_def split: if_splits)
  obtain e m where adm: "enforce_device_endpoint p (ac_endpoint a) = Inr ()" "enforce_agent_endpoint p (ac_endpoint a) db = Inr e"
    and m: "(case ac_lease_hash a of None \<Rightarrow> Inr False
      | Some h \<Rightarrow> if h = [] then Inr False else compare_digest (lease_token_hash sha (re_lease_token payload)) h) = Inr m"
    using run ids st a
    by (auto simp: normalize_required_string_def trim_required_def andThen_eq_Inr Let_def split: if_splits)
  have admitted: "agent_admitted p (ac_endpoint a) db" using adm by (auto simp: agent_admitted_def)
  have hash: "m \<Longrightarrow> ac_lease_hash a = Some (lease_token_hash sha (re_lease_token payload))"
    using m by (auto split: option.splits if_splits)
  note body = run[unfolded normalize_required_string_def trim_required_def Let_def, simplified ids if_False]
  show ?thesis
  proof (cases "ac_status a \<in> {Succeeded, Failed}")
    case True
    then have "m" "ac_status a = re_status payload" "ac_summary a = Some (strip (re_summary payload))" "db' = db"
      "row = response_action_payload a"
      using body st a adm m by (auto simp: andThen_eq_Inr split: if_splits)
    then show ?thesis using replay a admitted st hash by blast
  next
    case False
    then have leased: "ac_status a = Leased" "m"
      using body st a adm m by (auto simp: andThen_eq_Inr split: if_splits)
    obtain t where t: "ac_lease_expires_at a = Some t" "strftime_z now < t"
      using body st a adm m False leased by (cases "ac_lease_expires_at a") (auto simp: andThen_eq_Inr not_le split: if_splits)
    define a' where "a' = a\<lparr>ac_status := re_status payload, ac_summary := Some (strip (re_summary payload)),
          ac_updated_at := strftime_z now, ac_completed_at := Some (strftime_z now)\<rparr>"
    obtain x where au: "record_audit_event (draw 0) (strftime_z now) x (db\<lparr>db_actions := save ac_id a' (db_actions db)\<rparr>) = Inr db'"
      and row: "row = response_action_payload a'"
      using body st a adm m False leased t by (auto simp: andThen_eq_Inr a'_def split: if_splits)
    have "db' = db\<lparr>db_actions := save ac_id a' (db_actions db), db_audits := db_audits db @ [audit_event (draw 0) (strftime_z now) x]\<rparr>"
      using record_audit_Inr[OF au] by simp
    then show ?thesis
      by (intro finish[OF a admitted leased(1) st ids(2) hash[OF leased(2)] t]) (simp_all add: a'_def row)
  qed
qed

section \<open>Jobs: the abstract life of an action\<close>

text \<open>
  A job waits, is held under a token hash until a deadline, and ends with a result reported under
  that hash.  A new holder needs the deadline to have passed, a result needs it not to have.
\<close>

datatype job = Waiting | Held string string | Done action_status string string | Withdrawn

inductive job_step :: "string \<Rightarrow> job \<Rightarrow> job \<Rightarrow> bool" for now :: string where
  grab: "job_step now Waiting (Held h e)"
| regrab: "e \<le> now \<Longrightarrow> job_step now (Held h e) (Held h' e')"
| finish: "now < e \<Longrightarrow> s \<in> {Succeeded, Failed} \<Longrightarrow> job_step now (Held h e) (Done s h m)"

inductive_cases job_step_heldE: "job_step now (Held h e) j"
inductive_cases job_step_doneE: "job_step now (Done s h m) j"
inductive_cases job_step_withdrawnE: "job_step now Withdrawn j"
inductive_simps job_step_waiting: "job_step now Waiting j"

definition job_of :: "action_row \<Rightarrow> job" where
  "job_of a = (case ac_status a of
     Queued \<Rightarrow> Waiting
   | Leased \<Rightarrow> Held (the (ac_lease_hash a)) (the (ac_lease_expires_at a))
   | Cancelled \<Rightarrow> Withdrawn
   | s \<Rightarrow> Done s (the (ac_lease_hash a)) (the (ac_summary a)))"

definition same_order :: "action_row \<Rightarrow> action_row \<Rightarrow> bool" where
  "same_order a a' \<longleftrightarrow> ac_id a' = ac_id a \<and> ac_endpoint a' = ac_endpoint a \<and> ac_grant a' = ac_grant a \<and>
     ac_action a' = ac_action a \<and> ac_control a' = ac_control a \<and> ac_scope a' = ac_scope a \<and>
     ac_idempotency a' = ac_idempotency a \<and> ac_requested_by a' = ac_requested_by a \<and> ac_reason a' = ac_reason a \<and>
     ac_created_at a' = ac_created_at a"

lemma same_order_refl [simp]: "same_order a a"
  by (simp add: same_order_def)

text \<open>What every stored row keeps: its columns agree with its status, and its lease lasts 120 seconds.\<close>

definition lease_ok :: "action_row \<Rightarrow> bool" where
  "lease_ok a \<longleftrightarrow> 1 \<le> ac_attempts a \<and> ac_lease_hash a \<noteq> None \<and>
     (\<exists>t. t + 120 < datetime_end \<and> ac_leased_at a = Some (strftime_z t) \<and> ac_lease_expires_at a = Some (strftime_z (t + 120)))"

definition status_ok :: "action_row \<Rightarrow> bool" where
  "status_ok a = (case ac_status a of
     Queued \<Rightarrow> ac_attempts a = 0 \<and> ac_lease_hash a = None \<and> ac_lease_expires_at a = None \<and> ac_leased_at a = None \<and>
       ac_summary a = None \<and> ac_completed_at a = None
   | Leased \<Rightarrow> lease_ok a \<and> ac_summary a = None \<and> ac_completed_at a = None
   | Cancelled \<Rightarrow> False
   | _ \<Rightarrow> lease_ok a \<and> ac_summary a \<noteq> None \<and> ac_summary a \<noteq> Some [] \<and> ac_completed_at a \<noteq> None)"

definition within_grant :: "grant_row \<Rightarrow> action_row \<Rightarrow> bool" where
  "within_grant g a \<longleftrightarrow> ac_grant a = gr_id g \<and> ac_endpoint a \<in> set (gr_endpoint_ids g) \<and> ac_action a \<in> set (gr_actions g) \<and>
     set_option (ac_control a) \<subseteq> set (gr_control_ids g) \<and> set_option (ac_scope a) \<subseteq> set (gr_scopes g)"

definition order_shape :: "action_row \<Rightarrow> bool" where
  "order_shape a \<longleftrightarrow> (ac_control a \<noteq> None \<longleftrightarrow> ac_action a \<in> {ApplyControl, RollbackControl}) \<and>
     (ac_scope a \<noteq> None \<longleftrightarrow> ac_action a \<notin> {ApplyControl, RollbackControl, CollectRemediationEvidence})"

definition actions_ok :: "db \<Rightarrow> bool" where
  "actions_ok db \<longleftrightarrow> unique_on ac_id (db_actions db) \<and> unique_on gr_id (db_grants db) \<and>
     unique_on (\<lambda>a. (ac_endpoint a, ac_idempotency a)) (db_actions db) \<and>
     (\<forall>a\<in>set (db_actions db). status_ok a \<and> order_shape a \<and> (\<exists>g\<in>set (db_grants db). within_grant g a))"

text \<open>Grants may change state but not what they allow.\<close>

definition grants_kept :: "db \<Rightarrow> db \<Rightarrow> bool" where
  "grants_kept db db' \<longleftrightarrow> (\<forall>g\<in>set (db_grants db). \<exists>g'\<in>set (db_grants db'). same_allowance g g')"

lemma grants_kept_refl [simp]: "grants_kept db db"
  unfolding grants_kept_def using same_allowance_refl by blast

lemma same_allowance_trans: "same_allowance g h \<Longrightarrow> same_allowance h k \<Longrightarrow> same_allowance g k"
  by (simp add: same_allowance_def)

lemma grants_kept_trans: "grants_kept a b \<Longrightarrow> grants_kept b c \<Longrightarrow> grants_kept a c"
  unfolding grants_kept_def using same_allowance_trans by meson

lemma within_grant_same: "same_allowance g g' \<Longrightarrow> within_grant g' a = within_grant g a"
  by (simp add: same_allowance_def within_grant_def)

lemma within_grant_order: "same_order a a' \<Longrightarrow> within_grant g a' = within_grant g a"
  by (simp add: same_order_def within_grant_def)

lemma grants_kept_update_where:
  assumes "db_grants db' = update_where P f (db_grants db)" and "\<And>g. P g \<Longrightarrow> same_allowance g (f g)"
  shows "grants_kept db db'"
  unfolding grants_kept_def
proof
  fix g assume "g \<in> set (db_grants db)"
  then have "(if P g then f g else g) \<in> set (db_grants db')" unfolding assms(1) in_set_update_where by blast
  moreover have "same_allowance g (if P g then f g else g)" using assms(2) by simp
  ultimately show "\<exists>g'\<in>set (db_grants db'). same_allowance g g'" by blast
qed

lemma grants_kept_swept: "db_grants db' = expiry_swept t (db_grants db) \<Longrightarrow> grants_kept db db'"
  unfolding expiry_swept_def
  by (erule grants_kept_update_where) (simp add: same_allowance_def expire_grant_row_def)

lemma actions_ok_grants:
  assumes "actions_ok db" and "db_actions db' = db_actions db" and "unique_on gr_id (db_grants db')" and "grants_kept db db'"
  shows "actions_ok db'"
  unfolding actions_ok_def
proof (intro conjI ballI)
  fix a assume a: "a \<in> set (db_actions db')"
  then obtain g where "g \<in> set (db_grants db)" "within_grant g a" using assms(1,2) by (auto simp: actions_ok_def)
  then show "\<exists>g\<in>set (db_grants db'). within_grant g a"
    using assms(4) within_grant_same unfolding grants_kept_def by blast
qed (use assms in \<open>simp_all add: actions_ok_def\<close>)

lemma actions_ok_sync:
  assumes "actions_ok db" and "sync_expired_grants draw t db = (n, db')"
  shows "actions_ok db'" and "db_actions db' = db_actions db" and "grants_kept db db'"
proof -
  have eff: "approval_tables_only db db'" "db_grants db' = expiry_swept t (db_grants db)"
    using assms sync_expired_grants_effect[of db draw t n db'] by (auto simp: actions_ok_def)
  show same: "db_actions db' = db_actions db" using approval_tables_only_fields[OF eff(1)] by simp
  show kept: "grants_kept db db'" using eff(2) by (rule grants_kept_swept)
  have "unique_on gr_id (db_grants db')" using assms(1) unfolding eff(2) unique_expiry_swept actions_ok_def by blast
  then show "actions_ok db'" by (rule actions_ok_grants[OF assms(1) same _ kept])
qed

lemma actions_ok_save:
  assumes "actions_ok db" and "a \<in> set (db_actions db)" and "same_order a a'" and "status_ok a'"
    and "db_actions db' = save ac_id a' (db_actions db)" and "db_grants db' = db_grants db"
  shows "actions_ok db'"
proof -
  have u: "unique_on ac_id (db_actions db)" using assms(1) by (simp add: actions_ok_def)
  have keys: "map (\<lambda>a. (ac_endpoint a, ac_idempotency a)) (save ac_id a' (db_actions db)) =
      map (\<lambda>a. (ac_endpoint a, ac_idempotency a)) (db_actions db)"
    by (rule map_save_same[OF u assms(2)]) (use assms(3) in \<open>simp_all add: same_order_def\<close>)
  have "status_ok x \<and> order_shape x \<and> (\<exists>g\<in>set (db_grants db). within_grant g x)" if "x \<in> set (db_actions db')" for x
  proof (cases "x = a'")
    case True
    have "order_shape a'" using assms(1-3) by (auto simp: actions_ok_def order_shape_def same_order_def)
    then show ?thesis using assms(1,2,4) within_grant_order[OF assms(3)] True by (auto simp: actions_ok_def)
  next
    case False
    then have "x \<in> set (db_actions db)" using that assms(5) by (auto simp: in_set_save)
    then show ?thesis using assms(1) by (simp add: actions_ok_def)
  qed
  then show ?thesis
    using assms(1,5,6) keys by (simp add: actions_ok_def unique_on_def)
qed

text \<open>How one call may change the stored actions: each stays itself and takes at most one job step; new ones wait.\<close>

definition jobs_step :: "string \<Rightarrow> db \<Rightarrow> db \<Rightarrow> bool" where
  "jobs_step now db db' \<longleftrightarrow>
     (\<forall>a\<in>set (db_actions db). \<exists>a'\<in>set (db_actions db'). same_order a a' \<and>
        (job_of a' = job_of a \<or> job_step now (job_of a) (job_of a'))) \<and>
     (\<forall>a'\<in>set (db_actions db'). ac_id a' \<in> ac_id ` set (db_actions db) \<or> job_of a' = Waiting)"

lemma jobs_step_same: "db_actions db' = db_actions db \<Longrightarrow> jobs_step now db db'"
  unfolding jobs_step_def using same_order_refl by (metis image_eqI)

lemma jobs_step_save:
  assumes "unique_on ac_id (db_actions db)" and "a \<in> set (db_actions db)" and "same_order a a'"
    and "job_step now (job_of a) (job_of a')" and "db_actions db' = save ac_id a' (db_actions db)"
  shows "jobs_step now db db'"
proof -
  have id: "ac_id a' = ac_id a" using assms(3) by (simp add: same_order_def)
  have "\<exists>y\<in>set (db_actions db'). same_order x y \<and> (job_of y = job_of x \<or> job_step now (job_of x) (job_of y))"
    if x: "x \<in> set (db_actions db)" for x
  proof (cases "x = a")
    case True
    have "a' \<in> set (db_actions db')" using assms(2) id by (auto simp: assms(5) in_set_save)
    then show ?thesis using True assms(3,4) by blast
  next
    case False
    then have "ac_id x \<noteq> ac_id a'" using unique_onD[OF assms(1) x assms(2)] id by auto
    then have "x \<in> set (db_actions db')" using x by (simp add: assms(5) in_set_save)
    then show ?thesis using same_order_refl by blast
  qed
  moreover have "ac_id y \<in> ac_id ` set (db_actions db)" if "y \<in> set (db_actions db')" for y
    using that keys_save[of ac_id a' "db_actions db"] assms(5) by (metis image_eqI)
  ultimately show ?thesis by (simp add: jobs_step_def)
qed

section \<open>Every call keeps the contract\<close>

lemma normalize_action_shape_Inr:
  assumes "normalize_action_shape raw c s = Inr (action, control, scope)"
  shows "action = raw \<and> (control \<noteq> None \<longleftrightarrow> action \<in> {ApplyControl, RollbackControl}) \<and>
    (scope \<noteq> None \<longleftrightarrow> action \<notin> {ApplyControl, RollbackControl, CollectRemediationEvidence})"
  using assms
  by (auto simp: normalize_action_shape_def andThen_eq_Inr hardening_actions_def unscoped_response_actions_def truthy_def
      split: if_splits)

lemma grant_for_endpointD:
  "grant_for_endpoint gid e db = Some g \<Longrightarrow> g \<in> set (db_grants db) \<and> gr_id g = gid \<and> gr_scope_state g = ScopeActive \<and>
     gr_client g = Some (ep_client e) \<and> (gr_location g = None \<or> gr_location g = Some (ep_location e))"
  unfolding grant_for_endpoint_def by (drule find_eq_Some_first) simp

lemma visible_endpointD:
  "visible_endpoint p q eid db = Some e \<Longrightarrow> e \<in> set (db_endpoints db) \<and> ep_id e = eid \<and>
     permits_scope p q (Some (ep_client e)) (Some (ep_location e))"
  unfolding visible_endpoint_def
  by (drule find_eq_Some_first)
    (use scope_clause_loop_true in \<open>simp add: where_clause_def scope_clause_def permits_scope_def list_ex_iff\<close>)

lemma validate_grant_scope_Inr:
  "validate_grant_scope g eid action control scope t = Inr () \<longleftrightarrow>
     gr_status g = GrantApproved \<and> t < gr_expires_at g \<and> eid \<in> set (gr_endpoint_ids g) \<and> action \<in> set (gr_actions g) \<and>
     set_option control \<subseteq> set (gr_control_ids g) \<and> set_option scope \<subseteq> set (gr_scopes g)"
  by (cases control; cases scope) (auto simp: validate_grant_scope_def not_le)

lemma action_stored_keeps:
  assumes ok: "actions_ok db" and g: "g \<in> set (db_grants db)" "within_grant g a" and a: "status_ok a" "order_shape a" "job_of a = Waiting"
    and st: "action_stored db eid key a db' row"
  shows "actions_ok db' \<and> jobs_step t db db' \<and> grants_kept db db'"
proof -
  have ins: "insert_action a db = Inr (db\<lparr>db_actions := db_actions db @ [a]\<rparr>)"
    and db': "db_actions db' = db_actions db @ [a]" "db_grants db' = db_grants db"
    using st by (auto simp: action_stored_def)
  have "actions_ok db'"
    using ok g a ins by (auto simp: actions_ok_def db' insert_action_Inr)
  moreover have "jobs_step t db db'"
    using a(3) by (auto simp: jobs_step_def db' intro: same_order_refl)
  moreover have "grants_kept db db'" unfolding grants_kept_def db'(2) using same_allowance_refl by blast
  ultimately show ?thesis by blast
qed

lemma jobs_step_trans_same:
  assumes "db_actions db1 = db_actions db" and "jobs_step t db1 db'"
  shows "jobs_step t db db'"
  using assms by (simp add: jobs_step_def)

lemma create_keeps:
  assumes ok: "actions_ok db" and run: "create_response_action packs draw now p payload db = (db', Inr row)"
  shows "actions_ok db' \<and> jobs_step (strftime_z now) db db' \<and> grants_kept db db'"
  using run
proof (cases rule: create_response_action_cases)
  case (checked gid action control scope reason key draw' n db1 e g)
  note sync = actions_ok_sync[OF ok checked(7)]
  from checked(14) show ?thesis
  proof
    assume "action_replayed db1 (ep_id e) key (\<lambda>a. same_action_request a gid action control scope (audit_actor p) reason) db' row"
    then have "db' = db1" by (auto simp: action_replayed_def)
    then show ?thesis using sync jobs_step_same by simp
  next
    let ?a = "new_action (draw' n) (ep_id e) gid action control scope key (audit_actor p) reason (strftime_z now)"
    assume st: "action_stored db1 (ep_id e) key ?a db' row"
    note g = grant_for_endpointD[OF checked(12)]
    have "within_grant g ?a"
      using checked(13) g by (auto simp: validate_grant_scope_Inr within_grant_def new_action_def)
    moreover have "status_ok ?a" "job_of ?a = Waiting" by (simp_all add: status_ok_def new_action_def job_of_def)
    moreover have "order_shape ?a"
      using normalize_action_shape_Inr[OF checked(3)] by (auto simp: order_shape_def new_action_def)
    ultimately have "actions_ok db' \<and> jobs_step (strftime_z now) db1 db' \<and> grants_kept db1 db'"
      using g by (intro action_stored_keeps[OF sync(1) _ _ _ _ _ st]) auto
    then show ?thesis using jobs_step_trans_same[OF sync(2)] grants_kept_trans[OF sync(3)] by blast
  qed
qed

lemma leased_row_order [simp]: "same_order a (leased_row sha raw now a)"
  by (simp add: same_order_def leased_row_def lease_action_def)

lemma leased_row_status:
  assumes "status_ok a" and "claimable t a" and "now + 120 < datetime_end"
  shows "status_ok (leased_row sha raw now a)"
  using assms by (auto simp: status_ok_def lease_ok_def leased_row_def lease_action_def claimable_def)

lemma leased_row_job:
  assumes "claimable t a"
  shows "job_step t (job_of a) (job_of (leased_row sha raw now a))"
  using assms
  by (auto simp: claimable_def job_of_def leased_row_def lease_action_def split: option.splits intro: job_step.intros)

lemma claim_keeps:
  assumes ok: "actions_ok db" and run: "claim_endpoint_response_action sha raw draw now p raw_id db = (db', Inr items)"
  shows "actions_ok db' \<and> jobs_step (strftime_z now) db db' \<and> grants_kept db db'"
proof -
  have u: "unique_on gr_id (db_grants db)" "unique_on ac_id (db_actions db)" using ok by (simp_all add: actions_ok_def)
  obtain eid n db1 where 1: "normalize_endpoint_id raw_id = Inr eid" "agent_admitted p eid db" "now + 120 < datetime_end"
    "sync_expired_grants draw (strftime_z now) db = (n, db1)"
    using claim_InrD[OF run u(1)] .
  note eq = claim_eq[OF u 1]
  note sync = actions_ok_sync[OF ok 1(4)]
  show ?thesis
  proof (cases "claim_candidates (strftime_z now) eid db")
    case Nil
    then show ?thesis using run sync jobs_step_same unfolding eq by simp
  next
    case (Cons a rest)
    then have a: "a \<in> set (db_actions db)" "claimable (strftime_z now) a"
      using claim_candidatesD[of a "strftime_z now" eid db] by simp_all
    let ?a = "leased_row sha raw now a"
    have db': "db' = db1\<lparr>db_actions := save ac_id ?a (db_actions db)\<rparr>" using run Cons unfolding eq by simp
    have st: "status_ok ?a" using ok a leased_row_status[OF _ a(2) 1(3)] by (simp add: actions_ok_def)
    have "actions_ok db'"
      by (rule actions_ok_save[OF sync(1) _ leased_row_order st]) (use a db' sync(2) in simp_all)
    moreover have "jobs_step (strftime_z now) db db'"
      by (rule jobs_step_save[OF u(2) a(1) leased_row_order leased_row_job[OF a(2)]]) (simp add: db')
    moreover have "grants_kept db db'" using sync(3) by (simp add: grants_kept_def db')
    ultimately show ?thesis by blast
  qed
qed

lemma complete_keeps:
  assumes ok: "actions_ok db" and run: "complete_response_action sha draw now p raw_id payload db = (db', Inr row)"
  shows "actions_ok db' \<and> jobs_step (strftime_z now) db db' \<and> grants_kept db db'"
  using run
proof (cases rule: complete_cases)
  case (replay a)
  then show ?thesis using ok jobs_step_same by simp
next
  case (finish a e u)
  define a' where "a' = a\<lparr>ac_status := re_status payload, ac_summary := Some (strip (re_summary payload)),
          ac_updated_at := strftime_z now, ac_completed_at := Some (strftime_z now)\<rparr>"
  have a: "a \<in> set (db_actions db)" using fetch_SomeD[OF finish(1)] by simp
  have ua: "unique_on ac_id (db_actions db)" using ok by (simp add: actions_ok_def)
  have same: "same_order a a'" by (simp add: same_order_def a'_def)
  have "status_ok a" using ok a by (simp add: actions_ok_def)
  then have st: "status_ok a'" using finish(3,4,5) by (auto simp: status_ok_def lease_ok_def a'_def)
  have db': "db_actions db' = save ac_id a' (db_actions db)" "db_grants db' = db_grants db"
    by (simp_all add: finish(9) a'_def)
  have "job_step (strftime_z now) (job_of a) (job_of a')"
    using finish(3,4,6,7,8) by (auto simp: job_of_def a'_def intro!: job_step.intros)
  then show ?thesis
    using actions_ok_save[OF ok a same st db'] jobs_step_save[OF ua a same _ db'(1)]
    by (simp add: grants_kept_def db'(2)) (use same_allowance_refl in blast)
qed

section \<open>Calls of the response-action API\<close>

datatype action_call = CreateAction response_action_in | ClaimAction "nat list" string | ListActions string bool
  | CompleteAction string action_result_in

fun run_action_call :: "pack list \<Rightarrow> (nat list \<Rightarrow> nat list) \<Rightarrow> (nat \<Rightarrow> string) \<Rightarrow> nat \<Rightarrow> principal \<Rightarrow> action_call \<Rightarrow> db \<Rightarrow> db" where
  "run_action_call packs sha draw now p (CreateAction payload) db = fst (create_response_action packs draw now p payload db)"
| "run_action_call packs sha draw now p (ClaimAction raw raw_id) db = fst (claim_endpoint_response_action sha raw draw now p raw_id db)"
| "run_action_call packs sha draw now p (ListActions raw_id all) db = fst (list_endpoint_response_actions draw now p raw_id all db)"
| "run_action_call packs sha draw now p (CompleteAction raw_id payload) db = fst (complete_response_action sha draw now p raw_id payload db)"

fun_cases run_create_actionE: "run_action_call packs sha draw now p (CreateAction payload) db = db'"

lemma list_actions_sync:
  "\<exists>n db1. sync_expired_grants draw (strftime_z now) db = (n, db1) \<and>
     fst (list_endpoint_response_actions draw now p raw_id all db) \<in> {db, db1}"
proof -
  obtain n db1 where s: "sync_expired_grants draw (strftime_z now) db = (n, db1)" by fastforce
  have "fst (list_endpoint_response_actions draw now p raw_id all db) \<in> {db, db1}"
    by (auto simp: list_endpoint_response_actions_def s split: sum.splits prod.splits)
  with s show ?thesis by blast
qed

lemma action_call_keeps:
  assumes ok: "actions_ok db"
  shows "actions_ok (run_action_call packs sha draw now p call db) \<and>
    jobs_step (strftime_z now) db (run_action_call packs sha draw now p call db) \<and>
    grants_kept db (run_action_call packs sha draw now p call db)"
proof -
  let ?db = "run_action_call packs sha draw now p call db"
  have stay: "actions_ok db \<and> jobs_step (strftime_z now) db db \<and> grants_kept db db" using ok jobs_step_same by simp
  show ?thesis
  proof (cases call)
    case (CreateAction payload)
    have "?db = db \<or> (\<exists>x. create_response_action packs draw now p payload db = (?db, Inr x))"
      unfolding CreateAction run_action_call.simps create_response_action_def by (rule transaction_fst) simp
    then show ?thesis using stay create_keeps[OF ok] by metis
  next
    case (ClaimAction raw raw_id)
    have "?db = db \<or> (\<exists>x. claim_endpoint_response_action sha raw draw now p raw_id db = (?db, Inr x))"
      unfolding ClaimAction run_action_call.simps claim_endpoint_response_action_def by (rule transaction_fst) simp
    then show ?thesis using stay claim_keeps[OF ok] by metis
  next
    case (ListActions raw_id all)
    obtain n db1 where s: "sync_expired_grants draw (strftime_z now) db = (n, db1)" and "?db \<in> {db, db1}"
      unfolding ListActions run_action_call.simps using list_actions_sync by metis
    then show ?thesis using stay actions_ok_sync[OF ok s] jobs_step_same by auto
  next
    case (CompleteAction raw_id payload)
    have "?db = db \<or> (\<exists>x. complete_response_action sha draw now p raw_id payload db = (?db, Inr x))"
      unfolding CompleteAction run_action_call.simps complete_response_action_def by (rule transaction_fst) simp
    then show ?thesis using stay complete_keeps[OF ok] by metis
  qed
qed

text \<open>
  C10.  Every call of the response-action API, whatever its payload and outcome, implements the abstract
  job: each stored action stays the same order and takes at most one job step at the time of the call,
  new ones wait; and the tables keep their contract (columns agree with the status, every action
  lies inside its grant, one action per endpoint and idempotency key).
\<close>

theorem action_calls_refine_jobs:
  assumes "actions_ok db"
  shows "actions_ok (run_action_call packs sha draw now p call db) \<and>
    jobs_step (strftime_z now) db (run_action_call packs sha draw now p call db)"
  using action_call_keeps[OF assms] by blast

section \<open>A lease has one holder\<close>

fun run_action_calls ::
  "pack list \<Rightarrow> (nat list \<Rightarrow> nat list) \<Rightarrow> ((nat \<Rightarrow> string) \<times> nat \<times> principal \<times> action_call) list \<Rightarrow> db \<Rightarrow> db" where
  "run_action_calls packs sha [] db = db"
| "run_action_calls packs sha ((draw, now, p, call) # rest) db =
     run_action_calls packs sha rest (run_action_call packs sha draw now p call db)"

definition held_or_done_by :: "string \<Rightarrow> string \<Rightarrow> job \<Rightarrow> bool" where
  "held_or_done_by h e j \<longleftrightarrow> j = Held h e \<or> (\<exists>s m. j = Done s h m)"

lemma held_or_done_step:
  "held_or_done_by h e j \<Longrightarrow> now < e \<Longrightarrow> job_step now j j' \<Longrightarrow> held_or_done_by h e j'"
  by (auto simp: held_or_done_by_def elim!: job_step_heldE job_step_doneE)

lemma calls_hold:
  assumes "actions_ok db" and "a \<in> set (db_actions db)" and "held_or_done_by h e (job_of a)"
    and "\<forall>(draw, t, p, call)\<in>set calls. strftime_z t < e"
  shows "actions_ok (run_action_calls packs sha calls db) \<and>
    (\<exists>a'\<in>set (db_actions (run_action_calls packs sha calls db)). same_order a a' \<and> held_or_done_by h e (job_of a'))"
  using assms
proof (induction calls arbitrary: db a)
  case Nil
  then show ?case unfolding run_action_calls.simps using same_order_refl by blast
next
  case (Cons c rest)
  obtain draw t p call where c: "c = (draw, t, p, call)" by (cases c)
  let ?db = "run_action_call packs sha draw t p call db"
  have t: "strftime_z t < e" using Cons.prems(4) c by simp
  note keep = action_call_keeps[OF Cons.prems(1), of packs sha draw t p call]
  obtain a1 where a1: "a1 \<in> set (db_actions ?db)" "same_order a a1" and
    j: "job_of a1 = job_of a \<or> job_step (strftime_z t) (job_of a) (job_of a1)"
    using keep Cons.prems(2) by (auto simp: jobs_step_def)
  have "held_or_done_by h e (job_of a1)" using j held_or_done_step[OF Cons.prems(3) t] Cons.prems(3) by auto
  from Cons.IH[OF _ a1(1) this] keep Cons.prems(4) show ?case
    unfolding c run_action_calls.simps
    using a1(2) by (auto simp: same_order_def) 
qed

lemma claim_item:
  assumes ok: "actions_ok db" and run: "claim_endpoint_response_action sha raw draw now p raw_id db = (db', Inr items)"
    and item: "(row, token) \<in> set items"
  obtains a n db1 where "a \<in> set (db_actions db)" "claimable (strftime_z now) a" "under_active_grant (strftime_z now) db a"
    "now + 120 < datetime_end" "token = token_urlsafe raw" "row = response_action_payload (leased_row sha raw now a)"
    "sync_expired_grants draw (strftime_z now) db = (n, db1)"
    "db' = db1\<lparr>db_actions := save ac_id (leased_row sha raw now a) (db_actions db)\<rparr>"
proof -
  have u: "unique_on gr_id (db_grants db)" "unique_on ac_id (db_actions db)" using ok by (simp_all add: actions_ok_def)
  obtain eid n db1 where 1: "normalize_endpoint_id raw_id = Inr eid" "agent_admitted p eid db" "now + 120 < datetime_end"
    "sync_expired_grants draw (strftime_z now) db = (n, db1)"
    using claim_InrD[OF run u(1)] .
  note eq = claim_eq[OF u 1]
  show ?thesis
  proof (cases "claim_candidates (strftime_z now) eid db")
    case Nil
    then show ?thesis using run item unfolding eq by auto
  next
    case (Cons a rest)
    note a = claim_candidatesD[of a "strftime_z now" eid db]
    show ?thesis
      using run item 1 a Cons unfolding eq by (intro that[of a n db1]) auto
  qed
qed

text \<open>An accepted result carries the token whose hash the action stores, fresh or replayed.\<close>

lemma accepted_result_token:
  assumes "complete_response_action sha draw now p raw_id payload db = (db', Inr row)"
  shows "\<exists>a. fetch ac_id (strip raw_id) (db_actions db) = Some a \<and> ac_status a \<in> {Leased, Succeeded, Failed} \<and>
    ac_lease_hash a = Some (lease_token_hash sha (re_lease_token payload))"
  using assms by (cases rule: complete_cases) auto

lemma held_or_done_token:
  assumes "held_or_done_by h e (job_of a)" and "status_ok a"
  shows "ac_lease_hash a = Some h"
  using assms by (auto simp: held_or_done_by_def job_of_def status_ok_def lease_ok_def split: action_status.splits option.splits)

text \<open>
  C11.  A lease has one holder: after a claim at time \<open>now\<close>, and any sequence of calls by anyone in the
  120 seconds of the lease, the action is still held under the claimed token or was completed with
  it, no claim in that time hands the action out again, and every result accepted for the action in
  that time was sent with a lease token of the same hash as the claimed one.
\<close>

theorem lease_has_one_holder:
  assumes ok: "actions_ok db" and claim: "claim_endpoint_response_action sha raw draw now p raw_id db = (db1, Inr items)"
    and item: "(row, token) \<in> set items" and window: "\<forall>(draw, t, p, call)\<in>set calls. t < now + 120"
  shows "(\<exists>a\<in>set (db_actions (run_action_calls packs sha calls db1)). ac_id a = ac_id row \<and>
      held_or_done_by (lease_token_hash sha token) (strftime_z (now + 120)) (job_of a)) \<and>
    (\<forall>t raw' draw' p' raw_id' db2 items'. t < now + 120 \<and>
      claim_endpoint_response_action sha raw' draw' t p' raw_id' (run_action_calls packs sha calls db1) = (db2, Inr items') \<longrightarrow>
      ac_id row \<notin> (\<lambda>item. ac_id (fst item)) ` set items') \<and>
    (\<forall>t draw' p' raw_id' payload' db2 row'. t < now + 120 \<and> strip raw_id' = ac_id row \<and>
      complete_response_action sha draw' t p' raw_id' payload' (run_action_calls packs sha calls db1) = (db2, Inr row') \<longrightarrow>
      lease_token_hash sha (re_lease_token payload') = lease_token_hash sha token)"
proof -
  let ?e = "strftime_z (now + 120)" and ?h = "lease_token_hash sha token" and ?db = "run_action_calls packs sha calls db1"
  obtain a n dbs where a: "a \<in> set (db_actions db)" and lim: "now + 120 < datetime_end" and tok: "token = token_urlsafe raw"
    and row: "row = response_action_payload (leased_row sha raw now a)"
    and db1: "db1 = dbs\<lparr>db_actions := save ac_id (leased_row sha raw now a) (db_actions db)\<rparr>"
    using claim_item[OF ok claim item] by metis
  have ok1: "actions_ok db1" using claim_keeps[OF ok claim] by blast
  have in1: "leased_row sha raw now a \<in> set (db_actions db1)" using a by (auto simp: db1 in_set_save)
  have held: "held_or_done_by ?h ?e (job_of (leased_row sha raw now a))"
    by (simp add: held_or_done_by_def job_of_def leased_row_def lease_action_def tok)
  have times: "\<forall>(draw, t, p, call)\<in>set calls. strftime_z t < ?e"
    using window utc.stamp_strict[OF _ lim] by auto
  have id: "ac_id row = ac_id a" by (simp add: row response_action_payload_def)
  note final = calls_hold[OF ok1 in1 held times, of packs sha]
  then obtain b where b: "b \<in> set (db_actions ?db)" "ac_id b = ac_id row" "held_or_done_by ?h ?e (job_of b)"
    by (auto simp: same_order_def id)
  have ok2: "actions_ok ?db" using final by blast
  then have st: "status_ok b" using b(1) by (simp add: actions_ok_def)
  have "ac_id row \<notin> (\<lambda>item. ac_id (fst item)) ` set items'"
    if t: "t < now + 120" and again: "claim_endpoint_response_action sha raw' draw' t p' raw_id' ?db = (db2, Inr items')"
    for t raw' draw' p' raw_id' db2 items'
  proof
    assume "ac_id row \<in> (\<lambda>item. ac_id (fst item)) ` set items'"
    then obtain row' token' where i: "(row', token') \<in> set items'" and eq: "ac_id row' = ac_id row" by auto
    have te: "strftime_z t < ?e" by (rule utc.stamp_strict[OF t lim])
    have no: "\<not> claimable (strftime_z t) b"
      using b(3) te st
      by (auto simp: claimable_def held_or_done_by_def job_of_def split: action_status.splits option.splits)
    obtain c where c: "c \<in> set (db_actions ?db)" "claimable (strftime_z t) c"
      "row' = response_action_payload (leased_row sha raw' t c)"
      using claim_item[OF ok2 again i] by metis
    have "c = b"
      using unique_onD[of ac_id "db_actions ?db" c b] ok2 b c eq
      by (simp add: actions_ok_def response_action_payload_def)
    then show False using no c(2) by simp
  qed
  moreover have "lease_token_hash sha (re_lease_token payload') = ?h"
    if id: "strip raw_id' = ac_id row" and accepted: "complete_response_action sha draw' t p' raw_id' payload' ?db = (db2, Inr row')"
    for t draw' p' raw_id' payload' db2 row'
  proof -
    have "fetch ac_id (strip raw_id') (db_actions ?db) = Some b"
      using fetch_unique[of ac_id "db_actions ?db" b] ok2 b by (simp add: actions_ok_def id)
    then show ?thesis using accepted_result_token[OF accepted] held_or_done_token[OF b(3) st] by simp
  qed
  ultimately show ?thesis using b by blast
qed

section \<open>Claims serve the queue in order\<close>

text \<open>
  A queue that hands out its keys one by one: what the agent relies on from the claim route.  The
  client of the interface drains it.
\<close>

fun drain :: "('t \<Rightarrow> 's \<Rightarrow> 's \<times> 'k option) \<Rightarrow> 't list \<Rightarrow> 's \<Rightarrow> 's \<times> 'k option list" where
  "drain next [] s = (s, [])"
| "drain next (t # ts) s = (let (s1, k) = next t s; (s2, ks) = drain next ts s1 in (s2, k # ks))"

locale work_queue =
  fixes ready :: "'s \<Rightarrow> bool" and waiting :: "'s \<Rightarrow> 'k list" and take_next :: "'t \<Rightarrow> 's \<Rightarrow> 's \<times> 'k option"
  assumes take_none: "ready s \<Longrightarrow> waiting s = [] \<Longrightarrow> \<exists>s'. take_next t s = (s', None) \<and> ready s' \<and> waiting s' = []"
    and take_first: "ready s \<Longrightarrow> waiting s = k # ks \<Longrightarrow> \<exists>s'. take_next t s = (s', Some k) \<and> ready s' \<and> waiting s' = ks"
begin

lemma drain_ready:
  assumes "ready s"
  shows "ready (fst (drain take_next ts s)) \<and> waiting (fst (drain take_next ts s)) = drop (length ts) (waiting s) \<and>
    snd (drain take_next ts s) = map Some (take (length ts) (waiting s)) @ replicate (length ts - length (waiting s)) None"
  using assms
proof (induction ts arbitrary: s)
  case (Cons t ts)
  show ?case
  proof (cases "waiting s")
    case Nil
    obtain s' where "take_next t s = (s', None)" "ready s'" "waiting s' = []" using take_none[OF Cons.prems Nil] by blast
    then show ?thesis using Cons.IH[of s'] Nil by (simp add: case_prod_beta)
  next
    case (Cons k ks)
    obtain s' where "take_next t s = (s', Some k)" "ready s'" "waiting s' = ks" using take_first[OF Cons.prems Cons] by blast
    then show ?thesis using Cons.IH[of s'] Cons by (simp add: case_prod_beta)
  qed
qed simp

lemma drained: "ready s \<Longrightarrow> length (waiting s) \<le> length ts \<Longrightarrow> waiting (fst (drain take_next ts s)) = []"
  using drain_ready by simp

end

definition claim_next ::
  "(nat list \<Rightarrow> nat list) \<Rightarrow> nat \<Rightarrow> principal \<Rightarrow> string \<Rightarrow> nat list \<times> (nat \<Rightarrow> string) \<Rightarrow> db \<Rightarrow> db \<times> string option" where
  "claim_next sha now p raw_id t db =
     (case claim_endpoint_response_action sha (fst t) (snd t) now p raw_id db of
        (db', Inr ((row, _) # _)) \<Rightarrow> (db', Some (ac_id row))
      | (db', _) \<Rightarrow> (db', None))"

definition claim_ready :: "nat \<Rightarrow> principal \<Rightarrow> string \<Rightarrow> string \<Rightarrow> db \<Rightarrow> bool" where
  "claim_ready now p raw_id eid db \<longleftrightarrow> actions_ok db \<and> normalize_endpoint_id raw_id = Inr eid \<and> agent_admitted p eid db \<and>
     now + 120 < datetime_end"

definition claim_waiting :: "nat \<Rightarrow> string \<Rightarrow> db \<Rightarrow> string list" where
  "claim_waiting now eid db = map ac_id (claim_candidates (strftime_z now) eid db)"

text \<open>
  What waits for an agent, said of single rows: an action of the endpoint that is queued, or leased
  with its lease run out, under a grant that is approved and not yet expired.
\<close>

definition awaits_claim :: "string \<Rightarrow> string \<Rightarrow> db \<Rightarrow> action_row \<Rightarrow> bool" where
  "awaits_claim t eid db a \<longleftrightarrow> a \<in> set (db_actions db) \<and> ac_endpoint a = eid \<and>
     (ac_status a = Queued \<or> ac_status a = Leased \<and> (\<exists>e. ac_lease_expires_at a = Some e \<and> e \<le> t)) \<and>
     (\<exists>g\<in>set (db_grants db). gr_id g = ac_grant a \<and> gr_status g = GrantApproved \<and> t < gr_expires_at g)"

definition older :: "action_row \<Rightarrow> action_row \<Rightarrow> bool" where
  "older a b \<longleftrightarrow> ac_created_at a < ac_created_at b \<or> ac_created_at a = ac_created_at b \<and> ac_id a < ac_id b"

lemma set_claim_candidates:
  assumes "unique_on gr_id (db_grants db)"
  shows "set (claim_candidates t eid db) = {a. awaits_claim t eid db a}"
proof -
  have grant: "under_active_grant t db a \<longleftrightarrow>
      (\<exists>g\<in>set (db_grants db). gr_id g = ac_grant a \<and> gr_status g = GrantApproved \<and> t < gr_expires_at g)" for a
  proof -
    have "under_active_grant t db a \<longleftrightarrow>
        (\<exists>g. fetch gr_id (ac_grant a) (db_grants db) = Some g \<and> gr_status g = GrantApproved \<and> t < gr_expires_at g)"
      by (simp add: under_active_grant_def split: option.split)
    then show ?thesis unfolding fetch_eq_Some_iff[OF assms] by blast
  qed
  have lease: "claimable t a \<longleftrightarrow>
      ac_status a = Queued \<or> ac_status a = Leased \<and> (\<exists>e. ac_lease_expires_at a = Some e \<and> e \<le> t)" for a
    by (simp add: claimable_def split: option.split)
  show ?thesis by (auto simp only: claim_candidates_def set_order_by set_filter awaits_claim_def grant lease)
qed

lemma claim_candidates_older:
  assumes "unique_on ac_id (db_actions db)"
  shows "sorted_wrt older (claim_candidates t eid db)"
proof -
  let ?k = "\<lambda>a. (ac_created_at a, ac_id a)" and ?rows = "claim_candidates t eid db"
  have "distinct (map ac_id ?rows)"
    unfolding claim_candidates_def using assms
    by (intro distinct_map_order_by) (simp add: unique_on_def distinct_map_filter)
  then have "distinct (map ?k ?rows)" by (auto simp: distinct_map inj_on_def)
  moreover have "sorted (map ?k ?rows)" unfolding claim_candidates_def by (rule sorted_order_by)
  ultimately have "sorted_wrt (<) (map ?k ?rows)" by (simp add: strict_sorted_iff)
  then have "sorted_wrt (\<lambda>a b. ?k a < ?k b) ?rows" by (simp add: sorted_wrt_map)
  then show ?thesis by (rule sorted_wrt_mono_rel[rotated]) (auto simp: older_def less_prod_def)
qed

lemma filter_save_dropped:
  "\<not> Q r \<Longrightarrow> filter Q (save key r xs) = filter (\<lambda>x. Q x \<and> key x \<noteq> key r) xs"
  by (induction xs) (auto simp: save_def)

lemma candidates_after_claim:
  assumes u: "unique_on gr_id (db_grants db)" "unique_on ac_id (db_actions db)"
    and sync: "sync_expired_grants draw (strftime_z now) db = (n, db1)" and lim: "now + 120 < datetime_end"
    and cand: "claim_candidates (strftime_z now) eid db = a # rest"
  shows "claim_candidates (strftime_z now) eid (db1\<lparr>db_actions := save ac_id (leased_row sha raw now a) (db_actions db)\<rparr>) = rest"
proof -
  let ?t = "strftime_z now" and ?k = "\<lambda>a. (ac_created_at a, ac_id a)"
  let ?db = "db1\<lparr>db_actions := save ac_id (leased_row sha raw now a) (db_actions db)\<rparr>"
  let ?Q = "\<lambda>x. ac_endpoint x = eid \<and> claimable ?t x \<and> under_active_grant ?t db x"
  have ug: "under_active_grant ?t ?db x = under_active_grant ?t db x" for x
    using under_active_grant_sync[OF u(1) sync, of x] by (simp add: under_active_grant_def)
  have "?t < strftime_z (now + 120)" using lim by (intro utc.stamp_strict) simp_all
  then have "\<not> strftime_z (now + 120) \<le> ?t" by simp
  then have no: "\<not> ?Q (leased_row sha raw now a)"
    by (simp add: claimable_def leased_row_def lease_action_def)
  have "claim_candidates ?t eid ?db = order_by ?k (filter (\<lambda>x. ?Q x \<and> ac_id x \<noteq> ac_id a) (db_actions db))"
    using filter_save_dropped[where Q = ?Q, OF no, of ac_id "db_actions db"] by (simp add: claim_candidates_def ug)
  also have "\<dots> = filter (\<lambda>x. ac_id x \<noteq> ac_id a) (order_by ?k (filter ?Q (db_actions db)))"
    by (simp add: order_by_def filter_sort conj_commute)
  also have "\<dots> = filter (\<lambda>x. ac_id x \<noteq> ac_id a) (a # rest)" using cand by (simp add: claim_candidates_def)
  also have "\<dots> = rest"
  proof -
    have "distinct (map ac_id (a # rest))"
      unfolding cand[symmetric] claim_candidates_def using u(2)
      by (intro distinct_map_order_by) (simp add: unique_on_def distinct_map_filter)
    then have "\<forall>x\<in>set rest. ac_id x \<noteq> ac_id a" by (metis distinct.simps(2) image_eqI list.simps(9) list.set_map)
    then show ?thesis by (simp add: filter_id_conv)
  qed
  finally show ?thesis .
qed

lemma claim_ready_after:
  assumes ready: "claim_ready now p raw_id eid db" and u: "unique_on gr_id (db_grants db)" "unique_on ac_id (db_actions db)"
    and sync: "sync_expired_grants draw (strftime_z now) db = (n, db1)"
    and claim: "claim_endpoint_response_action sha raw draw now p raw_id db = (db', Inr items)"
    and db': "db_endpoints db' = db_endpoints db1"
  shows "claim_ready now p raw_id eid db'"
proof -
  have ok: "actions_ok db'" using claim_keeps[OF _ claim] ready by (simp add: claim_ready_def)
  have eff: "approval_tables_only db db1" using sync_expired_grants_effect[OF u(1) sync] by simp
  have "db_endpoints db' = db_endpoints db" using approval_tables_only_fields[OF eff] db' by simp
  from enforce_agent_endpoint_cong[OF this] ready ok show ?thesis by (simp add: claim_ready_def agent_admitted_def)
qed

interpretation claims: work_queue "claim_ready now p raw_id eid" "claim_waiting now eid" "claim_next sha now p raw_id"
  for sha now p raw_id eid
proof
  fix db :: db and t :: "nat list \<times> (nat \<Rightarrow> string)"
  assume ready: "claim_ready now p raw_id eid db"
  then have u: "unique_on gr_id (db_grants db)" "unique_on ac_id (db_actions db)"
    and r: "normalize_endpoint_id raw_id = Inr eid" "agent_admitted p eid db" "now + 120 < datetime_end"
    by (simp_all add: claim_ready_def actions_ok_def)
  obtain raw draw where t: "t = (raw, draw)" by (cases t)
  obtain n db1 where sync: "sync_expired_grants draw (strftime_z now) db = (n, db1)" by fastforce
  note eq = claim_eq[OF u r sync, of sha raw]
  {
    assume w: "claim_waiting now eid db = []"
    then have "claim_candidates (strftime_z now) eid db = []" by (simp add: claim_waiting_def)
    then have claim: "claim_endpoint_response_action sha raw draw now p raw_id db = (db1, Inr [])" using eq by simp
    have "claim_ready now p raw_id eid db1" by (rule claim_ready_after[OF ready u sync claim]) simp
    moreover have "claim_waiting now eid db1 = []"
      using w claim_candidates_sync[OF u(1) sync] by (simp add: claim_waiting_def)
    ultimately show "\<exists>db'. claim_next sha now p raw_id t db = (db', None) \<and> claim_ready now p raw_id eid db' \<and>
        claim_waiting now eid db' = []"
      using claim by (simp add: claim_next_def t)
  }
  {
    fix k ks assume w: "claim_waiting now eid db = k # ks"
    then obtain a rest where c: "claim_candidates (strftime_z now) eid db = a # rest" and k: "k = ac_id a" "ks = map ac_id rest"
      by (auto simp: claim_waiting_def)
    let ?db = "db1\<lparr>db_actions := save ac_id (leased_row sha raw now a) (db_actions db)\<rparr>"
    have claim: "claim_endpoint_response_action sha raw draw now p raw_id db =
        (?db, Inr [(response_action_payload (leased_row sha raw now a), token_urlsafe raw)])" using eq c by simp
    have "claim_ready now p raw_id eid ?db" by (rule claim_ready_after[OF ready u sync claim]) simp
    moreover have "claim_waiting now eid ?db = ks"
      using candidates_after_claim[OF u sync r(3) c] by (simp add: claim_waiting_def k)
    ultimately show "\<exists>db'. claim_next sha now p raw_id t db = (db', Some k) \<and> claim_ready now p raw_id eid db' \<and>
        claim_waiting now eid db' = ks"
      using claim by (simp add: claim_next_def t k response_action_payload_def)
  }
qed

text \<open>
  C12.  No approved work is lost or reordered: the actions of the endpoint that await a claim stand in
  one order of increasing creation time (then id), each once; an agent that claims \<open>n\<close> times gets
  exactly the first \<open>n\<close> of them in this order and then nothing, and what awaits a claim afterwards is the
  rest, so with at least as many claims as actions nothing awaits one.
\<close>

theorem claims_serve_oldest_first:
  assumes "claim_ready now p raw_id eid db"
  shows "\<exists>rows. set rows = {a. awaits_claim (strftime_z now) eid db a} \<and> sorted_wrt older rows \<and> distinct (map ac_id rows) \<and>
    snd (drain (claim_next sha now p raw_id) ts db) =
      map Some (take (length ts) (map ac_id rows)) @ replicate (length ts - length rows) None \<and>
    ac_id ` {a. awaits_claim (strftime_z now) eid (fst (drain (claim_next sha now p raw_id) ts db)) a} =
      set (drop (length ts) (map ac_id rows))"
proof -
  let ?db = "fst (drain (claim_next sha now p raw_id) ts db)" and ?rows = "claim_candidates (strftime_z now) eid db"
  have u: "unique_on gr_id (db_grants db)" "unique_on ac_id (db_actions db)"
    using assms by (simp_all add: claim_ready_def actions_ok_def)
  have d: "distinct (map ac_id ?rows)"
    unfolding claim_candidates_def using u(2)
    by (intro distinct_map_order_by) (simp add: unique_on_def distinct_map_filter)
  note run = claims.drain_ready[OF assms, of sha ts]
  then have u': "unique_on gr_id (db_grants ?db)" by (simp add: claim_ready_def actions_ok_def)
  have "ac_id ` {a. awaits_claim (strftime_z now) eid ?db a} = set (claim_waiting now eid ?db)"
    by (simp add: claim_waiting_def set_claim_candidates[OF u'])
  also have "\<dots> = set (drop (length ts) (map ac_id ?rows))" using run by (simp add: claim_waiting_def)
  finally show ?thesis
    using run set_claim_candidates[OF u(1)] claim_candidates_older[OF u(2)] d
    by (intro exI[of _ ?rows]) (simp add: claim_waiting_def)
qed

section \<open>Who may order an action\<close>

text \<open>
  C13.  Nothing is queued outside the authority of the one who asks and of an approval: an accepted
  creation comes from a principal with the permission on the endpoint's client and location, names an
  action the endpoint declared (and, for hardening, one the registry supports on its platform), and lies
  inside a stored grant of the same client that is approved, not expired at that time and includes
  the endpoint, the action, the control and the scope.
\<close>

theorem created_action_authorized:
  assumes "unique_on gr_id (db_grants db)" and "create_response_action packs draw now p payload db = (db', Inr row)"
  shows "\<exists>e\<in>set (db_endpoints db). \<exists>g\<in>set (db_grants db).
    permits_scope p ''response_action.create'' (Some (ep_client e)) (Some (ep_location e)) \<and> p_role p \<notin> {Agent, Enrollment} \<and>
    ac_endpoint row = ep_id e \<and> ac_action row = ci_action payload \<and>
    control_check packs (ac_action row) (ac_control row) (ep_platform e) \<and>
    declares_action_capability (parse_declared_capabilities e) (ac_action row) (ac_control row) \<and>
    gr_status g = GrantApproved \<and> strftime_z now < gr_expires_at g \<and> gr_client g = Some (ep_client e) \<and>
    (gr_location g = None \<or> gr_location g = Some (ep_location e)) \<and> within_grant g row"
  using assms(2)
proof (cases rule: create_response_action_cases)
  case (checked gid action control scope reason key draw' n db1 e g)
  note eff = sync_expired_grants_effect[OF assms(1) checked(7)]
  note e = visible_endpointD[OF checked(9)] and g = grant_for_endpointD[OF checked(12)]
  have e0: "e \<in> set (db_endpoints db)" using e approval_tables_only_fields[of db db1] eff by simp
  note sc = checked(13)[unfolded validate_grant_scope_Inr]
  have g0: "g \<in> set (db_grants db)"
  proof -
    have "g \<in> set (expiry_swept (strftime_z now) (db_grants db))" using g eff by simp
    then show ?thesis
      using sc by (auto simp: expiry_swept_def in_set_update_where expire_grant_row_def split: if_splits)
  qed
  from checked(14) have row: "ac_endpoint row = ep_id e" "ac_action row = action" "ac_control row = control"
    "ac_scope row = scope" "ac_grant row = gid"
    unfolding action_replayed_def action_stored_def action_with_key_def
    by (auto simp: same_action_request_def new_action_def response_action_payload_def dest: find_eq_Some_first)
  have w: "within_grant g row" using sc g by (simp add: within_grant_def row)
  show ?thesis
    by (rule bexI[OF _ e0], rule bexI[OF _ g0])
      (use e g sc w checked(2,10,11) normalize_action_shape_Inr[OF checked(3)] in \<open>simp add: row\<close>)
qed

lemma find_with_key:
  assumes "unique_on (\<lambda>a. (ac_endpoint a, ac_idempotency a)) (db_actions db)" and "a \<in> set (db_actions db)"
  shows "action_with_key (ac_endpoint a) (ac_idempotency a) db = Some a"
  unfolding action_with_key_def
  by (rule find_unique[OF assms(1,2)]) auto

text \<open>
  C14.  Retrying is safe: once an action was accepted under an idempotency key, a later creation with
  that key on that endpoint, by whoever, whenever and with whatever else in the payload, either
  fails or returns the stored action without queueing another, and it succeeds only when it asks
  for the same action under the same grant with the same reason and requester.
\<close>

theorem idempotency_key_binds:
  assumes ok: "actions_ok db" and first: "create_response_action packs draw1 t1 p1 payload1 db = (db1, Inr row1)"
    and again: "create_response_action packs draw2 t2 p2 payload2 db1 = (db2, Inr row2)"
    and endpoint: "normalize_endpoint_id (ci_endpoint_id payload2) = normalize_endpoint_id (ci_endpoint_id payload1)"
    and key: "ci_idempotency payload2 = Some k" "normalize_required_string k ''idempotency_key'' = Inr (ac_idempotency row1)"
  shows "row2 = row1 \<and> db_actions db2 = db_actions db1 \<and> audit_actor p2 = ac_requested_by row1 \<and>
    ci_action payload2 = ac_action row1"
proof -
  have ok1: "actions_ok db1" using create_keeps[OF ok first] by blast
  obtain a where a: "a \<in> set (db_actions db1)" "row1 = response_action_payload a"
    and ep: "normalize_endpoint_id (ci_endpoint_id payload1) = Inr (ac_endpoint a)"
    using first
  proof (cases rule: create_response_action_cases)
    case (checked gid action control scope reason key draw' n dbs e g)
    from checked(14,8) that show ?thesis
      unfolding action_replayed_def action_stored_def action_with_key_def
      by (fastforce simp: new_action_def dest: find_eq_Some_first)
  qed
  from again show ?thesis
  proof (cases rule: create_response_action_cases)
    case (checked gid action control scope reason key' draw' n dbs e g)
    have key': "key' = ac_idempotency a" using checked(6) assms(5,6) a(2) by (simp add: action_key_def response_action_payload_def)
    have e: "ep_id e = ac_endpoint a" using checked(8) ep endpoint by simp
    note sync = actions_ok_sync[OF ok1 checked(7)]
    have "action_with_key (ep_id e) key' dbs = Some a"
      unfolding e key' by (rule find_with_key) (use sync a in \<open>simp_all add: actions_ok_def\<close>)
    then have "db2 = dbs" "row2 = response_action_payload a" "same_action_request a gid action control scope (audit_actor p2) reason"
      using checked(14) by (auto simp: action_replayed_def action_stored_def)
    then show ?thesis
      using sync(2) a(2) normalize_action_shape_Inr[OF checked(3)]
      by (simp add: same_action_request_def response_action_payload_def)
  qed
qed

text \<open>
  A result is reported once: an accepted result comes from whoever holds the lease token of the
  action, and after it any further accepted result for the action changes nothing, returns the
  same row, and carries the same token hash, status and summary.
\<close>

theorem results_are_final:
  assumes ok: "actions_ok db" and first: "complete_response_action sha draw1 t1 p1 raw_id payload1 db = (db1, Inr row1)"
    and again: "complete_response_action sha draw2 t2 p2 raw_id payload2 db1 = (db2, Inr row2)"
  shows "db2 = db1 \<and> row2 = row1 \<and> re_status payload2 = re_status payload1 \<and>
    strip (re_summary payload2) = strip (re_summary payload1) \<and>
    lease_token_hash sha (re_lease_token payload2) = lease_token_hash sha (re_lease_token payload1) \<and>
    (\<exists>a\<in>set (db_actions db). ac_id a = strip raw_id \<and> ac_lease_hash a = Some (lease_token_hash sha (re_lease_token payload1)))"
proof -
  obtain a1 where a1: "fetch ac_id (strip raw_id) (db_actions db1) = Some a1" "row1 = response_action_payload a1"
    "ac_status a1 = re_status payload1" "ac_summary a1 = Some (strip (re_summary payload1))" "ac_status a1 \<noteq> Leased"
    "ac_lease_hash a1 = Some (lease_token_hash sha (re_lease_token payload1))"
    and holder: "\<exists>a\<in>set (db_actions db). ac_id a = strip raw_id \<and> ac_lease_hash a = Some (lease_token_hash sha (re_lease_token payload1))"
    using first
  proof (cases rule: complete_cases)
    case (replay a)
    then show ?thesis using that[of a] fetch_SomeD[OF replay(1)] by fastforce
  next
    case (finish a e u)
    let ?a = "a\<lparr>ac_status := re_status payload1, ac_summary := Some (strip (re_summary payload1)),
          ac_updated_at := strftime_z t1, ac_completed_at := Some (strftime_z t1)\<rparr>"
    have f: "fetch ac_id (strip raw_id) (db_actions db1) = Some ?a"
      using finish(1,9) fetch_SomeD[OF finish(1)] by (simp add: fetch_save)
    have "\<exists>a\<in>set (db_actions db). ac_id a = strip raw_id \<and> ac_lease_hash a = Some (lease_token_hash sha (re_lease_token payload1))"
      using fetch_SomeD[OF finish(1)] finish(6) by blast
    then show ?thesis by (rule that[OF f finish(10), rotated -1]) (use finish(4,6) in auto)
  qed
  from again show ?thesis
  proof (cases rule: complete_cases)
    case (replay a)
    then show ?thesis using a1 holder by simp
  next
    case (finish a e u)
    then show ?thesis using a1 by simp
  qed
qed

section \<open>A concrete queue\<close>

text \<open>The approved troubleshooting grant of \<open>Example_Data\<close> with one queued action, at noon of its hour.\<close>

definition ex_now :: nat where
  "ex_now = 63902822400"

definition ex_action :: action_row where
  "ex_action = new_action ''1'' ''ep_1'' ''grant_1'' RequestElevatedTroubleshooting None (Some ServiceStatus) ''k1''
     ''api-token:operator'' ''look'' ''2026-01-01T00:00:00Z''"

definition ex_queue_db :: db where
  "ex_queue_db = ex_approved_db\<lparr>db_actions := [ex_action]\<rparr>"

lemma ex_now_text: "strftime_z ex_now = ''2026-01-01T00:00:00Z''" "ex_now + 120 < datetime_end"
  by (simp_all add: ex_now_def strftime_eval datetime_end_def)

lemma ex_grant_live: "gr_status ex_grant = GrantApproved" "\<not> gr_expires_at ex_grant \<le> ''2026-01-01T00:00:00Z''"
  "''2026-01-01T00:00:00Z'' < gr_expires_at ex_grant" "gr_id ex_grant = ''grant_1''"
  by (simp_all add: ex_grant_def)

lemma ex_grants [simp]: "db_grants ex_approved_db = [ex_grant]" "db_grants ex_queue_db = [ex_grant]"
  "db_actions ex_queue_db = [ex_action]" "db_actions ex_approved_db = []"
  "db_endpoints ex_queue_db = [ex_endpoint]" "db_endpoints ex_approved_db = [ex_endpoint]"
  by (simp_all add: ex_queue_db_def ex_approved_db_def)

lemma ex_queue_ok: "actions_ok ex_queue_db"
  by (simp add: actions_ok_def unique_on_def status_ok_def order_shape_def within_grant_def ex_action_def new_action_def ex_grant_def)

lemma ex_approved_actions_ok: "actions_ok ex_approved_db"
  by (simp add: actions_ok_def unique_on_def)

lemma ex_sync: "db_grants db = [ex_grant] \<Longrightarrow> sync_expired_grants draw (strftime_z ex_now) db = (0, db)"
  using ex_grant_live by (simp add: sync_expired_grants_def order_by_def expire_grant_def ex_now_text)

lemma ex_admitted: "agent_admitted ex_device ''ep_1'' db" if "db_endpoints db = [ex_endpoint]"
  using that by (simp add: agent_admitted_def enforce_device_endpoint_def enforce_agent_endpoint_def
      enforce_endpoint_credential_mode_def ex_device_def)

lemma ex_ids: "normalize_endpoint_id ''ep_1'' = Inr ''ep_1''" "strip ''ep_1'' = ''ep_1''" "strip ''act_1'' = ''act_1''"
  "strip ''done'' = ''done''" "strip ''grant_1'' = ''grant_1''" "strip ''look'' = ''look''" "strip ''k1'' = ''k1''"
  by code_simp+

lemma ex_candidates: "claim_candidates (strftime_z ex_now) ''ep_1'' ex_queue_db = [ex_action]"
  using ex_grant_live
  by (simp add: claim_candidates_def order_by_def claimable_def under_active_grant_def ex_action_def new_action_def ex_now_text)

lemma ex_claim:
  "claim_endpoint_response_action sha raw draw ex_now ex_device ''ep_1'' ex_queue_db =
    (ex_queue_db\<lparr>db_actions := [leased_row sha raw ex_now ex_action]\<rparr>,
     Inr [(response_action_payload (leased_row sha raw ex_now ex_action), token_urlsafe raw)])"
proof -
  have u: "unique_on gr_id (db_grants ex_queue_db)" "unique_on ac_id (db_actions ex_queue_db)"
    using ex_queue_ok by (simp_all add: actions_ok_def)
  show ?thesis
    by (subst claim_eq[OF u ex_ids(1) ex_admitted ex_now_text(2) ex_sync]) (simp_all add: ex_candidates)
qed

lemma action_calls_refine_jobs_witness:
  "actions_ok (run_action_call [] (\<lambda>b. b) ex_draw ex_now ex_device (ClaimAction [1] ''ep_1'') ex_queue_db) \<and>
   jobs_step (strftime_z ex_now) ex_queue_db
     (run_action_call [] (\<lambda>b. b) ex_draw ex_now ex_device (ClaimAction [1] ''ep_1'') ex_queue_db)"
  by (rule action_calls_refine_jobs[OF ex_queue_ok])

lemma lease_has_one_holder_witness:
  "\<exists>a\<in>set (db_actions (run_action_calls [] (\<lambda>b. b)
       [(ex_draw, ex_now + 60, ex_device, ClaimAction [2] ''ep_1'')]
       (ex_queue_db\<lparr>db_actions := [leased_row (\<lambda>b. b) [1] ex_now ex_action]\<rparr>))).
     ac_id a = ''act_1'' \<and> held_or_done_by (lease_token_hash (\<lambda>b. b) (token_urlsafe [1])) (strftime_z (ex_now + 120)) (job_of a)"
proof -
  have id: "ac_id (response_action_payload (leased_row (\<lambda>b. b) [1] ex_now ex_action)) = ''act_1''"
    by (simp add: response_action_payload_def ex_action_def new_action_def generate_prefixed_id_def)
  show ?thesis
    using lease_has_one_holder[OF ex_queue_ok ex_claim[of "\<lambda>b. b" "[1]" ex_draw] list.set_intros(1),
        of "[(ex_draw, ex_now + 60, ex_device, ClaimAction [2] ''ep_1'')]" "[]"]
    unfolding id by auto
qed

lemma distinct_map_singleton: "distinct (map f xs) \<Longrightarrow> set xs = {x} \<Longrightarrow> xs = [x]"
  by (cases xs; cases "tl xs") auto

lemma claims_serve_oldest_first_witness:
  "snd (drain (claim_next (\<lambda>b. b) ex_now ex_device ''ep_1'') [([1], ex_draw), ([2], ex_draw)] ex_queue_db) =
     [Some ''act_1'', None]"
proof -
  have ready: "claim_ready ex_now ex_device ''ep_1'' ''ep_1'' ex_queue_db"
    by (simp add: claim_ready_def ex_queue_ok ex_ids ex_admitted ex_now_text)
  have rows: "{a. awaits_claim (strftime_z ex_now) ''ep_1'' ex_queue_db a} = {ex_action}"
    using set_claim_candidates[of ex_queue_db "strftime_z ex_now" "''ep_1''"] ex_candidates ex_queue_ok
    by (simp add: actions_ok_def)
  have "ac_id ex_action = ''act_1''" by (simp add: ex_action_def new_action_def generate_prefixed_id_def)
  with claims_serve_oldest_first[OF ready, of "\<lambda>b. b" "[([1], ex_draw), ([2], ex_draw)]"] show ?thesis
    unfolding rows by (auto dest: distinct_map_singleton)
qed

definition ex_result :: action_result_in where
  "ex_result = \<lparr>re_status = Succeeded, re_summary = ''done'', re_lease_token = token_urlsafe [2]\<rparr>"

definition ex_leased_db :: db where
  "ex_leased_db = ex_queue_db\<lparr>db_actions := [leased_row (\<lambda>b. b) [2] ex_now ex_action]\<rparr>"

lemma ex_complete:
  "\<exists>db1 row1 db2 row2. complete_response_action (\<lambda>b. b) ex_draw ex_now ex_device ''act_1'' ex_result ex_leased_db = (db1, Inr row1) \<and>
     complete_response_action (\<lambda>b. b) ex_draw ex_now ex_device ''act_1'' ex_result db1 = (db2, Inr row2)"
proof -
  let ?h = "lease_token_hash (\<lambda>b. b) (token_urlsafe [2])"
  have h: "is_ascii ?h" "?h \<noteq> []" by code_simp+
  have e: "\<not> strftime_z (ex_now + 120) \<le> strftime_z ex_now"
    using utc.stamp_strict[of ex_now "ex_now + 120"] ex_now_text(2) by simp
  have adm: "enforce_device_endpoint ex_device ''ep_1'' = Inr ()"
    "db_endpoints db = [ex_endpoint] \<Longrightarrow> enforce_agent_endpoint ex_device ''ep_1'' db = Inr ex_endpoint" for db
    by (simp_all add: enforce_device_endpoint_def enforce_agent_endpoint_def enforce_endpoint_credential_mode_def ex_device_def)
  have db: "db_locations ex_leased_db = [ex_location]" "db_clients ex_leased_db = [ex_client]" "db_audits ex_leased_db = []"
    "db_endpoints ex_leased_db = [ex_endpoint]" "db_actions ex_leased_db = [leased_row (\<lambda>b. b) [2] ex_now ex_action]"
    by (simp_all add: ex_leased_db_def ex_queue_db_def ex_approved_db_def)
  have a: "ac_id ex_action = ''act_1''" "ac_endpoint ex_action = ''ep_1''"
    by (simp_all add: ex_action_def new_action_def generate_prefixed_id_def)
  have l: "ac_lease_hash (leased_row (\<lambda>b. b) [2] ex_now ex_action) = Some ?h"
    "ac_lease_expires_at (leased_row (\<lambda>b. b) [2] ex_now ex_action) = Some (strftime_z (ex_now + 120))"
    by (simp_all add: leased_row_def lease_action_def)
  note simps = complete_response_action_def normalize_required_string_def trim_required_def ex_ids ex_result_def
    db a l adm h e compare_digest_def record_audit_event_def insert_audit_def audit_event_def audit_call_of_def
    client_exists_def location_exists_def
  show ?thesis by (simp add: simps Let_def)
qed

lemma results_are_final_witness:
  "\<exists>db1 row1 db2 row2. complete_response_action (\<lambda>b. b) ex_draw ex_now ex_device ''act_1'' ex_result ex_leased_db = (db1, Inr row1) \<and>
     complete_response_action (\<lambda>b. b) ex_draw ex_now ex_device ''act_1'' ex_result db1 = (db2, Inr row2) \<and> db2 = db1 \<and> row2 = row1"
proof -
  have ok: "actions_ok ex_leased_db"
    using claim_keeps[OF ex_queue_ok ex_claim[of "\<lambda>b. b" "[2]" ex_draw]] by (simp add: ex_leased_db_def)
  from ex_complete obtain db1 row1 db2 row2 where
    c: "complete_response_action (\<lambda>b. b) ex_draw ex_now ex_device ''act_1'' ex_result ex_leased_db = (db1, Inr row1)"
    "complete_response_action (\<lambda>b. b) ex_draw ex_now ex_device ''act_1'' ex_result db1 = (db2, Inr row2)" by blast
  from results_are_final[OF ok c] c show ?thesis by blast
qed

definition ex_order :: response_action_in where
  "ex_order = \<lparr>ci_endpoint_id = ''ep_1'', ci_grant_id = ''grant_1'', ci_action = RequestElevatedTroubleshooting,
     ci_control_id = None, ci_scope = Some ServiceStatus, ci_idempotency = Some ''k1'', ci_reason = ''look''\<rparr>"

definition ex_ordered_db :: db where
  "ex_ordered_db = ex_approved_db\<lparr>
     db_actions := [new_action (ex_draw 0) ''ep_1'' ''grant_1'' RequestElevatedTroubleshooting None (Some ServiceStatus) ''k1''
       (audit_actor ex_operator) ''look'' (strftime_z ex_now)],
     db_audits := [audit_event (ex_draw 1) (strftime_z ex_now)
       ((audit_call_of ''response_action_created'')\<lparr>ax_principal := Some ex_operator, ax_client := Some ''cl_1'',
          ax_location := Some ''loc_1'', ax_endpoint := Some ''ep_1'',
          ax_target_type := Some ''response_action'', ax_target_id := Some (generate_prefixed_id ''act'' (ex_draw 0)),
          ax_metadata := [(''action'', JStr (approval_action_value RequestElevatedTroubleshooting))],
          ax_created_at := Some (strftime_z ex_now)\<rparr>)]\<rparr>"

lemma ex_visible: "db_endpoints db = [ex_endpoint] \<Longrightarrow>
    visible_endpoint ex_operator ''response_action.create'' ''ep_1'' db = Some ex_endpoint"
  using scope_clause_loop_true[of "Some ''cl_1''" "Some ''loc_1''" "''response_action.create''" "[]" "p_grants ex_operator"]
  by (simp add: visible_endpoint_def where_clause_def scope_clause_def ex_operator_def synthetic_global_grant_def
      legacy_operator_permissions_def permits_def)

lemma ex_order_checks:
  "require_permission ''response_action.create'' ex_operator = Inr ex_operator"
  "normalize_action_shape RequestElevatedTroubleshooting None (Some ServiceStatus) =
     Inr (RequestElevatedTroubleshooting, None, Some ServiceStatus)"
  "declares_action_capability (parse_declared_capabilities ex_endpoint) RequestElevatedTroubleshooting None"
  "db_grants db = [ex_grant] \<Longrightarrow> grant_for_endpoint ''grant_1'' ex_endpoint db = Some ex_grant"
  "validate_grant_scope ex_grant ''ep_1'' RequestElevatedTroubleshooting None (Some ServiceStatus) (strftime_z ex_now) = Inr ()"
proof -
  show "require_permission ''response_action.create'' ex_operator = Inr ex_operator"
    by (rule ex_operator_permits) (simp add: legacy_operator_permissions_def)
  show "normalize_action_shape RequestElevatedTroubleshooting None (Some ServiceStatus) =
     Inr (RequestElevatedTroubleshooting, None, Some ServiceStatus)" by code_simp
  show "declares_action_capability (parse_declared_capabilities ex_endpoint) RequestElevatedTroubleshooting None"
    by (simp add: declares_action_capability_def parse_declared_capabilities_def ex_endpoint_def)
  show "db_grants db = [ex_grant] \<Longrightarrow> grant_for_endpoint ''grant_1'' ex_endpoint db = Some ex_grant"
    by (simp add: grant_for_endpoint_def ex_grant_def)
  show "validate_grant_scope ex_grant ''ep_1'' RequestElevatedTroubleshooting None (Some ServiceStatus) (strftime_z ex_now) = Inr ()"
    by (simp add: validate_grant_scope_Inr ex_now_text) (simp add: ex_grant_def)
qed

lemma ex_create_eq:
  assumes "db_grants db = [ex_grant]" and "db_endpoints db = [ex_endpoint]"
  shows "create_response_action [] ex_draw ex_now ex_operator ex_order db = transaction db
    (store_response_action [] ex_draw 0 (strftime_z ex_now) ex_operator ''ep_1'' ''grant_1'' RequestElevatedTroubleshooting None
      (Some ServiceStatus) ''look'' ''k1'' db)"
  by (simp add: create_response_action_def ex_order_checks ex_order_def normalize_required_string_def trim_required_def ex_ids
      ex_sync[OF assms(1)])

lemma ex_create:
  "\<exists>row. create_response_action [] ex_draw ex_now ex_operator ex_order ex_approved_db = (ex_ordered_db, Inr row) \<and>
     create_response_action [] ex_draw ex_now ex_operator ex_order ex_ordered_db = (ex_ordered_db, Inr row) \<and> ac_idempotency row = ''k1''"
proof -
  have db: "db_locations ex_approved_db = [ex_location]" "db_clients ex_approved_db = [ex_client]" "db_audits ex_approved_db = []"
    by (simp_all add: ex_approved_db_def)
  have db2: "db_grants ex_ordered_db = [ex_grant]" "db_endpoints ex_ordered_db = [ex_endpoint]"
    by (simp_all add: ex_ordered_db_def)
  have g: "gr_id ex_grant = ''grant_1''" by (simp add: ex_grant_def)
  show ?thesis
    unfolding ex_create_eq[OF ex_grants(1,6)] ex_create_eq[OF db2]
    by (simp add: store_response_action_def ex_visible db2 ex_order_checks Let_def action_with_key_def insert_action_def
        new_action_def record_audit_event_def insert_audit_def audit_event_def audit_call_of_def client_exists_def
        location_exists_def db g same_action_request_def response_action_payload_def)
      (simp add: ex_ordered_db_def new_action_def same_action_request_def audit_event_def audit_call_of_def
        response_action_payload_def)
qed

lemma created_action_authorized_witness:
  "\<exists>e\<in>set (db_endpoints ex_approved_db). permits_scope ex_operator ''response_action.create'' (Some (ep_client e)) (Some (ep_location e))"
proof -
  have "unique_on gr_id (db_grants ex_approved_db)" using ex_approved_actions_ok by (simp add: actions_ok_def)
  with created_action_authorized ex_create show ?thesis by blast
qed

lemma idempotency_key_binds_witness:
  "\<exists>row. create_response_action [] ex_draw ex_now ex_operator ex_order ex_approved_db = (ex_ordered_db, Inr row) \<and>
     create_response_action [] ex_draw ex_now ex_operator ex_order ex_ordered_db = (ex_ordered_db, Inr row) \<and>
     audit_actor ex_operator = ac_requested_by row"
proof -
  from ex_create obtain row where c: "create_response_action [] ex_draw ex_now ex_operator ex_order ex_approved_db = (ex_ordered_db, Inr row)"
    "create_response_action [] ex_draw ex_now ex_operator ex_order ex_ordered_db = (ex_ordered_db, Inr row)" "ac_idempotency row = ''k1''"
    by blast
  have k: "ci_idempotency ex_order = Some ''k1''" "normalize_required_string ''k1'' ''idempotency_key'' = Inr (ac_idempotency row)"
    by (simp_all add: ex_order_def normalize_required_string_def trim_required_def ex_ids c(3))
  from idempotency_key_binds[OF ex_approved_actions_ok c(1,2) refl k] c show ?thesis by blast
qed

end
