(* ===== verification/Hierarchy.thy ===== *)
theory Hierarchy
  imports Response_Actions
begin

text \<open>
  \<open>app/hierarchy.py\<close> and \<open>app/api/endpoints/hierarchy.py\<close>: clients and their locations, the scope a
  payload names (by canonical ids or by legacy tenant and site keys), and the filter of the list routes.
\<close>

section \<open>Rows\<close>

definition insert_client :: "client_row \<Rightarrow> db \<Rightarrow> db result" where
  "insert_client c db =
     (if fetch cl_id (cl_id c) (db_clients db) = None
         \<and> (cl_key c = None \<or> fetch cl_key (cl_key c) (db_clients db) = None)
      then Inr (db\<lparr>db_clients := db_clients db @ [c]\<rparr>) else Inl IntegrityError)"

definition insert_location :: "location_row \<Rightarrow> db \<Rightarrow> db result" where
  "insert_location l db =
     (if fetch lo_id (lo_id l) (db_locations db) = None \<and> client_exists db (Some (lo_client l))
         \<and> (lo_key l = None \<or> fetch (\<lambda>x. (lo_client x, lo_key x)) (lo_client l, lo_key l) (db_locations db) = None)
      then Inr (db\<lparr>db_locations := db_locations db @ [l]\<rparr>) else Inl IntegrityError)"

interpretation clients: keyed_table cl_id "fetch cl_id" "save cl_id" "unique_on cl_id"
  by (rule keyed_table_fetch_save)

interpretation locations: keyed_table lo_id "fetch lo_id" "save lo_id" "unique_on lo_id"
  by (rule keyed_table_fetch_save)

section \<open>Scopes\<close>

definition quarantine_client_id :: string where
  "quarantine_client_id = ''cl_legacy_quarantine''"

definition quarantine_location_id :: string where
  "quarantine_location_id = ''loc_legacy_quarantine''"

record resolved_scope =
  rs_client :: string
  rs_location :: string
  rs_tenant :: "string option"
  rs_site :: "string option"

definition location_of_client :: "string \<Rightarrow> string \<Rightarrow> db \<Rightarrow> location_row option" where
  "location_of_client location_id client_id db =
     List.find (\<lambda>l. lo_id l = location_id \<and> lo_client l = client_id) (db_locations db)"

text \<open>\<open>Location.key == None\<close> is \<open>IS NULL\<close>.\<close>

definition location_with_key :: "string \<Rightarrow> string option \<Rightarrow> db \<Rightarrow> location_row option" where
  "location_with_key client_id key db =
     List.find (\<lambda>l. lo_client l = client_id \<and> lo_key l = key) (db_locations db)"

definition load_scope :: "db \<Rightarrow> string \<Rightarrow> string \<Rightarrow> (client_row \<times> location_row) result" where
  "load_scope db client_id location_id =
     (case (fetch cl_id client_id (db_clients db), location_of_client location_id client_id db) of
        (Some c, Some l) \<Rightarrow>
          if cl_state c = HArchived \<or> lo_state l = HArchived
          then Inl (conflict ''client and location must be active'')
          else Inr (c, l)
      | _ \<Rightarrow> Inl (unprocessable ''client_id and location_id must identify one location''))"

record scope_in =
  si_client_id :: "string option"
  si_location_id :: "string option"
  si_tenant_id :: "string option"
  si_site_id :: "string option"
  si_canonical_supplied :: bool
  si_tenant_supplied :: bool
  si_site_supplied :: bool

definition resolve_canonical :: "db \<Rightarrow> scope_in \<Rightarrow> string option \<Rightarrow> string option \<Rightarrow> resolved_scope result" where
  "resolve_canonical db s tenant site =
     (case (si_client_id s, si_location_id s) of
        (Some client_id, Some location_id) \<Rightarrow>
          andThen (normalize_required_string client_id ''client_id'') (\<lambda>client_id.
          andThen (normalize_required_string location_id ''location_id'') (\<lambda>location_id.
          andThen (load_scope db client_id location_id) (\<lambda>(c, l).
            if si_tenant_supplied s \<and> tenant \<noteq> cl_key c then Inl (unprocessable ''tenant_id does not match client_id'')
            else if si_site_supplied s \<and> site \<noteq> lo_key l then Inl (unprocessable ''site_id does not match location_id'')
            else Inr \<lparr>rs_client = cl_id c, rs_location = lo_id l, rs_tenant = cl_key c, rs_site = lo_key l\<rparr>)))
      | _ \<Rightarrow> Inl (unprocessable ''client_id and location_id must be supplied together''))"

definition legacy_scope :: "db \<Rightarrow> string option \<Rightarrow> string option \<Rightarrow> (client_row \<times> location_row) option" where
  "legacy_scope db tenant site =
     (case (case tenant of
              Some _ \<Rightarrow> fetch cl_key tenant (db_clients db)
            | None \<Rightarrow> (case site of
                Some _ \<Rightarrow> fetch cl_id quarantine_client_id (db_clients db)
              | None \<Rightarrow> None)) of
        None \<Rightarrow> None
      | Some c \<Rightarrow> map_option (\<lambda>l. (c, l)) (location_with_key (cl_id c) site db))"

definition resolve_scope :: "db \<Rightarrow> scope_in \<Rightarrow> resolved_scope result" where
  "resolve_scope db s =
     andThen (normalize_optional_string (si_tenant_id s) ''tenant_id'') (\<lambda>tenant.
     andThen (normalize_optional_string (si_site_id s) ''site_id'') (\<lambda>site.
     if si_canonical_supplied s then resolve_canonical db s tenant site
     else
       let quarantine = andThen (load_scope db quarantine_client_id quarantine_location_id) (\<lambda>_.
             Inr \<lparr>rs_client = quarantine_client_id, rs_location = quarantine_location_id, rs_tenant = tenant, rs_site = site\<rparr>)
       in case legacy_scope db tenant site of
         None \<Rightarrow> quarantine
       | Some (c, l) \<Rightarrow>
           if cl_state c = HArchived \<or> lo_state l = HArchived then quarantine
           else Inr \<lparr>rs_client = cl_id c, rs_location = lo_id l, rs_tenant = tenant, rs_site = site\<rparr>))"

definition normalize_optional_id :: "string option \<Rightarrow> string \<Rightarrow> string option result" where
  "normalize_optional_id v field =
     (case v of None \<Rightarrow> Inr None | Some s \<Rightarrow> andThen (normalize_required_string s field) (\<lambda>s. Inr (Some s)))"

definition validate_scope_filter :: "db \<Rightarrow> string option \<Rightarrow> string option \<Rightarrow> (string option \<times> string option) result" where
  "validate_scope_filter db client_id location_id =
     andThen (normalize_optional_id client_id ''client_id'') (\<lambda>c.
     andThen (normalize_optional_id location_id ''location_id'') (\<lambda>l.
     case c of
       None \<Rightarrow> if l \<noteq> None then Inl (unprocessable ''location_id requires client_id'') else Inr (None, None)
     | Some client \<Rightarrow>
         if fetch cl_id client (db_clients db) = None then Inl (not_found ''client not found'')
         else case l of
           None \<Rightarrow> Inr (c, l)
         | Some location \<Rightarrow>
             if location_of_client location client db = None
             then Inl (unprocessable ''location does not belong to client'')
             else Inr (c, l)))"

section \<open>Routes\<close>

record hierarchy_in =
  hi_key :: string
  hi_name :: string

definition list_clients :: "principal \<Rightarrow> db \<Rightarrow> client_row list result" where
  "list_clients p db = andThen (require_permission ''hierarchy.read'' p) (\<lambda>p.
     Inr (order_by (\<lambda>c. (cl_is_system c, cl_name c, cl_id c))
       (filter (\<lambda>c. where_clause (client_scope_clause p ''hierarchy.read'') (Some (cl_id c)) None) (db_clients db))))"

definition unassigned_location :: "string \<Rightarrow> string \<Rightarrow> string \<Rightarrow> location_row" where
  "unassigned_location location_id client_id now_str =
     \<lparr>lo_id = location_id, lo_client = client_id, lo_key = None, lo_name = ''Unassigned'',
      lo_name_normalized = ''unassigned'', lo_state = HQuarantine, lo_is_system = True,
      lo_created_at = now_str, lo_updated_at = now_str\<rparr>"

definition create_client ::
  "(nat \<Rightarrow> string) \<Rightarrow> nat \<Rightarrow> principal \<Rightarrow> hierarchy_in \<Rightarrow> db \<Rightarrow> db \<times> client_row result" where
  "create_client draw now p payload db = transaction db (
     andThen (require_permission ''hierarchy.manage'' p) (\<lambda>p.
     andThen (require_global_permission p ''hierarchy.manage'') (\<lambda>_.
     andThen (normalize_required_string (hi_key payload) ''key'') (\<lambda>key.
     andThen (normalize_required_string (hi_name payload) ''name'') (\<lambda>name.
     let now_str = strftime_z now in
     if fetch cl_key (Some key) (db_clients db) \<noteq> None then Inl (conflict ''client key already exists'')
     else
       let c = \<lparr>cl_id = generate_prefixed_id ''cl'' (draw 0), cl_key = Some key, cl_name = name,
             cl_name_normalized = lower name, cl_state = HActive, cl_is_system = False,
             cl_created_at = now_str, cl_updated_at = now_str\<rparr>
       in andThen (insert_client c db) (\<lambda>db.
          let l = unassigned_location (generate_prefixed_id ''loc'' (draw 1)) (cl_id c) now_str
          in andThen (insert_location l db) (\<lambda>db.
          andThen (record_audit_event (draw 2) now_str
            ((audit_call_of ''client_created'')\<lparr>ax_principal := Some p, ax_client := Some (cl_id c),
               ax_location := Some (lo_id l), ax_target_type := Some ''client'', ax_target_id := Some (cl_id c),
               ax_created_at := Some now_str\<rparr>) db) (\<lambda>db.
          Inr (db, c)))))))))"

definition visible_client :: "principal \<Rightarrow> string \<Rightarrow> db \<Rightarrow> client_row option" where
  "visible_client p client_id db = List.find (\<lambda>c. cl_id c = client_id \<and>
       where_clause (client_scope_clause p ''hierarchy.read'') (Some (cl_id c)) None) (db_clients db)"

definition list_locations :: "principal \<Rightarrow> string \<Rightarrow> db \<Rightarrow> location_row list result" where
  "list_locations p raw_client_id db = andThen (require_permission ''hierarchy.read'' p) (\<lambda>p.
     andThen (normalize_required_string raw_client_id ''client_id'') (\<lambda>client_id.
     if visible_client p client_id db = None then Inl (not_found ''client not found'')
     else Inr (order_by (\<lambda>l. (lo_is_system l, lo_name l, lo_id l))
       (filter (\<lambda>l. lo_client l = client_id \<and>
           where_clause (scope_clause p ''hierarchy.read'') (Some (lo_client l)) (Some (lo_id l))) (db_locations db)))))"

definition create_location ::
  "(nat \<Rightarrow> string) \<Rightarrow> nat \<Rightarrow> principal \<Rightarrow> string \<Rightarrow> hierarchy_in \<Rightarrow> db \<Rightarrow> db \<times> location_row result" where
  "create_location draw now p raw_client_id payload db = transaction db (
     andThen (require_permission ''hierarchy.manage'' p) (\<lambda>p.
     andThen (normalize_required_string raw_client_id ''client_id'') (\<lambda>client_id.
     andThen (normalize_required_string (hi_key payload) ''key'') (\<lambda>key.
     andThen (normalize_required_string (hi_name payload) ''name'') (\<lambda>name.
     let now_str = strftime_z now in
     case fetch cl_id client_id (db_clients db) of
       None \<Rightarrow> Inl (not_found ''client not found'')
     | Some c \<Rightarrow>
       andThen (require_scope p ''hierarchy.manage'' (cl_id c) None True) (\<lambda>_.
       if cl_state c = HArchived then Inl (conflict ''client must be active'')
       else if location_with_key client_id (Some key) db \<noteq> None
       then Inl (conflict ''location key already exists for client'')
       else
         let l = \<lparr>lo_id = generate_prefixed_id ''loc'' (draw 0), lo_client = client_id, lo_key = Some key,
               lo_name = name, lo_name_normalized = lower name, lo_state = HActive, lo_is_system = False,
               lo_created_at = now_str, lo_updated_at = now_str\<rparr>
         in andThen (insert_location l db) (\<lambda>db.
            andThen (record_audit_event (draw 1) now_str
              ((audit_call_of ''location_created'')\<lparr>ax_principal := Some p, ax_client := Some (lo_client l),
                 ax_location := Some (lo_id l), ax_target_type := Some ''location'', ax_target_id := Some (lo_id l),
                 ax_created_at := Some now_str\<rparr>) db) (\<lambda>db.
            Inr (db, l)))))))))"

section \<open>Resolved scopes\<close>

lemma load_scope_Inr:
  "load_scope db client_id location_id = Inr (c, l) \<Longrightarrow> fetch cl_id client_id (db_clients db) = Some c \<and>
     l \<in> set (db_locations db) \<and> lo_id l = location_id \<and> lo_client l = client_id \<and> cl_state c \<noteq> HArchived \<and> lo_state l \<noteq> HArchived"
  by (auto simp: load_scope_def location_of_client_def split: option.splits if_splits dest: find_eq_Some_first)

text \<open>A scope that may hold an endpoint: a location of the named client, neither archived.\<close>

definition open_scope :: "db \<Rightarrow> string \<Rightarrow> string \<Rightarrow> bool" where
  "open_scope db client_id location_id \<longleftrightarrow>
     (\<exists>c\<in>set (db_clients db). \<exists>l\<in>set (db_locations db). cl_id c = client_id \<and> lo_id l = location_id \<and>
        lo_client l = client_id \<and> cl_state c \<noteq> HArchived \<and> lo_state l \<noteq> HArchived)"

lemma load_scope_open: "load_scope db client_id location_id = Inr (c, l) \<Longrightarrow> open_scope db client_id location_id"
  using load_scope_Inr[of db client_id location_id c l] fetch_SomeD[of cl_id client_id "db_clients db" c]
  by (auto simp: open_scope_def)

lemma legacy_scope_Some:
  "legacy_scope db tenant site = Some (c, l) \<Longrightarrow> c \<in> set (db_clients db) \<and> l \<in> set (db_locations db) \<and> lo_client l = cl_id c \<and>
     lo_key l = site \<and> (if tenant = None then cl_id c = quarantine_client_id else cl_key c = tenant)"
  by (auto simp: legacy_scope_def location_with_key_def split: option.splits dest!: fetch_SomeD find_eq_Some_first)

lemma resolve_canonical_Inr:
  assumes "resolve_canonical db s tenant site = Inr r"
  obtains c l where "load_scope db (rs_client r) (rs_location r) = Inr (c, l)" "rs_tenant r = cl_key c" "rs_site r = lo_key l"
    "si_tenant_supplied s \<Longrightarrow> tenant = cl_key c" "si_site_supplied s \<Longrightarrow> site = lo_key l"
    "map_option strip (si_client_id s) = Some (rs_client r)" "map_option strip (si_location_id s) = Some (rs_location r)"
proof -
  obtain ci li where ids: "si_client_id s = Some ci" "si_location_id s = Some li"
    using assms by (auto simp: resolve_canonical_def split: option.splits)
  then obtain c l where l: "load_scope db (strip ci) (strip li) = Inr (c, l)"
    and r: "si_tenant_supplied s \<longrightarrow> tenant = cl_key c" "si_site_supplied s \<longrightarrow> site = lo_key l"
      "r = \<lparr>rs_client = cl_id c, rs_location = lo_id l, rs_tenant = cl_key c, rs_site = lo_key l\<rparr>"
    using assms
    by (auto simp: resolve_canonical_def andThen_eq_Inr normalize_required_string_def trim_required_def Let_def split: if_splits)
  have "cl_id c = strip ci" "lo_id l = strip li" using load_scope_Inr[OF l] fetch_SomeD by fastforce+
  with l r ids show ?thesis by (intro that[of c l]) auto
qed

lemma resolve_scope_effect:
  assumes "resolve_scope db s = Inr r"
  shows "open_scope db (rs_client r) (rs_location r) \<and>
    (if si_canonical_supplied s
     then map_option strip (si_client_id s) = Some (rs_client r) \<and> map_option strip (si_location_id s) = Some (rs_location r)
     else rs_tenant r = map_option strip (si_tenant_id s) \<and> rs_site r = map_option strip (si_site_id s) \<and>
       (rs_client r = quarantine_client_id \<or>
        (\<exists>c\<in>set (db_clients db). \<exists>l\<in>set (db_locations db). cl_id c = rs_client r \<and> cl_key c = rs_tenant r \<and> rs_tenant r \<noteq> None \<and>
           lo_id l = rs_location r \<and> lo_client l = cl_id c \<and> lo_key l = rs_site r)))"
proof -
  obtain tenant site where n: "normalize_optional_string (si_tenant_id s) ''tenant_id'' = Inr tenant"
    "normalize_optional_string (si_site_id s) ''site_id'' = Inr site"
    using assms by (auto simp: resolve_scope_def andThen_eq_Inr)
  have strips: "tenant = map_option strip (si_tenant_id s)" "site = map_option strip (si_site_id s)"
    using n by (auto simp: normalize_optional_string_def trim_required_def andThen_eq_Inr Let_def split: option.splits if_splits)
  show ?thesis
  proof (cases "si_canonical_supplied s")
    case True
    then have "resolve_canonical db s tenant site = Inr r" using assms n by (simp add: resolve_scope_def)
    then show ?thesis by (rule resolve_canonical_Inr) (use True load_scope_open in auto)
  next
    case False
    note body = assms[unfolded resolve_scope_def n andThen_Inr Let_def, simplified False if_False]
    have quarantine: ?thesis if q: "andThen (load_scope db quarantine_client_id quarantine_location_id) (\<lambda>_.
        Inr \<lparr>rs_client = quarantine_client_id, rs_location = quarantine_location_id, rs_tenant = tenant, rs_site = site\<rparr>) = Inr r"
      using q False strips load_scope_open by (auto simp: andThen_eq_Inr)
    show ?thesis
    proof (cases "legacy_scope db tenant site")
      case None
      then show ?thesis using body by (intro quarantine) simp
    next
      case (Some cl)
      obtain c l where cl: "cl = (c, l)" by (cases cl)
      note leg = legacy_scope_Some[OF Some[unfolded cl]]
      show ?thesis
      proof (cases "cl_state c = HArchived \<or> lo_state l = HArchived")
        case True
        then show ?thesis using body Some cl by (intro quarantine) auto
      next
        case open_ones: False
        then have r: "r = \<lparr>rs_client = cl_id c, rs_location = lo_id l, rs_tenant = tenant, rs_site = site\<rparr>"
          using body Some cl by (auto split: if_splits)
        have "open_scope db (cl_id c) (lo_id l)" unfolding open_scope_def using leg open_ones by blast
        moreover have "cl_id c = quarantine_client_id \<or> (cl_key c = tenant \<and> tenant \<noteq> None)" using leg by (auto split: if_splits)
        ultimately show ?thesis using leg False strips by (auto simp: r)
      qed
    qed
  qed
qed

lemma resolve_scope_open: "resolve_scope db s = Inr r \<Longrightarrow> open_scope db (rs_client r) (rs_location r)"
  using resolve_scope_effect by blast

text \<open>
  C17.  An endpoint always lands in a real place: whatever ids and keys a payload combines, a resolved
  scope is a location of the named client with neither archived; it is the client and location asked
  for by id, or the location with the given site key of the client with the given tenant key, or
  the quarantine, and never a place of another tenant.
\<close>

theorem resolve_scope_sound:
  assumes "resolve_scope db s = Inr r"
  shows "open_scope db (rs_client r) (rs_location r) \<and>
    (if si_canonical_supplied s
     then map_option strip (si_client_id s) = Some (rs_client r) \<and> map_option strip (si_location_id s) = Some (rs_location r)
     else rs_tenant r = map_option strip (si_tenant_id s) \<and> rs_site r = map_option strip (si_site_id s) \<and>
       (rs_client r = quarantine_client_id \<or>
        (\<exists>c\<in>set (db_clients db). \<exists>l\<in>set (db_locations db). cl_id c = rs_client r \<and> cl_key c = rs_tenant r \<and> rs_tenant r \<noteq> None \<and>
           lo_id l = rs_location r \<and> lo_client l = cl_id c \<and> lo_key l = rs_site r)))"
  by (rule resolve_scope_effect[OF assms])

section \<open>The hierarchy stays sound\<close>

text \<open>
  Ids and keys name one row, every location belongs to a client, and every client has its one
  unassigned location that takes endpoints without a site key.
\<close>

definition unassigned_of :: "db \<Rightarrow> string \<Rightarrow> location_row list" where
  "unassigned_of db client_id = filter (\<lambda>l. lo_client l = client_id \<and> lo_key l = None) (db_locations db)"

definition hierarchy_ok :: "db \<Rightarrow> bool" where
  "hierarchy_ok db \<longleftrightarrow> unique_on cl_id (db_clients db) \<and> unique_on lo_id (db_locations db) \<and>
     unique_on cl_key (filter (\<lambda>c. cl_key c \<noteq> None) (db_clients db)) \<and>
     unique_on (\<lambda>l. (lo_client l, lo_key l)) (db_locations db) \<and>
     lo_client ` set (db_locations db) \<subseteq> cl_id ` set (db_clients db) \<and>
     (\<forall>c\<in>set (db_clients db). unassigned_of db (cl_id c) \<noteq> [])"

lemma insert_client_Inr [result_simps]:
  "insert_client c db = Inr db' \<longleftrightarrow> cl_id c \<notin> cl_id ` set (db_clients db) \<and>
     (cl_key c = None \<or> cl_key c \<notin> cl_key ` set (db_clients db)) \<and> db' = db\<lparr>db_clients := db_clients db @ [c]\<rparr>"
  unfolding insert_client_def fetch_None by auto

lemma insert_location_Inr [result_simps]:
  "insert_location l db = Inr db' \<longleftrightarrow> lo_id l \<notin> lo_id ` set (db_locations db) \<and> lo_client l \<in> cl_id ` set (db_clients db) \<and>
     (lo_key l = None \<or> (lo_client l, lo_key l) \<notin> (\<lambda>x. (lo_client x, lo_key x)) ` set (db_locations db)) \<and>
     db' = db\<lparr>db_locations := db_locations db @ [l]\<rparr>"
  unfolding insert_location_def client_exists_def fetch_None by auto

definition hierarchy_after_client :: "db \<Rightarrow> client_row \<Rightarrow> location_row \<Rightarrow> audit_row \<Rightarrow> db" where
  "hierarchy_after_client db c l u =
     db\<lparr>db_clients := db_clients db @ [c], db_locations := db_locations db @ [l], db_audits := db_audits db @ [u]\<rparr>"

lemma create_client_Inr:
  assumes "create_client draw now p payload db = (db', Inr c)"
  obtains l u where "has_global_permission p ''hierarchy.manage''" "cl_key c = Some (strip (hi_key payload))" "cl_state c = HActive"
    "cl_id c \<notin> cl_id ` set (db_clients db)" "cl_key c \<notin> cl_key ` set (db_clients db)"
    "l = unassigned_location (generate_prefixed_id ''loc'' (draw 1)) (cl_id c) (strftime_z now)"
    "lo_id l \<notin> lo_id ` set (db_locations db)" "db' = hierarchy_after_client db c l u" "strip (hi_key payload) \<noteq> []"
proof -
  note run = assms[unfolded create_client_def transaction_Inr andThen_eq_Inr Let_def]
  have p: "require_permission ''hierarchy.manage'' p = Inr q \<Longrightarrow> q = p" for q
    by (auto simp: require_permission_def split: if_splits)
  obtain db1 db2 l x where
    g: "has_global_permission p ''hierarchy.manage''" and k: "strip (hi_key payload) \<noteq> []" "cl_key c = Some (strip (hi_key payload))"
    and st: "cl_state c = HActive" and i1: "insert_client c db = Inr db1" and i2: "insert_location l db1 = Inr db2"
    and l: "l = unassigned_location (generate_prefixed_id ''loc'' (draw 1)) (cl_id c) (strftime_z now)"
    and au: "record_audit_event (draw 2) (strftime_z now) x db2 = Inr db'"
    using run
    by (auto simp: andThen_eq_Inr normalize_required_string_def trim_required_def Let_def require_global_permission_def
        split: if_splits dest!: p)
  have "db' = hierarchy_after_client db c l (audit_event (draw 2) (strftime_z now) x)"
    using record_audit_Inr[OF au] i1 i2 by (simp add: insert_client_Inr insert_location_Inr hierarchy_after_client_def)
  then show ?thesis
    using that[OF g k(2) st _ _ l _ _ k(1)] i1 i2 k(2) by (auto simp: insert_client_Inr insert_location_Inr)
qed

lemma create_location_Inr:
  assumes "create_location draw now p raw_client_id payload db = (db', Inr l)"
  obtains c u where "fetch cl_id (strip raw_client_id) (db_clients db) = Some c" "lo_client l = cl_id c"
    "permits_scope p ''hierarchy.manage'' (Some (cl_id c)) None" "lo_key l = Some (strip (hi_key payload))" "lo_state l = HActive"
    "lo_id l \<notin> lo_id ` set (db_locations db)" "(lo_client l, lo_key l) \<notin> (\<lambda>x. (lo_client x, lo_key x)) ` set (db_locations db)"
    "db' = db\<lparr>db_locations := db_locations db @ [l], db_audits := db_audits db @ [u]\<rparr>"
proof -
  note run = assms[unfolded create_location_def transaction_Inr andThen_eq_Inr Let_def]
  have p: "require_permission ''hierarchy.manage'' p = Inr q \<Longrightarrow> q = p" for q
    by (auto simp: require_permission_def split: if_splits)
  obtain c where c: "fetch cl_id (strip raw_client_id) (db_clients db) = Some c"
    using run
    by (cases "fetch cl_id (strip raw_client_id) (db_clients db)")
      (auto simp: andThen_eq_Inr normalize_required_string_def trim_required_def Let_def split: if_splits)
  note id = fetch_SomeD[OF c]
  obtain db1 x where
    perm: "permits_scope p ''hierarchy.manage'' (Some (cl_id c)) None"
    and f: "lo_client l = strip raw_client_id" "lo_key l = Some (strip (hi_key payload))" "lo_state l = HActive"
    and i: "insert_location l db = Inr db1" and au: "record_audit_event (draw 1) (strftime_z now) x db1 = Inr db'"
    using run c
    by (auto simp: andThen_eq_Inr normalize_required_string_def trim_required_def Let_def require_scope_def
        split: if_splits dest!: p)
  have "db' = db\<lparr>db_locations := db_locations db @ [l], db_audits := db_audits db @ [audit_event (draw 1) (strftime_z now) x]\<rparr>"
    using record_audit_Inr[OF au] i by (simp add: insert_location_Inr)
  then show ?thesis
    using i f id by (intro that[OF c _ perm f(2,3)]) (auto simp: insert_location_Inr)
qed

lemma hierarchy_ok_audits: "hierarchy_ok (db\<lparr>db_audits := a\<rparr>) = hierarchy_ok db"
  by (simp add: hierarchy_ok_def unassigned_of_def)

lemma create_client_keeps:
  assumes ok: "hierarchy_ok db" and run: "create_client draw now p payload db = (db', Inr c)"
  shows "hierarchy_ok db'"
  using run
proof (cases rule: create_client_Inr)
  case (1 l u)
  have un: "lo_client l = cl_id c" "lo_key l = None" by (simp_all add: 1(6) unassigned_location_def)
  have fresh: "(lo_client l, lo_key l) \<notin> (\<lambda>l. (lo_client l, lo_key l)) ` set (db_locations db)"
    using ok 1(4) un by (auto simp: hierarchy_ok_def)
  have un': "unassigned_of db' x = (if x = cl_id c then unassigned_of db x @ [l] else unassigned_of db x)" for x
    by (simp add: unassigned_of_def 1(8) hierarchy_after_client_def un)
  have clients: "db_clients db' = db_clients db @ [c]" and locs: "db_locations db' = db_locations db @ [l]"
    by (simp_all add: 1(8) hierarchy_after_client_def)
  have "unique_on cl_key (filter (\<lambda>c. cl_key c \<noteq> None) (db_clients db'))"
    using ok 1(5) by (auto simp: clients hierarchy_ok_def)
  moreover have "\<forall>x\<in>set (db_clients db'). unassigned_of db' (cl_id x) \<noteq> []"
    using ok by (auto simp: clients un' hierarchy_ok_def)
  ultimately show ?thesis
    using ok 1(4,7) fresh un by (auto simp: hierarchy_ok_def clients locs)
qed

lemma create_location_keeps:
  assumes ok: "hierarchy_ok db" and run: "create_location draw now p raw_client_id payload db = (db', Inr l)"
  shows "hierarchy_ok db'"
  using run
proof (cases rule: create_location_Inr)
  case (1 c u)
  have c: "c \<in> set (db_clients db)" using fetch_SomeD[OF 1(1)] by simp
  have un: "unassigned_of db' x = unassigned_of db x" for x by (simp add: unassigned_of_def 1(8) 1(4))
  have clients: "db_clients db' = db_clients db" and locs: "db_locations db' = db_locations db @ [l]"
    by (simp_all add: 1(8))
  show ?thesis
    using ok c 1(2,6,7) by (auto simp: hierarchy_ok_def clients locs un)
qed

text \<open>
  The hierarchy stays sound: creating clients and locations, whoever calls and however it ends,
  keeps ids and keys unambiguous, every location under an existing client, and exactly one unassigned
  location in every client.
\<close>

theorem hierarchy_calls_keep_contract:
  assumes "hierarchy_ok db"
  shows "hierarchy_ok (fst (create_client draw now p payload db)) \<and>
    hierarchy_ok (fst (create_location draw now p raw_client_id payload db))"
proof -
  have "hierarchy_ok (fst (create_client draw now p payload db))"
    using create_client_keeps[OF assms, of draw now p payload] assms
    by (cases "create_client draw now p payload db"; cases "snd (create_client draw now p payload db)")
      (auto simp: create_client_def transaction_Inl)
  moreover have "hierarchy_ok (fst (create_location draw now p raw_client_id payload db))"
    using create_location_keeps[OF assms, of draw now p raw_client_id payload] assms
    by (cases "create_location draw now p raw_client_id payload db";
        cases "snd (create_location draw now p raw_client_id payload db)")
      (auto simp: create_location_def transaction_Inl)
  ultimately show ?thesis ..
qed

text \<open>
  A new client can take legacy endpoints at once: after it was created with a key, a payload that
  names only that tenant key resolves to the client and its unassigned location, not to the quarantine.
\<close>

theorem created_client_resolves:
  assumes ok: "hierarchy_ok db" and run: "create_client draw now p payload db = (db', Inr c)"
    and legacy: "\<not> si_canonical_supplied s" "si_site_id s = None" "map_option strip (si_tenant_id s) = cl_key c"
  shows "\<exists>l. unassigned_of db' (cl_id c) = [l] \<and>
    resolve_scope db' s = Inr \<lparr>rs_client = cl_id c, rs_location = lo_id l, rs_tenant = cl_key c, rs_site = None\<rparr>"
  using run
proof (cases rule: create_client_Inr)
  case (1 l u)
  have un: "lo_client l = cl_id c" "lo_key l = None" "lo_state l = HQuarantine"
    by (simp_all add: 1(6) unassigned_location_def)
  have clients: "db_clients db' = db_clients db @ [c]" and locs: "db_locations db' = db_locations db @ [l]"
    by (simp_all add: 1(8) hierarchy_after_client_def)
  have none: "\<forall>x\<in>set (db_locations db). lo_client x \<noteq> cl_id c"
  proof
    fix x assume "x \<in> set (db_locations db)"
    then have "lo_client x \<in> cl_id ` set (db_clients db)" using ok unfolding hierarchy_ok_def by blast
    then show "lo_client x \<noteq> cl_id c" using 1(4) by metis
  qed
  then have one: "unassigned_of db' (cl_id c) = [l]" by (auto simp: unassigned_of_def locs un filter_empty_conv)
  have "fetch cl_key (cl_key c) (db_clients db') = Some c"
    using 1(5) by (simp add: clients fetch_append fetch_None split: option.splits)
      (metis fetch_SomeD image_eqI option.exhaust)
  moreover
  have none_found: "List.find (\<lambda>l. lo_client l = cl_id c \<and> lo_key l = None) (db_locations db) = None"
    using none by (auto simp: find_None_iff)
  have "location_with_key (cl_id c) None db' = Some l"
    using none_found un by (simp add: location_with_key_def locs find_append)
  ultimately have leg: "legacy_scope db' (cl_key c) None = Some (c, l)"
    using 1(2) by (simp add: legacy_scope_def)
  obtain v where v: "si_tenant_id s = Some v" "strip v = strip (hi_key payload)" "strip v \<noteq> []"
    using legacy(3) 1(2,9) by auto
  have "resolve_scope db' s = Inr \<lparr>rs_client = cl_id c, rs_location = lo_id l, rs_tenant = cl_key c, rs_site = None\<rparr>"
    using v legacy leg 1(2,3) un(3)
    by (simp add: resolve_scope_def normalize_optional_string_def trim_required_def Let_def)
  then show ?thesis using one by blast
qed

section \<open>A first client\<close>

definition ex_new_client :: hierarchy_in where
  "ex_new_client = \<lparr>hi_key = ''acme'', hi_name = ''Acme''\<rparr>"

definition ex_tenant_scope :: scope_in where
  "ex_tenant_scope = \<lparr>si_client_id = None, si_location_id = None, si_tenant_id = Some ''acme'', si_site_id = None,
     si_canonical_supplied = False, si_tenant_supplied = True, si_site_supplied = False\<rparr>"

lemma ex_hierarchy_strings: "strip ''acme'' = ''acme''" "strip ''Acme'' = ''Acme''"
  by code_simp+

lemma ex_empty_hierarchy: "hierarchy_ok empty_db"
  by (simp add: hierarchy_ok_def empty_db_def unique_on_def)

lemma ex_client_created:
  "\<exists>db' c. create_client ex_draw 5 ex_operator ex_new_client empty_db = (db', Inr c)"
proof -
  have perm: "require_permission ''hierarchy.manage'' ex_operator = Inr ex_operator"
    by (rule ex_operator_permits) (simp add: legacy_operator_permissions_def)
  have g: "require_global_permission ex_operator ''hierarchy.manage'' = Inr ()"
    by (simp add: require_global_permission_def has_global_permission_def ex_operator_def synthetic_global_grant_def
        legacy_operator_permissions_def)
  show ?thesis
    by (simp add: create_client_def perm g ex_new_client_def normalize_required_string_def trim_required_def
        ex_hierarchy_strings Let_def insert_client_def insert_location_def empty_db_def client_exists_def
        unassigned_location_def record_audit_event_def insert_audit_def audit_event_def audit_call_of_def location_exists_def)
qed

lemma resolve_scope_sound_witness:
  "\<exists>db' c r. create_client ex_draw 5 ex_operator ex_new_client empty_db = (db', Inr c) \<and>
     resolve_scope db' ex_tenant_scope = Inr r \<and> open_scope db' (rs_client r) (rs_location r)"
proof -
  obtain db' c where run: "create_client ex_draw 5 ex_operator ex_new_client empty_db = (db', Inr c)"
    using ex_client_created by blast
  obtain l u where u: "db' = hierarchy_after_client empty_db c l u" "cl_key c = Some ''acme''" "cl_state c = HActive"
    "l = unassigned_location (generate_prefixed_id ''loc'' (ex_draw 1)) (cl_id c) (strftime_z 5)"
    using create_client_Inr[OF run] by (metis ex_new_client_def ex_hierarchy_strings(1) hierarchy_in.select_convs(1))
  have "resolve_scope db' ex_tenant_scope =
      Inr \<lparr>rs_client = cl_id c, rs_location = lo_id l, rs_tenant = Some ''acme'', rs_site = None\<rparr>"
    using u(2,3) by (simp add: resolve_scope_def ex_tenant_scope_def normalize_optional_string_def trim_required_def
        ex_hierarchy_strings legacy_scope_def location_with_key_def u(1,4) hierarchy_after_client_def empty_db_def
        unassigned_location_def)
  with run resolve_scope_sound[OF this] show ?thesis by blast
qed

lemma hierarchy_calls_keep_contract_witness:
  "hierarchy_ok (fst (create_client ex_draw 5 ex_operator ex_new_client empty_db)) \<and>
   hierarchy_ok (fst (create_location ex_draw 5 ex_operator ''cl_1'' ex_new_client empty_db))"
  by (rule hierarchy_calls_keep_contract[OF ex_empty_hierarchy])

lemma created_client_resolves_witness:
  "\<exists>db' c. \<exists>l :: location_row. create_client ex_draw 5 ex_operator ex_new_client empty_db = (db', Inr c) \<and>
     resolve_scope db' ex_tenant_scope = Inr \<lparr>rs_client = cl_id c, rs_location = lo_id l, rs_tenant = cl_key c, rs_site = None\<rparr>"
proof -
  obtain db' c where run: "create_client ex_draw 5 ex_operator ex_new_client empty_db = (db', Inr c)"
    using ex_client_created by blast
  have "cl_key c = Some ''acme''"
    using create_client_Inr[OF run] by (metis ex_new_client_def ex_hierarchy_strings(1) hierarchy_in.select_convs(1))
  then have "\<not> si_canonical_supplied ex_tenant_scope" "si_site_id ex_tenant_scope = None"
    "map_option strip (si_tenant_id ex_tenant_scope) = cl_key c"
    by (simp_all add: ex_tenant_scope_def ex_hierarchy_strings)
  from created_client_resolves[OF ex_empty_hierarchy run this] run show ?thesis by blast
qed

end
