(* ===== verification/Endpoints.thy ===== *)
theory Endpoints
  imports Hierarchy
begin

text \<open>
  \<open>app/api/endpoints/endpoints.py\<close>: legacy enrollment, approval of pending devices, heartbeats with
  their capability manifests, and the inventory.  \<open>'a field\<close> says whether a payload field was in
  \<open>model_fields_set\<close>.
\<close>

section \<open>Payloads\<close>

datatype 'a field = Absent | Given 'a

definition value_or :: "'a \<Rightarrow> 'a field \<Rightarrow> 'a" where
  "value_or d f = (case f of Absent \<Rightarrow> d | Given v \<Rightarrow> v)"

record endpoint_enroll_in =
  en_fingerprint :: string
  en_hostname :: string
  en_platform :: platform
  en_platform_version :: "string option field"
  en_agent_version :: string
  en_protocol :: "string field"
  en_architecture :: "string option field"
  en_tenant_id :: "string option field"
  en_site_id :: "string option field"

record endpoint_heartbeat_in =
  hb_agent_version :: string
  hb_protocol :: "string field"
  hb_architecture :: "string option field"
  hb_platform_version :: "string option field"
  hb_platform_profile :: string
  hb_connectivity :: connectivity
  hb_capabilities :: "string list"
  hb_manifest :: "capability_manifest option"
  hb_hooks :: execution_hooks

record heartbeat_ack =
  ha_endpoint_id :: string
  ha_status :: endpoint_status
  ha_connectivity :: "connectivity option"
  ha_last_seen_at :: string
  ha_last_heartbeat_at :: "string option"
  ha_accepted_capability_count :: nat
  ha_pending_action_count :: nat
  ha_protocol :: protocol_payload
  ha_created_at :: string
  ha_updated_at :: string

section \<open>Responses\<close>

record endpoint_response =
  er_endpoint_id :: string
  er_fingerprint :: string
  er_hostname :: string
  er_platform :: platform
  er_platform_version :: "string option"
  er_agent_version :: string
  er_protocol :: string
  er_architecture :: "string option"
  er_installation :: "string option"
  er_mode :: credential_mode
  er_token :: "string option"
  er_migration_state :: string
  er_migration_eligible :: bool
  er_client :: string
  er_location :: string
  er_tenant :: "string option"
  er_site :: "string option"
  er_status :: endpoint_status
  er_last_seen_at :: string
  er_created_at :: string
  er_updated_at :: string

definition migration_state :: "endpoint_row \<Rightarrow> string" where
  "migration_state e = (if ep_mode e = DeviceMode then ''canonical'' else ''legacy_reporter'')"

definition endpoint_payload :: "endpoint_row \<Rightarrow> endpoint_response" where
  "endpoint_payload e = \<lparr>er_endpoint_id = ep_id e, er_fingerprint = ep_fingerprint e, er_hostname = ep_hostname e,
     er_platform = ep_platform e, er_platform_version = ep_platform_version e, er_agent_version = ep_agent_version e,
     er_protocol = ep_protocol e, er_architecture = ep_architecture e, er_installation = ep_installation e,
     er_mode = ep_mode e, er_token = ep_token e, er_migration_state = migration_state e,
     er_migration_eligible = (ep_mode e = LegacyShared), er_client = ep_client e, er_location = ep_location e,
     er_tenant = ep_tenant e, er_site = ep_site e, er_status = ep_status e, er_last_seen_at = ep_last_seen_at e,
     er_created_at = ep_created_at e, er_updated_at = ep_updated_at e\<rparr>"

record credential_response =
  cd_id :: string
  cd_endpoint :: string
  cd_status :: credential_status
  cd_replaced_by :: "string option"
  cd_last_used_at :: "string option"
  cd_expires_at :: "string option"
  cd_created_at :: string
  cd_updated_at :: string
  cd_replaced_at :: "string option"
  cd_revoked_at :: "string option"

definition credential_payload :: "credential_row \<Rightarrow> credential_response" where
  "credential_payload c = \<lparr>cd_id = dc_id c, cd_endpoint = dc_endpoint c, cd_status = dc_status c,
     cd_replaced_by = dc_replaced_by c, cd_last_used_at = dc_last_used_at c, cd_expires_at = dc_expires_at c,
     cd_created_at = dc_created_at c, cd_updated_at = dc_updated_at c, cd_replaced_at = dc_replaced_at c,
     cd_revoked_at = dc_revoked_at c\<rparr>"

section \<open>Capabilities and manifests\<close>

definition normalize_declared_capabilities :: "string list \<Rightarrow> string list result" where
  "normalize_declared_capabilities raw =
     andThen (traverse normalize_agent_capability raw) (\<lambda>capabilities.
       if has_duplicates capabilities then Inl (unprocessable ''duplicate declared_capabilities are not allowed'')
       else Inr (sort capabilities))"

definition unsupported_protocol :: py_error where
  "unsupported_protocol = HTTPException 426 ''unsupported_agent_protocol''"

definition require_current_protocol :: "string \<Rightarrow> unit result" where
  "require_current_protocol v =
     (case require_supported_agent_protocol v of Inl _ \<Rightarrow> Inl unsupported_protocol | Inr _ \<Rightarrow> Inr ())"

definition is_action_capability :: "string \<Rightarrow> bool" where
  "is_action_capability identifier \<longleftrightarrow> startswith identifier ''apply_control:'' \<or> startswith identifier ''rollback_control:''"

definition expected_kind :: "string \<Rightarrow> capability_kind" where
  "expected_kind identifier =
     (if identifier = ''collect_posture_snapshot'' then KindCollector
      else if is_action_capability identifier then KindAction else KindCore)"

definition validate_capability_manifest :: "capability_manifest \<Rightarrow> string list \<Rightarrow> capability_manifest result" where
  "validate_capability_manifest manifest declared =
     (let manifest_ids = sort (map cap_id (cm_capabilities manifest)) in
      if manifest_ids \<noteq> declared
      then Inl (unprocessable ''capability_manifest IDs must exactly match declared_capabilities'')
      else andThen (traverse (\<lambda>c. ensure (cap_kind c = expected_kind (cap_id c))
             (unprocessable (''capability '' @ cap_id c @ '' has an invalid kind''))) (cm_capabilities manifest)) (\<lambda>_.
        Inr manifest))"

definition validate_manifest_capability :: "pack list \<Rightarrow> platform \<Rightarrow> string \<Rightarrow> unit result" where
  "validate_manifest_capability packs p identifier =
     (if \<not> is_action_capability identifier then Inr ()
      else let (action, _, control_id) = partition_at (CHR '':'') identifier in
        case require_control_action packs control_id p (if action = ''apply_control'' then ActApply else ActRollback) of
          Inl (ValueError _) \<Rightarrow> Inl (unprocessable (''capability '' @ identifier @ '' is not supported on '' @ platform_value p))
        | Inl e \<Rightarrow> Inl e
        | Inr _ \<Rightarrow> Inr ())"

definition validate_manifest_platform :: "pack list \<Rightarrow> capability_manifest \<Rightarrow> platform \<Rightarrow> unit result" where
  "validate_manifest_platform packs manifest p =
     andThen (traverse (\<lambda>c. validate_manifest_capability packs p (cap_id c)) (cm_capabilities manifest)) (\<lambda>_. Inr ())"

section \<open>Legacy enrollment\<close>

definition enroll_scope_in :: "string option \<Rightarrow> string option \<Rightarrow> endpoint_enroll_in \<Rightarrow> scope_in" where
  "enroll_scope_in tenant site payload =
     \<lparr>si_client_id = None, si_location_id = None, si_tenant_id = tenant, si_site_id = site,
      si_canonical_supplied = False, si_tenant_supplied = en_tenant_id payload \<noteq> Absent,
      si_site_supplied = en_site_id payload \<noteq> Absent\<rparr>"

definition enroll_new_endpoint ::
  "string \<Rightarrow> string \<Rightarrow> string \<Rightarrow> string \<Rightarrow> string \<Rightarrow> string \<Rightarrow> endpoint_enroll_in \<Rightarrow> db \<Rightarrow> (db \<times> endpoint_response \<times> bool) result" where
  "enroll_new_endpoint u now_str fingerprint hostname agent_version protocol payload db =
     andThen (resolve_scope db
       (enroll_scope_in (value_or None (en_tenant_id payload)) (value_or None (en_site_id payload)) payload)) (\<lambda>s.
     andThen (normalize_optional_string (value_or None (en_platform_version payload)) ''platform_version'') (\<lambda>version.
     let e = \<lparr>ep_id = generate_prefixed_id ''ep'' u, ep_fingerprint = fingerprint, ep_hostname = hostname,
           ep_platform = en_platform payload, ep_platform_version = version, ep_platform_profile = None,
           ep_agent_version = agent_version, ep_protocol = protocol,
           ep_architecture = value_or None (en_architecture payload), ep_installation = None,
           ep_mode = LegacyShared, ep_token = None, ep_client = rs_client s, ep_location = rs_location s,
           ep_tenant = rs_tenant s, ep_site = rs_site s, ep_status = EpActive, ep_connectivity = None,
           ep_capabilities = None, ep_manifest = None, ep_hooks = None, ep_last_seen_at = now_str,
           ep_last_heartbeat_at = None, ep_created_at = now_str, ep_updated_at = now_str\<rparr>
     in andThen (insert_endpoint e db) (\<lambda>db. Inr (db, endpoint_payload e, True))))"

definition enroll_scope_unchanged :: "endpoint_row \<Rightarrow> endpoint_enroll_in \<Rightarrow> db \<Rightarrow> unit result" where
  "enroll_scope_unchanged e payload db =
     (if en_tenant_id payload = Absent \<and> en_site_id payload = Absent then Inr ()
      else andThen (resolve_scope db (enroll_scope_in (value_or (ep_tenant e) (en_tenant_id payload))
             (value_or (ep_site e) (en_site_id payload)) payload)) (\<lambda>s.
        if rs_client s \<noteq> ep_client e \<or> rs_location s \<noteq> ep_location e
           \<or> en_tenant_id payload \<noteq> Absent \<and> rs_tenant s \<noteq> ep_tenant e
           \<or> en_site_id payload \<noteq> Absent \<and> rs_site s \<noteq> ep_site e
        then Inl (conflict ''re-enrollment cannot change endpoint client or location'') else Inr ()))"

definition updated_platform_version :: "endpoint_row \<Rightarrow> string option field \<Rightarrow> string option result" where
  "updated_platform_version e f =
     (case f of Absent \<Rightarrow> Inr (ep_platform_version e) | Given v \<Rightarrow> normalize_optional_string v ''platform_version'')"

definition reenroll_endpoint ::
  "principal \<Rightarrow> string \<Rightarrow> string \<Rightarrow> string \<Rightarrow> string \<Rightarrow> endpoint_enroll_in \<Rightarrow> endpoint_row \<Rightarrow> db \<Rightarrow> (db \<times> endpoint_response \<times> bool) result" where
  "reenroll_endpoint p now_str hostname agent_version protocol payload e db =
     andThen (enforce_endpoint_credential_mode p (ep_mode e)) (\<lambda>_.
     if ep_platform e \<noteq> en_platform payload
     then Inl (conflict ''agent fingerprint already enrolled for a different platform'')
     else andThen (enroll_scope_unchanged e payload db) (\<lambda>_.
     andThen (updated_platform_version e (en_platform_version payload)) (\<lambda>version.
     let e' = e\<lparr>ep_hostname := hostname, ep_platform := en_platform payload, ep_agent_version := agent_version,
           ep_protocol := protocol, ep_status := EpActive, ep_last_seen_at := now_str, ep_updated_at := now_str,
           ep_platform_version := version, ep_architecture := value_or (ep_architecture e) (en_architecture payload)\<rparr>
     in Inr (db\<lparr>db_endpoints := save ep_id e' (db_endpoints db)\<rparr>, endpoint_payload e', False))))"

definition enroll_endpoint ::
  "(nat \<Rightarrow> string) \<Rightarrow> nat \<Rightarrow> principal \<Rightarrow> endpoint_enroll_in \<Rightarrow> db \<Rightarrow> db \<times> (endpoint_response \<times> bool) result" where
  "enroll_endpoint draw now p payload db = transaction db (
     andThen (normalize_agent_fingerprint (en_fingerprint payload)) (\<lambda>fingerprint.
     andThen (normalize_required_string (en_hostname payload) ''hostname'') (\<lambda>hostname.
     andThen (normalize_required_string (en_agent_version payload) ''agent_version'') (\<lambda>agent_version.
     andThen (normalize_required_string (value_or legacy_reporter_protocol_version (en_protocol payload)) ''protocol_version'')
       (\<lambda>protocol.
     if protocol \<noteq> legacy_reporter_protocol_version
     then Inl (conflict ''canonical agents must enroll through /api/agent/bootstrap'')
     else case fetch ep_fingerprint fingerprint (db_endpoints db) of
       None \<Rightarrow> enroll_new_endpoint (draw 0) (strftime_z now) fingerprint hostname agent_version protocol payload db
     | Some e \<Rightarrow> reenroll_endpoint p (strftime_z now) hostname agent_version protocol payload e db)))))"

section \<open>Approval of a pending device\<close>

definition approve_pending_endpoint ::
  "(nat \<Rightarrow> string) \<Rightarrow> nat \<Rightarrow> principal \<Rightarrow> string \<Rightarrow> db \<Rightarrow> db \<times> endpoint_response result" where
  "approve_pending_endpoint draw now p raw_endpoint_id db = transaction db (
     andThen (require_permission ''endpoint.approve'' p) (\<lambda>p.
     andThen (normalize_required_string raw_endpoint_id ''endpoint_id'') (\<lambda>endpoint_id.
     let now_str = strftime_z now in
     case visible_endpoint p ''endpoint.approve'' endpoint_id db of
       None \<Rightarrow> Inl (not_found ''endpoint not found'')
     | Some e \<Rightarrow>
       let e' = (if ep_status e = EpPending then e\<lparr>ep_status := EpActive, ep_updated_at := now_str\<rparr> else e);
           db = db\<lparr>db_endpoints := save ep_id e' (db_endpoints db)\<rparr>
       in andThen (record_audit_event (draw 0) now_str
            ((audit_call_of ''endpoint_enrollment_approved'')\<lparr>ax_principal := Some p, ax_client := Some (ep_client e'),
               ax_location := Some (ep_location e'), ax_endpoint := Some (ep_id e'), ax_target_type := Some ''endpoint'',
               ax_target_id := Some (ep_id e'), ax_created_at := Some now_str\<rparr>) db) (\<lambda>db.
          Inr (db, endpoint_payload e')))))"

section \<open>Heartbeats\<close>

definition heartbeat_protocol_check :: "principal \<Rightarrow> string \<Rightarrow> endpoint_heartbeat_in \<Rightarrow> unit result" where
  "heartbeat_protocol_check p protocol payload =
     (if p_method p = DeviceCredential then
        if hb_protocol payload = Absent \<or> hb_architecture payload = Absent
           \<or> value_or None (hb_architecture payload) = None \<or> hb_manifest payload = None
        then Inl (unprocessable ''device heartbeat requires protocol_version, architecture, and capability_manifest'')
        else require_current_protocol protocol
      else if protocol \<noteq> legacy_reporter_protocol_version
      then Inl (conflict ''legacy reporter authentication requires legacy-v1 protocol'')
      else if hb_manifest payload \<noteq> None
      then Inl (unprocessable ''legacy reporters cannot submit a canonical capability_manifest'')
      else Inr ())"

text \<open>The count the acknowledgement reports: the query of the claim route without its order.\<close>

definition pending_action_count :: "string \<Rightarrow> string \<Rightarrow> db \<Rightarrow> nat" where
  "pending_action_count now_str endpoint_id db =
     length (filter (\<lambda>a. ac_endpoint a = endpoint_id \<and> claimable now_str a \<and> under_active_grant now_str db a) (db_actions db))"

definition heartbeat_row ::
  "string \<Rightarrow> string \<Rightarrow> string \<Rightarrow> string \<Rightarrow> string list \<Rightarrow> string option \<Rightarrow>
   capability_manifest option \<Rightarrow> endpoint_heartbeat_in \<Rightarrow> endpoint_row \<Rightarrow> endpoint_row" where
  "heartbeat_row now_str agent_version protocol profile declared version manifest payload e =
     e\<lparr>ep_agent_version := agent_version, ep_protocol := protocol,
       ep_architecture := value_or None (hb_architecture payload), ep_platform_profile := Some profile,
       ep_connectivity := Some (hb_connectivity payload), ep_capabilities := Some declared,
       ep_manifest := manifest, ep_hooks := Some (hb_hooks payload), ep_last_seen_at := now_str,
       ep_last_heartbeat_at := Some now_str, ep_updated_at := now_str,
       ep_status := (if ep_mode e \<noteq> DeviceMode \<or> ep_status e \<noteq> EpPending then EpActive else ep_status e),
       ep_platform_version := version\<rparr>"

text \<open>The transaction of a heartbeat whose payload has been checked.\<close>

definition store_heartbeat ::
  "pack list \<Rightarrow> string \<Rightarrow> principal \<Rightarrow> string \<Rightarrow> string \<Rightarrow> string \<Rightarrow> string \<Rightarrow> string list \<Rightarrow> capability_manifest option \<Rightarrow>
   endpoint_heartbeat_in \<Rightarrow> db \<Rightarrow> (db \<times> heartbeat_ack) result" where
  "store_heartbeat packs now_str p endpoint_id agent_version protocol profile declared manifest payload db =
     (case fetch ep_id endpoint_id (db_endpoints db) of
       None \<Rightarrow> Inl (not_found ''endpoint not found'')
     | Some e \<Rightarrow>
       andThen (enforce_endpoint_credential_mode p (ep_mode e)) (\<lambda>_.
       andThen (case manifest of None \<Rightarrow> Inr () | Some m \<Rightarrow> validate_manifest_platform packs m (ep_platform e)) (\<lambda>_.
       andThen (updated_platform_version e (hb_platform_version payload)) (\<lambda>version.
       let e' = heartbeat_row now_str agent_version protocol profile declared version manifest payload e;
           db = db\<lparr>db_endpoints := save ep_id e' (db_endpoints db)\<rparr>;
           pending = (if ep_status e' \<noteq> EpPending then pending_action_count now_str (ep_id e') db else 0)
       in andThen (if p_method p = DeviceCredential then protocol_compatibility_payload protocol
            else Inr \<lparr>negotiated_version = legacy_reporter_protocol_version, minimum_version = legacy_reporter_protocol_version,
                      supported_versions = [legacy_reporter_protocol_version]\<rparr>) (\<lambda>compatibility.
          Inr (db, \<lparr>ha_endpoint_id = ep_id e', ha_status = ep_status e', ha_connectivity = ep_connectivity e',
            ha_last_seen_at = ep_last_seen_at e', ha_last_heartbeat_at = ep_last_heartbeat_at e',
            ha_accepted_capability_count = length declared, ha_pending_action_count = pending,
            ha_protocol = compatibility, ha_created_at = ep_created_at e', ha_updated_at = ep_updated_at e'\<rparr>))))))"

definition heartbeat_manifest :: "endpoint_heartbeat_in \<Rightarrow> string list \<Rightarrow> capability_manifest option result" where
  "heartbeat_manifest payload declared =
     (case hb_manifest payload of
        None \<Rightarrow> Inr None
      | Some m \<Rightarrow> andThen (validate_capability_manifest m declared) (\<lambda>m. Inr (Some m)))"

definition heartbeat_endpoint ::
  "pack list \<Rightarrow> nat \<Rightarrow> principal \<Rightarrow> string \<Rightarrow> endpoint_heartbeat_in \<Rightarrow> db \<Rightarrow> db \<times> heartbeat_ack result" where
  "heartbeat_endpoint packs now p raw_endpoint_id payload db = transaction db (
     andThen (normalize_required_string raw_endpoint_id ''endpoint_id'') (\<lambda>endpoint_id.
     andThen (enforce_device_endpoint p endpoint_id) (\<lambda>_.
     andThen (normalize_required_string (hb_agent_version payload) ''agent_version'') (\<lambda>agent_version.
     andThen (normalize_required_string (value_or legacy_reporter_protocol_version (hb_protocol payload)) ''protocol_version'')
       (\<lambda>protocol.
     andThen (heartbeat_protocol_check p protocol payload) (\<lambda>_.
     andThen (normalize_required_string (hb_platform_profile payload) ''platform_profile'') (\<lambda>profile.
     andThen (normalize_declared_capabilities (hb_capabilities payload)) (\<lambda>declared.
     andThen (heartbeat_manifest payload declared) (\<lambda>manifest.
     store_heartbeat packs (strftime_z now) p endpoint_id agent_version protocol profile declared manifest payload db)))))))))"

section \<open>The inventory\<close>

record posture_summary =
  ps_snapshot :: string
  ps_observed_at :: string
  ps_profile :: string
  ps_pass :: nat
  ps_fail :: nat
  ps_warn :: nat
  ps_error :: nat
  ps_not_applicable :: nat
  ps_reboot_required :: nat

text \<open>The inventory shows the columns of the row without its fingerprint.\<close>

record endpoint_view =
  vw_endpoint :: endpoint_row
  vw_migration_state :: string
  vw_migration_eligible :: bool
  vw_capabilities :: "string list"
  vw_summary :: "posture_summary option"
  vw_credential :: "credential_response option"
  vw_results :: "posture_row list"

definition posture_count :: "(posture_row \<Rightarrow> bool) \<Rightarrow> posture_row list \<Rightarrow> nat" where
  "posture_count P results = length (filter P results)"

definition latest_posture :: "db \<Rightarrow> string \<Rightarrow> posture_summary option \<times> posture_row list" where
  "latest_posture db endpoint_id =
     (case rev (order_by (\<lambda>s. (sn_observed_at s, sn_id s)) (filter (\<lambda>s. sn_endpoint s = endpoint_id) (db_snapshots db))) of
        [] \<Rightarrow> (None, [])
      | s # _ \<Rightarrow>
          let results = order_by po_control_key (filter (\<lambda>r. po_snapshot r = sn_id s) (db_postures db)) in
          (Some \<lparr>ps_snapshot = sn_id s, ps_observed_at = sn_observed_at s, ps_profile = sn_platform_profile s,
             ps_pass = posture_count (\<lambda>r. po_status r = PosturePass) results,
             ps_fail = posture_count (\<lambda>r. po_status r = PostureFail) results,
             ps_warn = posture_count (\<lambda>r. po_status r = PostureWarn) results,
             ps_error = posture_count (\<lambda>r. po_status r = PostureError) results,
             ps_not_applicable = posture_count (\<lambda>r. po_status r = PostureNotApplicable) results,
             ps_reboot_required = posture_count po_reboot_required results\<rparr>, results))"

definition endpoint_inventory_payload :: "db \<Rightarrow> endpoint_row \<Rightarrow> credential_row option \<Rightarrow> bool \<Rightarrow> endpoint_view" where
  "endpoint_inventory_payload db e credential include_results =
     (let (summary, results) = latest_posture db (ep_id e) in
      \<lparr>vw_endpoint = e\<lparr>ep_fingerprint := []\<rparr>, vw_migration_state = migration_state e,
       vw_migration_eligible = (ep_mode e = LegacyShared), vw_capabilities = parse_declared_capabilities e, vw_summary = summary, vw_credential = map_option credential_payload credential,
       vw_results = (if include_results then results else [])\<rparr>)"

definition list_endpoints :: "principal \<Rightarrow> string option \<Rightarrow> string option \<Rightarrow> db \<Rightarrow> endpoint_view list result" where
  "list_endpoints p client_id location_id db =
     andThen (require_permission ''endpoint.read'' p) (\<lambda>p.
     andThen (validate_scope_filter db client_id location_id) (\<lambda>(client, location).
     andThen (case client of None \<Rightarrow> Inr () | Some c \<Rightarrow> require_scope p ''endpoint.read'' c location True) (\<lambda>_.
     let shown = order_by (\<lambda>e. (ep_created_at e, ep_id e)) (filter (\<lambda>e.
           where_clause (scope_clause p ''endpoint.read'') (Some (ep_client e)) (Some (ep_location e)) \<and>
           (case client of None \<Rightarrow> True | Some c \<Rightarrow> ep_client e = c) \<and>
           (case location of None \<Rightarrow> True | Some l \<Rightarrow> ep_location e = l)) (db_endpoints db));
         credential_by_endpoint = (\<lambda>k. List.find (\<lambda>c. dc_endpoint c = k) (rev (filter (\<lambda>c. dc_status c = CredActive) (db_credentials db))))
     in Inr (map (\<lambda>e. endpoint_inventory_payload db e (credential_by_endpoint (ep_id e)) False) shown))))"

definition get_endpoint_detail :: "principal \<Rightarrow> string \<Rightarrow> db \<Rightarrow> endpoint_view result" where
  "get_endpoint_detail p raw_endpoint_id db =
     andThen (require_permission ''endpoint.read'' p) (\<lambda>p.
     andThen (normalize_required_string raw_endpoint_id ''endpoint_id'') (\<lambda>endpoint_id.
     case visible_endpoint p ''endpoint.read'' endpoint_id db of
       None \<Rightarrow> Inl (not_found ''endpoint not found'')
     | Some e \<Rightarrow> Inr (endpoint_inventory_payload db e (active_credential_of (ep_id e) db) True)))"

end
