(* ===== verification/Endpoint_Lifecycle.thy ===== *)
theory Endpoint_Lifecycle
  imports Endpoints Action_Lifecycle
begin

text \<open>
  What the calls of \<open>endpoints.py\<close> do to the endpoint table: a call that succeeds writes one row back or
  adds one legacy row, and the identity of a stored endpoint never changes.
\<close>

section \<open>Identity and stage of an endpoint\<close>

definition same_device :: "endpoint_row \<Rightarrow> endpoint_row \<Rightarrow> bool" where
  "same_device e e' \<longleftrightarrow> ep_id e' = ep_id e \<and> ep_fingerprint e' = ep_fingerprint e \<and> ep_platform e' = ep_platform e \<and>
     ep_client e' = ep_client e \<and> ep_location e' = ep_location e \<and> ep_created_at e' = ep_created_at e"

definition same_enrollment :: "endpoint_row \<Rightarrow> endpoint_row \<Rightarrow> bool" where
  "same_enrollment e e' \<longleftrightarrow> ep_mode e' = ep_mode e \<and> ep_installation e' = ep_installation e \<and> ep_token e' = ep_token e"

lemma same_device_refl [simp]: "same_device e e"
  by (simp add: same_device_def)

lemma same_enrollment_refl [simp]: "same_enrollment e e"
  by (simp add: same_enrollment_def)

datatype stage = Reporter | AwaitingApproval | Managed

definition stage_of :: "endpoint_row \<Rightarrow> stage" where
  "stage_of e = (if ep_mode e = LegacyShared then Reporter
     else if ep_status e = EpPending then AwaitingApproval else Managed)"

section \<open>Capabilities a manifest may name\<close>

definition capability_supported :: "pack list \<Rightarrow> platform \<Rightarrow> string \<Rightarrow> bool" where
  "capability_supported packs p identifier \<longleftrightarrow> (is_action_capability identifier \<longrightarrow>
     (let (action, _, control_id) = partition_at (CHR '':'') identifier in
      \<exists>rc. require_control_action packs control_id p (if action = ''apply_control'' then ActApply else ActRollback) = Inr rc))"

definition manifest_sound :: "pack list \<Rightarrow> platform \<Rightarrow> capability_manifest \<Rightarrow> string list \<Rightarrow> bool" where
  "manifest_sound packs p m declared \<longleftrightarrow> distinct declared \<and> sort (map cap_id (cm_capabilities m)) = declared \<and>
     (\<forall>c\<in>set (cm_capabilities m). cap_kind c = expected_kind (cap_id c) \<and> capability_supported packs p (cap_id c))"

lemma validate_manifest_capability_Inr:
  "validate_manifest_capability packs p identifier = Inr () \<longleftrightarrow> capability_supported packs p identifier"
proof (cases "is_action_capability identifier")
  case True
  obtain action c control_id where part: "partition_at (CHR '':'') identifier = (action, c, control_id)" by (metis prod_cases3)
  let ?r = "require_control_action packs control_id p (if action = ''apply_control'' then ActApply else ActRollback)"
  have "validate_manifest_capability packs p identifier = Inr () \<longleftrightarrow> (\<exists>rc. ?r = Inr rc)"
    by (cases ?r) (simp_all add: validate_manifest_capability_def True part split: py_error.split del: One_nat_def)
  then show ?thesis by (simp add: capability_supported_def True part)
qed (simp add: validate_manifest_capability_def capability_supported_def)

lemma validate_manifest_sound:
  assumes "validate_capability_manifest m declared = Inr m'" and "validate_manifest_platform packs m p = Inr ()" and "distinct declared"
  shows "m' = m \<and> manifest_sound packs p m declared"
proof -
  have 1: "sort (map cap_id (cm_capabilities m)) = declared" "m' = m"
    and kinds: "\<exists>ys. traverse (\<lambda>c. ensure (cap_kind c = expected_kind (cap_id c))
       (unprocessable (''capability '' @ cap_id c @ '' has an invalid kind''))) (cm_capabilities m) = Inr ys"
    using assms(1) by (auto simp: validate_capability_manifest_def Let_def andThen_eq_Inr split: if_splits)
  have "\<exists>ys. traverse (\<lambda>c. validate_manifest_capability packs p (cap_id c)) (cm_capabilities m) = Inr ys"
    using assms(2) by (auto simp: validate_manifest_platform_def andThen_eq_Inr)
  then have "\<forall>c\<in>set (cm_capabilities m). capability_supported packs p (cap_id c)"
    by (auto simp: traverse_unit_Inr validate_manifest_capability_Inr)
  then show ?thesis using 1 kinds assms(3) by (auto simp: manifest_sound_def traverse_unit_Inr)
qed

lemma normalize_declared_distinct: "normalize_declared_capabilities raw = Inr ds \<Longrightarrow> distinct ds"
  by (auto simp: normalize_declared_capabilities_def andThen_eq_Inr split: if_splits)

section \<open>Heartbeats\<close>

text \<open>The row a heartbeat writes, and what its acknowledgement says of it.\<close>

definition heartbeat_written :: "pack list \<Rightarrow> string \<Rightarrow> principal \<Rightarrow> endpoint_row \<Rightarrow> endpoint_row \<Rightarrow> bool" where
  "heartbeat_written packs now_str p e e' \<longleftrightarrow> same_device e e' \<and> same_enrollment e e' \<and>
     (ep_mode e = DeviceMode \<longrightarrow> p_method p = DeviceCredential \<and> p_endpoint p = Some (ep_id e)) \<and>
     ep_status e' = (if ep_mode e = DeviceMode \<and> ep_status e = EpPending then EpPending else EpActive) \<and>
     ep_last_heartbeat_at e' = Some now_str \<and> ep_last_seen_at e' = now_str \<and>
     (if p_method p = DeviceCredential
      then ep_protocol e' \<in> set supported_agent_protocol_versions \<and>
        (\<exists>m. ep_manifest e' = Some m \<and> manifest_sound packs (ep_platform e) m (parse_declared_capabilities e'))
      else ep_protocol e' = legacy_reporter_protocol_version \<and> ep_manifest e' = None) \<and>
     distinct (parse_declared_capabilities e')"

definition heartbeat_stored :: "string \<Rightarrow> endpoint_row \<Rightarrow> string list \<Rightarrow> db \<Rightarrow> db \<Rightarrow> heartbeat_ack \<Rightarrow> bool" where
  "heartbeat_stored now_str e declared db db' ack \<longleftrightarrow> db' = db\<lparr>db_endpoints := save ep_id e (db_endpoints db)\<rparr> \<and>
     ha_endpoint_id ack = ep_id e \<and> ha_status ack = ep_status e \<and> ha_accepted_capability_count ack = length declared \<and>
     ha_pending_action_count ack = (if ep_status e = EpPending then 0 else pending_action_count now_str (ep_id e) db')"

lemma store_heartbeat_Inr:
  assumes "store_heartbeat packs now_str p eid av protocol profile declared mf payload db = Inr (db', ack)"
    and "fetch ep_id eid (db_endpoints db) = Some e"
  shows "\<exists>version. enforce_endpoint_credential_mode p (ep_mode e) = Inr () \<and>
    (case mf of None \<Rightarrow> Inr () | Some m \<Rightarrow> validate_manifest_platform packs m (ep_platform e)) = Inr () \<and>
    heartbeat_stored now_str (heartbeat_row now_str av protocol profile declared version mf payload e) declared db db' ack"
  using assms(1) unfolding store_heartbeat_def assms(2) option.case Let_def andThen_eq_Inr
  by (elim exE conjE) (auto simp: heartbeat_stored_def)

lemma heartbeat_cases:
  assumes "heartbeat_endpoint packs now p raw_id payload db = (db', Inr ack)"
  obtains e e' where "fetch ep_id (ep_id e) (db_endpoints db) = Some e"
    "normalize_required_string raw_id ''endpoint_id'' = Inr (ep_id e)" "enforce_device_endpoint p (ep_id e) = Inr ()"
    "heartbeat_written packs (strftime_z now) p e e'" "db' = db\<lparr>db_endpoints := save ep_id e' (db_endpoints db)\<rparr>"
    "ha_endpoint_id ack = ep_id e'" "ha_status ack = ep_status e'"
    "ha_accepted_capability_count ack = length (parse_declared_capabilities e')"
    "ha_pending_action_count ack = (if ep_status e' = EpPending then 0 else pending_action_count (strftime_z now) (ep_id e') db')"
proof -
  obtain eid av protocol profile declared mf where
    eid: "normalize_required_string raw_id ''endpoint_id'' = Inr eid" and dev: "enforce_device_endpoint p eid = Inr ()"
    and chk: "heartbeat_protocol_check p protocol payload = Inr ()"
    and decl: "normalize_declared_capabilities (hb_capabilities payload) = Inr declared"
    and man: "heartbeat_manifest payload declared = Inr mf"
    and store: "store_heartbeat packs (strftime_z now) p eid av protocol profile declared mf payload db = Inr (db', ack)"
    using assms unfolding heartbeat_endpoint_def by (auto simp: transaction_Inr andThen_eq_Inr)
  obtain e where f: "fetch ep_id eid (db_endpoints db) = Some e" and id: "ep_id e = eid"
    using store fetch_SomeD[of ep_id eid "db_endpoints db"]
    by (cases "fetch ep_id eid (db_endpoints db)") (simp_all add: store_heartbeat_def)
  obtain version where mode: "enforce_endpoint_credential_mode p (ep_mode e) = Inr ()"
    and plat: "(case mf of None \<Rightarrow> Inr () | Some m \<Rightarrow> validate_manifest_platform packs m (ep_platform e)) = Inr ()"
    and out: "heartbeat_stored (strftime_z now)
        (heartbeat_row (strftime_z now) av protocol profile declared version mf payload e) declared db db' ack"
    using store_heartbeat_Inr[OF store f] by blast
  define e' where e': "e' = heartbeat_row (strftime_z now) av protocol profile declared version mf payload e"
  have dist: "distinct declared" by (rule normalize_declared_distinct[OF decl])
  have fields: "same_device e e'" "same_enrollment e e'" "parse_declared_capabilities e' = declared" "ep_manifest e' = mf"
    "ep_protocol e' = protocol" "ep_last_heartbeat_at e' = Some (strftime_z now)" "ep_last_seen_at e' = strftime_z now"
    "ep_status e' = (if ep_mode e = DeviceMode \<and> ep_status e = EpPending then EpPending else EpActive)" "ep_id e' = ep_id e"
    by (auto simp: e' heartbeat_row_def same_device_def same_enrollment_def parse_declared_capabilities_def)
  have w: "heartbeat_written packs (strftime_z now) p e e'"
  proof (cases "p_method p = DeviceCredential")
    case True
    then obtain m where m: "hb_manifest payload = Some m" and pr: "protocol \<in> set supported_agent_protocol_versions"
      using chk by (auto simp: heartbeat_protocol_check_def require_current_protocol_def require_supported_agent_protocol_def
          split: if_splits)
    obtain m' where v: "validate_capability_manifest m declared = Inr m'" "mf = Some m'"
      using man m by (auto simp: heartbeat_manifest_def andThen_eq_Inr)
    then have "m' = m" by (auto simp: validate_capability_manifest_def Let_def andThen_eq_Inr split: if_splits)
    with v plat have "manifest_sound packs (ep_platform e) m declared" "mf = Some m"
      using validate_manifest_sound[OF v(1) _ dist] by simp_all
    moreover have "p_endpoint p = Some eid"
      using dev True by (simp add: enforce_device_endpoint_def split: if_splits)
    ultimately show ?thesis using True by (simp add: heartbeat_written_def fields pr id dist)
  next
    case False
    then have "mf = None" "protocol = legacy_reporter_protocol_version" "ep_mode e \<noteq> DeviceMode"
      using chk mode man
      by (auto simp: heartbeat_protocol_check_def heartbeat_manifest_def enforce_endpoint_credential_mode_def split: if_splits)
    with False show ?thesis by (simp add: heartbeat_written_def fields dist)
  qed
  show ?thesis
    using f eid dev w out[folded e'] by (intro that[of e e']) (simp_all add: fields id heartbeat_stored_def)
qed

section \<open>Approval and legacy enrollment\<close>

lemma approve_cases:
  assumes "approve_pending_endpoint draw now p raw_id db = (db', Inr v)"
  obtains e e' u where "e \<in> set (db_endpoints db)" "permits_scope p ''endpoint.approve'' (Some (ep_client e)) (Some (ep_location e))"
    "e' = (if ep_status e = EpPending then e\<lparr>ep_status := EpActive, ep_updated_at := strftime_z now\<rparr> else e)"
    "db' = db\<lparr>db_endpoints := save ep_id e' (db_endpoints db), db_audits := db_audits db @ [u]\<rparr>" "v = endpoint_payload e'"
proof -
  obtain eid where perm: "require_permission ''endpoint.approve'' p = Inr p"
    and eid: "normalize_required_string raw_id ''endpoint_id'' = Inr eid"
    using assms unfolding approve_pending_endpoint_def
    by (auto simp: transaction_Inr andThen_eq_Inr require_permission_def split: if_splits)
  obtain e where e: "visible_endpoint p ''endpoint.approve'' eid db = Some e"
    using assms by (cases "visible_endpoint p ''endpoint.approve'' eid db")
      (simp_all add: approve_pending_endpoint_def perm eid transaction_Inr)
  define e' where e': "e' = (if ep_status e = EpPending then e\<lparr>ep_status := EpActive, ep_updated_at := strftime_z now\<rparr> else e)"
  obtain x db1 where au: "record_audit_event (draw 0) (strftime_z now) x (db\<lparr>db_endpoints := save ep_id e' (db_endpoints db)\<rparr>) = Inr db1"
    and out: "db' = db1" "v = endpoint_payload e'"
    using assms unfolding approve_pending_endpoint_def perm eid andThen_Inr Let_def e option.case transaction_Inr andThen_eq_Inr e'[symmetric]
    by blast
  show ?thesis
    using visible_endpointD[OF e] record_audit_Inr[OF au] out by (intro that[of e e' "audit_event (draw 0) (strftime_z now) x"])
      (simp_all add: e')
qed

definition legacy_row :: "endpoint_row \<Rightarrow> bool" where
  "legacy_row e \<longleftrightarrow> ep_mode e = LegacyShared \<and> ep_status e = EpActive \<and> ep_token e = None \<and> ep_installation e = None \<and>
     ep_capabilities e = None \<and> ep_manifest e = None \<and> ep_protocol e = legacy_reporter_protocol_version"

lemma insert_endpoint_Inr [result_simps]:
  "insert_endpoint e db = Inr db' \<longleftrightarrow> ep_id e \<notin> ep_id ` set (db_endpoints db) \<and>
     ep_fingerprint e \<notin> ep_fingerprint ` set (db_endpoints db) \<and>
     (ep_installation e = None \<or> ep_installation e \<notin> ep_installation ` set (db_endpoints db)) \<and>
     location_exists db (Some (ep_client e)) (Some (ep_location e)) \<and>
     (\<forall>t. ep_token e = Some t \<longrightarrow> t \<in> tk_id ` set (db_tokens db)) \<and> db' = db\<lparr>db_endpoints := db_endpoints db @ [e]\<rparr>"
  unfolding insert_endpoint_def fetch_None by (auto split: option.splits)

lemma enroll_new_cases:
  assumes "enroll_new_endpoint u now_str fingerprint hostname agent_version protocol payload db = Inr (db', v, created)"
    and "protocol = legacy_reporter_protocol_version"
  shows "\<exists>e. created \<and> insert_endpoint e db = Inr db' \<and> legacy_row e \<and> open_scope db (ep_client e) (ep_location e) \<and>
    v = endpoint_payload e \<and> ep_created_at e = now_str"
proof -
  obtain s version where s: "resolve_scope db
      (enroll_scope_in (value_or None (en_tenant_id payload)) (value_or None (en_site_id payload)) payload) = Inr s"
    and v: "normalize_optional_string (value_or None (en_platform_version payload)) ''platform_version'' = Inr version"
    using assms(1) unfolding enroll_new_endpoint_def by (auto simp: andThen_eq_Inr)
  have "open_scope db (rs_client s) (rs_location s)" by (rule resolve_scope_open[OF s])
  moreover obtain e where "insert_endpoint e db = Inr db'" "v = endpoint_payload e" created "legacy_row e"
    "ep_client e = rs_client s" "ep_location e = rs_location s" "ep_created_at e = now_str"
    using assms unfolding enroll_new_endpoint_def s v andThen_Inr Let_def andThen_eq_Inr legacy_row_def by fastforce
  ultimately show ?thesis by metis
qed

definition reenrolled :: "principal \<Rightarrow> endpoint_row \<Rightarrow> endpoint_row \<Rightarrow> bool" where
  "reenrolled p e e' \<longleftrightarrow> same_device e e' \<and> same_enrollment e e' \<and> (ep_mode e = DeviceMode \<longrightarrow> p_method p = DeviceCredential) \<and>
     ep_status e' = EpActive \<and> ep_manifest e' = ep_manifest e \<and> ep_capabilities e' = ep_capabilities e"

lemma reenroll_cases:
  assumes "reenroll_endpoint p now_str hostname agent_version protocol payload e db = Inr (db', v, created)"
  shows "\<exists>e'. \<not> created \<and> db' = db\<lparr>db_endpoints := save ep_id e' (db_endpoints db)\<rparr> \<and> reenrolled p e e' \<and> v = endpoint_payload e'"
proof -
  have mode: "enforce_endpoint_credential_mode p (ep_mode e) = Inr ()" and plat: "ep_platform e = en_platform payload"
    using assms by (auto simp: reenroll_endpoint_def andThen_eq_Inr split: if_splits)
  obtain version where v: "updated_platform_version e (en_platform_version payload) = Inr version"
    and sc: "enroll_scope_unchanged e payload db = Inr ()"
    using assms by (auto simp: reenroll_endpoint_def andThen_eq_Inr split: if_splits)
  define e' where "e' = e\<lparr>ep_hostname := hostname, ep_platform := en_platform payload, ep_agent_version := agent_version,
    ep_protocol := protocol, ep_status := EpActive, ep_last_seen_at := now_str, ep_updated_at := now_str,
    ep_platform_version := version, ep_architecture := value_or (ep_architecture e) (en_architecture payload)\<rparr>"
  have "\<not> created \<and> db' = db\<lparr>db_endpoints := save ep_id e' (db_endpoints db)\<rparr> \<and> v = endpoint_payload e'"
    using assms plat unfolding reenroll_endpoint_def mode sc v andThen_Inr Let_def e'_def by auto
  moreover have "reenrolled p e e'"
    using mode plat by (auto simp: reenrolled_def same_device_def same_enrollment_def e'_def enforce_endpoint_credential_mode_def
        split: if_splits)
  ultimately show ?thesis by blast
qed

lemma enroll_cases:
  assumes "enroll_endpoint draw now p payload db = (db', Inr (v, created))"
  obtains (new) e where "created" "insert_endpoint e db = Inr db'" "legacy_row e" "open_scope db (ep_client e) (ep_location e)"
      "v = endpoint_payload e" "ep_created_at e = strftime_z now"
    | (again) e e' where "\<not> created" "e \<in> set (db_endpoints db)" "db' = db\<lparr>db_endpoints := save ep_id e' (db_endpoints db)\<rparr>"
      "reenrolled p e e'" "v = endpoint_payload e'"
proof -
  obtain fp hostname av protocol where pr: "protocol = legacy_reporter_protocol_version"
    and body: "(case fetch ep_fingerprint fp (db_endpoints db) of
       None \<Rightarrow> enroll_new_endpoint (draw 0) (strftime_z now) fp hostname av protocol payload db
     | Some e \<Rightarrow> reenroll_endpoint p (strftime_z now) hostname av protocol payload e db) = Inr (db', v, created)"
    using assms unfolding enroll_endpoint_def by (auto simp: transaction_Inr andThen_eq_Inr split: if_splits)
  show thesis
  proof (cases "fetch ep_fingerprint fp (db_endpoints db)")
    case None
    then show thesis using enroll_new_cases[OF _ pr] body new by fastforce
  next
    case (Some e)
    then have "e \<in> set (db_endpoints db)" using fetch_SomeD by fastforce
    then show thesis using reenroll_cases body Some again by fastforce
  qed
qed

section \<open>Announced work\<close>

text \<open>
  C18.  A heartbeat tells the agent exactly how much work it can claim: the announced number is zero while
  the device waits for approval; otherwise, whatever the agent then claims at that instant under the same
  identity, it receives exactly that many actions, no fewer and no more, however often it asks.
\<close>

theorem heartbeat_announces_claims:
  assumes run: "heartbeat_endpoint packs now p raw_id payload db = (db', Inr ack)"
    and ok: "actions_ok db" and time: "now + 120 < datetime_end"
  shows "(ha_status ack = EpPending \<longrightarrow> ha_pending_action_count ack = 0) \<and>
    (ha_status ack \<noteq> EpPending \<longrightarrow>
       length (filter (\<lambda>k. k \<noteq> None) (snd (drain (claim_next sha now p raw_id) ts db'))) =
         min (length ts) (ha_pending_action_count ack))"
  using run
proof (cases rule: heartbeat_cases)
  case (1 e e')
  have id: "ep_id e' = ep_id e" and mode: "ep_mode e' = ep_mode e"
    using 1(4) by (simp_all add: heartbeat_written_def same_device_def same_enrollment_def)
  have tables: "db_actions db' = db_actions db" "db_grants db' = db_grants db" by (simp_all add: 1(5))
  have ok': "actions_ok db'" using ok by (simp add: actions_ok_def tables)
  show ?thesis
  proof (cases "ep_status e' = EpPending")
    case False
    have count: "ha_pending_action_count ack = length (claim_waiting now (ep_id e) db')"
      using 1(9) False by (simp add: claim_waiting_def claim_candidates_def pending_action_count_def id order_by_def)
    have "fetch ep_id (ep_id e) (db_endpoints db') = Some e'"
      using 1(1) by (simp add: 1(5) fetch_save id)
    moreover have "enforce_endpoint_credential_mode p (ep_mode e') = Inr ()"
      using 1(4) by (simp add: enforce_endpoint_credential_mode_def heartbeat_written_def mode)
    ultimately have "agent_admitted p (ep_id e) db'"
      using False 1(3) by (simp add: agent_admitted_def enforce_agent_endpoint_def)
    then have "claim_ready now p raw_id (ep_id e) db'"
      using ok' time 1(2) by (simp add: claim_ready_def normalize_endpoint_id_def normalize_required_string_def)
    from claims.drain_ready[OF this, of sha ts] count 1(7) False show ?thesis
      by (simp add: filter_map comp_def min_def)
  qed (use 1(7,9) in simp)
qed

definition ex_manifest :: capability_manifest where
  "ex_manifest = \<lparr>cm_schema_version = ''1'', cm_capabilities = [\<lparr>cap_id = ''heartbeat'', cap_kind = KindCore, cap_versions = [''1'']\<rparr>],
     cm_privilege = Elevated, cm_service_context = SystemService, cm_evidence_upload = False, cm_terminal = False,
     cm_max_concurrent_jobs = 1, cm_max_output_bytes = 1024, cm_max_upload_bytes = 1024,
     cm_command_timeout_seconds = 60, cm_health = Healthy, cm_reasons = []\<rparr>"

definition ex_heartbeat :: endpoint_heartbeat_in where
  "ex_heartbeat = \<lparr>hb_agent_version = ''1.0.1'', hb_protocol = Given ''sha-agent-v1'', hb_architecture = Given (Some ''x86_64''),
     hb_platform_version = Absent, hb_platform_profile = ''linux'', hb_connectivity = Online,
     hb_capabilities = [''heartbeat''], hb_manifest = Some ex_manifest,
     hb_hooks = \<lparr>captures_rollback_artifacts = True, reports_execution_results = True, supports_dry_run = False\<rparr>\<rparr>"

lemma ex_heartbeat_checks:
  "normalize_required_string ''1.0.1'' f = Inr ''1.0.1''" "normalize_required_string ''sha-agent-v1'' f = Inr ''sha-agent-v1''"
  "normalize_required_string ''linux'' f = Inr ''linux''" "normalize_required_string ''ep_1'' f = Inr ''ep_1''"
proof -
  have "strip ''1.0.1'' = ''1.0.1''" "strip ''sha-agent-v1'' = ''sha-agent-v1''" "strip ''linux'' = ''linux''" by code_simp+
  then show "normalize_required_string ''1.0.1'' f = Inr ''1.0.1''" "normalize_required_string ''sha-agent-v1'' f = Inr ''sha-agent-v1''"
    "normalize_required_string ''linux'' f = Inr ''linux''" "normalize_required_string ''ep_1'' f = Inr ''ep_1''"
    by (simp_all add: normalize_required_string_def trim_required_def ex_ids)
qed

lemma ex_heartbeat_manifest:
  "normalize_declared_capabilities [''heartbeat''] = Inr [''heartbeat'']"
  "heartbeat_manifest ex_heartbeat [''heartbeat''] = Inr (Some ex_manifest)"
  "validate_manifest_platform packs ex_manifest q = Inr ()"
proof -
  show "normalize_declared_capabilities [''heartbeat''] = Inr [''heartbeat'']" by code_simp
  have "expected_kind ''heartbeat'' = KindCore" "\<not> is_action_capability ''heartbeat''" by code_simp+
  then show "heartbeat_manifest ex_heartbeat [''heartbeat''] = Inr (Some ex_manifest)"
    "validate_manifest_platform packs ex_manifest q = Inr ()"
    by (simp_all add: heartbeat_manifest_def validate_capability_manifest_def ex_manifest_def ex_heartbeat_def
        validate_manifest_platform_def validate_manifest_capability_def)
qed

lemma ex_heartbeat_run:
  "\<exists>db' ack. heartbeat_endpoint packs ex_now ex_device ''ep_1'' ex_heartbeat ex_queue_db = (db', Inr ack) \<and> ha_status ack = EpActive"
proof -
  have dev: "enforce_device_endpoint ex_device ''ep_1'' = Inr ()" "p_method ex_device = DeviceCredential"
    by (simp_all add: enforce_device_endpoint_def ex_device_def)
  have fields: "hb_agent_version ex_heartbeat = ''1.0.1''" "hb_protocol ex_heartbeat = Given ''sha-agent-v1''"
    "hb_platform_profile ex_heartbeat = ''linux''" "hb_capabilities ex_heartbeat = [''heartbeat'']"
    "hb_platform_version ex_heartbeat = Absent"
    by (simp_all add: ex_heartbeat_def)
  have pr: "heartbeat_protocol_check ex_device ''sha-agent-v1'' ex_heartbeat = Inr ()"
    "protocol_compatibility_payload ''sha-agent-v1'' = Inr \<lparr>negotiated_version = ''sha-agent-v1'',
       minimum_version = ''sha-agent-v1'', supported_versions = [''sha-agent-v1'']\<rparr>"
    by (simp_all add: heartbeat_protocol_check_def dev ex_heartbeat_def value_or_def require_current_protocol_def
        require_supported_agent_protocol_def supported_agent_protocol_versions_def current_agent_protocol_version_def
        protocol_compatibility_payload_def)
  have mode: "enforce_endpoint_credential_mode ex_device DeviceMode = Inr ()"
    by (simp add: enforce_endpoint_credential_mode_def dev)
  show ?thesis
    by (simp add: heartbeat_endpoint_def fields dev ex_heartbeat_checks value_or_def pr ex_heartbeat_manifest store_heartbeat_def
        mode updated_platform_version_def Let_def) (simp add: heartbeat_row_def)
qed

lemma heartbeat_announces_claims_witness:
  "\<exists>db' ack. heartbeat_endpoint [] ex_now ex_device ''ep_1'' ex_heartbeat ex_queue_db = (db', Inr ack) \<and>
     length (filter (\<lambda>k. k \<noteq> None) (snd (drain (claim_next (\<lambda>b. b) ex_now ex_device ''ep_1'') [([2], ex_draw)] db'))) =
       min 1 (ha_pending_action_count ack)"
proof -
  obtain db' ack where run: "heartbeat_endpoint [] ex_now ex_device ''ep_1'' ex_heartbeat ex_queue_db = (db', Inr ack)"
    and st: "ha_status ack = EpActive" using ex_heartbeat_run by blast
  from heartbeat_announces_claims[OF run ex_queue_ok ex_now_text(2), of "\<lambda>b. b" "[([2], ex_draw)]"] st run show ?thesis by auto
qed

end
