(* ===== verification/Device_Identity.thy ===== *)
theory Device_Identity
  imports Endpoints Json_Text
begin

text \<open>
  \<open>app/api/endpoints/device_identity.py\<close>: enrollment tokens, their exchange for a device endpoint and its
  first credential, and the rotation and revocation of credentials.  \<open>hmac\<close> is HMAC-SHA-256 on bytes and
  \<open>raw\<close> the random bytes of a token secret.
\<close>

section \<open>Payloads\<close>

record enrollment_token_in =
  ti_client_id :: string
  ti_location_id :: string
  ti_profile :: "string option"
  ti_platform :: "platform option"
  ti_policy :: approval_policy
  ti_minutes :: int
  ti_max_uses :: int

definition enrollment_token_valid :: "enrollment_token_in \<Rightarrow> bool" where
  "enrollment_token_valid payload \<longleftrightarrow>
     length (ti_client_id payload) \<in> {1..64} \<and> length (ti_location_id payload) \<in> {1..64} \<and>
     (case ti_profile payload of None \<Rightarrow> True | Some p \<Rightarrow> length p \<in> {1..64}) \<and>
     1 \<le> ti_minutes payload \<and> ti_minutes payload \<le> 1440 \<and> 1 \<le> ti_max_uses payload \<and> ti_max_uses payload \<le> 1000"

record credential_material =
  mt_credential_id :: string
  mt_secret :: string

definition credential_material_valid :: "'a credential_material_scheme \<Rightarrow> bool" where
  "credential_material_valid m \<longleftrightarrow>
     length (mt_credential_id m) \<in> {19..67} \<and> length (mt_secret m) \<in> {43..128} \<and>
     is_canonical_credential_id (mt_credential_id m) \<and> is_canonical_secret (mt_secret m)"

record exchange_in = credential_material +
  xc_installation :: string
  xc_fingerprint :: string
  xc_hostname :: string
  xc_platform :: platform
  xc_platform_version :: "string option"
  xc_agent_version :: string
  xc_protocol :: string
  xc_architecture :: string

definition exchange_valid :: "exchange_in \<Rightarrow> bool" where
  "exchange_valid payload \<longleftrightarrow> credential_material_valid payload \<and>
     length (xc_installation payload) \<in> {16..128} \<and> length (xc_fingerprint payload) \<in> {1..255} \<and>
     length (xc_hostname payload) \<in> {1..255} \<and>
     (case xc_platform_version payload of None \<Rightarrow> True | Some v \<Rightarrow> length v \<le> 255) \<and>
     length (xc_agent_version payload) \<in> {1..64} \<and> is_canonical_installation_id (xc_installation payload)"

definition request_invalid :: py_error where
  "request_invalid = unprocessable ''request validation''"

section \<open>Responses and errors\<close>

datatype token_status = TokenActive | TokenExpired | TokenExhausted | TokenRevoked

record token_response =
  tr_id :: string
  tr_client :: string
  tr_location :: string
  tr_profile :: "string option"
  tr_platform :: "platform option"
  tr_policy :: approval_policy
  tr_state :: token_status
  tr_expires_at :: string
  tr_max_uses :: int
  tr_use_count :: int
  tr_revoked_at :: "string option"
  tr_created_by :: string
  tr_created_at :: string
  tr_updated_at :: string

definition token_state :: "token_row \<Rightarrow> string \<Rightarrow> token_status" where
  "token_state t now_str =
     (if tk_revoked_at t \<noteq> None then TokenRevoked
      else if tk_expires_at t \<le> now_str then TokenExpired
      else if tk_max_uses t \<le> tk_use_count t then TokenExhausted
      else TokenActive)"

definition token_payload :: "token_row \<Rightarrow> string \<Rightarrow> token_response" where
  "token_payload t now_str = \<lparr>tr_id = tk_id t, tr_client = tk_client t, tr_location = tk_location t,
     tr_profile = tk_profile t, tr_platform = tk_platform t, tr_policy = tk_policy t,
     tr_state = token_state t now_str, tr_expires_at = tk_expires_at t, tr_max_uses = tk_max_uses t,
     tr_use_count = tk_use_count t, tr_revoked_at = tk_revoked_at t, tr_created_by = tk_created_by t,
     tr_created_at = tk_created_at t, tr_updated_at = tk_updated_at t\<rparr>"

record exchange_response =
  xr_endpoint :: endpoint_response
  xr_credential :: credential_response
  xr_protocol :: protocol_payload
  xr_replayed :: bool

definition device_endpoint_payload :: "endpoint_row \<Rightarrow> endpoint_response" where
  "device_endpoint_payload e = (endpoint_payload e)
     \<lparr>er_installation := ep_installation e, er_mode := ep_mode e, er_token := ep_token e\<rparr>"

definition exchange_payload :: "endpoint_row \<Rightarrow> credential_row \<Rightarrow> bool \<Rightarrow> exchange_response result" where
  "exchange_payload e c replayed = andThen (protocol_compatibility_payload (ep_protocol e)) (\<lambda>protocol.
     Inr \<lparr>xr_endpoint = device_endpoint_payload e, xr_credential = credential_payload c, xr_protocol = protocol,
          xr_replayed = replayed\<rparr>)"

definition hash_key_id :: string where
  "hash_key_id = ''primary''"

definition no_hash :: string where
  "no_hash = replicate 64 (CHR ''0'')"

definition hmac_key :: "app_state \<Rightarrow> nat list result" where
  "hmac_key st = (case st_credential_key st of
     None \<Rightarrow> Inl (HTTPException 503 ''device credential service is not configured'') | Some key \<Rightarrow> Inr key)"

definition invalid_enrollment_credentials :: py_error where
  "invalid_enrollment_credentials = HTTPException 401 ''authentication required''"

definition exchange_conflict :: py_error where
  "exchange_conflict = conflict ''enrollment exchange conflicts with an existing installation''"

abbreviation hmac_hex :: "(nat list \<Rightarrow> nat list \<Rightarrow> nat list) \<Rightarrow> nat list \<Rightarrow> nat list \<Rightarrow> string" where
  "hmac_hex hmac \<equiv> (\<lambda>k m. hexdigest (hmac k m))"

definition credential_expiry :: "app_state \<Rightarrow> nat \<Rightarrow> string result" where
  "credential_expiry st now = andThen (add_seconds now (st_lifetime_days st * 86400)) (\<lambda>t. Inr (strftime_z t))"

definition new_credential :: "string \<Rightarrow> string \<Rightarrow> string \<Rightarrow> string \<Rightarrow> string \<Rightarrow> credential_row" where
  "new_credential credential_id endpoint_id secret_hash expires now_str =
     \<lparr>dc_id = credential_id, dc_endpoint = endpoint_id, dc_secret_hash = secret_hash, dc_hash_key = hash_key_id,
      dc_status = CredActive, dc_replaced_by = None, dc_last_used_at = None, dc_expires_at = Some expires,
      dc_created_at = now_str, dc_updated_at = now_str, dc_replaced_at = None, dc_revoked_at = None\<rparr>"

section \<open>Enrollment tokens\<close>

definition token_target ::
  "enrollment_token_in \<Rightarrow> string \<Rightarrow> string \<Rightarrow> db \<Rightarrow> (string option \<times> platform option) result" where
  "token_target payload client_id location_id db =
     (case ti_profile payload of
        None \<Rightarrow> Inr (None, ti_platform payload)
      | Some raw_profile_id \<Rightarrow> andThen (normalize_required_string raw_profile_id ''installer_profile_id'') (\<lambda>profile_id.
          case fetch pr_id profile_id (db_profiles db) of
            None \<Rightarrow> Inl (not_found ''installer profile not found'')
          | Some profile \<Rightarrow>
              if pr_client profile \<noteq> client_id \<or> pr_location profile \<noteq> location_id
              then Inl (unprocessable ''installer profile does not belong to client and location'')
              else if (case ti_platform payload of Some q \<Rightarrow> pr_platform profile \<noteq> q | None \<Rightarrow> False)
              then Inl (unprocessable ''installer profile platform does not match platform'')
              else Inr (Some profile_id, Some (pr_platform profile))))"

definition create_enrollment_token ::
  "(nat list \<Rightarrow> nat list \<Rightarrow> nat list) \<Rightarrow> nat list \<Rightarrow> app_state \<Rightarrow> (nat \<Rightarrow> string) \<Rightarrow> nat \<Rightarrow> principal \<Rightarrow> enrollment_token_in \<Rightarrow>
   db \<Rightarrow> db \<times> (token_response \<times> string) result" where
  "create_enrollment_token hmac raw st draw now p payload db = transaction db (
     andThen (require_permission ''enrollment.manage'' p) (\<lambda>p.
     andThen (ensure (enrollment_token_valid payload) request_invalid) (\<lambda>_.
     andThen (hmac_key st) (\<lambda>key.
     andThen (add_seconds now (ti_minutes payload * 60)) (\<lambda>expires.
     andThen (normalize_required_string (ti_client_id payload) ''client_id'') (\<lambda>client_id.
     andThen (normalize_required_string (ti_location_id payload) ''location_id'') (\<lambda>location_id.
     andThen (load_scope db client_id location_id) (\<lambda>(client, location).
     andThen (require_scope p ''enrollment.manage'' (cl_id client) (Some (lo_id location)) True) (\<lambda>_.
     if cl_state client \<noteq> HActive \<or> lo_state location \<noteq> HActive
     then Inl (conflict ''client and location must be active'')
     else andThen (token_target payload client_id location_id db) (\<lambda>(profile_id, platform).
     let now_str = strftime_z now;
         token_id = generate_prefixed_id ''et'' (draw 0);
         (plaintext, secret) = generate_enrollment_token raw token_id;
         t = \<lparr>tk_id = token_id, tk_secret_hash = enrollment_secret_hash (hmac_hex hmac) key token_id secret,
              tk_hash_key = hash_key_id, tk_client = cl_id client, tk_location = lo_id location,
              tk_profile = profile_id, tk_platform = platform, tk_policy = ti_policy payload,
              tk_expires_at = strftime_z expires, tk_max_uses = ti_max_uses payload, tk_use_count = 0,
              tk_revoked_at = None, tk_created_by = audit_actor p, tk_created_at = now_str, tk_updated_at = now_str\<rparr>
     in andThen (insert_token t db) (\<lambda>db.
        andThen (record_audit_event (draw 1) now_str
          ((audit_call_of ''enrollment_token_created'')\<lparr>ax_principal := Some p, ax_client := Some (tk_client t),
             ax_location := Some (tk_location t), ax_target_type := Some ''enrollment_token'',
             ax_target_id := Some (tk_id t),
             ax_metadata := [(''approval_policy'', JStr (approval_policy_value (tk_policy t))),
               (''expires_at'', JStr (tk_expires_at t)), (''max_uses'', JInt (tk_max_uses t))],
             ax_created_at := Some now_str\<rparr>) db) (\<lambda>db.
        Inr (db, token_payload t now_str, plaintext)))))))))))))"

definition list_enrollment_tokens ::
  "nat \<Rightarrow> principal \<Rightarrow> string option \<Rightarrow> string option \<Rightarrow> db \<Rightarrow> token_response list result" where
  "list_enrollment_tokens now p client_id location_id db =
     andThen (require_permission ''enrollment.read'' p) (\<lambda>p.
     andThen (validate_scope_filter db client_id location_id) (\<lambda>(client, location).
     andThen (case client of None \<Rightarrow> Inr () | Some c \<Rightarrow> require_scope p ''enrollment.read'' c location True) (\<lambda>_.
     Inr (map (\<lambda>t. token_payload t (strftime_z now)) (rev (order_by (\<lambda>t. (tk_created_at t, tk_id t)) (filter (\<lambda>t.
       where_clause (scope_clause p ''enrollment.read'') (Some (tk_client t)) (Some (tk_location t)) \<and>
       (case client of None \<Rightarrow> True | Some c \<Rightarrow> tk_client t = c) \<and>
       (case location of None \<Rightarrow> True | Some l \<Rightarrow> tk_location t = l)) (db_tokens db))))))))"

definition visible_token :: "principal \<Rightarrow> string \<Rightarrow> db \<Rightarrow> token_row option" where
  "visible_token p token_id db = List.find (\<lambda>t. tk_id t = token_id \<and>
     where_clause (scope_clause p ''enrollment.manage'') (Some (tk_client t)) (Some (tk_location t))) (db_tokens db)"

definition revoke_enrollment_token ::
  "(nat \<Rightarrow> string) \<Rightarrow> nat \<Rightarrow> principal \<Rightarrow> string \<Rightarrow> db \<Rightarrow> db \<times> token_response result" where
  "revoke_enrollment_token draw now p raw_token_id db = transaction db (
     andThen (require_permission ''enrollment.manage'' p) (\<lambda>p.
     andThen (normalize_required_string raw_token_id ''token_id'') (\<lambda>token_id.
     let now_str = strftime_z now in
     case visible_token p token_id db of
       None \<Rightarrow> Inl (not_found ''enrollment token not found'')
     | Some t \<Rightarrow>
       let t' = (if tk_revoked_at t = None then t\<lparr>tk_revoked_at := Some now_str, tk_updated_at := now_str\<rparr> else t);
           db = db\<lparr>db_tokens := save tk_id t' (db_tokens db)\<rparr>
       in andThen (record_audit_event (draw 0) now_str
            ((audit_call_of ''enrollment_token_revoked'')\<lparr>ax_principal := Some p, ax_client := Some (tk_client t'),
               ax_location := Some (tk_location t'), ax_target_type := Some ''enrollment_token'',
               ax_target_id := Some (tk_id t'), ax_created_at := Some now_str\<rparr>) db) (\<lambda>db.
          Inr (db, token_payload t' now_str)))))"

section \<open>The exchange\<close>

text \<open>The payload with its texts normalised, and the values its hash covers.\<close>

definition normalize_exchange :: "exchange_in \<Rightarrow> exchange_in result" where
  "normalize_exchange payload =
     andThen (normalize_agent_fingerprint (xc_fingerprint payload)) (\<lambda>fingerprint.
     andThen (normalize_required_string (xc_hostname payload) ''hostname'') (\<lambda>hostname.
     andThen (case xc_platform_version payload of None \<Rightarrow> Inr None
         | Some v \<Rightarrow> normalize_optional_string (Some v) ''platform_version'') (\<lambda>version.
     andThen (normalize_required_string (xc_agent_version payload) ''agent_version'') (\<lambda>agent_version.
     Inr (payload\<lparr>xc_fingerprint := fingerprint, xc_hostname := hostname, xc_platform_version := version,
                  xc_agent_version := agent_version\<rparr>)))))"

definition exchange_values :: "exchange_in \<Rightarrow> (string \<times> json) list" where
  "exchange_values payload =
     [(''installation_id'', JStr (xc_installation payload)), (''credential_id'', JStr (mt_credential_id payload)),
      (''credential_secret'', JStr (mt_secret payload)), (''agent_fingerprint'', JStr (xc_fingerprint payload)),
      (''hostname'', JStr (xc_hostname payload)), (''platform'', JStr (platform_value (xc_platform payload))),
      (''platform_version'', case xc_platform_version payload of None \<Rightarrow> JNull | Some v \<Rightarrow> JStr v),
      (''agent_version'', JStr (xc_agent_version payload)), (''protocol_version'', JStr (xc_protocol payload)),
      (''architecture'', JStr (xc_architecture payload))]"

definition exchange_token :: "http_request \<Rightarrow> principal \<Rightarrow> (string \<times> string) result" where
  "exchange_token request p =
     (case parse_enrollment_token (request_bearer_token request) of
        Some (token_id, secret) \<Rightarrow>
          if p_method p \<noteq> EnrollmentTokenAuth \<or> p_token p \<noteq> Some token_id then Inl invalid_enrollment_credentials
          else Inr (token_id, secret)
      | None \<Rightarrow> Inl invalid_enrollment_credentials)"

definition redeemed_audit :: "principal \<Rightarrow> endpoint_row \<Rightarrow> string \<Rightarrow> bool \<Rightarrow> string \<Rightarrow> audit_call" where
  "redeemed_audit p e token_id replayed now_str =
     (audit_call_of ''enrollment_token_redeemed'')\<lparr>ax_principal := Some p, ax_client := Some (ep_client e),
        ax_location := Some (ep_location e), ax_endpoint := Some (ep_id e),
        ax_target_type := Some ''enrollment_token'', ax_target_id := Some token_id,
        ax_metadata := [(''replayed'', JBool replayed)], ax_created_at := Some now_str\<rparr>"

text \<open>A repeated exchange of one installation.\<close>

definition replay_exchange ::
  "string \<Rightarrow> string \<Rightarrow> principal \<Rightarrow> string \<Rightarrow> string \<Rightarrow> string \<Rightarrow> string \<Rightarrow> redemption_row \<Rightarrow> db \<Rightarrow> (db \<times> exchange_response) result" where
  "replay_exchange u now_str p token_id request_hash credential_id credential_hash redemption db =
     andThen (compare_digest request_hash (rd_request_hash redemption)) (\<lambda>request_matches.
     let credential = fetch dc_id (rd_credential redemption) (db_credentials db);
         endpoint = fetch ep_id (rd_endpoint redemption) (db_endpoints db)
     in andThen (compare_digest credential_hash (case credential of Some c \<Rightarrow> dc_secret_hash c | None \<Rightarrow> no_hash))
       (\<lambda>credential_matches.
        if \<not> request_matches then Inl exchange_conflict
        else case (credential, endpoint) of
          (Some c, Some e) \<Rightarrow>
            if dc_id c \<noteq> credential_id \<or> dc_status c \<noteq> CredActive
               \<or> (case dc_expires_at c of Some t \<Rightarrow> t \<le> now_str | None \<Rightarrow> False) \<or> \<not> credential_matches
            then Inl invalid_enrollment_credentials
            else andThen (record_audit_event u now_str (redeemed_audit p e token_id True now_str) db) (\<lambda>db.
              andThen (exchange_payload e c True) (\<lambda>view. Inr (db, view)))
        | _ \<Rightarrow> Inl invalid_enrollment_credentials))"

definition token_usable :: "string \<Rightarrow> token_row \<Rightarrow> bool" where
  "token_usable now_str t \<longleftrightarrow> tk_revoked_at t = None \<and> now_str < tk_expires_at t \<and> tk_use_count t < tk_max_uses t"

definition token_scope :: "token_row \<Rightarrow> db \<Rightarrow> (client_row \<times> location_row) result" where
  "token_scope t db =
     (case (fetch cl_id (tk_client t) (db_clients db), location_of_client (tk_location t) (tk_client t) db) of
        (Some c, Some l) \<Rightarrow>
          if cl_state c \<noteq> HActive \<or> lo_state l \<noteq> HActive then Inl invalid_enrollment_credentials else Inr (c, l)
      | _ \<Rightarrow> Inl invalid_enrollment_credentials)"

definition legacy_endpoint :: "exchange_in \<Rightarrow> client_row \<Rightarrow> location_row \<Rightarrow> db \<Rightarrow> endpoint_row option result" where
  "legacy_endpoint payload c l db =
     (case fetch ep_fingerprint (xc_fingerprint payload) (db_endpoints db) of
        None \<Rightarrow> Inr None
      | Some e \<Rightarrow>
          if ep_mode e \<noteq> LegacyShared \<or> ep_client e \<noteq> cl_id c \<or> ep_location e \<noteq> lo_id l \<or> ep_platform e \<noteq> xc_platform payload
          then Inl exchange_conflict else Inr (Some e))"

text \<open>\<open>UPDATE .. RETURNING\<close>: only a usable token counts a use.\<close>

definition consume_token :: "string \<Rightarrow> string \<Rightarrow> db \<Rightarrow> db result" where
  "consume_token now_str token_id db =
     (let P = (\<lambda>t. tk_id t = token_id \<and> token_usable now_str t) in
      if List.find P (db_tokens db) = None then Inl invalid_enrollment_credentials
      else Inr (db\<lparr>db_tokens := update_where P (\<lambda>t. t\<lparr>tk_use_count := tk_use_count t + 1, tk_updated_at := now_str\<rparr>)
                    (db_tokens db)\<rparr>))"

definition enrolled_status :: "token_row \<Rightarrow> endpoint_status" where
  "enrolled_status t = (if tk_policy t = PolicyApproved then EpActive else EpPending)"

definition new_device_endpoint ::
  "string \<Rightarrow> string \<Rightarrow> token_row \<Rightarrow> exchange_in \<Rightarrow> client_row \<Rightarrow> location_row \<Rightarrow> endpoint_row" where
  "new_device_endpoint u now_str t payload c l =
     \<lparr>ep_id = generate_prefixed_id ''ep'' u, ep_fingerprint = xc_fingerprint payload, ep_hostname = xc_hostname payload,
      ep_platform = xc_platform payload, ep_platform_version = xc_platform_version payload,
      ep_platform_profile = None, ep_agent_version = xc_agent_version payload, ep_protocol = xc_protocol payload,
      ep_architecture = Some (xc_architecture payload), ep_installation = Some (xc_installation payload),
      ep_mode = DeviceMode, ep_token = Some (tk_id t), ep_client = cl_id c, ep_location = lo_id l,
      ep_tenant = cl_key c, ep_site = lo_key l, ep_status = enrolled_status t, ep_connectivity = None,
      ep_capabilities = None, ep_manifest = None, ep_hooks = None, ep_last_seen_at = now_str,
      ep_last_heartbeat_at = None, ep_created_at = now_str, ep_updated_at = now_str\<rparr>"

definition migrated_endpoint :: "string \<Rightarrow> token_row \<Rightarrow> exchange_in \<Rightarrow> endpoint_row \<Rightarrow> endpoint_row" where
  "migrated_endpoint now_str t payload e =
     e\<lparr>ep_hostname := xc_hostname payload, ep_platform_version := xc_platform_version payload,
       ep_platform_profile := None, ep_agent_version := xc_agent_version payload, ep_protocol := xc_protocol payload,
       ep_architecture := Some (xc_architecture payload), ep_installation := Some (xc_installation payload),
       ep_mode := DeviceMode, ep_token := Some (tk_id t), ep_status := enrolled_status t, ep_connectivity := None,
       ep_capabilities := None, ep_manifest := None, ep_hooks := None, ep_last_seen_at := now_str,
       ep_last_heartbeat_at := None, ep_updated_at := now_str\<rparr>"

text \<open>The enrolled endpoint with the number of ids drawn for it.\<close>

definition place_endpoint ::
  "string \<Rightarrow> string \<Rightarrow> token_row \<Rightarrow> exchange_in \<Rightarrow> client_row \<Rightarrow> location_row \<Rightarrow> endpoint_row option \<Rightarrow> db \<Rightarrow>
   (db \<times> endpoint_row \<times> nat) result" where
  "place_endpoint u now_str t payload c l legacy db =
     (case legacy of
        None \<Rightarrow> let e = new_device_endpoint u now_str t payload c l in andThen (insert_endpoint e db) (\<lambda>db. Inr (db, e, 1))
      | Some e \<Rightarrow> let e' = migrated_endpoint now_str t payload e
          in Inr (db\<lparr>db_endpoints := save ep_id e' (db_endpoints db)\<rparr>, e', 0))"

definition migrated_audit :: "principal \<Rightarrow> endpoint_row \<Rightarrow> exchange_in \<Rightarrow> string \<Rightarrow> audit_call" where
  "migrated_audit p e payload now_str =
     (audit_call_of ''legacy_reporter_migrated'')\<lparr>ax_principal := Some p, ax_client := Some (ep_client e),
        ax_location := Some (ep_location e), ax_endpoint := Some (ep_id e), ax_target_type := Some ''endpoint'',
        ax_target_id := Some (ep_id e), ax_metadata := [(''protocol_version'', JStr (xc_protocol payload))],
        ax_created_at := Some now_str\<rparr>"

text \<open>The first credential of the endpoint, the record of the redemption and the audit trail; \<open>n\<close> ids have
  been drawn.\<close>

definition store_redemption ::
  "(nat \<Rightarrow> string) \<Rightarrow> nat \<Rightarrow> string \<Rightarrow> principal \<Rightarrow> string \<Rightarrow> token_row \<Rightarrow> exchange_in \<Rightarrow> bool \<Rightarrow> endpoint_row \<Rightarrow> credential_row \<Rightarrow>
   db \<Rightarrow> db result" where
  "store_redemption draw n now_str p request_hash t payload migrated e credential db =
     andThen (insert_credential credential db) (\<lambda>db.
     andThen (insert_redemption \<lparr>rd_id = generate_prefixed_id ''er'' (draw n), rd_token = tk_id t,
         rd_installation = xc_installation payload, rd_endpoint = ep_id e, rd_credential = dc_id credential,
         rd_request_hash = request_hash, rd_created_at = now_str\<rparr> db) (\<lambda>db.
     andThen (record_audit_event (draw (n + 1)) now_str (redeemed_audit p e (tk_id t) False now_str) db) (\<lambda>db.
     if migrated then record_audit_event (draw (n + 2)) now_str (migrated_audit p e payload now_str) db else Inr db)))"

definition redeem_token ::
  "app_state \<Rightarrow> (nat \<Rightarrow> string) \<Rightarrow> nat \<Rightarrow> principal \<Rightarrow> string \<Rightarrow> string \<Rightarrow> token_row \<Rightarrow> exchange_in \<Rightarrow> db \<Rightarrow>
   (db \<times> exchange_response) result" where
  "redeem_token st draw now p request_hash credential_hash t payload db =
     (let now_str = strftime_z now in
      if \<not> token_usable now_str t then Inl invalid_enrollment_credentials
      else if (case tk_platform t of Some q \<Rightarrow> q \<noteq> xc_platform payload | None \<Rightarrow> False)
      then Inl (unprocessable ''endpoint platform does not match enrollment token'')
      else andThen (token_scope t db) (\<lambda>(c, l).
      if fetch ep_installation (Some (xc_installation payload)) (db_endpoints db) \<noteq> None
         \<or> fetch dc_id (mt_credential_id payload) (db_credentials db) \<noteq> None
      then Inl exchange_conflict
      else andThen (legacy_endpoint payload c l db) (\<lambda>legacy.
      andThen (consume_token now_str (tk_id t) db) (\<lambda>db.
      andThen (place_endpoint (draw 0) now_str t payload c l legacy db) (\<lambda>(db, e, n).
      andThen (credential_expiry st now) (\<lambda>expires.
      let credential = new_credential (mt_credential_id payload) (ep_id e) credential_hash expires now_str
      in andThen (store_redemption draw n now_str p request_hash t payload (legacy \<noteq> None) e credential db) (\<lambda>db.
      andThen (exchange_payload e credential False) (\<lambda>view. Inr (db, view)))))))))"

definition exchange_enrollment_token ::
  "(nat list \<Rightarrow> nat list \<Rightarrow> nat list) \<Rightarrow> app_state \<Rightarrow> (nat \<Rightarrow> string) \<Rightarrow> nat \<Rightarrow> http_request \<Rightarrow> principal \<Rightarrow> exchange_in \<Rightarrow>
   db \<Rightarrow> db \<times> exchange_response result" where
  "exchange_enrollment_token hmac st draw now request p raw_payload db = transaction db (
     andThen (ensure (exchange_valid raw_payload) request_invalid) (\<lambda>_.
     andThen (hmac_key st) (\<lambda>key.
     andThen (require_current_protocol (xc_protocol raw_payload)) (\<lambda>_.
     andThen (exchange_token request p) (\<lambda>(token_id, secret).
     andThen (normalize_exchange raw_payload) (\<lambda>payload.
     let request_hash = exchange_request_hash (hmac_hex hmac) key token_id (exchange_values payload);
         credential_hash = device_secret_hash (hmac_hex hmac) key (mt_credential_id payload) (mt_secret payload);
         supplied_token_hash = enrollment_secret_hash (hmac_hex hmac) key token_id secret;
         token = fetch tk_id token_id (db_tokens db)
     in on_integrity_error exchange_conflict (
        andThen (compare_digest supplied_token_hash (case token of Some t \<Rightarrow> tk_secret_hash t | None \<Rightarrow> no_hash))
          (\<lambda>token_secret_matches.
        case token of
          None \<Rightarrow> Inl invalid_enrollment_credentials
        | Some t \<Rightarrow>
          if \<not> token_secret_matches \<or> tk_hash_key t \<noteq> hash_key_id then Inl invalid_enrollment_credentials
          else case fetch (\<lambda>r. (rd_token r, rd_installation r)) (token_id, xc_installation payload) (db_redemptions db) of
            Some redemption \<Rightarrow> replay_exchange (draw 0) (strftime_z now) p token_id request_hash
              (mt_credential_id payload) credential_hash redemption db
          | None \<Rightarrow> redeem_token st draw now p request_hash credential_hash t payload db))))))))"

section \<open>Device credentials\<close>

definition get_agent_identity ::
  "principal \<Rightarrow> db \<Rightarrow> (endpoint_response \<times> credential_response \<times> protocol_payload) result" where
  "get_agent_identity p db =
     andThen (require_device_principal (Some p)) (\<lambda>p.
     case (case p_endpoint p of None \<Rightarrow> None | Some k \<Rightarrow> fetch ep_id k (db_endpoints db),
           case p_credential p of None \<Rightarrow> None | Some k \<Rightarrow> fetch dc_id k (db_credentials db)) of
       (Some e, Some c) \<Rightarrow>
         if dc_status c \<noteq> CredActive then Inl invalid_enrollment_credentials
         else andThen (protocol_compatibility_payload (ep_protocol e)) (\<lambda>protocol.
           Inr (device_endpoint_payload e, credential_payload c, protocol))
     | _ \<Rightarrow> Inl invalid_enrollment_credentials)"

definition credential_in_use :: py_error where
  "credential_in_use = conflict ''credential_id is already in use''"

definition rotate_current ::
  "app_state \<Rightarrow> (nat \<Rightarrow> string) \<Rightarrow> nat \<Rightarrow> principal \<Rightarrow> string \<Rightarrow> string \<Rightarrow> credential_row \<Rightarrow> db \<Rightarrow> (db \<times> credential_response) result" where
  "rotate_current st draw now p new_id new_hash current db =
     (let now_str = strftime_z now;
          replaced = current\<lparr>dc_status := CredReplaced, dc_updated_at := now_str, dc_replaced_at := Some now_str\<rparr>;
          db = db\<lparr>db_credentials := save dc_id replaced (db_credentials db)\<rparr>
      in andThen (credential_expiry st now) (\<lambda>expires.
         let replacement = new_credential new_id (dc_endpoint current) new_hash expires now_str
         in andThen (insert_credential replacement db) (\<lambda>db.
         let db = db\<lparr>db_credentials := save dc_id (replaced\<lparr>dc_replaced_by := Some new_id\<rparr>) (db_credentials db)\<rparr>
         in case fetch ep_id (dc_endpoint current) (db_endpoints db) of
           None \<Rightarrow> Inl invalid_enrollment_credentials
         | Some e \<Rightarrow>
           andThen (record_audit_event (draw 0) now_str
             ((audit_call_of ''device_credential_rotated'')\<lparr>ax_principal := Some p, ax_client := Some (ep_client e),
                ax_location := Some (ep_location e), ax_endpoint := Some (ep_id e),
                ax_target_type := Some ''device_credential'', ax_target_id := Some new_id,
                ax_metadata := [(''replaced_credential_id'', JStr (dc_id current))], ax_created_at := Some now_str\<rparr>) db)
             (\<lambda>db. Inr (db, credential_payload replacement)))))"

definition rotate_device_credential ::
  "(nat list \<Rightarrow> nat list \<Rightarrow> nat list) \<Rightarrow> app_state \<Rightarrow> (nat \<Rightarrow> string) \<Rightarrow> nat \<Rightarrow> principal \<Rightarrow> credential_material \<Rightarrow> db \<Rightarrow>
   db \<times> credential_response result" where
  "rotate_device_credential hmac st draw now p payload db = transaction db (
     andThen (require_device_principal (Some p)) (\<lambda>p.
     andThen (ensure (credential_material_valid payload) request_invalid) (\<lambda>_.
     andThen (hmac_key st) (\<lambda>key.
     let new_id = mt_credential_id payload;
         new_hash = device_secret_hash (hmac_hex hmac) key new_id (mt_secret payload)
     in on_integrity_error credential_in_use (
        case (case p_credential p of None \<Rightarrow> None | Some k \<Rightarrow> fetch dc_id k (db_credentials db)) of
          None \<Rightarrow> Inl invalid_enrollment_credentials
        | Some current \<Rightarrow>
          if Some (dc_endpoint current) \<noteq> p_endpoint p \<or> dc_status current \<noteq> CredActive
          then Inl invalid_enrollment_credentials
          else if new_id = dc_id current
          then andThen (compare_digest new_hash (dc_secret_hash current)) (\<lambda>same.
            if same then Inr (db, credential_payload current) else Inl credential_in_use)
          else if fetch dc_id new_id (db_credentials db) \<noteq> None then Inl credential_in_use
          else rotate_current st draw now p new_id new_hash current db)))))"

text \<open>\<open>select(DeviceCredential).join(Endpoint)\<close> under the scope of the endpoint.\<close>

definition visible_credential :: "principal \<Rightarrow> string \<Rightarrow> db \<Rightarrow> credential_row option" where
  "visible_credential p credential_id db = List.find (\<lambda>c. dc_id c = credential_id \<and>
     (case fetch ep_id (dc_endpoint c) (db_endpoints db) of
        None \<Rightarrow> False
      | Some e \<Rightarrow> where_clause (scope_clause p ''device_credential.manage'') (Some (ep_client e)) (Some (ep_location e))))
     (db_credentials db)"

definition revoke_device_credential ::
  "(nat \<Rightarrow> string) \<Rightarrow> nat \<Rightarrow> principal \<Rightarrow> string \<Rightarrow> db \<Rightarrow> db \<times> credential_response result" where
  "revoke_device_credential draw now p raw_credential_id db = transaction db (
     andThen (require_permission ''device_credential.manage'' p) (\<lambda>p.
     andThen (normalize_required_string raw_credential_id ''credential_id'') (\<lambda>credential_id.
     let now_str = strftime_z now in
     case visible_credential p credential_id db of
       None \<Rightarrow> Inl (not_found ''device credential not found'')
     | Some c \<Rightarrow>
       let c' = (if dc_status c \<noteq> CredRevoked
             then c\<lparr>dc_status := CredRevoked, dc_revoked_at := Some now_str, dc_updated_at := now_str\<rparr> else c);
           db = db\<lparr>db_credentials := save dc_id c' (db_credentials db)\<rparr>
       in case fetch ep_id (dc_endpoint c') (db_endpoints db) of
            None \<Rightarrow> Inl (not_found ''device credential not found'')
          | Some e \<Rightarrow>
            andThen (record_audit_event (draw 0) now_str
              ((audit_call_of ''device_credential_revoked'')\<lparr>ax_principal := Some p, ax_client := Some (ep_client e),
                 ax_location := Some (ep_location e), ax_endpoint := Some (ep_id e),
                 ax_target_type := Some ''device_credential'', ax_target_id := Some (dc_id c'),
                 ax_created_at := Some now_str\<rparr>) db) (\<lambda>db.
            Inr (db, credential_payload c')))))"

end
