(* ===== verification/Device_Contract.thy ===== *)
theory Device_Contract
  imports Device_Identity Endpoint_Lifecycle
begin

text \<open>
  The contract of the tables \<open>endpoints.py\<close> and \<open>device_identity.py\<close> share (endpoints, enrollment tokens,
  credentials, redemptions), and what an exchange and a rotation write to them.
\<close>

section \<open>The contract of the fleet tables\<close>

definition endpoint_ok :: "pack list \<Rightarrow> endpoint_row \<Rightarrow> bool" where
  "endpoint_ok packs e \<longleftrightarrow>
     (if ep_mode e = LegacyShared then ep_installation e = None \<and> ep_token e = None \<and> ep_status e \<noteq> EpPending
      else ep_installation e \<noteq> None \<and> ep_token e \<noteq> None \<and> ep_protocol e \<in> set supported_agent_protocol_versions) \<and>
     (\<forall>m. ep_manifest e = Some m \<longrightarrow> manifest_sound packs (ep_platform e) m (parse_declared_capabilities e))"

definition endpoints_ok :: "pack list \<Rightarrow> db \<Rightarrow> bool" where
  "endpoints_ok packs db \<longleftrightarrow> unique_on ep_id (db_endpoints db) \<and> unique_on ep_fingerprint (db_endpoints db) \<and>
     (\<forall>e\<in>set (db_endpoints db). endpoint_ok packs e) \<and>
     (\<forall>e\<in>set (db_endpoints db). \<forall>e'\<in>set (db_endpoints db). \<forall>k.
        ep_installation e = Some k \<and> ep_installation e' = Some k \<longrightarrow> ep_id e = ep_id e')"

definition tokens_ok :: "db \<Rightarrow> bool" where
  "tokens_ok db \<longleftrightarrow> unique_on tk_id (db_tokens db) \<and>
     (\<forall>e\<in>set (db_endpoints db). \<forall>k. ep_token e = Some k \<longrightarrow> k \<in> tk_id ` set (db_tokens db)) \<and>
     (\<forall>t\<in>set (db_tokens db). tk_use_count t = int (count_list (map ep_token (db_endpoints db)) (Some (tk_id t)))) \<and>
     (\<forall>t\<in>set (db_tokens db). tk_use_count t \<le> tk_max_uses t)"

definition credentials_ok :: "db \<Rightarrow> bool" where
  "credentials_ok db \<longleftrightarrow> unique_on dc_id (db_credentials db) \<and>
     (\<forall>c\<in>set (db_credentials db). \<exists>e\<in>set (db_endpoints db). ep_id e = dc_endpoint c \<and> ep_mode e = DeviceMode) \<and>
     (\<forall>c\<in>set (db_credentials db). \<forall>c'\<in>set (db_credentials db).
        dc_status c = CredActive \<and> dc_status c' = CredActive \<and> dc_endpoint c = dc_endpoint c' \<longrightarrow> dc_id c = dc_id c')"

definition redemptions_ok :: "db \<Rightarrow> bool" where
  "redemptions_ok db \<longleftrightarrow> unique_on (\<lambda>r. (rd_token r, rd_installation r)) (db_redemptions db) \<and>
     (\<forall>r\<in>set (db_redemptions db). \<exists>e\<in>set (db_endpoints db). ep_id e = rd_endpoint r \<and>
        ep_installation e = Some (rd_installation r) \<and> ep_token e = Some (rd_token r)) \<and>
     (\<forall>r\<in>set (db_redemptions db). \<exists>c\<in>set (db_credentials db). dc_id c = rd_credential r \<and> dc_endpoint c = rd_endpoint r)"

definition fleet_ok :: "pack list \<Rightarrow> db \<Rightarrow> bool" where
  "fleet_ok packs db \<longleftrightarrow> endpoints_ok packs db \<and> tokens_ok db \<and> credentials_ok db \<and> redemptions_ok db"

lemmas fleet_defs = fleet_ok_def endpoints_ok_def tokens_ok_def credentials_ok_def redemptions_ok_def

lemma fleet_okD:
  assumes "fleet_ok packs db"
  shows "unique_on ep_id (db_endpoints db)" "unique_on ep_fingerprint (db_endpoints db)"
    "\<And>e. e \<in> set (db_endpoints db) \<Longrightarrow> endpoint_ok packs e"
    "\<And>e e' k. e \<in> set (db_endpoints db) \<Longrightarrow> e' \<in> set (db_endpoints db) \<Longrightarrow> ep_installation e = Some k \<Longrightarrow>
       ep_installation e' = Some k \<Longrightarrow> ep_id e = ep_id e'"
    "unique_on tk_id (db_tokens db)"
    "\<And>e k. e \<in> set (db_endpoints db) \<Longrightarrow> ep_token e = Some k \<Longrightarrow> k \<in> tk_id ` set (db_tokens db)"
    "\<And>t. t \<in> set (db_tokens db) \<Longrightarrow> tk_use_count t = int (count_list (map ep_token (db_endpoints db)) (Some (tk_id t)))"
    "\<And>t. t \<in> set (db_tokens db) \<Longrightarrow> tk_use_count t \<le> tk_max_uses t"
    "unique_on dc_id (db_credentials db)"
    "\<And>c. c \<in> set (db_credentials db) \<Longrightarrow> \<exists>e\<in>set (db_endpoints db). ep_id e = dc_endpoint c \<and> ep_mode e = DeviceMode"
    "\<And>c c'. c \<in> set (db_credentials db) \<Longrightarrow> c' \<in> set (db_credentials db) \<Longrightarrow> dc_status c = CredActive \<Longrightarrow>
       dc_status c' = CredActive \<Longrightarrow> dc_endpoint c = dc_endpoint c' \<Longrightarrow> dc_id c = dc_id c'"
    "unique_on (\<lambda>r. (rd_token r, rd_installation r)) (db_redemptions db)"
    "\<And>r. r \<in> set (db_redemptions db) \<Longrightarrow> \<exists>e\<in>set (db_endpoints db). ep_id e = rd_endpoint r \<and>
       ep_installation e = Some (rd_installation r) \<and> ep_token e = Some (rd_token r)"
    "\<And>r. r \<in> set (db_redemptions db) \<Longrightarrow> \<exists>c\<in>set (db_credentials db). dc_id c = rd_credential r \<and> dc_endpoint c = rd_endpoint r"
proof -
  have p: "endpoints_ok packs db" "tokens_ok db" "credentials_ok db" "redemptions_ok db"
    using assms by (simp_all add: fleet_ok_def)
  show "unique_on ep_id (db_endpoints db)" "unique_on ep_fingerprint (db_endpoints db)"
    "\<And>e. e \<in> set (db_endpoints db) \<Longrightarrow> endpoint_ok packs e"
    "\<And>e e' k. e \<in> set (db_endpoints db) \<Longrightarrow> e' \<in> set (db_endpoints db) \<Longrightarrow> ep_installation e = Some k \<Longrightarrow>
       ep_installation e' = Some k \<Longrightarrow> ep_id e = ep_id e'"
    using p(1) unfolding endpoints_ok_def by blast+
  show "unique_on tk_id (db_tokens db)"
    "\<And>e k. e \<in> set (db_endpoints db) \<Longrightarrow> ep_token e = Some k \<Longrightarrow> k \<in> tk_id ` set (db_tokens db)"
    "\<And>t. t \<in> set (db_tokens db) \<Longrightarrow> tk_use_count t = int (count_list (map ep_token (db_endpoints db)) (Some (tk_id t)))"
    "\<And>t. t \<in> set (db_tokens db) \<Longrightarrow> tk_use_count t \<le> tk_max_uses t"
    using p(2) unfolding tokens_ok_def by blast+
  show "unique_on dc_id (db_credentials db)"
    "\<And>c. c \<in> set (db_credentials db) \<Longrightarrow> \<exists>e\<in>set (db_endpoints db). ep_id e = dc_endpoint c \<and> ep_mode e = DeviceMode"
    "\<And>c c'. c \<in> set (db_credentials db) \<Longrightarrow> c' \<in> set (db_credentials db) \<Longrightarrow> dc_status c = CredActive \<Longrightarrow>
       dc_status c' = CredActive \<Longrightarrow> dc_endpoint c = dc_endpoint c' \<Longrightarrow> dc_id c = dc_id c'"
    using p(3) unfolding credentials_ok_def by blast+
  show "unique_on (\<lambda>r. (rd_token r, rd_installation r)) (db_redemptions db)"
    "\<And>r. r \<in> set (db_redemptions db) \<Longrightarrow> \<exists>e\<in>set (db_endpoints db). ep_id e = rd_endpoint r \<and>
       ep_installation e = Some (rd_installation r) \<and> ep_token e = Some (rd_token r)"
    "\<And>r. r \<in> set (db_redemptions db) \<Longrightarrow> \<exists>c\<in>set (db_credentials db). dc_id c = rd_credential r \<and> dc_endpoint c = rd_endpoint r"
    using p(4) unfolding redemptions_ok_def by blast+
qed

lemma fleet_ok_audits [simp]: "fleet_ok packs (db\<lparr>db_audits := a\<rparr>) = fleet_ok packs db"
  by (simp add: fleet_defs)

lemma count_list_save:
  assumes "unique_on key rows" and "r \<in> set rows" and "key r' = key r" and "f r \<noteq> x"
  shows "count_list (map f (save key r' rows)) x = count_list (map f rows) x + (if f r' = x then 1 else 0)"
  using assms
proof (induction rows)
  case (Cons a rows)
  show ?case
  proof (cases "a = r")
    case True
    then have "save key r' rows = rows" using Cons.prems(1,3) by (intro save_notin) (auto simp: unique_on_def)
    with True Cons.prems show ?thesis by (simp add: save_def)
  next
    case False
    then have "r \<in> set rows" "key a \<noteq> key r" using Cons.prems by (auto simp: unique_on_def)
    with Cons False show ?thesis by (simp add: save_def unique_on_def)
  qed
qed simp

text \<open>Writing back a row of the same enrollment.\<close>

lemma save_endpoint_set:
  assumes "unique_on ep_id rows" and "e \<in> set rows" and "ep_id e' = ep_id e"
  shows "x \<in> set (save ep_id e' rows) \<longleftrightarrow> x = e' \<or> (x \<in> set rows \<and> x \<noteq> e)"
  using assms unique_onD[OF assms(1)] by (auto simp: in_set_save)

text \<open>The other tables see an endpoint only through its enrollment.\<close>

lemma fleet_ok_endpoints:
  assumes ok: "fleet_ok packs db" and eps: "endpoints_ok packs db'"
    and tok: "tokens_ok db'" and same: "db_credentials db' = db_credentials db" "db_redemptions db' = db_redemptions db"
    and keep: "\<And>x. x \<in> set (db_endpoints db) \<Longrightarrow> \<exists>y\<in>set (db_endpoints db'). ep_id y = ep_id x \<and> ep_mode y = ep_mode x \<and>
      ep_installation y = ep_installation x \<and> ep_token y = ep_token x"
  shows "fleet_ok packs db'"
proof -
  have "credentials_ok db'"
    unfolding credentials_ok_def same using fleet_okD(9-11)[OF ok] keep by metis
  moreover have "redemptions_ok db'"
    unfolding redemptions_ok_def same using fleet_okD(12-14)[OF ok] keep by metis
  ultimately show ?thesis using eps tok by (simp add: fleet_ok_def)
qed

lemma fleet_endpoint_saved:
  assumes ok: "fleet_ok packs db" and e: "e \<in> set (db_endpoints db)" "same_device e e'" "same_enrollment e e'" "endpoint_ok packs e'"
  shows "fleet_ok packs (db\<lparr>db_endpoints := save ep_id e' (db_endpoints db)\<rparr>)"
proof -
  let ?rows = "save ep_id e' (db_endpoints db)" and ?db = "db\<lparr>db_endpoints := save ep_id e' (db_endpoints db)\<rparr>"
  have u: "unique_on ep_id (db_endpoints db)" by (rule fleet_okD[OF ok])
  have id: "ep_id e' = ep_id e" "ep_fingerprint e' = ep_fingerprint e"
    "ep_mode e' = ep_mode e" "ep_installation e' = ep_installation e" "ep_token e' = ep_token e"
    using e(2,3) by (simp_all add: same_device_def same_enrollment_def)
  note mem = save_endpoint_set[OF u e(1) id(1)]
  have fp: "unique_on ep_fingerprint ?rows = unique_on ep_fingerprint (db_endpoints db)"
    and tok: "map ep_token ?rows = map ep_token (db_endpoints db)"
    using map_save_same[OF u e(1) id(1), of ep_fingerprint] map_save_same[OF u e(1) id(1), of ep_token] id
    by (simp_all add: unique_on_def)
  have orig: "\<exists>x0\<in>set (db_endpoints db). ep_id x0 = ep_id x \<and> ep_installation x0 = ep_installation x \<and> ep_token x0 = ep_token x"
    if "x \<in> set ?rows" for x
    using that e(1) id by (auto simp: mem)
  show ?thesis
  proof (rule fleet_ok_endpoints[OF ok])
    have each: "\<forall>x\<in>set ?rows. endpoint_ok packs x" using fleet_okD(3)[OF ok] e(4) by (auto simp: mem)
    have inst: "\<forall>x\<in>set ?rows. \<forall>y\<in>set ?rows. \<forall>k. ep_installation x = Some k \<and> ep_installation y = Some k \<longrightarrow> ep_id x = ep_id y"
    proof (intro ballI allI impI)
      fix x y k
      assume x: "x \<in> set ?rows" and y: "y \<in> set ?rows" and k: "ep_installation x = Some k \<and> ep_installation y = Some k"
      obtain x0 where x0: "x0 \<in> set (db_endpoints db)" "ep_id x0 = ep_id x" "ep_installation x0 = ep_installation x"
        using orig[OF x] by metis
      obtain y0 where y0: "y0 \<in> set (db_endpoints db)" "ep_id y0 = ep_id y" "ep_installation y0 = ep_installation y"
        using orig[OF y] by metis
      show "ep_id x = ep_id y" using fleet_okD(4)[OF ok x0(1) y0(1)] x0(2,3) y0(2,3) k by simp
    qed
    have eq: "db_endpoints ?db = ?rows" by simp
    show "endpoints_ok packs ?db"
      unfolding endpoints_ok_def eq unique_on_save fp by (intro conjI u fleet_okD(2)[OF ok] each inst)
    have "\<forall>x\<in>set ?rows. \<forall>k. ep_token x = Some k \<longrightarrow> k \<in> tk_id ` set (db_tokens db)"
    proof (intro ballI allI impI)
      fix x k
      assume x: "x \<in> set ?rows" and k: "ep_token x = Some k"
      obtain x0 where "x0 \<in> set (db_endpoints db)" "ep_token x0 = Some k" using orig[OF x] k by metis
      then show "k \<in> tk_id ` set (db_tokens db)" by (rule fleet_okD(6)[OF ok])
    qed
    then show "tokens_ok ?db" using fleet_okD(5,7,8)[OF ok] by (simp add: tokens_ok_def tok)
    show "\<exists>y\<in>set (db_endpoints ?db). ep_id y = ep_id x \<and> ep_mode y = ep_mode x \<and>
      ep_installation y = ep_installation x \<and> ep_token y = ep_token x" if "x \<in> set (db_endpoints db)" for x
      using that id e(1) by (cases "x = e") (auto simp: mem)
  qed simp_all
qed

lemma fleet_endpoint_added:
  assumes ok: "fleet_ok packs db" and ins: "insert_endpoint e db = Inr db'" and new: "legacy_row e"
  shows "fleet_ok packs db'"
proof -
  have f: "ep_id e \<notin> ep_id ` set (db_endpoints db)" "ep_fingerprint e \<notin> ep_fingerprint ` set (db_endpoints db)"
    and db': "db' = db\<lparr>db_endpoints := db_endpoints db @ [e]\<rparr>" using ins by (simp_all add: insert_endpoint_Inr)
  have e: "endpoint_ok packs e" "ep_token e = None" "ep_installation e = None"
    using new by (simp_all add: legacy_row_def endpoint_ok_def)
  show ?thesis
  proof (rule fleet_ok_endpoints[OF ok])
    have "\<forall>x\<in>set (db_endpoints db @ [e]). \<forall>y\<in>set (db_endpoints db @ [e]). \<forall>k.
        ep_installation x = Some k \<and> ep_installation y = Some k \<longrightarrow> ep_id x = ep_id y"
      using fleet_okD(4)[OF ok] e(3) by auto
    then show "endpoints_ok packs db'" using f fleet_okD(1,2,3)[OF ok] e(1) by (simp add: endpoints_ok_def db')
    have "\<forall>x\<in>set (db_endpoints db @ [e]). \<forall>k. ep_token x = Some k \<longrightarrow> k \<in> tk_id ` set (db_tokens db)"
      using fleet_okD(6)[OF ok] e(2) by auto
    then show "tokens_ok db'" using fleet_okD(5,7,8)[OF ok] e(2) by (simp add: tokens_ok_def db')
  qed (auto simp: db')
qed

section \<open>What an exchange writes\<close>

definition token_used :: "string \<Rightarrow> token_row \<Rightarrow> token_row" where
  "token_used now_str t = t\<lparr>tk_use_count := tk_use_count t + 1, tk_updated_at := now_str\<rparr>"

lemma consume_token_Inr:
  assumes "unique_on tk_id (db_tokens db)" and "t \<in> set (db_tokens db)" and "consume_token now_str (tk_id t) db = Inr db'"
  shows "token_usable now_str t \<and> db' = db\<lparr>db_tokens := save tk_id (token_used now_str t) (db_tokens db)\<rparr>"
proof -
  let ?P = "\<lambda>x. tk_id x = tk_id t \<and> token_usable now_str x"
  have found: "List.find ?P (db_tokens db) \<noteq> None"
    and db': "db' = db\<lparr>db_tokens := update_where ?P (token_used now_str) (db_tokens db)\<rparr>"
    using assms(3) by (auto simp: consume_token_def Let_def token_used_def[abs_def] split: if_splits)
  then obtain x where "x \<in> set (db_tokens db)" "?P x" by (auto simp: find_None_iff)
  then have usable: "token_usable now_str t" using unique_onD[OF assms(1) _ assms(2)] by metis
  have "update_where ?P (token_used now_str) (db_tokens db) = save tk_id (token_used now_str t) (db_tokens db)"
    by (rule update_where_save[OF assms(1,2)]) (simp_all add: usable token_used_def)
  with usable db' show ?thesis by simp
qed

text \<open>The row of an endpoint enrolled with a token.\<close>

definition enrolled_row :: "string \<Rightarrow> token_row \<Rightarrow> exchange_in \<Rightarrow> endpoint_row \<Rightarrow> bool" where
  "enrolled_row now_str t payload e \<longleftrightarrow> ep_mode e = DeviceMode \<and> ep_installation e = Some (xc_installation payload) \<and>
     ep_token e = Some (tk_id t) \<and> ep_client e = tk_client t \<and> ep_location e = tk_location t \<and> ep_status e = enrolled_status t \<and>
     ep_platform e = xc_platform payload \<and> ep_fingerprint e = xc_fingerprint payload \<and> ep_protocol e = xc_protocol payload \<and>
     ep_manifest e = None \<and> ep_capabilities e = None"

definition placed :: "endpoint_row list \<Rightarrow> endpoint_row \<Rightarrow> endpoint_row list \<Rightarrow> bool" where
  "placed rows e rows' \<longleftrightarrow>
     ep_id e \<notin> ep_id ` set rows \<and> ep_fingerprint e \<notin> ep_fingerprint ` set rows \<and> rows' = rows @ [e] \<or>
     (\<exists>e0\<in>set rows. same_device e0 e \<and> ep_mode e0 = LegacyShared \<and> rows' = save ep_id e rows)"

lemma token_scope_Inr:
  "token_scope t db = Inr (c, l) \<Longrightarrow> cl_id c = tk_client t \<and> lo_id l = tk_location t \<and> lo_client l = tk_client t \<and>
     c \<in> set (db_clients db) \<and> l \<in> set (db_locations db) \<and> cl_state c = HActive \<and> lo_state l = HActive"
  by (auto simp: token_scope_def location_of_client_def split: option.splits if_splits dest!: fetch_SomeD find_eq_Some_first)

lemma place_endpoint_Inr:
  assumes "legacy_endpoint payload c l db = Inr legacy" and "token_scope t db0 = Inr (c, l)"
    and "place_endpoint u now_str t payload c l legacy db = Inr (db', e, n)"
  shows "placed (db_endpoints db) e (db_endpoints db') \<and> enrolled_row now_str t payload e \<and>
    db' = db\<lparr>db_endpoints := db_endpoints db'\<rparr>"
proof (cases legacy)
  case None
  then show ?thesis
    using assms token_scope_Inr[OF assms(2)]
    by (auto simp: place_endpoint_def Let_def andThen_eq_Inr insert_endpoint_Inr placed_def enrolled_row_def new_device_endpoint_def)
next
  case (Some e0)
  then have e0: "e0 \<in> set (db_endpoints db)" "ep_fingerprint e0 = xc_fingerprint payload" "ep_mode e0 = LegacyShared"
    "ep_client e0 = cl_id c" "ep_location e0 = lo_id l" "ep_platform e0 = xc_platform payload"
    using assms(1) fetch_SomeD[of ep_fingerprint "xc_fingerprint payload" "db_endpoints db"]
    by (auto simp: legacy_endpoint_def split: option.splits if_splits)
  have e: "e = migrated_endpoint now_str t payload e0" and db': "db' = db\<lparr>db_endpoints := save ep_id e (db_endpoints db)\<rparr>"
    using assms(3) Some by (auto simp: place_endpoint_def Let_def)
  have "same_device e0 e" "enrolled_row now_str t payload e"
    using token_scope_Inr[OF assms(2)] e0 by (simp_all add: e same_device_def migrated_endpoint_def enrolled_row_def)
  then show ?thesis using e0(1,3) unfolding placed_def db' by auto
qed

lemma insert_credential_Inr [result_simps]:
  "insert_credential c db = Inr db' \<longleftrightarrow> dc_id c \<notin> dc_id ` set (db_credentials db) \<and>
     dc_endpoint c \<in> ep_id ` set (db_endpoints db) \<and>
     (dc_status c = CredActive \<longrightarrow> (\<forall>x\<in>set (db_credentials db). dc_endpoint x = dc_endpoint c \<longrightarrow> dc_status x \<noteq> CredActive)) \<and>
     db' = db\<lparr>db_credentials := db_credentials db @ [c]\<rparr>"
  unfolding insert_credential_def active_credential_of_def fetch_None find_None_iff by auto

lemma insert_redemption_Inr [result_simps]:
  "insert_redemption r db = Inr db' \<longleftrightarrow> rd_id r \<notin> rd_id ` set (db_redemptions db) \<and>
     (rd_token r, rd_installation r) \<notin> (\<lambda>x. (rd_token x, rd_installation x)) ` set (db_redemptions db) \<and>
     rd_credential r \<notin> rd_credential ` set (db_redemptions db) \<and> rd_token r \<in> tk_id ` set (db_tokens db) \<and>
     rd_endpoint r \<in> ep_id ` set (db_endpoints db) \<and> rd_credential r \<in> dc_id ` set (db_credentials db) \<and>
     db' = db\<lparr>db_redemptions := db_redemptions db @ [r]\<rparr>"
  unfolding insert_redemption_def fetch_None by auto

text \<open>All a first exchange writes.\<close>

record redeemed =
  rx_endpoint :: endpoint_row
  rx_rows :: "endpoint_row list"
  rx_expires :: string
  rx_redemption :: redemption_row
  rx_audits :: "audit_row list"

definition redeemed_credential :: "string \<Rightarrow> exchange_in \<Rightarrow> string \<Rightarrow> redeemed \<Rightarrow> credential_row" where
  "redeemed_credential now_str payload credential_hash x =
     new_credential (mt_credential_id payload) (ep_id (rx_endpoint x)) credential_hash (rx_expires x) now_str"

definition redemption_written ::
  "app_state \<Rightarrow> nat \<Rightarrow> string \<Rightarrow> string \<Rightarrow> token_row \<Rightarrow> exchange_in \<Rightarrow> db \<Rightarrow> db \<Rightarrow> redeemed \<Rightarrow> bool" where
  "redemption_written st now request_hash credential_hash t payload db db' x \<longleftrightarrow>
     token_usable (strftime_z now) t \<and> (\<exists>c l. token_scope t db = Inr (c, l)) \<and>
     (\<forall>q. tk_platform t = Some q \<longrightarrow> q = xc_platform payload) \<and>
     Some (xc_installation payload) \<notin> ep_installation ` set (db_endpoints db) \<and>
     placed (db_endpoints db) (rx_endpoint x) (rx_rows x) \<and> enrolled_row (strftime_z now) t payload (rx_endpoint x) \<and>
     credential_expiry st now = Inr (rx_expires x) \<and> mt_credential_id payload \<notin> dc_id ` set (db_credentials db) \<and>
     (\<forall>y\<in>set (db_credentials db). dc_endpoint y = ep_id (rx_endpoint x) \<longrightarrow> dc_status y \<noteq> CredActive) \<and>
     (tk_id t, xc_installation payload) \<notin> (\<lambda>r. (rd_token r, rd_installation r)) ` set (db_redemptions db) \<and>
     rd_token (rx_redemption x) = tk_id t \<and> rd_installation (rx_redemption x) = xc_installation payload \<and>
     rd_endpoint (rx_redemption x) = ep_id (rx_endpoint x) \<and> rd_credential (rx_redemption x) = mt_credential_id payload \<and>
     rd_request_hash (rx_redemption x) = request_hash \<and>
     db' = db\<lparr>db_tokens := save tk_id (token_used (strftime_z now) t) (db_tokens db), db_endpoints := rx_rows x,
       db_credentials := db_credentials db @ [redeemed_credential (strftime_z now) payload credential_hash x],
       db_redemptions := db_redemptions db @ [rx_redemption x], db_audits := db_audits db @ rx_audits x\<rparr>"

lemma store_redemption_Inr:
  assumes "store_redemption draw n now_str p request_hash t payload migrated e c db = Inr db'"
  shows "\<exists>r us. dc_id c \<notin> dc_id ` set (db_credentials db) \<and> dc_endpoint c \<in> ep_id ` set (db_endpoints db) \<and>
     (dc_status c = CredActive \<longrightarrow> (\<forall>x\<in>set (db_credentials db). dc_endpoint x = dc_endpoint c \<longrightarrow> dc_status x \<noteq> CredActive)) \<and>
     (tk_id t, xc_installation payload) \<notin> (\<lambda>r. (rd_token r, rd_installation r)) ` set (db_redemptions db) \<and>
     rd_token r = tk_id t \<and> rd_installation r = xc_installation payload \<and> rd_endpoint r = ep_id e \<and>
     rd_credential r = dc_id c \<and> rd_request_hash r = request_hash \<and>
     db' = db\<lparr>db_credentials := db_credentials db @ [c], db_redemptions := db_redemptions db @ [r],
       db_audits := db_audits db @ us\<rparr>"
proof -
  let ?r = "\<lparr>rd_id = generate_prefixed_id ''er'' (draw n), rd_token = tk_id t, rd_installation = xc_installation payload,
    rd_endpoint = ep_id e, rd_credential = dc_id c, rd_request_hash = request_hash, rd_created_at = now_str\<rparr>"
  obtain db1 db2 db3 where ins: "insert_credential c db = Inr db1" "insert_redemption ?r db1 = Inr db2"
    and au: "record_audit_event (draw (n + 1)) now_str (redeemed_audit p e (tk_id t) False now_str) db2 = Inr db3"
      "(if migrated then record_audit_event (draw (n + 2)) now_str (migrated_audit p e payload now_str) db3 else Inr db3) = Inr db'"
    using assms unfolding store_redemption_def andThen_eq_Inr by blast
  have "\<exists>us. db' = db3\<lparr>db_audits := db_audits db3 @ us\<rparr>"
    using au(2) by (cases migrated) (auto dest: record_audit_Inr intro: exI[of _ "[]"])
  then obtain us where us: "db' = db3\<lparr>db_audits := db_audits db3 @ us\<rparr>" by blast
  show ?thesis
    using ins by (intro exI[of _ ?r]) (auto simp: insert_credential_Inr insert_redemption_Inr us record_audit_Inr[OF au(1)])
qed

lemma redeem_cases:
  assumes run: "redeem_token st draw now p request_hash credential_hash t payload db = Inr (db', view)"
    and t: "unique_on tk_id (db_tokens db)" "t \<in> set (db_tokens db)"
  shows "\<exists>x. redemption_written st now request_hash credential_hash t payload db db' x \<and>
    exchange_payload (rx_endpoint x) (redeemed_credential (strftime_z now) payload credential_hash x) False = Inr view"
proof -
  let ?now = "strftime_z now"
  have pre: "token_usable ?now t" and plat: "\<forall>q. tk_platform t = Some q \<longrightarrow> q = xc_platform payload"
    using run by (auto simp: redeem_token_def Let_def split: if_splits)
  have no_mismatch: "(case tk_platform t of Some q \<Rightarrow> q \<noteq> xc_platform payload | None \<Rightarrow> False) = False"
    using plat by (simp split: option.splits)
  obtain c l where sc: "token_scope t db = Inr (c, l)"
    and body: "(if fetch ep_installation (Some (xc_installation payload)) (db_endpoints db) \<noteq> None
         \<or> fetch dc_id (mt_credential_id payload) (db_credentials db) \<noteq> None then Inl exchange_conflict
      else andThen (legacy_endpoint payload c l db) (\<lambda>legacy.
      andThen (consume_token ?now (tk_id t) db) (\<lambda>db.
      andThen (place_endpoint (draw 0) ?now t payload c l legacy db) (\<lambda>(db, e, n).
      andThen (credential_expiry st now) (\<lambda>expires.
      let credential = new_credential (mt_credential_id payload) (ep_id e) credential_hash expires ?now
      in andThen (store_redemption draw n ?now p request_hash t payload (legacy \<noteq> None) e credential db) (\<lambda>db.
      andThen (exchange_payload e credential False) (\<lambda>view. Inr (db, view)))))))) = Inr (db', view)"
    using run unfolding redeem_token_def Let_def no_mismatch pre by (auto simp: andThen_eq_Inr pre Let_def)
  have fresh: "Some (xc_installation payload) \<notin> ep_installation ` set (db_endpoints db)"
      "mt_credential_id payload \<notin> dc_id ` set (db_credentials db)"
    using body by (auto simp: fetch_None split: if_splits)
  obtain legacy db1 db2 e n expires db3 where leg: "legacy_endpoint payload c l db = Inr legacy"
    and consumed: "consume_token ?now (tk_id t) db = Inr db1"
    and place: "place_endpoint (draw 0) ?now t payload c l legacy db1 = Inr (db2, e, n)"
    and exp: "credential_expiry st now = Inr expires"
    and store: "store_redemption draw n ?now p request_hash t payload (legacy \<noteq> None) e
        (new_credential (mt_credential_id payload) (ep_id e) credential_hash expires ?now) db2 = Inr db'"
    and view: "exchange_payload e (new_credential (mt_credential_id payload) (ep_id e) credential_hash expires ?now) False = Inr view"
    using body by (auto simp: andThen_eq_Inr Let_def split: if_splits)
  note c1 = consume_token_Inr[OF t consumed]
  have leg1: "legacy_endpoint payload c l db1 = Inr legacy" using leg c1 by (simp add: legacy_endpoint_def)
  note pl = place_endpoint_Inr[OF leg1 sc place]
  have db1: "db1 = db\<lparr>db_tokens := save tk_id (token_used ?now t) (db_tokens db)\<rparr>"
    and e: "enrolled_row ?now t payload e" using c1 pl by blast+
  obtain rows where db2: "db2 = db1\<lparr>db_endpoints := rows\<rparr>" and at: "placed (db_endpoints db1) e rows" using pl by metis
  let ?c = "new_credential (mt_credential_id payload) (ep_id e) credential_hash expires ?now"
  have c: "dc_id ?c = mt_credential_id payload" "dc_endpoint ?c = ep_id e" "dc_status ?c = CredActive" by (simp_all add: new_credential_def)
  obtain r us where r: "\<forall>x\<in>set (db_credentials db2). dc_endpoint x = ep_id e \<longrightarrow> dc_status x \<noteq> CredActive"
      "(tk_id t, xc_installation payload) \<notin> (\<lambda>r. (rd_token r, rd_installation r)) ` set (db_redemptions db2)"
      "rd_token r = tk_id t" "rd_installation r = xc_installation payload" "rd_endpoint r = ep_id e"
      "rd_credential r = mt_credential_id payload" "rd_request_hash r = request_hash"
    and db': "db' = db2\<lparr>db_credentials := db_credentials db2 @ [?c], db_redemptions := db_redemptions db2 @ [r],
       db_audits := db_audits db2 @ us\<rparr>"
    using store_redemption_Inr[OF store] unfolding c by blast
  have same: "db_endpoints db1 = db_endpoints db" "db_credentials db2 = db_credentials db" "db_redemptions db2 = db_redemptions db"
    "db_audits db2 = db_audits db"
    by (simp_all add: db2 db1)
  define x where "x = \<lparr>rx_endpoint = e, rx_rows = rows, rx_expires = expires, rx_redemption = r, rx_audits = us\<rparr>"
  have "db' = db\<lparr>db_tokens := save tk_id (token_used ?now t) (db_tokens db), db_endpoints := rows,
     db_credentials := db_credentials db @ [?c], db_redemptions := db_redemptions db @ [r], db_audits := db_audits db @ us\<rparr>"
    by (simp add: db' db2 db1)
  then have "redemption_written st now request_hash credential_hash t payload db db' x"
    using pre plat sc fresh e at r exp unfolding redemption_written_def redeemed_credential_def x_def same by auto
  moreover have "redeemed_credential ?now payload credential_hash x = ?c" by (simp add: redeemed_credential_def x_def)
  ultimately show ?thesis using view by (auto simp: x_def)
qed

section \<open>The contract is kept by an exchange\<close>

lemma placed_rows:
  assumes ok: "fleet_ok packs db" and pl: "placed (db_endpoints db) e rows" and tok: "ep_token e = Some k"
  shows "unique_on ep_id rows" "unique_on ep_fingerprint rows"
    "\<And>x. x \<in> set rows \<longleftrightarrow> x = e \<or> (x \<in> set (db_endpoints db) \<and> ep_id x \<noteq> ep_id e)"
    "\<And>j. count_list (map ep_token rows) (Some j) = count_list (map ep_token (db_endpoints db)) (Some j) + (if j = k then 1 else 0)"
    "\<And>x. x \<in> set (db_endpoints db) \<Longrightarrow> ep_id x = ep_id e \<Longrightarrow> ep_mode x = LegacyShared"
proof -
  have u: "unique_on ep_id (db_endpoints db)" "unique_on ep_fingerprint (db_endpoints db)"
    by (rule fleet_okD[OF ok])+
  have "unique_on ep_id rows \<and> unique_on ep_fingerprint rows \<and>
    (\<forall>x. x \<in> set rows \<longleftrightarrow> x = e \<or> (x \<in> set (db_endpoints db) \<and> ep_id x \<noteq> ep_id e)) \<and>
    (\<forall>j. count_list (map ep_token rows) (Some j) = count_list (map ep_token (db_endpoints db)) (Some j) + (if j = k then 1 else 0)) \<and>
    (\<forall>x\<in>set (db_endpoints db). ep_id x = ep_id e \<longrightarrow> ep_mode x = LegacyShared)"
    using pl unfolding placed_def
  proof (elim disjE conjE bexE)
    assume new: "ep_id e \<notin> ep_id ` set (db_endpoints db)" "ep_fingerprint e \<notin> ep_fingerprint ` set (db_endpoints db)"
      "rows = db_endpoints db @ [e]"
    then have "\<forall>x. x \<in> set rows \<longleftrightarrow> x = e \<or> (x \<in> set (db_endpoints db) \<and> ep_id x \<noteq> ep_id e)" by (auto simp: image_iff)
    with new u tok show ?thesis by (auto simp: count_list_append)
  next
    fix e0
    assume e0: "e0 \<in> set (db_endpoints db)" "same_device e0 e" "ep_mode e0 = LegacyShared" "rows = save ep_id e (db_endpoints db)"
    have id: "ep_id e = ep_id e0" "ep_fingerprint e = ep_fingerprint e0" using e0(2) by (simp_all add: same_device_def)
    have "ep_token e0 = None" using fleet_okD(3)[OF ok e0(1)] e0(3) by (simp add: endpoint_ok_def)
    then have "count_list (map ep_token rows) (Some j) =
        count_list (map ep_token (db_endpoints db)) (Some j) + (if j = k then 1 else 0)" for j
      using count_list_save[OF u(1) e0(1) id(1), of ep_token "Some j"] tok by (simp add: e0(4))
    moreover have "unique_on ep_fingerprint rows"
      using map_save_same[OF u(1) e0(1) id(1), of ep_fingerprint] id(2) u(2) by (simp add: unique_on_def e0(4))
    moreover have "x \<in> set rows \<longleftrightarrow> x = e \<or> (x \<in> set (db_endpoints db) \<and> ep_id x \<noteq> ep_id e)" for x
      using e0(1) id(1) by (auto simp: e0(4) in_set_save)
    moreover have "ep_mode x = LegacyShared" if "x \<in> set (db_endpoints db)" "ep_id x = ep_id e" for x
      using unique_onD[OF u(1) that(1) e0(1)] that(2) id(1) e0(3) by simp
    ultimately show ?thesis using u(1) by (simp add: e0(4))
  qed
  then show "unique_on ep_id rows" "unique_on ep_fingerprint rows"
    "\<And>x. x \<in> set rows \<longleftrightarrow> x = e \<or> (x \<in> set (db_endpoints db) \<and> ep_id x \<noteq> ep_id e)"
    "\<And>j. count_list (map ep_token rows) (Some j) = count_list (map ep_token (db_endpoints db)) (Some j) + (if j = k then 1 else 0)"
    "\<And>x. x \<in> set (db_endpoints db) \<Longrightarrow> ep_id x = ep_id e \<Longrightarrow> ep_mode x = LegacyShared"
    by blast+
qed

lemma redemption_keeps:
  assumes ok: "fleet_ok packs db" and t: "t \<in> set (db_tokens db)"
    and w: "redemption_written st now rh ch t payload db db' x" and pr: "xc_protocol payload \<in> set supported_agent_protocol_versions"
  shows "fleet_ok packs db'"
proof -
  let ?now = "strftime_z now" and ?e = "rx_endpoint x" and ?r = "rx_redemption x"
  let ?c = "redeemed_credential ?now payload ch x"
  have e: "enrolled_row ?now t payload ?e" and pl: "placed (db_endpoints db) ?e (rx_rows x)"
    and fresh: "Some (xc_installation payload) \<notin> ep_installation ` set (db_endpoints db)"
      "mt_credential_id payload \<notin> dc_id ` set (db_credentials db)"
      "\<forall>y\<in>set (db_credentials db). dc_endpoint y = ep_id ?e \<longrightarrow> dc_status y \<noteq> CredActive"
      "(tk_id t, xc_installation payload) \<notin> (\<lambda>r. (rd_token r, rd_installation r)) ` set (db_redemptions db)"
    and r: "rd_token ?r = tk_id t" "rd_installation ?r = xc_installation payload" "rd_endpoint ?r = ep_id ?e"
      "rd_credential ?r = mt_credential_id payload"
    and usable: "token_usable ?now t"
    using w unfolding redemption_written_def by blast+
  have db': "db_tokens db' = save tk_id (token_used ?now t) (db_tokens db)" "db_endpoints db' = rx_rows x"
    "db_credentials db' = db_credentials db @ [?c]" "db_redemptions db' = db_redemptions db @ [?r]"
    using w by (simp_all add: redemption_written_def)
  have tok: "ep_token ?e = Some (tk_id t)" using e by (simp add: enrolled_row_def)
  note rows = placed_rows[OF ok pl tok]
  have ein: "ep_installation ?e = Some (xc_installation payload)" "ep_mode ?e = DeviceMode" and eok: "endpoint_ok packs ?e"
    using e pr by (simp_all add: enrolled_row_def endpoint_ok_def)
  have "endpoints_ok packs db'"
    unfolding endpoints_ok_def db'
  proof (intro conjI rows(1,2))
    show "\<forall>y\<in>set (rx_rows x). endpoint_ok packs y" using fleet_okD(3)[OF ok] eok by (auto simp: rows(3))
    show "\<forall>y\<in>set (rx_rows x). \<forall>z\<in>set (rx_rows x). \<forall>k. ep_installation y = Some k \<and> ep_installation z = Some k \<longrightarrow> ep_id y = ep_id z"
    proof (intro ballI allI impI)
      fix y z k
      assume y: "y \<in> set (rx_rows x)" and z: "z \<in> set (rx_rows x)" and k: "ep_installation y = Some k \<and> ep_installation z = Some k"
      have new: "v = ?e" if "v \<in> set (rx_rows x)" "ep_installation v = Some (xc_installation payload)" for v
        using that fresh(1) rows(3)[of v] by (auto simp: image_iff)
      show "ep_id y = ep_id z"
      proof (cases "y = ?e \<or> z = ?e")
        case True
        then have "k = xc_installation payload" using k ein by auto
        then show ?thesis using new[OF y] new[OF z] k by simp
      next
        case False
        then show ?thesis using y z k rows(3) fleet_okD(4)[OF ok, of y z k] by blast
      qed
    qed
  qed
  moreover have "tokens_ok db'"
    unfolding tokens_ok_def db'
  proof (intro conjI)
    have used: "tk_id (token_used ?now t) = tk_id t" "tk_use_count (token_used ?now t) = tk_use_count t + 1"
      "tk_max_uses (token_used ?now t) = tk_max_uses t" by (simp_all add: token_used_def)
    have mem: "y \<in> set (save tk_id (token_used ?now t) (db_tokens db)) \<longleftrightarrow>
        y = token_used ?now t \<or> (y \<in> set (db_tokens db) \<and> tk_id y \<noteq> tk_id t)" for y
      using t by (auto simp: in_set_save used)
    show "unique_on tk_id (save tk_id (token_used ?now t) (db_tokens db))" using fleet_okD(5)[OF ok] by simp
    show "\<forall>y\<in>set (rx_rows x). \<forall>k. ep_token y = Some k \<longrightarrow> k \<in> tk_id ` set (save tk_id (token_used ?now t) (db_tokens db))"
      using rows(3) tok t fleet_okD(6)[OF ok] by auto
    show "\<forall>y\<in>set (save tk_id (token_used ?now t) (db_tokens db)).
        tk_use_count y = int (count_list (map ep_token (rx_rows x)) (Some (tk_id y)))"
      using fleet_okD(7)[OF ok] t by (auto simp: mem rows(4) used)
    show "\<forall>y\<in>set (save tk_id (token_used ?now t) (db_tokens db)). tk_use_count y \<le> tk_max_uses y"
      using fleet_okD(8)[OF ok] usable by (auto simp: mem used token_usable_def)
  qed
  moreover have "credentials_ok db'"
    unfolding credentials_ok_def db'
  proof (intro conjI)
    have c: "dc_id ?c = mt_credential_id payload" "dc_endpoint ?c = ep_id ?e" by (simp_all add: redeemed_credential_def new_credential_def)
    show "unique_on dc_id (db_credentials db @ [?c])" using fleet_okD(9)[OF ok] fresh(2) by (simp add: c)
    have "\<exists>z\<in>set (rx_rows x). ep_id z = dc_endpoint y \<and> ep_mode z = DeviceMode" if y: "y \<in> set (db_credentials db)" for y
    proof -
      obtain z where z: "z \<in> set (db_endpoints db)" "ep_id z = dc_endpoint y" "ep_mode z = DeviceMode"
        using fleet_okD(10)[OF ok y] by blast
      then have "ep_id z \<noteq> ep_id ?e" using rows(5) by fastforce
      then show ?thesis using z rows(3) by blast
    qed
    then show "\<forall>y\<in>set (db_credentials db @ [?c]). \<exists>z\<in>set (rx_rows x). ep_id z = dc_endpoint y \<and> ep_mode z = DeviceMode"
      using rows(3) ein(2) by (auto simp: c)
    show "\<forall>y\<in>set (db_credentials db @ [?c]). \<forall>z\<in>set (db_credentials db @ [?c]).
        dc_status y = CredActive \<and> dc_status z = CredActive \<and> dc_endpoint y = dc_endpoint z \<longrightarrow> dc_id y = dc_id z"
    proof (intro ballI impI, elim conjE)
      fix y z
      assume yz: "y \<in> set (db_credentials db @ [?c])" "z \<in> set (db_credentials db @ [?c])"
        and act: "dc_status y = CredActive" "dc_status z = CredActive" "dc_endpoint y = dc_endpoint z"
      show "dc_id y = dc_id z"
      proof (cases "y = ?c \<or> z = ?c")
        case True
        then have "dc_endpoint y = ep_id ?e" "dc_endpoint z = ep_id ?e" using act(3) c(2) by auto
        then have "y = ?c" "z = ?c" using yz act(1,2) fresh(3) by auto
        then show ?thesis by simp
      next
        case False
        then show ?thesis using yz act fleet_okD(11)[OF ok, of y z] by simp
      qed
    qed
  qed
  moreover have "redemptions_ok db'"
    unfolding redemptions_ok_def db'
  proof (intro conjI)
    show "unique_on (\<lambda>r. (rd_token r, rd_installation r)) (db_redemptions db @ [?r])"
      using fleet_okD(12)[OF ok] fresh(4) by (simp add: r)
    have "\<exists>z\<in>set (rx_rows x). ep_id z = rd_endpoint y \<and> ep_installation z = Some (rd_installation y) \<and> ep_token z = Some (rd_token y)"
      if y: "y \<in> set (db_redemptions db)" for y
    proof -
      obtain z where z: "z \<in> set (db_endpoints db)" "ep_id z = rd_endpoint y" "ep_installation z = Some (rd_installation y)"
        "ep_token z = Some (rd_token y)" using fleet_okD(13)[OF ok y] by blast
      have "ep_mode z \<noteq> LegacyShared" using fleet_okD(3)[OF ok z(1)] z(3) by (auto simp: endpoint_ok_def)
      then have "ep_id z \<noteq> ep_id ?e" using rows(5)[OF z(1)] by blast
      then show ?thesis using z rows(3) by blast
    qed
    then show "\<forall>y\<in>set (db_redemptions db @ [?r]). \<exists>z\<in>set (rx_rows x).
        ep_id z = rd_endpoint y \<and> ep_installation z = Some (rd_installation y) \<and> ep_token z = Some (rd_token y)"
      using rows(3) ein tok by (auto simp: r)
    show "\<forall>y\<in>set (db_redemptions db @ [?r]). \<exists>c\<in>set (db_credentials db @ [?c]). dc_id c = rd_credential y \<and> dc_endpoint c = rd_endpoint y"
      using fleet_okD(14)[OF ok] by (auto simp: r redeemed_credential_def new_credential_def)
  qed
  ultimately show ?thesis by (simp add: fleet_ok_def)
qed

section \<open>The ways a device call ends\<close>

definition exchange_hash :: "(nat list \<Rightarrow> nat list \<Rightarrow> nat list) \<Rightarrow> nat list \<Rightarrow> string \<Rightarrow> exchange_in \<Rightarrow> string" where
  "exchange_hash hmac key token_id payload = exchange_request_hash (hmac_hex hmac) key token_id (exchange_values payload)"

definition material_hash :: "(nat list \<Rightarrow> nat list \<Rightarrow> nat list) \<Rightarrow> nat list \<Rightarrow> 'a credential_material_scheme \<Rightarrow> string" where
  "material_hash hmac key m = device_secret_hash (hmac_hex hmac) key (mt_credential_id m) (mt_secret m)"

definition admitted_exchange ::
  "(nat list \<Rightarrow> nat list \<Rightarrow> nat list) \<Rightarrow> app_state \<Rightarrow> http_request \<Rightarrow> principal \<Rightarrow> exchange_in \<Rightarrow> db \<Rightarrow> nat list \<Rightarrow> exchange_in \<Rightarrow>
   token_row \<Rightarrow> bool" where
  "admitted_exchange hmac st request p raw_payload db key payload t \<longleftrightarrow> exchange_valid raw_payload \<and> hmac_key st = Inr key \<and>
     require_current_protocol (xc_protocol raw_payload) = Inr () \<and> normalize_exchange raw_payload = Inr payload \<and>
     fetch tk_id (tk_id t) (db_tokens db) = Some t \<and> tk_hash_key t = hash_key_id \<and>
     (\<exists>secret. exchange_token request p = Inr (tk_id t, secret) \<and>
        compare_digest (enrollment_secret_hash (hmac_hex hmac) key (tk_id t) secret) (tk_secret_hash t) = Inr True)"

lemma exchange_cases:
  assumes "exchange_enrollment_token hmac st draw now request p raw_payload db = (db', Inr view)"
  obtains (replay) key payload t r where "admitted_exchange hmac st request p raw_payload db key payload t"
      "fetch (\<lambda>r. (rd_token r, rd_installation r)) (tk_id t, xc_installation payload) (db_redemptions db) = Some r"
      "replay_exchange (draw 0) (strftime_z now) p (tk_id t) (exchange_hash hmac key (tk_id t) payload)
         (mt_credential_id payload) (material_hash hmac key payload) r db = Inr (db', view)"
    | (redeem) key payload t where "admitted_exchange hmac st request p raw_payload db key payload t"
      "fetch (\<lambda>r. (rd_token r, rd_installation r)) (tk_id t, xc_installation payload) (db_redemptions db) = None"
      "redeem_token st draw now p (exchange_hash hmac key (tk_id t) payload) (material_hash hmac key payload) t payload db =
         Inr (db', view)"
proof -
  obtain key token_id secret payload where pre: "exchange_valid raw_payload" "hmac_key st = Inr key"
    "require_current_protocol (xc_protocol raw_payload) = Inr ()" "exchange_token request p = Inr (token_id, secret)"
    "normalize_exchange raw_payload = Inr payload"
    using assms unfolding exchange_enrollment_token_def by (auto simp: transaction_Inr andThen_eq_Inr)
  let ?t = "fetch tk_id token_id (db_tokens db)"
  have body: "andThen (compare_digest (enrollment_secret_hash (hmac_hex hmac) key token_id secret)
        (case ?t of Some t \<Rightarrow> tk_secret_hash t | None \<Rightarrow> no_hash)) (\<lambda>token_secret_matches.
        case ?t of
          None \<Rightarrow> Inl invalid_enrollment_credentials
        | Some t \<Rightarrow>
          if \<not> token_secret_matches \<or> tk_hash_key t \<noteq> hash_key_id then Inl invalid_enrollment_credentials
          else case fetch (\<lambda>r. (rd_token r, rd_installation r)) (token_id, xc_installation payload) (db_redemptions db) of
            Some redemption \<Rightarrow> replay_exchange (draw 0) (strftime_z now) p token_id (exchange_hash hmac key token_id payload)
              (mt_credential_id payload) (material_hash hmac key payload) redemption db
          | None \<Rightarrow> redeem_token st draw now p (exchange_hash hmac key token_id payload) (material_hash hmac key payload) t payload db) =
      Inr (db', view)"
    using assms unfolding exchange_enrollment_token_def exchange_hash_def material_hash_def
    by (simp add: transaction_Inr pre Let_def)
  then obtain t where t: "?t = Some t" by (cases ?t) (auto simp: andThen_eq_Inr)
  then have id: "tk_id t = token_id" using fetch_SomeD by fastforce
  have m: "compare_digest (enrollment_secret_hash (hmac_hex hmac) key token_id secret) (tk_secret_hash t) = Inr True"
    "tk_hash_key t = hash_key_id"
    using body by (auto simp: t andThen_eq_Inr split: if_splits)
  then have adm: "admitted_exchange hmac st request p raw_payload db key payload t"
    using pre t id by (auto simp: admitted_exchange_def)
  show thesis
    using body m adm by (cases "fetch (\<lambda>r. (rd_token r, rd_installation r)) (token_id, xc_installation payload) (db_redemptions db)")
      (auto simp: t id intro: replay redeem)
qed

lemma replay_Inr:
  assumes "replay_exchange u now_str p token_id rh cid ch r db = Inr (db', view)"
  shows "\<exists>c e a. fetch dc_id (rd_credential r) (db_credentials db) = Some c \<and> fetch ep_id (rd_endpoint r) (db_endpoints db) = Some e \<and>
     compare_digest rh (rd_request_hash r) = Inr True \<and> compare_digest ch (dc_secret_hash c) = Inr True \<and>
     dc_id c = cid \<and> dc_status c = CredActive \<and>
     (\<forall>x. dc_expires_at c = Some x \<longrightarrow> now_str < x) \<and> db' = db\<lparr>db_audits := db_audits db @ [a]\<rparr> \<and> exchange_payload e c True = Inr view"
proof (cases "fetch dc_id (rd_credential r) (db_credentials db)")
  case (Some c)
  show ?thesis
  proof (cases "fetch ep_id (rd_endpoint r) (db_endpoints db)")
    case (Some e)
    with assms \<open>_ = Some c\<close> show ?thesis
      unfolding replay_exchange_def
      by (auto simp: andThen_eq_Inr split: if_splits option.splits dest!: record_audit_Inr)
  next
    case None
    with assms \<open>_ = Some c\<close> show ?thesis
      by (auto simp: replay_exchange_def andThen_eq_Inr split: if_splits)
  qed
qed (use assms in \<open>auto simp: replay_exchange_def andThen_eq_Inr split: if_splits\<close>)

lemma exchange_keeps:
  assumes ok: "fleet_ok packs db" and run: "exchange_enrollment_token hmac st draw now request p raw_payload db = (db', Inr view)"
  shows "fleet_ok packs db'"
  using run
proof (cases rule: exchange_cases)
  case (replay key payload t r)
  then show ?thesis using replay_Inr ok by (metis fleet_ok_audits)
next
  case (redeem key payload t)
  have t: "t \<in> set (db_tokens db)" and pr: "xc_protocol payload \<in> set supported_agent_protocol_versions"
    using redeem(1) fetch_SomeD[of tk_id "tk_id t" "db_tokens db" t]
    by (auto simp: admitted_exchange_def normalize_exchange_def andThen_eq_Inr require_current_protocol_def
        require_supported_agent_protocol_def split: if_splits)
  from redeem_cases[OF redeem(3) fleet_okD(5)[OF ok] t] redemption_keeps[OF ok t _ pr] show ?thesis by blast
qed

section \<open>Credentials and tokens\<close>

lemma save_append: "save key r (xs @ ys) = save key r xs @ save key r ys"
  by (simp add: save_def)

lemma save_save: "key r = key r' \<Longrightarrow> save key r (save key r' xs) = save key r xs"
  by (simp add: save_def)

definition rotated_out :: "string \<Rightarrow> string \<Rightarrow> credential_row \<Rightarrow> credential_row" where
  "rotated_out now_str new_id c = c\<lparr>dc_status := CredReplaced, dc_updated_at := now_str, dc_replaced_at := Some now_str,
     dc_replaced_by := Some new_id\<rparr>"

lemma rotate_current_Inr:
  assumes "rotate_current st draw now p new_id new_hash c db = Inr (db', view)" and "new_id \<noteq> dc_id c"
  shows "\<exists>expires a. credential_expiry st now = Inr expires \<and> new_id \<notin> dc_id ` set (db_credentials db) \<and>
     dc_endpoint c \<in> ep_id ` set (db_endpoints db) \<and>
     (\<forall>x\<in>set (save dc_id (rotated_out (strftime_z now) new_id c) (db_credentials db)).
        dc_endpoint x = dc_endpoint c \<longrightarrow> dc_status x \<noteq> CredActive) \<and>
     db' = db\<lparr>db_credentials := save dc_id (rotated_out (strftime_z now) new_id c) (db_credentials db) @
         [new_credential new_id (dc_endpoint c) new_hash expires (strftime_z now)], db_audits := db_audits db @ [a]\<rparr> \<and>
     view = credential_payload (new_credential new_id (dc_endpoint c) new_hash expires (strftime_z now))"
proof -
  let ?now = "strftime_z now"
  let ?r = "c\<lparr>dc_status := CredReplaced, dc_updated_at := ?now, dc_replaced_at := Some ?now\<rparr>"
  let ?db = "db\<lparr>db_credentials := save dc_id ?r (db_credentials db)\<rparr>"
  obtain expires where exp: "credential_expiry st now = Inr expires"
    using assms(1) by (auto simp: rotate_current_def Let_def andThen_eq_Inr)
  let ?n = "new_credential new_id (dc_endpoint c) new_hash expires ?now"
  obtain db1 where ins: "insert_credential ?n ?db = Inr db1"
    using assms(1) by (auto simp: rotate_current_def Let_def andThen_eq_Inr exp)
  have n: "dc_id ?n = new_id" "dc_endpoint ?n = dc_endpoint c" "dc_status ?n = CredActive" by (simp_all add: new_credential_def)
  have f: "new_id \<notin> dc_id ` set (db_credentials db)" "dc_endpoint c \<in> ep_id ` set (db_endpoints db)"
    "\<forall>x\<in>set (save dc_id ?r (db_credentials db)). dc_endpoint x = dc_endpoint c \<longrightarrow> dc_status x \<noteq> CredActive"
    "db1 = ?db\<lparr>db_credentials := db_credentials ?db @ [?n]\<rparr>"
    using ins by (simp_all add: insert_credential_Inr n)
  let ?db2 = "db1\<lparr>db_credentials := save dc_id (?r\<lparr>dc_replaced_by := Some new_id\<rparr>) (db_credentials db1)\<rparr>"
  obtain e where e: "fetch ep_id (dc_endpoint c) (db_endpoints ?db2) = Some e"
    using assms(1) unfolding rotate_current_def Let_def exp andThen_Inr ins by (auto split: option.splits)
  obtain x where "record_audit_event (draw 0) ?now x ?db2 = Inr db'" and view: "view = credential_payload ?n"
    using assms(1) unfolding rotate_current_def Let_def exp andThen_Inr ins e option.case by (auto simp: andThen_eq_Inr)
  note au = record_audit_Inr[OF this(1)]
  have rot: "?r\<lparr>dc_replaced_by := Some new_id\<rparr> = rotated_out ?now new_id c" by (simp add: rotated_out_def)
  have "db_credentials ?db2 = save dc_id (rotated_out ?now new_id c) (db_credentials db) @ [?n]"
  proof -
    have id: "dc_id (rotated_out ?now new_id c) = dc_id c" by (simp add: rotated_out_def)
    have "db_credentials ?db2 = save dc_id (?r\<lparr>dc_replaced_by := Some new_id\<rparr>) (save dc_id ?r (db_credentials db) @ [?n])"
      by (simp add: f(4))
    also have "\<dots> = save dc_id (rotated_out ?now new_id c) (save dc_id ?r (db_credentials db)) @
        save dc_id (rotated_out ?now new_id c) [?n]" by (simp only: rot save_append)
    also have "save dc_id (rotated_out ?now new_id c) (save dc_id ?r (db_credentials db)) =
        save dc_id (rotated_out ?now new_id c) (db_credentials db)" by (rule save_save) (simp add: id)
    also have "save dc_id (rotated_out ?now new_id c) [?n] = [?n]" using assms(2) by (simp add: save_def id n(1))
    finally show ?thesis .
  qed
  then have "db' = db\<lparr>db_credentials := save dc_id (rotated_out ?now new_id c) (db_credentials db) @ [?n],
      db_audits := db_audits db @ [audit_event (draw 0) ?now x]\<rparr>"
    by (simp add: au f(4))
  moreover have "\<forall>x\<in>set (save dc_id (rotated_out ?now new_id c) (db_credentials db)).
      dc_endpoint x = dc_endpoint c \<longrightarrow> dc_status x \<noteq> CredActive"
  proof (intro ballI impI)
    fix y
    assume y: "y \<in> set (save dc_id (rotated_out ?now new_id c) (db_credentials db))" and same: "dc_endpoint y = dc_endpoint c"
    have "y = rotated_out ?now new_id c \<or> y \<in> set (save dc_id ?r (db_credentials db))"
      using y by (simp add: in_set_save rotated_out_def) blast
    then show "dc_status y \<noteq> CredActive" using f(3) same by (elim disjE) (simp add: rotated_out_def, blast)
  qed
  ultimately show ?thesis using exp f(1,2) view by blast
qed

lemma rotate_cases:
  assumes "rotate_device_credential hmac st draw now p payload db = (db', Inr view)"
  obtains (same) key c where "hmac_key st = Inr key" "fetch dc_id (dc_id c) (db_credentials db) = Some c" "p_method p = DeviceCredential"
      "p_credential p = Some (dc_id c)" "p_endpoint p = Some (dc_endpoint c)" "dc_status c = CredActive"
      "mt_credential_id payload = dc_id c" "compare_digest (material_hash hmac key payload) (dc_secret_hash c) = Inr True"
      "db' = db" "view = credential_payload c"
    | (new) key c where "hmac_key st = Inr key" "fetch dc_id (dc_id c) (db_credentials db) = Some c" "p_method p = DeviceCredential"
      "p_credential p = Some (dc_id c)" "p_endpoint p = Some (dc_endpoint c)" "dc_status c = CredActive"
      "mt_credential_id payload \<noteq> dc_id c"
      "rotate_current st draw now p (mt_credential_id payload) (material_hash hmac key payload) c db = Inr (db', view)"
proof -
  obtain key where dev: "require_device_principal (Some p) = Inr p" and key: "hmac_key st = Inr key"
    and valid: "credential_material_valid payload"
    using assms unfolding rotate_device_credential_def
    by (auto simp: transaction_Inr andThen_eq_Inr require_device_principal_def current_principal_def split: if_splits)
  have m: "p_method p = DeviceCredential"
    using dev by (auto simp: require_device_principal_def current_principal_def split: if_splits)
  have body: "(case (case p_credential p of None \<Rightarrow> None | Some k \<Rightarrow> fetch dc_id k (db_credentials db)) of
          None \<Rightarrow> Inl invalid_enrollment_credentials
        | Some current \<Rightarrow>
          if Some (dc_endpoint current) \<noteq> p_endpoint p \<or> dc_status current \<noteq> CredActive
          then Inl invalid_enrollment_credentials
          else if mt_credential_id payload = dc_id current
          then andThen (compare_digest (material_hash hmac key payload) (dc_secret_hash current)) (\<lambda>same.
            if same then Inr (db, credential_payload current) else Inl credential_in_use)
          else if fetch dc_id (mt_credential_id payload) (db_credentials db) \<noteq> None then Inl credential_in_use
          else rotate_current st draw now p (mt_credential_id payload) (material_hash hmac key payload) current db) = Inr (db', view)"
    using assms unfolding rotate_device_credential_def material_hash_def
    by (simp add: transaction_Inr dev key valid Let_def)
  obtain k c where c: "p_credential p = Some k" "fetch dc_id k (db_credentials db) = Some c"
    using body by (cases "p_credential p"; cases "fetch dc_id (the (p_credential p)) (db_credentials db)") auto
  have id: "dc_id c = k" using c(2) fetch_SomeD by fastforce
  have f: "fetch dc_id (dc_id c) (db_credentials db) = Some c" "p_credential p = Some (dc_id c)" using c id by simp_all
  have e: "p_endpoint p = Some (dc_endpoint c)" "dc_status c = CredActive"
    using body by (simp_all add: c split: if_splits)
  show thesis
  proof (cases "mt_credential_id payload = dc_id c")
    case True
    then have "andThen (compare_digest (material_hash hmac key payload) (dc_secret_hash c)) (\<lambda>same.
            if same then Inr (db, credential_payload c) else Inl credential_in_use) = Inr (db', view)"
      using body by (simp add: c e)
    then show thesis using same[OF key f(1) m f(2) e True] by (auto simp: andThen_eq_Inr split: if_splits)
  next
    case False
    then have "rotate_current st draw now p (mt_credential_id payload) (material_hash hmac key payload) c db = Inr (db', view)"
      using body by (simp add: c e split: if_splits)
    then show thesis by (rule new[OF key f(1) m f(2) e False])
  qed
qed

end
