(* ===== verification/Device_Lifecycle.thy ===== *)
theory Device_Lifecycle
  imports Device_Contract
begin

text \<open>
  The life of a device: the calls of \<open>endpoints.py\<close> and \<open>device_identity.py\<close> keep the contract of the fleet
  tables, move each endpoint along its stages, and decide which credentials authenticate.
\<close>

section \<open>Calls\<close>

datatype fleet_call = EnrollLegacy endpoint_enroll_in | ApproveEndpoint string | Heartbeat string endpoint_heartbeat_in
  | CreateToken "nat list" enrollment_token_in | RevokeToken string | Exchange http_request exchange_in
  | RotateCredential credential_material | RevokeCredential string

record surroundings =
  sr_packs :: "pack list"
  sr_hmac :: "nat list \<Rightarrow> nat list \<Rightarrow> nat list"
  sr_state :: app_state

fun run_fleet_call :: "surroundings \<Rightarrow> (nat \<Rightarrow> string) \<Rightarrow> nat \<Rightarrow> principal \<Rightarrow> fleet_call \<Rightarrow> db \<Rightarrow> db" where
  "run_fleet_call s draw now p (EnrollLegacy payload) db = fst (enroll_endpoint draw now p payload db)"
| "run_fleet_call s draw now p (ApproveEndpoint raw_id) db = fst (approve_pending_endpoint draw now p raw_id db)"
| "run_fleet_call s draw now p (Heartbeat raw_id payload) db = fst (heartbeat_endpoint (sr_packs s) now p raw_id payload db)"
| "run_fleet_call s draw now p (CreateToken raw payload) db = fst (create_enrollment_token (sr_hmac s) raw (sr_state s) draw now p payload db)"
| "run_fleet_call s draw now p (RevokeToken raw_id) db = fst (revoke_enrollment_token draw now p raw_id db)"
| "run_fleet_call s draw now p (Exchange request payload) db = fst (exchange_enrollment_token (sr_hmac s) (sr_state s) draw now request p payload db)"
| "run_fleet_call s draw now p (RotateCredential payload) db = fst (rotate_device_credential (sr_hmac s) (sr_state s) draw now p payload db)"
| "run_fleet_call s draw now p (RevokeCredential raw_id) db = fst (revoke_device_credential draw now p raw_id db)"

text \<open>
  The middleware forwards no device credential to \<open>/api/endpoints/enroll\<close>
  (\<open>forwarded_path_reachable\<close>).
\<close>

definition call_admitted :: "principal \<Rightarrow> fleet_call \<Rightarrow> bool" where
  "call_admitted p call \<longleftrightarrow> (\<forall>payload. call = EnrollLegacy payload \<longrightarrow> p_method p \<noteq> DeviceCredential)"

section \<open>The remaining effects\<close>

lemma revoke_token_cases:
  assumes "revoke_enrollment_token draw now p raw_id db = (db', Inr v)"
  shows "\<exists>t t' a. t \<in> set (db_tokens db) \<and> tk_id t' = tk_id t \<and> tk_use_count t' = tk_use_count t \<and> tk_max_uses t' = tk_max_uses t \<and>
     tk_revoked_at t' \<noteq> None \<and> db' = db\<lparr>db_tokens := save tk_id t' (db_tokens db), db_audits := db_audits db @ [a]\<rparr>"
proof -
  obtain token_id where pre: "require_permission ''enrollment.manage'' p = Inr p"
    "normalize_required_string raw_id ''token_id'' = Inr token_id"
    using assms unfolding revoke_enrollment_token_def
    by (auto simp: transaction_Inr andThen_eq_Inr require_permission_def split: if_splits)
  obtain t where t: "visible_token p token_id db = Some t"
    using assms by (cases "visible_token p token_id db") (simp_all add: revoke_enrollment_token_def pre transaction_Inr)
  define t' where t': "t' = (if tk_revoked_at t = None then t\<lparr>tk_revoked_at := Some (strftime_z now), tk_updated_at := strftime_z now\<rparr> else t)"
  obtain x where au: "record_audit_event (draw 0) (strftime_z now) x (db\<lparr>db_tokens := save tk_id t' (db_tokens db)\<rparr>) = Inr db'"
    using assms unfolding revoke_enrollment_token_def pre andThen_Inr Let_def t option.case transaction_Inr andThen_eq_Inr t'[symmetric]
    by blast
  have "t \<in> set (db_tokens db)" using t find_eq_Some_first by (fastforce simp: visible_token_def)
  with record_audit_Inr[OF au] show ?thesis
    by (intro exI[of _ t] exI[of _ t'] exI[of _ "audit_event (draw 0) (strftime_z now) x"]) (simp add: t')
qed

text \<open>A credential keeps its identity and secret, and only an active one can stay active.\<close>

definition credential_moves :: "credential_row \<Rightarrow> credential_row \<Rightarrow> bool" where
  "credential_moves c c' \<longleftrightarrow> dc_id c' = dc_id c \<and> dc_endpoint c' = dc_endpoint c \<and> dc_secret_hash c' = dc_secret_hash c \<and>
     dc_hash_key c' = dc_hash_key c \<and> dc_expires_at c' = dc_expires_at c \<and> dc_created_at c' = dc_created_at c \<and>
     (dc_status c' = CredActive \<longrightarrow> dc_status c = CredActive) \<and> (dc_status c = CredRevoked \<longrightarrow> dc_status c' = CredRevoked)"

lemma credential_moves_refl [simp]: "credential_moves c c"
  by (simp add: credential_moves_def)

lemma credential_moves_trans: "credential_moves a b \<Longrightarrow> credential_moves b c \<Longrightarrow> credential_moves a c"
  unfolding credential_moves_def by (intro conjI impI) (elim conjE, metis)+

lemma revoke_credential_cases:
  assumes "revoke_device_credential draw now p raw_id db = (db', Inr v)"
  shows "\<exists>c c' a. c \<in> set (db_credentials db) \<and> normalize_required_string raw_id ''credential_id'' = Inr (dc_id c) \<and>
     credential_moves c c' \<and> dc_status c' = CredRevoked \<and>
     db' = db\<lparr>db_credentials := save dc_id c' (db_credentials db), db_audits := db_audits db @ [a]\<rparr> \<and> v = credential_payload c'"
proof -
  obtain cid where pre: "require_permission ''device_credential.manage'' p = Inr p"
    "normalize_required_string raw_id ''credential_id'' = Inr cid"
    using assms unfolding revoke_device_credential_def
    by (auto simp: transaction_Inr andThen_eq_Inr require_permission_def split: if_splits)
  obtain c where c: "visible_credential p cid db = Some c"
    using assms by (cases "visible_credential p cid db") (simp_all add: revoke_device_credential_def pre transaction_Inr)
  define c' where c': "c' = (if dc_status c \<noteq> CredRevoked
     then c\<lparr>dc_status := CredRevoked, dc_revoked_at := Some (strftime_z now), dc_updated_at := strftime_z now\<rparr> else c)"
  let ?db = "db\<lparr>db_credentials := save dc_id c' (db_credentials db)\<rparr>"
  obtain e where e: "fetch ep_id (dc_endpoint c') (db_endpoints ?db) = Some e"
    using assms unfolding revoke_device_credential_def pre andThen_Inr Let_def c option.case transaction_Inr c'[symmetric]
    by (auto split: option.splits)
  obtain x where au: "record_audit_event (draw 0) (strftime_z now) x ?db = Inr db'" and v: "v = credential_payload c'"
    using assms unfolding revoke_device_credential_def pre andThen_Inr Let_def c option.case transaction_Inr c'[symmetric] e andThen_eq_Inr
    by blast
  have "c \<in> set (db_credentials db)" "dc_id c = cid" using c find_eq_Some_first by (fastforce simp: visible_credential_def)+
  with record_audit_Inr[OF au] pre(2) v show ?thesis
    by (intro exI[of _ c] exI[of _ c'] exI[of _ "audit_event (draw 0) (strftime_z now) x"]) (simp add: c' credential_moves_def)
qed

lemma insert_token_Inr [result_simps]:
  "insert_token t db = Inr db' \<Longrightarrow> tk_id t \<notin> tk_id ` set (db_tokens db) \<and> tk_use_count t \<le> tk_max_uses t \<and>
     db' = db\<lparr>db_tokens := db_tokens db @ [t]\<rparr>"
  by (auto simp: insert_token_def fetch_None split: if_splits)

lemma create_token_cases:
  assumes "create_enrollment_token hmac raw st draw now p payload db = (db', Inr v)"
  shows "\<exists>t a. tk_id t \<notin> tk_id ` set (db_tokens db) \<and> tk_use_count t = 0 \<and> 0 \<le> tk_max_uses t \<and>
     db' = db\<lparr>db_tokens := db_tokens db @ [t], db_audits := db_audits db @ [a]\<rparr>"
proof -
  obtain t x db1 where t: "insert_token t db = Inr db1" "tk_use_count t = 0"
    and au: "record_audit_event (draw 1) (strftime_z now) x db1 = Inr db'"
    using assms unfolding create_enrollment_token_def
    by (auto simp: transaction_Inr andThen_eq_Inr Let_def generate_enrollment_token_def split: if_splits prod.splits)
  show ?thesis using insert_token_Inr[OF t(1)] t(2) record_audit_Inr[OF au] by auto
qed

section \<open>Every call keeps the contract\<close>

lemma contract_congs:
  "db_endpoints db' = db_endpoints db \<Longrightarrow> endpoints_ok packs db' = endpoints_ok packs db"
  "db_endpoints db' = db_endpoints db \<Longrightarrow> db_tokens db' = db_tokens db \<Longrightarrow> tokens_ok db' = tokens_ok db"
  "db_endpoints db' = db_endpoints db \<Longrightarrow> db_credentials db' = db_credentials db \<Longrightarrow> credentials_ok db' = credentials_ok db"
  "db_endpoints db' = db_endpoints db \<Longrightarrow> db_credentials db' = db_credentials db \<Longrightarrow> db_redemptions db' = db_redemptions db \<Longrightarrow>
     redemptions_ok db' = redemptions_ok db"
  by (simp_all only: endpoints_ok_def tokens_ok_def credentials_ok_def redemptions_ok_def)

lemma contract_parts:
  assumes "fleet_ok packs db" and "db_endpoints db' = db_endpoints db"
  shows "endpoints_ok packs db'" "db_tokens db' = db_tokens db \<Longrightarrow> tokens_ok db'"
    "db_credentials db' = db_credentials db \<Longrightarrow> credentials_ok db'"
    "db_credentials db' = db_credentials db \<Longrightarrow> db_redemptions db' = db_redemptions db \<Longrightarrow> redemptions_ok db'"
  using assms contract_congs[OF assms(2)] by (simp_all add: fleet_ok_def)

lemma credentials_saved:
  assumes ok: "fleet_ok packs db" and c: "c \<in> set (db_credentials db)" "dc_id c' = dc_id c" "dc_endpoint c' = dc_endpoint c"
    "dc_status c' \<noteq> CredActive"
    and same: "db_endpoints db' = db_endpoints db" "db_tokens db' = db_tokens db" "db_redemptions db' = db_redemptions db"
    "db_credentials db' = save dc_id c' (db_credentials db)"
  shows "fleet_ok packs db'"
proof -
  have mem: "x \<in> set (save dc_id c' (db_credentials db)) \<Longrightarrow> x = c' \<or> x \<in> set (db_credentials db)" for x
    by (auto simp: in_set_save)
  have at: "\<exists>e\<in>set (db_endpoints db). ep_id e = dc_endpoint x \<and> ep_mode e = DeviceMode"
    if "x \<in> set (save dc_id c' (db_credentials db))" for x
    using mem[OF that] fleet_okD(10)[OF ok c(1)] fleet_okD(10)[OF ok, of x] c(3) by auto
  have "credentials_ok db'"
    unfolding credentials_ok_def same
  proof (intro conjI ballI impI at)
    show "unique_on dc_id (save dc_id c' (db_credentials db))" using fleet_okD(9)[OF ok] by simp
    fix x y
    assume xy: "x \<in> set (save dc_id c' (db_credentials db))" "y \<in> set (save dc_id c' (db_credentials db))"
      and act: "dc_status x = CredActive \<and> dc_status y = CredActive \<and> dc_endpoint x = dc_endpoint y"
    then have "x \<in> set (db_credentials db)" "y \<in> set (db_credentials db)" using mem c(4) by blast+
    then show "dc_id x = dc_id y" using fleet_okD(11)[OF ok] act by blast
  qed
  moreover have "redemptions_ok db'"
    unfolding redemptions_ok_def same
  proof (intro conjI ballI)
    show "unique_on (\<lambda>r. (rd_token r, rd_installation r)) (db_redemptions db)" by (rule fleet_okD(12)[OF ok])
    fix r
    assume r: "r \<in> set (db_redemptions db)"
    show "\<exists>e\<in>set (db_endpoints db). ep_id e = rd_endpoint r \<and> ep_installation e = Some (rd_installation r) \<and> ep_token e = Some (rd_token r)"
      by (rule fleet_okD(13)[OF ok r])
    obtain x where x: "x \<in> set (db_credentials db)" "dc_id x = rd_credential r" "dc_endpoint x = rd_endpoint r"
      using fleet_okD(14)[OF ok r] by blast
    show "\<exists>x\<in>set (save dc_id c' (db_credentials db)). dc_id x = rd_credential r \<and> dc_endpoint x = rd_endpoint r"
    proof (cases "dc_id x = dc_id c")
      case True
      then have "x = c" using unique_onD[OF fleet_okD(9)[OF ok] x(1) c(1)] by simp
      moreover have "c' \<in> set (save dc_id c' (db_credentials db))" using c(1,2) by (auto simp: in_set_save)
      ultimately show ?thesis using x(2,3) c(2,3) by metis
    next
      case False
      then have "x \<in> set (save dc_id c' (db_credentials db))" using x(1) c(2) by (simp add: in_set_save)
      then show ?thesis using x by blast
    qed
  qed
  ultimately show ?thesis using contract_parts[OF ok same(1)] same(2) by (simp add: fleet_ok_def)
qed

lemma credential_added:
  assumes ok: "fleet_ok packs db" and new: "dc_id c \<notin> dc_id ` set (db_credentials db)"
    "\<forall>x\<in>set (db_credentials db). dc_endpoint x = dc_endpoint c \<longrightarrow> dc_status x \<noteq> CredActive"
    and e: "e \<in> set (db_endpoints db)" "ep_id e = dc_endpoint c" "ep_mode e = DeviceMode"
  shows "fleet_ok packs (db\<lparr>db_credentials := db_credentials db @ [c], db_audits := a\<rparr>)"
proof -
  have act: "dc_id x = dc_id y" if "x \<in> set (db_credentials db @ [c])" "y \<in> set (db_credentials db @ [c])"
    "dc_status x = CredActive" "dc_status y = CredActive" "dc_endpoint x = dc_endpoint y" for x y
  proof (cases "x = c \<or> y = c")
    case True
    then have "x = c" "y = c" using that new(2) by auto
    then show ?thesis by simp
  next
    case False
    then show ?thesis using that fleet_okD(11)[OF ok, of x y] by simp
  qed
  have at: "\<exists>e\<in>set (db_endpoints db). ep_id e = dc_endpoint x \<and> ep_mode e = DeviceMode"
    if "x \<in> set (db_credentials db @ [c])" for x
    using that fleet_okD(10)[OF ok, of x] e by auto
  let ?db = "db\<lparr>db_credentials := db_credentials db @ [c], db_audits := a\<rparr>"
  have tables: "db_endpoints ?db = db_endpoints db" "db_tokens ?db = db_tokens db" "db_redemptions ?db = db_redemptions db"
    "db_credentials ?db = db_credentials db @ [c]" by simp_all
  have "credentials_ok ?db"
    unfolding credentials_ok_def tables
  proof (intro conjI ballI impI at)
    show "unique_on dc_id (db_credentials db @ [c])" using fleet_okD(9)[OF ok] new(1) by simp
  qed (assumption, elim conjE, rule act)
  moreover have "redemptions_ok ?db"
    unfolding redemptions_ok_def tables
    by (intro conjI ballI fleet_okD(12)[OF ok] fleet_okD(13)[OF ok]) (use fleet_okD(14)[OF ok] in fastforce)+
  ultimately show ?thesis using contract_parts[OF ok tables(1)] tables(2) by (simp add: fleet_ok_def)
qed

lemma rotate_keeps:
  assumes ok: "fleet_ok packs db" and run: "rotate_device_credential hmac st draw now p payload db = (db', Inr view)"
  shows "fleet_ok packs db'"
  using run
proof (cases rule: rotate_cases)
  case (new key c)
  let ?r = "rotated_out (strftime_z now) (mt_credential_id payload) c"
  let ?db = "db\<lparr>db_credentials := save dc_id ?r (db_credentials db)\<rparr>"
  have c: "c \<in> set (db_credentials db)" using fetch_SomeD[OF new(2)] by simp
  have r: "dc_id ?r = dc_id c" "dc_endpoint ?r = dc_endpoint c" "dc_status ?r \<noteq> CredActive" by (simp_all add: rotated_out_def)
  obtain expires a where out: "mt_credential_id payload \<notin> dc_id ` set (db_credentials db)"
     "\<forall>x\<in>set (save dc_id ?r (db_credentials db)). dc_endpoint x = dc_endpoint c \<longrightarrow> dc_status x \<noteq> CredActive"
     "db' = db\<lparr>db_credentials := save dc_id ?r (db_credentials db) @
         [new_credential (mt_credential_id payload) (dc_endpoint c) (material_hash hmac key payload) expires (strftime_z now)],
         db_audits := db_audits db @ [a]\<rparr>"
    using rotate_current_Inr[OF new(8,7)] by blast
  have ok1: "fleet_ok packs ?db" by (rule credentials_saved[OF ok c r]) simp_all
  obtain e where e: "e \<in> set (db_endpoints db)" "ep_id e = dc_endpoint c" "ep_mode e = DeviceMode"
    using fleet_okD(10)[OF ok c] by blast
  have "fleet_ok packs (?db\<lparr>db_credentials := db_credentials ?db @
      [new_credential (mt_credential_id payload) (dc_endpoint c) (material_hash hmac key payload) expires (strftime_z now)],
      db_audits := db_audits db @ [a]\<rparr>)"
    by (rule credential_added[OF ok1, of _ e]) (use out(1,2) e in \<open>simp_all add: new_credential_def\<close>)
  then show ?thesis by (simp add: out(3))
qed (use ok in simp)

lemma tokens_saved:
  assumes ok: "fleet_ok packs db" and t: "t \<in> set (db_tokens db)" "tk_id t' = tk_id t" "tk_use_count t' = tk_use_count t"
    "tk_max_uses t' = tk_max_uses t"
  shows "fleet_ok packs (db\<lparr>db_tokens := save tk_id t' (db_tokens db), db_audits := a\<rparr>)"
proof -
  have mem: "x \<in> set (save tk_id t' (db_tokens db)) \<Longrightarrow> x = t' \<or> x \<in> set (db_tokens db)" for x
    by (auto simp: in_set_save)
  have "tk_use_count x = int (count_list (map ep_token (db_endpoints db)) (Some (tk_id x))) \<and> tk_use_count x \<le> tk_max_uses x"
    if "x \<in> set (save tk_id t' (db_tokens db))" for x
    using mem[OF that] fleet_okD(7,8)[OF ok t(1)] fleet_okD(7,8)[OF ok, of x] t(2-4) by auto
  note count = this
  let ?db = "db\<lparr>db_tokens := save tk_id t' (db_tokens db), db_audits := a\<rparr>"
  have tables: "db_endpoints ?db = db_endpoints db" "db_tokens ?db = save tk_id t' (db_tokens db)"
    "db_credentials ?db = db_credentials db" "db_redemptions ?db = db_redemptions db" by simp_all
  have "tokens_ok ?db"
    unfolding tokens_ok_def tables keys_save unique_on_save
    by (intro conjI ballI allI impI fleet_okD(5)[OF ok]) (use fleet_okD(6)[OF ok] count in blast)+
  then show ?thesis using contract_parts[OF ok tables(1)] tables by (simp add: fleet_ok_def)
qed

lemma token_added:
  assumes ok: "fleet_ok packs db" and t: "tk_id t \<notin> tk_id ` set (db_tokens db)" "tk_use_count t = 0" "0 \<le> tk_max_uses t"
  shows "fleet_ok packs (db\<lparr>db_tokens := db_tokens db @ [t], db_audits := a\<rparr>)"
proof -
  have "Some (tk_id t) \<notin> set (map ep_token (db_endpoints db))" using fleet_okD(6)[OF ok] t(1) by auto
  then have "count_list (map ep_token (db_endpoints db)) (Some (tk_id t)) = 0" by (simp add: count_list_0_iff)
  then have count: "tk_use_count x = int (count_list (map ep_token (db_endpoints db)) (Some (tk_id x))) \<and> tk_use_count x \<le> tk_max_uses x"
    if "x \<in> set (db_tokens db @ [t])" for x
    using that fleet_okD(7,8)[OF ok, of x] t(2,3) by auto
  let ?db = "db\<lparr>db_tokens := db_tokens db @ [t], db_audits := a\<rparr>"
  have tables: "db_endpoints ?db = db_endpoints db" "db_tokens ?db = db_tokens db @ [t]"
    "db_credentials ?db = db_credentials db" "db_redemptions ?db = db_redemptions db" by simp_all
  have keys: "k \<in> tk_id ` set (db_tokens db @ [t])" if "e \<in> set (db_endpoints db)" "ep_token e = Some k" for e k
    using fleet_okD(6)[OF ok that] by auto
  have "unique_on tk_id (db_tokens db @ [t])" using fleet_okD(5)[OF ok] t(1) by simp
  then have "tokens_ok ?db"
    unfolding tokens_ok_def tables using keys count by blast
  then show ?thesis using contract_parts[OF ok tables(1)] tables by (simp add: fleet_ok_def)
qed

lemma endpoint_written_keeps:
  assumes ok: "fleet_ok packs db" and e: "e \<in> set (db_endpoints db)" "same_device e e'" "same_enrollment e e'"
    and legacy: "ep_mode e = LegacyShared \<Longrightarrow> ep_status e' \<noteq> EpPending"
    and device: "ep_mode e = DeviceMode \<Longrightarrow> ep_protocol e' \<in> set supported_agent_protocol_versions"
    and manifest: "\<And>m. ep_manifest e' = Some m \<Longrightarrow> manifest_sound packs (ep_platform e) m (parse_declared_capabilities e')"
  shows "fleet_ok packs (db\<lparr>db_endpoints := save ep_id e' (db_endpoints db)\<rparr>)"
proof (rule fleet_endpoint_saved[OF ok e])
  show "endpoint_ok packs e'"
    using fleet_okD(3)[OF ok e(1)] e(2,3) legacy device manifest
    by (cases "ep_mode e") (auto simp: endpoint_ok_def same_device_def same_enrollment_def)
qed

lemma endpoint_calls_keep:
  assumes ok: "fleet_ok packs db"
  shows "enroll_endpoint draw now p payload db = (db', Inr (v, created)) \<Longrightarrow> p_method p \<noteq> DeviceCredential \<Longrightarrow> fleet_ok packs db'"
    and "approve_pending_endpoint draw now p raw_id db = (db', Inr v') \<Longrightarrow> fleet_ok packs db'"
    and "heartbeat_endpoint packs now p raw_id hb db = (db', Inr ack) \<Longrightarrow> fleet_ok packs db'"
proof -
  assume run: "enroll_endpoint draw now p payload db = (db', Inr (v, created))" and p: "p_method p \<noteq> DeviceCredential"
  from run show "fleet_ok packs db'"
  proof (cases rule: enroll_cases)
    case (new e)
    then show ?thesis using fleet_endpoint_added[OF ok] by blast
  next
    case (again e e')
    have m: "ep_manifest e' = ep_manifest e" "parse_declared_capabilities e' = parse_declared_capabilities e"
      and s: "same_device e e'" "same_enrollment e e'" "ep_status e' = EpActive" "ep_mode e \<noteq> DeviceMode"
      using again(4) p by (auto simp: reenrolled_def parse_declared_capabilities_def)
    show ?thesis unfolding again(3)
      by (rule endpoint_written_keeps[OF ok again(2) s(1,2)])
        (use s m fleet_okD(3)[OF ok again(2)] in \<open>auto simp: endpoint_ok_def\<close>)
  qed
next
  assume "approve_pending_endpoint draw now p raw_id db = (db', Inr v')"
  then show "fleet_ok packs db'"
  proof (cases rule: approve_cases)
    case (1 e e' u)
    have s: "same_device e e'" "same_enrollment e e'" "ep_protocol e' = ep_protocol e" "ep_manifest e' = ep_manifest e"
      "parse_declared_capabilities e' = parse_declared_capabilities e" "ep_status e' \<noteq> EpPending"
      by (auto simp: 1(3) same_device_def same_enrollment_def parse_declared_capabilities_def)
    have "fleet_ok packs (db\<lparr>db_endpoints := save ep_id e' (db_endpoints db)\<rparr>)"
      by (rule endpoint_written_keeps[OF ok 1(1) s(1,2)])
        (use s fleet_okD(3)[OF ok 1(1)] in \<open>auto simp: endpoint_ok_def split: if_splits\<close>)
    then show ?thesis unfolding 1(4)
      using fleet_ok_audits[of packs _ "db\<lparr>db_endpoints := save ep_id e' (db_endpoints db)\<rparr>"] by simp
  qed
next
  assume "heartbeat_endpoint packs now p raw_id hb db = (db', Inr ack)"
  then show "fleet_ok packs db'"
  proof (cases rule: heartbeat_cases)
    case (1 e e')
    have e: "e \<in> set (db_endpoints db)" using fetch_SomeD[OF 1(1)] by simp
    have s: "same_device e e'" "same_enrollment e e'" using 1(4) by (simp_all add: heartbeat_written_def)
    show ?thesis unfolding 1(5)
      by (rule endpoint_written_keeps[OF ok e s]) (use 1(4) in \<open>auto simp: heartbeat_written_def split: if_splits\<close>)
  qed
qed

text \<open>Each call, by the effect it has when it succeeds.\<close>

lemma fleet_calls_keep:
  assumes ok: "fleet_ok (sr_packs s) db" and adm: "call_admitted p call"
  shows "fleet_ok (sr_packs s) (run_fleet_call s draw now p call db)"
proof (cases call)
  case (EnrollLegacy payload)
  with adm have p: "p_method p \<noteq> DeviceCredential" by (simp add: call_admitted_def)
  show ?thesis unfolding EnrollLegacy run_fleet_call.simps
  proof (rule transaction_runs[OF enroll_endpoint_def, of "fleet_ok (sr_packs s)", OF ok])
    fix db' x
    assume "enroll_endpoint draw now p payload db = (db', Inr x)"
    then show "fleet_ok (sr_packs s) db'" using endpoint_calls_keep(1)[OF ok _ p] by (cases x) simp
  qed
next
  case (ApproveEndpoint raw_id)
  show ?thesis unfolding ApproveEndpoint run_fleet_call.simps
    by (rule transaction_runs[OF approve_pending_endpoint_def, of "fleet_ok (sr_packs s)", OF ok]) (rule endpoint_calls_keep(2)[OF ok])
next
  case (Heartbeat raw_id payload)
  show ?thesis unfolding Heartbeat run_fleet_call.simps
    by (rule transaction_runs[OF heartbeat_endpoint_def, of "fleet_ok (sr_packs s)", OF ok]) (rule endpoint_calls_keep(3)[OF ok])
next
  case (CreateToken raw payload)
  show ?thesis unfolding CreateToken run_fleet_call.simps
    by (rule transaction_runs[OF create_enrollment_token_def, of "fleet_ok (sr_packs s)", OF ok])
      (use create_token_cases token_added[OF ok] in metis)
next
  case (RevokeToken raw_id)
  show ?thesis unfolding RevokeToken run_fleet_call.simps
    by (rule transaction_runs[OF revoke_enrollment_token_def, of "fleet_ok (sr_packs s)", OF ok])
      (use revoke_token_cases tokens_saved[OF ok] in metis)
next
  case (Exchange request payload)
  show ?thesis unfolding Exchange run_fleet_call.simps
    by (rule transaction_runs[OF exchange_enrollment_token_def, of "fleet_ok (sr_packs s)", OF ok]) (rule exchange_keeps[OF ok])
next
  case (RotateCredential payload)
  show ?thesis unfolding RotateCredential run_fleet_call.simps
    by (rule transaction_runs[OF rotate_device_credential_def, of "fleet_ok (sr_packs s)", OF ok]) (rule rotate_keeps[OF ok])
next
  case (RevokeCredential raw_id)
  show ?thesis unfolding RevokeCredential run_fleet_call.simps
  proof (rule transaction_runs[OF revoke_device_credential_def, of "fleet_ok (sr_packs s)", OF ok])
    fix db' x
    assume "revoke_device_credential draw now p raw_id db = (db', Inr x)"
    then obtain c c' a where c: "c \<in> set (db_credentials db)" "credential_moves c c'" "dc_status c' = CredRevoked"
      and db': "db' = db\<lparr>db_credentials := save dc_id c' (db_credentials db), db_audits := db_audits db @ [a]\<rparr>"
      using revoke_credential_cases by blast
    have same: "dc_id c' = dc_id c" "dc_endpoint c' = dc_endpoint c" using c(2) by (simp_all add: credential_moves_def)
    show "fleet_ok (sr_packs s) db'" by (rule credentials_saved[OF ok c(1) same]) (simp_all add: c(3) db')
  qed
qed

text \<open>
  C19.  The fleet tables stay consistent under every call of the endpoint and device APIs, whoever calls
  and however the call ends: fingerprints and installations name one endpoint, a device always has its
  installation, token and a supported protocol, a stored manifest matches the declared capabilities and
  names only actions the registry supports on that platform, a token was used exactly as often as
  endpoints were enrolled with it and never more than it allows, an endpoint has at most one active
  credential, and every redemption belongs to the endpoint and credential it created.
\<close>

theorem fleet_calls_keep_contract:
  assumes "fleet_ok (sr_packs s) db" and "call_admitted p call"
  shows "fleet_ok (sr_packs s) (run_fleet_call s draw now p call db)"
  by (rule fleet_calls_keep[OF assms])

section \<open>A device fleet\<close>

definition fleet_token :: token_row where
  "fleet_token = \<lparr>tk_id = ''et_1'', tk_secret_hash = ''abcd'', tk_hash_key = ''primary'', tk_client = ''cl_1'',
     tk_location = ''loc_1'', tk_profile = None, tk_platform = Some Linux, tk_policy = PolicyApproved,
     tk_expires_at = ''2026-01-02T00:00:00Z'', tk_max_uses = 1, tk_use_count = 1, tk_revoked_at = None,
     tk_created_by = ''user:usr_1'', tk_created_at = ''2026-01-01T00:00:00Z'', tk_updated_at = ''2026-01-01T00:00:00Z''\<rparr>"

definition fleet_endpoint :: endpoint_row where
  "fleet_endpoint = ex_endpoint\<lparr>ep_token := Some ''et_1''\<rparr>"

definition fleet_redemption :: redemption_row where
  "fleet_redemption = \<lparr>rd_id = ''er_1'', rd_token = ''et_1'', rd_installation = ''installation-0001'',
     rd_endpoint = ''ep_1'', rd_credential = ''dc_0123456789abcdef'', rd_request_hash = ''abcd'',
     rd_created_at = ''2026-01-01T00:00:00Z''\<rparr>"

definition fleet_db :: db where
  "fleet_db = ex_db\<lparr>db_endpoints := [fleet_endpoint], db_tokens := [fleet_token],
     db_credentials := [demo_credential], db_redemptions := [fleet_redemption]\<rparr>"

lemma fleet_tables [simp]:
  "db_endpoints fleet_db = [fleet_endpoint]" "db_tokens fleet_db = [fleet_token]" "db_credentials fleet_db = [demo_credential]"
  "db_redemptions fleet_db = [fleet_redemption]" "db_clients fleet_db = [ex_client]" "db_locations fleet_db = [ex_location]"
  "db_audits fleet_db = []" "db_users fleet_db = []"
  by (simp_all add: fleet_db_def)

lemma fleet_example_ok: "fleet_ok packs fleet_db"
proof -
  have "endpoint_ok packs fleet_endpoint"
    by (simp add: endpoint_ok_def fleet_endpoint_def ex_endpoint_def supported_agent_protocol_versions_def current_agent_protocol_version_def)
  then show ?thesis
    by (simp add: fleet_defs unique_on_def fleet_endpoint_def fleet_token_def fleet_redemption_def demo_credential_def ex_endpoint_def)
qed

definition demo_surroundings :: surroundings where
  "demo_surroundings = \<lparr>sr_packs = [], sr_hmac = demo_hmac, sr_state = demo_state\<rparr>"

lemma fleet_calls_keep_contract_witness:
  "fleet_ok [] (run_fleet_call demo_surroundings ex_draw ex_now ex_device (Heartbeat ''ep_1'' ex_heartbeat) fleet_db)"
  using fleet_calls_keep_contract[of demo_surroundings fleet_db ex_device "Heartbeat ''ep_1'' ex_heartbeat"]
  by (simp add: demo_surroundings_def fleet_example_ok call_admitted_def)


end
