(* ===== verification/Device_Access.thy ===== *)
theory Device_Access
  imports Device_Lifecycle
begin

text \<open>
  Which credentials open the device API over time: the credential of an exchange or a rotation
  authenticates its endpoint at once, the one it replaced never again.
\<close>

section \<open>Authenticating with a stored credential\<close>

text \<open>What \<open>authenticate_device_principal\<close> demands of the stored row.\<close>

definition credential_opens :: "(nat list \<Rightarrow> nat list \<Rightarrow> nat list) \<Rightarrow> app_state \<Rightarrow> nat \<Rightarrow> string \<Rightarrow> credential_row \<Rightarrow> bool" where
  "credential_opens hmac st now secret c \<longleftrightarrow> (\<exists>key. st_credential_key st = Some key \<and>
     dc_secret_hash c = device_secret_hash (hmac_hex hmac) key (dc_id c) secret \<and> is_ascii (dc_secret_hash c) \<and>
     dc_status c = CredActive \<and> dc_hash_key c = hash_key_id \<and>
     (\<forall>e. dc_expires_at c = Some e \<longrightarrow> strftime_z now < e))"

abbreviation authenticates ::
  "(nat list \<Rightarrow> nat list \<Rightarrow> nat list) \<Rightarrow> app_state \<Rightarrow> nat \<Rightarrow> string \<Rightarrow> string \<Rightarrow> db \<Rightarrow> principal \<Rightarrow> bool" where
  "authenticates hmac st now cid secret db p \<equiv> snd (authenticate_device_principal hmac st now cid secret db) = Inr (Some p)"

lemma authenticates_opens:
  assumes ok: "fleet_ok packs db" and c: "c \<in> set (db_credentials db)" and opens: "credential_opens hmac st now secret c"
  shows "\<exists>p. authenticates hmac st now (dc_id c) secret db p \<and> p_endpoint p = Some (dc_endpoint c) \<and> p_credential p = Some (dc_id c)"
proof -
  obtain key where key: "st_credential_key st = Some key" "dc_secret_hash c = device_secret_hash (hmac_hex hmac) key (dc_id c) secret"
    "is_ascii (dc_secret_hash c)" "dc_status c = CredActive" "dc_hash_key c = ''primary''"
    and fresh: "\<forall>e. dc_expires_at c = Some e \<longrightarrow> strftime_z now < e"
    using opens by (auto simp: credential_opens_def hash_key_id_def)
  have f: "fetch dc_id (dc_id c) (db_credentials db) = Some c" by (rule fetch_unique[OF fleet_okD(9)[OF ok] c])
  obtain e where e: "e \<in> set (db_endpoints db)" "ep_id e = dc_endpoint c" "ep_mode e = DeviceMode"
    using fleet_okD(10)[OF ok c] by blast
  have fe: "fetch ep_id (dc_endpoint c) (db_endpoints db) = Some e" using fetch_unique[OF fleet_okD(1)[OF ok] e(1)] e(2) by simp
  have live: "(case dc_expires_at c of Some t \<Rightarrow> t \<le> strftime_z now | None \<Rightarrow> False) = False"
    using fresh by (auto split: option.splits simp: not_le)
  have dig: "compare_digest (device_secret_hash (hmac_hex hmac) key (dc_id c) secret) (dc_secret_hash c) = Inr True"
    using key(2,3) by simp
  show ?thesis
    unfolding authenticate_device_principal_def key(1) option.case Let_def f dig andThen_Inr live fe key(4,5) e(3)
    by (simp add: transaction_def e(2))
qed

lemma authenticates_only:
  assumes "authenticates hmac st now cid secret db p"
  shows "\<exists>c\<in>set (db_credentials db). dc_id c = cid \<and> dc_status c = CredActive \<and>
     (\<forall>e. dc_expires_at c = Some e \<longrightarrow> strftime_z now < e) \<and> p_endpoint p = Some (dc_endpoint c)"
proof -
  obtain db' where run: "authenticate_device_principal hmac st now cid secret db = (db', Inr (Some p))"
    using assms by (metis prod.collapse)
  obtain c e where "live_credential hmac st now db cid secret c e" "p_endpoint p = Some (ep_id e)"
    by (rule authenticate_device_cases[OF run])
  then show ?thesis by (intro bexI[of _ c]) (auto simp: live_credential_def)
qed

text \<open>The digests of the server are hexadecimal texts as long as \<open>hmac\<close> returns bytes.\<close>

definition hmac_returns_bytes :: "(nat list \<Rightarrow> nat list \<Rightarrow> nat list) \<Rightarrow> bool" where
  "hmac_returns_bytes hmac \<longleftrightarrow> (\<forall>key message. bytes (hmac key message))"

lemma hexdigest_ascii:
  assumes "bytes raw"
  shows "is_ascii (hexdigest raw)"
proof -
  have "b div 16 < 16" if "b \<in> set raw" for b
    using that assms by (auto simp: bytes_def list_all_iff)
  then have "(87 + b div 16) mod 256 < 128" if "b \<in> set raw" for b
    using that by fastforce
  then show ?thesis
    by (auto simp: is_ascii_def hexdigest_def list_all_iff Let_def)
qed

lemma material_hash_ascii: "hmac_returns_bytes hmac \<Longrightarrow> is_ascii (material_hash hmac key m)"
  by (simp add: material_hash_def device_secret_hash_def keyed_hash_def hmac_returns_bytes_def hexdigest_ascii)

lemma new_credential_opens:
  assumes "hmac_returns_bytes hmac" and "hmac_key st = Inr key" and "strftime_z later < expires"
  shows "credential_opens hmac st later (mt_secret m)
    (new_credential (mt_credential_id m) eid (material_hash hmac key m) expires now_str)"
  using assms material_hash_ascii[OF assms(1), of key m]
  by (auto simp: credential_opens_def new_credential_def material_hash_def hmac_key_def split: option.splits)

section \<open>A credential retires for good\<close>

definition credentials_move :: "db \<Rightarrow> db \<Rightarrow> bool" where
  "credentials_move db db' \<longleftrightarrow> (\<forall>c\<in>set (db_credentials db). \<exists>c'\<in>set (db_credentials db'). credential_moves c c')"

lemma credentials_move_added: "db_credentials db' = db_credentials db @ new \<Longrightarrow> credentials_move db db'"
  unfolding credentials_move_def by (metis UnI1 credential_moves_refl set_append)

lemmas credentials_move_same = credentials_move_added[where new = "[]", unfolded append_Nil2]

lemma credentials_move_refl [simp]: "credentials_move db db"
  by (rule credentials_move_same) simp

lemma credentials_move_trans: "credentials_move a b \<Longrightarrow> credentials_move b c \<Longrightarrow> credentials_move a c"
  unfolding credentials_move_def using credential_moves_trans by blast

lemma credentials_move_saved:
  assumes ok: "unique_on dc_id (db_credentials db)" and x: "x \<in> set (db_credentials db)" "credential_moves x x'"
    and db': "db_credentials db' = save dc_id x' (db_credentials db) @ new"
  shows "credentials_move db db'"
  unfolding credentials_move_def
proof
  fix c
  assume c: "c \<in> set (db_credentials db)"
  have id: "dc_id x' = dc_id x" using x(2) by (simp add: credential_moves_def)
  show "\<exists>c'\<in>set (db_credentials db'). credential_moves c c'"
  proof (cases "dc_id c = dc_id x")
    case True
    then have "c = x" using unique_onD[OF ok c x(1)] by simp
    moreover have "x' \<in> set (save dc_id x' (db_credentials db))" using x(1) id by (auto simp: in_set_save)
    ultimately show ?thesis using x(2) by (intro bexI[of _ x']) (simp_all add: db')
  next
    case False
    then have "c \<in> set (save dc_id x' (db_credentials db))" using c id by (simp add: in_set_save)
    then show ?thesis using credential_moves_refl[of c] by (intro bexI[of _ c]) (simp_all add: db')
  qed
qed

lemma exchange_moves:
  assumes ok: "fleet_ok packs db" and run: "exchange_enrollment_token hmac st draw now request p payload db = (db', Inr x)"
  shows "credentials_move db db'"
  using run
proof (cases rule: exchange_cases)
  case (replay key pl t r)
  from replay_Inr[OF replay(3)] obtain a where "db' = db\<lparr>db_audits := db_audits db @ [a]\<rparr>" by blast
  then show ?thesis by (intro credentials_move_same) simp
next
  case (redeem key pl t)
  have t: "t \<in> set (db_tokens db)"
    using redeem(1) fetch_SomeD[of tk_id "tk_id t" "db_tokens db" t] by (auto simp: admitted_exchange_def)
  obtain y where "redemption_written st now (exchange_hash hmac key (tk_id t) pl) (material_hash hmac key pl) t pl db db' y"
    using redeem_cases[OF redeem(3) fleet_okD(5)[OF ok] t] by blast
  then have "db_credentials db' = db_credentials db @ [redeemed_credential (strftime_z now) pl (material_hash hmac key pl) y]"
    unfolding redemption_written_def by (elim conjE) simp
  then show ?thesis by (rule credentials_move_added)
qed

lemma rotate_moves:
  assumes ok: "fleet_ok packs db" and run: "rotate_device_credential hmac st draw now p payload db = (db', Inr x)"
  shows "credentials_move db db'"
  using run
proof (cases rule: rotate_cases)
  case (new key y)
  let ?y = "rotated_out (strftime_z now) (mt_credential_id payload) y"
  have y: "y \<in> set (db_credentials db)" using fetch_SomeD[OF new(2)] by simp
  have m: "credential_moves y ?y" using new(6) by (simp add: credential_moves_def rotated_out_def)
  obtain n where "db_credentials db' = save dc_id ?y (db_credentials db) @ n"
    using rotate_current_Inr[OF new(8,7)] by auto
  then show ?thesis by (rule credentials_move_saved[OF fleet_okD(9)[OF ok] y m])
qed simp

lemma revoke_moves:
  assumes ok: "fleet_ok packs db" and run: "revoke_device_credential draw now p raw_id db = (db', Inr x)"
  shows "credentials_move db db'"
proof -
  obtain c c' a where c: "c \<in> set (db_credentials db)" "credential_moves c c'"
    and db': "db' = db\<lparr>db_credentials := save dc_id c' (db_credentials db), db_audits := db_audits db @ [a]\<rparr>"
    using revoke_credential_cases[OF run] by blast
  show ?thesis by (rule credentials_move_saved[OF fleet_okD(9)[OF ok] c, of _ "[]"]) (simp add: db')
qed

lemma endpoint_calls_credentials:
  "enroll_endpoint draw now p payload db = (db', Inr x) \<Longrightarrow> db_credentials db' = db_credentials db"
  "approve_pending_endpoint draw now p raw_id db = (db', Inr v) \<Longrightarrow> db_credentials db' = db_credentials db"
  "heartbeat_endpoint packs now p raw_id hb db = (db', Inr ack) \<Longrightarrow> db_credentials db' = db_credentials db"
  "create_enrollment_token hmac raw st draw now p tin db = (db', Inr tv) \<Longrightarrow> db_credentials db' = db_credentials db"
  "revoke_enrollment_token draw now p raw_id db = (db', Inr rv) \<Longrightarrow> db_credentials db' = db_credentials db"
proof -
  show "db_credentials db' = db_credentials db" if "enroll_endpoint draw now p payload db = (db', Inr x)"
  proof (cases x)
    case (Pair v created)
    from that[unfolded Pair] show ?thesis by (cases rule: enroll_cases) (auto simp: insert_endpoint_Inr)
  qed
  show "db_credentials db' = db_credentials db" if "approve_pending_endpoint draw now p raw_id db = (db', Inr v)"
    using that by (cases rule: approve_cases) simp
  show "db_credentials db' = db_credentials db" if "heartbeat_endpoint packs now p raw_id hb db = (db', Inr ack)"
    using that by (cases rule: heartbeat_cases) simp
  show "db_credentials db' = db_credentials db" if "create_enrollment_token hmac raw st draw now p tin db = (db', Inr tv)"
    using create_token_cases[OF that] by auto
  show "db_credentials db' = db_credentials db" if "revoke_enrollment_token draw now p raw_id db = (db', Inr rv)"
    using revoke_token_cases[OF that] by auto
qed

lemma fleet_call_moves:
  assumes ok: "fleet_ok (sr_packs s) db"
  shows "credentials_move db (run_fleet_call s draw now p call db)"
  using credentials_move_refl[of db]
proof (cases call)
  case (EnrollLegacy payload)
  show ?thesis unfolding EnrollLegacy run_fleet_call.simps
    by (rule transaction_runs[OF enroll_endpoint_def, of "credentials_move db"])
      (use endpoint_calls_credentials(1) in \<open>blast intro: credentials_move_refl credentials_move_same\<close>)+
next
  case (ApproveEndpoint raw_id)
  show ?thesis unfolding ApproveEndpoint run_fleet_call.simps
    by (rule transaction_runs[OF approve_pending_endpoint_def, of "credentials_move db"])
      (use endpoint_calls_credentials(2) in \<open>blast intro: credentials_move_refl credentials_move_same\<close>)+
next
  case (Heartbeat raw_id payload)
  show ?thesis unfolding Heartbeat run_fleet_call.simps
    by (rule transaction_runs[OF heartbeat_endpoint_def, of "credentials_move db"])
      (use endpoint_calls_credentials(3) in \<open>blast intro: credentials_move_refl credentials_move_same\<close>)+
next
  case (CreateToken raw payload)
  show ?thesis unfolding CreateToken run_fleet_call.simps
    by (rule transaction_runs[OF create_enrollment_token_def, of "credentials_move db"])
      (use endpoint_calls_credentials(4) in \<open>blast intro: credentials_move_refl credentials_move_same\<close>)+
next
  case (RevokeToken raw_id)
  show ?thesis unfolding RevokeToken run_fleet_call.simps
    by (rule transaction_runs[OF revoke_enrollment_token_def, of "credentials_move db"])
      (use endpoint_calls_credentials(5) in \<open>blast intro: credentials_move_refl credentials_move_same\<close>)+
next
  case (Exchange request payload)
  show ?thesis unfolding Exchange run_fleet_call.simps
    by (rule transaction_runs[OF exchange_enrollment_token_def, of "credentials_move db", OF credentials_move_refl])
      (rule exchange_moves[OF ok])
next
  case (RotateCredential payload)
  show ?thesis unfolding RotateCredential run_fleet_call.simps
    by (rule transaction_runs[OF rotate_device_credential_def, of "credentials_move db", OF credentials_move_refl])
      (rule rotate_moves[OF ok])
next
  case (RevokeCredential raw_id)
  show ?thesis unfolding RevokeCredential run_fleet_call.simps
    by (rule transaction_runs[OF revoke_device_credential_def, of "credentials_move db", OF credentials_move_refl])
      (rule revoke_moves[OF ok])
qed

section \<open>Runs of the device API\<close>

text \<open>A call of the API with its drawn ids, instant and principal, or an attempt to authenticate.\<close>

datatype fleet_event = Called "nat \<Rightarrow> string" nat principal fleet_call | Attempted nat string string

fun run_fleet_event :: "surroundings \<Rightarrow> db \<Rightarrow> fleet_event \<Rightarrow> db" where
  "run_fleet_event s db (Called draw now p call) = run_fleet_call s draw now p call db"
| "run_fleet_event s db (Attempted now cid secret) = fst (authenticate_device_principal (sr_hmac s) (sr_state s) now cid secret db)"

definition run_fleet :: "surroundings \<Rightarrow> fleet_event list \<Rightarrow> db \<Rightarrow> db" where
  "run_fleet s events db = foldl (run_fleet_event s) db events"

fun event_admitted :: "fleet_event \<Rightarrow> bool" where
  "event_admitted (Called draw now p call) = call_admitted p call"
| "event_admitted (Attempted now cid secret) = True"

lemma attempt_effect:
  assumes ok: "unique_on dc_id (db_credentials db)"
  shows "\<exists>f. fst (authenticate_device_principal hmac st now cid secret db) = db\<lparr>db_credentials := map f (db_credentials db)\<rparr> \<and>
     (\<forall>c\<in>set (db_credentials db). credential_moves c (f c) \<and> dc_status (f c) = dc_status c)"
proof -
  obtain db' res where run: "authenticate_device_principal hmac st now cid secret db = (db', res)" by fastforce
  show ?thesis
  proof (cases "\<exists>p. res = Inr (Some p)")
    case True
    then obtain p where "authenticate_device_principal hmac st now cid secret db = (db', Inr (Some p))" using run by blast
    then obtain c e where c: "live_credential hmac st now db cid secret c e"
      and db': "db' = db\<lparr>db_credentials := save dc_id (c\<lparr>dc_last_used_at := Some (strftime_z now), dc_updated_at := strftime_z now\<rparr>)
         (db_credentials db)\<rparr>" by (rule authenticate_device_cases)
    have "c \<in> set (db_credentials db)" using c by (simp add: live_credential_def)
    then have same: "x = c" if "x \<in> set (db_credentials db)" "dc_id x = dc_id c" for x
      using unique_onD[OF ok that(1) _ that(2)] by blast
    let ?f = "\<lambda>x. if dc_id x = dc_id c then c\<lparr>dc_last_used_at := Some (strftime_z now), dc_updated_at := strftime_z now\<rparr> else x"
    have "credential_moves x (?f x) \<and> dc_status (?f x) = dc_status x" if "x \<in> set (db_credentials db)" for x
      using same[OF that] by (cases "dc_id x = dc_id c") (simp_all add: credential_moves_def)
    moreover have "fst (authenticate_device_principal hmac st now cid secret db) = db\<lparr>db_credentials := map ?f (db_credentials db)\<rparr>"
      by (simp add: run db' save_def cong: map_cong)
    ultimately show ?thesis by blast
  next
    case False
    have "db' = db"
    proof (cases "st_credential_key st")
      case (Some key)
      from run[unfolded authenticate_device_principal_def Some option.case Let_def] show ?thesis
        by (rule transaction_cases) (use False in \<open>auto simp: andThen_eq_Inr split: option.splits if_splits\<close>)
    qed (use run in \<open>simp add: authenticate_device_principal_def\<close>)
    then show ?thesis by (intro exI[of _ id]) (simp add: run)
  qed
qed

lemma fleet_ok_credentials_map:
  assumes ok: "fleet_ok packs db" and f: "\<And>c. c \<in> set (db_credentials db) \<Longrightarrow> credential_moves c (f c) \<and> dc_status (f c) = dc_status c"
  shows "fleet_ok packs (db\<lparr>db_credentials := map f (db_credentials db)\<rparr>)"
proof -
  let ?db = "db\<lparr>db_credentials := map f (db_credentials db)\<rparr>"
  have same: "dc_id (f c) = dc_id c" "dc_endpoint (f c) = dc_endpoint c" "dc_status (f c) = dc_status c"
    if "c \<in> set (db_credentials db)" for c using f[OF that] by (simp_all add: credential_moves_def)
  have tables: "db_endpoints ?db = db_endpoints db" "db_tokens ?db = db_tokens db" "db_redemptions ?db = db_redemptions db"
    "db_credentials ?db = map f (db_credentials db)" by simp_all
  have "map dc_id (map f (db_credentials db)) = map dc_id (db_credentials db)" using same(1) by simp
  then have u: "unique_on dc_id (map f (db_credentials db))" using fleet_okD(9)[OF ok] by (simp only: unique_on_def)
  have at: "\<exists>e\<in>set (db_endpoints db). ep_id e = dc_endpoint (f c) \<and> ep_mode e = DeviceMode" if "c \<in> set (db_credentials db)" for c
    using fleet_okD(10)[OF ok that] same(2)[OF that] by simp
  have one: "dc_id (f c) = dc_id (f d)"
    if "c \<in> set (db_credentials db)" "d \<in> set (db_credentials db)"
      "dc_status (f c) = CredActive \<and> dc_status (f d) = CredActive \<and> dc_endpoint (f c) = dc_endpoint (f d)" for c d
    using fleet_okD(11)[OF ok that(1,2)] that(3) same[OF that(1)] same[OF that(2)] by metis
  have "credentials_ok ?db"
    unfolding credentials_ok_def tables set_map ball_simps
    by (intro conjI ballI impI u) (rule at, assumption, rule one)
  moreover have "\<exists>c\<in>set (db_credentials db). dc_id (f c) = rd_credential r \<and> dc_endpoint (f c) = rd_endpoint r"
    if r: "r \<in> set (db_redemptions db)" for r
  proof -
    obtain c where "c \<in> set (db_credentials db)" "dc_id c = rd_credential r" "dc_endpoint c = rd_endpoint r"
      using fleet_okD(14)[OF ok r] by blast
    then show ?thesis using same(1,2) by metis
  qed
  then have "redemptions_ok ?db"
    unfolding redemptions_ok_def tables set_map bex_simps
    by (intro conjI ballI fleet_okD(12,13)[OF ok]) assumption+
  ultimately show ?thesis using contract_parts[OF ok tables(1)] tables(2) by (simp add: fleet_ok_def)
qed

lemma fleet_event_keeps:
  assumes ok: "fleet_ok (sr_packs s) db" and adm: "event_admitted e"
  shows "fleet_ok (sr_packs s) (run_fleet_event s db e)"
proof (cases e)
  case (Called draw now p call)
  then show ?thesis using fleet_calls_keep[OF ok] adm by simp
next
  case (Attempted now cid secret)
  obtain f where f: "run_fleet_event s db e = db\<lparr>db_credentials := map f (db_credentials db)\<rparr>"
    "\<forall>c\<in>set (db_credentials db). credential_moves c (f c) \<and> dc_status (f c) = dc_status c"
    using attempt_effect[OF fleet_okD(9)[OF ok]] by (metis Attempted run_fleet_event.simps(2))
  show ?thesis unfolding f(1) by (rule fleet_ok_credentials_map[OF ok]) (use f(2) in blast)
qed

lemma fleet_event_moves:
  assumes ok: "fleet_ok (sr_packs s) db"
  shows "credentials_move db (run_fleet_event s db e)"
proof (cases e)
  case (Called draw now p call)
  then show ?thesis using fleet_call_moves[OF ok] by simp
next
  case (Attempted now cid secret)
  obtain f where f: "run_fleet_event s db e = db\<lparr>db_credentials := map f (db_credentials db)\<rparr>"
    "\<forall>c\<in>set (db_credentials db). credential_moves c (f c) \<and> dc_status (f c) = dc_status c"
    using attempt_effect[OF fleet_okD(9)[OF ok]] by (metis Attempted run_fleet_event.simps(2))
  show ?thesis using f(2) by (auto simp: credentials_move_def f(1))
qed

lemma run_fleet_moves:
  assumes "fleet_ok (sr_packs s) db" and "list_all event_admitted events"
  shows "fleet_ok (sr_packs s) (run_fleet s events db) \<and> credentials_move db (run_fleet s events db)"
  using assms
proof (induction events arbitrary: db)
  case (Cons e events)
  have "fleet_ok (sr_packs s) (run_fleet_event s db e)" using fleet_event_keeps[OF Cons.prems(1)] Cons.prems(2) by simp
  note ih = Cons.IH[OF this]
  have "run_fleet s (e # events) db = run_fleet s events (run_fleet_event s db e)" by (simp add: run_fleet_def)
  then show ?case using ih Cons.prems(2) fleet_event_moves[OF Cons.prems(1), of e] credentials_move_trans by auto
qed (simp add: run_fleet_def)


section \<open>Retired credentials\<close>

lemma retired_stay_out:
  assumes ok: "fleet_ok (sr_packs s) db" and adm: "list_all event_admitted events"
    and c: "c \<in> set (db_credentials db)" "dc_status c \<noteq> CredActive"
  shows "\<not> authenticates hmac st now (dc_id c) secret (run_fleet s events db) p"
proof
  let ?db = "run_fleet s events db"
  have r: "fleet_ok (sr_packs s) ?db" "credentials_move db ?db" using run_fleet_moves[OF ok adm] by blast+
  assume "authenticates hmac st now (dc_id c) secret ?db p"
  then obtain x where x: "x \<in> set (db_credentials ?db)" "dc_id x = dc_id c" "dc_status x = CredActive"
    using authenticates_only by blast
  obtain c' where c': "c' \<in> set (db_credentials ?db)" "credential_moves c c'"
    using r(2) c(1) unfolding credentials_move_def by blast
  then have "x = c'" using unique_onD[OF fleet_okD(9)[OF r(1)] x(1)] x(2) by (simp add: credential_moves_def)
  then show False using x(3) c' c(2) by (simp add: credential_moves_def)
qed

text \<open>
  C20.  Once a device credential has been replaced or revoked, it never authenticates again: whatever calls of the
  endpoint and device APIs and whatever authentication attempts follow, in any order, under any secret and at
  any time.
\<close>

theorem retired_credentials_stay_out:
  assumes "fleet_ok (sr_packs s) db" and "list_all event_admitted events"
    and "c \<in> set (db_credentials db)" and "dc_status c \<noteq> CredActive"
  shows "\<not> authenticates hmac st now (dc_id c) secret (run_fleet s events db) p"
  by (rule retired_stay_out[OF assms])

definition retired_db :: db where
  "retired_db = fleet_db\<lparr>db_credentials := [demo_credential\<lparr>dc_status := CredReplaced\<rparr>]\<rparr>"

lemma retired_db_ok: "fleet_ok packs retired_db"
proof -
  have "credentials_ok retired_db" "redemptions_ok retired_db"
    by (simp_all add: retired_db_def credentials_ok_def redemptions_ok_def unique_on_def fleet_endpoint_def fleet_redemption_def
        demo_credential_def ex_endpoint_def)
  then show ?thesis using contract_parts[OF fleet_example_ok, where db' = retired_db] by (simp add: fleet_ok_def retired_db_def)
qed

lemma retired_credentials_stay_out_witness:
  "\<not> authenticates demo_hmac demo_state ex_now ''dc_0123456789abcdef'' (replicate 43 (CHR ''A''))
     (run_fleet demo_surroundings [Attempted ex_now ''dc_0123456789abcdef'' (replicate 43 (CHR ''A'')),
        Called ex_draw ex_now ex_device (Heartbeat ''ep_1'' ex_heartbeat)] retired_db) demo_principal"
proof -
  let ?events = "[Attempted ex_now ''dc_0123456789abcdef'' (replicate 43 (CHR ''A'')),
    Called ex_draw ex_now ex_device (Heartbeat ''ep_1'' ex_heartbeat)]"
  let ?c = "demo_credential\<lparr>dc_status := CredReplaced\<rparr>"
  have ok: "fleet_ok (sr_packs demo_surroundings) retired_db" by (rule retired_db_ok)
  have adm: "list_all event_admitted ?events" by (simp add: call_admitted_def)
  have c: "?c \<in> set (db_credentials retired_db)" "dc_status ?c \<noteq> CredActive" "dc_id ?c = ''dc_0123456789abcdef''"
    by (simp_all add: retired_db_def demo_credential_def)
  show ?thesis by (rule retired_credentials_stay_out[OF ok adm c(1,2), unfolded c(3)])
qed

section \<open>Rotation\<close>

lemma rotate_hands_over:
  assumes ok: "fleet_ok packs db" and run: "rotate_device_credential hmac st draw now p payload db = (db', Inr view)"
    and new: "p_credential p \<noteq> Some (mt_credential_id payload)" and bytes: "hmac_returns_bytes hmac"
  obtains old c where "p_credential p = Some (dc_id old)" "old \<in> set (db_credentials db')" "dc_status old = CredReplaced"
    "c \<in> set (db_credentials db')" "p_endpoint p = Some (dc_endpoint c)" "dc_id c = mt_credential_id payload"
    "\<And>later. (\<forall>x. cd_expires_at view = Some x \<longrightarrow> strftime_z later < x) \<Longrightarrow> credential_opens hmac st later (mt_secret payload) c"
  using run
proof (cases rule: rotate_cases)
  case (same key c)
  then show ?thesis using new by simp
next
  case (new key c)
  let ?r = "rotated_out (strftime_z now) (mt_credential_id payload) c"
  let ?c = "\<lambda>expires. new_credential (mt_credential_id payload) (dc_endpoint c) (material_hash hmac key payload) expires (strftime_z now)"
  obtain expires a where out: "db' = db\<lparr>db_credentials := save dc_id ?r (db_credentials db) @ [?c expires],
         db_audits := db_audits db @ [a]\<rparr>" "view = credential_payload (?c expires)"
    using rotate_current_Inr[OF new(8,7)] by blast
  have c: "c \<in> set (db_credentials db)" using fetch_SomeD[OF new(2)] by simp
  have exp: "cd_expires_at view = Some expires" by (simp add: out(2) credential_payload_def new_credential_def)
  show ?thesis
  proof (rule that[of ?r "?c expires"])
    show "?r \<in> set (db_credentials db')" using c by (auto simp: out(1) in_set_save rotated_out_def)
    show "credential_opens hmac st later (mt_secret payload) (?c expires)"
      if "\<forall>x. cd_expires_at view = Some x \<longrightarrow> strftime_z later < x" for later
      using that exp by (intro new_credential_opens[OF bytes new(1)]) simp
  qed (simp_all add: new(4,5) out(1) rotated_out_def new_credential_def)
qed

text \<open>
  A rotation hands the device over to its new credential: from the moment it commits until the announced
  expiry the new id and secret authenticate the same endpoint, and the old credential is refused at once and
  for ever.
\<close>

theorem rotation_hands_over:
  assumes ok: "fleet_ok (sr_packs s) db" and run: "rotate_device_credential hmac st draw now p payload db = (db', Inr view)"
    and new: "p_credential p \<noteq> Some (mt_credential_id payload)" and bytes: "hmac_returns_bytes hmac"
    and time: "\<forall>x. cd_expires_at view = Some x \<longrightarrow> strftime_z later < x"
    and adm: "list_all event_admitted events"
  shows "(\<exists>q. authenticates hmac st later (mt_credential_id payload) (mt_secret payload) db' q \<and> p_endpoint q = p_endpoint p) \<and>
    (\<exists>old. p_credential p = Some old \<and> \<not> authenticates hmac st at old secret (run_fleet s events db') q')"
proof -
  have ok': "fleet_ok (sr_packs s) db'" by (rule rotate_keeps[OF ok run])
  show ?thesis
    using ok run new bytes
  proof (rule rotate_hands_over)
    fix old c
    assume old: "p_credential p = Some (dc_id old)" "old \<in> set (db_credentials db')" "dc_status old = CredReplaced"
      and c: "c \<in> set (db_credentials db')" "p_endpoint p = Some (dc_endpoint c)" "dc_id c = mt_credential_id payload"
      and opens: "\<And>later. (\<forall>x. cd_expires_at view = Some x \<longrightarrow> strftime_z later < x) \<Longrightarrow> credential_opens hmac st later (mt_secret payload) c"
    have "\<not> authenticates hmac st at (dc_id old) secret (run_fleet s events db') q'"
      using ok' adm old(2,3) by (intro retired_stay_out[of s]) simp_all
    moreover have "\<exists>q. authenticates hmac st later (dc_id c) (mt_secret payload) db' q \<and> p_endpoint q = Some (dc_endpoint c)"
      using authenticates_opens[OF ok' c(1) opens[OF time]] by blast
    ultimately show ?thesis using old(1) c(2,3) by auto
  qed
qed


definition demo_material :: credential_material where
  "demo_material = \<lparr>mt_credential_id = ''dc_fedcba9876543210'', mt_secret = replicate 43 (CHR ''E'')\<rparr>"

lemma demo_hmac_bytes: "hmac_returns_bytes demo_hmac"
  by (simp add: hmac_returns_bytes_def demo_hmac_def bytes_def)

lemma demo_rotation:
  "\<exists>db' view. rotate_device_credential demo_hmac demo_state ex_draw ex_now demo_principal demo_material fleet_db = (db', Inr view) \<and>
     cd_expires_at view = Some ''2026-04-01T00:00:00Z''"
proof -
  have valid: "credential_material_valid demo_material" by code_simp
  have dev: "require_device_principal (Some demo_principal) = Inr demo_principal"
    by (simp add: require_device_principal_def current_principal_def demo_principal_def)
  have key: "hmac_key demo_state = Inr (replicate 32 1)" by (simp add: hmac_key_def demo_state_def)
  have exp: "credential_expiry demo_state ex_now = Inr ''2026-04-01T00:00:00Z''"
    by (simp add: credential_expiry_def demo_state_def add_seconds_def ex_now_def datetime_end_def strftime_eval)
  have ids: "dc_id demo_credential = ''dc_0123456789abcdef''" "dc_endpoint demo_credential = ''ep_1''" "dc_status demo_credential = CredActive"
    "p_credential demo_principal = Some ''dc_0123456789abcdef''" "p_endpoint demo_principal = Some ''ep_1''" "p_user demo_principal = None"
    "mt_credential_id demo_material = ''dc_fedcba9876543210''" "ep_id fleet_endpoint = ''ep_1''" "ep_client fleet_endpoint = ''cl_1''"
    "ep_location fleet_endpoint = ''loc_1''"
    by (simp_all add: demo_credential_def demo_principal_def demo_material_def fleet_endpoint_def)
  show ?thesis
    by (simp add: rotate_device_credential_def dev valid key ids rotate_current_def exp Let_def insert_credential_def
        active_credential_of_def new_credential_def save_def record_audit_event_def insert_audit_def audit_event_def audit_call_of_def
        client_exists_def location_exists_def credential_payload_def on_integrity_error_def)
qed

lemma rotation_hands_over_witness:
  "\<exists>db' view. rotate_device_credential demo_hmac demo_state ex_draw ex_now demo_principal demo_material fleet_db = (db', Inr view) \<and>
     (\<exists>q. authenticates demo_hmac demo_state ex_now ''dc_fedcba9876543210'' (replicate 43 (CHR ''E'')) db' q \<and> p_endpoint q = Some ''ep_1'')"
proof -
  obtain db' view where run: "rotate_device_credential demo_hmac demo_state ex_draw ex_now demo_principal demo_material fleet_db = (db', Inr view)"
    and exp: "cd_expires_at view = Some ''2026-04-01T00:00:00Z''" using demo_rotation by blast
  have ok: "fleet_ok (sr_packs demo_surroundings) fleet_db" by (rule fleet_example_ok)
  have new: "p_credential demo_principal \<noteq> Some (mt_credential_id demo_material)"
    by (simp add: demo_principal_def demo_material_def)
  have time: "\<forall>x. cd_expires_at view = Some x \<longrightarrow> strftime_z ex_now < x" by (simp add: exp ex_now_text)
  have "list_all event_admitted []" by simp
  note out = rotation_hands_over[OF ok run new demo_hmac_bytes time this]
  have m: "mt_credential_id demo_material = ''dc_fedcba9876543210''" "mt_secret demo_material = replicate 43 (CHR ''E'')"
    "p_endpoint demo_principal = Some ''ep_1''"
    by (simp_all add: demo_material_def demo_principal_def)
  show ?thesis using run conjunct1[OF out, unfolded m] by blast
qed


section \<open>The exchange\<close>

lemma exchange_payload_Inr:
  "exchange_payload e c r = Inr view \<Longrightarrow> exchange_payload e c r' = Inr (view\<lparr>xr_replayed := r'\<rparr>) \<and>
     xr_credential view = credential_payload c \<and> xr_endpoint view = device_endpoint_payload e \<and> xr_replayed view = r"
  by (auto simp: exchange_payload_def andThen_eq_Inr)

lemma normalize_exchange_material:
  "normalize_exchange raw = Inr payload \<Longrightarrow> mt_credential_id payload = mt_credential_id raw \<and> mt_secret payload = mt_secret raw"
  by (auto simp: normalize_exchange_def andThen_eq_Inr)

text \<open>All a first exchange leaves behind, as a retry or the middleware sees it.\<close>

lemma exchanged:
  assumes ok: "fleet_ok packs db" and run: "exchange_enrollment_token hmac st draw now request p raw_payload db = (db', Inr view)"
    and first: "\<not> xr_replayed view"
  obtains key payload t t' r e expires where "admitted_exchange hmac st request p raw_payload db key payload t"
    "fetch tk_id (tk_id t) (db_tokens db') = Some t'" "tk_secret_hash t' = tk_secret_hash t" "tk_hash_key t' = tk_hash_key t"
    "fetch (\<lambda>r. (rd_token r, rd_installation r)) (tk_id t, xc_installation payload) (db_redemptions db') = Some r"
    "rd_request_hash r = exchange_hash hmac key (tk_id t) payload" "rd_credential r = mt_credential_id payload" "rd_endpoint r = ep_id e"
    "fetch dc_id (mt_credential_id payload) (db_credentials db') =
       Some (new_credential (mt_credential_id payload) (ep_id e) (material_hash hmac key payload) expires (strftime_z now))"
    "fetch ep_id (ep_id e) (db_endpoints db') = Some e" "ep_client e = tk_client t" "ep_location e = tk_location t"
    "\<exists>c l. token_scope t db = Inr (c, l)" "db_clients db' = db_clients db" "db_locations db' = db_locations db"
    "exchange_payload e (new_credential (mt_credential_id payload) (ep_id e) (material_hash hmac key payload) expires (strftime_z now)) False = Inr view"
  using run
proof (cases rule: exchange_cases)
  case (replay key payload t r)
  then have "xr_replayed view" using replay_Inr[OF replay(3)] exchange_payload_Inr by blast
  then show ?thesis using first by blast
next
  case (redeem key payload t)
  have t: "t \<in> set (db_tokens db)"
    using redeem(1) fetch_SomeD[of tk_id "tk_id t" "db_tokens db" t] by (auto simp: admitted_exchange_def)
  obtain x where w: "redemption_written st now (exchange_hash hmac key (tk_id t) payload) (material_hash hmac key payload) t payload db db' x"
    and view: "exchange_payload (rx_endpoint x) (redeemed_credential (strftime_z now) payload (material_hash hmac key payload) x) False = Inr view"
    using redeem_cases[OF redeem(3) fleet_okD(5)[OF ok] t] by blast
  let ?e = "rx_endpoint x" and ?r = "rx_redemption x"
  let ?c = "new_credential (mt_credential_id payload) (ep_id ?e) (material_hash hmac key payload) (rx_expires x) (strftime_z now)"
  have tables: "db_tokens db' = save tk_id (token_used (strftime_z now) t) (db_tokens db)" "db_endpoints db' = rx_rows x"
    "db_credentials db' = db_credentials db @ [?c]" "db_redemptions db' = db_redemptions db @ [?r]"
    "db_clients db' = db_clients db" "db_locations db' = db_locations db"
    and pl: "placed (db_endpoints db) ?e (rx_rows x)" and row: "enrolled_row (strftime_z now) t payload ?e"
    and rd: "rd_token ?r = tk_id t" "rd_installation ?r = xc_installation payload" "rd_endpoint ?r = ep_id ?e"
      "rd_credential ?r = mt_credential_id payload" "rd_request_hash ?r = exchange_hash hmac key (tk_id t) payload"
    and fresh: "mt_credential_id payload \<notin> dc_id ` set (db_credentials db)"
      "(tk_id t, xc_installation payload) \<notin> (\<lambda>r. (rd_token r, rd_installation r)) ` set (db_redemptions db)"
    and sc: "\<exists>c l. token_scope t db = Inr (c, l)"
    using w unfolding redemption_written_def redeemed_credential_def by (elim conjE, simp)+
  have e: "ep_token ?e = Some (tk_id t)" "ep_client ?e = tk_client t" "ep_location ?e = tk_location t"
    using row by (simp_all add: enrolled_row_def)
  have ft: "fetch tk_id (tk_id t) (db_tokens db') = Some (token_used (strftime_z now) t)"
    using redeem(1) by (simp add: tables fetch_save token_used_def admitted_exchange_def)
  have fr: "fetch (\<lambda>r. (rd_token r, rd_installation r)) (tk_id t, xc_installation payload) (db_redemptions db') = Some ?r"
    using fresh(2) redeem(2) by (simp add: tables fetch_append rd)
  have "fetch dc_id (mt_credential_id payload) (db_credentials db) = None" using fresh(1) by (simp add: fetch_None)
  then have fc: "fetch dc_id (mt_credential_id payload) (db_credentials db') = Some ?c"
    by (simp add: tables fetch_append) (simp add: new_credential_def)
  have fe: "fetch ep_id (ep_id ?e) (db_endpoints db') = Some ?e"
    unfolding tables using placed_rows(1,3)[OF ok pl e(1)] by (intro fetch_unique) simp_all
  show ?thesis
    by (rule that[OF redeem(1) ft _ _ fr rd(5,4,3) fc fe e(2,3) sc tables(5,6)])
      (use view in \<open>simp_all add: token_used_def redeemed_credential_def\<close>)
qed

text \<open>
  C21.  A device is let in as soon as its exchange commits: until the announced expiry, the id and secret it chose
  authenticate exactly the endpoint that the exchange created or migrated.
\<close>

theorem exchange_admits_device:
  assumes ok: "fleet_ok packs db" and run: "exchange_enrollment_token hmac st draw now request p payload db = (db', Inr view)"
    and first: "\<not> xr_replayed view" and bytes: "hmac_returns_bytes hmac"
    and time: "\<forall>x. cd_expires_at (xr_credential view) = Some x \<longrightarrow> strftime_z later < x"
  shows "\<exists>q. authenticates hmac st later (mt_credential_id payload) (mt_secret payload) db' q \<and>
     p_endpoint q = Some (er_endpoint_id (xr_endpoint view)) \<and> p_credential q = Some (mt_credential_id payload)"
  using ok run first
proof (rule exchanged)
  fix key and pl :: exchange_in and t t' r and e :: endpoint_row and expires
  let ?c = "new_credential (mt_credential_id pl) (ep_id e) (material_hash hmac key pl) expires (strftime_z now)"
  assume adm: "admitted_exchange hmac st request p payload db key pl t"
    and fc: "fetch dc_id (mt_credential_id pl) (db_credentials db') = Some ?c"
    and view: "exchange_payload e ?c False = Inr view"
  have key: "hmac_key st = Inr key" and m: "mt_credential_id pl = mt_credential_id payload" "mt_secret pl = mt_secret payload"
    using adm normalize_exchange_material by (auto simp: admitted_exchange_def)
  have v: "xr_credential view = credential_payload ?c" "xr_endpoint view = device_endpoint_payload e"
    using exchange_payload_Inr[OF view] by blast+
  then have "strftime_z later < expires" using time by (simp add: credential_payload_def new_credential_def)
  then have opens: "credential_opens hmac st later (mt_secret pl) ?c" by (rule new_credential_opens[OF bytes key])
  have "?c \<in> set (db_credentials db')" using fetch_SomeD[OF fc] by simp
  from authenticates_opens[OF exchange_keeps[OF ok run] this opens] show ?thesis
    by (simp add: new_credential_def m v device_endpoint_payload_def endpoint_payload_def)
qed


lemma exchange_hash_ascii: "hmac_returns_bytes hmac \<Longrightarrow> is_ascii (exchange_hash hmac key token_id payload)"
  by (simp add: exchange_hash_def exchange_request_hash_def keyed_hash_def hmac_returns_bytes_def hexdigest_ascii)

lemma token_scope_exists:
  "token_scope t db = Inr (c, l) \<Longrightarrow> client_exists db (Some (tk_client t)) \<and> location_exists db (Some (tk_client t)) (Some (tk_location t))"
  by (auto simp: token_scope_def client_exists_def location_exists_def location_of_client_def split: option.splits if_splits)

text \<open>
  A device that repeats its first exchange, because it never saw the answer, gets the same answer again: the
  same endpoint and the same credential, marked as replayed, with nothing written but one audit row.  This
  holds until the credential expires, even if the enrollment token is exhausted, expired or revoked by then
  (\<open>wear\<close> is whatever happened to the token rows, their secrets apart).
\<close>

theorem exchange_retry_idempotent:
  assumes ok: "fleet_ok packs db" and run: "exchange_enrollment_token hmac st draw now request p payload db = (db', Inr view)"
    and first: "\<not> xr_replayed view" and bytes: "hmac_returns_bytes hmac" and user: "p_user p = None"
    and time: "\<forall>x. cd_expires_at (xr_credential view) = Some x \<longrightarrow> strftime_z later < x"
    and fresh: "generate_prefixed_id ''aud'' (draw' 0) \<notin> au_id ` set (db_audits db')"
    and worn: "\<And>t. tk_id (wear t) = tk_id t \<and> tk_secret_hash (wear t) = tk_secret_hash t \<and> tk_hash_key (wear t) = tk_hash_key t"
    and db'': "db'' = db'\<lparr>db_tokens := map wear (db_tokens db')\<rparr>"
  shows "\<exists>a. exchange_enrollment_token hmac st draw' later request p payload db'' =
     (db''\<lparr>db_audits := db_audits db'' @ [a]\<rparr>, Inr (view\<lparr>xr_replayed := True\<rparr>))"
  using ok run first
proof (rule exchanged)
  fix key and pl :: exchange_in and t t' r and e :: endpoint_row and expires
  let ?c = "new_credential (mt_credential_id pl) (ep_id e) (material_hash hmac key pl) expires (strftime_z now)"
  assume adm: "admitted_exchange hmac st request p payload db key pl t"
    and ft: "fetch tk_id (tk_id t) (db_tokens db') = Some t'" "tk_secret_hash t' = tk_secret_hash t" "tk_hash_key t' = tk_hash_key t"
    and fr: "fetch (\<lambda>r. (rd_token r, rd_installation r)) (tk_id t, xc_installation pl) (db_redemptions db') = Some r"
      "rd_request_hash r = exchange_hash hmac key (tk_id t) pl" "rd_credential r = mt_credential_id pl" "rd_endpoint r = ep_id e"
    and fc: "fetch dc_id (mt_credential_id pl) (db_credentials db') = Some ?c"
    and fe: "fetch ep_id (ep_id e) (db_endpoints db') = Some e" "ep_client e = tk_client t" "ep_location e = tk_location t"
    and sc: "\<exists>c l. token_scope t db = Inr (c, l)" "db_clients db' = db_clients db" "db_locations db' = db_locations db"
    and view: "exchange_payload e ?c False = Inr view"
  have same: "db_redemptions db'' = db_redemptions db'" "db_credentials db'' = db_credentials db'" "db_endpoints db'' = db_endpoints db'"
    "db_clients db'' = db_clients db" "db_locations db'' = db_locations db" "db_audits db'' = db_audits db'"
    by (simp_all add: db'' sc)
  obtain t'' where t'': "fetch tk_id (tk_id t) (db_tokens db'') = Some t''" "tk_secret_hash t'' = tk_secret_hash t" "tk_hash_key t'' = hash_key_id"
  proof -
    have "fetch tk_id k (map wear rows) = map_option wear (fetch tk_id k rows)" for k rows
      using worn by (induction rows) simp_all
    then have "fetch tk_id (tk_id t) (db_tokens db'') = Some (wear t')" by (simp add: db'' ft(1))
    then show ?thesis using that worn[of t'] ft(2,3) adm by (simp add: admitted_exchange_def)
  qed
  obtain secret where pre: "exchange_valid payload" "hmac_key st = Inr key" "require_current_protocol (xc_protocol payload) = Inr ()"
      "normalize_exchange payload = Inr pl" "exchange_token request p = Inr (tk_id t, secret)"
    and dig: "compare_digest (enrollment_secret_hash (hmac_hex hmac) key (tk_id t) secret) (tk_secret_hash t) = Inr True"
    using adm by (auto simp: admitted_exchange_def)
  have c: "dc_id ?c = mt_credential_id pl" "dc_status ?c = CredActive" "dc_secret_hash ?c = material_hash hmac key pl"
    "dc_expires_at ?c = Some expires" by (simp_all add: new_credential_def)
  have "xr_credential view = credential_payload ?c" using exchange_payload_Inr[OF view] by blast
  then have late: "\<not> expires \<le> strftime_z later" using time by (simp add: credential_payload_def c not_le)
  have again: "exchange_payload e ?c True = Inr (view\<lparr>xr_replayed := True\<rparr>)" using exchange_payload_Inr[OF view] by blast
  let ?a = "audit_event (draw' 0) (strftime_z later) (redeemed_audit p e (tk_id t) True (strftime_z later))"
  have "record_audit_event (draw' 0) (strftime_z later) (redeemed_audit p e (tk_id t) True (strftime_z later)) db'' =
      Inr (db''\<lparr>db_audits := db_audits db'' @ [?a]\<rparr>)"
    using token_scope_exists sc(1) fresh user
    by (auto simp: record_audit_event_def insert_audit_def audit_event_def redeemed_audit_def audit_call_of_def fetch_None
        client_exists_def location_exists_def same fe(2,3))
  then have "replay_exchange (draw' 0) (strftime_z later) p (tk_id t) (exchange_hash hmac key (tk_id t) pl) (mt_credential_id pl)
      (material_hash hmac key pl) r db'' = Inr (db''\<lparr>db_audits := db_audits db'' @ [?a]\<rparr>, view\<lparr>xr_replayed := True\<rparr>)"
    using exchange_hash_ascii[OF bytes] material_hash_ascii[OF bytes, of key pl] late again
    by (simp add: replay_exchange_def same fr fc fe c compare_digest_def)
  then have "exchange_enrollment_token hmac st draw' later request p payload db'' =
      (db''\<lparr>db_audits := db_audits db'' @ [?a]\<rparr>, Inr (view\<lparr>xr_replayed := True\<rparr>))"
    unfolding exchange_enrollment_token_def
    by (simp add: pre Let_def t'' dig same fr(1) exchange_hash_def[symmetric] material_hash_def[symmetric]
        on_integrity_error_def)
  then show ?thesis by blast
qed


section \<open>A first exchange\<close>

definition demo_token_id :: string where
  "demo_token_id = ''et_'' @ replicate 32 (CHR ''a'')"

definition demo_exchange_request :: http_request where
  "demo_exchange_request = \<lparr>h_method = ''POST'', h_path = ''/api/endpoints/device-enrollments/exchange'',
     h_header = (\<lambda>n. if n = ''authorization''
       then Some (''Bearer sha_enroll.'' @ demo_token_id @ ''.'' @ replicate 43 (CHR ''A'')) else None),
     h_cookie = (\<lambda>_. None)\<rparr>"

definition demo_exchange :: exchange_in where
  "demo_exchange = \<lparr>mt_credential_id = ''dc_0123456789abcdef'', mt_secret = replicate 43 (CHR ''E''),
     xc_installation = ''installation-0002'', xc_fingerprint = ''fp-2'', xc_hostname = ''host-2'', xc_platform = Linux,
     xc_platform_version = None, xc_agent_version = ''1.0.0'', xc_protocol = ''sha-agent-v1'', xc_architecture = ''x86_64''\<rparr>"

definition open_token :: token_row where
  "open_token = fleet_token\<lparr>tk_id := demo_token_id, tk_use_count := 0\<rparr>"

definition open_db :: db where
  "open_db = ex_db\<lparr>db_endpoints := [], db_tokens := [open_token]\<rparr>"

lemma open_tables:
  "db_endpoints open_db = []" "db_tokens open_db = [open_token]" "db_credentials open_db = []" "db_redemptions open_db = []"
  "db_clients open_db = [ex_client]" "db_locations open_db = [ex_location]" "db_audits open_db = []"
  by (simp_all add: open_db_def)

lemma open_db_ok: "fleet_ok packs open_db"
  by (simp add: fleet_defs open_tables unique_on_def open_token_def fleet_token_def)

lemma demo_texts:
  "normalize_exchange demo_exchange = Inr demo_exchange" "exchange_valid demo_exchange"
  "exchange_token demo_exchange_request (enrollment_principal demo_token_id) = Inr (demo_token_id, replicate 43 (CHR ''A''))"
proof -
  show "normalize_exchange demo_exchange = Inr demo_exchange" "exchange_valid demo_exchange" by code_simp+
  have "parse_enrollment_token (request_bearer_token demo_exchange_request) = Some (demo_token_id, replicate 43 (CHR ''A''))"
    by code_simp
  then show "exchange_token demo_exchange_request (enrollment_principal demo_token_id) = Inr (demo_token_id, replicate 43 (CHR ''A''))"
    by (simp add: exchange_token_def enrollment_principal_def token_principal_def)
qed

lemma demo_first_exchange:
  "\<exists>db' view. exchange_enrollment_token demo_hmac demo_state ex_draw ex_now demo_exchange_request (enrollment_principal demo_token_id)
     demo_exchange open_db = (db', Inr view) \<and> \<not> xr_replayed view \<and>
     cd_expires_at (xr_credential view) = Some ''2026-04-01T00:00:00Z'' \<and>
     ''aud_x'' \<notin> au_id ` set (db_audits db')"
proof -
  have hex: "hexdigest [171, 205] = ''abcd''" "is_ascii ''abcd''" by code_simp+
  then have digest: "enrollment_secret_hash (hmac_hex demo_hmac) k i s = ''abcd''" for k i s
    by (simp add: enrollment_secret_hash_def keyed_hash_def demo_hmac_def)
  define key where "key = replicate 32 (1 :: nat)"
  have hmac: "hmac_key demo_state = Inr key" by (simp add: hmac_key_def demo_state_def key_def)
  have exp: "credential_expiry demo_state ex_now = Inr ''2026-04-01T00:00:00Z''"
    by (simp add: credential_expiry_def demo_state_def add_seconds_def ex_now_def datetime_end_def strftime_eval)
  have fields: "xc_protocol demo_exchange = ''sha-agent-v1''" "xc_installation demo_exchange = ''installation-0002''"
    "mt_credential_id demo_exchange = ''dc_0123456789abcdef''" "xc_platform demo_exchange = Linux" "xc_fingerprint demo_exchange = ''fp-2''"
    by (simp_all add: demo_exchange_def)
  have pr: "require_current_protocol ''sha-agent-v1'' = Inr ()"
    "protocol_compatibility_payload ''sha-agent-v1'' = Inr \<lparr>negotiated_version = ''sha-agent-v1'',
       minimum_version = ''sha-agent-v1'', supported_versions = [''sha-agent-v1'']\<rparr>"
    by (simp_all add: require_current_protocol_def require_supported_agent_protocol_def supported_agent_protocol_versions_def
        current_agent_protocol_version_def protocol_compatibility_payload_def)
  have t: "tk_id open_token = demo_token_id" "tk_secret_hash open_token = ''abcd''" "tk_hash_key open_token = hash_key_id"
    "token_usable (strftime_z ex_now) open_token" "tk_platform open_token = Some Linux" "tk_client open_token = ''cl_1''"
    "tk_location open_token = ''loc_1''"
    by (simp_all add: open_token_def fleet_token_def token_usable_def hash_key_id_def ex_now_text)
  have user: "p_user (enrollment_principal i) = None" for i by (simp add: enrollment_principal_def token_principal_def)
  have scope: "token_scope open_token open_db = Inr (ex_client, ex_location)"
    by (simp add: token_scope_def t location_of_client_def open_tables)
  define db1 where "db1 = open_db\<lparr>db_tokens := [token_used (strftime_z ex_now) open_token]\<rparr>"
  have consume: "consume_token (strftime_z ex_now) demo_token_id open_db = Inr db1"
    by (simp add: consume_token_def Let_def open_tables t update_where_def token_used_def db1_def)
  define e where "e = new_device_endpoint (ex_draw 0) (strftime_z ex_now) open_token demo_exchange ex_client ex_location"
  have e: "ep_protocol e = ''sha-agent-v1''" "ep_client e = ''cl_1''" "ep_location e = ''loc_1''" "ep_token e = Some demo_token_id"
    by (simp_all add: e_def new_device_endpoint_def fields t)
  define db2 where "db2 = db1\<lparr>db_endpoints := [e]\<rparr>"
  have place: "place_endpoint (ex_draw 0) (strftime_z ex_now) open_token demo_exchange ex_client ex_location None db1 = Inr (db2, e, Suc 0)"
    by (simp add: place_endpoint_def insert_endpoint_Inr Let_def andThen_eq_Inr e_def[symmetric] db2_def)
      (simp add: db1_def open_tables location_exists_def e token_used_def t)
  let ?c = "new_credential ''dc_0123456789abcdef'' (ep_id e) (material_hash demo_hmac key demo_exchange)
    ''2026-04-01T00:00:00Z'' (strftime_z ex_now)"
  have tables: "db_endpoints db2 = [e]" "db_tokens db2 = [token_used (strftime_z ex_now) open_token]" "db_credentials db2 = []"
    "db_redemptions db2 = []" "db_clients db2 = [ex_client]" "db_locations db2 = [ex_location]" "db_audits db2 = []"
    by (simp_all add: db2_def db1_def open_tables)
  have id: "tk_id (token_used (strftime_z ex_now) open_token) = demo_token_id" by (simp add: token_used_def t)
  have c: "dc_id (new_credential i k h x n) = i" "dc_endpoint (new_credential i k h x n) = k" for i k h x n
    by (simp_all add: new_credential_def)
  obtain db3 where store: "store_redemption ex_draw (Suc 0) (strftime_z ex_now) (enrollment_principal demo_token_id)
      (exchange_hash demo_hmac key demo_token_id demo_exchange) open_token demo_exchange False e ?c db2 = Inr db3"
    and au: "au_id ` set (db_audits db3) = {generate_prefixed_id ''aud'' (ex_draw 2)}"
    by (simp add: store_redemption_def insert_credential_def insert_redemption_def active_credential_of_def tables id c
        e t fields record_audit_event_def insert_audit_def audit_event_def redeemed_audit_def
        audit_call_of_def client_exists_def location_exists_def user numeral_2_eq_2)
  have "legacy_endpoint demo_exchange ex_client ex_location open_db = Inr None" by (simp add: legacy_endpoint_def open_tables)
  then obtain view where redeem: "redeem_token demo_state ex_draw ex_now (enrollment_principal demo_token_id)
      (exchange_hash demo_hmac key demo_token_id demo_exchange) (material_hash demo_hmac key demo_exchange)
      open_token demo_exchange open_db = Inr (db3, view)"
    and view: "\<not> xr_replayed view" "cd_expires_at (xr_credential view) = Some ''2026-04-01T00:00:00Z''"
    using store by (simp add: redeem_token_def Let_def t fields scope open_tables consume place exp exchange_payload_def e pr
        credential_payload_def) (simp add: new_credential_def)
  have "exchange_enrollment_token demo_hmac demo_state ex_draw ex_now demo_exchange_request (enrollment_principal demo_token_id)
     demo_exchange open_db = (db3, Inr view)"
    using redeem unfolding exchange_enrollment_token_def
    by (simp add: demo_texts hmac fields pr Let_def open_tables t digest hex(2) compare_digest_def on_integrity_error_def
        exchange_hash_def[symmetric] material_hash_def[symmetric])
  moreover have "''aud_x'' \<notin> au_id ` set (db_audits db3)"
    using ex_draw_not[of "CHR ''x''" 2 "[]"] by (simp add: au generate_prefixed_id_def)
  ultimately show ?thesis using view by blast
qed

lemma exchange_admits_device_witness:
  "\<exists>db' view. exchange_enrollment_token demo_hmac demo_state ex_draw ex_now demo_exchange_request (enrollment_principal demo_token_id)
     demo_exchange open_db = (db', Inr view) \<and>
     (\<exists>q. authenticates demo_hmac demo_state ex_now ''dc_0123456789abcdef'' (replicate 43 (CHR ''E'')) db' q)"
proof -
  obtain db' view where run: "exchange_enrollment_token demo_hmac demo_state ex_draw ex_now demo_exchange_request
      (enrollment_principal demo_token_id) demo_exchange open_db = (db', Inr view)"
    and view: "\<not> xr_replayed view" "cd_expires_at (xr_credential view) = Some ''2026-04-01T00:00:00Z''"
    using demo_first_exchange by blast
  have "\<forall>x. cd_expires_at (xr_credential view) = Some x \<longrightarrow> strftime_z ex_now < x" by (simp add: view ex_now_text)
  note out = exchange_admits_device[OF open_db_ok run view(1) demo_hmac_bytes this]
  have "mt_credential_id demo_exchange = ''dc_0123456789abcdef''" "mt_secret demo_exchange = replicate 43 (CHR ''E'')"
    by (simp_all add: demo_exchange_def)
  then show ?thesis using run out by metis
qed

lemma exchange_retry_idempotent_witness:
  "\<exists>db' view a. exchange_enrollment_token demo_hmac demo_state ex_draw ex_now demo_exchange_request (enrollment_principal demo_token_id)
     demo_exchange open_db = (db', Inr view) \<and>
     exchange_enrollment_token demo_hmac demo_state (\<lambda>_. ''x'') ex_now demo_exchange_request (enrollment_principal demo_token_id)
       demo_exchange (db'\<lparr>db_tokens := map (tk_revoked_at_update (\<lambda>_. Some ''2026-01-01T00:00:00Z'')) (db_tokens db')\<rparr>) =
     (db'\<lparr>db_tokens := map (tk_revoked_at_update (\<lambda>_. Some ''2026-01-01T00:00:00Z'')) (db_tokens db'),
        db_audits := db_audits db' @ [a]\<rparr>, Inr (view\<lparr>xr_replayed := True\<rparr>))"
proof -
  let ?wear = "tk_revoked_at_update (\<lambda>_. Some ''2026-01-01T00:00:00Z'') :: token_row \<Rightarrow> token_row"
  obtain db' view where run: "exchange_enrollment_token demo_hmac demo_state ex_draw ex_now demo_exchange_request
      (enrollment_principal demo_token_id) demo_exchange open_db = (db', Inr view)"
    and view: "\<not> xr_replayed view" "cd_expires_at (xr_credential view) = Some ''2026-04-01T00:00:00Z''"
    and fresh: "''aud_x'' \<notin> au_id ` set (db_audits db')"
    using demo_first_exchange by blast
  have time: "\<forall>x. cd_expires_at (xr_credential view) = Some x \<longrightarrow> strftime_z ex_now < x" by (simp add: view ex_now_text)
  have user: "p_user (enrollment_principal demo_token_id) = None" by (simp add: enrollment_principal_def token_principal_def)
  have id: "generate_prefixed_id ''aud'' ''x'' \<notin> au_id ` set (db_audits db')" using fresh by (simp add: generate_prefixed_id_def)
  have worn: "tk_id (?wear t) = tk_id t \<and> tk_secret_hash (?wear t) = tk_secret_hash t \<and> tk_hash_key (?wear t) = tk_hash_key t" for t
    by simp
  from exchange_retry_idempotent[OF open_db_ok run view(1) demo_hmac_bytes user time, of "\<lambda>_. ''x''", OF id worn refl] run
  show ?thesis by auto
qed

end
