(* ===== verification/Device_Stages.thy ===== *)
theory Device_Stages
  imports Device_Lifecycle
begin

text \<open>
  The stages of an endpoint, from shared reporter to managed device, as a step relation that every call of the
  endpoint and device APIs implements.
\<close>

section \<open>The steps\<close>

text \<open>A token that admits devices at \<open>now\<close> into one client and location.\<close>

definition admitting :: "nat \<Rightarrow> db \<Rightarrow> endpoint_row \<Rightarrow> token_row \<Rightarrow> bool" where
  "admitting now db e t \<longleftrightarrow> t \<in> set (db_tokens db) \<and> token_usable (strftime_z now) t \<and> (\<exists>c l. token_scope t db = Inr (c, l)) \<and>
     ep_token e = Some (tk_id t) \<and> ep_client e = tk_client t \<and> ep_location e = tk_location t \<and>
     stage_of e = (if tk_policy t = PolicyApproved then Managed else AwaitingApproval)"

inductive stage_step :: "nat \<Rightarrow> principal \<Rightarrow> fleet_call \<Rightarrow> db \<Rightarrow> endpoint_row \<Rightarrow> endpoint_row \<Rightarrow> bool"
  for now p call db where
  stays: "same_device e e' \<Longrightarrow> same_enrollment e e' \<Longrightarrow> stage_of e' = stage_of e \<Longrightarrow> stage_step now p call db e e'"
| approved: "call = ApproveEndpoint raw_id \<Longrightarrow> same_device e e' \<Longrightarrow> same_enrollment e e' \<Longrightarrow>
    permits_scope p ''endpoint.approve'' (Some (ep_client e)) (Some (ep_location e)) \<Longrightarrow>
    stage_of e = AwaitingApproval \<Longrightarrow> stage_of e' = Managed \<Longrightarrow> stage_step now p call db e e'"
| migrated: "call = Exchange request payload \<Longrightarrow> same_device e e' \<Longrightarrow> stage_of e = Reporter \<Longrightarrow> admitting now db e' t \<Longrightarrow>
    stage_step now p call db e e'"

inductive joins :: "nat \<Rightarrow> fleet_call \<Rightarrow> db \<Rightarrow> endpoint_row \<Rightarrow> bool" for now call db where
  reported: "call = EnrollLegacy payload \<Longrightarrow> stage_of e = Reporter \<Longrightarrow> open_scope db (ep_client e) (ep_location e) \<Longrightarrow>
    joins now call db e"
| enrolled: "call = Exchange request payload \<Longrightarrow> admitting now db e t \<Longrightarrow> joins now call db e"

inductive_cases stage_stepE: "stage_step now p call db e e'"

lemma stage_step_refl [simp]: "stage_step now p call db e e"
  by (rule stays) simp_all

text \<open>The endpoint table after a call: every row made its step, every new row joined.\<close>

definition stages_move :: "nat \<Rightarrow> principal \<Rightarrow> fleet_call \<Rightarrow> db \<Rightarrow> db \<Rightarrow> bool" where
  "stages_move now p call db db' \<longleftrightarrow> (\<exists>f new. db_endpoints db' = map f (db_endpoints db) @ new \<and>
     (\<forall>e\<in>set (db_endpoints db). stage_step now p call db e (f e)) \<and> (\<forall>e\<in>set new. joins now call db e))"

lemma stages_move_same: "db_endpoints db' = db_endpoints db \<Longrightarrow> stages_move now p call db db'"
  unfolding stages_move_def by (intro exI[of _ id] exI[of _ "[]"]) simp

lemma stages_move_added: "db_endpoints db' = db_endpoints db @ [e] \<Longrightarrow> joins now call db e \<Longrightarrow> stages_move now p call db db'"
  unfolding stages_move_def by (intro exI[of _ id] exI[of _ "[e]"]) simp

lemma stages_move_saved:
  assumes u: "unique_on ep_id (db_endpoints db)" and e: "e \<in> set (db_endpoints db)" "stage_step now p call db e e'"
    and db': "db_endpoints db' = save ep_id e' (db_endpoints db)"
  shows "stages_move now p call db db'"
proof -
  have "same_device e e'" using e(2) by (cases rule: stage_stepE) blast+
  then have id: "ep_id e' = ep_id e" by (simp add: same_device_def)
  let ?f = "\<lambda>x. if ep_id x = ep_id e' then e' else x"
  have "stage_step now p call db x (?f x)" if "x \<in> set (db_endpoints db)" for x
    using unique_onD[OF u that e(1)] e(2) id by auto
  then show ?thesis unfolding stages_move_def by (intro exI[of _ ?f] exI[of _ "[]"]) (simp add: db' save_def)
qed

section \<open>Every call implements them\<close>

lemma enroll_stages:
  assumes ok: "fleet_ok packs db" and p: "p_method p \<noteq> DeviceCredential"
    and run: "enroll_endpoint draw now p payload db = (db', Inr (v, created))"
  shows "stages_move now p (EnrollLegacy payload) db db'"
  using run
proof (cases rule: enroll_cases)
  case (new e)
  have "stage_of e = Reporter" using new by (simp add: legacy_row_def stage_of_def)
  then show ?thesis using new by (intro stages_move_added[of _ _ e] joins.reported) (auto simp: insert_endpoint_Inr)
next
  case (again e e')
  have "same_device e e'" "same_enrollment e e'" "ep_mode e \<noteq> DeviceMode"
    using again(4) p by (auto simp: reenrolled_def)
  moreover from this have "stage_of e' = stage_of e"
    by (cases "ep_mode e") (simp_all add: stage_of_def same_enrollment_def)
  ultimately show ?thesis
    using again(2,3) by (intro stages_move_saved[OF fleet_okD(1)[OF ok] again(2)] stays) simp_all
qed

lemma approve_stages:
  assumes ok: "fleet_ok packs db" and run: "approve_pending_endpoint draw now p raw_id db = (db', Inr v)"
  shows "stages_move now p (ApproveEndpoint raw_id) db db'"
  using run
proof (cases rule: approve_cases)
  case (1 e e' u)
  have s: "same_device e e'" "same_enrollment e e'" by (simp_all add: 1(3) same_device_def same_enrollment_def)
  have "stage_step now p (ApproveEndpoint raw_id) db e e'"
  proof (cases "stage_of e = AwaitingApproval")
    case True
    then have "stage_of e' = Managed" by (simp add: 1(3) stage_of_def split: if_splits)
    with True 1(2) s show ?thesis by (intro approved) simp_all
  next
    case False
    then have "stage_of e' = stage_of e" by (simp add: 1(3) stage_of_def split: if_splits)
    then show ?thesis by (rule stays[OF s])
  qed
  then show ?thesis by (rule stages_move_saved[OF fleet_okD(1)[OF ok] 1(1)]) (simp add: 1(4))
qed

lemma heartbeat_stages:
  assumes ok: "fleet_ok packs db" and run: "heartbeat_endpoint packs now p raw_id payload db = (db', Inr ack)"
  shows "stages_move now p (Heartbeat raw_id payload) db db'"
  using run
proof (cases rule: heartbeat_cases)
  case (1 e e')
  have e: "e \<in> set (db_endpoints db)" using fetch_SomeD[OF 1(1)] by simp
  have "stage_of e' = stage_of e" "same_device e e'" "same_enrollment e e'"
    using 1(4) by (cases "ep_mode e"; simp add: heartbeat_written_def same_enrollment_def stage_of_def)+
  then show ?thesis by (intro stages_move_saved[OF fleet_okD(1)[OF ok] e stays]) (simp_all add: 1(5))
qed

lemma exchange_stages:
  assumes ok: "fleet_ok packs db" and run: "exchange_enrollment_token hmac st draw now request p raw_payload db = (db', Inr view)"
  shows "stages_move now p (Exchange request raw_payload) db db'"
  using run
proof (cases rule: exchange_cases)
  case (replay key payload t r)
  from replay_Inr[OF replay(3)] obtain a where "db' = db\<lparr>db_audits := db_audits db @ [a]\<rparr>" by blast
  then show ?thesis by (intro stages_move_same) simp
next
  case (redeem key payload t)
  have t: "t \<in> set (db_tokens db)"
    using redeem(1) fetch_SomeD[of tk_id "tk_id t" "db_tokens db" t] by (auto simp: admitted_exchange_def)
  obtain x where w: "redemption_written st now (exchange_hash hmac key (tk_id t) payload) (material_hash hmac key payload) t payload db db' x"
    using redeem_cases[OF redeem(3) fleet_okD(5)[OF ok] t] by blast
  have usable: "token_usable (strftime_z now) t" "\<exists>c l. token_scope t db = Inr (c, l)"
    and rows: "db_endpoints db' = rx_rows x" "placed (db_endpoints db) (rx_endpoint x) (rx_rows x)"
      "enrolled_row (strftime_z now) t payload (rx_endpoint x)"
    using w unfolding redemption_written_def by (elim conjE, simp)+
  have adm: "admitting now db (rx_endpoint x) t"
    using t usable rows(3) by (simp add: admitting_def enrolled_row_def stage_of_def enrolled_status_def)
  from rows(2) consider (new) "rx_rows x = db_endpoints db @ [rx_endpoint x]"
    | (migrated) e0 where "e0 \<in> set (db_endpoints db)" "same_device e0 (rx_endpoint x)" "ep_mode e0 = LegacyShared"
        "rx_rows x = save ep_id (rx_endpoint x) (db_endpoints db)"
    unfolding placed_def by blast
  then show ?thesis
  proof cases
    case new
    then show ?thesis using adm rows(1) by (intro stages_move_added[of _ _ "rx_endpoint x"] joins.enrolled) simp_all
  next
    case (migrated e0)
    have "stage_of e0 = Reporter" using migrated(3) by (simp add: stage_of_def)
    then show ?thesis
      using adm migrated(2,4) rows(1)
      by (intro stages_move_saved[OF fleet_okD(1)[OF ok] migrated(1), of _ _ _ "rx_endpoint x"] stage_step.migrated) simp_all
  qed
qed

lemma other_calls_endpoints:
  "create_enrollment_token hmac raw st draw now p tin db = (db', Inr tv) \<Longrightarrow> db_endpoints db' = db_endpoints db"
  "revoke_enrollment_token draw now p raw_id db = (db', Inr rv) \<Longrightarrow> db_endpoints db' = db_endpoints db"
  "rotate_device_credential hmac st draw now p m db = (db', Inr cv) \<Longrightarrow> db_endpoints db' = db_endpoints db"
  "revoke_device_credential draw now p raw_id db = (db', Inr dv) \<Longrightarrow> db_endpoints db' = db_endpoints db"
proof -
  show "db_endpoints db' = db_endpoints db" if "create_enrollment_token hmac raw st draw now p tin db = (db', Inr tv)"
    using create_token_cases[OF that] by auto
  show "db_endpoints db' = db_endpoints db" if "revoke_enrollment_token draw now p raw_id db = (db', Inr rv)"
    using revoke_token_cases[OF that] by auto
  show "db_endpoints db' = db_endpoints db" if "rotate_device_credential hmac st draw now p m db = (db', Inr cv)"
    using that
  proof (cases rule: rotate_cases)
    case (new key c)
    then show ?thesis using rotate_current_Inr[OF new(8,7)] by auto
  qed simp
  show "db_endpoints db' = db_endpoints db" if "revoke_device_credential draw now p raw_id db = (db', Inr dv)"
    using revoke_credential_cases[OF that] by auto
qed

lemma fleet_calls_stages:
  assumes ok: "fleet_ok (sr_packs s) db" and adm: "call_admitted p call"
  shows "stages_move now p call db (run_fleet_call s draw now p call db)"
proof (cases call)
  case (EnrollLegacy payload)
  with adm have p: "p_method p \<noteq> DeviceCredential" by (simp add: call_admitted_def)
  show ?thesis unfolding EnrollLegacy run_fleet_call.simps
  proof (rule transaction_runs[OF enroll_endpoint_def, of "stages_move now p (EnrollLegacy payload) db"])
    fix db' x
    assume "enroll_endpoint draw now p payload db = (db', Inr x)"
    then show "stages_move now p (EnrollLegacy payload) db db'" using enroll_stages[OF ok p] by (cases x) simp
  qed (simp add: stages_move_same)
next
  case (ApproveEndpoint raw_id)
  show ?thesis unfolding ApproveEndpoint run_fleet_call.simps
    by (rule transaction_runs[OF approve_pending_endpoint_def, of "stages_move now p (ApproveEndpoint raw_id) db"])
      (simp add: stages_move_same, rule approve_stages[OF ok])
next
  case (Heartbeat raw_id payload)
  show ?thesis unfolding Heartbeat run_fleet_call.simps
    by (rule transaction_runs[OF heartbeat_endpoint_def, of "stages_move now p (Heartbeat raw_id payload) db"])
      (simp add: stages_move_same, rule heartbeat_stages[OF ok])
next
  case (CreateToken raw payload)
  show ?thesis unfolding CreateToken run_fleet_call.simps
    by (rule transaction_runs[OF create_enrollment_token_def, of "stages_move now p (CreateToken raw payload) db"])
      (simp add: stages_move_same, rule stages_move_same, rule other_calls_endpoints(1))
next
  case (RevokeToken raw_id)
  show ?thesis unfolding RevokeToken run_fleet_call.simps
    by (rule transaction_runs[OF revoke_enrollment_token_def, of "stages_move now p (RevokeToken raw_id) db"])
      (simp add: stages_move_same, rule stages_move_same, rule other_calls_endpoints(2))
next
  case (Exchange request payload)
  show ?thesis unfolding Exchange run_fleet_call.simps
    by (rule transaction_runs[OF exchange_enrollment_token_def, of "stages_move now p (Exchange request payload) db"])
      (simp add: stages_move_same, rule exchange_stages[OF ok])
next
  case (RotateCredential payload)
  show ?thesis unfolding RotateCredential run_fleet_call.simps
    by (rule transaction_runs[OF rotate_device_credential_def, of "stages_move now p (RotateCredential payload) db"])
      (simp add: stages_move_same, rule stages_move_same, rule other_calls_endpoints(3))
next
  case (RevokeCredential raw_id)
  show ?thesis unfolding RevokeCredential run_fleet_call.simps
    by (rule transaction_runs[OF revoke_device_credential_def, of "stages_move now p (RevokeCredential raw_id) db"])
      (simp add: stages_move_same, rule stages_move_same, rule other_calls_endpoints(4))
qed

text \<open>
  C22.  The endpoint table moves only along the stages of a device.  Whatever a call does, every stored endpoint
  keeps its id, fingerprint, platform and place in the hierarchy; it leaves the pending stage only by an
  approval of somebody who may approve there, leaves the shared reporter mode only by a token that was usable at
  that instant for exactly its client and location, and never goes back; every new endpoint is either a
  reporter in an open location or admitted by such a token, pending unless the token pre-approves.
\<close>

theorem fleet_calls_implement_stages:
  assumes "fleet_ok (sr_packs s) db" and "call_admitted p call"
  shows "stages_move now p call db (run_fleet_call s draw now p call db)"
  by (rule fleet_calls_stages[OF assms])

lemma fleet_calls_implement_stages_witness:
  "stages_move ex_now ex_operator (ApproveEndpoint ''ep_1'') fleet_db
     (run_fleet_call demo_surroundings ex_draw ex_now ex_operator (ApproveEndpoint ''ep_1'') fleet_db)"
proof -
  have "fleet_ok (sr_packs demo_surroundings) fleet_db" by (rule fleet_example_ok)
  moreover have "call_admitted ex_operator (ApproveEndpoint ''ep_1'')" by (simp add: call_admitted_def)
  ultimately show ?thesis by (rule fleet_calls_implement_stages)
qed

end
