(* ===== verification/Identity.thy ===== *)
theory Identity
  imports Principals Hierarchy
begin

text \<open>
  Users, roles and role bindings: \<open>app/api/endpoints/identity.py\<close> and \<open>app/bootstrap_admin.py\<close>, with the
  session routes of \<open>app/api/endpoints/authentication.py\<close> that end browser sessions.
\<close>

section \<open>Payloads and views\<close>

fun user_status_value :: "user_status \<Rightarrow> string" where
  "user_status_value UserPending = ''pending''"
| "user_status_value UserActive = ''active''"
| "user_status_value UserDisabled = ''disabled''"

fun scope_type_value :: "scope_type \<Rightarrow> string" where
  "scope_type_value GlobalScope = ''global''"
| "scope_type_value ClientScope = ''client''"
| "scope_type_value LocationScope = ''location''"

record binding_in =
  bn_role_key :: string
  bn_scope :: scope_type
  bn_client :: "string option"
  bn_location :: "string option"

definition binding_in_valid :: "binding_in \<Rightarrow> bool" where
  "binding_in_valid b \<longleftrightarrow> length (bn_role_key b) \<in> {1..64} \<and>
     (case bn_client b of None \<Rightarrow> True | Some c \<Rightarrow> length c \<le> 64) \<and>
     (case bn_location b of None \<Rightarrow> True | Some l \<Rightarrow> length l \<le> 64)"

type_synonym binding_view = "binding_row \<times> string"

text \<open>\<open>_binding_payload\<close>: the row with the key of its role.\<close>

definition binding_payload :: "binding_row \<Rightarrow> string \<Rightarrow> binding_view" where
  "binding_payload b role_key = (b, role_key)"

record user_view =
  uv_user :: user_row
  uv_identities :: "identity_row list"
  uv_bindings :: "binding_view list"

record role_view =
  rv_id :: string
  rv_key :: string
  rv_name :: string
  rv_is_system :: bool
  rv_permissions :: "string list"

section \<open>Users\<close>

definition list_users :: "principal \<Rightarrow> db \<Rightarrow> user_view list result" where
  "list_users p db =
     andThen (require_permission ''identity.manage'' p) (\<lambda>p.
     andThen (require_global_permission p ''identity.manage'') (\<lambda>_.
     let users = order_by (\<lambda>u. (us_created_at u, us_id u)) (db_users db);
         identities = order_by (\<lambda>i. (oi_created_at i, oi_id i)) (db_identities db);
         binding_rows = order_by (\<lambda>(b, _). (bi_created_at b, bi_id b))
           [(b, ro_key r). b \<leftarrow> db_bindings db, r \<leftarrow> db_roles db, ro_id r = bi_role b]
     in Inr (map (\<lambda>u. \<lparr>uv_user = u, uv_identities = filter (\<lambda>i. oi_user i = us_id u) identities,
          uv_bindings = map (\<lambda>(b, k). binding_payload b k) (filter (\<lambda>(b, _). bi_user b = us_id u) binding_rows)\<rparr>) users)))"

text \<open>\<open>update(BrowserSession)\<close> of the live sessions of one user.\<close>

definition end_sessions :: "string \<Rightarrow> string \<Rightarrow> db \<Rightarrow> db" where
  "end_sessions now_str user_id db = db\<lparr>db_sessions :=
     update_where (\<lambda>s. bs_user s = user_id \<and> bs_revoked_at s = None)
       (\<lambda>s. s\<lparr>bs_revoked_at := Some now_str, bs_updated_at := now_str\<rparr>) (db_sessions db)\<rparr>"

definition update_user_status ::
  "(nat \<Rightarrow> string) \<Rightarrow> nat \<Rightarrow> principal \<Rightarrow> string \<Rightarrow> user_status \<Rightarrow> db \<Rightarrow> db \<times> user_row result" where
  "update_user_status draw now p raw_user_id new_status db = transaction db (
     andThen (require_permission ''identity.manage'' p) (\<lambda>p.
     andThen (require_global_permission p ''identity.manage'') (\<lambda>_.
     andThen (normalize_required_string raw_user_id ''user_id'') (\<lambda>user_id.
     let now_str = strftime_z now in
     case fetch us_id user_id (db_users db) of
       None \<Rightarrow> Inl (not_found ''user not found'')
     | Some user \<Rightarrow>
       let user' = user\<lparr>us_status := new_status,
             us_disabled_at := (if new_status = UserDisabled then Some now_str else None), us_updated_at := now_str\<rparr>;
           db = db\<lparr>db_users := save us_id user' (db_users db)\<rparr>;
           db = (if new_status = UserDisabled then end_sessions now_str (us_id user') db else db)
       in andThen (record_audit_event (draw 0) now_str
            ((audit_call_of ''user_status_changed'')\<lparr>ax_principal := Some p, ax_target_type := Some ''user'',
               ax_target_id := Some (us_id user'),
               ax_metadata := [(''from'', JStr (user_status_value (us_status user))),
                 (''to'', JStr (user_status_value (us_status user')))],
               ax_created_at := Some now_str\<rparr>) db) (\<lambda>db.
          Inr (db, user'))))))"

section \<open>Roles and bindings\<close>

definition list_roles :: "principal \<Rightarrow> db \<Rightarrow> role_view list result" where
  "list_roles p db =
     andThen (require_permission ''identity.manage'' p) (\<lambda>p.
     andThen (require_global_permission p ''identity.manage'') (\<lambda>_.
     let permission_rows = order_by (\<lambda>q. (rp_role q, rp_permission q)) (db_role_permissions db)
     in Inr (map (\<lambda>r. \<lparr>rv_id = ro_id r, rv_key = ro_key r, rv_name = ro_name r, rv_is_system = ro_is_system r,
          rv_permissions = map rp_permission (filter (\<lambda>q. rp_role q = ro_id r) permission_rows)\<rparr>)
          (order_by (\<lambda>r. (ro_name r, ro_id r)) (db_roles db)))))"

definition validate_binding_scope :: "db \<Rightarrow> binding_in \<Rightarrow> (string option \<times> string option) result" where
  "validate_binding_scope db payload =
     andThen (normalize_optional_string (bn_client payload) ''client_id'') (\<lambda>client_id.
     andThen (normalize_optional_string (bn_location payload) ''location_id'') (\<lambda>location_id.
     if bn_scope payload = GlobalScope
     then if client_id \<noteq> None \<or> location_id \<noteq> None
          then Inl (unprocessable ''global binding must not include client or location'') else Inr (None, None)
     else case client_id of
       None \<Rightarrow> Inl (not_found ''scope not found'')
     | Some c \<Rightarrow>
       if fetch cl_id c (db_clients db) = None then Inl (not_found ''scope not found'')
       else if bn_scope payload = ClientScope
       then if location_id \<noteq> None then Inl (unprocessable ''client binding must not include location'')
            else Inr (client_id, None)
       else case location_id of
         None \<Rightarrow> Inl (unprocessable ''location binding requires location'')
       | Some l \<Rightarrow>
         if location_of_client l c db = None then Inl (not_found ''scope not found'')
         else Inr (client_id, location_id)))"

definition create_role_binding ::
  "(nat \<Rightarrow> string) \<Rightarrow> nat \<Rightarrow> principal \<Rightarrow> string \<Rightarrow> binding_in \<Rightarrow> db \<Rightarrow> db \<times> binding_view result" where
  "create_role_binding draw now p raw_user_id payload db = transaction db (
     andThen (require_permission ''identity.manage'' p) (\<lambda>p.
     andThen (ensure (binding_in_valid payload) (unprocessable ''request validation'')) (\<lambda>_.
     andThen (require_global_permission p ''identity.manage'') (\<lambda>_.
     andThen (normalize_required_string raw_user_id ''user_id'') (\<lambda>user_id.
     andThen (normalize_required_string (bn_role_key payload) ''role_key'') (\<lambda>trimmed_key.
     let role_key = lower trimmed_key; now_str = strftime_z now
     in on_integrity_error (conflict ''active role binding already exists'') (
        case fetch us_id user_id (db_users db) of
          None \<Rightarrow> Inl (not_found ''user not found'')
        | Some user \<Rightarrow>
        case fetch ro_key role_key (db_roles db) of
          None \<Rightarrow> Inl (not_found ''role not found'')
        | Some role \<Rightarrow>
          andThen (validate_binding_scope db payload) (\<lambda>(client_id, location_id).
          let b = \<lparr>bi_id = generate_prefixed_id ''urb'' (draw 0), bi_user = us_id user, bi_role = ro_id role,
                bi_scope = bn_scope payload, bi_client = client_id, bi_location = location_id,
                bi_created_by = audit_actor p, bi_created_at = now_str, bi_revoked_at = None\<rparr>
          in andThen (insert_binding b db) (\<lambda>db.
             andThen (record_audit_event (draw 1) now_str
               ((audit_call_of ''role_binding_created'')\<lparr>ax_principal := Some p, ax_client := client_id,
                  ax_location := location_id, ax_target_type := Some ''role_binding'', ax_target_id := Some (bi_id b),
                  ax_metadata := [(''user_id'', JStr (us_id user)), (''role'', JStr (ro_key role)),
                    (''scope_type'', JStr (scope_type_value (bn_scope payload)))],
                  ax_created_at := Some now_str\<rparr>) db) (\<lambda>db.
             Inr (db, binding_payload b (ro_key role))))))))))))"

text \<open>The binding with the key of its role (the inner join has at most one row).\<close>

definition binding_with_role :: "string \<Rightarrow> db \<Rightarrow> binding_view option" where
  "binding_with_role binding_id db =
     (case fetch bi_id binding_id (db_bindings db) of
        None \<Rightarrow> None
      | Some b \<Rightarrow> map_option (\<lambda>r. (b, ro_key r)) (fetch ro_id (bi_role b) (db_roles db)))"

definition revoke_role_binding ::
  "(nat \<Rightarrow> string) \<Rightarrow> nat \<Rightarrow> principal \<Rightarrow> string \<Rightarrow> db \<Rightarrow> db \<times> binding_view result" where
  "revoke_role_binding draw now p raw_binding_id db = transaction db (
     andThen (require_permission ''identity.manage'' p) (\<lambda>p.
     andThen (require_global_permission p ''identity.manage'') (\<lambda>_.
     andThen (normalize_required_string raw_binding_id ''binding_id'') (\<lambda>binding_id.
     let now_str = strftime_z now in
     case binding_with_role binding_id db of
       None \<Rightarrow> Inl (not_found ''role binding not found'')
     | Some (b, role_key) \<Rightarrow>
       if bi_revoked_at b \<noteq> None then Inr (db, binding_payload b role_key)
       else let b' = b\<lparr>bi_revoked_at := Some now_str\<rparr>;
                db = end_sessions now_str (bi_user b) (db\<lparr>db_bindings := save bi_id b' (db_bindings db)\<rparr>)
            in andThen (record_audit_event (draw 0) now_str
                 ((audit_call_of ''role_binding_revoked'')\<lparr>ax_principal := Some p, ax_client := bi_client b,
                    ax_location := bi_location b, ax_target_type := Some ''role_binding'',
                    ax_target_id := Some (bi_id b),
                    ax_metadata := [(''user_id'', JStr (bi_user b)), (''role'', JStr role_key)],
                    ax_created_at := Some now_str\<rparr>) db) (\<lambda>db.
               Inr (db, binding_payload b' role_key))))))"

section \<open>The end of a session\<close>

definition logout_current_session :: "(nat \<Rightarrow> string) \<Rightarrow> nat \<Rightarrow> principal option \<Rightarrow> db \<Rightarrow> db \<times> unit result" where
  "logout_current_session draw now q db = transaction db (
     andThen (current_principal q) (\<lambda>p.
     case (if p_method p \<noteq> OidcSession then None else p_session p) of
       None \<Rightarrow> Inl (HTTPException 403 ''OIDC browser session is required'')
     | Some session_id \<Rightarrow>
       let now_str = strftime_z now;
           db = (case fetch bs_id session_id (db_sessions db) of
             Some s \<Rightarrow> if bs_revoked_at s = None
               then db\<lparr>db_sessions := save bs_id (s\<lparr>bs_revoked_at := Some now_str, bs_updated_at := now_str\<rparr>) (db_sessions db)\<rparr>
               else db
           | None \<Rightarrow> db)
       in andThen (record_audit_event (draw 0) now_str
            ((audit_call_of ''browser_session_logout'')\<lparr>ax_principal := Some p,
               ax_target_type := Some ''browser_session'', ax_target_id := Some session_id,
               ax_created_at := Some now_str\<rparr>) db) (\<lambda>db. Inr (db, ()))))"

definition logout_all_sessions :: "(nat \<Rightarrow> string) \<Rightarrow> nat \<Rightarrow> principal option \<Rightarrow> db \<Rightarrow> db \<times> unit result" where
  "logout_all_sessions draw now q db = transaction db (
     andThen (current_principal q) (\<lambda>p.
     case (if p_method p \<noteq> OidcSession then None else p_user p) of
       None \<Rightarrow> Inl (HTTPException 403 ''OIDC browser session is required'')
     | Some user_id \<Rightarrow>
       let now_str = strftime_z now
       in andThen (record_audit_event (draw 0) now_str
            ((audit_call_of ''browser_session_logout_all'')\<lparr>ax_principal := Some p,
               ax_target_type := Some ''user'', ax_target_id := Some user_id,
               ax_created_at := Some now_str\<rparr>) (end_sessions now_str user_id db)) (\<lambda>db. Inr (db, ()))))"

section \<open>The first administrator\<close>

definition bootstrap_arguments ::
  "(string \<Rightarrow> bool) \<Rightarrow> string \<Rightarrow> string \<Rightarrow> string option \<Rightarrow> string result" where
  "bootstrap_arguments bracketed_ok issuer subject display_name =
     (if issuer = [] \<or> issuer \<noteq> strip issuer
      then Inl (ValueError ''issuer must be non-empty and must not contain surrounding whitespace'')
      else andThen (urlsplit bracketed_ok issuer) (\<lambda>parsed.
      if sp_scheme parsed \<noteq> ''https'' \<or> sp_netloc parsed = [] \<or> truthy (sp_username parsed) \<or> truthy (sp_password parsed)
         \<or> sp_query parsed \<noteq> [] \<or> sp_fragment parsed \<noteq> []
      then Inl (ValueError ''issuer must be an absolute HTTPS URL without user information or query'')
      else if subject = [] then Inl (ValueError ''subject must be non-empty'')
      else if 2048 < length issuer \<or> 255 < length subject
      then Inl (ValueError ''issuer or subject exceeds the supported OIDC identifier length'')
      else andThen (case display_name of Some n \<Rightarrow> normalize_required_string n ''display_name'' | None \<Rightarrow> Inr subject) (\<lambda>name.
      if 255 < length name then Inl (ValueError ''display_name must not exceed 255 characters'') else Inr name)))"

text \<open>The user and identity of the subject, created or brought up to date, with the number of ids drawn.\<close>

definition bootstrap_identity ::
  "(nat \<Rightarrow> string) \<Rightarrow> string \<Rightarrow> string \<Rightarrow> string \<Rightarrow> string \<Rightarrow> db \<Rightarrow> (db \<times> user_row \<times> identity_row \<times> nat) result" where
  "bootstrap_identity draw now_str issuer subject name db =
     (case fetch (\<lambda>i. (oi_issuer i, oi_subject i)) (issuer, subject) (db_identities db) of
        None \<Rightarrow>
          let user = \<lparr>us_id = generate_prefixed_id ''usr'' (draw 0), us_status = UserActive, us_display_name = name,
                us_email = None, us_last_login_at = None, us_disabled_at = None, us_created_at = now_str,
                us_updated_at = now_str\<rparr>;
              identity = \<lparr>oi_id = generate_prefixed_id ''oidc'' (draw 1), oi_user = us_id user, oi_issuer = issuer,
                oi_subject = subject, oi_display_name = name, oi_email = None, oi_created_at = now_str,
                oi_updated_at = now_str, oi_last_seen_at = None\<rparr>
          in andThen (insert_user user db) (\<lambda>db. andThen (insert_identity identity db) (\<lambda>db. Inr (db, user, identity, 2)))
      | Some identity \<Rightarrow>
          (case fetch us_id (oi_user identity) (db_users db) of
             None \<Rightarrow> Inl (RuntimeError ''OIDC identity has no user'')
           | Some user \<Rightarrow>
             if us_status user = UserDisabled then Inl (RuntimeError ''refusing to bootstrap a disabled user'')
             else let user' = user\<lparr>us_status := UserActive, us_display_name := name, us_disabled_at := None, us_updated_at := now_str\<rparr>;
                      identity' = identity\<lparr>oi_display_name := name, oi_updated_at := now_str\<rparr>
                  in Inr (db\<lparr>db_users := save us_id user' (db_users db),
                            db_identities := save oi_id identity' (db_identities db)\<rparr>, user', identity', 0)))"

definition active_global_binding :: "string \<Rightarrow> binding_row \<Rightarrow> bool" where
  "active_global_binding role_id b \<longleftrightarrow> bi_role b = role_id \<and> bi_scope b = GlobalScope \<and> bi_revoked_at b = None"

definition bootstrap_global_admin ::
  "(string \<Rightarrow> bool) \<Rightarrow> (nat \<Rightarrow> string) \<Rightarrow> nat \<Rightarrow> string \<Rightarrow> string \<Rightarrow> string option \<Rightarrow> db \<Rightarrow>
   db \<times> (user_row \<times> identity_row \<times> binding_row) result" where
  "bootstrap_global_admin bracketed_ok draw now issuer subject display_name db = transaction db (
     andThen (bootstrap_arguments bracketed_ok issuer subject display_name) (\<lambda>name.
     let now_str = strftime_z now in
     case fetch ro_key ''admin'' (db_roles db) of
       None \<Rightarrow> Inl (RuntimeError ''system Admin role is missing; migrate the database first'')
     | Some admin_role \<Rightarrow>
       if List.find (active_global_binding (ro_id admin_role)) (db_bindings db) \<noteq> None
       then Inl (RuntimeError ''an active global Admin binding already exists'')
       else andThen (bootstrap_identity draw now_str issuer subject name db) (\<lambda>(db, user, identity, n).
       let b = \<lparr>bi_id = generate_prefixed_id ''urb'' (draw n), bi_user = us_id user, bi_role = ro_id admin_role,
             bi_scope = GlobalScope, bi_client = None, bi_location = None, bi_created_by = ''bootstrap:local-cli'',
             bi_created_at = now_str, bi_revoked_at = None\<rparr>
       in andThen (insert_binding b db) (\<lambda>db.
          andThen (record_audit_event (draw (n + 1)) now_str
            ((audit_call_of ''global_admin_bootstrapped'')\<lparr>ax_actor := Some ''bootstrap:local-cli'',
               ax_method := Some ''local_cli'', ax_target_type := Some ''user'', ax_target_id := Some (us_id user),
               ax_metadata := [(''issuer'', JStr issuer), (''subject'', JStr subject)],
               ax_created_at := Some now_str\<rparr>) db) (\<lambda>db.
          Inr (db, user, identity, b))))))"

end
