(* ===== verification/Oidc_Login.thy ===== *)
theory Oidc_Login
  imports Identity
begin

text \<open>
  The OIDC login of \<open>app/api/endpoints/authentication.py\<close>: the login transaction bound to one browser, the
  callback with its three database transactions, and the session it opens.  The provider behind Authlib is the
  parameter \<open>provider\<close>; a caught exception is the name of its type.
\<close>

section \<open>Configuration and provider\<close>

record login_settings =
  lg_config :: "oidc_config option"
  lg_login_ttl_minutes :: int
  lg_session_hours :: int

record provider_metadata =
  pm_issuer :: "string option"
  pm_response_types :: "string list"
  pm_challenge_methods :: "string list"

text \<open>Fields of the authorization that are not texts are absent.\<close>

record authorization =
  az_state :: "string option"
  az_nonce :: "string option"
  az_verifier :: "string option"
  az_url :: "string option"

type_synonym claims = "string \<Rightarrow> json option"

record oidc_provider =
  op_metadata :: "provider_metadata option"
  op_authorization :: "string \<Rightarrow> authorization option"
  op_access_token :: "string \<Rightarrow> string \<Rightarrow> string \<Rightarrow> string + string"
  op_id_token :: "string \<Rightarrow> string \<Rightarrow> string + claims"

definition unavailable :: "string \<Rightarrow> py_error" where
  "unavailable detail = HTTPException 503 detail"

definition oidc_state :: "app_state \<Rightarrow> login_settings \<Rightarrow> (oidc_config \<times> nat list) result" where
  "oidc_state st lg =
     (case (st_oidc_client st, lg_config lg, st_session_key st) of
        (True, Some config, Some key) \<Rightarrow> Inr (config, key)
      | _ \<Rightarrow> Inl (unavailable ''OIDC authentication is not configured''))"

section \<open>The beginning of a login\<close>

definition login_return_to :: "(string \<Rightarrow> bool) \<Rightarrow> string option \<Rightarrow> string result" where
  "login_return_to bracketed_ok return_to =
     (case validate_return_to bracketed_ok return_to of
        Inl (ValueError detail) \<Rightarrow> Inl (unprocessable detail)
      | r \<Rightarrow> r)"

definition check_metadata :: "oidc_config \<Rightarrow> provider_metadata option \<Rightarrow> unit result" where
  "check_metadata config metadata =
     (case metadata of
        None \<Rightarrow> Inl (unavailable ''OIDC provider metadata is unavailable'')
      | Some m \<Rightarrow>
          if pm_issuer m \<noteq> Some (oc_issuer config) then Inl (unavailable ''OIDC discovery issuer mismatch'')
          else if ''code'' \<notin> set (pm_response_types m)
          then Inl (unavailable ''OIDC provider does not support authorization code flow'')
          else if ''S256'' \<notin> set (pm_challenge_methods m)
          then Inl (unavailable ''OIDC provider does not advertise PKCE S256'')
          else Inr ())"

definition authorization_parts :: "authorization option \<Rightarrow> (string \<times> string \<times> string \<times> string) result" where
  "authorization_parts a =
     (case a of
        None \<Rightarrow> Inl (unavailable ''OIDC authorization could not be initialized'')
      | Some a \<Rightarrow>
          (case (az_state a, az_nonce a, az_verifier a, az_url a) of
             (Some s, Some n, Some v, Some u) \<Rightarrow>
               if s \<noteq> [] \<and> n \<noteq> [] \<and> v \<noteq> [] \<and> u \<noteq> [] then Inr (s, n, v, u)
               else Inl (unavailable ''OIDC provider authorization could not be initialized'')
           | _ \<Rightarrow> Inl (unavailable ''OIDC provider authorization could not be initialized'')))"

definition begin_oidc_login ::
  "(nat list \<Rightarrow> nat list \<Rightarrow> nat list) \<Rightarrow> (nat list \<Rightarrow> nat list \<Rightarrow> nat list \<Rightarrow> nat list \<Rightarrow> nat list) \<Rightarrow> (string \<Rightarrow> bool) \<Rightarrow>
   oidc_provider \<Rightarrow> app_state \<Rightarrow> login_settings \<Rightarrow> nat list \<Rightarrow> nat list \<Rightarrow> (nat \<Rightarrow> string) \<Rightarrow> nat \<Rightarrow> string option \<Rightarrow> db \<Rightarrow>
   db \<times> (string \<times> string) result" where
  "begin_oidc_login hmac seal bracketed_ok provider st lg raw nonce_bytes draw now return_to db = transaction db (
     andThen (oidc_state st lg) (\<lambda>(config, key).
     andThen (login_return_to bracketed_ok return_to) (\<lambda>safe_return_to.
     andThen (check_metadata config (op_metadata provider)) (\<lambda>_.
     andThen (authorization_parts (op_authorization provider (callback_uri config))) (\<lambda>(state_value, nonce, verifier, url).
     let transaction_id = generate_prefixed_id ''oidctx'' (draw 0);
         browser_binding = generate_browser_secret raw
     in andThen (add_seconds now (lg_login_ttl_minutes lg * 60)) (\<lambda>expires.
        andThen (insert_login \<lparr>ol_id = transaction_id, ol_state_hash = browser_keyed_hash hmac key ''oidc-state'' state_value,
          ol_binding_hash = browser_keyed_hash hmac key ''oidc-browser-binding'' browser_binding,
          ol_hash_key = ''primary'', ol_nonce = nonce,
          ol_verifier = encrypt_code_verifier hmac seal nonce_bytes key transaction_id verifier,
          ol_issuer = oc_issuer config, ol_redirect_uri = callback_uri config, ol_return_to = safe_return_to,
          ol_expires_at = strftime_z expires, ol_consumed_at = None, ol_created_at = strftime_z now\<rparr> db) (\<lambda>db.
        Inr (db, url, browser_binding))))))))"

section \<open>The login transaction is consumed\<close>

definition invalid_login :: py_error where
  "invalid_login = HTTPException 401 ''OIDC login transaction is invalid''"

definition consume_login ::
  "(nat list \<Rightarrow> nat list \<Rightarrow> nat list) \<Rightarrow> nat list \<Rightarrow> oidc_config \<Rightarrow> string \<Rightarrow> string \<Rightarrow> string \<Rightarrow> db \<Rightarrow> db \<times> login_row result" where
  "consume_login hmac key config now_str state_value browser_binding db = transaction db (
     case List.find (\<lambda>t. ol_state_hash t = browser_keyed_hash hmac key ''oidc-state'' state_value \<and>
         ol_binding_hash t = browser_keyed_hash hmac key ''oidc-browser-binding'' browser_binding) (db_logins db) of
       None \<Rightarrow> Inl invalid_login
     | Some t \<Rightarrow>
       if ol_hash_key t \<noteq> ''primary'' \<or> ol_consumed_at t \<noteq> None \<or> ol_expires_at t \<le> now_str
          \<or> ol_issuer t \<noteq> oc_issuer config \<or> ol_redirect_uri t \<noteq> callback_uri config
       then Inl invalid_login
       else Inr (db\<lparr>db_logins := save ol_id (t\<lparr>ol_consumed_at := Some now_str\<rparr>) (db_logins db)\<rparr>, t))"

text \<open>\<open>_record_oidc_failure\<close> in a transaction of its own, before the response \<open>e\<close>.\<close>

definition fail_login :: "string \<Rightarrow> string \<Rightarrow> string \<Rightarrow> audit_outcome \<Rightarrow> string \<Rightarrow> py_error \<Rightarrow> db \<Rightarrow> db \<times> 'a result" where
  "fail_login u now_str reason outcome actor e db =
     (case record_audit_event u now_str
        ((audit_call_of ''oidc_login'')\<lparr>ax_outcome := outcome, ax_actor := Some actor, ax_method := Some ''oidc_session'',
           ax_metadata := [(''reason'', JStr reason)], ax_created_at := Some now_str\<rparr>) db of
        Inl err \<Rightarrow> (db, Inl err)
      | Inr db' \<Rightarrow> (db', Inl e))"

section \<open>Claims\<close>

fun json_truthy :: "json \<Rightarrow> bool" where
  "json_truthy JNull = False"
| "json_truthy (JBool b) = b"
| "json_truthy (JInt i) = (i \<noteq> 0)"
| "json_truthy (JStr s) = (s \<noteq> [])"
| "json_truthy (JList xs) = (xs \<noteq> [])"
| "json_truthy (JObj kvs) = (kvs \<noteq> [])"

record login_identity =
  li_issuer :: string
  li_subject :: string
  li_display_name :: string
  li_email :: "string option"

definition truthy_claim :: "json option \<Rightarrow> bool" where
  "truthy_claim v = (case v of None \<Rightarrow> False | Some j \<Rightarrow> json_truthy j)"

text \<open>\<open>py_str\<close> is \<open>str\<close> on the values that are not texts.\<close>

definition claimed_identity :: "(json \<Rightarrow> string) \<Rightarrow> oidc_config \<Rightarrow> claims \<Rightarrow> login_identity option" where
  "claimed_identity py_str config claims =
     (case (claims ''iss'', claims ''sub'') of
        (Some (JStr issuer), Some (JStr subject)) \<Rightarrow>
          if issuer \<noteq> oc_issuer config \<or> subject = [] \<or> 255 < length subject then None
          else let name = (if truthy_claim (claims ''name'') then the (claims ''name'')
                      else if truthy_claim (claims ''preferred_username'') then the (claims ''preferred_username'')
                      else JStr subject);
                   text = (case name of JStr s \<Rightarrow> s | v \<Rightarrow> py_str v)
               in Some \<lparr>li_issuer = issuer, li_subject = subject, li_display_name = take 255 text,
                    li_email = (case claims ''email'' of Some (JStr e) \<Rightarrow> if e \<noteq> [] then Some (take 320 e) else None | _ \<Rightarrow> None)\<rparr>
      | _ \<Rightarrow> None)"

section \<open>User and session\<close>

datatype login_error = DisabledUser "string option" | Raised py_error

definition raised :: "'a result \<Rightarrow> login_error + 'a" where
  "raised r = (case r of Inl e \<Rightarrow> Inl (Raised e) | Inr x \<Rightarrow> Inr x)"

text \<open>A known identity: its user must exist and not be disabled; the profile columns follow the claims.\<close>

definition refresh_user :: "string \<Rightarrow> login_identity \<Rightarrow> identity_row \<Rightarrow> db \<Rightarrow> login_error + db \<times> user_row \<times> identity_row" where
  "refresh_user now_str li identity db =
     (case fetch us_id (oi_user identity) (db_users db) of
        None \<Rightarrow> Inl (DisabledUser None)
      | Some user \<Rightarrow>
          if us_status user = UserDisabled then Inl (DisabledUser (Some (us_id user)))
          else let identity' = identity\<lparr>oi_display_name := li_display_name li, oi_email := li_email li,
                     oi_updated_at := now_str, oi_last_seen_at := Some now_str\<rparr>;
                   user' = user\<lparr>us_display_name := li_display_name li, us_email := li_email li,
                     us_last_login_at := Some now_str, us_updated_at := now_str\<rparr>
               in Inr (db\<lparr>db_identities := save oi_id identity' (db_identities db),
                         db_users := save us_id user' (db_users db)\<rparr>, user', identity'))"

definition first_login_user :: "string \<Rightarrow> string \<Rightarrow> login_identity \<Rightarrow> user_row" where
  "first_login_user u now_str li =
     \<lparr>us_id = generate_prefixed_id ''usr'' u, us_status = UserPending, us_display_name = li_display_name li,
      us_email = li_email li, us_last_login_at = Some now_str, us_disabled_at = None, us_created_at = now_str,
      us_updated_at = now_str\<rparr>"

definition first_login_identity :: "string \<Rightarrow> string \<Rightarrow> string \<Rightarrow> login_identity \<Rightarrow> identity_row" where
  "first_login_identity u user_id now_str li =
     \<lparr>oi_id = generate_prefixed_id ''oidc'' u, oi_user = user_id, oi_issuer = li_issuer li, oi_subject = li_subject li,
      oi_display_name = li_display_name li, oi_email = li_email li, oi_created_at = now_str, oi_updated_at = now_str,
      oi_last_seen_at = Some now_str\<rparr>"

definition known_identity :: "login_identity \<Rightarrow> db \<Rightarrow> identity_row option" where
  "known_identity li db = fetch (\<lambda>i. (oi_issuer i, oi_subject i)) (li_issuer li, li_subject li) (db_identities db)"

text \<open>
  \<open>seen\<close> is what the first query found.  A failed insert rolls the savepoint back and looks again, for
  another transaction may have committed the same identity since; the number of ids drawn is returned.
\<close>

definition sign_in_user ::
  "(nat \<Rightarrow> string) \<Rightarrow> string \<Rightarrow> login_identity \<Rightarrow> identity_row option \<Rightarrow> db \<Rightarrow>
   login_error + db \<times> user_row \<times> identity_row \<times> nat" where
  "sign_in_user draw now_str li seen db =
     (case seen of
        Some identity \<Rightarrow> andThen (refresh_user now_str li identity db) (\<lambda>(db, user, identity). Inr (db, user, identity, 0))
      | None \<Rightarrow>
          let user = first_login_user (draw 0) now_str li;
              identity = first_login_identity (draw 1) (us_id user) now_str li;
              n = (if fetch us_id (us_id user) (db_users db) = None then 2 else 1)
          in (case andThen (insert_user user db) (insert_identity identity) of
               Inr db' \<Rightarrow> Inr (db', user, identity, n)
             | Inl IntegrityError \<Rightarrow>
                 (case known_identity li db of
                    None \<Rightarrow> Inl (Raised IntegrityError)
                  | Some identity \<Rightarrow> andThen (refresh_user now_str li identity db)
                      (\<lambda>(db, user, identity). Inr (db, user, identity, n)))
             | Inl e \<Rightarrow> Inl (Raised e)))"

definition session_deadlines :: "app_state \<Rightarrow> login_settings \<Rightarrow> nat \<Rightarrow> (string \<times> string) result" where
  "session_deadlines st lg now =
     andThen (add_seconds now (lg_session_hours lg * 3600)) (\<lambda>absolute.
     andThen (add_seconds now (st_idle_minutes st * 60)) (\<lambda>idle.
     Inr (min (strftime_z idle) (strftime_z absolute), strftime_z absolute)))"

definition open_session ::
  "(nat list \<Rightarrow> nat list \<Rightarrow> nat list) \<Rightarrow> nat list \<Rightarrow> (nat \<Rightarrow> string) \<Rightarrow> string \<Rightarrow> string \<times> string \<Rightarrow> string \<Rightarrow> login_identity \<Rightarrow>
   identity_row option \<Rightarrow> db \<Rightarrow> login_error + db \<times> unit" where
  "open_session hmac key draw now_str deadlines raw_token li seen db =
     andThen (sign_in_user draw now_str li seen db) (\<lambda>(db, user, identity, n).
     let s = \<lparr>bs_id = generate_prefixed_id ''sess'' (draw n), bs_user = us_id user, bs_identity = oi_id identity,
           bs_token_hash = browser_keyed_hash hmac key ''session-token'' raw_token, bs_hash_key = ''primary'',
           bs_authenticated_at = now_str, bs_last_seen_at = now_str, bs_idle_expires_at = fst deadlines,
           bs_absolute_expires_at = snd deadlines, bs_revoked_at = None, bs_created_at = now_str, bs_updated_at = now_str\<rparr>
     in andThen (raised (insert_session s db)) (\<lambda>db.
        andThen (raised (record_audit_event (draw (n + 1)) now_str
          ((audit_call_of ''oidc_login'')\<lparr>ax_actor := Some (''user:'' @ us_id user), ax_method := Some ''oidc_session'',
             ax_target_type := Some ''browser_session'', ax_target_id := Some (bs_id s),
             ax_metadata := [(''user_status'', JStr (user_status_value (us_status user)))],
             ax_created_at := Some now_str\<rparr>) db)) (\<lambda>db. Inr (db, ()))))"

section \<open>The callback\<close>

text \<open>The verifier is opened, the code redeemed and the identity token parsed; a caught error gives its name.\<close>

definition exception_name :: "py_error \<Rightarrow> string" where
  "exception_name e = (case e of RuntimeError name \<Rightarrow> name
     | ValueError detail \<Rightarrow> if detail = ''invalid base64'' then ''Error''
         else if detail = ''invalid utf-8'' then ''UnicodeDecodeError'' else ''ValueError''
     | _ \<Rightarrow> ''ValueError'')"

definition redeem_code ::
  "(nat list \<Rightarrow> nat list \<Rightarrow> nat list) \<Rightarrow> (nat list \<Rightarrow> nat list \<Rightarrow> nat list \<Rightarrow> nat list \<Rightarrow> nat list option) \<Rightarrow> oidc_provider \<Rightarrow>
   nat list \<Rightarrow> login_row \<Rightarrow> string \<Rightarrow> string + claims" where
  "redeem_code hmac unseal provider key t code =
     (case decrypt_code_verifier hmac unseal key (ol_id t) (ol_verifier t) of
        Inl e \<Rightarrow> Inl (exception_name e)
      | Inr verifier \<Rightarrow> andThen (op_access_token provider (ol_redirect_uri t) code verifier)
          (\<lambda>token. op_id_token provider token (ol_nonce t)))"

text \<open>
  The third transaction.  \<open>others\<close> is what other transactions commit between its first query and its writes;
  a rollback undoes only its own writes.
\<close>

definition finish_login ::
  "(nat list \<Rightarrow> nat list \<Rightarrow> nat list) \<Rightarrow> app_state \<Rightarrow> login_settings \<Rightarrow> nat list \<Rightarrow> string \<Rightarrow> (nat \<Rightarrow> string) \<Rightarrow> nat \<Rightarrow> (db \<Rightarrow> db) \<Rightarrow>
   login_identity \<Rightarrow> db \<Rightarrow> db \<times> unit result" where
  "finish_login hmac st lg key raw_token draw now others li db =
     (case session_deadlines st lg now of
        Inl e \<Rightarrow> (db, Inl e)
      | Inr deadlines \<Rightarrow>
          let now_str = strftime_z now; seen = known_identity li db; db = others db
          in (case open_session hmac key draw now_str deadlines raw_token li seen db of
               Inr (db', _) \<Rightarrow> (db', Inr ())
             | Inl (Raised e) \<Rightarrow> (db, Inl e)
             | Inl (DisabledUser user) \<Rightarrow>
                 fail_login (draw 2) now_str ''user_disabled'' OutcomeDenied
                   (case user of Some u \<Rightarrow> ''user:'' @ u | None \<Rightarrow> ''oidc:unknown'')
                   (HTTPException 403 ''user is disabled'') db))"

record callback_in =
  cb_state :: "string option"
  cb_code :: "string option"
  cb_error :: "string option"
  cb_cookie :: "string option"

definition complete_oidc_login ::
  "(nat list \<Rightarrow> nat list \<Rightarrow> nat list) \<Rightarrow> (nat list \<Rightarrow> nat list \<Rightarrow> nat list \<Rightarrow> nat list \<Rightarrow> nat list option) \<Rightarrow> (json \<Rightarrow> string) \<Rightarrow>
   oidc_provider \<Rightarrow> app_state \<Rightarrow> login_settings \<Rightarrow> nat list \<Rightarrow> (nat \<Rightarrow> string) \<Rightarrow> nat \<times> nat \<Rightarrow> (db \<Rightarrow> db) \<Rightarrow> callback_in \<Rightarrow> db \<Rightarrow>
   db \<times> (string \<times> string) result" where
  "complete_oidc_login hmac unseal py_str provider st lg raw draw instants others cb db =
     (case oidc_state st lg of
        Inl e \<Rightarrow> (db, Inl e)
      | Inr (config, key) \<Rightarrow>
          if \<not> truthy (cb_state cb) \<or> \<not> truthy (cb_cookie cb) then (db, Inl invalid_login)
          else let now_str = strftime_z (fst instants) in
          (case consume_login hmac key config now_str (the (cb_state cb)) (the (cb_cookie cb)) db of
            (db, Inl e) \<Rightarrow> (db, Inl e)
          | (db, Inr t) \<Rightarrow>
              if truthy (cb_error cb) \<or> \<not> truthy (cb_code cb)
              then fail_login (draw 0) now_str (if truthy (cb_error cb) then ''provider_error'' else ''authorization_code_missing'')
                OutcomeFailure ''oidc:unknown'' (HTTPException 401 ''OIDC authentication was not completed'') db
              else (case redeem_code hmac unseal provider key t (the (cb_code cb)) of
                Inl reason \<Rightarrow> fail_login (draw 0) now_str reason OutcomeFailure ''oidc:unknown''
                  (HTTPException 401 ''OIDC authentication failed'') db
              | Inr claims \<Rightarrow>
                  (case claimed_identity py_str config claims of
                     None \<Rightarrow> fail_login (draw 0) now_str ''invalid_identity_claims'' OutcomeFailure ''oidc:unknown''
                       (HTTPException 401 ''OIDC identity is invalid'') db
                   | Some li \<Rightarrow>
                       let raw_token = generate_browser_secret raw;
                           (db, out) = finish_login hmac st lg key raw_token draw (snd instants) others li db
                       in (db, andThen out (\<lambda>_. Inr (ol_return_to t, raw_token)))))))"

section \<open>The session of a request\<close>

record session_view =
  sv_subject :: string
  sv_display_name :: string
  sv_status :: user_status
  sv_method :: auth_method
  sv_bindings :: "scope_grant list"
  sv_csrf :: "string option"

definition get_auth_session ::
  "(nat list \<Rightarrow> nat list \<Rightarrow> nat list) \<Rightarrow> app_state \<Rightarrow> principal option \<Rightarrow> string option \<Rightarrow> db \<Rightarrow> session_view result" where
  "get_auth_session hmac st q session_token db =
     andThen (current_principal q) (\<lambda>p.
     andThen (case p_user p of
         None \<Rightarrow> Inr UserActive
       | Some u \<Rightarrow> (case fetch us_id u (db_users db) of
            None \<Rightarrow> Inl (HTTPException 401 ''authentication required'')
          | Some user \<Rightarrow> Inr (us_status user))) (\<lambda>status.
     Inr \<lparr>sv_subject = p_subject p, sv_display_name = p_display_name p, sv_status = status, sv_method = p_method p,
       sv_bindings = p_grants p,
       sv_csrf = (case (st_session_key st, session_token) of
         (Some key, Some token) \<Rightarrow> Some (csrf_token hmac key token) | _ \<Rightarrow> None)\<rparr>))"

end
