(* ===== verification/Session_Lifecycle.thy ===== *)
theory Session_Lifecycle
  imports Oidc_Login
begin

text \<open>
  The life of users and browser sessions under every call that can change them: the identity API, the logout
  routes, the OIDC login, the bootstrap command and the middleware that reads the session cookie.
\<close>

section \<open>Events\<close>

record surround =
  sd_hmac :: "nat list \<Rightarrow> nat list \<Rightarrow> nat list"
  sd_seal :: "nat list \<Rightarrow> nat list \<Rightarrow> nat list \<Rightarrow> nat list \<Rightarrow> nat list"
  sd_unseal :: "nat list \<Rightarrow> nat list \<Rightarrow> nat list \<Rightarrow> nat list \<Rightarrow> nat list option"
  sd_bracketed :: "string \<Rightarrow> bool"
  sd_str :: "json \<Rightarrow> string"
  sd_provider :: oidc_provider
  sd_state :: app_state
  sd_settings :: login_settings

datatype identity_event =
    SetStatus principal string user_status
  | BindRole principal string binding_in
  | UnbindRole principal string
  | Logout "principal option"
  | LogoutAll "principal option"
  | Bootstrap string string "string option"
  | BeginLogin "nat list" "nat list" "string option"
  | Callback "nat list" callback_in nat
  | Browse http_request

text \<open>An event happens at \<open>now\<close> with its drawn ids; the callback reads the clock twice.\<close>

type_synonym timed = "(nat \<Rightarrow> string) \<times> nat \<times> identity_event"

fun run_identity_event :: "surround \<Rightarrow> db \<Rightarrow> timed \<Rightarrow> db" where
  "run_identity_event s db (draw, now, SetStatus p raw_id status) = fst (update_user_status draw now p raw_id status db)"
| "run_identity_event s db (draw, now, BindRole p raw_id payload) = fst (create_role_binding draw now p raw_id payload db)"
| "run_identity_event s db (draw, now, UnbindRole p raw_id) = fst (revoke_role_binding draw now p raw_id db)"
| "run_identity_event s db (draw, now, Logout q) = fst (logout_current_session draw now q db)"
| "run_identity_event s db (draw, now, LogoutAll q) = fst (logout_all_sessions draw now q db)"
| "run_identity_event s db (draw, now, Bootstrap issuer subject name) =
     fst (bootstrap_global_admin (sd_bracketed s) draw now issuer subject name db)"
| "run_identity_event s db (draw, now, BeginLogin raw nonce return_to) =
     fst (begin_oidc_login (sd_hmac s) (sd_seal s) (sd_bracketed s) (sd_provider s) (sd_state s) (sd_settings s) raw nonce draw now return_to db)"
| "run_identity_event s db (draw, now, Callback raw cb later) =
     fst (complete_oidc_login (sd_hmac s) (sd_unseal s) (sd_str s) (sd_provider s) (sd_state s) (sd_settings s) raw draw (now, later) id cb db)"
| "run_identity_event s db (draw, now, Browse r) = fst (browser_session_principal (sd_hmac s) (sd_state s) now r db)"

definition run_identity :: "surround \<Rightarrow> timed list \<Rightarrow> db \<Rightarrow> db" where
  "run_identity s events db = foldl (run_identity_event s) db events"

lemma run_identity_invariant:
  assumes step: "\<And>db e. e \<in> set events \<Longrightarrow> P db \<Longrightarrow> P (run_identity_event s db e)" and "P db"
  shows "P (run_identity s events db)"
  using assms unfolding run_identity_def by (induction events arbitrary: db) simp_all

section \<open>What a callback does\<close>

lemma fail_login_effect:
  assumes "fail_login u now_str reason outcome actor e db = (db', res)"
  shows "\<exists>a err. db' = db\<lparr>db_audits := db_audits db @ a\<rparr> \<and> res = Inl err"
proof (cases "record_audit_event u now_str ((audit_call_of ''oidc_login'')\<lparr>ax_outcome := outcome, ax_actor := Some actor,
    ax_method := Some ''oidc_session'', ax_metadata := [(''reason'', JStr reason)], ax_created_at := Some now_str\<rparr>) db")
  case (Inl err)
  then show ?thesis using assms by (intro exI[of _ "[]"]) (auto simp: fail_login_def)
next
  case (Inr db')
  then show ?thesis using record_audit_Inr[OF Inr] assms by (auto simp: fail_login_def)
qed

lemma consume_login_cases:
  assumes "consume_login hmac key config now_str state_value cookie db = (db', Inr t)"
  shows "t \<in> set (db_logins db) \<and> ol_consumed_at t = None \<and>
    ol_state_hash t = browser_keyed_hash hmac key ''oidc-state'' state_value \<and>
    ol_binding_hash t = browser_keyed_hash hmac key ''oidc-browser-binding'' cookie \<and> now_str < ol_expires_at t \<and>
    db' = db\<lparr>db_logins := save ol_id (t\<lparr>ol_consumed_at := Some now_str\<rparr>) (db_logins db)\<rparr>"
  using assms unfolding consume_login_def
  by (auto simp: transaction_Inr not_le split: option.splits if_splits dest: find_eq_Some_first)

lemma consume_login_refused: "consume_login hmac key config now_str state_value cookie db = (db', Inl e) \<Longrightarrow> db' = db \<and> e = invalid_login"
  unfolding consume_login_def by (auto simp: transaction_Inl split: option.splits if_splits)

lemma refresh_user_cases:
  assumes "refresh_user now_str li i db = Inr (db', user', i')"
  obtains user where "fetch us_id (oi_user i) (db_users db) = Some user" "us_status user \<noteq> UserDisabled"
    "us_id user' = us_id user" "us_status user' = us_status user" "oi_id i' = oi_id i" "oi_user i' = oi_user i" "oi_issuer i' = oi_issuer i"
    "db' = db\<lparr>db_identities := save oi_id i' (db_identities db), db_users := save us_id user' (db_users db)\<rparr>" "oi_subject i' = oi_subject i"
  using assms by (auto simp: refresh_user_def Let_def split: option.splits if_splits)

lemma insert_user_Inr: "insert_user u db = Inr db' \<longleftrightarrow> us_id u \<notin> us_id ` set (db_users db) \<and> db' = db\<lparr>db_users := db_users db @ [u]\<rparr>"
  by (auto simp: insert_user_def fetch_None)

lemma insert_identity_Inr:
  "insert_identity i db = Inr db' \<Longrightarrow> oi_id i \<notin> oi_id ` set (db_identities db) \<and> db' = db\<lparr>db_identities := db_identities db @ [i]\<rparr>"
  by (auto simp: insert_identity_def fetch_None split: if_splits)

lemma insert_session_Inr:
  "insert_session x db = Inr db' \<Longrightarrow> bs_token_hash x \<notin> bs_token_hash ` set (db_sessions db) \<and>
     db' = db\<lparr>db_sessions := db_sessions db @ [x]\<rparr>"
  by (auto simp: insert_session_def fetch_None split: if_splits)

text \<open>The user a sign-in returns: brought up to date, or new, pending and without bindings.\<close>

lemma sign_in_cases:
  assumes "sign_in_user draw now_str li seen db = Inr (db', user, i, n)"
  obtains (known) i0 old where "seen = Some i0 \<or> known_identity li db = Some i0" "fetch us_id (oi_user i0) (db_users db) = Some old"
      "us_status old \<noteq> UserDisabled" "us_id user = us_id old" "us_status user = us_status old" "oi_id i = oi_id i0"
      "oi_user i = oi_user i0" "oi_issuer i = oi_issuer i0"
      "db' = db\<lparr>db_identities := save oi_id i (db_identities db), db_users := save us_id user (db_users db)\<rparr>"
      "oi_subject i = oi_subject i0"
    | (new) "seen = None" "us_id user \<notin> us_id ` set (db_users db)" "user = first_login_user (draw 0) now_str li"
      "i = first_login_identity (draw 1) (us_id user) now_str li" "oi_id i \<notin> oi_id ` set (db_identities db)"
      "db' = db\<lparr>db_users := db_users db @ [user], db_identities := db_identities db @ [i]\<rparr>"
proof (cases seen)
  case (Some i0)
  then have "refresh_user now_str li i0 db = Inr (db', user, i)"
    using assms by (auto simp: sign_in_user_def andThen_eq_Inr)
  then show ?thesis by (rule refresh_user_cases) (rule known, use Some in auto)
next
  case None
  let ?u = "first_login_user (draw 0) now_str li"
  let ?i = "first_login_identity (draw 1) (us_id ?u) now_str li"
  show ?thesis
  proof (cases "andThen (insert_user ?u db) (insert_identity ?i)")
    case (Inr db1)
    then have "db' = db1" "user = ?u" "i = ?i" using assms None by (auto simp: sign_in_user_def Let_def)
    moreover obtain db0 where "insert_user ?u db = Inr db0" "insert_identity ?i db0 = Inr db1"
      using Inr by (auto simp: andThen_eq_Inr)
    ultimately show ?thesis using new None insert_user_Inr insert_identity_Inr by fastforce
  next
    case (Inl e)
    then obtain i0 where "known_identity li db = Some i0" "refresh_user now_str li i0 db = Inr (db', user, i)"
      using assms None by (auto simp: sign_in_user_def Let_def andThen_eq_Inr split: py_error.splits option.splits)
    then show ?thesis by (auto elim!: refresh_user_cases intro: known)
  qed
qed

definition new_session ::
  "(nat list \<Rightarrow> nat list \<Rightarrow> nat list) \<Rightarrow> nat list \<Rightarrow> string \<Rightarrow> string \<Rightarrow> string \<times> string \<Rightarrow> string \<Rightarrow> user_row \<Rightarrow> identity_row \<Rightarrow> session_row" where
  "new_session hmac key u now_str deadlines raw_token user i =
     \<lparr>bs_id = generate_prefixed_id ''sess'' u, bs_user = us_id user, bs_identity = oi_id i,
      bs_token_hash = browser_keyed_hash hmac key ''session-token'' raw_token, bs_hash_key = ''primary'',
      bs_authenticated_at = now_str, bs_last_seen_at = now_str, bs_idle_expires_at = fst deadlines,
      bs_absolute_expires_at = snd deadlines, bs_revoked_at = None, bs_created_at = now_str, bs_updated_at = now_str\<rparr>"

lemma raised_Inr [simp]: "raised r = Inr x \<longleftrightarrow> r = Inr x"
  by (auto simp: raised_def split: sum.splits)

lemma open_session_cases:
  assumes "open_session hmac key draw now_str deadlines raw_token li seen db = Inr (db', x)"
  obtains db1 user i n a where "sign_in_user draw now_str li seen db = Inr (db1, user, i, n)"
    "bs_token_hash (new_session hmac key (draw n) now_str deadlines raw_token user i) \<notin> bs_token_hash ` set (db_sessions db1)"
    "db' = db1\<lparr>db_sessions := db_sessions db1 @ [new_session hmac key (draw n) now_str deadlines raw_token user i],
       db_audits := db_audits db1 @ [a]\<rparr>"
proof -
  obtain db1 user i n where s: "sign_in_user draw now_str li seen db = Inr (db1, user, i, n)"
    using assms unfolding open_session_def andThen_eq_Inr by (metis prod_cases4)
  obtain db2 x' where ins: "insert_session (new_session hmac key (draw n) now_str deadlines raw_token user i) db1 = Inr db2"
    and au: "record_audit_event (draw (n + 1)) now_str x' db2 = Inr db'"
    using assms unfolding open_session_def s andThen_Inr prod.case Let_def new_session_def[symmetric] andThen_eq_Inr raised_Inr
    by (elim exE conjE) blast
  have "db' = db1\<lparr>db_sessions := db_sessions db1 @ [new_session hmac key (draw n) now_str deadlines raw_token user i],
       db_audits := db_audits db1 @ [audit_event (draw (n + 1)) now_str x']\<rparr>"
    using record_audit_Inr[OF au] insert_session_Inr[OF ins] by simp
  then show ?thesis using that s insert_session_Inr[OF ins] by blast
qed

lemma finish_login_cases:
  assumes "finish_login hmac st lg key raw_token draw now others li db = (db', res)"
  obtains (failed) e a where "res = Inl e" "db' = db \<or> db' = (others db)\<lparr>db_audits := db_audits (others db) @ a\<rparr>"
    | (opened) deadlines where "session_deadlines st lg now = Inr deadlines" "res = Inr ()"
      "open_session hmac key draw (strftime_z now) deadlines raw_token li (known_identity li db) (others db) = Inr (db', ())"
proof (cases "session_deadlines st lg now")
  case (Inl e)
  then show ?thesis using assms failed[of e] by (auto simp: finish_login_def)
next
  case (Inr deadlines)
  show ?thesis
  proof (cases "open_session hmac key draw (strftime_z now) deadlines raw_token li (known_identity li db) (others db)")
    case (Inr r)
    then have "res = Inr ()" "r = (db', ())" using assms \<open>session_deadlines st lg now = _\<close>
      by (cases r; simp add: finish_login_def Let_def)+
    then show ?thesis using opened[OF \<open>session_deadlines st lg now = _\<close>] Inr by simp
  next
    case (Inl e)
    show ?thesis
    proof (cases e)
      case (Raised e')
      then have "res = Inl e'" "db' = others db" using assms Inl Inr by (simp_all add: finish_login_def Let_def)
      then show ?thesis using failed[of e' "[]"] by simp
    next
      case (DisabledUser u)
      then have "fail_login (draw 2) (strftime_z now) ''user_disabled'' OutcomeDenied
          (case u of Some u \<Rightarrow> ''user:'' @ u | None \<Rightarrow> ''oidc:unknown'') (HTTPException 403 ''user is disabled'') (others db) = (db', res)"
        using assms Inl Inr by (simp add: finish_login_def Let_def)
      then obtain a err where "db' = (others db)\<lparr>db_audits := db_audits (others db) @ a\<rparr>" "res = Inl err"
        using fail_login_effect by blast
      then show ?thesis using failed by blast
    qed
  qed
qed

definition consumed :: "login_row \<Rightarrow> string \<Rightarrow> db \<Rightarrow> db" where
  "consumed t now_str db = db\<lparr>db_logins := save ol_id (t\<lparr>ol_consumed_at := Some now_str\<rparr>) (db_logins db)\<rparr>"

lemma callback_cases:
  assumes "complete_oidc_login hmac unseal py_str provider st lg raw draw instants others cb db = (db', res)"
  obtains (refused) e where "res = Inl e" "db' = db"
    | (failed) config key t e a where "oidc_state st lg = Inr (config, key)"
      "consume_login hmac key config (strftime_z (fst instants)) (the (cb_state cb)) (the (cb_cookie cb)) db = (consumed t (strftime_z (fst instants)) db, Inr t)"
      "res = Inl e"
      "db' = (consumed t (strftime_z (fst instants)) db)\<lparr>db_audits := db_audits db @ a\<rparr> \<or>
       (\<exists>db1. db1 = others (consumed t (strftime_z (fst instants)) db) \<and> db' = db1\<lparr>db_audits := db_audits db1 @ a\<rparr>)"
    | (signed_in) config key t li claims deadlines where "oidc_state st lg = Inr (config, key)"
      "consume_login hmac key config (strftime_z (fst instants)) (the (cb_state cb)) (the (cb_cookie cb)) db = (consumed t (strftime_z (fst instants)) db, Inr t)"
      "claimed_identity py_str config claims = Some li" "session_deadlines st lg (snd instants) = Inr deadlines"
      "open_session hmac key draw (strftime_z (snd instants)) deadlines (generate_browser_secret raw) li
         (known_identity li (consumed t (strftime_z (fst instants)) db)) (others (consumed t (strftime_z (fst instants)) db)) = Inr (db', ())"
      "res = Inr (ol_return_to t, generate_browser_secret raw)" "redeem_code hmac unseal provider key t (the (cb_code cb)) = Inr claims"
proof (cases "oidc_state st lg")
  case (Inl e)
  then show ?thesis using assms refused[of e] by (auto simp: complete_oidc_login_def)
next
  case (Inr ck)
  obtain config key where ck: "ck = (config, key)" by fastforce
  note st = Inr[unfolded ck]
  show ?thesis
  proof (cases "truthy (cb_state cb) \<and> truthy (cb_cookie cb)")
    case False
    then have "res = Inl invalid_login" "db' = db" using assms st by (auto simp: complete_oidc_login_def)
    then show ?thesis by (rule refused)
  next
    case True
    let ?now = "strftime_z (fst instants)"
    let ?consume = "consume_login hmac key config ?now (the (cb_state cb)) (the (cb_cookie cb)) db"
    have adm: "(\<not> truthy (cb_state cb) \<or> \<not> truthy (cb_cookie cb)) = False" using True by simp
    obtain db1 r where c: "?consume = (db1, r)" by fastforce
    note run = assms[unfolded complete_oidc_login_def st sum.case prod.case adm if_False Let_def c]
    show ?thesis
    proof (cases r)
      case (Inl e)
      then have "res = Inl e" "db' = db1" using run by simp_all
      then show ?thesis using refused consume_login_refused[OF c[unfolded Inl]] by simp
    next
      case (Inr t)
      have db1: "db1 = consumed t ?now db" using consume_login_cases[OF c[unfolded Inr]] by (simp add: consumed_def)
      have con: "?consume = (consumed t ?now db, Inr t)" using c Inr db1 by simp
      have audits: "db_audits db1 = db_audits db" by (simp add: db1 consumed_def)
      have fail: thesis if "fail_login u n reason outcome actor e db1 = (db', res)" for u n reason outcome actor e
        using fail_login_effect[OF that] failed[OF st con] audits unfolding db1 by metis
      note run = run[unfolded Inr sum.case]
      show ?thesis
      proof (cases "truthy (cb_error cb) \<or> \<not> truthy (cb_code cb)")
        case True
        then show ?thesis using run fail by simp
      next
        case False
        note run = run[unfolded if_not_P[OF False]]
        show ?thesis
        proof (cases "redeem_code hmac unseal provider key t (the (cb_code cb))")
          case (Inl reason)
          then show ?thesis using run fail by simp
        next
          case (Inr claims)
          note run = run[unfolded Inr sum.case]
          show ?thesis
          proof (cases "claimed_identity py_str config claims")
            case None
            then show ?thesis using run fail by simp
          next
            case (Some li)
            obtain out where fin: "finish_login hmac st lg key (generate_browser_secret raw) draw (snd instants) others li db1 = (db', out)"
              and res: "res = andThen out (\<lambda>_. Inr (ol_return_to t, generate_browser_secret raw))"
              using run Some by (auto split: prod.splits)
            from fin show ?thesis
            proof (cases rule: finish_login_cases)
              case (failed e a)
              then show ?thesis using res that(2)[OF st con, of e "[]"] that(2)[OF st con, of e a]
                by (auto simp: db1 consumed_def)
            next
              case (opened deadlines)
              then show ?thesis using res signed_in[OF st con Some] Inr by (simp add: db1)
            qed
          qed
        qed
      qed
    qed
  qed
qed


section \<open>A user who is shut out\<close>

definition shut_out :: "string \<Rightarrow> db \<Rightarrow> bool" where
  "shut_out uid db \<longleftrightarrow> uid \<in> us_id ` set (db_users db) \<and>
     (\<forall>u\<in>set (db_users db). us_id u = uid \<longrightarrow> us_status u = UserDisabled) \<and>
     (\<forall>s\<in>set (db_sessions db). bs_user s = uid \<longrightarrow> bs_revoked_at s \<noteq> None)"

lemma shut_out_cong:
  "shut_out uid db \<Longrightarrow> db_users db' = db_users db \<Longrightarrow> db_sessions db' = db_sessions db \<Longrightarrow> shut_out uid db'"
  by (simp add: shut_out_def)

lemma shut_out_save_user:
  assumes "shut_out uid db" and "us_id u = uid \<Longrightarrow> us_status u = UserDisabled"
    and "db_users db' = save us_id u (db_users db)" and "db_sessions db' = db_sessions db"
  shows "shut_out uid db'"
proof -
  have "us_id ` set (save us_id u (db_users db)) = us_id ` set (db_users db)"
    by (metis keys_save set_map)
  then show ?thesis using assms by (auto simp: shut_out_def in_set_save)
qed

lemma shut_out_add_user:
  "shut_out uid db \<Longrightarrow> us_id u \<noteq> uid \<Longrightarrow> db_users db' = db_users db @ [u] \<Longrightarrow> db_sessions db' = db_sessions db \<Longrightarrow> shut_out uid db'"
  by (auto simp: shut_out_def)

lemma shut_out_save_session:
  "shut_out uid db \<Longrightarrow> (bs_user s = uid \<Longrightarrow> bs_revoked_at s \<noteq> None) \<Longrightarrow> db_users db' = db_users db \<Longrightarrow>
     db_sessions db' = save bs_id s (db_sessions db) \<Longrightarrow> shut_out uid db'"
  by (auto simp: shut_out_def in_set_save)

lemma shut_out_add_session:
  "shut_out uid db \<Longrightarrow> bs_user s \<noteq> uid \<Longrightarrow> db_users db' = db_users db \<Longrightarrow> db_sessions db' = db_sessions db @ [s] \<Longrightarrow> shut_out uid db'"
  by (auto simp: shut_out_def)

lemma shut_out_end_sessions: "shut_out uid db \<Longrightarrow> shut_out uid (end_sessions now_str user db)"
  by (auto simp: shut_out_def end_sessions_def update_where_def)

lemma shut_out_audited: "shut_out uid db \<Longrightarrow> record_audit_event u now_str x db = Inr db' \<Longrightarrow> shut_out uid db'"
  using record_audit_Inr shut_out_cong by fastforce

lemma shut_out_fetch: "shut_out uid db \<Longrightarrow> fetch us_id k (db_users db) = Some u \<Longrightarrow> us_status u \<noteq> UserDisabled \<Longrightarrow> us_id u \<noteq> uid"
  using fetch_SomeD[of us_id k "db_users db" u] unfolding shut_out_def by blast

text \<open>The one call that lets a disabled user back in.\<close>

fun reactivates :: "string \<Rightarrow> identity_event \<Rightarrow> bool" where
  "reactivates uid (SetStatus p raw_id status) \<longleftrightarrow> strip raw_id = uid \<and> status \<noteq> UserDisabled"
| "reactivates uid _ \<longleftrightarrow> False"

lemma require_permission_same: "require_permission q p = Inr p' \<Longrightarrow> p' = p"
  by (auto simp: require_permission_def split: if_splits)

lemma update_user_status_Inr:
  assumes "update_user_status draw now p raw_id status db = (db', Inr v)"
  obtains user x where "fetch us_id (strip raw_id) (db_users db) = Some user"
    "v = user\<lparr>us_status := status, us_disabled_at := (if status = UserDisabled then Some (strftime_z now) else None),
       us_updated_at := strftime_z now\<rparr>"
    "record_audit_event (draw 0) (strftime_z now) x (let db = db\<lparr>db_users := save us_id v (db_users db)\<rparr> in
       if status = UserDisabled then end_sessions (strftime_z now) (us_id v) db else db) = Inr db'"
proof -
  obtain p' g uid where pre: "require_permission ''identity.manage'' p = Inr p'" "require_global_permission p' ''identity.manage'' = Inr g"
    "normalize_required_string raw_id ''user_id'' = Inr uid"
    using assms unfolding update_user_status_def transaction_Inr andThen_eq_Inr by blast
  note pre = pre[unfolded require_permission_same[OF pre(1)]]
  have uid: "uid = strip raw_id"
    using pre(3) by (auto simp: normalize_required_string_def trim_required_def Let_def split: if_splits)
  note run = assms[unfolded update_user_status_def transaction_Inr pre andThen_Inr Let_def]
  obtain user where u: "fetch us_id uid (db_users db) = Some user"
    using run by (cases "fetch us_id uid (db_users db)") (simp, blast)
  define w where w: "w = user\<lparr>us_status := status,
     us_disabled_at := (if status = UserDisabled then Some (strftime_z now) else None), us_updated_at := strftime_z now\<rparr>"
  let ?db = "if status = UserDisabled then end_sessions (strftime_z now) (us_id w) (db\<lparr>db_users := save us_id w (db_users db)\<rparr>)
       else db\<lparr>db_users := save us_id w (db_users db)\<rparr>"
  note run = run[unfolded u option.case w[symmetric] andThen_eq_Inr]
  obtain d x where au: "record_audit_event (draw 0) (strftime_z now) x ?db = Inr d" and out: "Inr (d, w) = (Inr (db', v) :: (db \<times> user_row) result)"
    using run by blast
  have v: "v = w" and d: "d = db'" using out by simp_all
  show ?thesis
    by (rule that[OF u[unfolded uid]], unfold v Let_def, rule w, rule au[unfolded d])
qed

lemma update_user_status_shut_out:
  assumes "shut_out uid db" and "\<not> (strip raw_id = uid \<and> status \<noteq> UserDisabled)"
  shows "shut_out uid (fst (update_user_status draw now p raw_id status db))"
proof (rule transaction_runs[OF update_user_status_def, of "shut_out uid", OF assms(1)])
  fix db' v
  assume "update_user_status draw now p raw_id status db = (db', Inr v)"
  then obtain user x where u: "fetch us_id (strip raw_id) (db_users db) = Some user"
    and v: "v = user\<lparr>us_status := status, us_disabled_at := (if status = UserDisabled then Some (strftime_z now) else None),
       us_updated_at := strftime_z now\<rparr>"
    and au: "record_audit_event (draw 0) (strftime_z now) x (let db = db\<lparr>db_users := save us_id v (db_users db)\<rparr> in
       if status = UserDisabled then end_sessions (strftime_z now) (us_id v) db else db) = Inr db'"
    by (rule update_user_status_Inr)
  have "us_id v = strip raw_id" using fetch_SomeD[OF u] by (simp add: v)
  then have "us_id v = uid \<Longrightarrow> us_status v = UserDisabled" using assms(2) by (auto simp: v)
  then have "shut_out uid (db\<lparr>db_users := save us_id v (db_users db)\<rparr>)" by (intro shut_out_save_user[OF assms(1)]) simp_all
  then have "shut_out uid (let db = db\<lparr>db_users := save us_id v (db_users db)\<rparr> in
      if status = UserDisabled then end_sessions (strftime_z now) (us_id v) db else db)"
    using shut_out_end_sessions by (simp add: Let_def)
  then show "shut_out uid db'" using au by (rule shut_out_audited)
qed

lemma create_role_binding_frame:
  assumes "create_role_binding draw now p raw_id payload db = (db', Inr v)"
  shows "db_users db' = db_users db \<and> db_sessions db' = db_sessions db \<and> db_logins db' = db_logins db"
proof -
  obtain uid key where pre: "require_permission ''identity.manage'' p = Inr p" "ensure (binding_in_valid payload) (unprocessable ''request validation'') = Inr ()"
      "require_global_permission p ''identity.manage'' = Inr ()" "normalize_required_string raw_id ''user_id'' = Inr uid"
      "normalize_required_string (bn_role_key payload) ''role_key'' = Inr key"
    using assms unfolding create_role_binding_def transaction_Inr andThen_eq_Inr
    by (elim exE conjE) (auto simp: require_permission_def split: if_splits)
  note run = assms[unfolded create_role_binding_def transaction_Inr pre andThen_Inr Let_def on_integrity_error_Inr]
  obtain user where user: "fetch us_id uid (db_users db) = Some user"
    using run by (cases "fetch us_id uid (db_users db)") simp_all
  obtain role where role: "fetch ro_key (lower key) (db_roles db) = Some role"
    using run by (cases "fetch ro_key (lower key) (db_roles db)") (simp_all add: user)
  obtain b db1 x where ins: "insert_binding b db = Inr db1" and au: "record_audit_event (draw 1) (strftime_z now) x db1 = Inr db'"
    using run unfolding user role option.case andThen_eq_Inr prod.case_eq_if by (elim exE conjE) blast
  have "db_users db1 = db_users db" "db_sessions db1 = db_sessions db" "db_logins db1 = db_logins db"
    using ins by (auto simp: insert_binding_def split: if_splits)
  then show ?thesis using record_audit_Inr[OF au] by simp
qed

lemma revoke_role_binding_effect:
  assumes "revoke_role_binding draw now p raw_id db = (db', Inr v)"
  shows "db' = db \<or> (\<exists>b k a. binding_with_role (strip raw_id) db = Some (b, k) \<and> bi_revoked_at b = None \<and>
     db' = (end_sessions (strftime_z now) (bi_user b) (db\<lparr>db_bindings := save bi_id (b\<lparr>bi_revoked_at := Some (strftime_z now)\<rparr>) (db_bindings db)\<rparr>))
       \<lparr>db_audits := db_audits db @ [a]\<rparr>)"
proof -
  obtain p' g bid where pre: "require_permission ''identity.manage'' p = Inr p'" "require_global_permission p' ''identity.manage'' = Inr g"
    "normalize_required_string raw_id ''binding_id'' = Inr bid"
    using assms unfolding revoke_role_binding_def transaction_Inr andThen_eq_Inr by blast
  note pre = pre[unfolded require_permission_same[OF pre(1)]]
  have bid: "bid = strip raw_id"
    using pre(3) by (auto simp: normalize_required_string_def trim_required_def Let_def split: if_splits)
  obtain b k where b: "binding_with_role bid db = Some (b, k)"
    using assms by (cases "binding_with_role bid db") (auto simp: revoke_role_binding_def pre transaction_Inr)
  show ?thesis
  proof (cases "bi_revoked_at b = None")
    case True
    obtain x where "record_audit_event (draw 0) (strftime_z now) x (end_sessions (strftime_z now) (bi_user b)
        (db\<lparr>db_bindings := save bi_id (b\<lparr>bi_revoked_at := Some (strftime_z now)\<rparr>) (db_bindings db)\<rparr>)) = Inr db'"
      using assms True unfolding revoke_role_binding_def pre andThen_Inr Let_def b option.case prod.case transaction_Inr
      by (auto simp: andThen_eq_Inr)
    from record_audit_Inr[OF this] show ?thesis using b bid True by (auto simp: end_sessions_def)
  next
    case False
    then show ?thesis using assms by (auto simp: revoke_role_binding_def pre Let_def b transaction_Inr)
  qed
qed

lemma logout_effect:
  assumes "logout_current_session draw now q db = (db', Inr v)"
  shows "\<exists>a. db' = db\<lparr>db_audits := a\<rparr> \<or>
    (\<exists>s. bs_revoked_at s \<noteq> None \<and> db' = db\<lparr>db_sessions := save bs_id s (db_sessions db), db_audits := a\<rparr>)"
proof -
  obtain p sid where p: "current_principal q = Inr p" "(if p_method p \<noteq> OidcSession then None else p_session p) = Some sid"
    using assms unfolding logout_current_session_def transaction_Inr andThen_eq_Inr
    by (elim exE conjE) (auto split: option.splits)
  let ?db = "case fetch bs_id sid (db_sessions db) of
      Some s \<Rightarrow> if bs_revoked_at s = None
        then db\<lparr>db_sessions := save bs_id (s\<lparr>bs_revoked_at := Some (strftime_z now), bs_updated_at := strftime_z now\<rparr>) (db_sessions db)\<rparr>
        else db | None \<Rightarrow> db"
  obtain x where "record_audit_event (draw 0) (strftime_z now) x ?db = Inr db'"
    using assms unfolding logout_current_session_def p andThen_Inr option.case Let_def transaction_Inr andThen_eq_Inr by blast
  note au = record_audit_Inr[OF this]
  show ?thesis
  proof (cases "fetch bs_id sid (db_sessions db)")
    case (Some s)
    then show ?thesis using au
      by (cases "bs_revoked_at s = None") (auto intro!: exI[of _ "s\<lparr>bs_revoked_at := Some (strftime_z now), bs_updated_at := strftime_z now\<rparr>"])
  qed (use au in auto)
qed

lemma logout_all_effect:
  assumes "logout_all_sessions draw now q db = (db', Inr v)"
  shows "\<exists>p uid a. q = Some p \<and> p_user p = Some uid \<and> db' = (end_sessions (strftime_z now) uid db)\<lparr>db_audits := a\<rparr>"
proof -
  obtain p uid where p: "current_principal q = Inr p" "(if p_method p \<noteq> OidcSession then None else p_user p) = Some uid"
    using assms unfolding logout_all_sessions_def transaction_Inr andThen_eq_Inr
    by (elim exE conjE) (auto split: option.splits)
  obtain x where "record_audit_event (draw 0) (strftime_z now) x (end_sessions (strftime_z now) uid db) = Inr db'"
    using assms unfolding logout_all_sessions_def p andThen_Inr option.case Let_def transaction_Inr andThen_eq_Inr by blast
  then show ?thesis
    using p record_audit_Inr by (fastforce simp: current_principal_def split: option.splits if_splits)
qed


lemma bootstrap_effect:
  assumes "bootstrap_global_admin bracketed_ok draw now issuer subject display_name db = (db', Inr v)"
  obtains (new) u i b a where "us_id u \<notin> us_id ` set (db_users db)" "us_status u = UserActive"
      "db' = db\<lparr>db_users := db_users db @ [u], db_identities := db_identities db @ [i], db_bindings := db_bindings db @ [b], db_audits := db_audits db @ [a]\<rparr>"
      "bi_user b = us_id u"
    | (known) old u i b a where "old \<in> set (db_users db)" "us_status old \<noteq> UserDisabled" "us_id u = us_id old" "us_status u = UserActive"
      "db' = db\<lparr>db_users := save us_id u (db_users db), db_identities := save oi_id i (db_identities db),
         db_bindings := db_bindings db @ [b], db_audits := db_audits db @ [a]\<rparr>" "bi_user b = us_id u"
proof -
  obtain name where args: "bootstrap_arguments bracketed_ok issuer subject display_name = Inr name"
    using assms unfolding bootstrap_global_admin_def transaction_Inr andThen_eq_Inr by blast
  note run = assms[unfolded bootstrap_global_admin_def transaction_Inr args andThen_Inr Let_def]
  obtain role where role: "fetch ro_key ''admin'' (db_roles db) = Some role"
    using run by (cases "fetch ro_key ''admin'' (db_roles db)") (simp, blast)
  have none: "(List.find (active_global_binding (ro_id role)) (db_bindings db) \<noteq> None) = False"
    using run unfolding role option.case by (simp split: if_splits)
  note run = run[unfolded role option.case none if_False]
  obtain r where r: "bootstrap_identity draw (strftime_z now) issuer subject name db = Inr r"
    using run unfolding andThen_eq_Inr by blast
  obtain db1 user i n where split: "r = (db1, user, i, n)" by (cases r)
  note ident = r[unfolded split] and run = run[unfolded r split andThen_Inr prod.case]
  define b where "b = \<lparr>bi_id = generate_prefixed_id ''urb'' (draw n), bi_user = us_id user, bi_role = ro_id role,
    bi_scope = GlobalScope, bi_client = None, bi_location = None, bi_created_by = ''bootstrap:local-cli'',
    bi_created_at = strftime_z now, bi_revoked_at = None\<rparr>"
  note run = run[folded b_def, unfolded andThen_eq_Inr]
  have b: "bi_user b = us_id user" by (simp add: b_def)
  obtain db2 d x where ins: "insert_binding b db1 = Inr db2" and au: "record_audit_event (draw (n + 1)) (strftime_z now) x db2 = Inr d"
    and out: "(Inr (d, user, i, b) :: (db \<times> user_row \<times> identity_row \<times> binding_row) result) = Inr (db', v)"
    using run by blast
  note au = au[unfolded conjunct1[OF out[unfolded sum.inject prod.inject]]]
  have db': "db' = db1\<lparr>db_bindings := db_bindings db1 @ [b], db_audits := db_audits db1 @ [audit_event (draw (n + 1)) (strftime_z now) x]\<rparr>"
    using ins record_audit_Inr[OF au] by (auto simp: insert_binding_def split: if_splits)
  show thesis
  proof (cases "fetch (\<lambda>i. (oi_issuer i, oi_subject i)) (issuer, subject) (db_identities db)")
    case None
    define U where "U = \<lparr>us_id = generate_prefixed_id ''usr'' (draw 0), us_status = UserActive, us_display_name = name,
      us_email = None, us_last_login_at = None, us_disabled_at = None, us_created_at = strftime_z now, us_updated_at = strftime_z now\<rparr>"
    define I where "I = \<lparr>oi_id = generate_prefixed_id ''oidc'' (draw 1), oi_user = us_id U, oi_issuer = issuer, oi_subject = subject,
      oi_display_name = name, oi_email = None, oi_created_at = strftime_z now, oi_updated_at = strftime_z now, oi_last_seen_at = None\<rparr>"
    obtain db0 x where ins: "insert_user U db = Inr db0" "insert_identity I db0 = Inr x"
      and "(x, U, I, 2) = (db1, user, i, n)"
      using ident[unfolded bootstrap_identity_def None option.case Let_def, folded U_def, folded I_def, unfolded andThen_eq_Inr sum.inject] by blast
    then have eq: "U = user" "I = i" "x = db1" by simp_all
    note ins = ins[unfolded eq]
    have st: "us_status user = UserActive" unfolding eq(1)[symmetric] by (simp add: U_def)
    have "db0 = db\<lparr>db_users := db_users db @ [user]\<rparr>" "us_id user \<notin> us_id ` set (db_users db)"
      "db1 = db0\<lparr>db_identities := db_identities db0 @ [i]\<rparr>"
      using ins(1) insert_identity_Inr[OF ins(2)] by (simp_all add: insert_user_Inr)
    then show thesis by (intro new[where i = i, OF _ st _ b]) (simp_all add: db')
  next
    case (Some i0)
    obtain old where old: "fetch us_id (oi_user i0) (db_users db) = Some old"
      using ident by (cases "fetch us_id (oi_user i0) (db_users db)") (simp_all add: bootstrap_identity_def Some)
    have mem: "old \<in> set (db_users db)" using fetch_SomeD[OF old] by simp
    note ident = ident[unfolded bootstrap_identity_def Some option.case old Let_def]
    have st: "us_status old \<noteq> UserDisabled" using ident by (simp split: if_splits)
    note ident = ident[unfolded if_not_P[OF st] sum.inject prod.inject]
    have "us_id user = us_id old" "us_status user = UserActive" using ident by auto
    moreover have "db1 = db\<lparr>db_users := save us_id user (db_users db), db_identities := save oi_id i (db_identities db)\<rparr>"
      using ident by metis
    ultimately show thesis by (intro known[where i = i, OF mem st _ _ _ b]) (simp_all add: db')
  qed
qed

lemma begin_login_effect:
  assumes "begin_oidc_login hmac seal bracketed_ok provider st lg raw nonce draw now return_to db = (db', Inr v)"
  obtains t where "ol_id t \<notin> ol_id ` set (db_logins db)" "ol_state_hash t \<notin> ol_state_hash ` set (db_logins db)" "ol_binding_hash t \<notin> ol_binding_hash ` set (db_logins db)"
    "db' = db\<lparr>db_logins := db_logins db @ [t]\<rparr>"
proof -
  have "\<exists>t. insert_login t db = Inr db'"
    using assms unfolding begin_oidc_login_def by (auto simp: transaction_Inr andThen_eq_Inr Let_def split: prod.splits)
  then show ?thesis using that by (auto simp: insert_login_def fetch_None split: if_splits)
qed

text \<open>A request with a session cookie touches a live session only.\<close>

lemma browse_cases:
  assumes "browser_session_principal hmac st now r db = (db', Inr (Some (p, token)))"
  obtains s user where "s \<in> set (db_sessions db)" "bs_revoked_at s = None" "fetch us_id (bs_user s) (db_users db) = Some user"
    "us_status user \<noteq> UserDisabled" "p_user p = Some (bs_user s)"
    "p_grants p = (if us_status user = UserActive then load_user_grants db (bs_user s) else [])"
    "\<exists>s'. bs_user s' = bs_user s \<and> bs_revoked_at s' = None \<and> db' = db\<lparr>db_sessions := save bs_id s' (db_sessions db)\<rparr>"
proof -
  obtain raw key where rk: "h_cookie r session_cookie_name = Some raw" "st_session_key st = Some key"
    using assms by (auto simp: browser_session_principal_def split: option.splits)
  have raw: "raw \<noteq> []" using assms by (auto simp: browser_session_principal_def rk)
  note run = assms[unfolded browser_session_principal_def rk option.case prod.case if_not_P[OF raw] Let_def transaction_Inr]
  obtain s where s: "fetch bs_token_hash (browser_keyed_hash hmac key ''session-token'' raw) (db_sessions db) = Some s"
    using run by (cases "fetch bs_token_hash (browser_keyed_hash hmac key ''session-token'' raw) (db_sessions db)") simp_all
  obtain user where u: "fetch us_id (bs_user s) (db_users db) = Some user"
    using run by (cases "fetch us_id (bs_user s) (db_users db)") (simp_all add: s split: if_splits)
  obtain i where i: "fetch oi_id (bs_identity s) (db_identities db) = Some i"
    using run by (cases "fetch oi_id (bs_identity s) (db_identities db)") (simp_all add: s u split: if_splits)
  have id: "us_id user = bs_user s" and mem: "s \<in> set (db_sessions db)" using fetch_SomeD[OF u] fetch_SomeD[OF s] by simp_all
  obtain idle where live: "bs_revoked_at s = None" "us_status user \<noteq> UserDisabled"
    and out: "p_user p = Some (us_id user)" "p_grants p = (if us_status user = UserActive then load_user_grants db (us_id user) else [])"
      "db' = db\<lparr>db_sessions := save bs_id (s\<lparr>bs_last_seen_at := strftime_z now,
         bs_idle_expires_at := min (strftime_z idle) (bs_absolute_expires_at s), bs_updated_at := strftime_z now\<rparr>) (db_sessions db)\<rparr>"
    using run by (auto simp: s u i andThen_eq_Inr split: if_splits)
  let ?s = "s\<lparr>bs_last_seen_at := strftime_z now,
         bs_idle_expires_at := min (strftime_z idle) (bs_absolute_expires_at s), bs_updated_at := strftime_z now\<rparr>"
  have "bs_user ?s = bs_user s \<and> bs_revoked_at ?s = None \<and> db' = db\<lparr>db_sessions := save bs_id ?s (db_sessions db)\<rparr>"
    using live(1) out(3) by simp
  then show ?thesis using that[OF mem live(1) u live(2) out(1,2)[unfolded id]] by blast
qed

lemma browse_effect:
  "fst (browser_session_principal hmac st now r db) = db \<or>
   (\<exists>p token. browser_session_principal hmac st now r db = (fst (browser_session_principal hmac st now r db), Inr (Some (p, token))))"
proof -
  obtain db' res where run: "browser_session_principal hmac st now r db = (db', res)" by fastforce
  show ?thesis
  proof (cases "\<exists>x. res = Inr (Some x)")
    case True
    then show ?thesis using run by auto
  next
    case False
    then have "db' = db"
      using run unfolding browser_session_principal_def
      by (auto simp: transaction_def Let_def andThen_eq_Inr andThen_eq_Inl split: option.splits if_splits sum.splits)
    then show ?thesis by (simp add: run)
  qed
qed


lemma open_session_shut_out:
  assumes ok: "shut_out uid db" and seen: "seen = known_identity li db"
    and run: "open_session hmac key draw now_str deadlines raw_token li seen db = Inr (db', x)"
  shows "shut_out uid db'"
  using run
proof (cases rule: open_session_cases)
  case (1 db1 user i n a)
  have "shut_out uid db1 \<and> us_id user \<noteq> uid"
    using 1(1)
  proof (cases rule: sign_in_cases)
    case (known i0 old)
    have other: "us_id user \<noteq> uid" using shut_out_fetch[OF ok known(2,3)] known(4) by simp
    have "db_users db1 = save us_id user (db_users db)" "db_sessions db1 = db_sessions db" by (simp_all add: known(9))
    with other show ?thesis using shut_out_save_user[OF ok, of user db1] by blast
  next
    case new
    have other: "us_id user \<noteq> uid" using new(2) ok unfolding shut_out_def by blast
    have "db_users db1 = db_users db @ [user]" "db_sessions db1 = db_sessions db" by (simp_all add: new(6))
    with other show ?thesis using shut_out_add_user[OF ok other] by blast
  qed
  moreover have "bs_user (new_session hmac key (draw n) now_str deadlines raw_token user i) = us_id user" by (simp add: new_session_def)
  moreover have "db_users db' = db_users db1"
      "db_sessions db' = db_sessions db1 @ [new_session hmac key (draw n) now_str deadlines raw_token user i]"
    by (simp_all add: 1(3))
  ultimately show ?thesis using shut_out_add_session by metis
qed

lemma callback_shut_out:
  assumes ok: "shut_out uid db"
  shows "shut_out uid (fst (complete_oidc_login hmac unseal py_str provider st lg raw draw instants id cb db))"
proof -
  obtain db' res where run: "complete_oidc_login hmac unseal py_str provider st lg raw draw instants id cb db = (db', res)" by fastforce
  have spent: "shut_out uid (consumed t n db)" for t n by (rule shut_out_cong[OF ok]) (simp_all add: consumed_def)
  from run have "shut_out uid db'"
  proof (cases rule: callback_cases)
    case (failed config key t e a)
    then show ?thesis using shut_out_cong[OF spent] by auto
  next
    case (signed_in config key t li claims deadlines)
    show ?thesis by (rule open_session_shut_out[OF spent refl signed_in(5)[unfolded id_apply]])
  qed (use ok in simp)
  then show ?thesis by (simp add: run)
qed

lemma browse_shut_out:
  assumes ok: "shut_out uid db"
  shows "shut_out uid (fst (browser_session_principal hmac st now r db))"
proof -
  let ?db = "fst (browser_session_principal hmac st now r db)"
  from browse_effect[of hmac st now r db] show ?thesis
  proof (elim disjE exE)
    fix p token
    assume "browser_session_principal hmac st now r db = (?db, Inr (Some (p, token)))"
    then obtain s where s: "s \<in> set (db_sessions db)" "bs_revoked_at s = None"
      and out: "\<exists>s'. bs_user s' = bs_user s \<and> bs_revoked_at s' = None \<and> ?db = db\<lparr>db_sessions := save bs_id s' (db_sessions db)\<rparr>"
      by (rule browse_cases)
    have "bs_user s \<noteq> uid" using ok s by (auto simp: shut_out_def)
    moreover obtain s' where "bs_user s' = bs_user s" "?db = db\<lparr>db_sessions := save bs_id s' (db_sessions db)\<rparr>" using out by blast
    moreover have "db_users (db\<lparr>db_sessions := l\<rparr>) = db_users db" "db_sessions (db\<lparr>db_sessions := l\<rparr>) = l" for l by simp_all
    ultimately show ?thesis using shut_out_save_session[OF ok, of s'] by metis
  qed (use ok in simp)
qed

lemma event_shut_out:
  assumes ok: "shut_out uid db" and e: "\<not> reactivates uid (snd (snd e))"
  shows "shut_out uid (run_identity_event s db e)"
proof -
  obtain draw now ev where split: "e = (draw, now, ev)" by (cases e)
  have audited: "shut_out uid (db1\<lparr>db_audits := a\<rparr>)" if "shut_out uid db1" for db1 a by (rule shut_out_cong[OF that]) simp_all
  show ?thesis
  proof (cases ev)
    case (SetStatus p raw_id status)
    then show ?thesis using update_user_status_shut_out[OF ok, of raw_id status] e split by simp
  next
    case (BindRole p raw_id payload)
    show ?thesis unfolding split BindRole run_identity_event.simps
      by (rule transaction_runs[OF create_role_binding_def, of "shut_out uid", OF ok])
        (metis create_role_binding_frame shut_out_cong[OF ok])
  next
    case (UnbindRole p raw_id)
    show ?thesis unfolding split UnbindRole run_identity_event.simps
    proof (rule transaction_runs[OF revoke_role_binding_def, of "shut_out uid", OF ok])
      fix db' x
      assume "revoke_role_binding draw now p raw_id db = (db', Inr x)"
      from revoke_role_binding_effect[OF this] show "shut_out uid db'"
        using ok by (auto intro!: audited shut_out_end_sessions intro: shut_out_cong)
    qed
  next
    case (Logout q)
    show ?thesis unfolding split Logout run_identity_event.simps
    proof (rule transaction_runs[OF logout_current_session_def, of "shut_out uid", OF ok])
      fix db' x
      assume "logout_current_session draw now q db = (db', Inr x)"
      from logout_effect[OF this] show "shut_out uid db'"
        using ok by (auto intro: audited shut_out_save_session)
    qed
  next
    case (LogoutAll q)
    show ?thesis unfolding split LogoutAll run_identity_event.simps
    proof (rule transaction_runs[OF logout_all_sessions_def, of "shut_out uid", OF ok])
      fix db' x
      assume "logout_all_sessions draw now q db = (db', Inr x)"
      from logout_all_effect[OF this] show "shut_out uid db'"
        using ok by (auto intro!: audited shut_out_end_sessions)
    qed
  next
    case (Bootstrap issuer subject name)
    show ?thesis unfolding split Bootstrap run_identity_event.simps
    proof (rule transaction_runs[OF bootstrap_global_admin_def, of "shut_out uid", OF ok])
      fix db' x
      assume "bootstrap_global_admin (sd_bracketed s) draw now issuer subject name db = (db', Inr x)"
      then show "shut_out uid db'"
      proof (cases rule: bootstrap_effect)
        case (new u i b a)
        have "us_id u \<noteq> uid" using new(1) ok by (auto simp: shut_out_def)
        then show ?thesis by (rule shut_out_add_user[OF ok]) (simp_all add: new(3))
      next
        case (known old u i b a)
        have "us_id u \<noteq> uid" using known(1-3) ok by (auto simp: shut_out_def)
        then show ?thesis by (intro shut_out_save_user[OF ok, of u]) (simp_all add: known(5))
      qed
    qed
  next
    case (BeginLogin raw nonce return_to)
    show ?thesis unfolding split BeginLogin run_identity_event.simps
      by (rule transaction_runs[OF begin_oidc_login_def, of "shut_out uid", OF ok])
        (auto elim!: begin_login_effect intro: shut_out_cong[OF ok])
  next
    case (Callback raw cb later)
    show ?thesis unfolding split Callback run_identity_event.simps by (rule callback_shut_out[OF ok])
  next
    case (Browse r)
    show ?thesis unfolding split Browse run_identity_event.simps by (rule browse_shut_out[OF ok])
  qed
qed

lemma filter_update_others:
  "(\<And>x. P x \<Longrightarrow> \<not> Q x \<and> \<not> Q (f x)) \<Longrightarrow> filter Q (update_where P f xs) = filter Q xs"
  unfolding update_where_def by (induction xs) auto

text \<open>What disabling a user does to the tables the session cookie is checked against.\<close>

lemma disable_user_effect:
  assumes "update_user_status draw now p raw_id UserDisabled db = (db', Inr v)"
  shows "db_users db' = save us_id v (db_users db) \<and> us_status v = UserDisabled \<and> us_id v \<in> us_id ` set (db_users db) \<and>
    db_sessions db' = update_where (\<lambda>s. bs_user s = us_id v \<and> bs_revoked_at s = None)
      (\<lambda>s. s\<lparr>bs_revoked_at := Some (strftime_z now), bs_updated_at := strftime_z now\<rparr>) (db_sessions db)"
proof -
  obtain user x where u: "fetch us_id (strip raw_id) (db_users db) = Some user"
    and v: "v = user\<lparr>us_status := UserDisabled, us_disabled_at := (if UserDisabled = UserDisabled then Some (strftime_z now) else None),
       us_updated_at := strftime_z now\<rparr>"
    and au: "record_audit_event (draw 0) (strftime_z now) x (let db = db\<lparr>db_users := save us_id v (db_users db)\<rparr> in
       if UserDisabled = UserDisabled then end_sessions (strftime_z now) (us_id v) db else db) = Inr db'"
    using assms by (rule update_user_status_Inr)
  have "us_id v = us_id user" by (simp add: v)
  then have "us_id v \<in> us_id ` set (db_users db)" using fetch_SomeD[OF u] by (metis image_eqI)
  then show ?thesis
    using record_audit_Inr[OF au] by (simp add: end_sessions_def Let_def) (simp add: v)
qed

lemma disabled_shut_out:
  assumes "update_user_status draw now p raw_id UserDisabled db = (db', Inr v)"
  shows "shut_out (us_id v) db'"
  using disable_user_effect[OF assms] by (auto simp: shut_out_def update_where_def in_set_save)

lemma shut_out_refused:
  assumes "shut_out uid db" and "browser_session_principal hmac st now r db = (db', Inr (Some (q, token)))"
  shows "p_user q \<noteq> Some uid"
  using assms(2) by (rule browse_cases) (use assms(1) in \<open>auto simp: shut_out_def\<close>)

text \<open>
  C23.  Disabling a user locks them out completely: in the same transaction every session of the user that was
  live is ended at that time and none stays live, the sessions of the other users are as they were, and
  however the identity API, the login, the bootstrap command and the session cookie are used afterwards, no
  request authenticates as that user until an administrator sets another status.
\<close>

theorem disabled_user_stays_out:
  assumes run: "update_user_status draw now p raw_id UserDisabled db = (db', Inr v)"
    and quiet: "\<forall>e\<in>set events. \<not> reactivates (us_id v) (snd (snd e))"
    and auth: "browser_session_principal hmac st later r (run_identity sur events db') = (db'', Inr (Some (q, token)))"
  shows "p_user q \<noteq> Some (us_id v) \<and>
    map bs_id (db_sessions db') = map bs_id (db_sessions db) \<and>
    (\<forall>s\<in>set (db_sessions db'). bs_user s = us_id v \<longrightarrow> bs_revoked_at s \<noteq> None) \<and>
    (\<forall>s\<in>set (db_sessions db). bs_user s = us_id v \<and> bs_revoked_at s = None \<longrightarrow>
      s\<lparr>bs_revoked_at := Some (strftime_z now), bs_updated_at := strftime_z now\<rparr> \<in> set (db_sessions db')) \<and>
    filter (\<lambda>s. bs_user s \<noteq> us_id v) (db_sessions db') = filter (\<lambda>s. bs_user s \<noteq> us_id v) (db_sessions db)"
proof -
  note out = disabled_shut_out[OF run]
  have "shut_out (us_id v) (run_identity sur events db')"
    by (intro run_identity_invariant[of events "shut_out (us_id v)"]) (use out quiet event_shut_out in blast)+
  then have "p_user q \<noteq> Some (us_id v)" using auth by (rule shut_out_refused)
  moreover have eff: "db_sessions db' = update_where (\<lambda>s. bs_user s = us_id v \<and> bs_revoked_at s = None)
      (\<lambda>s. s\<lparr>bs_revoked_at := Some (strftime_z now), bs_updated_at := strftime_z now\<rparr>) (db_sessions db)"
    using disable_user_effect[OF run] by blast
  moreover have "filter (\<lambda>s. bs_user s \<noteq> us_id v) (db_sessions db') = filter (\<lambda>s. bs_user s \<noteq> us_id v) (db_sessions db)"
    unfolding eff by (rule filter_update_others) simp
  moreover from eff have "map bs_id (db_sessions db') = map bs_id (db_sessions db)"
    "\<forall>s\<in>set (db_sessions db). bs_user s = us_id v \<and> bs_revoked_at s = None \<longrightarrow>
      s\<lparr>bs_revoked_at := Some (strftime_z now), bs_updated_at := strftime_z now\<rparr> \<in> set (db_sessions db')"
    by (auto simp: update_where_def)
  ultimately show ?thesis using out by (auto simp: shut_out_def)
qed

section \<open>A login transaction serves one callback\<close>

text \<open>What any event leaves of the login transactions: all of them, one more, or one of them consumed.\<close>

definition logins_step :: "login_row list \<Rightarrow> login_row list \<Rightarrow> bool" where
  "logins_step ls ls' \<longleftrightarrow> ls' = ls \<or>
     (\<exists>t. ol_id t \<notin> ol_id ` set ls \<and> ol_state_hash t \<notin> ol_state_hash ` set ls \<and> ls' = ls @ [t]) \<or>
     (\<exists>t n. t \<in> set ls \<and> ls' = save ol_id (t\<lparr>ol_consumed_at := Some n\<rparr>) ls)"

lemma logins_step_refl [intro]: "ls' = ls \<Longrightarrow> logins_step ls ls'"
  by (simp add: logins_step_def)

lemma sign_in_logins: "sign_in_user draw now_str li seen db = Inr (db', user, i, n) \<Longrightarrow> db_logins db' = db_logins db"
  by (erule sign_in_cases) simp_all

lemma open_session_logins: "open_session hmac key draw now_str deadlines raw_token li seen db = Inr (db', x) \<Longrightarrow> db_logins db' = db_logins db"
  by (erule open_session_cases) (use sign_in_logins in simp)

lemma consumed_logins: "t \<in> set (db_logins db) \<Longrightarrow> logins_step (db_logins db) (db_logins (consumed t n db))"
  by (auto simp: logins_step_def consumed_def)

lemma callback_logins:
  "logins_step (db_logins db)
     (db_logins (fst (complete_oidc_login hmac unseal py_str provider st lg raw draw instants id cb db)))"
proof -
  obtain db' res where run: "complete_oidc_login hmac unseal py_str provider st lg raw draw instants id cb db = (db', res)" by fastforce
  from run have "logins_step (db_logins db) (db_logins db')"
  proof (cases rule: callback_cases)
    case (failed config key t e a)
    have "db_logins db' = db_logins (consumed t (strftime_z (fst instants)) db)" using failed(4) by auto
    then show ?thesis using consumed_logins[OF conjunct1[OF consume_login_cases[OF failed(2)]]] by metis
  next
    case (signed_in config key t li claims deadlines)
    have "db_logins db' = db_logins (consumed t (strftime_z (fst instants)) db)"
      using open_session_logins[OF signed_in(5)] by simp
    then show ?thesis using consumed_logins[OF conjunct1[OF consume_login_cases[OF signed_in(2)]]] by metis
  qed blast
  then show ?thesis by (simp add: run)
qed

lemma update_user_status_logins: "db_logins (fst (update_user_status draw now p raw_id status db)) = db_logins db"
proof (rule transaction_runs[OF update_user_status_def, of "\<lambda>db'. db_logins db' = db_logins db", OF refl])
  fix db' v
  assume "update_user_status draw now p raw_id status db = (db', Inr v)"
  then show "db_logins db' = db_logins db"
    by (rule update_user_status_Inr) (drule record_audit_Inr, simp add: Let_def end_sessions_def split: if_splits)
qed

lemma event_logins: "logins_step (db_logins db) (db_logins (run_identity_event sur db e))"
proof -
  obtain draw now ev where split: "e = (draw, now, ev)" by (cases e)
  let ?same = "\<lambda>db'. db_logins db' = db_logins db"
  show ?thesis
  proof (cases ev)
    case (SetStatus p raw_id status)
    then show ?thesis using update_user_status_logins by (intro logins_step_refl) (simp add: split)
  next
    case (BindRole p raw_id payload)
    have "?same (fst (create_role_binding draw now p raw_id payload db))"
      by (rule transaction_runs[OF create_role_binding_def, of ?same, OF refl]) (use create_role_binding_frame in blast)
    then show ?thesis by (intro logins_step_refl) (simp add: split BindRole)
  next
    case (UnbindRole p raw_id)
    have "?same (fst (revoke_role_binding draw now p raw_id db))"
      by (rule transaction_runs[OF revoke_role_binding_def, of ?same, OF refl])
        (drule revoke_role_binding_effect, auto simp: end_sessions_def)
    then show ?thesis by (intro logins_step_refl) (simp add: split UnbindRole)
  next
    case (Logout q)
    have "?same (fst (logout_current_session draw now q db))"
      by (rule transaction_runs[OF logout_current_session_def, of ?same, OF refl]) (drule logout_effect, auto)
    then show ?thesis by (intro logins_step_refl) (simp add: split Logout)
  next
    case (LogoutAll q)
    have "?same (fst (logout_all_sessions draw now q db))"
      by (rule transaction_runs[OF logout_all_sessions_def, of ?same, OF refl])
        (drule logout_all_effect, auto simp: end_sessions_def)
    then show ?thesis by (intro logins_step_refl) (simp add: split LogoutAll)
  next
    case (Bootstrap issuer subject name)
    have "?same (fst (bootstrap_global_admin (sd_bracketed sur) draw now issuer subject name db))"
      by (rule transaction_runs[OF bootstrap_global_admin_def, of ?same, OF refl]) (erule bootstrap_effect, simp_all)
    then show ?thesis by (intro logins_step_refl) (simp add: split Bootstrap)
  next
    case (BeginLogin raw nonce return_to)
    show ?thesis unfolding split BeginLogin run_identity_event.simps
      by (rule transaction_runs[OF begin_oidc_login_def, of "\<lambda>db'. logins_step (db_logins db) (db_logins db')"])
        (blast, erule begin_login_effect, auto simp: logins_step_def)
  next
    case (Callback raw cb later)
    show ?thesis unfolding split Callback run_identity_event.simps by (rule callback_logins)
  next
    case (Browse r)
    have "?same (fst (browser_session_principal (sd_hmac sur) (sd_state sur) now r db))"
      using browse_effect[of "sd_hmac sur" "sd_state sur" now r db]
      by (auto elim!: browse_cases)
    then show ?thesis by (intro logins_step_refl) (simp add: split Browse)
  qed
qed

text \<open>The transaction of a state and a browser binding has been consumed.\<close>

definition spent :: "string \<Rightarrow> string \<Rightarrow> login_row list \<Rightarrow> bool" where
  "spent state_hash binding_hash ls \<longleftrightarrow> distinct (map ol_id ls) \<and>
     (\<exists>t\<in>set ls. ol_state_hash t = state_hash \<and> ol_binding_hash t = binding_hash) \<and>
     (\<forall>t\<in>set ls. ol_state_hash t = state_hash \<and> ol_binding_hash t = binding_hash \<longrightarrow> ol_consumed_at t \<noteq> None)"

lemma spent_save:
  assumes "spent sh bh ls" and t: "t \<in> set ls"
  shows "spent sh bh (save ol_id (t\<lparr>ol_consumed_at := Some n\<rparr>) ls)"
proof -
  let ?t = "t\<lparr>ol_consumed_at := Some n\<rparr>"
  have d: "distinct (map ol_id (save ol_id ?t ls))" using assms(1) by (simp add: keys_save spent_def)
  obtain w where w: "w \<in> set ls" "ol_state_hash w = sh" "ol_binding_hash w = bh" using assms(1) by (auto simp: spent_def)
  have "\<exists>t\<in>set (save ol_id ?t ls). ol_state_hash t = sh \<and> ol_binding_hash t = bh"
  proof (cases "ol_id w = ol_id t")
    case True
    then have "w = t" using w(1) t assms(1) by (auto simp: spent_def distinct_map dest: inj_onD)
    then show ?thesis using t w by (intro bexI[of _ ?t]) (auto simp: in_set_save)
  next
    case False
    then show ?thesis using w by (intro bexI[of _ w]) (auto simp: in_set_save)
  qed
  then show ?thesis using d assms(1) by (auto simp: spent_def in_set_save)
qed

lemma spent_step: "spent sh bh ls \<Longrightarrow> logins_step ls ls' \<Longrightarrow> spent sh bh ls'"
  unfolding logins_step_def by (elim disjE exE conjE) (simp, force simp: spent_def, simp add: spent_save)

lemma spent_refused:
  assumes "spent (browser_keyed_hash hmac key ''oidc-state'' s) (browser_keyed_hash hmac key ''oidc-browser-binding'' c) (db_logins db)"
  shows "consume_login hmac key config now_str s c db = (db, Inl invalid_login)"
proof (cases "consume_login hmac key config now_str s c db")
  case (Pair db' r)
  then show ?thesis
  proof (cases r)
    case (Inl e)
    then show ?thesis using Pair consume_login_refused by fastforce
  next
    case (Inr t)
    then show ?thesis using consume_login_cases[OF Pair[unfolded Inr]] assms by (auto simp: spent_def)
  qed
qed

lemma consumed_spent:
  assumes "distinct (map ol_id (db_logins db))" and unique: "distinct (map ol_state_hash (db_logins db))"
    and c: "consume_login hmac key config n s c db = (consumed t n db, Inr t)"
  shows "spent (browser_keyed_hash hmac key ''oidc-state'' s) (browser_keyed_hash hmac key ''oidc-browser-binding'' c)
    (db_logins (consumed t n db))"
proof -
  note t = consume_login_cases[OF c]
  let ?t = "t\<lparr>ol_consumed_at := Some n\<rparr>"
  have only: "x = t" if "x \<in> set (db_logins db)" "ol_state_hash x = ol_state_hash t" for x
  proof -
    have "inj_on ol_state_hash (set (db_logins db))" using unique by (simp add: distinct_map)
    then show ?thesis using that t by (blast dest: inj_onD)
  qed
  have mem: "t \<in> set (db_logins db)" and hash: "ol_state_hash t = browser_keyed_hash hmac key ''oidc-state'' s"
    "ol_binding_hash t = browser_keyed_hash hmac key ''oidc-browser-binding'' c" using t by blast+
  define sh where "sh = browser_keyed_hash hmac key ''oidc-state'' s"
  define bh where "bh = browser_keyed_hash hmac key ''oidc-browser-binding'' c"
  note hash = hash[folded sh_def bh_def]
  have ls: "db_logins (consumed t n db) = save ol_id ?t (db_logins db)" by (simp add: consumed_def)
  have used: "ol_consumed_at x \<noteq> None" if x: "x \<in> set (save ol_id ?t (db_logins db))" "ol_state_hash x = sh" for x
  proof (cases "x = ?t")
    case False
    then have "x \<in> set (db_logins db)" "ol_id x \<noteq> ol_id ?t" using x(1) by (simp_all add: in_set_save)
    then show ?thesis using only[of x] x(2) hash(1) by auto
  qed simp
  have "?t \<in> set (save ol_id ?t (db_logins db))" using mem by (auto simp: in_set_save)
  moreover have "ol_state_hash ?t = sh" "ol_binding_hash ?t = bh" using hash by simp_all
  moreover have "distinct (map ol_id (save ol_id ?t (db_logins db)))" using assms(1) by (simp add: keys_save)
  ultimately show ?thesis unfolding spent_def ls sh_def[symmetric] bh_def[symmetric] using used by blast
qed

text \<open>A callback that leaves a trace has used the transaction up, whatever its outcome and whatever commits meanwhile.\<close>

lemma callback_spends:
  assumes "distinct (map ol_id (db_logins db))" "distinct (map ol_state_hash (db_logins db))" and key: "oidc_state st lg = Inr (config, key)"
    and run: "complete_oidc_login hmac unseal py_str provider st lg raw draw instants others cb db = (db', res)"
    and trace: "db' \<noteq> db" and others: "\<And>sh bh db. spent sh bh (db_logins db) \<Longrightarrow> spent sh bh (db_logins (others db))"
  shows "spent (browser_keyed_hash hmac key ''oidc-state'' (the (cb_state cb)))
    (browser_keyed_hash hmac key ''oidc-browser-binding'' (the (cb_cookie cb))) (db_logins db')"
  using run
proof (cases rule: callback_cases)
  case (refused e)
  then show ?thesis using trace by simp
next
  case (failed config' key' t e a)
  have k: "key' = key" using failed(1) key by simp
  note sp = consumed_spent[OF assms(1,2) failed(2)[unfolded k]]
  from failed(4) have "db_logins db' = db_logins (consumed t (strftime_z (fst instants)) db) \<or>
      db_logins db' = db_logins (others (consumed t (strftime_z (fst instants)) db))" by auto
  then show ?thesis using sp others[OF sp] by auto
next
  case (signed_in config' key' t li claims deadlines)
  have k: "key' = key" using signed_in(1) key by simp
  note sp = consumed_spent[OF assms(1,2) signed_in(2)[unfolded k]]
  show ?thesis using open_session_logins[OF signed_in(5)] others[OF sp] by simp
qed

text \<open>
  C24.  A login transaction serves one callback: once a callback has left any trace, whether it signed the browser in,
  failed at the provider or met a disabled user, and whatever ran beside it, the same state and browser binding
  are refused for good, and the refusal changes nothing.
\<close>

theorem login_transaction_single_use:
  assumes ids: "distinct (map ol_id (db_logins db))" "distinct (map ol_state_hash (db_logins db))"
    and first: "complete_oidc_login (sd_hmac sur) (sd_unseal sur) (sd_str sur) (sd_provider sur) (sd_state sur) (sd_settings sur)
      raw draw instants (run_identity sur meanwhile) cb db = (db', res)"
    and trace: "db' \<noteq> db"
    and again: "cb_state cb' = cb_state cb" "cb_cookie cb' = cb_cookie cb"
  shows "complete_oidc_login (sd_hmac sur) (sd_unseal sur) (sd_str sur) (sd_provider sur) (sd_state sur) (sd_settings sur)
      raw' draw' instants' others cb' (run_identity sur events db') = (run_identity sur events db', Inl invalid_login)"
proof -
  obtain config key where key: "oidc_state (sd_state sur) (sd_settings sur) = Inr (config, key)"
    using first trace by (cases "oidc_state (sd_state sur) (sd_settings sur)") (auto simp: complete_oidc_login_def)
  let ?spent = "\<lambda>db. spent (browser_keyed_hash (sd_hmac sur) key ''oidc-state'' (the (cb_state cb)))
    (browser_keyed_hash (sd_hmac sur) key ''oidc-browser-binding'' (the (cb_cookie cb))) (db_logins db)"
  have keeps: "spent sh bh (db_logins (run_identity sur es d))" if "spent sh bh (db_logins d)" for sh bh es d
    by (rule run_identity_invariant[of es "\<lambda>d. spent sh bh (db_logins d)", OF spent_step[OF _ event_logins] that])
  have "?spent db'" by (rule callback_spends[OF ids key first trace keeps])
  then have "?spent (run_identity sur events db')" by (rule keeps)
  note refused = spent_refused[OF this]
  show ?thesis
  proof (cases "truthy (cb_state cb) \<and> truthy (cb_cookie cb)")
    case True
    then show ?thesis by (simp add: complete_oidc_login_def key again Let_def refused)
  next
    case False
    then show ?thesis by (auto simp: complete_oidc_login_def key again)
  qed
qed

section \<open>The session a login opens\<close>

lemma known_identityD:
  "known_identity li db = Some i \<Longrightarrow> i \<in> set (db_identities db) \<and> oi_issuer i = li_issuer li \<and> oi_subject i = li_subject li"
  by (auto simp: known_identity_def dest: fetch_SomeD)

lemma known_identity_None:
  "known_identity li db = None \<longleftrightarrow> \<not> (\<exists>j\<in>set (db_identities db). oi_issuer j = li_issuer li \<and> oi_subject j = li_subject li)"
  by (auto simp: known_identity_def fetch_None image_iff)

lemma claimed_identityD:
  "claimed_identity py_str config claims = Some li \<Longrightarrow> claims ''iss'' = Some (JStr (li_issuer li)) \<and>
     claims ''sub'' = Some (JStr (li_subject li)) \<and> li_issuer li = oc_issuer config"
  by (auto simp: claimed_identity_def Let_def split: option.splits json.splits if_splits)

lemma redeem_codeD:
  "redeem_code hmac unseal provider key t code = Inr claims \<Longrightarrow> \<exists>verifier access.
     op_access_token provider (ol_redirect_uri t) code verifier = Inr access \<and> op_id_token provider access (ol_nonce t) = Inr claims"
  by (auto simp: redeem_code_def andThen_eq_Inr split: sum.splits)

lemma in_keys_fetch: "x \<in> set rows \<Longrightarrow> fetch key (key x) rows \<noteq> None"
  by (auto simp: fetch_None)

text \<open>
  Both rows of the signed-in user are in the tables.  The user is the owner of the identity with that issuer and
  subject; when there is none, a new pending one.
\<close>

definition owns_identity :: "string \<Rightarrow> string \<Rightarrow> string \<Rightarrow> db \<Rightarrow> bool" where
  "owns_identity issuer subject uid db \<longleftrightarrow>
     (\<exists>i\<in>set (db_identities db). oi_issuer i = issuer \<and> oi_subject i = subject \<and> oi_user i = uid)"

lemma sign_in_found:
  assumes run: "sign_in_user draw now_str li (known_identity li db) db = Inr (db', user, i, n)"
  shows "fetch us_id (us_id user) (db_users db') = Some user \<and> fetch oi_id (oi_id i) (db_identities db') = Some i \<and>
      oi_issuer i = li_issuer li \<and> oi_subject i = li_subject li \<and> oi_user i = us_id user \<and> us_status user \<noteq> UserDisabled \<and>
      (if \<exists>j\<in>set (db_identities db). oi_issuer j = li_issuer li \<and> oi_subject j = li_subject li
       then owns_identity (li_issuer li) (li_subject li) (us_id user) db \<and> us_id user \<in> us_id ` set (db_users db)
       else us_id user \<notin> us_id ` set (db_users db) \<and> us_status user = UserPending)"
  using run
proof (cases rule: sign_in_cases)
  case (known i0 old)
  have i0: "i0 \<in> set (db_identities db)" "oi_issuer i0 = li_issuer li" "oi_subject i0 = li_subject li" "known_identity li db = Some i0"
    using known(1) known_identityD by auto
  have uid: "us_id user = oi_user i0" using known(4) fetch_SomeD[OF known(2)] by simp
  have old: "us_id user \<in> us_id ` set (db_users db)" using known(4) fetch_SomeD[OF known(2)] by (metis image_eqI)
  have owner: "owns_identity (li_issuer li) (li_subject li) (us_id user) db"
    unfolding owns_identity_def using i0 uid by auto
  have "fetch us_id (us_id user) (db_users db) \<noteq> None"
    using known(2,4) fetch_SomeD[OF known(2)] by simp
  moreover have "fetch oi_id (oi_id i) (db_identities db) \<noteq> None"
    using in_keys_fetch[OF i0(1), of oi_id] known(6) by simp
  moreover have "db_users db' = save us_id user (db_users db)" "db_identities db' = save oi_id i (db_identities db)"
    by (simp_all add: known(9))
  moreover have "\<exists>j\<in>set (db_identities db). oi_issuer j = li_issuer li \<and> oi_subject j = li_subject li" using i0 by blast
  ultimately show ?thesis
    using known(3,5,7,8,10) i0(2,3) old owner uid by (simp add: fetch_save)
next
  case new
  have "db_users db' = db_users db @ [user]" "db_identities db' = db_identities db @ [i]" by (simp_all add: new(6))
  moreover have "fetch us_id (us_id user) (db_users db) = None" "fetch oi_id (oi_id i) (db_identities db) = None"
    using new(2,5) by (simp_all add: fetch_None)
  moreover have "us_status user = UserPending" "oi_issuer i = li_issuer li" "oi_subject i = li_subject li" "oi_user i = us_id user"
    using new(3,4) by (simp_all add: first_login_user_def first_login_identity_def)
  moreover note new(1)[unfolded known_identity_None]
  ultimately show ?thesis
    using new(2) by (simp add: fetch_append)
qed

lemma live_session_opens:
  assumes tok: "h_cookie r session_cookie_name = Some tok" "tok \<noteq> []" "st_session_key st = Some key"
    and s: "fetch bs_token_hash (browser_keyed_hash hmac key ''session-token'' tok) (db_sessions db) = Some s"
    and live: "bs_hash_key s = ''primary''" "bs_revoked_at s = None" "strftime_z now < bs_idle_expires_at s" "strftime_z now < bs_absolute_expires_at s"
    and rows: "fetch us_id (bs_user s) (db_users db) = Some user" "fetch oi_id (bs_identity s) (db_identities db) = Some i"
    and ok: "us_status user \<noteq> UserDisabled" "\<And>iss. st_oidc_issuer st = Some iss \<Longrightarrow> oi_issuer i = iss" "add_seconds now (st_idle_minutes st * 60) = Inr idle"
  shows "\<exists>q db'. browser_session_principal hmac st now r db = (db', Inr (Some (q, tok))) \<and> p_user q = Some (us_id user) \<and>
    p_grants q = (if us_status user = UserActive then load_user_grants db (us_id user) else [])"
proof -
  have "(case st_oidc_issuer st of Some issuer \<Rightarrow> oi_issuer i \<noteq> issuer | None \<Rightarrow> False) = False"
    using ok(2) by (cases "st_oidc_issuer st") simp_all
  then show ?thesis
    using tok s live rows ok(1,3) by (simp add: browser_session_principal_def Let_def transaction_def not_le)
qed

text \<open>
  C25.  A completed login signs the browser in as the one the provider vouched for.  The provider redeemed the code for
  a token whose claims, checked against the nonce of a stored login transaction, name the configured issuer and a
  subject; until a deadline of the session passes, its token authenticates as the user of the identity with that issuer
  and subject: the user who owned it before, or, when no identity had them, a new pending user with no grants.
\<close>

theorem login_signs_in:
  assumes run: "complete_oidc_login hmac unseal py_str provider st lg raw draw (t0, t1) id cb db = (db', Inr (return_to, token))"
    and issuer: "\<forall>config. lg_config lg = Some config \<longrightarrow> st_oidc_issuer st = Some (oc_issuer config)"
    and cookie: "h_cookie r session_cookie_name = Some token" "bytes raw" "length raw = 32"
    and time: "int now < int t1 + st_idle_minutes st * 60" "int now < int t1 + lg_session_hours lg * 3600"
      "add_seconds now (st_idle_minutes st * 60) = Inr idle"
  shows "\<exists>config t verifier access claims subject q db'' user.
    lg_config lg = Some config \<and> t \<in> set (db_logins db) \<and>
    op_access_token provider (ol_redirect_uri t) (the (cb_code cb)) verifier = Inr access \<and>
    op_id_token provider access (ol_nonce t) = Inr claims \<and>
    claims ''iss'' = Some (JStr (oc_issuer config)) \<and> claims ''sub'' = Some (JStr subject) \<and>
    browser_session_principal hmac st now r db' = (db'', Inr (Some (q, token))) \<and>
    fetch us_id (us_id user) (db_users db') = Some user \<and> p_user q = Some (us_id user) \<and>
    owns_identity (oc_issuer config) subject (us_id user) db' \<and>
    (if \<exists>j\<in>set (db_identities db). oi_issuer j = oc_issuer config \<and> oi_subject j = subject
     then owns_identity (oc_issuer config) subject (us_id user) db \<and> us_id user \<in> us_id ` set (db_users db)
     else us_id user \<notin> us_id ` set (db_users db) \<and> us_status user = UserPending \<and> p_grants q = [])"
  using run
proof (cases rule: callback_cases)
  case (signed_in config key t li claims deadlines)
  let ?db = "consumed t (strftime_z t0) db"
  have users: "db_users ?db = db_users db" by (simp add: consumed_def)
  have st: "st_session_key st = Some key" "lg_config lg = Some config"
    using signed_in(1) by (auto simp: oidc_state_def split: bool.splits option.splits)
  have tok: "token = generate_browser_secret raw" using signed_in(6) by simp
  obtain abs_t idle_t where d: "add_seconds t1 (lg_session_hours lg * 3600) = Inr abs_t" "add_seconds t1 (st_idle_minutes st * 60) = Inr idle_t"
      "deadlines = (min (strftime_z idle_t) (strftime_z abs_t), strftime_z abs_t)"
    using signed_in(4) by (auto simp: session_deadlines_def andThen_eq_Inr)
  have later: "strftime_z now < strftime_z idle_t" "strftime_z now < strftime_z abs_t"
    using d(1,2) time by (auto simp: add_seconds_Inr intro: strftime_z_strict_mono)
  from signed_in(5) obtain db1 user i n a where
    s: "sign_in_user draw (strftime_z t1) li (known_identity li ?db) ?db = Inr (db1, user, i, n)"
    and fresh: "bs_token_hash (new_session hmac key (draw n) (strftime_z t1) deadlines token user i) \<notin> bs_token_hash ` set (db_sessions db1)"
    and db': "db' = db1\<lparr>db_sessions := db_sessions db1 @ [new_session hmac key (draw n) (strftime_z t1) deadlines token user i],
       db_audits := db_audits db1 @ [a]\<rparr>"
    unfolding id_apply fst_conv snd_conv tok by (rule open_session_cases)
  define x where "x = new_session hmac key (draw n) (strftime_z t1) deadlines token user i"
  have x: "bs_token_hash x = browser_keyed_hash hmac key ''session-token'' token" "bs_hash_key x = ''primary''"
    "bs_revoked_at x = None" "bs_idle_expires_at x = fst deadlines" "bs_absolute_expires_at x = snd deadlines"
    "bs_user x = us_id user" "bs_identity x = oi_id i" by (simp_all add: x_def new_session_def)
  have tables: "db_users db' = db_users db1" "db_identities db' = db_identities db1" "db_sessions db' = db_sessions db1 @ [x]"
    by (simp_all add: db' x_def)
  note found = sign_in_found[OF s]
  have "fetch bs_token_hash (bs_token_hash x) (db_sessions db1) = None" using fresh by (simp add: fetch_None x_def)
  then have "fetch bs_token_hash (bs_token_hash x) (db_sessions db') = Some x" by (simp add: tables fetch_append)
  note sess = this[unfolded x(1)]
  have "strftime_z now < fst deadlines" "strftime_z now < snd deadlines" using later by (simp_all add: d(3))
  note live = this[folded x(4,5)]
  have iss: "oi_issuer i = iss" if "st_oidc_issuer st = Some iss" for iss
    using that issuer st(2) found claimed_identityD[OF signed_in(3)] by simp
  have ne: "token \<noteq> []" using token_urlsafe_32(1)[OF cookie(2,3)] tok by (auto simp: generate_browser_secret_def)
  obtain q db'' where "browser_session_principal hmac st now r db' = (db'', Inr (Some (q, token)))" "p_user q = Some (us_id user)"
      "p_grants q = (if us_status user = UserActive then load_user_grants db' (us_id user) else [])"
    using live_session_opens[OF cookie(1) ne st(1) sess x(2,3) live _ _ _ iss time(3)] x(6,7) found
    unfolding tables by auto
  note q = this
  have li: "claims ''iss'' = Some (JStr (oc_issuer config))" "claims ''sub'' = Some (JStr (li_subject li))" "li_issuer li = oc_issuer config"
    using claimed_identityD[OF signed_in(3)] by simp_all
  obtain verifier access where code: "op_access_token provider (ol_redirect_uri t) (the (cb_code cb)) verifier = Inr access"
      "op_id_token provider access (ol_nonce t) = Inr claims"
    using redeem_codeD[OF signed_in(7)] by blast
  have t: "t \<in> set (db_logins db)" using consume_login_cases[OF signed_in(2)] by blast
  have same: "owns_identity a b c ?db = owns_identity a b c db" "db_identities ?db = db_identities db" for a b c
    by (simp_all add: owns_identity_def consumed_def)
  have "i \<in> set (db_identities db')" using found fetch_SomeD[of oi_id "oi_id i" "db_identities db1"] by (simp add: tables)
  then have owner: "owns_identity (oc_issuer config) (li_subject li) (us_id user) db'"
    using found li(3) by (auto simp: owns_identity_def)
  have first: "if \<exists>j\<in>set (db_identities db). oi_issuer j = oc_issuer config \<and> oi_subject j = li_subject li
     then owns_identity (oc_issuer config) (li_subject li) (us_id user) db \<and> us_id user \<in> us_id ` set (db_users db)
     else us_id user \<notin> us_id ` set (db_users db) \<and> us_status user = UserPending \<and> p_grants q = []"
    using found q(3) unfolding same users li(3) by (auto split: if_splits)
  show ?thesis
    using st(2) t code li(1,2) q(1,2) found owner first unfolding tables(1) by blast
qed simp_all

section \<open>A concrete login\<close>

definition demo_issuer :: string where
  "demo_issuer = ''https://id.example''"

definition demo_config :: oidc_config where
  "demo_config = \<lparr>oc_issuer = demo_issuer, oc_metadata_url = ''https://id.example/m'', oc_client_id = ''sha'',
     oc_client_secret = ''s'', oc_public_base_url = ''https://sha.example'', oc_ca_bundle_file = None\<rparr>"

definition demo_app :: app_state where
  "demo_app = \<lparr>st_auth_mode = ''oidc'', st_api_token = None, st_agent_bearer = None, st_readonly_token = None,
     st_external_token = None, st_credential_key = None, st_oidc_client = True, st_oidc_issuer = Some demo_issuer,
     st_session_key = Some [1], st_idle_minutes = 60, st_public_base_url = Some ''https://sha.example'',
     st_policy = None, st_lifetime_days = 30\<rparr>"

definition demo_claims :: claims where
  "demo_claims = (\<lambda>k. if k = ''iss'' then Some (JStr demo_issuer) else if k = ''sub'' then Some (JStr ''ann'') else None)"

definition demo_provider :: oidc_provider where
  "demo_provider = \<lparr>op_metadata = None, op_authorization = (\<lambda>_. None),
     op_access_token = (\<lambda>_ _ _. Inr ''token''), op_id_token = (\<lambda>_ _. Inr demo_claims)\<rparr>"

definition demo_surround :: surround where
  "demo_surround = \<lparr>sd_hmac = (\<lambda>_ m. m), sd_seal = (\<lambda>_ _ m _. m), sd_unseal = (\<lambda>_ _ m _. Some m),
     sd_bracketed = (\<lambda>_. True), sd_str = (\<lambda>_. []), sd_provider = demo_provider, sd_state = demo_app,
     sd_settings = \<lparr>lg_config = Some demo_config, lg_login_ttl_minutes = 10, lg_session_hours = 8\<rparr>\<rparr>"

definition demo_login :: login_row where
  "demo_login = \<lparr>ol_id = ''oidctx_1'', ol_state_hash = browser_keyed_hash (\<lambda>_ m. m) [1] ''oidc-state'' ''st'',
     ol_binding_hash = browser_keyed_hash (\<lambda>_ m. m) [1] ''oidc-browser-binding'' ''ck'', ol_hash_key = ''primary'',
     ol_nonce = ''nonce'', ol_verifier = encrypt_code_verifier (\<lambda>_ m. m) (\<lambda>_ _ m _. m) (replicate 12 0) [1] ''oidctx_1'' ''a-code-verifier-of-the-browser'',
     ol_issuer = demo_issuer, ol_redirect_uri = callback_uri demo_config, ol_return_to = ''/'',
     ol_expires_at = ''2027-01-01T00:00:00Z'', ol_consumed_at = None, ol_created_at = ''2025-12-01T00:00:00Z''\<rparr>"

definition demo_user :: "string \<Rightarrow> user_row" where
  "demo_user k = \<lparr>us_id = k, us_status = UserActive, us_display_name = k, us_email = None, us_last_login_at = None,
     us_disabled_at = None, us_created_at = ''2025-12-01T00:00:00Z'', us_updated_at = ''2025-12-01T00:00:00Z''\<rparr>"

definition demo_identity :: identity_row where
  "demo_identity = \<lparr>oi_id = ''oidc_1'', oi_user = ''usr_1'', oi_issuer = demo_issuer, oi_subject = ''ann'',
     oi_display_name = ''usr_1'', oi_email = None, oi_created_at = ''2025-12-01T00:00:00Z'',
     oi_updated_at = ''2025-12-01T00:00:00Z'', oi_last_seen_at = None\<rparr>"

text \<open>One user with a live session, another without, and a login transaction.\<close>

definition demo_session :: session_row where
  "demo_session = \<lparr>bs_id = ''sess_1'', bs_user = ''usr_1'', bs_identity = ''oidc_1'',
     bs_token_hash = browser_keyed_hash (\<lambda>_ m. m) [1] ''session-token'' ''tok'', bs_hash_key = ''primary'',
     bs_authenticated_at = ''2025-12-01T00:00:00Z'', bs_last_seen_at = ''2025-12-01T00:00:00Z'',
     bs_idle_expires_at = ''2027-01-01T00:00:00Z'', bs_absolute_expires_at = ''2027-01-01T00:00:00Z'',
     bs_revoked_at = None, bs_created_at = ''2025-12-01T00:00:00Z'', bs_updated_at = ''2025-12-01T00:00:00Z''\<rparr>"

definition demo_identity_db :: db where
  "demo_identity_db = ex_db\<lparr>db_users := [demo_user ''usr_1'', demo_user ''usr_2''], db_identities := [demo_identity],
     db_sessions := [demo_session], db_logins := [demo_login]\<rparr>"

definition demo_admin :: principal where
  "demo_admin = ex_operator\<lparr>p_grants := [synthetic_global_grant ''admin'' [''identity.manage'']]\<rparr>"

definition demo_request :: http_request where
  "demo_request = \<lparr>h_method = ''GET'', h_path = ''/api/clients'', h_header = (\<lambda>_. None),
     h_cookie = (\<lambda>c. if c = session_cookie_name then Some ''tok'' else None)\<rparr>"

definition demo_callback :: callback_in where
  "demo_callback = \<lparr>cb_state = Some ''st'', cb_code = Some ''code'', cb_error = None, cb_cookie = Some ''ck''\<rparr>"

definition demo_now :: nat where
  "demo_now = 63902822400"

lemma demo_now_text: "strftime_z demo_now = ''2026-01-01T00:00:00Z''"
  by (simp add: demo_now_def strftime_eval)

lemma demo_deadlines: "session_deadlines demo_app (sd_settings demo_surround) demo_now = Inr (''2026-01-01T01:00:00Z'', ''2026-01-01T08:00:00Z'')"
proof -
  have t: "strftime_z 63902826000 = ''2026-01-01T01:00:00Z''" "strftime_z 63902851200 = ''2026-01-01T08:00:00Z''"
    by (simp_all add: strftime_eval)
  have m: "min ''2026-01-01T01:00:00Z'' ''2026-01-01T08:00:00Z'' = ''2026-01-01T01:00:00Z''" by code_simp
  show ?thesis
    by (simp add: session_deadlines_def demo_now_def demo_app_def demo_surround_def add_seconds_def datetime_end_def t m)
qed

lemma demo_redeemed: "redeem_code (\<lambda>_ m. m) (\<lambda>_ _ m _. Some m) demo_provider [1] demo_login ''code'' = Inr demo_claims"
proof -
  have "decrypt_code_verifier (\<lambda>_ m. m) (\<lambda>_ _ m _. Some m) [1] (ol_id demo_login) (ol_verifier demo_login) = Inr ''a-code-verifier-of-the-browser''" by code_simp
  then show ?thesis by (simp add: redeem_code_def demo_provider_def)
qed

lemma demo_claimed: "claimed_identity (\<lambda>_. []) demo_config demo_claims =
    Some \<lparr>li_issuer = demo_issuer, li_subject = ''ann'', li_display_name = ''ann'', li_email = None\<rparr>"
  by code_simp

lemma demo_oidc_state: "oidc_state demo_app (sd_settings demo_surround) = Inr (demo_config, [1])"
  by (simp add: oidc_state_def demo_app_def demo_surround_def)

lemma demo_consumes: "consume_login (\<lambda>_ m. m) [1] demo_config (strftime_z demo_now) ''st'' ''ck'' demo_identity_db =
    (consumed demo_login (strftime_z demo_now) demo_identity_db, Inr demo_login)"
proof -
  have "snd (consume_login (\<lambda>_ m. m) [1] demo_config ''2026-01-01T00:00:00Z'' ''st'' ''ck'' demo_identity_db) = Inr demo_login" by code_simp
  then obtain db' where "consume_login (\<lambda>_ m. m) [1] demo_config ''2026-01-01T00:00:00Z'' ''st'' ''ck'' demo_identity_db = (db', Inr demo_login)"
    by (metis surjective_pairing)
  note run = this
  show ?thesis using run consume_login_cases[OF run] by (simp add: consumed_def demo_now_text)
qed

text \<open>Disabling the second user, and the first one browsing afterwards.\<close>

definition demo_out :: user_row where
  "demo_out = (demo_user ''usr_2'')\<lparr>us_status := UserDisabled, us_disabled_at := Some (strftime_z demo_now), us_updated_at := strftime_z demo_now\<rparr>"

lemma demo_disabled: "\<exists>a. update_user_status ex_draw demo_now demo_admin ''usr_2'' UserDisabled demo_identity_db =
   (demo_identity_db\<lparr>db_users := [demo_user ''usr_1'', demo_out], db_audits := [a]\<rparr>, Inr demo_out)"
proof -
  have pre: "require_permission ''identity.manage'' demo_admin = Inr demo_admin" "require_global_permission demo_admin ''identity.manage'' = Inr ()"
    "normalize_required_string ''usr_2'' ''user_id'' = Inr ''usr_2''" by code_simp+
  have u: "db_users demo_identity_db = [demo_user ''usr_1'', demo_user ''usr_2'']" "us_id (demo_user k) = k" "us_id demo_out = ''usr_2''" for k
    by (simp_all add: demo_identity_db_def demo_user_def demo_out_def)
  have e: "end_sessions (strftime_z demo_now) ''usr_2'' (demo_identity_db\<lparr>db_users := [demo_user ''usr_1'', demo_out]\<rparr>) =
      demo_identity_db\<lparr>db_users := [demo_user ''usr_1'', demo_out]\<rparr>"
    by (simp add: end_sessions_def update_where_def demo_identity_db_def demo_session_def)
  have a: "db_audits demo_identity_db = []" "p_user demo_admin = None" by (simp_all add: demo_identity_db_def demo_admin_def)
  show ?thesis
    unfolding update_user_status_def pre andThen_Inr Let_def u
    by (simp add: u demo_out_def[symmetric] save_def e record_audit_event_def insert_audit_def audit_event_def audit_call_of_def
        client_exists_def location_exists_def a transaction_def) blast
qed

lemma demo_browses:
  assumes "db_users db = [demo_user ''usr_1'', demo_out]" "db_sessions db = [demo_session]" "db_identities db = [demo_identity]"
  shows "\<exists>q db'. browser_session_principal (\<lambda>_ m. m) demo_app demo_now demo_request db = (db', Inr (Some (q, ''tok''))) \<and> p_user q = Some ''usr_1''"
proof -
  have h: "browser_keyed_hash (\<lambda>_ m. m) [1] ''session-token'' ''tok'' = ''746f6b''" by code_simp
  have t: "strftime_z demo_now < ''2027-01-01T00:00:00Z''" unfolding demo_now_text by code_simp
  have i: "add_seconds demo_now 3600 = Inr 63902826000"
    by (simp add: add_seconds_def demo_now_def demo_app_def datetime_end_def)
  have "\<exists>q db'. browser_session_principal (\<lambda>_ m. m) demo_app demo_now demo_request db = (db', Inr (Some (q, ''tok''))) \<and>
      p_user q = Some (us_id (demo_user ''usr_1'')) \<and>
      p_grants q = (if us_status (demo_user ''usr_1'') = UserActive then load_user_grants db (us_id (demo_user ''usr_1'')) else [])"
    by (rule live_session_opens[where key = "[1]" and s = demo_session and i = demo_identity and idle = 63902826000])
      (simp_all add: demo_request_def demo_app_def assms demo_session_def h t i demo_user_def demo_identity_def)
  then show ?thesis by (auto simp: demo_user_def)
qed

theorem disabled_user_stays_out_witness:
  "\<exists>db' db'' q token. update_user_status ex_draw demo_now demo_admin ''usr_2'' UserDisabled demo_identity_db = (db', Inr demo_out) \<and>
     browser_session_principal (\<lambda>_ m. m) demo_app demo_now demo_request
       (run_identity demo_surround [(ex_draw, demo_now, Logout None)] db') = (db'', Inr (Some (q, token))) \<and>
     p_user q \<noteq> Some (us_id demo_out)"
proof -
  obtain a where run: "update_user_status ex_draw demo_now demo_admin ''usr_2'' UserDisabled demo_identity_db =
     (demo_identity_db\<lparr>db_users := [demo_user ''usr_1'', demo_out], db_audits := [a]\<rparr>, Inr demo_out)" using demo_disabled by blast
  let ?events = "[(ex_draw, demo_now, Logout None)]"
  define db where "db = run_identity demo_surround ?events (demo_identity_db\<lparr>db_users := [demo_user ''usr_1'', demo_out], db_audits := [a]\<rparr>)"
  have db: "db = demo_identity_db\<lparr>db_users := [demo_user ''usr_1'', demo_out], db_audits := [a]\<rparr>"
    by (simp add: db_def run_identity_def logout_current_session_def current_principal_def transaction_def)
  obtain q db'' where auth: "browser_session_principal (\<lambda>_ m. m) demo_app demo_now demo_request db = (db'', Inr (Some (q, ''tok'')))"
    using demo_browses[of db] by (auto simp: db demo_identity_db_def)
  have "p_user q \<noteq> Some (us_id demo_out)"
    by (rule disabled_user_stays_out[OF run _ auth[unfolded db_def], THEN conjunct1]) simp
  then show ?thesis using run auth unfolding db_def by blast
qed


text \<open>The demo login succeeds, and the user it signs in is the one with the identity.\<close>

definition demo_li :: login_identity where
  "demo_li = \<lparr>li_issuer = demo_issuer, li_subject = ''ann'', li_display_name = ''ann'', li_email = None\<rparr>"

lemma demo_signed_in:
  "\<exists>db'. complete_oidc_login (\<lambda>_ m. m) (\<lambda>_ _ m _. Some m) (\<lambda>_. []) demo_provider demo_app (sd_settings demo_surround)
     (replicate 32 7) ex_draw (demo_now, demo_now) id demo_callback demo_identity_db =
   (db', Inr (''/'', token_urlsafe (replicate 32 7))) \<and> db' \<noteq> demo_identity_db"
proof -
  define raw :: "nat list" where "raw = replicate 32 7"
  define token where "token = generate_browser_secret raw"
  let ?db = "consumed demo_login (strftime_z demo_now) demo_identity_db"
  have cb: "truthy (cb_state demo_callback)" "truthy (cb_cookie demo_callback)" "truthy (cb_code demo_callback)" "\<not> truthy (cb_error demo_callback)"
    "the (cb_state demo_callback) = ''st''" "the (cb_cookie demo_callback) = ''ck''" "the (cb_code demo_callback) = ''code''"
    by (simp_all add: demo_callback_def truthy_def)
  have tables: "db_users ?db = [demo_user ''usr_1'', demo_user ''usr_2'']" "db_identities ?db = [demo_identity]" "db_sessions ?db = [demo_session]"
    "db_audits ?db = []"
    by (simp_all add: consumed_def demo_identity_db_def)
  have k: "known_identity demo_li ?db = Some demo_identity"
    by (simp add: known_identity_def tables demo_li_def demo_identity_def)
  define user where "user = (demo_user ''usr_1'')\<lparr>us_display_name := ''ann'', us_email := None, us_last_login_at := Some (strftime_z demo_now),
     us_updated_at := strftime_z demo_now\<rparr>"
  define ident where "ident = demo_identity\<lparr>oi_display_name := ''ann'', oi_email := None, oi_updated_at := strftime_z demo_now,
     oi_last_seen_at := Some (strftime_z demo_now)\<rparr>"
  have key: "us_id user = ''usr_1''" "oi_id ident = ''oidc_1''" "us_id (demo_user k) = k" "oi_id demo_identity = ''oidc_1''"
    "oi_user demo_identity = ''usr_1''" "us_status (demo_user k) = UserActive" "bs_id demo_session = ''sess_1''"
    "li_display_name demo_li = ''ann''" "li_email demo_li = None" for k
    by (simp_all add: user_def ident_def demo_user_def demo_identity_def demo_session_def demo_li_def)
  define db1 where "db1 = ?db\<lparr>db_identities := [ident], db_users := [user, demo_user ''usr_2'']\<rparr>"
  have s: "sign_in_user ex_draw (strftime_z demo_now) demo_li (Some demo_identity) ?db = Inr (db1, user, ident, 0)"
    by (simp add: sign_in_user_def refresh_user_def Let_def tables key user_def[symmetric] ident_def[symmetric] save_def db1_def)
  have u: "db_users db1 = [user, demo_user ''usr_2'']" "db_identities db1 = [ident]" "db_sessions db1 = [demo_session]" "db_audits db1 = []"
    by (simp_all add: db1_def tables)
  have hash: "browser_keyed_hash (\<lambda>_ m. m) [1] ''session-token'' token \<noteq> bs_token_hash demo_session"
    unfolding token_def raw_def by code_simp
  define x where "x = new_session (\<lambda>_ m. m) [1] (ex_draw 0) (strftime_z demo_now) (''2026-01-01T01:00:00Z'', ''2026-01-01T08:00:00Z'') token user ident"
  have x: "bs_id x = ''sess_''" "bs_user x = ''usr_1''" "bs_identity x = ''oidc_1''" "bs_token_hash x \<noteq> bs_token_hash demo_session"
    using hash by (simp_all add: x_def new_session_def key generate_prefixed_id_def ex_draw_def)
  define db2 where "db2 = db1\<lparr>db_sessions := [demo_session, x]\<rparr>"
  have ins: "insert_session x db1 = Inr db2"
    using x(4)[symmetric] by (simp add: insert_session_def u key x db2_def)
  have au: "record_audit_event v n ((audit_call_of t)\<lparr>ax_actor := b, ax_method := c, ax_target_type := d, ax_target_id := e,
      ax_metadata := f, ax_created_at := g\<rparr>) db2 = Inr (db2\<lparr>db_audits := [audit_event v n ((audit_call_of t)\<lparr>ax_actor := b, ax_method := c,
        ax_target_type := d, ax_target_id := e, ax_metadata := f, ax_created_at := g\<rparr>)]\<rparr>)" for v n t b c d e f g
    by (simp add: record_audit_event_def insert_audit_def audit_event_def audit_call_of_def client_exists_def location_exists_def db2_def u)
  have "\<exists>db'. open_session (\<lambda>_ m. m) [1] ex_draw (strftime_z demo_now) (''2026-01-01T01:00:00Z'', ''2026-01-01T08:00:00Z'') token demo_li
      (known_identity demo_li ?db) ?db = Inr (db', ())"
    unfolding open_session_def k s andThen_Inr prod.case Let_def fst_conv snd_conv new_session_def[of _ _ _ _ "(''2026-01-01T01:00:00Z'', ''2026-01-01T08:00:00Z'')", symmetric, unfolded fst_conv snd_conv] x_def[symmetric] ins raised_def sum.case au
    by blast
  then obtain db' where o: "open_session (\<lambda>_ m. m) [1] ex_draw (strftime_z demo_now) (''2026-01-01T01:00:00Z'', ''2026-01-01T08:00:00Z'') token demo_li
      (known_identity demo_li ?db) ?db = Inr (db', ())" by blast
  then have "db_logins db' \<noteq> db_logins demo_identity_db"
    using open_session_logins[OF o] by (simp add: consumed_def demo_identity_db_def save_def demo_login_def)
  have run: "complete_oidc_login (\<lambda>_ m. m) (\<lambda>_ _ m _. Some m) (\<lambda>_. []) demo_provider demo_app (sd_settings demo_surround)
     raw ex_draw (demo_now, demo_now) id demo_callback demo_identity_db = (db', Inr (ol_return_to demo_login, token))"
  proof -
    have cb': "(\<not> truthy (cb_state demo_callback) \<or> \<not> truthy (cb_cookie demo_callback)) = False"
      "(truthy (cb_error demo_callback) \<or> \<not> truthy (cb_code demo_callback)) = False" using cb by simp_all
    show ?thesis
      unfolding complete_oidc_login_def demo_oidc_state sum.case prod.case cb' if_False Let_def fst_conv snd_conv cb(5-7) demo_consumes
        demo_redeemed demo_claimed[folded demo_li_def] option.case finish_login_def demo_deadlines token_def[symmetric] id_apply o andThen_Inr ..
  qed
  moreover have "db' \<noteq> demo_identity_db"
    using \<open>db_logins db' \<noteq> _\<close> by auto
  ultimately show ?thesis unfolding raw_def token_def generate_browser_secret_def by (auto simp: demo_login_def)
qed

theorem login_transaction_single_use_witness:
  "\<exists>db'. db' \<noteq> demo_identity_db \<and> complete_oidc_login (\<lambda>_ m. m) (\<lambda>_ _ m _. Some m) (\<lambda>_. []) demo_provider demo_app (sd_settings demo_surround)
     (replicate 32 8) ex_draw (demo_now, demo_now) id demo_callback db' = (db', Inl invalid_login)"
proof -
  have sd: "sd_hmac demo_surround = (\<lambda>_ m. m)" "sd_unseal demo_surround = (\<lambda>_ _ m _. Some m)" "sd_str demo_surround = (\<lambda>_. [])"
    "sd_provider demo_surround = demo_provider" "sd_state demo_surround = demo_app" "run_identity sur [] = (\<lambda>x. x)" for sur
    by (simp_all add: demo_surround_def run_identity_def fun_eq_iff)
  obtain db' where run: "complete_oidc_login (\<lambda>_ m. m) (\<lambda>_ _ m _. Some m) (\<lambda>_. []) demo_provider demo_app (sd_settings demo_surround)
     (replicate 32 7) ex_draw (demo_now, demo_now) id demo_callback demo_identity_db =
      (db', Inr (''/'', token_urlsafe (replicate 32 7)))" and ne: "db' \<noteq> demo_identity_db" using demo_signed_in by blast
  note run = run[unfolded id_def]
  have d: "distinct (map ol_id (db_logins demo_identity_db))" "distinct (map ol_state_hash (db_logins demo_identity_db))"
    by (simp_all add: demo_identity_db_def)
  note again = login_transaction_single_use[where sur = demo_surround and meanwhile = "[]" and events = "[]" and others = id, unfolded sd, OF d run ne refl refl]
  show ?thesis using again ne by blast
qed

theorem login_signs_in_witness:
  "\<exists>db' q db''. complete_oidc_login (\<lambda>_ m. m) (\<lambda>_ _ m _. Some m) (\<lambda>_. []) demo_provider demo_app (sd_settings demo_surround)
     (replicate 32 7) ex_draw (demo_now, demo_now) id demo_callback demo_identity_db = (db', Inr (''/'', token_urlsafe (replicate 32 7))) \<and>
   browser_session_principal (\<lambda>_ m. m) demo_app demo_now
     (demo_request\<lparr>h_cookie := (\<lambda>_. Some (token_urlsafe (replicate 32 7)))\<rparr>) db' = (db'', Inr (Some (q, token_urlsafe (replicate 32 7)))) \<and>
   p_user q = Some ''usr_1''"
proof -
  define raw :: "nat list" where "raw = replicate 32 7"
  obtain db' where run: "complete_oidc_login (\<lambda>_ m. m) (\<lambda>_ _ m _. Some m) (\<lambda>_. []) demo_provider demo_app (sd_settings demo_surround)
     raw ex_draw (demo_now, demo_now) id demo_callback demo_identity_db =
      (db', Inr (''/'', token_urlsafe raw))" using demo_signed_in raw_def by blast
  have i: "add_seconds demo_now (st_idle_minutes demo_app * 60) = Inr 63902826000"
    by (simp add: add_seconds_def demo_now_def demo_app_def datetime_end_def)
  let ?r = "demo_request\<lparr>h_cookie := (\<lambda>_. Some (token_urlsafe raw))\<rparr>"
  have pre: "\<forall>config. lg_config (sd_settings demo_surround) = Some config \<longrightarrow> st_oidc_issuer demo_app = Some (oc_issuer config)"
    "h_cookie ?r session_cookie_name = Some (token_urlsafe raw)" "bytes raw" "length raw = 32"
    "int demo_now < int demo_now + st_idle_minutes demo_app * 60" "int demo_now < int demo_now + lg_session_hours (sd_settings demo_surround) * 3600"
    by (simp_all add: demo_surround_def demo_app_def demo_config_def raw_def bytes_def list_all_iff demo_request_def)
  from login_signs_in[OF run pre i] show ?thesis
  proof (elim exE conjE)
    fix config t verifier access claims subject q db'' user
    assume config: "lg_config (sd_settings demo_surround) = Some config" "op_id_token demo_provider access (ol_nonce t) = Inr claims"
        "claims ''sub'' = Some (JStr subject)"
      and auth: "browser_session_principal (\<lambda>_ m. m) demo_app demo_now ?r db' = (db'', Inr (Some (q, token_urlsafe raw)))"
        "p_user q = Some (us_id user)"
      and owner: "if \<exists>j\<in>set (db_identities demo_identity_db). oi_issuer j = oc_issuer config \<and> oi_subject j = subject
        then owns_identity (oc_issuer config) subject (us_id user) demo_identity_db \<and> us_id user \<in> us_id ` set (db_users demo_identity_db)
        else us_id user \<notin> us_id ` set (db_users demo_identity_db) \<and> us_status user = UserPending \<and> p_grants q = []"
    have id: "oc_issuer config = demo_issuer" "subject = ''ann''"
      using config by (auto simp: demo_surround_def demo_config_def demo_provider_def demo_claims_def)
    have "us_id user = ''usr_1''"
      using owner unfolding id by (simp add: owns_identity_def demo_identity_db_def demo_identity_def)
    then show ?thesis using run auth unfolding raw_def by auto
  qed
qed

end
