(* ===== verification/Fleet_Metadata.thy ===== *)
theory Fleet_Metadata
  imports Identity Response_Actions
begin

text \<open>
  \<open>app/api/endpoints/fleet_metadata.py\<close>: tags and their assignments, saved views with their versions, dynamic
  groups and their previews, with the filter schema of \<open>app/schemas/contracts.py\<close>.  \<open>sha\<close> is SHA-256 on bytes.
\<close>

section \<open>Filters\<close>

fun filter_field_value :: "filter_field \<Rightarrow> string" where
  "filter_field_value FieldEndpointId = ''endpoint_id''"
| "filter_field_value FieldHostname = ''hostname''"
| "filter_field_value FieldPlatform = ''platform''"
| "filter_field_value FieldStatus = ''status''"
| "filter_field_value FieldConnectivity = ''connectivity_status''"
| "filter_field_value FieldAgentVersion = ''agent_version''"
| "filter_field_value FieldClientId = ''client_id''"
| "filter_field_value FieldLocationId = ''location_id''"
| "filter_field_value FieldTag = ''tag''"

fun filter_operator_value :: "filter_operator \<Rightarrow> string" where
  "filter_operator_value OpEq = ''eq''"
| "filter_operator_value OpNeq = ''neq''"
| "filter_operator_value OpContains = ''contains''"
| "filter_operator_value OpStartsWith = ''starts_with''"
| "filter_operator_value OpIn = ''in''"

fun filter_match_value :: "filter_match \<Rightarrow> string" where
  "filter_match_value MatchAll = ''all''"
| "filter_match_value MatchAny = ''any''"

definition allowed_operators :: "filter_field \<Rightarrow> filter_operator list" where
  "allowed_operators field =
     (case field of
        FieldHostname \<Rightarrow> [OpEq, OpNeq, OpContains, OpStartsWith, OpIn]
      | FieldAgentVersion \<Rightarrow> [OpEq, OpNeq, OpContains, OpStartsWith, OpIn]
      | _ \<Rightarrow> [OpEq, OpNeq, OpIn])"

fun value_list :: "filter_value \<Rightarrow> string list" where
  "value_list (One v) = [v]"
| "value_list (Many vs) = vs"

fun is_many :: "filter_value \<Rightarrow> bool" where
  "is_many (Many _) = True"
| "is_many (One _) = False"

definition validate_rule :: "filter_rule \<Rightarrow> filter_rule result" where
  "validate_rule r =
     (if fr_operator r \<notin> set (allowed_operators (fr_field r))
      then Inl (ValueError (''operator '' @ filter_operator_value (fr_operator r) @ '' is not allowed for '' @
             filter_field_value (fr_field r)))
      else let values = value_list (fr_value r) in
      if fr_operator r = OpIn \<and> \<not> is_many (fr_value r) then Inl (ValueError ''in operator requires a list value'')
      else if fr_operator r \<noteq> OpIn \<and> is_many (fr_value r)
      then Inl (ValueError ''only the in operator accepts a list value'')
      else if values = [] \<or> 50 < length values
      then Inl (ValueError ''filter value list must contain between 1 and 50 values'')
      else let normalized = map strip values in
      if list_ex (\<lambda>v. v = [] \<or> 255 < length v) normalized
      then Inl (ValueError ''filter values must contain 1 to 255 characters'')
      else Inr (r\<lparr>fr_value := (if is_many (fr_value r) then Many normalized else One (hd normalized))\<rparr>))"

definition validate_filter :: "endpoint_filter \<Rightarrow> endpoint_filter result" where
  "validate_filter f =
     andThen (traverse validate_rule (ef_rules f)) (\<lambda>rules.
     if length rules \<in> {1..16} then Inr (f\<lparr>ef_rules := rules\<rparr>) else Inl (ValueError ''rules''))"

fun filter_value_json :: "filter_value \<Rightarrow> json" where
  "filter_value_json (One v) = JStr v"
| "filter_value_json (Many vs) = JList (map JStr vs)"

definition rule_json :: "filter_rule \<Rightarrow> json" where
  "rule_json r = JObj [(''field'', JStr (filter_field_value (fr_field r))),
     (''op'', JStr (filter_operator_value (fr_operator r))), (''value'', filter_value_json (fr_value r))]"

definition filter_json :: "endpoint_filter \<Rightarrow> json" where
  "filter_json f = JObj [(''schema_version'', JInt 1), (''match'', JStr (filter_match_value (ef_match f))),
     (''rules'', JList (map rule_json (ef_rules f)))]"

definition canonical_filter :: "(nat list \<Rightarrow> nat list) \<Rightarrow> endpoint_filter \<Rightarrow> endpoint_filter \<times> string" where
  "canonical_filter sha f = (f, hexdigest (sha (utf8 (json_dumps True (filter_json f)))))"

section \<open>Scopes\<close>

definition scope_key :: "scope_type \<Rightarrow> string option \<Rightarrow> string option \<Rightarrow> string result" where
  "scope_key scope client location =
     (case (scope, client, location) of
        (GlobalScope, _, _) \<Rightarrow> Inr ''global''
      | (ClientScope, Some c, _) \<Rightarrow> Inr (''client:'' @ c)
      | (LocationScope, Some c, Some l) \<Rightarrow> Inr (''location:'' @ c @ '':'' @ l)
      | _ \<Rightarrow> Inl (unprocessable ''invalid fleet metadata scope''))"

definition optional_text :: "string option \<Rightarrow> string option" where
  "optional_text v = (case v of None \<Rightarrow> None | Some s \<Rightarrow> if strip s = [] then None else Some (strip s))"

definition require_requested_scope ::
  "db \<Rightarrow> principal \<Rightarrow> string \<Rightarrow> scope_type \<Rightarrow> string option \<Rightarrow> string option \<Rightarrow> string result" where
  "require_requested_scope db p permission scope client_id location_id =
     (if scope = GlobalScope then andThen (require_global_permission p permission) (\<lambda>_. Inr ''global'')
      else andThen (validate_scope_filter db client_id location_id) (\<lambda>(client, location).
      case client of
        None \<Rightarrow> Inl (unprocessable ''client scope is required'')
      | Some c \<Rightarrow>
          andThen (if scope = ClientScope
             then (case fetch cl_id c (db_clients db) of
                 None \<Rightarrow> Inl (not_found ''client not found'')
               | Some row \<Rightarrow> ensure (cl_state row \<noteq> HArchived) (conflict ''client must be active''))
             else (case location of
                 None \<Rightarrow> Inl (unprocessable ''location scope is required'')
               | Some l \<Rightarrow> andThen (load_scope db c l) (\<lambda>_. Inr ()))) (\<lambda>_.
          andThen (require_scope p permission c location True) (\<lambda>_.
          scope_key scope client location))))"

text \<open>Clauses over the scope type, client and location columns of a resource.\<close>

datatype resource_clause = RTrue | RFalse | RScoped scope_type clause | ROr "resource_clause list"

fun eval_resource :: "scope_type \<Rightarrow> string option \<Rightarrow> string option \<Rightarrow> resource_clause \<Rightarrow> bool option" where
  "eval_resource s c l RTrue = Some True"
| "eval_resource s c l RFalse = Some False"
| "eval_resource s c l (RScoped t cl) = sql_and (Some (s = t)) (eval_clause c l cl)"
| "eval_resource s c l (ROr cs) = foldr sql_or (map (eval_resource s c l) cs) (Some False)"

definition where_resource :: "resource_clause \<Rightarrow> scope_type \<Rightarrow> string option \<Rightarrow> string option \<Rightarrow> bool" where
  "where_resource cl s c l \<longleftrightarrow> eval_resource s c l cl = Some True"

fun resource_scope_loop :: "string \<Rightarrow> resource_clause list \<Rightarrow> scope_grant list \<Rightarrow> resource_clause" where
  "resource_scope_loop permission acc [] = (if acc \<noteq> [] then ROr acc else RFalse)"
| "resource_scope_loop permission acc (g # gs) =
     (if permission \<notin> sg_permissions g then resource_scope_loop permission acc gs
      else if sg_scope g = GlobalScope then RTrue
      else case sg_client g of
        None \<Rightarrow> resource_scope_loop permission acc gs
      | Some c \<Rightarrow>
          let acc = acc @ [RScoped ClientScope (CClient c)]
          in if sg_scope g = ClientScope
             then resource_scope_loop permission (acc @ [RScoped LocationScope (CClient c)]) gs
             else (case sg_location g of
                 Some l \<Rightarrow> resource_scope_loop permission (acc @ [RScoped LocationScope (CAnd (CClient c) (CLocation l))]) gs
               | None \<Rightarrow> resource_scope_loop permission acc gs))"

definition resource_scope_clause :: "principal \<Rightarrow> string \<Rightarrow> resource_clause" where
  "resource_scope_clause p permission = resource_scope_loop permission [] (p_grants p)"

definition selected_resource_scope_clause :: "string option \<Rightarrow> string option \<Rightarrow> resource_clause" where
  "selected_resource_scope_clause client_id location_id =
     (case client_id of
        None \<Rightarrow> RTrue
      | Some c \<Rightarrow>
          ROr [RScoped ClientScope (CClient c),
            RScoped LocationScope (case location_id of None \<Rightarrow> CClient c | Some l \<Rightarrow> CAnd (CClient c) (CLocation l))])"

text \<open>\<open>_owner_clause\<close> on a row; a missing owner is \<open>NULL\<close>, which equals nothing.\<close>

definition owner_clause :: "principal \<Rightarrow> view_row \<Rightarrow> bool" where
  "owner_clause p v \<longleftrightarrow> vw_owner_actor v = p_subject p \<or>
     (case p_user p of None \<Rightarrow> False | Some u \<Rightarrow> vw_owner_user v = Some u)"

definition is_owner :: "principal \<Rightarrow> view_row \<Rightarrow> bool" where
  "is_owner p v \<longleftrightarrow> vw_owner_actor v = p_subject p \<or>
     (p_user p \<noteq> None \<and> vw_owner_user v \<noteq> None \<and> vw_owner_user v = p_user p)"

definition load_endpoint_for_metadata :: "db \<Rightarrow> principal \<Rightarrow> string \<Rightarrow> string \<Rightarrow> endpoint_row result" where
  "load_endpoint_for_metadata db p permission endpoint_id =
     (case visible_endpoint p permission endpoint_id db of
        None \<Rightarrow> Inl (not_found ''endpoint not found'')
      | Some e \<Rightarrow> Inr e)"

section \<open>Tags\<close>

record tag_in =
  ti_scope :: scope_type
  ti_client :: "string option"
  ti_location :: "string option"
  ti_name :: string
  ti_description :: "string option"

definition id_field_valid :: "string option \<Rightarrow> bool" where
  "id_field_valid v = (case v of None \<Rightarrow> True | Some s \<Rightarrow> length s \<in> {1..64})"

text \<open>\<open>ScopedFleetResourceRequest\<close> with its validator.\<close>

definition scope_shape_valid :: "scope_type \<Rightarrow> string option \<Rightarrow> string option \<Rightarrow> bool" where
  "scope_shape_valid scope client location \<longleftrightarrow> id_field_valid client \<and> id_field_valid location \<and>
     (case scope of
        GlobalScope \<Rightarrow> client = None \<and> location = None
      | ClientScope \<Rightarrow> client \<noteq> None \<and> location = None
      | LocationScope \<Rightarrow> client \<noteq> None \<and> location \<noteq> None)"

definition named_valid :: "string \<Rightarrow> string option \<Rightarrow> bool" where
  "named_valid name description \<longleftrightarrow> length name \<in> {1..128} \<and>
     (case description of None \<Rightarrow> True | Some d \<Rightarrow> length d \<le> 1024)"

definition tag_in_valid :: "tag_in \<Rightarrow> bool" where
  "tag_in_valid t \<longleftrightarrow> scope_shape_valid (ti_scope t) (ti_client t) (ti_location t) \<and> named_valid (ti_name t) (ti_description t)"

definition selected_scope :: "db \<Rightarrow> principal \<Rightarrow> string \<Rightarrow> string option \<Rightarrow> string option \<Rightarrow> (string option \<times> string option) result" where
  "selected_scope db p permission client_id location_id =
     andThen (validate_scope_filter db client_id location_id) (\<lambda>(client, location).
     andThen (case client of None \<Rightarrow> Inr () | Some c \<Rightarrow> require_scope p permission c location True) (\<lambda>_.
     Inr (client, location)))"

definition list_tags :: "principal \<Rightarrow> string option \<Rightarrow> string option \<Rightarrow> db \<Rightarrow> tag_row list result" where
  "list_tags p client_id location_id db =
     andThen (require_permission ''tag.read'' p) (\<lambda>p.
     andThen (selected_scope db p ''tag.read'' client_id location_id) (\<lambda>(client, location).
     Inr (order_by (\<lambda>t. (tg_name_normalized t, tg_id t)) (filter (\<lambda>t.
       where_resource (resource_scope_clause p ''tag.read'') (tg_scope t) (tg_client t) (tg_location t) \<and>
       where_resource (selected_resource_scope_clause client location) (tg_scope t) (tg_client t) (tg_location t)) (db_tags db)))))"

definition create_tag :: "(nat \<Rightarrow> string) \<Rightarrow> nat \<Rightarrow> principal \<Rightarrow> tag_in \<Rightarrow> db \<Rightarrow> db \<times> tag_row result" where
  "create_tag draw now p payload db = transaction db (
     andThen (require_permission ''tag.manage'' p) (\<lambda>p.
     andThen (ensure (tag_in_valid payload) (unprocessable ''request validation'')) (\<lambda>_.
     andThen (normalize_required_string (ti_name payload) ''name'') (\<lambda>name.
     let now_str = strftime_z now in
     andThen (require_requested_scope db p ''tag.manage'' (ti_scope payload) (ti_client payload) (ti_location payload)) (\<lambda>key.
     let t = \<lparr>tg_id = generate_prefixed_id ''tag'' (draw 0), tg_name = name, tg_name_normalized = casefold name,
           tg_description = optional_text (ti_description payload), tg_scope = ti_scope payload, tg_scope_key = key,
           tg_client = ti_client payload, tg_location = ti_location payload, tg_created_by = audit_actor p,
           tg_created_at = now_str, tg_updated_at = now_str\<rparr>
     in andThen (on_integrity_error (conflict ''tag name already exists in scope'') (insert_tag t db)) (\<lambda>db.
        andThen (record_audit_event (draw 1) now_str
          ((audit_call_of ''tag_created'')\<lparr>ax_principal := Some p, ax_client := tg_client t, ax_location := tg_location t,
             ax_target_type := Some ''tag'', ax_target_id := Some (tg_id t),
             ax_metadata := [(''scope_type'', JStr (scope_type_value (tg_scope t))), (''name'', JStr (tg_name t))],
             ax_created_at := Some now_str\<rparr>) db) (\<lambda>db.
        Inr (db, t))))))))"

section \<open>Tag assignments\<close>

type_synonym endpoint_tag = "tag_row \<times> string \<times> string"

definition endpoint_tag_payload :: "tag_row \<Rightarrow> assignment_row \<Rightarrow> endpoint_tag" where
  "endpoint_tag_payload t a = (t, ta_assigned_by a, ta_assigned_at a)"

definition list_endpoint_tags :: "principal \<Rightarrow> string \<Rightarrow> db \<Rightarrow> endpoint_tag list result" where
  "list_endpoint_tags p raw_endpoint_id db =
     andThen (require_permission ''tag.read'' p) (\<lambda>p.
     andThen (normalize_required_string raw_endpoint_id ''endpoint_id'') (\<lambda>endpoint_id.
     andThen (load_endpoint_for_metadata db p ''tag.read'' endpoint_id) (\<lambda>e.
     Inr (map (\<lambda>(t, a). endpoint_tag_payload t a) (order_by (\<lambda>(t, a). (tg_name_normalized t, tg_id t))
       [(t, a). t \<leftarrow> db_tags db, a \<leftarrow> db_assignments db, ta_tag a = tg_id t \<and> ta_endpoint a = ep_id e
          \<and> ta_client a = ep_client e \<and> ta_location a = ep_location e])))))"

text \<open>The scope keys of the tags an endpoint may carry.\<close>

definition endpoint_scope_keys :: "endpoint_row \<Rightarrow> string list" where
  "endpoint_scope_keys e = [''global'', ''client:'' @ ep_client e, ''location:'' @ ep_client e @ '':'' @ ep_location e]"

definition assignable_tag :: "principal \<Rightarrow> endpoint_row \<Rightarrow> string \<Rightarrow> db \<Rightarrow> tag_row option" where
  "assignable_tag p e tag_id db = List.find (\<lambda>t. tg_id t = tag_id \<and>
     where_resource (resource_scope_clause p ''tag.manage'') (tg_scope t) (tg_client t) (tg_location t) \<and>
     tg_scope_key t \<in> set (endpoint_scope_keys e)) (db_tags db)"

definition assign_endpoint_tag ::
  "(nat \<Rightarrow> string) \<Rightarrow> nat \<Rightarrow> principal \<Rightarrow> string \<Rightarrow> string \<Rightarrow> db \<Rightarrow> db \<times> endpoint_tag result" where
  "assign_endpoint_tag draw now p raw_endpoint_id raw_tag_id db = transaction db (
     andThen (require_permission ''tag.manage'' p) (\<lambda>p.
     andThen (ensure (length raw_tag_id \<in> {1..64}) (unprocessable ''request validation'')) (\<lambda>_.
     andThen (normalize_required_string raw_endpoint_id ''endpoint_id'') (\<lambda>endpoint_id.
     andThen (normalize_required_string raw_tag_id ''tag_id'') (\<lambda>tag_id.
     let now_str = strftime_z now in
     andThen (load_endpoint_for_metadata db p ''tag.manage'' endpoint_id) (\<lambda>e.
     case assignable_tag p e tag_id db of
       None \<Rightarrow> Inl (not_found ''tag not found'')
     | Some t \<Rightarrow>
       (case fetch (\<lambda>a. (ta_endpoint a, ta_tag a)) (ep_id e, tg_id t) (db_assignments db) of
          Some a \<Rightarrow> Inr (db, endpoint_tag_payload t a)
        | None \<Rightarrow>
          let a = \<lparr>ta_endpoint = ep_id e, ta_tag = tg_id t, ta_client = ep_client e, ta_location = ep_location e,
                ta_scope_key = tg_scope_key t, ta_assigned_by = audit_actor p, ta_assigned_at = now_str\<rparr>
          in andThen (insert_assignment a db) (\<lambda>db.
             andThen (record_audit_event (draw 0) now_str
               ((audit_call_of ''endpoint_tag_assigned'')\<lparr>ax_principal := Some p, ax_client := Some (ep_client e),
                  ax_location := Some (ep_location e), ax_endpoint := Some (ep_id e), ax_target_type := Some ''tag'',
                  ax_target_id := Some (tg_id t), ax_created_at := Some now_str\<rparr>) db) (\<lambda>db.
             Inr (db, endpoint_tag_payload t a))))))))))"

definition remove_endpoint_tag ::
  "(nat \<Rightarrow> string) \<Rightarrow> nat \<Rightarrow> principal \<Rightarrow> string \<Rightarrow> string \<Rightarrow> db \<Rightarrow> db \<times> unit result" where
  "remove_endpoint_tag draw now p raw_endpoint_id raw_tag_id db = transaction db (
     andThen (require_permission ''tag.manage'' p) (\<lambda>p.
     andThen (normalize_required_string raw_endpoint_id ''endpoint_id'') (\<lambda>endpoint_id.
     andThen (normalize_required_string raw_tag_id ''tag_id'') (\<lambda>tag_id.
     let now_str = strftime_z now in
     andThen (load_endpoint_for_metadata db p ''tag.manage'' endpoint_id) (\<lambda>e.
     if fetch (\<lambda>a. (ta_endpoint a, ta_tag a)) (ep_id e, tag_id) (db_assignments db) = None
     then Inl (not_found ''tag assignment not found'')
     else let db = db\<lparr>db_assignments := filter (\<lambda>a. (ta_endpoint a, ta_tag a) \<noteq> (ep_id e, tag_id)) (db_assignments db)\<rparr>
       in andThen (record_audit_event (draw 0) now_str
            ((audit_call_of ''endpoint_tag_removed'')\<lparr>ax_principal := Some p, ax_client := Some (ep_client e),
               ax_location := Some (ep_location e), ax_endpoint := Some (ep_id e), ax_target_type := Some ''tag'',
               ax_target_id := Some tag_id, ax_created_at := Some now_str\<rparr>) db) (\<lambda>db. Inr (db, ())))))))"

section \<open>Saved views\<close>

definition current_view_version :: "db \<Rightarrow> view_row \<Rightarrow> view_version_row result" where
  "current_view_version db v =
     (case fetch (\<lambda>x. (vv_view x, vv_version x)) (vw_id v, vw_current_version v) (db_view_versions db) of
        None \<Rightarrow> Inl (RuntimeError ''saved view current version is missing'')
      | Some version \<Rightarrow> Inr version)"

text \<open>The view, its current filter read back through the schema, and the hash.\<close>

type_synonym view_payload = "view_row \<times> endpoint_filter \<times> string"

definition saved_view_payload :: "db \<Rightarrow> view_row \<Rightarrow> view_payload result" where
  "saved_view_payload db v =
     andThen (current_view_version db v) (\<lambda>version.
     andThen (validate_filter (vv_filter version)) (\<lambda>f. Inr (v, f, vv_hash version)))"

definition view_shown :: "principal \<Rightarrow> string \<Rightarrow> view_row \<Rightarrow> bool" where
  "view_shown p permission v \<longleftrightarrow>
     where_resource (resource_scope_clause p permission) (vw_scope v) (vw_client v) (vw_location v) \<and>
     (vw_visibility v = Shared \<or> owner_clause p v)"

definition list_saved_views :: "principal \<Rightarrow> string option \<Rightarrow> string option \<Rightarrow> db \<Rightarrow> view_payload list result" where
  "list_saved_views p client_id location_id db =
     andThen (require_permission ''saved_view.read'' p) (\<lambda>p.
     andThen (selected_scope db p ''saved_view.read'' client_id location_id) (\<lambda>(client, location).
     traverse (saved_view_payload db) (order_by (\<lambda>v. (vw_name_normalized v, vw_id v)) (filter (\<lambda>v.
       view_shown p ''saved_view.read'' v \<and>
       where_resource (selected_resource_scope_clause client location) (vw_scope v) (vw_client v) (vw_location v)) (db_views db)))))"

record view_in =
  vi_scope :: scope_type
  vi_client :: "string option"
  vi_location :: "string option"
  vi_name :: string
  vi_description :: "string option"
  vi_visibility :: visibility
  vi_filter :: endpoint_filter

text \<open>The body of a request, its filter as the schema leaves it.\<close>

definition request_filter :: "endpoint_filter \<Rightarrow> endpoint_filter result" where
  "request_filter f = (case validate_filter f of Inl _ \<Rightarrow> Inl (unprocessable ''request validation'') | Inr f' \<Rightarrow> Inr f')"

definition create_saved_view ::
  "(nat list \<Rightarrow> nat list) \<Rightarrow> (nat \<Rightarrow> string) \<Rightarrow> nat \<Rightarrow> principal \<Rightarrow> view_in \<Rightarrow> db \<Rightarrow> db \<times> view_payload result" where
  "create_saved_view sha draw now p payload db = transaction db (
     andThen (require_permission ''saved_view.manage'' p) (\<lambda>p.
     andThen (ensure (scope_shape_valid (vi_scope payload) (vi_client payload) (vi_location payload) \<and>
         named_valid (vi_name payload) (vi_description payload)) (unprocessable ''request validation'')) (\<lambda>_.
     andThen (request_filter (vi_filter payload)) (\<lambda>body_filter.
     andThen (normalize_required_string (vi_name payload) ''name'') (\<lambda>name.
     let (filter_body, content_hash) = canonical_filter sha body_filter; now_str = strftime_z now in
     andThen (require_requested_scope db p ''saved_view.manage'' (vi_scope payload) (vi_client payload) (vi_location payload)) (\<lambda>key.
     let v = \<lparr>vw_id = generate_prefixed_id ''view'' (draw 0), vw_name = name, vw_name_normalized = casefold name,
           vw_description = optional_text (vi_description payload), vw_visibility = vi_visibility payload,
           vw_scope = vi_scope payload, vw_scope_key = key, vw_client = vi_client payload, vw_location = vi_location payload,
           vw_owner_user = p_user p, vw_owner_actor = audit_actor p, vw_current_version = 1, vw_created_at = now_str,
           vw_updated_at = now_str\<rparr>
     in andThen (on_integrity_error (conflict ''saved view name already exists in scope'') (insert_view v db)) (\<lambda>db.
        andThen (insert_view_version \<lparr>vv_view = vw_id v, vv_version = 1, vv_filter = filter_body, vv_hash = content_hash,
          vv_created_by = audit_actor p, vv_created_at = now_str\<rparr> db) (\<lambda>db.
        andThen (record_audit_event (draw 1) now_str
          ((audit_call_of ''saved_view_created'')\<lparr>ax_principal := Some p, ax_client := vw_client v, ax_location := vw_location v,
             ax_target_type := Some ''saved_view'', ax_target_id := Some (vw_id v),
             ax_metadata := [(''version'', JInt 1), (''filter_hash'', JStr content_hash)], ax_created_at := Some now_str\<rparr>) db) (\<lambda>db.
        andThen (saved_view_payload db v) (\<lambda>out. Inr (db, out)))))))))))"

definition update_saved_view ::
  "(nat list \<Rightarrow> nat list) \<Rightarrow> (nat \<Rightarrow> string) \<Rightarrow> nat \<Rightarrow> principal \<Rightarrow> string \<Rightarrow> endpoint_filter \<Rightarrow> db \<Rightarrow> db \<times> view_payload result" where
  "update_saved_view sha draw now p raw_view_id new_filter db = transaction db (
     andThen (require_permission ''saved_view.manage'' p) (\<lambda>p.
     andThen (request_filter new_filter) (\<lambda>body_filter.
     andThen (normalize_required_string raw_view_id ''saved_view_id'') (\<lambda>view_id.
     let (filter_body, content_hash) = canonical_filter sha body_filter; now_str = strftime_z now in
     case List.find (\<lambda>v. vw_id v = view_id \<and>
         where_resource (resource_scope_clause p ''saved_view.manage'') (vw_scope v) (vw_client v) (vw_location v)) (db_views db) of
       None \<Rightarrow> Inl (not_found ''saved view not found'')
     | Some v \<Rightarrow>
       if \<not> is_owner p v then Inl (not_found ''saved view not found'')
       else andThen (current_view_version db v) (\<lambda>current.
       if vv_hash current = content_hash then andThen (saved_view_payload db v) (\<lambda>out. Inr (db, out))
       else let next_version = vw_current_version v + 1;
                v' = v\<lparr>vw_current_version := next_version, vw_updated_at := now_str\<rparr>
         in andThen (insert_view_version \<lparr>vv_view = vw_id v, vv_version = next_version, vv_filter = filter_body,
              vv_hash = content_hash, vv_created_by = audit_actor p, vv_created_at = now_str\<rparr> db) (\<lambda>db.
            let db = db\<lparr>db_views := save vw_id v' (db_views db)\<rparr>
            in andThen (record_audit_event (draw 0) now_str
                 ((audit_call_of ''saved_view_version_created'')\<lparr>ax_principal := Some p, ax_client := vw_client v,
                    ax_location := vw_location v, ax_target_type := Some ''saved_view'', ax_target_id := Some (vw_id v),
                    ax_metadata := [(''version'', JInt next_version), (''filter_hash'', JStr content_hash)],
                    ax_created_at := Some now_str\<rparr>) db) (\<lambda>db.
               andThen (saved_view_payload db v') (\<lambda>out. Inr (db, out)))))))))"

section \<open>Dynamic groups\<close>

type_synonym group_payload = "group_row \<times> int \<times> string"

definition dynamic_group_payload :: "db \<Rightarrow> group_row \<Rightarrow> group_payload result" where
  "dynamic_group_payload db g =
     (case fetch vw_id (dg_view g) (db_views db) of
        None \<Rightarrow> Inl (RuntimeError ''dynamic group saved view is missing'')
      | Some v \<Rightarrow> andThen (current_view_version db v) (\<lambda>version. Inr (g, vw_current_version v, vv_hash version)))"

definition list_dynamic_groups :: "principal \<Rightarrow> string option \<Rightarrow> string option \<Rightarrow> db \<Rightarrow> group_payload list result" where
  "list_dynamic_groups p client_id location_id db =
     andThen (require_permission ''dynamic_group.read'' p) (\<lambda>p.
     andThen (selected_scope db p ''dynamic_group.read'' client_id location_id) (\<lambda>(client, location).
     traverse (dynamic_group_payload db) (order_by (\<lambda>g. (dg_name_normalized g, dg_id g)) (filter (\<lambda>g.
       where_resource (resource_scope_clause p ''dynamic_group.read'') (dg_scope g) (dg_client g) (dg_location g) \<and>
       where_resource (selected_resource_scope_clause client location) (dg_scope g) (dg_client g) (dg_location g)) (db_groups db)))))"

record group_in =
  gi_name :: string
  gi_description :: "string option"
  gi_view :: string

definition create_dynamic_group ::
  "(nat \<Rightarrow> string) \<Rightarrow> nat \<Rightarrow> principal \<Rightarrow> group_in \<Rightarrow> db \<Rightarrow> db \<times> group_payload result" where
  "create_dynamic_group draw now p payload db = transaction db (
     andThen (require_permission ''dynamic_group.manage'' p) (\<lambda>p.
     andThen (ensure (named_valid (gi_name payload) (gi_description payload) \<and> length (gi_view payload) \<in> {1..64})
       (unprocessable ''request validation'')) (\<lambda>_.
     andThen (normalize_required_string (gi_name payload) ''name'') (\<lambda>name.
     andThen (normalize_required_string (gi_view payload) ''saved_view_id'') (\<lambda>view_id.
     let now_str = strftime_z now in
     case List.find (\<lambda>v. vw_id v = view_id \<and> view_shown p ''saved_view.read'' v) (db_views db) of
       None \<Rightarrow> Inl (not_found ''saved view not found'')
     | Some v \<Rightarrow>
       andThen (require_requested_scope db p ''dynamic_group.manage'' (vw_scope v) (vw_client v) (vw_location v)) (\<lambda>_.
       let g = \<lparr>dg_id = generate_prefixed_id ''grp'' (draw 0), dg_name = name, dg_name_normalized = casefold name,
             dg_description = optional_text (gi_description payload), dg_scope = vw_scope v, dg_scope_key = vw_scope_key v,
             dg_client = vw_client v, dg_location = vw_location v, dg_view = vw_id v, dg_owner_user = p_user p,
             dg_owner_actor = audit_actor p, dg_created_at = now_str, dg_updated_at = now_str\<rparr>
       in andThen (on_integrity_error (conflict ''dynamic group name already exists in scope'') (insert_group g db)) (\<lambda>db.
          andThen (current_view_version db v) (\<lambda>version.
          andThen (record_audit_event (draw 1) now_str
            ((audit_call_of ''dynamic_group_created'')\<lparr>ax_principal := Some p, ax_client := dg_client g,
               ax_location := dg_location g, ax_target_type := Some ''dynamic_group'', ax_target_id := Some (dg_id g),
               ax_metadata := [(''saved_view_id'', JStr (dg_view g)), (''saved_view_version'', JInt (vw_current_version v)),
                 (''filter_hash'', JStr (vv_hash version))], ax_created_at := Some now_str\<rparr>) db) (\<lambda>db.
          andThen (dynamic_group_payload db g) (\<lambda>out. Inr (db, out)))))))))))"

section \<open>Previews\<close>

definition max_group_evaluation_endpoints :: nat where
  "max_group_evaluation_endpoints = 10000"

definition endpoint_scope_clause :: "group_row \<Rightarrow> clause" where
  "endpoint_scope_clause g =
     (case (dg_scope g, dg_client g, dg_location g) of
        (GlobalScope, _, _) \<Rightarrow> CTrue
      | (ClientScope, Some c, _) \<Rightarrow> CClient c
      | (LocationScope, Some c, Some l) \<Rightarrow> CAnd (CClient c) (CLocation l)
      | _ \<Rightarrow> CFalse)"

fun endpoint_status_value :: "endpoint_status \<Rightarrow> string" where
  "endpoint_status_value EpPending = ''pending''"
| "endpoint_status_value EpActive = ''active''"
| "endpoint_status_value EpStale = ''stale''"

fun connectivity_value :: "connectivity \<Rightarrow> string" where
  "connectivity_value Online = ''online''"
| "connectivity_value Degraded = ''degraded''"

text \<open>\<open>getattr(endpoint, field)\<close> as text; tags are not an attribute.\<close>

fun endpoint_attribute :: "endpoint_row \<Rightarrow> filter_field \<Rightarrow> string option" where
  "endpoint_attribute e FieldEndpointId = Some (ep_id e)"
| "endpoint_attribute e FieldHostname = Some (ep_hostname e)"
| "endpoint_attribute e FieldPlatform = Some (platform_value (ep_platform e))"
| "endpoint_attribute e FieldStatus = Some (endpoint_status_value (ep_status e))"
| "endpoint_attribute e FieldConnectivity = map_option connectivity_value (ep_connectivity e)"
| "endpoint_attribute e FieldAgentVersion = Some (ep_agent_version e)"
| "endpoint_attribute e FieldClientId = Some (ep_client e)"
| "endpoint_attribute e FieldLocationId = Some (ep_location e)"
| "endpoint_attribute e FieldTag = None"

definition rule_values :: "endpoint_row \<Rightarrow> filter_rule \<Rightarrow> string list \<Rightarrow> string list" where
  "rule_values e r tags =
     (if fr_field r = FieldTag then sort (remdups tags)
      else case endpoint_attribute e (fr_field r) of None \<Rightarrow> [''unknown''] | Some v \<Rightarrow> [casefold v])"

definition matches_rule :: "endpoint_row \<Rightarrow> filter_rule \<Rightarrow> string list \<Rightarrow> bool" where
  "matches_rule e r tags =
     (let actual = rule_values e r tags; expected = map casefold (value_list (fr_value r))
      in case fr_operator r of
           OpEq \<Rightarrow> expected ! 0 \<in> set actual
         | OpNeq \<Rightarrow> expected ! 0 \<notin> set actual
         | OpIn \<Rightarrow> list_ex (\<lambda>v. v \<in> set expected) actual
         | OpContains \<Rightarrow> list_ex (\<lambda>v. contains_text (expected ! 0) v) actual
         | OpStartsWith \<Rightarrow> list_ex (\<lambda>v. startswith v (expected ! 0)) actual)"

definition matches_filter :: "endpoint_row \<Rightarrow> endpoint_filter \<Rightarrow> string list \<Rightarrow> bool" where
  "matches_filter e f tags =
     (let results = map (\<lambda>r. matches_rule e r tags) (ef_rules f)
      in if ef_match f = MatchAll then list_all id results else list_ex id results)"

text \<open>The join of assignments and tags, and the set the loop collects for one endpoint.\<close>

definition tag_rows :: "string list \<Rightarrow> db \<Rightarrow> (string \<times> string \<times> string) list" where
  "tag_rows endpoint_ids db =
     [(ta_endpoint a, tg_id t, tg_name t). a \<leftarrow> db_assignments db, t \<leftarrow> db_tags db,
        tg_id t = ta_tag a \<and> ta_endpoint a \<in> set endpoint_ids]"

definition tags_of_endpoint :: "(string \<times> string \<times> string) list \<Rightarrow> string \<Rightarrow> string list" where
  "tags_of_endpoint rows endpoint_id =
     concat (map (\<lambda>(e, k, name). if e = endpoint_id then [casefold k, casefold name] else []) rows)"

record group_member =
  gm_id :: string
  gm_hostname :: string
  gm_platform :: platform
  gm_status :: endpoint_status
  gm_connectivity :: "connectivity option"
  gm_client :: string
  gm_location :: string

definition member_payload :: "endpoint_row \<Rightarrow> group_member" where
  "member_payload e = \<lparr>gm_id = ep_id e, gm_hostname = ep_hostname e, gm_platform = ep_platform e, gm_status = ep_status e,
     gm_connectivity = ep_connectivity e, gm_client = ep_client e, gm_location = ep_location e\<rparr>"

record group_preview =
  pv_group :: string
  pv_view :: string
  pv_version :: int
  pv_hash :: string
  pv_evaluated :: nat
  pv_matched :: nat
  pv_limit :: nat
  pv_truncated :: bool
  pv_items :: "group_member list"

definition preview_dynamic_group :: "principal \<Rightarrow> string \<Rightarrow> nat \<Rightarrow> db \<Rightarrow> group_preview result" where
  "preview_dynamic_group p raw_group_id limit db =
     andThen (require_permission ''dynamic_group.read'' p) (\<lambda>p.
     andThen (ensure (1 \<le> limit \<and> limit \<le> 500) (unprocessable ''request validation'')) (\<lambda>_.
     andThen (normalize_required_string raw_group_id ''dynamic_group_id'') (\<lambda>group_id.
     if \<not> has_permission p ''endpoint.read'' then Inl (HTTPException 403 ''endpoint read permission is required'')
     else case List.find (\<lambda>g. dg_id g = group_id \<and>
         where_resource (resource_scope_clause p ''dynamic_group.read'') (dg_scope g) (dg_client g) (dg_location g)) (db_groups db) of
       None \<Rightarrow> Inl (not_found ''dynamic group not found'')
     | Some g \<Rightarrow>
       (case fetch vw_id (dg_view g) (db_views db) of
          None \<Rightarrow> Inl (RuntimeError ''dynamic group saved view is missing'')
        | Some v \<Rightarrow>
          andThen (current_view_version db v) (\<lambda>version.
          andThen (validate_filter (vv_filter version)) (\<lambda>definition_of_view.
          let endpoints = take (max_group_evaluation_endpoints + 1) (order_by ep_id (filter (\<lambda>e.
                where_clause (endpoint_scope_clause g) (Some (ep_client e)) (Some (ep_location e)) \<and>
                where_clause (scope_clause p ''endpoint.read'') (Some (ep_client e)) (Some (ep_location e))) (db_endpoints db)))
          in if max_group_evaluation_endpoints < length endpoints
             then Inl (HTTPException 413 ''authorized preview scope exceeds the endpoint evaluation limit'')
             else let rows = tag_rows (map ep_id endpoints) db;
                      matching = filter (\<lambda>e. matches_filter e definition_of_view (tags_of_endpoint rows (ep_id e))) endpoints
               in Inr \<lparr>pv_group = dg_id g, pv_view = vw_id v, pv_version = vw_current_version v, pv_hash = vv_hash version,
                    pv_evaluated = length endpoints, pv_matched = length matching, pv_limit = limit,
                    pv_truncated = (limit < length matching), pv_items = map member_payload (take limit matching)\<rparr>))))))"


end
