(* ===== verification/Metadata_Contract.thy ===== *)
theory Metadata_Contract
  imports Fleet_Metadata Session_Lifecycle Action_Lifecycle "HOL-Library.Sublist"
begin

text \<open>
  What the fleet metadata API promises: whom its resources are shown to, what a preview counts, what becomes of an
  update, and the contract that every call keeps on tags, views, versions and groups.
\<close>

section \<open>Who sees a resource\<close>

lemma resource_scope_loop_true:
  "eval_resource s c l (resource_scope_loop permission acc gs) = Some True \<longleftrightarrow>
     (\<exists>a\<in>set acc. eval_resource s c l a = Some True) \<or>
     (\<exists>g\<in>set gs. permission \<in> sg_permissions g \<and> (sg_scope g = GlobalScope \<or> s = ClientScope \<and> c \<noteq> None \<and> sg_client g = c \<or>
        s = LocationScope \<and> permits g permission c l))"
proof (induction gs arbitrary: acc)
  case Nil
  then show ?case by (auto simp: foldr_sql_or_true some_true_image)
next
  case (Cons g gs)
  show ?case
  proof (cases "permission \<in> sg_permissions g \<and> sg_scope g \<noteq> GlobalScope")
    case False
    then show ?thesis by (auto simp: Cons.IH)
  next
    case True
    then show ?thesis
      by (cases "sg_scope g"; cases "sg_client g"; cases "sg_location g") (auto simp: Cons.IH permits_def Let_def)
  qed
qed

lemma where_resource_true:
  "where_resource (resource_scope_clause p permission) s c l \<longleftrightarrow>
     (\<exists>g\<in>set (p_grants p). permission \<in> sg_permissions g \<and> (sg_scope g = GlobalScope \<or> s = ClientScope \<and> c \<noteq> None \<and> sg_client g = c \<or>
        s = LocationScope \<and> permits g permission c l))"
  by (simp add: where_resource_def resource_scope_clause_def resource_scope_loop_true)

text \<open>
  The filter on fleet resources follows the three authority checks of the program: a global resource is shown to
  global grants only, a client's resource to whoever is shown that client, and a location's resource to whoever may act
  on that location.
\<close>

theorem resource_scope_clause_follows_authority:
  "where_resource (resource_scope_clause p permission) scope client location \<longleftrightarrow>
     (case scope of
        GlobalScope \<Rightarrow> has_global_permission p permission
      | ClientScope \<Rightarrow> where_clause (client_scope_clause p permission) client None
      | LocationScope \<Rightarrow> permits_scope p permission client location)"
proof (cases scope)
  case GlobalScope
  then show ?thesis by (auto simp: where_resource_true has_global_permission_def list_ex_iff)
next
  case LocationScope
  have "permits g permission client location \<longleftrightarrow> permission \<in> sg_permissions g \<and> (sg_scope g = GlobalScope \<or> permits g permission client location)" for g
    by (auto simp: permits_def)
  then show ?thesis using LocationScope by (auto simp: where_resource_true permits_scope_def list_ex_iff)
next
  case ClientScope
  have none: "foldr sql_or (map (sql_eq None) vs) (Some False) \<noteq> Some True" for vs
    by (simp add: foldr_sql_or_true some_true_image)
  have "eval_clause None None (client_scope_loop permission ids gs) = Some True \<longleftrightarrow>
      (\<exists>g\<in>set gs. permission \<in> sg_permissions g \<and> sg_scope g = GlobalScope)" for ids gs
    by (induction gs arbitrary: ids) (auto simp: none split: option.splits)
  then show ?thesis
    using ClientScope client_scope_clause_lists[of p permission]
    by (cases client) (auto simp: where_resource_true where_clause_def client_scope_clause_def)
qed

section \<open>Filters\<close>

lemma validate_rule_Inr:
  assumes "validate_rule r = Inr r'"
  shows "fr_field r' = fr_field r \<and> fr_operator r' = fr_operator r \<and> fr_operator r \<in> set (allowed_operators (fr_field r)) \<and>
    value_list (fr_value r') = map strip (value_list (fr_value r)) \<and> value_list (fr_value r') \<noteq> [] \<and>
    is_many (fr_value r') = is_many (fr_value r) \<and> (\<forall>v\<in>set (value_list (fr_value r')). v \<noteq> [] \<and> length v \<le> 255)"
proof (cases "fr_value r")
  case (One v)
  then show ?thesis using assms by (auto simp: validate_rule_def Let_def split: if_splits)
next
  case (Many vs)
  then show ?thesis using assms by (auto simp: validate_rule_def Let_def list_ex_iff not_less split: if_splits) metis
qed

text \<open>Reading a stored filter back changes nothing.\<close>

lemma validate_rule_idem:
  assumes "validate_rule r = Inr r'"
  shows "validate_rule r' = Inr r'"
proof (cases "fr_value r")
  case (One v)
  then show ?thesis using assms by (auto simp: validate_rule_def Let_def split: if_splits)
next
  case (Many vs)
  have "map (strip \<circ> strip) vs = map strip vs" by simp
  then show ?thesis using assms Many by (auto simp: validate_rule_def Let_def list_ex_iff split: if_splits)
qed

lemma validate_filter_idem:
  assumes "validate_filter f = Inr f'"
  shows "validate_filter f' = Inr f'"
proof -
  obtain rules where rules: "traverse validate_rule (ef_rules f) = Inr rules" "length rules \<in> {1..16}" "f' = f\<lparr>ef_rules := rules\<rparr>"
    using assms by (auto simp: validate_filter_def andThen_eq_Inr split: if_splits)
  have "traverse validate_rule rules = Inr rules"
    using rules(1) validate_rule_idem by (auto simp: traverse_eq_Inr list_all2_conv_all_nth)
  then show ?thesis using rules by (simp add: validate_filter_def)
qed

lemma request_filter_Inr: "request_filter f = Inr f' \<longleftrightarrow> validate_filter f = Inr f'"
  by (auto simp: request_filter_def split: sum.splits)

section \<open>What a filter means\<close>

text \<open>The values a field has on an endpoint, and a rule as a relation between values, all in folded case.\<close>

definition field_values :: "endpoint_row \<Rightarrow> string set \<Rightarrow> filter_field \<Rightarrow> string set" where
  "field_values e tags field =
     (if field = FieldTag then tags else {case endpoint_attribute e field of None \<Rightarrow> ''unknown'' | Some v \<Rightarrow> casefold v})"

definition rule_holds :: "endpoint_row \<Rightarrow> string set \<Rightarrow> filter_rule \<Rightarrow> bool" where
  "rule_holds e tags r \<longleftrightarrow>
     (let actual = field_values e tags (fr_field r); wanted = casefold ` set (value_list (fr_value r))
      in case fr_operator r of
           OpEq \<Rightarrow> wanted \<inter> actual \<noteq> {}
         | OpIn \<Rightarrow> wanted \<inter> actual \<noteq> {}
         | OpNeq \<Rightarrow> wanted \<inter> actual = {}
         | OpContains \<Rightarrow> \<exists>w\<in>wanted. \<exists>a\<in>actual. sublist w a
         | OpStartsWith \<Rightarrow> \<exists>w\<in>wanted. \<exists>a\<in>actual. prefix w a)"

definition filter_holds :: "endpoint_row \<Rightarrow> string set \<Rightarrow> endpoint_filter \<Rightarrow> bool" where
  "filter_holds e tags f \<longleftrightarrow>
     (if ef_match f = MatchAll then \<forall>r\<in>set (ef_rules f). rule_holds e tags r else \<exists>r\<in>set (ef_rules f). rule_holds e tags r)"

lemma startswith_prefix: "startswith s p \<longleftrightarrow> prefix p s"
  by (metis append_eq_conv_conj append_take_drop_id prefixE prefixI startswith_def)

lemma contains_text_sublist: "contains_text w s \<longleftrightarrow> sublist w s"
proof
  assume "contains_text w s"
  then obtain i where "take (length w) (drop i s) = w" by (auto simp: contains_text_def list_ex_iff)
  then have "s = take i s @ w @ drop (length w) (drop i s)" by (metis append_take_drop_id)
  then show "sublist w s" unfolding sublist_def by blast
next
  assume "sublist w s"
  then obtain ps ss where s: "s = ps @ w @ ss" by (auto simp: sublist_def)
  then have "take (length w) (drop (length ps) s) = w" "length ps < Suc (length s)" by simp_all
  then show "contains_text w s" unfolding contains_text_def list_ex_iff by (intro bexI[of _ "length ps"]) auto
qed

lemma set_rule_values: "set (rule_values e r tags) = field_values e (set tags) (fr_field r)"
  by (auto simp: rule_values_def field_values_def split: option.splits)

lemma matches_rule_holds:
  assumes "validate_rule r = Inr r"
  shows "matches_rule e r tags \<longleftrightarrow> rule_holds e (set tags) r"
proof (cases "fr_value r")
  case (One v)
  then show ?thesis
    by (cases "fr_operator r")
      (auto simp: matches_rule_def rule_holds_def Let_def set_rule_values list_ex_iff startswith_prefix contains_text_sublist)
next
  case (Many vs)
  then have "fr_operator r = OpIn" using assms by (auto simp: validate_rule_def Let_def split: if_splits)
  then show ?thesis by (auto simp: matches_rule_def rule_holds_def Let_def set_rule_values list_ex_iff)
qed

lemma validate_filter_rules:
  assumes "validate_filter f = Inr f'" and "r \<in> set (ef_rules f')"
  shows "validate_rule r = Inr r"
proof -
  have "validate_filter f' = Inr f'" by (rule validate_filter_idem[OF assms(1)])
  then obtain rules where "traverse validate_rule (ef_rules f') = Inr rules" "f' = f'\<lparr>ef_rules := rules\<rparr>"
    by (auto simp: validate_filter_def andThen_eq_Inr split: if_splits)
  then have "list_all2 (\<lambda>x y. validate_rule x = Inr y) (ef_rules f') (ef_rules f')"
    by (metis endpoint_filter.select_convs(2) endpoint_filter.surjective endpoint_filter.update_convs(2) traverse_eq_Inr)
  then show ?thesis using assms(2) by (auto simp: list_all2_conv_all_nth in_set_conv_nth)
qed

lemma matches_filter_holds:
  assumes "validate_filter f = Inr f'"
  shows "matches_filter e f' tags \<longleftrightarrow> filter_holds e (set tags) f'"
  using matches_rule_holds[OF validate_filter_rules[OF assms]]
  by (auto simp: matches_filter_def filter_holds_def Let_def list_all_iff list_ex_iff)

section \<open>What a preview shows\<close>

text \<open>The folded ids and names of the tags an endpoint carries.\<close>

definition carried_tags :: "db \<Rightarrow> endpoint_row \<Rightarrow> string set" where
  "carried_tags db e = (\<Union>a\<in>{a\<in>set (db_assignments db). ta_endpoint a = ep_id e}. \<Union>t\<in>{t\<in>set (db_tags db). tg_id t = ta_tag a}.
     {casefold (tg_id t), casefold (tg_name t)})"

lemma set_tags_of_endpoint:
  assumes "ep_id e \<in> set ids"
  shows "set (tags_of_endpoint (tag_rows ids db) (ep_id e)) = carried_tags db e"
proof -
  have rows: "(k, i, n) \<in> set (tag_rows ids db) \<longleftrightarrow> (\<exists>a\<in>set (db_assignments db). \<exists>t\<in>set (db_tags db).
      tg_id t = ta_tag a \<and> ta_endpoint a \<in> set ids \<and> k = ta_endpoint a \<and> i = tg_id t \<and> n = tg_name t)" for k i n
    by (auto simp: tag_rows_def) (metis (no_types))
  have "x \<in> set (tags_of_endpoint rs k) \<longleftrightarrow> (\<exists>i n. (k, i, n) \<in> set rs \<and> (x = casefold i \<or> x = casefold n))" for x rs k
    by (force simp: tags_of_endpoint_def split: if_splits)
  note members = this
  show ?thesis
  proof (intro set_eqI iffI)
    fix x
    assume "x \<in> set (tags_of_endpoint (tag_rows ids db) (ep_id e))"
    then show "x \<in> carried_tags db e" unfolding members rows carried_tags_def by auto
  next
    fix x
    assume "x \<in> carried_tags db e"
    then obtain a t where "a \<in> set (db_assignments db)" "ta_endpoint a = ep_id e" "t \<in> set (db_tags db)" "tg_id t = ta_tag a"
      "x = casefold (tg_id t) \<or> x = casefold (tg_name t)" unfolding carried_tags_def by blast
    then show "x \<in> set (tags_of_endpoint (tag_rows ids db) (ep_id e))" unfolding members rows using assms by metis
  qed
qed

definition in_group_scope :: "group_row \<Rightarrow> endpoint_row \<Rightarrow> bool" where
  "in_group_scope g e \<longleftrightarrow>
     (case dg_scope g of
        GlobalScope \<Rightarrow> True
      | ClientScope \<Rightarrow> dg_client g = Some (ep_client e)
      | LocationScope \<Rightarrow> dg_client g = Some (ep_client e) \<and> dg_location g = Some (ep_location e))"

lemma endpoint_scope_clause_in_group:
  "where_clause (endpoint_scope_clause g) (Some (ep_client e)) (Some (ep_location e)) \<longleftrightarrow> in_group_scope g e"
  by (cases "dg_scope g"; cases "dg_client g"; cases "dg_location g") (auto simp: where_clause_def endpoint_scope_clause_def in_group_scope_def)

text \<open>
  C27.  A preview is exact: it evaluates all endpoints of the group's scope that the caller may read and no others, never
  more than ten thousand, counts those on which the current filter of the view holds, and lists the first of them by id.
\<close>

theorem preview_exact:
  assumes "preview_dynamic_group p raw_group_id limit db = Inr v"
  shows "\<exists>g f. g \<in> set (db_groups db) \<and> dg_id g = strip raw_group_id \<and>
    (let readable = filter (\<lambda>e. in_group_scope g e \<and> permits_scope p ''endpoint.read'' (Some (ep_client e)) (Some (ep_location e))) (db_endpoints db);
         members = order_by ep_id (filter (\<lambda>e. filter_holds e (carried_tags db e) f) readable)
     in length readable \<le> 10000 \<and> pv_evaluated v = length readable \<and> pv_matched v = length members \<and>
        pv_items v = map member_payload (take limit members) \<and> length (pv_items v) \<le> 500 \<and> (pv_truncated v \<longleftrightarrow> limit < length members)) \<and>
    (\<exists>w x. w \<in> set (db_views db) \<and> vw_id w = dg_view g \<and> current_view_version db w = Inr x \<and> validate_filter (vv_filter x) = Inr f)"
proof -
  obtain q where pre: "require_permission ''dynamic_group.read'' p = Inr q" "ensure (1 \<le> limit \<and> limit \<le> 500) (unprocessable ''request validation'') = Inr ()"
    and gid: "normalize_required_string raw_group_id ''dynamic_group_id'' = Inr (strip raw_group_id)"
    using assms unfolding preview_dynamic_group_def andThen_eq_Inr normalize_required_string_def
    by (elim exE conjE) (auto simp: trim_required_eq_Inr)
  note pre = pre[unfolded require_permission_same[OF pre(1)]]
  have read: "(\<not> has_permission p ''endpoint.read'') = False"
    using assms[unfolded preview_dynamic_group_def pre gid andThen_Inr] by (simp split: if_splits)
  note run = assms[unfolded preview_dynamic_group_def pre gid andThen_Inr read if_False]
  obtain g where g: "List.find (\<lambda>g. dg_id g = strip raw_group_id \<and>
      where_resource (resource_scope_clause p ''dynamic_group.read'') (dg_scope g) (dg_client g) (dg_location g)) (db_groups db) = Some g"
    using run by (auto split: option.splits)
  note run = run[unfolded g option.case]
  obtain w where w: "fetch vw_id (dg_view g) (db_views db) = Some w" using run by (auto split: option.splits)
  note run = run[unfolded w option.case andThen_eq_Inr]
  obtain x f where x: "current_view_version db w = Inr x" "validate_filter (vv_filter x) = Inr f" using run by blast
  define readable where "readable = filter (\<lambda>e. in_group_scope g e \<and> permits_scope p ''endpoint.read'' (Some (ep_client e)) (Some (ep_location e))) (db_endpoints db)"
  define evaluated where "evaluated = take (max_group_evaluation_endpoints + 1) (order_by ep_id readable)"
  define matching where "matching = filter (\<lambda>e. matches_filter e f (tags_of_endpoint (tag_rows (map ep_id evaluated) db) (ep_id e))) evaluated"
  have sees: "where_clause (scope_clause p ''endpoint.read'') c l \<longleftrightarrow> permits_scope p ''endpoint.read'' c l" for c l
    by (simp add: where_clause_def scope_clause_def scope_clause_loop_true permits_scope_def list_ex_iff)
  note run = run[unfolded x andThen_Inr endpoint_scope_clause_in_group sees Let_def, folded readable_def, folded evaluated_def, folded matching_def]
  have few: "length evaluated \<le> 10000" and v: "v = \<lparr>pv_group = dg_id g, pv_view = vw_id w, pv_version = vw_current_version w,
      pv_hash = vv_hash x, pv_evaluated = length evaluated, pv_matched = length matching, pv_limit = limit,
      pv_truncated = (limit < length matching), pv_items = map member_payload (take limit matching)\<rparr>"
    using run by (auto simp: max_group_evaluation_endpoints_def matching_def x split: if_splits)
  have ev: "evaluated = order_by ep_id readable" and small: "length readable \<le> 10000"
    using few by (auto simp: evaluated_def max_group_evaluation_endpoints_def order_by_def)
  have "matching = filter (\<lambda>e. filter_holds e (carried_tags db e) f) evaluated"
    unfolding matching_def by (rule filter_cong[OF refl]) (simp add: matches_filter_holds[OF x(2)] set_tags_of_endpoint)
  then have m: "matching = order_by ep_id (filter (\<lambda>e. filter_holds e (carried_tags db e) f) readable)"
    by (simp add: ev order_by_def filter_sort)
  have len: "length evaluated = length readable" by (simp add: ev order_by_def)
  have mem: "g \<in> set (db_groups db)" "dg_id g = strip raw_group_id" "w \<in> set (db_views db)" "vw_id w = dg_view g"
    using find_eq_Some_first[OF g] fetch_SomeD[OF w] by simp_all
  show ?thesis
    using mem x small pre(2) by (intro exI[of _ g] exI[of _ f] conjI exI[of _ w] exI[of _ x])
      (auto simp: v len m[symmetric] readable_def[symmetric] Let_def)
qed

section \<open>What becomes of an update\<close>

lemma normalize_required_Inr: "normalize_required_string s field = Inr t \<longleftrightarrow> t = strip s \<and> t \<noteq> []"
  by (simp add: normalize_required_string_def trim_required_eq_Inr)

definition own_view :: "principal \<Rightarrow> string \<Rightarrow> db \<Rightarrow> view_row \<Rightarrow> bool" where
  "own_view p raw_view_id db v \<longleftrightarrow> is_owner p v \<and> List.find (\<lambda>v. vw_id v = strip raw_view_id \<and>
     where_resource (resource_scope_clause p ''saved_view.manage'') (vw_scope v) (vw_client v) (vw_location v)) (db_views db) = Some v"

lemma view_audit_free:
  assumes "fetch au_id (generate_prefixed_id ''aud'' u) (db_audits db) = None" "client_exists db c" "location_exists db c l"
    "p_user p = None \<or> fetch us_id (the (p_user p)) (db_users db) \<noteq> None"
  shows "record_audit_event u n ((audit_call_of t)\<lparr>ax_principal := Some p, ax_client := c, ax_location := l, ax_target_type := tt,
     ax_target_id := ti, ax_metadata := m, ax_created_at := n'\<rparr>) db =
   Inr (db\<lparr>db_audits := db_audits db @ [audit_event u n ((audit_call_of t)\<lparr>ax_principal := Some p, ax_client := c, ax_location := l,
     ax_target_type := tt, ax_target_id := ti, ax_metadata := m, ax_created_at := n'\<rparr>)]\<rparr>)"
  using assms by (auto simp: record_audit_event_def insert_audit_def audit_event_def audit_call_of_def split: option.splits)

lemma update_saved_view_run:
  assumes ok: "require_permission ''saved_view.manage'' p = Inr p" "strip raw_view_id \<noteq> []" "own_view p raw_view_id db v"
    and f: "validate_filter new_filter = Inr f" and cur: "current_view_version db v = Inr x"
  shows "update_saved_view sha draw now p raw_view_id new_filter db = transaction db (
    if vv_hash x = snd (canonical_filter sha f) then andThen (saved_view_payload db v) (\<lambda>out. Inr (db, out))
    else andThen (insert_view_version \<lparr>vv_view = vw_id v, vv_version = vw_current_version v + 1, vv_filter = f,
           vv_hash = snd (canonical_filter sha f), vv_created_by = audit_actor p, vv_created_at = strftime_z now\<rparr> db) (\<lambda>db.
      let v' = v\<lparr>vw_current_version := vw_current_version v + 1, vw_updated_at := strftime_z now\<rparr>;
          db = db\<lparr>db_views := save vw_id v' (db_views db)\<rparr>
      in andThen (record_audit_event (draw 0) (strftime_z now)
           ((audit_call_of ''saved_view_version_created'')\<lparr>ax_principal := Some p, ax_client := vw_client v,
              ax_location := vw_location v, ax_target_type := Some ''saved_view'', ax_target_id := Some (vw_id v),
              ax_metadata := [(''version'', JInt (vw_current_version v + 1)), (''filter_hash'', JStr (snd (canonical_filter sha f)))],
              ax_created_at := Some (strftime_z now)\<rparr>) db) (\<lambda>db.
         andThen (saved_view_payload db v') (\<lambda>out. Inr (db, out)))))"
proof -
  have pre: "request_filter new_filter = Inr f" "normalize_required_string raw_view_id ''saved_view_id'' = Inr (strip raw_view_id)"
    using ok(2) f by (simp_all add: request_filter_Inr normalize_required_Inr)
  have c: "canonical_filter sha f = (f, snd (canonical_filter sha f))" by (simp add: canonical_filter_def)
  have v: "List.find (\<lambda>v. vw_id v = strip raw_view_id \<and>
     where_resource (resource_scope_clause p ''saved_view.manage'') (vw_scope v) (vw_client v) (vw_location v)) (db_views db) = Some v"
    "(\<not> is_owner p v) = False" using ok(3) by (simp_all add: own_view_def)
  show ?thesis
    unfolding update_saved_view_def ok(1) pre andThen_Inr Let_def v option.case if_False cur
    by (subst c) (simp only: prod.case)
qed


section \<open>A scope that is not in canonical form\<close>

text \<open>
  A client id with surrounding blanks passes the scope check, which trims it, and is stored as it came, which the
  \<open>CHECK\<close> constraint on the scope key refuses: the answer is always that the name is taken, whatever names there are.
\<close>

theorem padded_client_reported_taken:
  assumes ok: "require_permission ''tag.manage'' p = Inr p" "tag_in_valid t" "strip (ti_name t) \<noteq> []"
    and padded: "ti_scope t = ClientScope" "ti_client t = Some c" "strip c \<noteq> c"
    and scope: "require_requested_scope db p ''tag.manage'' (ti_scope t) (ti_client t) (ti_location t) = Inr key"
  shows "create_tag draw now p t db = (db, Inl (conflict ''tag name already exists in scope''))"
proof -
  have l: "ti_location t = None" using ok(2) padded(1) by (auto simp: tag_in_valid_def scope_shape_valid_def)
  obtain client location where f: "validate_scope_filter db (Some c) None = Inr (client, location)"
    using scope unfolding padded l by (auto simp: require_requested_scope_def andThen_eq_Inr)
  then have "client = Some (strip c) \<and> location = None"
    by (auto simp: validate_scope_filter_def normalize_optional_id_def andThen_eq_Inr normalize_required_Inr split: if_splits)
  then have "key = ''client:'' @ strip c"
    using scope f unfolding padded l by (auto simp: require_requested_scope_def andThen_eq_Inr scope_key_def)
  then have "insert_tag x db = Inl IntegrityError"
    if "tg_scope x = ClientScope" "tg_client x = Some c" "tg_location x = None" "tg_scope_key x = key" for x
    using that padded(3) by (simp add: insert_tag_def)
  note refused = this
  have n: "normalize_required_string (ti_name t) ''name'' = Inr (strip (ti_name t))"
    using ok(3) by (simp add: normalize_required_Inr)
  show ?thesis
    unfolding create_tag_def ok(1) n scope andThen_Inr Let_def
    by (simp add: ok(2) refused padded l on_integrity_error_def transaction_def)
qed

section \<open>The contract\<close>

definition versions_of :: "db \<Rightarrow> string \<Rightarrow> int set" where
  "versions_of db k = vv_version ` {x \<in> set (db_view_versions db). vv_view x = k}"

text \<open>
  A view has its versions from one to the current one, each with a filter in normal form and its hash, and no two with the
  same; a group has the scope of its view; a tag reaches the endpoints it is assigned to.
\<close>

definition views_ok :: "(nat list \<Rightarrow> nat list) \<Rightarrow> db \<Rightarrow> bool" where
  "views_ok sha db \<longleftrightarrow> unique_on vw_id (db_views db) \<and>
     unique_on (\<lambda>x. (vv_view x, vv_version x)) (db_view_versions db) \<and>
     unique_on (\<lambda>x. (vv_view x, vv_hash x)) (db_view_versions db) \<and>
     (\<forall>v\<in>set (db_views db). 0 < vw_current_version v \<and> versions_of db (vw_id v) = {1..vw_current_version v}) \<and>
     (\<forall>x\<in>set (db_view_versions db). vv_view x \<in> vw_id ` set (db_views db) \<and>
        validate_filter (vv_filter x) = Inr (vv_filter x) \<and> vv_hash x = snd (canonical_filter sha (vv_filter x)))"

definition groups_ok :: "db \<Rightarrow> bool" where
  "groups_ok db \<longleftrightarrow> (\<forall>g\<in>set (db_groups db). \<exists>v\<in>set (db_views db). vw_id v = dg_view g \<and> vw_scope v = dg_scope g \<and>
     vw_scope_key v = dg_scope_key g \<and> vw_client v = dg_client g \<and> vw_location v = dg_location g)"

definition assignments_ok :: "db \<Rightarrow> bool" where
  "assignments_ok db \<longleftrightarrow> unique_on (\<lambda>a. (ta_endpoint a, ta_tag a)) (db_assignments db) \<and>
     (\<forall>a\<in>set (db_assignments db). \<exists>e\<in>set (db_endpoints db). \<exists>t\<in>set (db_tags db).
        ep_id e = ta_endpoint a \<and> ep_client e = ta_client a \<and> ep_location e = ta_location a \<and>
        tg_id t = ta_tag a \<and> tg_scope_key t = ta_scope_key a \<and> tg_scope_key t \<in> set (endpoint_scope_keys e))"

definition metadata_ok :: "(nat list \<Rightarrow> nat list) \<Rightarrow> db \<Rightarrow> bool" where
  "metadata_ok sha db \<longleftrightarrow> views_ok sha db \<and> groups_ok db \<and> assignments_ok db"

lemma views_ok_cong: "views_ok sha db \<Longrightarrow> db_views db' = db_views db \<Longrightarrow> db_view_versions db' = db_view_versions db \<Longrightarrow> views_ok sha db'"
  by (simp add: views_ok_def versions_of_def)

lemma groups_ok_cong: "groups_ok db \<Longrightarrow> db_views db' = db_views db \<Longrightarrow> db_groups db' = db_groups db \<Longrightarrow> groups_ok db'"
  by (simp add: groups_ok_def)

lemma assignments_ok_cong:
  "assignments_ok db \<Longrightarrow> db_endpoints db' = db_endpoints db \<Longrightarrow> db_tags db' = db_tags db \<Longrightarrow> db_assignments db' = db_assignments db \<Longrightarrow> assignments_ok db'"
  by (simp add: assignments_ok_def)

lemma current_version_found:
  assumes "views_ok sha db" and "v \<in> set (db_views db)"
  shows "\<exists>x. current_view_version db v = Inr x \<and> x \<in> set (db_view_versions db) \<and> vv_view x = vw_id v \<and> vv_version x = vw_current_version v"
proof -
  have "vw_current_version v \<in> versions_of db (vw_id v)" using assms by (auto simp: views_ok_def)
  then obtain x where x: "x \<in> set (db_view_versions db)" "vv_view x = vw_id v" "vv_version x = vw_current_version v" by (auto simp: versions_of_def)
  then show ?thesis
    using fetch_unique[of "\<lambda>x. (vv_view x, vv_version x)" "db_view_versions db" x] assms(1)
    by (auto simp: current_view_version_def views_ok_def)
qed

lemma payload_total:
  assumes "views_ok sha db" and "v \<in> set (db_views db)"
  shows "\<exists>f h. saved_view_payload db v = Inr (v, f, h)"
proof -
  obtain x where x: "current_view_version db v = Inr x" "x \<in> set (db_view_versions db)" using current_version_found[OF assms] by blast
  then have "validate_filter (vv_filter x) = Inr (vv_filter x)" using assms(1) by (simp add: views_ok_def)
  then have "saved_view_payload db v = Inr (v, vv_filter x, vv_hash x)" using x by (simp add: saved_view_payload_def)
  then show ?thesis by blast
qed

lemma views_ok_version_added:
  assumes ok: "views_ok sha db" and v: "v \<in> set (db_views db)"
    and y: "vv_view y = vw_id v" "vv_version y = vw_current_version v + 1" "validate_filter (vv_filter y) = Inr (vv_filter y)"
      "vv_hash y = snd (canonical_filter sha (vv_filter y))"
    and fresh: "fetch (\<lambda>x. (vv_view x, vv_version x)) (vv_view y, vv_version y) (db_view_versions db) = None"
      "fetch (\<lambda>x. (vv_view x, vv_hash x)) (vv_view y, vv_hash y) (db_view_versions db) = None"
    and v': "vw_id v' = vw_id v" "vw_current_version v' = vw_current_version v + 1"
    and db': "db_views db' = save vw_id v' (db_views db)" "db_view_versions db' = db_view_versions db @ [y]"
  shows "views_ok sha db'"
proof -
  have vs: "versions_of db' k = versions_of db k \<union> (if k = vw_id v then {vw_current_version v + 1} else {})" for k
  proof -
    have "{x \<in> set (db_view_versions db'). vv_view x = k} = {x \<in> set (db_view_versions db). vv_view x = k} \<union> (if k = vw_id v then {y} else {})"
      using y(1) by (auto simp: db')
    then show ?thesis using y(2) by (simp add: versions_of_def image_Un)
  qed
  have old: "0 < vw_current_version w \<and> versions_of db (vw_id w) = {1..vw_current_version w}" if "w \<in> set (db_views db)" for w
    using ok that by (auto simp: views_ok_def)
  have "0 < vw_current_version w \<and> versions_of db' (vw_id w) = {1..vw_current_version w}" if "w \<in> set (db_views db')" for w
  proof (cases "w = v'")
    case True
    then show ?thesis using old[OF v] v' by (auto simp: vs)
  next
    case False
    then have "w \<in> set (db_views db)" "vw_id w \<noteq> vw_id v" using that v' by (auto simp: db' in_set_save)
    then show ?thesis using old by (simp add: vs)
  qed
  moreover have "vw_id ` set (db_views db') = vw_id ` set (db_views db)"
    unfolding db' by (metis keys_save set_map)
  moreover have "vw_id v \<in> vw_id ` set (db_views db)" using v by simp
  ultimately show ?thesis
    using ok y fresh unfolding views_ok_def by (auto simp: db' fetch_None)
qed

lemma groups_ok_view_saved:
  assumes "groups_ok db" and "v \<in> set (db_views db)" and "unique_on vw_id (db_views db)"
    and "vw_id v' = vw_id v" "vw_scope v' = vw_scope v" "vw_scope_key v' = vw_scope_key v" "vw_client v' = vw_client v" "vw_location v' = vw_location v"
    and "db_views db' = save vw_id v' (db_views db)" "db_groups db' = db_groups db"
  shows "groups_ok db'"
  unfolding groups_ok_def
proof
  fix g
  assume "g \<in> set (db_groups db')"
  then obtain w where w: "w \<in> set (db_views db)" "vw_id w = dg_view g" "vw_scope w = dg_scope g" "vw_scope_key w = dg_scope_key g"
    "vw_client w = dg_client g" "vw_location w = dg_location g" using assms(1,10) by (auto simp: groups_ok_def)
  show "\<exists>v\<in>set (db_views db'). vw_id v = dg_view g \<and> vw_scope v = dg_scope g \<and> vw_scope_key v = dg_scope_key g \<and>
      vw_client v = dg_client g \<and> vw_location v = dg_location g"
  proof (cases "vw_id w = vw_id v")
    case True
    then have "w = v" using unique_onD[OF assms(3) w(1) assms(2)] by simp
    moreover have "v' \<in> set (db_views db')" using imageI[OF assms(2), of vw_id] assms(4,9) by (simp add: in_set_save)
    ultimately show ?thesis using w assms(4-8) by (intro bexI[of _ v']) simp_all
  next
    case False
    then show ?thesis using w assms(4,9) by (intro bexI[of _ w]) (auto simp: in_set_save)
  qed
qed

section \<open>Calls\<close>

datatype metadata_call =
    CreateTag principal tag_in
  | AssignTag principal string string
  | RemoveTag principal string string
  | CreateView principal view_in
  | UpdateView principal string endpoint_filter
  | CreateGroup principal group_in

definition raised_error :: "'a result \<Rightarrow> py_error option" where
  "raised_error r = (case r of Inl e \<Rightarrow> Some e | Inr _ \<Rightarrow> None)"

fun metadata_call_outcome ::
  "(nat list \<Rightarrow> nat list) \<Rightarrow> (nat \<Rightarrow> string) \<Rightarrow> nat \<Rightarrow> metadata_call \<Rightarrow> db \<Rightarrow> db \<times> py_error option" where
  "metadata_call_outcome sha draw now (CreateTag p t) db = map_prod id raised_error (create_tag draw now p t db)"
| "metadata_call_outcome sha draw now (AssignTag p e t) db = map_prod id raised_error (assign_endpoint_tag draw now p e t db)"
| "metadata_call_outcome sha draw now (RemoveTag p e t) db = map_prod id raised_error (remove_endpoint_tag draw now p e t db)"
| "metadata_call_outcome sha draw now (CreateView p v) db = map_prod id raised_error (create_saved_view sha draw now p v db)"
| "metadata_call_outcome sha draw now (UpdateView p k f) db = map_prod id raised_error (update_saved_view sha draw now p k f db)"
| "metadata_call_outcome sha draw now (CreateGroup p g) db = map_prod id raised_error (create_dynamic_group draw now p g db)"

lemma metadata_okI: "views_ok sha db \<Longrightarrow> groups_ok db \<Longrightarrow> assignments_ok db \<Longrightarrow> metadata_ok sha db"
  by (simp add: metadata_ok_def)

lemma create_tag_effect:
  assumes "create_tag draw now p t db = (db', Inr row)"
  shows "\<exists>a. db' = db\<lparr>db_tags := db_tags db @ [row], db_audits := a\<rparr>"
proof -
  obtain q u name key where pre: "require_permission ''tag.manage'' p = Inr q" "ensure (tag_in_valid t) (unprocessable ''request validation'') = Inr u"
      "normalize_required_string (ti_name t) ''name'' = Inr name"
      "require_requested_scope db q ''tag.manage'' (ti_scope t) (ti_client t) (ti_location t) = Inr key"
    using assms unfolding create_tag_def transaction_Inr andThen_eq_Inr Let_def by blast
  note run = assms[unfolded create_tag_def transaction_Inr pre andThen_Inr Let_def]
  define r where "r = \<lparr>tg_id = generate_prefixed_id ''tag'' (draw 0), tg_name = name, tg_name_normalized = casefold name,
           tg_description = optional_text (ti_description t), tg_scope = ti_scope t, tg_scope_key = key,
           tg_client = ti_client t, tg_location = ti_location t, tg_created_by = audit_actor q,
           tg_created_at = strftime_z now, tg_updated_at = strftime_z now\<rparr>"
  note run = run[folded r_def, unfolded andThen_eq_Inr on_integrity_error_Inr]
  obtain db1 db2 x where ins: "insert_tag r db = Inr db1" and au: "record_audit_event (draw 1) (strftime_z now) x db1 = Inr db2"
    and out: "(Inr (db2, r) :: (db \<times> tag_row) result) = Inr (db', row)" using run by blast
  have "db1 = db\<lparr>db_tags := db_tags db @ [r]\<rparr>" using ins by (auto simp: insert_tag_def split: if_splits)
  then show ?thesis using record_audit_Inr[OF au] out by auto
qed

lemma create_tag_keeps:
  assumes "metadata_ok sha db"
  shows "metadata_ok sha (fst (create_tag draw now p t db))"
proof (rule transaction_runs[OF create_tag_def, of "metadata_ok sha", OF assms])
  fix db' row
  assume "create_tag draw now p t db = (db', Inr row)"
  then obtain a where db': "db' = db\<lparr>db_tags := db_tags db @ [row], db_audits := a\<rparr>" using create_tag_effect by blast
  have "set (db_tags db) \<subseteq> set (db_tags db')" "db_assignments db' = db_assignments db" "db_endpoints db' = db_endpoints db"
    by (auto simp: db')
  then have "assignments_ok db'" using assms unfolding metadata_ok_def assignments_ok_def by (simp, blast)
  then show "metadata_ok sha db'"
    using assms views_ok_cong[of sha db db'] groups_ok_cong[of db db'] by (simp add: metadata_ok_def db')
qed

lemma assignments_only_keep:
  assumes "metadata_ok sha db" and "assignments_ok db'" and "db_views db' = db_views db" "db_view_versions db' = db_view_versions db"
    and "db_groups db' = db_groups db"
  shows "metadata_ok sha db'"
  using assms views_ok_cong groups_ok_cong unfolding metadata_ok_def by blast

lemma assign_effect:
  assumes "assign_endpoint_tag draw now p raw_endpoint raw_tag db = (db', Inr v)"
  shows "db' = db \<or> (\<exists>e t a au. e \<in> set (db_endpoints db) \<and> t \<in> set (db_tags db) \<and>
     ep_id e = ta_endpoint a \<and> ep_client e = ta_client a \<and> ep_location e = ta_location a \<and>
     tg_id t = ta_tag a \<and> tg_scope_key t = ta_scope_key a \<and> tg_scope_key t \<in> set (endpoint_scope_keys e) \<and>
     fetch (\<lambda>a. (ta_endpoint a, ta_tag a)) (ta_endpoint a, ta_tag a) (db_assignments db) = None \<and>
     db' = db\<lparr>db_assignments := db_assignments db @ [a], db_audits := au\<rparr>)"
proof -
  obtain q u eid tid e where pre: "require_permission ''tag.manage'' p = Inr q" "ensure (length raw_tag \<in> {1..64}) (unprocessable ''request validation'') = Inr u"
      "normalize_required_string raw_endpoint ''endpoint_id'' = Inr eid" "normalize_required_string raw_tag ''tag_id'' = Inr tid"
    and e: "load_endpoint_for_metadata db q ''tag.manage'' eid = Inr e"
    using assms unfolding assign_endpoint_tag_def transaction_Inr andThen_eq_Inr Let_def by blast
  note run = assms[unfolded assign_endpoint_tag_def transaction_Inr pre e andThen_Inr Let_def]
  have em: "e \<in> set (db_endpoints db)"
    using e visible_endpointD by (auto simp: load_endpoint_for_metadata_def split: option.splits)
  obtain t where t: "assignable_tag q e tid db = Some t" using run by (cases "assignable_tag q e tid db") simp_all
  have tm: "t \<in> set (db_tags db)" "tg_scope_key t \<in> set (endpoint_scope_keys e)"
    using find_eq_Some_first[OF t[unfolded assignable_tag_def]] by simp_all
  show ?thesis
  proof (cases "fetch (\<lambda>a. (ta_endpoint a, ta_tag a)) (ep_id e, tg_id t) (db_assignments db)")
    case (Some a)
    then show ?thesis using run by (simp add: t)
  next
    case None
    define a where "a = \<lparr>ta_endpoint = ep_id e, ta_tag = tg_id t, ta_client = ep_client e, ta_location = ep_location e,
                ta_scope_key = tg_scope_key t, ta_assigned_by = audit_actor q, ta_assigned_at = strftime_z now\<rparr>"
    note run = run[unfolded t None option.case, folded a_def, unfolded andThen_eq_Inr]
    obtain db1 db2 x where ins: "insert_assignment a db = Inr db1" and au: "record_audit_event (draw 0) (strftime_z now) x db1 = Inr db2"
      and out: "db2 = db'" using run by blast
    have "db1 = db\<lparr>db_assignments := db_assignments db @ [a]\<rparr>" using ins by (auto simp: insert_assignment_def split: if_splits)
    then have "db' = db\<lparr>db_assignments := db_assignments db @ [a], db_audits := db_audits db @ [audit_event (draw 0) (strftime_z now) x]\<rparr>"
      using record_audit_Inr[OF au] out by simp
    then show ?thesis using em tm None by (intro disjI2 exI[of _ e] exI[of _ t] exI[of _ a] exI) (auto simp: a_def)
  qed
qed

lemma assign_keeps:
  assumes "metadata_ok sha db"
  shows "metadata_ok sha (fst (assign_endpoint_tag draw now p raw_endpoint raw_tag db))"
proof (rule transaction_runs[OF assign_endpoint_tag_def, of "metadata_ok sha", OF assms])
  fix db' v
  assume "assign_endpoint_tag draw now p raw_endpoint raw_tag db = (db', Inr v)"
  from assign_effect[OF this] show "metadata_ok sha db'"
  proof (elim disjE exE conjE)
    fix e t a au
    assume new: "e \<in> set (db_endpoints db)" "t \<in> set (db_tags db)" "ep_id e = ta_endpoint a" "ep_client e = ta_client a" "ep_location e = ta_location a"
      "tg_id t = ta_tag a" "tg_scope_key t = ta_scope_key a" "tg_scope_key t \<in> set (endpoint_scope_keys e)"
      "fetch (\<lambda>a. (ta_endpoint a, ta_tag a)) (ta_endpoint a, ta_tag a) (db_assignments db) = None"
      and db': "db' = db\<lparr>db_assignments := db_assignments db @ [a], db_audits := au\<rparr>"
    have "unique_on (\<lambda>a. (ta_endpoint a, ta_tag a)) (db_assignments db @ [a])"
      using assms new(9) by (simp add: metadata_ok_def assignments_ok_def fetch_None)
    then have "assignments_ok db'" using assms new(1-8) unfolding metadata_ok_def assignments_ok_def db' by auto
    then show ?thesis by (rule assignments_only_keep[OF assms]) (simp_all add: db')
  qed (use assms in simp)
qed

lemma remove_keeps:
  assumes "metadata_ok sha db"
  shows "metadata_ok sha (fst (remove_endpoint_tag draw now p raw_endpoint raw_tag db))"
proof (rule transaction_runs[OF remove_endpoint_tag_def, of "metadata_ok sha", OF assms])
  fix db' v
  assume run: "remove_endpoint_tag draw now p raw_endpoint raw_tag db = (db', Inr v)"
  obtain q eid tid e where pre: "require_permission ''tag.manage'' p = Inr q"
      "normalize_required_string raw_endpoint ''endpoint_id'' = Inr eid" "normalize_required_string raw_tag ''tag_id'' = Inr tid"
    and e: "load_endpoint_for_metadata db q ''tag.manage'' eid = Inr e"
    using run unfolding remove_endpoint_tag_def transaction_Inr andThen_eq_Inr Let_def by blast
  let ?keep = "filter (\<lambda>a. (ta_endpoint a, ta_tag a) \<noteq> (ep_id e, tid)) (db_assignments db)"
  obtain x where "record_audit_event (draw 0) (strftime_z now) x (db\<lparr>db_assignments := ?keep\<rparr>) = Inr db'"
    using run[unfolded remove_endpoint_tag_def transaction_Inr pre e andThen_Inr Let_def] by (auto simp: andThen_eq_Inr split: if_splits)
  then have db': "db' = db\<lparr>db_assignments := ?keep, db_audits := db_audits db @ [audit_event (draw 0) (strftime_z now) x]\<rparr>"
    using record_audit_Inr by fastforce
  have "assignments_ok db'"
    using assms unfolding metadata_ok_def assignments_ok_def db' by (auto simp: unique_on_def distinct_map_filter)
  then show "metadata_ok sha db'" by (rule assignments_only_keep[OF assms]) (simp_all add: db')
qed

lemma create_view_effect:
  assumes "create_saved_view sha draw now p payload db = (db', Inr out)"
  shows "\<exists>v y f a. validate_filter (vi_filter payload) = Inr f \<and> vw_id v \<notin> vw_id ` set (db_views db) \<and> vw_current_version v = 1 \<and>
    vv_view y = vw_id v \<and> vv_version y = 1 \<and> vv_filter y = f \<and> vv_hash y = snd (canonical_filter sha f) \<and>
    db' = db\<lparr>db_views := db_views db @ [v], db_view_versions := db_view_versions db @ [y], db_audits := a\<rparr>"
proof -
  obtain q u f name key where pre: "require_permission ''saved_view.manage'' p = Inr q"
      "ensure (scope_shape_valid (vi_scope payload) (vi_client payload) (vi_location payload) \<and>
         named_valid (vi_name payload) (vi_description payload)) (unprocessable ''request validation'') = Inr u"
      "request_filter (vi_filter payload) = Inr f" "normalize_required_string (vi_name payload) ''name'' = Inr name"
      "require_requested_scope db q ''saved_view.manage'' (vi_scope payload) (vi_client payload) (vi_location payload) = Inr key"
    using assms unfolding create_saved_view_def transaction_Inr andThen_eq_Inr Let_def prod.case_eq_if by blast
  have c: "canonical_filter sha f = (f, snd (canonical_filter sha f))" by (simp add: canonical_filter_def)
  define h where "h = snd (canonical_filter sha f)"
  note run = assms[unfolded create_saved_view_def transaction_Inr pre andThen_Inr Let_def, unfolded c[folded h_def], unfolded prod.case]
  define v where "v = \<lparr>vw_id = generate_prefixed_id ''view'' (draw 0), vw_name = name, vw_name_normalized = casefold name,
           vw_description = optional_text (vi_description payload), vw_visibility = vi_visibility payload,
           vw_scope = vi_scope payload, vw_scope_key = key, vw_client = vi_client payload, vw_location = vi_location payload,
           vw_owner_user = p_user q, vw_owner_actor = audit_actor q, vw_current_version = 1, vw_created_at = strftime_z now,
           vw_updated_at = strftime_z now\<rparr>"
  note run = run[folded v_def]
  define y where "y = \<lparr>vv_view = vw_id v, vv_version = 1, vv_filter = f, vv_hash = h,
          vv_created_by = audit_actor q, vv_created_at = strftime_z now\<rparr>"
  note run = run[folded y_def, unfolded andThen_eq_Inr on_integrity_error_Inr]
  obtain db1 db2 db3 x where ins: "insert_view v db = Inr db1" "insert_view_version y db1 = Inr db2"
    and au: "record_audit_event (draw 1) (strftime_z now) x db2 = Inr db3" and out: "db3 = db'" using run by blast
  have "db1 = db\<lparr>db_views := db_views db @ [v]\<rparr>" and fresh: "vw_id v \<notin> vw_id ` set (db_views db)"
    using ins(1) by (auto simp: insert_view_def fetch_None split: if_splits)
  moreover have "db2 = db1\<lparr>db_view_versions := db_view_versions db1 @ [y]\<rparr>"
    using ins(2) by (auto simp: insert_view_version_def split: if_splits)
  ultimately have "db' = db\<lparr>db_views := db_views db @ [v], db_view_versions := db_view_versions db @ [y],
      db_audits := db_audits db @ [audit_event (draw 1) (strftime_z now) x]\<rparr>"
    using record_audit_Inr[OF au] out by simp
  then show ?thesis using fresh pre(3)
    by (intro exI[of _ v] exI[of _ y] exI[of _ f] exI conjI) (simp_all add: request_filter_Inr v_def y_def h_def)
qed

lemma create_view_keeps:
  assumes "metadata_ok sha db"
  shows "metadata_ok sha (fst (create_saved_view sha draw now p payload db))"
proof (rule transaction_runs[OF create_saved_view_def, of "metadata_ok sha", OF assms])
  fix db' out
  assume "create_saved_view sha draw now p payload db = (db', Inr out)"
  from create_view_effect[OF this] obtain v y f a where f: "validate_filter (vi_filter payload) = Inr f"
    and v: "vw_id v \<notin> vw_id ` set (db_views db)" "vw_current_version v = 1"
    and y: "vv_view y = vw_id v" "vv_version y = 1" "vv_filter y = f" "vv_hash y = snd (canonical_filter sha f)"
    and db': "db' = db\<lparr>db_views := db_views db @ [v], db_view_versions := db_view_versions db @ [y], db_audits := a\<rparr>" by blast
  have views: "views_ok sha db" and groups: "groups_ok db" and asg: "assignments_ok db" using assms by (simp_all add: metadata_ok_def)
  have none: "vv_view x \<noteq> vw_id v" if "x \<in> set (db_view_versions db)" for x
  proof -
    have "vv_view x \<in> vw_id ` set (db_views db)" using views that by (simp add: views_ok_def)
    then show ?thesis using v(1) by auto
  qed
  have vs: "versions_of db' k = (if k = vw_id v then {1} else versions_of db k)" for k
  proof -
    have "{x \<in> set (db_view_versions db'). vv_view x = k} = (if k = vw_id v then {y} else {x \<in> set (db_view_versions db). vv_view x = k})"
      using y(1) none by (auto simp: db')
    then show ?thesis using y(2) by (simp add: versions_of_def)
  qed
  have new: "(\<lambda>x. (vv_view x, g x)) y \<notin> (\<lambda>x. (vv_view x, g x)) ` set (db_view_versions db)" for g :: "view_version_row \<Rightarrow> 'g"
  proof
    assume "(vv_view y, g y) \<in> (\<lambda>x. (vv_view x, g x)) ` set (db_view_versions db)"
    then obtain x where "x \<in> set (db_view_versions db)" "vv_view x = vv_view y" by auto
    then show False using none y(1) by metis
  qed
  have u: "unique_on (\<lambda>x. (vv_view x, vv_version x)) (db_view_versions db')" "unique_on (\<lambda>x. (vv_view x, vv_hash x)) (db_view_versions db')"
    "unique_on vw_id (db_views db')"
    using views v(1) new[of vv_version] new[of vv_hash] by (simp_all add: views_ok_def db')
  have "0 < vw_current_version w \<and> versions_of db' (vw_id w) = {1..vw_current_version w}" if "w \<in> set (db_views db')" for w
  proof (cases "w = v")
    case False
    then have w: "w \<in> set (db_views db)" using that by (simp add: db')
    then have "vw_id w \<noteq> vw_id v" using v(1) by (metis imageI)
    then show ?thesis using views w by (simp add: views_ok_def vs)
  qed (simp add: vs v(2))
  moreover have "vv_view x \<in> vw_id ` set (db_views db') \<and> validate_filter (vv_filter x) = Inr (vv_filter x) \<and>
      vv_hash x = snd (canonical_filter sha (vv_filter x))" if "x \<in> set (db_view_versions db')" for x
    using that views y validate_filter_idem[OF f] by (auto simp: db' views_ok_def)
  ultimately have "views_ok sha db'" using u by (simp add: views_ok_def)
  moreover have "groups_ok db'" using groups unfolding groups_ok_def db' by fastforce
  moreover have "assignments_ok db'" by (rule assignments_ok_cong[OF asg]) (simp_all add: db')
  ultimately show "metadata_ok sha db'" by (rule metadata_okI)
qed

text \<open>An update that changes anything was the owner's, with a filter no version had.\<close>

lemma update_saved_view_pre:
  assumes "update_saved_view sha draw now p raw_view_id new_filter db = (db', Inr out)"
  obtains v f where "require_permission ''saved_view.manage'' p = Inr p" "strip raw_view_id \<noteq> []" "own_view p raw_view_id db v"
    "validate_filter new_filter = Inr f"
proof -
  obtain q where q: "require_permission ''saved_view.manage'' p = Inr q"
    using assms by (cases "require_permission ''saved_view.manage'' p") (simp_all add: update_saved_view_def transaction_def)
  obtain f where f: "request_filter new_filter = Inr f"
    using assms by (cases "request_filter new_filter") (simp_all add: update_saved_view_def transaction_def q)
  obtain vid where vid: "normalize_required_string raw_view_id ''saved_view_id'' = Inr vid"
    using assms by (cases "normalize_required_string raw_view_id ''saved_view_id''") (simp_all add: update_saved_view_def transaction_def q f)
  note pre = q f vid
  have q: "q = p" "vid = strip raw_view_id" "strip raw_view_id \<noteq> []"
    using pre require_permission_same by (auto simp: normalize_required_Inr)
  define h where "h = snd (canonical_filter sha f)"
  have c: "canonical_filter sha f = (f, h)" by (simp add: canonical_filter_def h_def)
  note run = assms[unfolded update_saved_view_def transaction_Inr pre q(1,2) andThen_Inr Let_def, unfolded c, unfolded prod.case]
  let ?find = "List.find (\<lambda>v. vw_id v = strip raw_view_id \<and>
     where_resource (resource_scope_clause p ''saved_view.manage'') (vw_scope v) (vw_client v) (vw_location v)) (db_views db)"
  obtain v where v: "?find = Some v" using run by (cases ?find) simp_all
  have "is_owner p v" using run unfolding v option.case by (simp split: if_splits)
  then have "own_view p raw_view_id db v" using v by (simp add: own_view_def)
  then show ?thesis using that pre(1,2) q by (simp add: request_filter_Inr)
qed

lemma update_view_keeps:
  assumes "metadata_ok sha db"
  shows "metadata_ok sha (fst (update_saved_view sha draw now p raw_view_id new_filter db))"
proof (rule transaction_runs[OF update_saved_view_def, of "metadata_ok sha", OF assms])
  fix db' out
  assume res: "update_saved_view sha draw now p raw_view_id new_filter db = (db', Inr out)"
  from res obtain v f where ok: "require_permission ''saved_view.manage'' p = Inr p" "strip raw_view_id \<noteq> []" "own_view p raw_view_id db v"
    and f: "validate_filter new_filter = Inr f" by (rule update_saved_view_pre)
  have views: "views_ok sha db" and groups: "groups_ok db" and asg: "assignments_ok db" using assms by (simp_all add: metadata_ok_def)
  have mem: "v \<in> set (db_views db)" using ok(3) by (auto simp: own_view_def dest: find_eq_Some_first)
  obtain x where cur: "current_view_version db v = Inr x" using current_version_found[OF views mem] by blast
  define h where "h = snd (canonical_filter sha f)"
  note run = res[unfolded update_saved_view_run[OF ok f cur] transaction_Inr Let_def, folded h_def]
  show "metadata_ok sha db'"
  proof (cases "vv_hash x = h")
    case True
    then have "db' = db" using run by (auto simp: andThen_eq_Inr)
    then show ?thesis using assms by simp
  next
    case False
    define y where "y = \<lparr>vv_view = vw_id v, vv_version = vw_current_version v + 1, vv_filter = f, vv_hash = h,
      vv_created_by = audit_actor p, vv_created_at = strftime_z now\<rparr>"
    define v' where "v' = v\<lparr>vw_current_version := vw_current_version v + 1, vw_updated_at := strftime_z now\<rparr>"
    note run = run[unfolded if_not_P[OF False], folded y_def v'_def, unfolded andThen_eq_Inr]
    obtain db1 db3 a where ins: "insert_view_version y db = Inr db1"
      and au: "record_audit_event (draw 0) (strftime_z now) a (db1\<lparr>db_views := save vw_id v' (db_views db1)\<rparr>) = Inr db3"
      and out: "db3 = db'" using run by blast
    have db1: "db1 = db\<lparr>db_view_versions := db_view_versions db @ [y]\<rparr>"
      and fresh: "fetch (\<lambda>x. (vv_view x, vv_version x)) (vv_view y, vv_version y) (db_view_versions db) = None"
      "fetch (\<lambda>x. (vv_view x, vv_hash x)) (vv_view y, vv_hash y) (db_view_versions db) = None"
      using ins by (auto simp: insert_view_version_def split: if_splits)
    have db': "db_views db' = save vw_id v' (db_views db)" "db_view_versions db' = db_view_versions db @ [y]"
      "db_groups db' = db_groups db" "db_endpoints db' = db_endpoints db" "db_tags db' = db_tags db" "db_assignments db' = db_assignments db"
      using record_audit_Inr[OF au] out by (simp_all add: db1)
    have yv: "vv_view y = vw_id v" "vv_version y = vw_current_version v + 1" "validate_filter (vv_filter y) = Inr (vv_filter y)"
      "vv_hash y = snd (canonical_filter sha (vv_filter y))"
      using validate_filter_idem[OF f] by (simp_all add: y_def h_def)
    have vv: "vw_id v' = vw_id v" "vw_current_version v' = vw_current_version v + 1" "vw_scope v' = vw_scope v"
      "vw_scope_key v' = vw_scope_key v" "vw_client v' = vw_client v" "vw_location v' = vw_location v" by (simp_all add: v'_def)
    show ?thesis
    proof (rule metadata_okI)
      show "views_ok sha db'" by (rule views_ok_version_added[OF views mem yv fresh vv(1,2) db'(1,2)])
      have "unique_on vw_id (db_views db)" using views by (simp add: views_ok_def)
      then show "groups_ok db'" by (rule groups_ok_view_saved[OF groups mem _ vv(1,3-6) db'(1,3)])
      show "assignments_ok db'" by (rule assignments_ok_cong[OF asg db'(4-6)])
    qed
  qed
qed

lemma create_group_effect:
  assumes "create_dynamic_group draw now p payload db = (db', Inr out)"
  shows "\<exists>g v a. v \<in> set (db_views db) \<and> vw_id v = dg_view g \<and> vw_scope v = dg_scope g \<and> vw_scope_key v = dg_scope_key g \<and>
    vw_client v = dg_client g \<and> vw_location v = dg_location g \<and> db' = db\<lparr>db_groups := db_groups db @ [g], db_audits := a\<rparr>"
proof -
  obtain q u name vid where pre: "require_permission ''dynamic_group.manage'' p = Inr q"
      "ensure (named_valid (gi_name payload) (gi_description payload) \<and> length (gi_view payload) \<in> {1..64}) (unprocessable ''request validation'') = Inr u"
      "normalize_required_string (gi_name payload) ''name'' = Inr name" "normalize_required_string (gi_view payload) ''saved_view_id'' = Inr vid"
    using assms unfolding create_dynamic_group_def transaction_Inr andThen_eq_Inr Let_def by blast
  note run = assms[unfolded create_dynamic_group_def transaction_Inr pre andThen_Inr Let_def]
  let ?find = "List.find (\<lambda>v. vw_id v = vid \<and> view_shown q ''saved_view.read'' v) (db_views db)"
  obtain v where v: "?find = Some v" using run by (cases ?find) simp_all
  have mem: "v \<in> set (db_views db)" using find_eq_Some_first[OF v] by simp
  define g where "g = \<lparr>dg_id = generate_prefixed_id ''grp'' (draw 0), dg_name = name, dg_name_normalized = casefold name,
             dg_description = optional_text (gi_description payload), dg_scope = vw_scope v, dg_scope_key = vw_scope_key v,
             dg_client = vw_client v, dg_location = vw_location v, dg_view = vw_id v, dg_owner_user = p_user q,
             dg_owner_actor = audit_actor q, dg_created_at = strftime_z now, dg_updated_at = strftime_z now\<rparr>"
  note run = run[unfolded v option.case, folded g_def, unfolded andThen_eq_Inr on_integrity_error_Inr]
  obtain db1 db2 x where ins: "insert_group g db = Inr db1" and au: "record_audit_event (draw 1) (strftime_z now) x db1 = Inr db2"
    and out: "db2 = db'" using run by blast
  have "db1 = db\<lparr>db_groups := db_groups db @ [g]\<rparr>" using ins by (auto simp: insert_group_def split: if_splits)
  then have "db' = db\<lparr>db_groups := db_groups db @ [g], db_audits := db_audits db @ [audit_event (draw 1) (strftime_z now) x]\<rparr>"
    using record_audit_Inr[OF au] out by simp
  then show ?thesis using mem by (intro exI[of _ g] exI[of _ v] exI conjI) (simp_all add: g_def)
qed

lemma create_group_keeps:
  assumes "metadata_ok sha db"
  shows "metadata_ok sha (fst (create_dynamic_group draw now p payload db))"
proof (rule transaction_runs[OF create_dynamic_group_def, of "metadata_ok sha", OF assms])
  fix db' out
  assume "create_dynamic_group draw now p payload db = (db', Inr out)"
  from create_group_effect[OF this] obtain g v a where v: "v \<in> set (db_views db)" "vw_id v = dg_view g" "vw_scope v = dg_scope g"
    "vw_scope_key v = dg_scope_key g" "vw_client v = dg_client g" "vw_location v = dg_location g"
    and db': "db' = db\<lparr>db_groups := db_groups db @ [g], db_audits := a\<rparr>" by blast
  have "groups_ok db'" using assms v unfolding metadata_ok_def groups_ok_def db' by auto
  moreover have "views_ok sha db'" "assignments_ok db'"
    using assms by (auto simp: metadata_ok_def db' intro: views_ok_cong assignments_ok_cong)
  ultimately show "metadata_ok sha db'" by (intro metadata_okI)
qed

text \<open>
  C26.  Every call of the fleet metadata API keeps the contract: the versions of a view are numbered from one to the
  current one without a gap, hold filters in normal form under their own hashes and never twice the same; a group has
  the scope of its view; and a tag is assigned only to endpoints its scope reaches.
\<close>

theorem metadata_calls_keep_contract:
  assumes "metadata_ok sha db"
  shows "metadata_ok sha (fst (metadata_call_outcome sha draw now call db))"
  using create_tag_keeps[OF assms] assign_keeps[OF assms] remove_keeps[OF assms] create_view_keeps[OF assms]
    update_view_keeps[OF assms] create_group_keeps[OF assms]
  by (cases call) simp_all

section \<open>Reads never meet a missing row\<close>

lemma list_views_complete:
  assumes ok: "views_ok sha db" and pre: "require_permission ''saved_view.read'' p = Inr p"
    "selected_scope db p ''saved_view.read'' client_id location_id = Inr (c, l)"
  shows "\<exists>out. list_saved_views p client_id location_id db = Inr out \<and>
    map fst out = order_by (\<lambda>v. (vw_name_normalized v, vw_id v)) (filter (\<lambda>v. view_shown p ''saved_view.read'' v \<and>
      where_resource (selected_resource_scope_clause c l) (vw_scope v) (vw_client v) (vw_location v)) (db_views db))"
    (is "\<exists>out. _ \<and> map fst out = ?views")
proof -
  define views where "views = ?views"
  have "set views \<subseteq> set (db_views db)" by (auto simp: views_def order_by_def)
  then have "\<exists>f h. saved_view_payload db v = Inr (v, f, h)" if "v \<in> set views" for v using payload_total[OF ok] that by blast
  then obtain f h where fh: "\<And>v. v \<in> set views \<Longrightarrow> saved_view_payload db v = Inr (v, f v, h v)" by metis
  have "traverse (saved_view_payload db) views = Inr (map (\<lambda>v. (v, f v, h v)) views)" by (rule traverse_total[OF fh])
  moreover have "map fst (map (\<lambda>v. (v, f v, h v)) views) = views" by (simp add: comp_def)
  ultimately show ?thesis unfolding list_saved_views_def pre andThen_Inr prod.case views_def[symmetric] by blast
qed

lemma group_view:
  assumes "groups_ok db" and "g \<in> set (db_groups db)"
  shows "\<exists>v. fetch vw_id (dg_view g) (db_views db) = Some v"
proof -
  obtain v where "v \<in> set (db_views db)" "vw_id v = dg_view g" using assms unfolding groups_ok_def by blast
  then show ?thesis using in_keys_fetch[of v "db_views db" vw_id] by auto
qed

lemma list_groups_complete:
  assumes ok: "views_ok sha db" "groups_ok db" and pre: "require_permission ''dynamic_group.read'' p = Inr p"
    "selected_scope db p ''dynamic_group.read'' client_id location_id = Inr (c, l)"
  shows "\<exists>out. list_dynamic_groups p client_id location_id db = Inr out \<and>
    map fst out = order_by (\<lambda>g. (dg_name_normalized g, dg_id g)) (filter (\<lambda>g.
      where_resource (resource_scope_clause p ''dynamic_group.read'') (dg_scope g) (dg_client g) (dg_location g) \<and>
      where_resource (selected_resource_scope_clause c l) (dg_scope g) (dg_client g) (dg_location g)) (db_groups db))"
    (is "\<exists>out. _ \<and> map fst out = ?groups")
proof -
  define groups where "groups = ?groups"
  have sub: "set groups \<subseteq> set (db_groups db)" by (auto simp: groups_def order_by_def)
  have "\<exists>k h. dynamic_group_payload db g = Inr (g, k, h)" if g: "g \<in> set groups" for g
  proof -
    obtain v where v: "fetch vw_id (dg_view g) (db_views db) = Some v" using group_view[OF ok(2)] g sub by blast
    then show ?thesis using current_version_found[OF ok(1), of v] fetch_SomeD[OF v] by (auto simp: dynamic_group_payload_def)
  qed
  then obtain k h where kh: "\<And>g. g \<in> set groups \<Longrightarrow> dynamic_group_payload db g = Inr (g, k g, h g)" by metis
  have "traverse (dynamic_group_payload db) groups = Inr (map (\<lambda>g. (g, k g, h g)) groups)" by (rule traverse_total[OF kh])
  moreover have "map fst (map (\<lambda>g. (g, k g, h g)) groups) = groups" by (simp add: comp_def)
  ultimately show ?thesis unfolding list_dynamic_groups_def pre andThen_Inr prod.case groups_def[symmetric] by blast
qed

text \<open>
  C29.  Under the contract no read meets a missing view, version or malformed filter: the lists return every resource
  shown to the caller in the selected scope, and a preview of a group shown to the caller either returns or answers that
  the scope is too large.
\<close>

theorem metadata_reads_complete:
  assumes ok: "metadata_ok sha db"
  shows "(require_permission ''saved_view.read'' p = Inr p \<and> selected_scope db p ''saved_view.read'' client_id location_id = Inr (c, l) \<longrightarrow>
      (\<exists>out. list_saved_views p client_id location_id db = Inr out \<and>
        map fst out = order_by (\<lambda>v. (vw_name_normalized v, vw_id v)) (filter (\<lambda>v. view_shown p ''saved_view.read'' v \<and>
          where_resource (selected_resource_scope_clause c l) (vw_scope v) (vw_client v) (vw_location v)) (db_views db)))) \<and>
    (require_permission ''dynamic_group.read'' p = Inr p \<and> selected_scope db p ''dynamic_group.read'' client_id location_id = Inr (c, l) \<longrightarrow>
      (\<exists>out. list_dynamic_groups p client_id location_id db = Inr out \<and>
        map fst out = order_by (\<lambda>g. (dg_name_normalized g, dg_id g)) (filter (\<lambda>g.
          where_resource (resource_scope_clause p ''dynamic_group.read'') (dg_scope g) (dg_client g) (dg_location g) \<and>
          where_resource (selected_resource_scope_clause c l) (dg_scope g) (dg_client g) (dg_location g)) (db_groups db)))) \<and>
    (require_permission ''dynamic_group.read'' p = Inr p \<and> has_permission p ''endpoint.read'' \<and> 1 \<le> limit \<and> limit \<le> 500 \<and>
      strip raw_group_id \<noteq> [] \<and> List.find (\<lambda>g. dg_id g = strip raw_group_id \<and>
        where_resource (resource_scope_clause p ''dynamic_group.read'') (dg_scope g) (dg_client g) (dg_location g)) (db_groups db) = Some g \<longrightarrow>
      (\<exists>v. preview_dynamic_group p raw_group_id limit db \<in>
        {Inr v, Inl (HTTPException 413 ''authorized preview scope exceeds the endpoint evaluation limit'')}))"
proof -
  have views: "views_ok sha db" and groups: "groups_ok db" using ok by (simp_all add: metadata_ok_def)
  have preview: "\<exists>v. preview_dynamic_group p raw_group_id limit db \<in>
        {Inr v, Inl (HTTPException 413 ''authorized preview scope exceeds the endpoint evaluation limit'')}"
    if h: "require_permission ''dynamic_group.read'' p = Inr p \<and> has_permission p ''endpoint.read'' \<and> 1 \<le> limit \<and> limit \<le> 500 \<and>
      strip raw_group_id \<noteq> [] \<and> List.find (\<lambda>g. dg_id g = strip raw_group_id \<and>
        where_resource (resource_scope_clause p ''dynamic_group.read'') (dg_scope g) (dg_client g) (dg_location g)) (db_groups db) = Some g"
  proof -
    have "g \<in> set (db_groups db)" using h find_eq_Some_first by fast
    then obtain v where v: "fetch vw_id (dg_view g) (db_views db) = Some v" using group_view[OF groups] by blast
    obtain x where x: "current_view_version db v = Inr x" "x \<in> set (db_view_versions db)"
      using current_version_found[OF views, of v] fetch_SomeD[OF v] by blast
    have "validate_filter (vv_filter x) = Inr (vv_filter x)" using views x(2) by (simp add: views_ok_def)
    then show ?thesis using h v x
      by (simp add: preview_dynamic_group_def normalize_required_string_def trim_required_def Let_def)
  qed
  show ?thesis
  proof (intro conjI impI)
    assume "require_permission ''saved_view.read'' p = Inr p \<and> selected_scope db p ''saved_view.read'' client_id location_id = Inr (c, l)"
  then show "\<exists>out. list_saved_views p client_id location_id db = Inr out \<and>
        map fst out = order_by (\<lambda>v. (vw_name_normalized v, vw_id v)) (filter (\<lambda>v. view_shown p ''saved_view.read'' v \<and>
          where_resource (selected_resource_scope_clause c l) (vw_scope v) (vw_client v) (vw_location v)) (db_views db))"
    by (elim conjE) (rule list_views_complete[OF views])
next
  assume "require_permission ''dynamic_group.read'' p = Inr p \<and> selected_scope db p ''dynamic_group.read'' client_id location_id = Inr (c, l)"
  then show "\<exists>out. list_dynamic_groups p client_id location_id db = Inr out \<and>
        map fst out = order_by (\<lambda>g. (dg_name_normalized g, dg_id g)) (filter (\<lambda>g.
          where_resource (resource_scope_clause p ''dynamic_group.read'') (dg_scope g) (dg_client g) (dg_location g) \<and>
          where_resource (selected_resource_scope_clause c l) (dg_scope g) (dg_client g) (dg_location g)) (db_groups db))"
    by (elim conjE) (rule list_groups_complete[OF views groups])
  qed (rule preview)
qed

section \<open>A concrete view\<close>

definition md_filter :: endpoint_filter where
  "md_filter = \<lparr>ef_match = MatchAll, ef_rules = [\<lparr>fr_field = FieldHostname, fr_operator = OpContains, fr_value = One ''host''\<rparr>]\<rparr>"

definition md_view :: view_row where
  "md_view = \<lparr>vw_id = ''view_1'', vw_name = ''Hosts'', vw_name_normalized = ''hosts'', vw_description = None,
     vw_visibility = Private, vw_scope = GlobalScope, vw_scope_key = ''global'', vw_client = None, vw_location = None,
     vw_owner_user = None, vw_owner_actor = ''api-token:operator'', vw_current_version = 1,
     vw_created_at = ''2026-01-01T00:00:00Z'', vw_updated_at = ''2026-01-01T00:00:00Z''\<rparr>"

definition md_version :: "int \<Rightarrow> string \<Rightarrow> view_version_row" where
  "md_version n h = \<lparr>vv_view = ''view_1'', vv_version = n, vv_filter = md_filter, vv_hash = h,
     vv_created_by = ''api-token:operator'', vv_created_at = ''2026-01-01T00:00:00Z''\<rparr>"

definition md_group :: group_row where
  "md_group = \<lparr>dg_id = ''grp_1'', dg_name = ''Hosts'', dg_name_normalized = ''hosts'', dg_description = None,
     dg_scope = GlobalScope, dg_scope_key = ''global'', dg_client = None, dg_location = None, dg_view = ''view_1'',
     dg_owner_user = None, dg_owner_actor = ''api-token:operator'', dg_created_at = ''2026-01-01T00:00:00Z'',
     dg_updated_at = ''2026-01-01T00:00:00Z''\<rparr>"

definition md_hash :: string where
  "md_hash = snd (canonical_filter (\<lambda>b. b) md_filter)"

definition md_db :: db where
  "md_db = ex_db\<lparr>db_views := [md_view], db_view_versions := [md_version 1 md_hash], db_groups := [md_group]\<rparr>"


lemma md_tables:
  "db_views md_db = [md_view]" "db_view_versions md_db = [md_version 1 md_hash]" "db_groups md_db = [md_group]"
  "db_assignments md_db = []" "db_tags md_db = []" "db_endpoints md_db = [ex_endpoint]" "db_clients md_db = [ex_client]"
  by (simp_all add: md_db_def ex_db_def empty_db_def)

lemma md_valid: "validate_filter md_filter = Inr md_filter"
  by code_simp

lemma ex_operator_sees:
  "q \<in> set legacy_operator_permissions \<Longrightarrow> where_resource (resource_scope_clause ex_operator q) s c l"
  "q \<in> set legacy_operator_permissions \<Longrightarrow> where_clause (scope_clause ex_operator q) c l"
  by (simp_all add: where_resource_true where_clause_def scope_clause_def ex_operator_def synthetic_global_grant_def)

lemma md_permissions:
  "''saved_view.read'' \<in> set legacy_operator_permissions" "''saved_view.manage'' \<in> set legacy_operator_permissions"
  "''dynamic_group.read'' \<in> set legacy_operator_permissions" "''endpoint.read'' \<in> set legacy_operator_permissions"
  "''tag.manage'' \<in> set legacy_operator_permissions"
  by code_simp+

lemma md_texts: "strip ''grp_1'' = ''grp_1''" "strip ''view_1'' = ''view_1''" "strip '' cl_1'' = ''cl_1''" "strip ''web'' = ''web''"
  by code_simp+

lemma md_ok: "metadata_ok (\<lambda>b. b) md_db"
proof (rule metadata_okI)
  have "{x. x = md_version 1 md_hash \<and> vv_view x = ''view_1''} = {md_version 1 md_hash}" by (auto simp: md_version_def)
  then show "views_ok (\<lambda>b. b) md_db"
    by (simp add: views_ok_def md_tables versions_of_def md_view_def)
      (simp add: md_version_def md_valid md_hash_def unique_on_def)
  show "groups_ok md_db" by (simp add: groups_ok_def md_tables md_view_def md_group_def)
  show "assignments_ok md_db" by (simp add: assignments_ok_def md_tables)
qed

lemma md_current: "current_view_version md_db md_view = Inr (md_version 1 md_hash)"
  by (simp add: current_view_version_def md_tables md_view_def md_version_def)

lemma md_found: "List.find (\<lambda>g. dg_id g = strip ''grp_1'' \<and>
    where_resource (resource_scope_clause ex_operator ''dynamic_group.read'') (dg_scope g) (dg_client g) (dg_location g)) (db_groups md_db) = Some md_group"
  by (simp add: md_tables md_texts ex_operator_sees md_permissions md_group_def)

lemma md_previewed: "\<exists>v. preview_dynamic_group ex_operator ''grp_1'' 10 md_db = Inr v"
proof -
  have v: "fetch vw_id (dg_view md_group) (db_views md_db) = Some md_view" by (simp add: md_tables md_group_def md_view_def)
  have f: "vv_filter (md_version 1 md_hash) = md_filter" by (simp add: md_version_def)
  have small: "\<not> max_group_evaluation_endpoints < length (order_by ep_id (filter P (db_endpoints md_db)))" for P
    by (simp add: md_tables order_by_def max_group_evaluation_endpoints_def)
  show ?thesis
    using ex_operator_permits(2,3)[OF md_permissions(3)] ex_operator_permits(2)[OF md_permissions(4)] md_found
    by (simp add: preview_dynamic_group_def normalize_required_string_def trim_required_def Let_def md_texts v md_current f md_valid small)
qed

theorem preview_exact_witness:
  "\<exists>v. preview_dynamic_group ex_operator ''grp_1'' 10 md_db = Inr v \<and> length (pv_items v) \<le> 500 \<and> pv_evaluated v \<le> 10000"
proof -
  obtain v where v: "preview_dynamic_group ex_operator ''grp_1'' 10 md_db = Inr v" using md_previewed by blast
  show ?thesis using v preview_exact[OF v] by (auto simp: Let_def)
qed

theorem metadata_reads_complete_witness:
  "\<exists>out. list_saved_views ex_operator None None md_db = Inr out \<and> map fst out = [md_view]"
proof -
  have p: "require_permission ''saved_view.read'' ex_operator = Inr ex_operator" by (rule ex_operator_permits(3)[OF md_permissions(1)])
  have s: "selected_scope md_db ex_operator ''saved_view.read'' None None = Inr (None, None)"
    by (simp add: selected_scope_def validate_scope_filter_def normalize_optional_id_def)
  have shown: "view_shown ex_operator ''saved_view.read'' md_view"
    by (simp add: view_shown_def ex_operator_sees[OF md_permissions(1)] owner_clause_def md_view_def) (simp add: ex_operator_def)
  have rows: "order_by (\<lambda>v. (vw_name_normalized v, vw_id v)) (filter (\<lambda>v. view_shown ex_operator ''saved_view.read'' v \<and>
      where_resource (selected_resource_scope_clause None None) (vw_scope v) (vw_client v) (vw_location v)) (db_views md_db)) = [md_view]"
    by (simp add: md_tables shown selected_resource_scope_clause_def where_resource_def order_by_def)
  show ?thesis
    using mp[OF conjunct1[OF metadata_reads_complete[OF md_ok, where p = ex_operator and client_id = None and location_id = None and c = None and l = None]] conjI[OF p s]]
    unfolding rows .
qed

theorem metadata_calls_keep_contract_witness:
  "metadata_ok (\<lambda>b. b) (fst (metadata_call_outcome (\<lambda>b. b) ex_draw 0 (RemoveTag ex_operator ''ep_1'' ''tag_1'') md_db))"
  by (rule metadata_calls_keep_contract[OF md_ok])


definition md_tag :: tag_in where
  "md_tag = \<lparr>ti_scope = ClientScope, ti_client = Some '' cl_1'', ti_location = None, ti_name = ''web'', ti_description = None\<rparr>"

theorem padded_client_reported_taken_witness:
  "create_tag ex_draw 0 ex_operator md_tag ex_db = (ex_db, Inl (conflict ''tag name already exists in scope''))"
proof (rule padded_client_reported_taken[where c = "'' cl_1''" and key = "''client:cl_1''"])
  show "tag_in_valid md_tag" by code_simp
  show "require_requested_scope ex_db ex_operator ''tag.manage'' (ti_scope md_tag) (ti_client md_tag) (ti_location md_tag) = Inr ''client:cl_1''"
    using ex_operator_permits(1)[OF md_permissions(5)]
    by (simp add: require_requested_scope_def md_tag_def validate_scope_filter_def normalize_optional_id_def normalize_required_string_def
        trim_required_def md_texts require_scope_def scope_key_def)
qed (simp_all add: md_tag_def md_texts ex_operator_permits(3)[OF md_permissions(5)])

end
