(* ===== verification/Posture.thy ===== *)
theory Posture
  imports Endpoints Fleet_Metadata
begin

text \<open>
  \<open>app/api/endpoints/posture.py\<close>, the snapshots of observed controls an agent sends, and
  \<open>app/api/endpoints/audit.py\<close>, the reading of the audit log.  The controls of the source packs are the
  argument \<open>packs\<close>, as in \<open>Control_Registry\<close>.
\<close>

section \<open>Requests and tables\<close>

fun posture_status_value :: "posture_status \<Rightarrow> string" where
  "posture_status_value PosturePass = ''pass''"
| "posture_status_value PostureFail = ''fail''"
| "posture_status_value PostureWarn = ''warn''"
| "posture_status_value PostureError = ''error''"
| "posture_status_value PostureNotApplicable = ''not_applicable''"

record posture_result_in =
  ri_control_key :: string
  ri_status :: posture_status
  ri_current_value :: "string option"
  ri_recommended_value :: "string option"
  ri_severity :: "string option"
  ri_evidence_summary :: string
  ri_reboot_required :: bool

record snapshot_in =
  si_endpoint :: string
  si_observed_at :: py_datetime
  si_platform_profile :: string
  si_results :: "posture_result_in list"

text \<open>One entry of \<open>normalized_results\<close>.\<close>

record normalized_result =
  nr_control_key :: string
  nr_control_key_normalized :: string
  nr_status :: posture_status
  nr_current_value :: "string option"
  nr_recommended_value :: "string option"
  nr_severity :: "string option"
  nr_evidence_summary :: string
  nr_reboot_required :: bool

record snapshot_ack =
  sa_snapshot :: string
  sa_endpoint :: string
  sa_observed_at :: string
  sa_accepted :: nat
  sa_created_at :: string

definition insert_snapshot :: "snapshot_row \<Rightarrow> db \<Rightarrow> db result" where
  "insert_snapshot s db =
     (if fetch sn_id (sn_id s) (db_snapshots db) = None
         \<and> fetch ep_id (sn_endpoint s) (db_endpoints db) \<noteq> None
      then Inr (db\<lparr>db_snapshots := db_snapshots db @ [s]\<rparr>) else Inl IntegrityError)"

definition insert_posture :: "posture_row \<Rightarrow> db \<Rightarrow> db result" where
  "insert_posture r db =
     (if fetch po_id (po_id r) (db_postures db) = None
         \<and> fetch sn_id (po_snapshot r) (db_snapshots db) \<noteq> None
         \<and> fetch ep_id (po_endpoint r) (db_endpoints db) \<noteq> None
         \<and> fetch (\<lambda>x. (po_snapshot x, po_control_key_normalized x)) (po_snapshot r, po_control_key_normalized r) (db_postures db) = None
      then Inr (db\<lparr>db_postures := db_postures db @ [r]\<rparr>) else Inl IntegrityError)"

section \<open>Posture snapshots\<close>

definition normalize_result :: "posture_result_in \<Rightarrow> string \<times> string \<Rightarrow> normalized_result result" where
  "normalize_result r key =
     andThen (normalize_posture_status (posture_status_value (ri_status r))) (\<lambda>_.
     andThen (normalize_optional_string (ri_current_value r) ''current_value'') (\<lambda>current.
     andThen (normalize_optional_string (ri_recommended_value r) ''recommended_value'') (\<lambda>recommended.
     andThen (normalize_optional_string (ri_severity r) ''severity'') (\<lambda>severity.
     andThen (normalize_required_string (ri_evidence_summary r) ''evidence_summary'') (\<lambda>evidence.
     Inr \<lparr>nr_control_key = fst key, nr_control_key_normalized = snd key, nr_status = ri_status r,
          nr_current_value = current, nr_recommended_value = recommended, nr_severity = severity,
          nr_evidence_summary = evidence, nr_reboot_required = ri_reboot_required r\<rparr>)))))"

fun normalize_results ::
  "pack list \<Rightarrow> platform \<Rightarrow> string list \<Rightarrow> posture_result_in list \<Rightarrow> normalized_result list result" where
  "normalize_results packs platform seen [] = Inr []"
| "normalize_results packs platform seen (r # rs) =
     andThen (value_error_to_422 (normalize_observation_control_id packs (ri_control_key r) (Some platform))) (\<lambda>canonical_key.
     andThen (normalize_control_key canonical_key) (\<lambda>key.
     andThen (ensure (snd key \<notin> set seen) (unprocessable ''duplicate control_key values are not allowed'')) (\<lambda>_.
     andThen (normalize_result r key) (\<lambda>n.
     andThen (normalize_results packs platform (snd key # seen) rs) (\<lambda>ns. Inr (n # ns))))))"

definition posture_result :: "string \<Rightarrow> snapshot_row \<Rightarrow> normalized_result \<Rightarrow> posture_row" where
  "posture_result u s n =
     \<lparr>po_id = generate_prefixed_id ''res'' u, po_snapshot = sn_id s, po_endpoint = sn_endpoint s,
      po_control_key = nr_control_key n, po_control_key_normalized = nr_control_key_normalized n,
      po_status = nr_status n, po_current_value = nr_current_value n, po_recommended_value = nr_recommended_value n,
      po_severity = nr_severity n, po_evidence_summary = nr_evidence_summary n,
      po_reboot_required = nr_reboot_required n, po_created_at = sn_created_at s\<rparr>"

text \<open>The loop over \<open>normalized_results\<close>; the n-th id of the request is \<open>draw n\<close>.\<close>

fun store_results :: "(nat \<Rightarrow> string) \<Rightarrow> nat \<Rightarrow> snapshot_row \<Rightarrow> normalized_result list \<Rightarrow> db \<Rightarrow> db result" where
  "store_results draw k s [] db = Inr db"
| "store_results draw k s (n # ns) db =
     andThen (insert_posture (posture_result (draw k) s n) db) (store_results draw (Suc k) s ns)"

definition create_posture_snapshot ::
  "pack list \<Rightarrow> (nat \<Rightarrow> string) \<Rightarrow> nat \<Rightarrow> principal \<Rightarrow> snapshot_in \<Rightarrow> db \<Rightarrow> db \<times> snapshot_ack result" where
  "create_posture_snapshot packs draw now p payload db = transaction db (
     andThen (ensure (si_results payload \<noteq> []) (unprocessable ''request validation'')) (\<lambda>_.
     andThen (normalize_required_string (si_endpoint payload) ''endpoint_id'') (\<lambda>endpoint_id.
     andThen (enforce_device_endpoint p endpoint_id) (\<lambda>_.
     andThen (normalize_required_string (si_platform_profile payload) ''platform_profile'') (\<lambda>profile.
     andThen (to_utc_z (si_observed_at payload)) (\<lambda>observed_at.
     case fetch ep_id endpoint_id (db_endpoints db) of
       None \<Rightarrow> Inl (not_found ''endpoint not found'')
     | Some e \<Rightarrow>
         andThen (enforce_endpoint_credential_mode p (ep_mode e)) (\<lambda>_.
         andThen (ensure (ep_status e \<noteq> EpPending) (forbidden ''endpoint approval is pending'')) (\<lambda>_.
         andThen (ensure (si_results payload \<noteq> []) (unprocessable ''results must not be empty'')) (\<lambda>_.
         andThen (normalize_results packs (ep_platform e) [] (si_results payload)) (\<lambda>normalized.
         let created_at = strftime_z now;
             s = \<lparr>sn_id = generate_prefixed_id ''snap'' (draw 0), sn_endpoint = endpoint_id, sn_observed_at = observed_at,
                  sn_platform_profile = profile, sn_created_at = created_at\<rparr>
         in andThen (insert_snapshot s db) (\<lambda>db.
            andThen (store_results draw 1 s normalized db) (\<lambda>db.
            Inr (db, \<lparr>sa_snapshot = sn_id s, sa_endpoint = endpoint_id, sa_observed_at = observed_at,
                      sa_accepted = length normalized, sa_created_at = created_at\<rparr>)))))))))))))"

section \<open>The audit log\<close>

definition list_audit_events :: "principal \<Rightarrow> string option \<Rightarrow> string option \<Rightarrow> nat \<Rightarrow> db \<Rightarrow> audit_row list result" where
  "list_audit_events p client_id location_id limit db =
     andThen (require_permission ''audit.read'' p) (\<lambda>p.
     andThen (ensure (1 \<le> limit \<and> limit \<le> 500) (unprocessable ''request validation'')) (\<lambda>_.
     andThen (selected_scope db p ''audit.read'' client_id location_id) (\<lambda>(client, location).
     Inr (take limit (rev (order_by (\<lambda>a. (au_created_at a, au_id a)) (filter (\<lambda>a.
       where_clause (scope_clause p ''audit.read'') (au_client a) (au_location a) \<and>
       (case client of None \<Rightarrow> True | Some c \<Rightarrow> au_client a = Some c) \<and>
       (case location of None \<Rightarrow> True | Some l \<Rightarrow> au_location a = Some l)) (db_audits db))))))))"

end
