(* ===== verification/Posture_Contract.thy ===== *)
theory Posture_Contract
  imports Posture Metadata_Contract "HOL-Library.Multiset"
begin

text \<open>
  What a posture snapshot does: which reports are accepted, what the tables then hold and what the inventory of
  \<open>Endpoints\<close> shows of it; and what a reader of the audit log sees.
\<close>

section \<open>Normalised results\<close>

definition canonical_control :: "pack list \<Rightarrow> platform \<Rightarrow> posture_result_in \<Rightarrow> string" where
  "canonical_control packs platform r =
     (case normalize_observation_control_id packs (ri_control_key r) (Some platform) of Inr k \<Rightarrow> strip k | Inl _ \<Rightarrow> [])"

text \<open>The values a result is stored with, and when it is accepted.\<close>

definition reported :: "pack list \<Rightarrow> platform \<Rightarrow> posture_result_in \<Rightarrow> normalized_result" where
  "reported packs platform r =
     \<lparr>nr_control_key = canonical_control packs platform r, nr_control_key_normalized = lower (canonical_control packs platform r),
      nr_status = ri_status r, nr_current_value = map_option strip (ri_current_value r),
      nr_recommended_value = map_option strip (ri_recommended_value r), nr_severity = map_option strip (ri_severity r),
      nr_evidence_summary = strip (ri_evidence_summary r), nr_reboot_required = ri_reboot_required r\<rparr>"

definition texts_given :: "posture_result_in \<Rightarrow> bool" where
  "texts_given r \<longleftrightarrow> pred_option (\<lambda>t. strip t \<noteq> []) (ri_current_value r) \<and>
     pred_option (\<lambda>t. strip t \<noteq> []) (ri_recommended_value r) \<and> pred_option (\<lambda>t. strip t \<noteq> []) (ri_severity r) \<and>
     strip (ri_evidence_summary r) \<noteq> []"

definition acceptable :: "pack list \<Rightarrow> platform \<Rightarrow> posture_result_in \<Rightarrow> bool" where
  "acceptable packs platform r \<longleftrightarrow> canonical_control packs platform r \<noteq> [] \<and> texts_given r"

lemma value_error_kept [simp]: "value_error_to_422 r = Inr x \<longleftrightarrow> r = Inr x"
  by (auto simp: value_error_to_422_def split: sum.splits py_error.splits)

lemma normalize_optional_Inr: "normalize_optional_string v f = Inr t \<longleftrightarrow> t = map_option strip v \<and> pred_option (\<lambda>t. strip t \<noteq> []) v"
  by (auto simp: normalize_optional_string_def andThen_eq_Inr trim_required_eq_Inr split: option.splits)

lemma posture_status_accepted: "normalize_posture_status (posture_status_value s) = Inr (posture_status_value s)"
proof -
  have "normalize_posture_status ''pass'' = Inr ''pass''" "normalize_posture_status ''fail'' = Inr ''fail''"
    "normalize_posture_status ''warn'' = Inr ''warn''" "normalize_posture_status ''error'' = Inr ''error''"
    "normalize_posture_status ''not_applicable'' = Inr ''not_applicable''"
    by code_simp+
  then show ?thesis by (cases s) simp_all
qed

lemma normalize_result_Inr:
  assumes "key = (canonical_control packs pf r, lower (canonical_control packs pf r))"
  shows "normalize_result r key = Inr n \<longleftrightarrow> n = reported packs pf r \<and> texts_given r"
  unfolding normalize_result_def posture_status_accepted andThen_Inr
  by (auto simp: andThen_eq_Inr normalize_optional_Inr normalize_required_Inr reported_def texts_given_def assms)

lemma canonical_key_Inr:
  "(\<exists>k. normalize_observation_control_id packs (ri_control_key r) (Some pf) = Inr k \<and> normalize_control_key k = Inr key) \<longleftrightarrow>
     canonical_control packs pf r \<noteq> [] \<and> key = (canonical_control packs pf r, lower (canonical_control packs pf r))"
  by (cases "normalize_observation_control_id packs (ri_control_key r) (Some pf)")
    (auto simp: canonical_control_def normalize_control_key_def andThen_eq_Inr trim_required_eq_Inr)

lemma normalize_results_Inr:
  "normalize_results packs pf seen rs = Inr ns \<longleftrightarrow> ns = map (reported packs pf) rs \<and> (\<forall>r\<in>set rs. acceptable packs pf r) \<and>
     distinct (map (\<lambda>r. lower (canonical_control packs pf r)) rs) \<and> (\<forall>r\<in>set rs. lower (canonical_control packs pf r) \<notin> set seen)"
proof (induction rs arbitrary: seen ns)
  case (Cons r rs)
  let ?key = "(canonical_control packs pf r, lower (canonical_control packs pf r))"
  have "normalize_results packs pf seen (r # rs) = Inr ns \<longleftrightarrow>
      (\<exists>key. (\<exists>k. normalize_observation_control_id packs (ri_control_key r) (Some pf) = Inr k \<and> normalize_control_key k = Inr key) \<and>
        snd key \<notin> set seen \<and> (\<exists>n. normalize_result r key = Inr n \<and>
        (\<exists>ms. normalize_results packs pf (snd key # seen) rs = Inr ms \<and> ns = n # ms)))"
    by (auto simp: andThen_eq_Inr)
  also have "\<dots> \<longleftrightarrow> canonical_control packs pf r \<noteq> [] \<and> lower (canonical_control packs pf r) \<notin> set seen \<and> texts_given r \<and>
      (\<exists>ms. normalize_results packs pf (lower (canonical_control packs pf r) # seen) rs = Inr ms \<and> ns = reported packs pf r # ms)"
    unfolding canonical_key_Inr using normalize_result_Inr[OF refl, of r packs pf] by auto
  also have "\<dots> \<longleftrightarrow> ns = map (reported packs pf) (r # rs) \<and> (\<forall>r\<in>set (r # rs). acceptable packs pf r) \<and>
     distinct (map (\<lambda>r. lower (canonical_control packs pf r)) (r # rs)) \<and>
     (\<forall>r\<in>set (r # rs). lower (canonical_control packs pf r) \<notin> set seen)"
    unfolding Cons.IH acceptable_def by (auto intro: rev_image_eqI)
  finally show ?case .
qed auto

section \<open>The rows of a snapshot\<close>

definition result_rows :: "(nat \<Rightarrow> string) \<Rightarrow> nat \<Rightarrow> snapshot_row \<Rightarrow> normalized_result list \<Rightarrow> posture_row list" where
  "result_rows draw k s ns = map (\<lambda>(i, n). posture_result (draw i) s n) (enumerate k ns)"

lemma result_rows_simps [simp]:
  "result_rows draw k s [] = []"
  "result_rows draw k s (n # ns) = posture_result (draw k) s n # result_rows draw (Suc k) s ns"
  by (simp_all add: result_rows_def)

lemma posture_result_simps [simp]:
  "po_snapshot (posture_result u s n) = sn_id s" "po_endpoint (posture_result u s n) = sn_endpoint s"
  "po_id (posture_result u s n) = generate_prefixed_id ''res'' u" "po_created_at (posture_result u s n) = sn_created_at s"
  "po_control_key (posture_result u s n) = nr_control_key n"
  "po_control_key_normalized (posture_result u s n) = nr_control_key_normalized n"
  by (simp_all add: posture_result_def)

lemma insert_posture_Inr:
  "insert_posture r db = Inr db' \<longleftrightarrow> db' = db\<lparr>db_postures := db_postures db @ [r]\<rparr> \<and>
     po_id r \<notin> po_id ` set (db_postures db) \<and> po_snapshot r \<in> sn_id ` set (db_snapshots db) \<and>
     po_endpoint r \<in> ep_id ` set (db_endpoints db) \<and>
     (po_snapshot r, po_control_key_normalized r) \<notin> (\<lambda>x. (po_snapshot x, po_control_key_normalized x)) ` set (db_postures db)"
  by (auto simp: insert_posture_def fetch_None)

lemma store_results_rows: "store_results draw k s ns db = Inr db' \<Longrightarrow>
    db' = db\<lparr>db_postures := db_postures db @ result_rows draw k s ns\<rparr>"
proof (induction ns arbitrary: k db)
  case (Cons n ns)
  from Cons.prems obtain d where d: "insert_posture (posture_result (draw k) s n) db = Inr d" "store_results draw (Suc k) s ns d = Inr db'"
    by (auto simp: andThen_eq_Inr)
  then have "d = db\<lparr>db_postures := db_postures db @ [posture_result (draw k) s n]\<rparr>" by (simp only: insert_posture_Inr)
  with Cons.IH[OF d(2)] show ?case by simp
qed simp
text \<open>The results of a table as snapshots: what the two tables promise each other.\<close>

definition results_ok :: "db \<Rightarrow> bool" where
  "results_ok db \<longleftrightarrow> unique_on po_id (db_postures db) \<and>
     unique_on (\<lambda>x. (po_snapshot x, po_control_key_normalized x)) (db_postures db) \<and>
     (\<forall>r\<in>set (db_postures db). \<exists>s\<in>set (db_snapshots db). sn_id s = po_snapshot r \<and> sn_endpoint s = po_endpoint r)"

definition posture_ok :: "db \<Rightarrow> bool" where
  "posture_ok db \<longleftrightarrow> results_ok db \<and> unique_on sn_id (db_snapshots db) \<and>
     (\<forall>s\<in>set (db_snapshots db). sn_endpoint s \<in> ep_id ` set (db_endpoints db) \<and>
        (\<exists>r\<in>set (db_postures db). po_snapshot r = sn_id s))"

lemma insert_posture_results_ok:
  assumes "insert_posture (posture_result u s n) db = Inr db'" and "results_ok db" and "s \<in> set (db_snapshots db)"
  shows "results_ok db'"
proof -
  note new = assms(1)[unfolded insert_posture_Inr]
  then have db': "db' = db\<lparr>db_postures := db_postures db @ [posture_result u s n]\<rparr>" by simp
  show ?thesis using new assms(2,3) unfolding results_ok_def db' by (auto simp: unique_on_def)
qed

lemma store_results_ok: "store_results draw k s ns db = Inr db' \<Longrightarrow> results_ok db \<Longrightarrow> s \<in> set (db_snapshots db) \<Longrightarrow> results_ok db'"
proof (induction ns arbitrary: k db)
  case (Cons n ns)
  from Cons.prems(1) obtain d where d: "insert_posture (posture_result (draw k) s n) db = Inr d" "store_results draw (Suc k) s ns d = Inr db'"
    by (auto simp: andThen_eq_Inr)
  then have "db_snapshots d = db_snapshots db" by (simp add: insert_posture_Inr)
  with Cons.IH[OF d(2) insert_posture_results_ok[OF d(1) Cons.prems(2,3)]] Cons.prems(3) show ?case by simp
qed simp

lemma generate_prefixed_id_inj [simp]: "generate_prefixed_id t u = generate_prefixed_id t v \<longleftrightarrow> u = v"
  by (simp add: generate_prefixed_id_def)

lemma store_results_runs:
  assumes "s \<in> set (db_snapshots db)" and "sn_endpoint s \<in> ep_id ` set (db_endpoints db)" and "inj draw"
    and "\<And>i. k \<le> i \<Longrightarrow> generate_prefixed_id ''res'' (draw i) \<notin> po_id ` set (db_postures db)"
    and "\<And>n. n \<in> set ns \<Longrightarrow> (sn_id s, nr_control_key_normalized n) \<notin> (\<lambda>x. (po_snapshot x, po_control_key_normalized x)) ` set (db_postures db)"
    and "distinct (map nr_control_key_normalized ns)"
  shows "\<exists>db'. store_results draw k s ns db = Inr db'"
  using assms
proof (induction ns arbitrary: k db)
  case (Cons n ns)
  let ?d = "db\<lparr>db_postures := db_postures db @ [posture_result (draw k) s n]\<rparr>"
  have d: "insert_posture (posture_result (draw k) s n) db = Inr ?d"
    using Cons.prems(1,2,4,5) by (simp add: insert_posture_Inr)
  have "\<exists>db'. store_results draw (Suc k) s ns ?d = Inr db'"
  proof (rule Cons.IH)
    show "s \<in> set (db_snapshots ?d)" "sn_endpoint s \<in> ep_id ` set (db_endpoints ?d)" "inj draw" using Cons.prems(1-3) by simp_all
    show "generate_prefixed_id ''res'' (draw i) \<notin> po_id ` set (db_postures ?d)" if "Suc k \<le> i" for i
      using Cons.prems(3) Cons.prems(4)[of i] that by (auto dest: injD)
    show "(sn_id s, nr_control_key_normalized m) \<notin> (\<lambda>x. (po_snapshot x, po_control_key_normalized x)) ` set (db_postures ?d)" if "m \<in> set ns" for m
      using Cons.prems(5)[of m] Cons.prems(6) that by (auto intro: rev_image_eqI)
    show "distinct (map nr_control_key_normalized ns)" using Cons.prems(6) by simp
  qed
  then show ?case using d by simp
qed simp


section \<open>Accepted reports\<close>

definition report_accepted :: "pack list \<Rightarrow> principal \<Rightarrow> snapshot_in \<Rightarrow> db \<Rightarrow> endpoint_row \<Rightarrow> string \<Rightarrow> bool" where
  "report_accepted packs p payload db e observed_at \<longleftrightarrow>
     si_results payload \<noteq> [] \<and> strip (si_endpoint payload) \<noteq> [] \<and> fetch ep_id (strip (si_endpoint payload)) (db_endpoints db) = Some e \<and>
     (p_method p = DeviceCredential \<longrightarrow> p_endpoint p = Some (ep_id e)) \<and> (ep_mode e = DeviceMode \<longrightarrow> p_method p = DeviceCredential) \<and>
     ep_status e \<noteq> EpPending \<and> strip (si_platform_profile payload) \<noteq> [] \<and> to_utc_z (si_observed_at payload) = Inr observed_at \<and>
     (\<forall>r\<in>set (si_results payload). acceptable packs (ep_platform e) r) \<and>
     distinct (map (\<lambda>r. lower (canonical_control packs (ep_platform e) r)) (si_results payload))"

definition report_snapshot :: "(nat \<Rightarrow> string) \<Rightarrow> nat \<Rightarrow> snapshot_in \<Rightarrow> endpoint_row \<Rightarrow> string \<Rightarrow> snapshot_row" where
  "report_snapshot draw now payload e observed_at =
     \<lparr>sn_id = generate_prefixed_id ''snap'' (draw 0), sn_endpoint = ep_id e, sn_observed_at = observed_at,
      sn_platform_profile = strip (si_platform_profile payload), sn_created_at = strftime_z now\<rparr>"

definition report_ack :: "snapshot_row \<Rightarrow> nat \<Rightarrow> snapshot_ack" where
  "report_ack s n = \<lparr>sa_snapshot = sn_id s, sa_endpoint = sn_endpoint s, sa_observed_at = sn_observed_at s, sa_accepted = n,
     sa_created_at = sn_created_at s\<rparr>"

definition report_inserts ::
  "pack list \<Rightarrow> (nat \<Rightarrow> string) \<Rightarrow> nat \<Rightarrow> snapshot_in \<Rightarrow> endpoint_row \<Rightarrow> string \<Rightarrow> db \<Rightarrow> db result" where
  "report_inserts packs draw now payload e observed_at db =
     (let s = report_snapshot draw now payload e observed_at
      in andThen (insert_snapshot s db) (store_results draw 1 s (map (reported packs (ep_platform e)) (si_results payload))))"

lemma report_snapshot_simps [simp]:
  "sn_id (report_snapshot draw now payload e t) = generate_prefixed_id ''snap'' (draw 0)"
  "sn_endpoint (report_snapshot draw now payload e t) = ep_id e" "sn_observed_at (report_snapshot draw now payload e t) = t"
  by (simp_all add: report_snapshot_def)

lemma enforce_device_endpoint_Inr:
  "enforce_device_endpoint p k = Inr u \<longleftrightarrow> (p_method p = DeviceCredential \<longrightarrow> p_endpoint p = Some k)"
  "enforce_endpoint_credential_mode p m = Inr u \<longleftrightarrow> (m = DeviceMode \<longrightarrow> p_method p = DeviceCredential)"
  by (auto simp: enforce_device_endpoint_def enforce_endpoint_credential_mode_def)

lemma create_posture_snapshot_Inr:
  "create_posture_snapshot packs draw now p payload db = (db', Inr ack) \<longleftrightarrow>
     (\<exists>e t. report_accepted packs p payload db e t \<and> report_inserts packs draw now payload e t db = Inr db' \<and>
        ack = report_ack (report_snapshot draw now payload e t) (length (si_results payload)))"
  (is "?l \<longleftrightarrow> ?r")
proof
  assume run: ?l
  from run[unfolded create_posture_snapshot_def transaction_Inr] obtain k t profile where
    k: "si_results payload \<noteq> []" "k = strip (si_endpoint payload)" "k \<noteq> []" "enforce_device_endpoint p k = Inr ()"
      "profile = strip (si_platform_profile payload)" "profile \<noteq> []" "to_utc_z (si_observed_at payload) = Inr t"
    by (auto simp: andThen_eq_Inr normalize_required_Inr)
  note pre = k(2,3,5,6) ensure_def
  obtain e where e: "fetch ep_id k (db_endpoints db) = Some e"
    using run by (cases "fetch ep_id k (db_endpoints db)")
      (auto simp: create_posture_snapshot_def transaction_Inr andThen_eq_Inr normalize_required_Inr k(2))
  have id: "ep_id e = k" using fetch_SomeD[OF e] by simp
  from run e obtain ns d where ok: "enforce_endpoint_credential_mode p (ep_mode e) = Inr ()" "ep_status e \<noteq> EpPending"
      "normalize_results packs (ep_platform e) [] (si_results payload) = Inr ns"
    and d: "insert_snapshot (report_snapshot draw now payload e t) db = Inr d"
      "store_results draw 1 (report_snapshot draw now payload e t) ns d = Inr db'"
      "ack = report_ack (report_snapshot draw now payload e t) (length ns)"
    unfolding report_snapshot_def report_ack_def
    by (auto simp: create_posture_snapshot_def transaction_Inr andThen_eq_Inr normalize_required_Inr k(2,5,7) id[unfolded k(2)] Let_def)
  have ns: "ns = map (reported packs (ep_platform e)) (si_results payload)"
    "\<forall>r\<in>set (si_results payload). acceptable packs (ep_platform e) r"
    "distinct (map (\<lambda>r. lower (canonical_control packs (ep_platform e) r)) (si_results payload))"
    using ok(3) by (auto simp: normalize_results_Inr)
  have "report_accepted packs p payload db e t"
    unfolding report_accepted_def using k ok(1,2) e ns(2,3) id by (simp add: enforce_device_endpoint_Inr)
  then show ?r using d ns(1) unfolding report_inserts_def Let_def by (intro exI[of _ e] exI[of _ t]) simp
next
  assume ?r
  then obtain e t where ok: "report_accepted packs p payload db e t" "report_inserts packs draw now payload e t db = Inr db'"
    "ack = report_ack (report_snapshot draw now payload e t) (length (si_results payload))" by blast
  have "ep_id e = strip (si_endpoint payload)" using ok(1) by (auto simp: report_accepted_def dest: fetch_SomeD)
  then have "normalize_results packs (ep_platform e) [] (si_results payload) = Inr (map (reported packs (ep_platform e)) (si_results payload))"
    "normalize_required_string (si_endpoint payload) ''endpoint_id'' = Inr (ep_id e)"
    "enforce_device_endpoint p (ep_id e) = Inr ()"
    "normalize_required_string (si_platform_profile payload) ''platform_profile'' = Inr (strip (si_platform_profile payload))"
    "to_utc_z (si_observed_at payload) = Inr t" "fetch ep_id (ep_id e) (db_endpoints db) = Some e"
    "enforce_endpoint_credential_mode p (ep_mode e) = Inr ()" "si_results payload \<noteq> []" "ep_status e \<noteq> EpPending"
    using ok(1) by (auto simp: report_accepted_def normalize_results_Inr normalize_required_Inr enforce_device_endpoint_Inr)
  moreover obtain d where "insert_snapshot (report_snapshot draw now payload e t) db = Inr d"
    "store_results draw 1 (report_snapshot draw now payload e t) (map (reported packs (ep_platform e)) (si_results payload)) d = Inr db'"
    using ok(2) by (auto simp: report_inserts_def Let_def andThen_eq_Inr)
  ultimately show ?l
    by (simp add: create_posture_snapshot_def transaction_Inr Let_def ok(3) report_ack_def report_snapshot_def)
qed


lemma insert_snapshot_Inr:
  "insert_snapshot s db = Inr db' \<longleftrightarrow> db' = db\<lparr>db_snapshots := db_snapshots db @ [s]\<rparr> \<and>
     sn_id s \<notin> sn_id ` set (db_snapshots db) \<and> sn_endpoint s \<in> ep_id ` set (db_endpoints db)"
  by (auto simp: insert_snapshot_def fetch_None)

lemma report_inserts_Inr:
  assumes "report_inserts packs draw now payload e t db = Inr db'"
  defines "s \<equiv> report_snapshot draw now payload e t"
  defines "rows \<equiv> result_rows draw 1 s (map (reported packs (ep_platform e)) (si_results payload))"
  shows "db' = db\<lparr>db_snapshots := db_snapshots db @ [s], db_postures := db_postures db @ rows\<rparr>"
    and "sn_id s \<notin> sn_id ` set (db_snapshots db)" and "ep_id e \<in> ep_id ` set (db_endpoints db)"
    and "results_ok db \<Longrightarrow> results_ok db'"
proof -
  from assms(1) obtain d where d: "insert_snapshot s db = Inr d"
      "store_results draw 1 s (map (reported packs (ep_platform e)) (si_results payload)) d = Inr db'"
    by (auto simp: report_inserts_def Let_def andThen_eq_Inr s_def)
  note d1 = d(1)[unfolded insert_snapshot_Inr]
  then show "sn_id s \<notin> sn_id ` set (db_snapshots db)" "ep_id e \<in> ep_id ` set (db_endpoints db)" by (simp_all add: s_def)
  from d1 have d': "d = db\<lparr>db_snapshots := db_snapshots db @ [s]\<rparr>" by simp
  show "db' = db\<lparr>db_snapshots := db_snapshots db @ [s], db_postures := db_postures db @ rows\<rparr>"
    using store_results_rows[OF d(2)] unfolding rows_def d' by simp
  show "results_ok db'" if "results_ok db"
  proof (rule store_results_ok[OF d(2)])
    show "results_ok d" using that unfolding results_ok_def d' by auto
    show "s \<in> set (db_snapshots d)" unfolding d' by simp
  qed
qed

lemma result_rows_of: "r \<in> set (result_rows draw k s ns) \<Longrightarrow> po_snapshot r = sn_id s \<and> po_endpoint r = sn_endpoint s"
  by (induction ns arbitrary: k) auto

lemma posture_snapshot_keeps:
  assumes "posture_ok db"
  shows "posture_ok (fst (create_posture_snapshot packs draw now p payload db))"
proof (cases "snd (create_posture_snapshot packs draw now p payload db)")
  case (Inl err)
  then have "fst (create_posture_snapshot packs draw now p payload db) = db"
    by (auto simp: create_posture_snapshot_def transaction_def split: sum.splits prod.splits)
  then show ?thesis using assms by simp
next
  case (Inr ack)
  then obtain db' where run: "create_posture_snapshot packs draw now p payload db = (db', Inr ack)" by (metis prod.collapse)
  then obtain e t where ok: "report_accepted packs p payload db e t" "report_inserts packs draw now payload e t db = Inr db'"
    unfolding create_posture_snapshot_Inr by blast
  note ins = report_inserts_Inr[OF ok(2)]
  have "si_results payload \<noteq> []" using ok(1) by (simp add: report_accepted_def)
  then obtain n ns where "map (reported packs (ep_platform e)) (si_results payload) = n # ns" by (cases "si_results payload") auto
  then have "\<exists>r\<in>set (db_postures db'). po_snapshot r = sn_id (report_snapshot draw now payload e t)" by (simp add: ins(1))
  moreover have "results_ok db'" using ins(4) assms by (simp add: posture_ok_def)
  ultimately show ?thesis
    using assms ins(2,3) unfolding run fst_conv posture_ok_def
    by (auto simp: ins(1) unique_on_def)
qed

definition fresh_report :: "(nat \<Rightarrow> string) \<Rightarrow> db \<Rightarrow> bool" where
  "fresh_report draw db \<longleftrightarrow> inj draw \<and> generate_prefixed_id ''snap'' (draw 0) \<notin> sn_id ` set (db_snapshots db) \<and>
     (\<forall>i. generate_prefixed_id ''res'' (draw i) \<notin> po_id ` set (db_postures db))"

lemma report_inserts_runs:
  assumes "posture_ok db" and "fresh_report draw db" and "report_accepted packs p payload db e t"
  shows "\<exists>db'. report_inserts packs draw now payload e t db = Inr db'"
proof -
  define s where "s = report_snapshot draw now payload e t"
  define d where "d = db\<lparr>db_snapshots := db_snapshots db @ [s]\<rparr>"
  have new: "sn_id s \<notin> sn_id ` set (db_snapshots db)" using assms(2) by (simp add: s_def fresh_report_def)
  have e: "ep_id e \<in> ep_id ` set (db_endpoints db)" using assms(3) by (auto simp: report_accepted_def dest: fetch_SomeD)
  have "insert_snapshot s db = Inr d" unfolding insert_snapshot_Inr d_def using new e by (simp add: s_def)
  moreover have "\<exists>db'. store_results draw 1 s (map (reported packs (ep_platform e)) (si_results payload)) d = Inr db'"
  proof (rule store_results_runs)
    show "s \<in> set (db_snapshots d)" "sn_endpoint s \<in> ep_id ` set (db_endpoints d)" "inj draw"
      using e assms(2) by (simp_all add: d_def s_def fresh_report_def)
    show "generate_prefixed_id ''res'' (draw i) \<notin> po_id ` set (db_postures d)" for i
      using assms(2) by (simp add: d_def fresh_report_def)
    show "(sn_id s, nr_control_key_normalized n) \<notin> (\<lambda>x. (po_snapshot x, po_control_key_normalized x)) ` set (db_postures d)" for n
      using assms(1) new by (force simp: posture_ok_def results_ok_def d_def)
    show "distinct (map nr_control_key_normalized (map (reported packs (ep_platform e)) (si_results payload)))"
      using assms(3) by (simp add: report_accepted_def comp_def reported_def)
  qed
  ultimately show ?thesis unfolding report_inserts_def Let_def s_def[symmetric] by simp
qed

text \<open>
  C32.  What becomes of a report: it is accepted exactly when a device reports for itself, for an approved endpoint it
  may speak for, and every result names another registered control of the endpoint's platform with no blank text; any
  other report changes nothing.  Either way every snapshot keeps an endpoint and at least one result, every result its
  snapshot and endpoint, and no snapshot holds a control twice.
\<close>

theorem posture_report_outcome:
  assumes "posture_ok db" and "fresh_report draw db"
  shows "posture_ok (fst (create_posture_snapshot packs draw now p payload db)) \<and>
    ((\<exists>ack. snd (create_posture_snapshot packs draw now p payload db) = Inr ack) \<longleftrightarrow> (\<exists>e t. report_accepted packs p payload db e t)) \<and>
    (\<forall>err. snd (create_posture_snapshot packs draw now p payload db) = Inl err \<longrightarrow>
       fst (create_posture_snapshot packs draw now p payload db) = db)"
proof (intro conjI allI impI)
  show "posture_ok (fst (create_posture_snapshot packs draw now p payload db))" by (rule posture_snapshot_keeps[OF assms(1)])
  show "(\<exists>ack. snd (create_posture_snapshot packs draw now p payload db) = Inr ack) \<longleftrightarrow> (\<exists>e t. report_accepted packs p payload db e t)"
  proof
    assume "\<exists>ack. snd (create_posture_snapshot packs draw now p payload db) = Inr ack"
    then obtain db' ack where "create_posture_snapshot packs draw now p payload db = (db', Inr ack)" by (metis prod.collapse)
    then show "\<exists>e t. report_accepted packs p payload db e t" unfolding create_posture_snapshot_Inr by blast
  next
    assume "\<exists>e t. report_accepted packs p payload db e t"
    then obtain e t db' where "report_accepted packs p payload db e t" "report_inserts packs draw now payload e t db = Inr db'"
      using report_inserts_runs[OF assms] by blast
    then have "create_posture_snapshot packs draw now p payload db =
        (db', Inr (report_ack (report_snapshot draw now payload e t) (length (si_results payload))))"
      unfolding create_posture_snapshot_Inr by blast
    then show "\<exists>ack. snd (create_posture_snapshot packs draw now p payload db) = Inr ack" by simp
  qed
  show "fst (create_posture_snapshot packs draw now p payload db) = db"
    if "snd (create_posture_snapshot packs draw now p payload db) = Inl err" for err
    using that by (auto simp: create_posture_snapshot_def transaction_def split: sum.splits prod.splits)
qed


section \<open>What the inventory shows\<close>

lemma rev_order_by_newest:
  assumes "inj_on k (set xs)" and "m \<in> set xs" and "\<And>y. y \<in> set xs \<Longrightarrow> k y \<le> k m"
  obtains rest where "rev (order_by k xs) = m # rest"
proof -
  obtain x rest where x: "rev (order_by k xs) = x # rest"
    using assms(2) by (metis list.exhaust list.set(1) rev_is_Nil_conv set_order_by empty_iff)
  then have split: "order_by k xs = rev rest @ [x]" by (metis rev.simps(2) rev_rev_ident)
  then have "x \<in> set xs" using set_order_by[of k xs] by auto
  have "sorted (map k (rev rest @ [x]))" using sorted_order_by[of k xs] split by simp
  then have "k y \<le> k x" if "y \<in> set xs" for y
    using that set_order_by[of k xs] unfolding split by (auto simp: sorted_append)
  with assms(2,3) \<open>x \<in> set xs\<close> have "k x = k m" by (meson order.antisym)
  with assms(1,2) \<open>x \<in> set xs\<close> have "x = m" by (meson inj_onD)
  with x that show ?thesis by blast
qed

lemma order_by_Nil [simp]: "order_by k [] = []"
  by (simp add: order_by_def)

lemma status_counts:
  "posture_count (\<lambda>r. po_status r = PosturePass) rs + posture_count (\<lambda>r. po_status r = PostureFail) rs +
   posture_count (\<lambda>r. po_status r = PostureWarn) rs + posture_count (\<lambda>r. po_status r = PostureError) rs +
   posture_count (\<lambda>r. po_status r = PostureNotApplicable) rs = length rs"
proof (induction rs)
  case (Cons r rs)
  then show ?case by (cases "po_status r") (simp_all add: posture_count_def)
qed (simp add: posture_count_def)

text \<open>The content of a stored result.\<close>

definition stored :: "posture_row \<Rightarrow> normalized_result" where
  "stored r = \<lparr>nr_control_key = po_control_key r, nr_control_key_normalized = po_control_key_normalized r, nr_status = po_status r,
     nr_current_value = po_current_value r, nr_recommended_value = po_recommended_value r, nr_severity = po_severity r,
     nr_evidence_summary = po_evidence_summary r, nr_reboot_required = po_reboot_required r\<rparr>"

lemma stored_rows: "map stored (result_rows draw k s ns) = ns"
  by (induction ns arbitrary: k) (simp_all add: stored_def posture_result_def)

lemma mset_order_by: "mset (order_by k xs) = mset xs"
  by (simp add: order_by_def)

definition snapshots_of :: "db \<Rightarrow> string \<Rightarrow> snapshot_row list" where
  "snapshots_of db k = filter (\<lambda>s. sn_endpoint s = k) (db_snapshots db)"

abbreviation snapshot_time :: "snapshot_row \<Rightarrow> string \<times> string" where
  "snapshot_time s \<equiv> (sn_observed_at s, sn_id s)"

text \<open>The counters of a summary, from pass to not applicable and the results that ask for a reboot.\<close>

definition status_list :: "posture_status list" where
  "status_list = [PosturePass, PostureFail, PostureWarn, PostureError, PostureNotApplicable]"

definition summary_counts :: "posture_summary \<Rightarrow> nat list" where
  "summary_counts v = [ps_pass v, ps_fail v, ps_warn v, ps_error v, ps_not_applicable v]"

lemma count_order_by: "posture_count P (order_by k rs) = length (filter P rs)"
  unfolding posture_count_def order_by_def by (simp add: filter_sort)

lemma count_stored:
  assumes "map stored rows = map (reported packs platform) results"
  shows "length (filter (\<lambda>r. po_status r = v) rows) = length (filter (\<lambda>r. ri_status r = v) results)"
    "length (filter po_reboot_required rows) = length (filter ri_reboot_required results)"
proof -
  have rows: "length (filter (\<lambda>r. P (stored r)) rows) = length (filter (\<lambda>r. P (reported packs platform r)) results)" for P
    using arg_cong[OF assms, of "\<lambda>l. length (filter P l)"] by (simp add: filter_map comp_def)
  show "length (filter (\<lambda>r. po_status r = v) rows) = length (filter (\<lambda>r. ri_status r = v) results)"
    using rows[of "\<lambda>n. nr_status n = v"] by (simp add: stored_def reported_def)
  show "length (filter po_reboot_required rows) = length (filter ri_reboot_required results)"
    using rows[of nr_reboot_required] by (simp add: stored_def reported_def)
qed

lemma latest_posture_newest:
  assumes "unique_on sn_id (db_snapshots db)" and "s \<in> set (snapshots_of db k)"
    and "\<And>y. y \<in> set (snapshots_of db k) \<Longrightarrow> snapshot_time y \<le> snapshot_time s"
  obtains summary where "latest_posture db k = (Some summary, order_by po_control_key (filter (\<lambda>r. po_snapshot r = sn_id s) (db_postures db)))"
    "ps_snapshot summary = sn_id s" "ps_observed_at summary = sn_observed_at s" "ps_profile summary = sn_platform_profile s"
    "ps_pass summary + ps_fail summary + ps_warn summary + ps_error summary + ps_not_applicable summary =
       length (filter (\<lambda>r. po_snapshot r = sn_id s) (db_postures db))"
    "summary_counts summary =
       map (\<lambda>v. length (filter (\<lambda>r. po_status r = v) (filter (\<lambda>r. po_snapshot r = sn_id s) (db_postures db)))) status_list"
    "ps_reboot_required summary = length (filter po_reboot_required (filter (\<lambda>r. po_snapshot r = sn_id s) (db_postures db)))"
proof -
  have "inj_on snapshot_time (set (snapshots_of db k))"
    using assms(1) by (auto simp: inj_on_def unique_on_def distinct_map snapshots_of_def)
  then obtain rest where "rev (order_by snapshot_time (snapshots_of db k)) = s # rest"
    using rev_order_by_newest[of snapshot_time "snapshots_of db k" s] assms(2,3) by blast
  then have row: "rev (order_by (\<lambda>s. (sn_observed_at s, sn_id s)) (filter (\<lambda>s. sn_endpoint s = k) (db_snapshots db))) = s # rest"
    by (simp only: snapshots_of_def)
  show ?thesis
    by (rule that, simp only: latest_posture_def row list.case Let_def,
      simp_all only: posture_summary.simps count_order_by status_counts[unfolded posture_count_def] summary_counts_def
        status_list_def list.map)
qed

lemma latest_posture_cong:
  assumes "snapshots_of db' k = snapshots_of db k"
    and "\<And>s. s \<in> set (snapshots_of db k) \<Longrightarrow> filter (\<lambda>r. po_snapshot r = sn_id s) (db_postures db') = filter (\<lambda>r. po_snapshot r = sn_id s) (db_postures db)"
  shows "latest_posture db' k = latest_posture db k"
proof (cases "rev (order_by (\<lambda>s. (sn_observed_at s, sn_id s)) (snapshots_of db k))")
  case Nil
  then show ?thesis using assms(1) by (simp add: latest_posture_def snapshots_of_def)
next
  case (Cons s rest)
  then have "s \<in> set (snapshots_of db k)" by (metis list.set_intros(1) set_order_by set_rev)
  from assms(2)[OF this] show ?thesis
    using Cons assms(1) by (simp add: latest_posture_def snapshots_of_def)
qed


lemma latest_posture_same:
  assumes "unique_on sn_id (db_snapshots db)" and "unique_on sn_id (db_snapshots db')"
    and "m \<in> set (snapshots_of db k)" and "m \<in> set (snapshots_of db' k)"
    and "\<And>y. y \<in> set (snapshots_of db k) \<union> set (snapshots_of db' k) \<Longrightarrow> snapshot_time y \<le> snapshot_time m"
    and "filter (\<lambda>r. po_snapshot r = sn_id m) (db_postures db') = filter (\<lambda>r. po_snapshot r = sn_id m) (db_postures db)"
  shows "latest_posture db' k = latest_posture db k"
proof -
  have head: "\<exists>rest. rev (order_by (\<lambda>s. (sn_observed_at s, sn_id s)) (filter (\<lambda>s. sn_endpoint s = k) (db_snapshots d))) = m # rest"
    if "unique_on sn_id (db_snapshots d)" "m \<in> set (snapshots_of d k)"
      "\<And>y. y \<in> set (snapshots_of d k) \<Longrightarrow> snapshot_time y \<le> snapshot_time m" for d
  proof -
    have "inj_on snapshot_time (set (snapshots_of d k))"
      using that(1) by (auto simp: inj_on_def unique_on_def distinct_map snapshots_of_def)
    then show ?thesis
      using rev_order_by_newest[of snapshot_time "snapshots_of d k" m] that(2,3) unfolding snapshots_of_def by blast
  qed
  obtain r where r: "rev (order_by (\<lambda>s. (sn_observed_at s, sn_id s)) (filter (\<lambda>s. sn_endpoint s = k) (db_snapshots db))) = m # r"
    using head[OF assms(1,3)] assms(5) by blast
  obtain r' where r': "rev (order_by (\<lambda>s. (sn_observed_at s, sn_id s)) (filter (\<lambda>s. sn_endpoint s = k) (db_snapshots db'))) = m # r'"
    using head[OF assms(2,4)] assms(5) by blast
  show ?thesis by (simp only: latest_posture_def r r' list.case assms(6))
qed

lemma newest_exists:
  fixes k :: "'r \<Rightarrow> 'k::linorder"
  assumes "xs \<noteq> []"
  obtains m where "m \<in> set xs" and "\<And>y. y \<in> set xs \<Longrightarrow> k y \<le> k m"
proof -
  have "Max (k ` set xs) \<in> k ` set xs" using assms by (intro Max_in) auto
  then obtain m where "m \<in> set xs" "Max (k ` set xs) = k m" by auto
  moreover have "k y \<le> Max (k ` set xs)" if "y \<in> set xs" for y using that by simp
  ultimately show ?thesis using that by metis
qed

text \<open>
  C31.  What the inventory shows after an accepted report: the latest posture of every other endpoint is as before; that
  of the reporting endpoint is the new snapshot, with each reported result under its canonical control, ordered by
  control, with how many results have each status and how many ask for a reboot, unless the endpoint has a later observation, which stays.
\<close>

theorem accepted_report_shown:
  assumes "posture_ok db" and "create_posture_snapshot packs draw now p payload db = (db', Inr ack)"
  shows "\<exists>e t. report_accepted packs p payload db e t \<and>
    (\<forall>k. k \<noteq> ep_id e \<longrightarrow> latest_posture db' k = latest_posture db k) \<and>
    (if \<exists>s\<in>set (db_snapshots db). sn_endpoint s = ep_id e \<and> (t, sa_snapshot ack) < (sn_observed_at s, sn_id s)
     then latest_posture db' (ep_id e) = latest_posture db (ep_id e)
     else \<exists>summary results. latest_posture db' (ep_id e) = (Some summary, results) \<and>
       ps_snapshot summary = sa_snapshot ack \<and> ps_observed_at summary = t \<and> ps_profile summary = strip (si_platform_profile payload) \<and>
       mset (map stored results) = mset (map (reported packs (ep_platform e)) (si_results payload)) \<and>
       sorted (map po_control_key results) \<and>
       summary_counts summary = map (\<lambda>v. length (filter (\<lambda>r. ri_status r = v) (si_results payload))) status_list \<and>
       ps_reboot_required summary = length (filter ri_reboot_required (si_results payload)) \<and>
       ps_pass summary + ps_fail summary + ps_warn summary + ps_error summary + ps_not_applicable summary = sa_accepted ack)"
proof -
  obtain e t where ok: "report_accepted packs p payload db e t" "report_inserts packs draw now payload e t db = Inr db'"
    and ack: "ack = report_ack (report_snapshot draw now payload e t) (length (si_results payload))"
    using assms(2) unfolding create_posture_snapshot_Inr by blast
  define s where "s = report_snapshot draw now payload e t"
  define rows where "rows = result_rows draw 1 s (map (reported packs (ep_platform e)) (si_results payload))"
  note db' = report_inserts_Inr(1)[OF ok(2), folded s_def, folded rows_def]
  have new: "sn_id s \<notin> sn_id ` set (db_snapshots db)" using report_inserts_Inr(2)[OF ok(2)] by (simp add: s_def)
  have s: "sn_endpoint s = ep_id e" "sn_observed_at s = t" "sa_snapshot ack = sn_id s" by (simp_all add: s_def ack report_ack_def)
  have rows: "\<forall>r\<in>set rows. po_snapshot r = sn_id s" using result_rows_of unfolding rows_def by blast
  have old: "\<forall>r\<in>set (db_postures db). po_snapshot r \<noteq> sn_id s"
    using assms(1) new unfolding posture_ok_def results_ok_def by (metis image_eqI)
  have kept: "filter (\<lambda>r. po_snapshot r = sn_id x) (db_postures db') = filter (\<lambda>r. po_snapshot r = sn_id x) (db_postures db)"
    if "x \<in> set (db_snapshots db)" for x
    using that new rows by (force simp: db' filter_empty_conv)
  have mine: "filter (\<lambda>r. po_snapshot r = sn_id s) (db_postures db') = rows"
    using rows old by (simp add: db')
  have unique: "unique_on sn_id (db_snapshots db')"
    using assms(1) new by (simp add: posture_ok_def unique_on_def db')
  have of': "snapshots_of db' k = snapshots_of db k @ (if k = ep_id e then [s] else [])" for k
    using s(1) by (simp add: snapshots_of_def db')
  have others: "latest_posture db' k = latest_posture db k" if "k \<noteq> ep_id e" for k
    by (rule latest_posture_cong) (use that of' kept in \<open>auto simp: snapshots_of_def\<close>)
  show ?thesis
  proof (intro exI conjI allI impI others)
    show "report_accepted packs p payload db e t" by (rule ok(1))
    have later: "(\<exists>x\<in>set (db_snapshots db). sn_endpoint x = ep_id e \<and> (t, sa_snapshot ack) < (sn_observed_at x, sn_id x)) \<longleftrightarrow>
        (\<exists>x\<in>set (snapshots_of db (ep_id e)). snapshot_time s < snapshot_time x)"
      unfolding s snapshots_of_def by auto
    show "if \<exists>s\<in>set (db_snapshots db). sn_endpoint s = ep_id e \<and> (t, sa_snapshot ack) < (sn_observed_at s, sn_id s)
     then latest_posture db' (ep_id e) = latest_posture db (ep_id e)
     else \<exists>summary results. latest_posture db' (ep_id e) = (Some summary, results) \<and>
       ps_snapshot summary = sa_snapshot ack \<and> ps_observed_at summary = t \<and> ps_profile summary = strip (si_platform_profile payload) \<and>
       mset (map stored results) = mset (map (reported packs (ep_platform e)) (si_results payload)) \<and>
       sorted (map po_control_key results) \<and>
       summary_counts summary = map (\<lambda>v. length (filter (\<lambda>r. ri_status r = v) (si_results payload))) status_list \<and>
       ps_reboot_required summary = length (filter ri_reboot_required (si_results payload)) \<and>
       ps_pass summary + ps_fail summary + ps_warn summary + ps_error summary + ps_not_applicable summary = sa_accepted ack"
    proof (cases "\<exists>x\<in>set (snapshots_of db (ep_id e)). snapshot_time s < snapshot_time x")
      case True
      then obtain x where x: "x \<in> set (snapshots_of db (ep_id e))" "snapshot_time s < snapshot_time x" by blast
      then obtain m where m: "m \<in> set (snapshots_of db (ep_id e))"
          "\<And>y. y \<in> set (snapshots_of db (ep_id e)) \<Longrightarrow> snapshot_time y \<le> snapshot_time m"
        using newest_exists[of "snapshots_of db (ep_id e)" snapshot_time] by (metis list.set(1) empty_iff)
      have "snapshot_time y \<le> snapshot_time m" if "y \<in> set (snapshots_of db (ep_id e)) \<union> set (snapshots_of db' (ep_id e))" for y
        using that m(2) m(2)[OF x(1)] x(2) unfolding of' by force
      moreover have "unique_on sn_id (db_snapshots db)" using assms(1) by (simp add: posture_ok_def)
      moreover have "m \<in> set (db_snapshots db)" using m(1) by (simp add: snapshots_of_def)
      ultimately have "latest_posture db' (ep_id e) = latest_posture db (ep_id e)"
        using m(1) of' by (intro latest_posture_same[OF _ unique m(1)] kept) simp_all
      then show ?thesis using True unfolding later by simp
    next
      case False
      have top: "snapshot_time y \<le> snapshot_time s" if "y \<in> set (snapshots_of db' (ep_id e))" for y
        using that False unfolding of' by (auto simp: linorder_not_less)
      have "s \<in> set (snapshots_of db' (ep_id e))" unfolding of' by simp
      from latest_posture_newest[OF unique this top] obtain summary where
        shown: "latest_posture db' (ep_id e) = (Some summary, order_by po_control_key rows)" "ps_snapshot summary = sn_id s"
          "ps_observed_at summary = sn_observed_at s" "ps_profile summary = sn_platform_profile s"
          "ps_pass summary + ps_fail summary + ps_warn summary + ps_error summary + ps_not_applicable summary = length rows"
          "summary_counts summary = map (\<lambda>v. length (filter (\<lambda>r. po_status r = v) rows)) status_list"
          "ps_reboot_required summary = length (filter po_reboot_required rows)"
        unfolding mine by blast
      have content: "map stored rows = map (reported packs (ep_platform e)) (si_results payload)" unfolding rows_def by (rule stored_rows)
      note shown = shown[unfolded count_stored[OF content]]
      have "mset (map stored (order_by po_control_key rows)) = mset (map stored rows)" by (simp add: mset_order_by)
      then have "mset (map stored (order_by po_control_key rows)) = mset (map (reported packs (ep_platform e)) (si_results payload))"
        unfolding content .
      moreover have "length rows = sa_accepted ack" using arg_cong[OF content, of length] by (simp add: ack report_ack_def)
      moreover have "sn_platform_profile s = strip (si_platform_profile payload)" by (simp add: s_def report_snapshot_def)
      ultimately show ?thesis using False shown sorted_order_by[of po_control_key rows] s unfolding later by auto
    qed
  qed
qed


section \<open>The audit log\<close>

definition audit_visible :: "principal \<Rightarrow> string option \<Rightarrow> string option \<Rightarrow> audit_row \<Rightarrow> bool" where
  "audit_visible p client location a \<longleftrightarrow> permits_scope p ''audit.read'' (au_client a) (au_location a) \<and>
     pred_option (\<lambda>c. au_client a = Some c) client \<and> pred_option (\<lambda>l. au_location a = Some l) location"

lemma where_scope_clause: "where_clause (scope_clause p q) c l \<longleftrightarrow> permits_scope p q c l"
  by (simp add: where_clause_def scope_clause_def scope_clause_loop_true permits_scope_def list_ex_iff)

lemma take_newest:
  fixes k :: "'r \<Rightarrow> 'k::linorder"
  assumes "a \<in> set xs - set (take n (rev (order_by k xs)))" and "b \<in> set (take n (rev (order_by k xs)))"
  shows "k a \<le> k b"
proof -
  let ?L = "rev (order_by k xs)"
  have "a \<in> set (drop n ?L)" using assms(1) by (metis DiffE UnE append_take_drop_id set_append set_order_by set_rev)
  moreover have "sorted_wrt (\<lambda>x y. k y \<le> k x) (take n ?L @ drop n ?L)"
    using sorted_order_by[of k xs] by (simp add: sorted_wrt_rev sorted_map)
  ultimately show ?thesis using assms(2) unfolding sorted_wrt_append by blast
qed

text \<open>
  A reader of the audit log sees the newest events of the scope it selected that it may read, as many as it asked
  for and no others, newest first: an event left out is no newer than any event shown.
\<close>

theorem audit_log_view_exact:
  assumes "list_audit_events p client_id location_id limit db = Inr out"
  shows "\<exists>c l. selected_scope db p ''audit.read'' client_id location_id = Inr (c, l) \<and> 1 \<le> limit \<and> limit \<le> 500 \<and>
    set out \<subseteq> {a \<in> set (db_audits db). audit_visible p c l a} \<and>
    length out = min limit (length (filter (audit_visible p c l) (db_audits db))) \<and>
    sorted_wrt (\<lambda>a b. (au_created_at b, au_id b) \<le> (au_created_at a, au_id a)) out \<and>
    (\<forall>a\<in>set (db_audits db) - set out. audit_visible p c l a \<longrightarrow> (\<forall>b\<in>set out. (au_created_at a, au_id a) \<le> (au_created_at b, au_id b)))"
proof -
  let ?key = "\<lambda>a. (au_created_at a, au_id a)"
  from assms obtain q c l where q: "require_permission ''audit.read'' p = Inr q" "1 \<le> limit \<and> limit \<le> 500"
      "selected_scope db q ''audit.read'' client_id location_id = Inr (c, l)"
    and out: "out = take limit (rev (order_by ?key (filter (\<lambda>a.
       where_clause (scope_clause q ''audit.read'') (au_client a) (au_location a) \<and>
       (case c of None \<Rightarrow> True | Some c \<Rightarrow> au_client a = Some c) \<and>
       (case l of None \<Rightarrow> True | Some l \<Rightarrow> au_location a = Some l)) (db_audits db))))"
    by (auto simp: list_audit_events_def andThen_eq_Inr)
  have p: "q = p" using q(1) by (auto simp: require_permission_def split: if_splits)
  have "(\<lambda>a. where_clause (scope_clause q ''audit.read'') (au_client a) (au_location a) \<and>
       (case c of None \<Rightarrow> True | Some c \<Rightarrow> au_client a = Some c) \<and>
       (case l of None \<Rightarrow> True | Some l \<Rightarrow> au_location a = Some l)) = audit_visible p c l"
    by (auto simp: fun_eq_iff audit_visible_def where_scope_clause p split: option.splits)
  with out have out: "out = take limit (rev (order_by ?key (filter (audit_visible p c l) (db_audits db))))" by simp
  show ?thesis
  proof (intro exI conjI)
    show "selected_scope db p ''audit.read'' client_id location_id = Inr (c, l)" "1 \<le> limit" "limit \<le> 500" using q p by simp_all
    show "set out \<subseteq> {a \<in> set (db_audits db). audit_visible p c l a}"
      unfolding out using set_take_subset[of limit] by (auto dest!: in_set_takeD)
    show "length out = min limit (length (filter (audit_visible p c l) (db_audits db)))" by (simp add: out order_by_def min.commute)
    have "sorted_wrt (\<lambda>a b. ?key b \<le> ?key a) (rev (order_by ?key (filter (audit_visible p c l) (db_audits db))))"
      using sorted_order_by[of ?key "filter (audit_visible p c l) (db_audits db)"] by (simp only: sorted_wrt_rev sorted_map)
    then show "sorted_wrt (\<lambda>a b. ?key b \<le> ?key a) out" unfolding out by (rule sorted_wrt_take)
    show "\<forall>a\<in>set (db_audits db) - set out. audit_visible p c l a \<longrightarrow> (\<forall>b\<in>set out. ?key a \<le> ?key b)"
      unfolding out using take_newest[of _ "filter (audit_visible p c l) (db_audits db)" limit ?key] by simp
  qed
qed

section \<open>A concrete report\<close>

definition po_payload :: snapshot_in where
  "po_payload = \<lparr>si_endpoint = '' ep_1'', si_observed_at = utc_now demo_now, si_platform_profile = ''server'',
     si_results = [\<lparr>ri_control_key = '' UFW.enabled '', ri_status = PostureFail, ri_current_value = Some ''inactive'',
       ri_recommended_value = None, ri_severity = None, ri_evidence_summary = ''ufw status'', ri_reboot_required = False\<rparr>]\<rparr>"

lemma po_texts: "strip '' ep_1'' = ''ep_1''" "strip ''server'' = ''server''" "strip ''inactive'' = ''inactive''" "strip ''ufw status'' = ''ufw status''"
  by code_simp+

lemma po_canonical:
  assumes "ri_control_key r = '' UFW.enabled ''"
  shows "canonical_control demo_packs Linux r = ''linux.firewall.service-active''"
proof -
  obtain table registry where *: "observation_control_ids demo_packs = Inr table" "control_registry demo_packs = Inr registry"
    using demo_packs_ok by blast
  have "normalize_observation_control_id demo_packs '' UFW.enabled '' (Some Linux) = Inr ''linux.firewall.service-active''"
    using normalize_observation_control_id_iff_witness unfolding normalize_observation_control_id_iff[OF *] unfolding *(2) by blast
  moreover have "strip ''linux.firewall.service-active'' = ''linux.firewall.service-active''" by code_simp
  ultimately show ?thesis by (simp add: canonical_control_def assms)
qed

lemma po_accepted: "report_accepted demo_packs ex_device po_payload ex_db ex_endpoint ''2026-01-01T00:00:00Z''"
proof -
  have "to_utc_z (utc_now demo_now) = Inr ''2026-01-01T00:00:00Z''"
    using demo_now_text by (simp add: to_utc_z_def coerce_utc_def utc_now_def demo_now_def datetime_end_def)
  then show ?thesis
    by (simp add: report_accepted_def po_payload_def po_texts acceptable_def texts_given_def po_canonical) (simp add: ex_device_def)
qed

lemma po_db_ok: "posture_ok ex_db" "fresh_report ex_draw ex_db"
  by (simp_all add: posture_ok_def results_ok_def unique_on_def fresh_report_def ex_draw_inj)

theorem posture_report_outcome_witness:
  "\<exists>ack. snd (create_posture_snapshot demo_packs ex_draw demo_now ex_device po_payload ex_db) = Inr ack"
  using posture_report_outcome[OF po_db_ok] po_accepted by blast

theorem accepted_report_shown_witness:
  "\<exists>db' summary results. latest_posture db' ''ep_1'' = (Some summary, results) \<and> ps_observed_at summary = ''2026-01-01T00:00:00Z'' \<and>
     ps_pass summary + ps_fail summary + ps_warn summary + ps_error summary + ps_not_applicable summary = 1"
proof -
  obtain db' ack where run: "create_posture_snapshot demo_packs ex_draw demo_now ex_device po_payload ex_db = (db', Inr ack)"
      "ack = report_ack (report_snapshot ex_draw demo_now po_payload ex_endpoint ''2026-01-01T00:00:00Z'') (length (si_results po_payload))"
    using report_inserts_runs[OF po_db_ok po_accepted, of demo_now] po_accepted unfolding create_posture_snapshot_Inr by blast
  from accepted_report_shown[OF po_db_ok(1) run(1)] obtain e t where e: "report_accepted demo_packs ex_device po_payload ex_db e t"
    "\<exists>summary results. latest_posture db' (ep_id e) = (Some summary, results) \<and> ps_observed_at summary = t \<and>
       ps_pass summary + ps_fail summary + ps_warn summary + ps_error summary + ps_not_applicable summary = sa_accepted ack" by auto
  have "e = ex_endpoint" "t = ''2026-01-01T00:00:00Z''" using e(1) po_accepted by (auto simp: report_accepted_def)
  moreover have "sa_accepted ack = 1" by (simp add: run(2) report_ack_def po_payload_def)
  ultimately show ?thesis using e(2) by auto
qed

theorem audit_log_view_exact_witness:
  "\<exists>p db out. list_audit_events p None None 1 db = Inr out \<and> length out = 1 \<and> length (db_audits db) = 2"
proof -
  let ?a = "\<lambda>k. \<lparr>au_id = k, au_type = ''login'', au_outcome = OutcomeSuccess, au_actor = ''user:usr_1'', au_user = None, au_method = ''oidc'',
    au_client = None, au_location = None, au_endpoint = None, au_target_type = None, au_target_id = None, au_request_id = None,
    au_metadata = JObj [], au_created_at = ''2026-01-01T00:00:00Z''\<rparr>"
  let ?p = "ex_operator\<lparr>p_grants := [synthetic_global_grant ''auditor'' [''audit.read'']]\<rparr>"
  let ?db = "ex_db\<lparr>db_audits := [?a ''aud_1'', ?a ''aud_2'']\<rparr>"
  have "selected_scope ?db ?p ''audit.read'' None None = Inr (None, None)" "require_permission ''audit.read'' ?p = Inr ?p"
    by (simp_all add: selected_scope_def validate_scope_filter_def normalize_optional_id_def require_permission_def has_permission_def
        synthetic_global_grant_def ex_operator_def)
  then have "\<exists>out. list_audit_events ?p None None 1 ?db = Inr out" unfolding list_audit_events_def by simp
  then obtain out where out: "list_audit_events ?p None None 1 ?db = Inr out" by blast
  have "audit_visible ?p None None x" for x
    by (simp add: audit_visible_def permits_scope_def permits_def synthetic_global_grant_def)
  then have "length out = 1" using audit_log_view_exact[OF out] \<open>selected_scope ?db ?p ''audit.read'' None None = Inr (None, None)\<close> by auto
  with out show ?thesis by (intro exI[of _ ?p] exI[of _ ?db] exI[of _ out]) simp
qed


end
