(* ===== verification/Source_Packs.thy ===== *)
theory Source_Packs
  imports Authorization Control_Registry "HOL-Library.Monad_Syntax"
begin

text \<open>
  \<open>app/source_packs/contracts.py\<close> and \<open>catalog.py\<close>: the schema of a control pack, the pinned starter inventory,
  the packs and the catalog on disk, and the handlers of \<open>app/api/endpoints/source_packs.py\<close> and
  \<open>control_registry.py\<close>.  A JSON file is the value \<open>json.loads\<close> reads from it, \<open>None\<close> when it is
  malformed; Pydantic's conversions of a JSON value to a Boolean and to an integer are the arguments \<open>as_bool\<close>
  and \<open>as_int\<close>.  Every message of a \<open>ValidationError\<close>, which is a \<open>ValueError\<close>, is \<open>validation error\<close>.
\<close>

section \<open>Contracts\<close>

definition pinned_generated_at :: string where
  "pinned_generated_at = ''2026-04-18T00:00:00Z''"

datatype source_family = Nist80053 | DisaStig | CisaNsa | ShaBuiltin
datatype source_profile = DomainController | EndpointProfile | ServerProfile
datatype source_severity = SevLow | SevMedium | SevHigh | SevCritical
datatype disruption = DisTransparent | DisMinimal | DisModerate | DisSignificant | DisDisruptive
datatype rollback_complexity = RollLow | RollMedium | RollHigh

text \<open>The values of the enums in the order of the source.\<close>

definition family_values :: "(string \<times> source_family) list" where
  "family_values = [(''nist_800_53'', Nist80053), (''disa_stig'', DisaStig), (''cisa_nsa'', CisaNsa), (''sha_builtin'', ShaBuiltin)]"

definition platform_values :: "(string \<times> platform) list" where
  "platform_values = [(''windows'', Windows), (''linux'', Linux), (''macos'', MacOS)]"

definition profile_values :: "(string \<times> source_profile) list" where
  "profile_values = [(''domain_controller'', DomainController), (''endpoint'', EndpointProfile), (''server'', ServerProfile)]"

definition severity_values :: "(string \<times> source_severity) list" where
  "severity_values = [(''low'', SevLow), (''medium'', SevMedium), (''high'', SevHigh), (''critical'', SevCritical)]"

definition disruption_values :: "(string \<times> disruption) list" where
  "disruption_values = [(''transparent'', DisTransparent), (''minimal'', DisMinimal), (''moderate'', DisModerate),
     (''significant'', DisSignificant), (''disruptive'', DisDisruptive)]"

definition rollback_values :: "(string \<times> rollback_complexity) list" where
  "rollback_values = [(''low'', RollLow), (''medium'', RollMedium), (''high'', RollHigh)]"

text \<open>\<open>CANONICAL_PLATFORM_ORDER\<close> and \<open>CANONICAL_PROFILE_ORDER\<close>.\<close>

definition canonical_platform_order :: "string list" where
  "canonical_platform_order = [''windows'', ''linux'', ''macos'']"

definition canonical_profile_order :: "string list" where
  "canonical_profile_order = [''domain_controller'', ''endpoint'', ''server'']"

text \<open>The value of a member, and the member of a value.\<close>

definition enum_value :: "(string \<times> 'e) list \<Rightarrow> 'e \<Rightarrow> string" where
  "enum_value values e = (case List.find (\<lambda>v. snd v = e) values of Some v \<Rightarrow> fst v | None \<Rightarrow> [])"

definition trimmed_text :: "string \<Rightarrow> bool" where
  "trimmed_text v \<longleftrightarrow> strip v \<noteq> [] \<and> strip v = v"

definition seen_values :: "'v list \<Rightarrow> 'v list" where
  "seen_values values = foldl (\<lambda>seen v. if v \<in> set seen then seen else seen @ [v]) [] values"

definition ordered_subset :: "'v list \<Rightarrow> 'v list \<Rightarrow> 'v list" where
  "ordered_subset values order = filter (\<lambda>v. v \<in> set (seen_values values)) order"

fun unique_trimmed :: "string list \<Rightarrow> string list \<Rightarrow> bool" where
  "unique_trimmed seen [] = True"
| "unique_trimmed seen (v # vs) = (trimmed_text v \<and> v \<notin> set seen \<and> unique_trimmed (v # seen) vs)"

definition ordered_unique_sequence :: "bool \<Rightarrow> string list \<Rightarrow> string list \<Rightarrow> bool" where
  "ordered_unique_sequence lexical order vs \<longleftrightarrow>
     unique_trimmed [] vs \<and> vs = (if lexical then sort vs else ordered_subset vs order)"

record source_control =
  sc_id :: string
  sc_title :: string
  sc_platform :: platform
  sc_profiles :: "source_profile list"
  sc_severity :: source_severity
  sc_disruption :: disruption
  sc_rollback_complexity :: rollback_complexity
  sc_auto_remediation :: bool
  sc_reboot_required :: bool
  sc_guidance :: string
  sc_detection :: string
  sc_remediation :: string
  sc_rollback :: string
  sc_locator :: string
  sc_notes :: string
  sc_nist_csf :: "string list"
  sc_sp80053 :: "string list"
  sc_stig :: "string list"
  sc_cisa :: "string list"

record source_pack =
  pk_id :: string
  pk_family :: source_family
  pk_name :: string
  pk_version :: string
  pk_generated_at :: string
  pk_url :: string
  pk_platforms :: "platform list"
  pk_profiles :: "source_profile list"
  pk_summary :: string
  pk_controls :: "source_control list"

record pack_summary =
  cp_id :: string
  cp_family :: source_family
  cp_name :: string
  cp_version :: string
  cp_control_count :: int

record source_catalog =
  ca_generated_at :: string
  ca_pack_count :: int
  ca_control_count :: int
  ca_packs :: "pack_summary list"

text \<open>The after-validators of the models.\<close>

definition control_texts :: "source_control \<Rightarrow> string list" where
  "control_texts c = [sc_id c, sc_title c, sc_guidance c, sc_detection c, sc_remediation c, sc_rollback c, sc_locator c, sc_notes c]"

definition control_formulas :: "source_control \<Rightarrow> bool" where
  "control_formulas c \<longleftrightarrow>
     sc_guidance c = ''Starter guidance for '' @ sc_title c @ ''.'' \<and>
     sc_detection c = ''Check state for '' @ sc_title c @ ''.'' \<and>
     sc_remediation c = ''Apply desired state for '' @ sc_title c @ ''.'' \<and>
     sc_rollback c = ''Rollback desired state for '' @ sc_title c @ ''.''"

definition pack_shape :: "source_pack \<Rightarrow> bool" where
  "pack_shape k \<longleftrightarrow>
     pk_summary k = ''Curated starter pack for '' @ pk_name k @ ''.'' \<and>
     distinct (map sc_id (pk_controls k)) \<and> map sc_id (pk_controls k) = sort (map sc_id (pk_controls k)) \<and>
     map (enum_value platform_values) (pk_platforms k) =
       ordered_subset (map (\<lambda>c. enum_value platform_values (sc_platform c)) (pk_controls k)) canonical_platform_order \<and>
     map (enum_value profile_values) (pk_profiles k) =
       ordered_subset (concat (map (\<lambda>c. map (enum_value profile_values) (sc_profiles c)) (pk_controls k))) canonical_profile_order \<and>
     list_all (\<lambda>c. sc_notes c = ''Starter control selected for '' @ pk_name k @ ''.'') (pk_controls k)"

definition catalog_summary_ok :: "source_catalog \<Rightarrow> bool" where
  "catalog_summary_ok c \<longleftrightarrow>
     distinct (map cp_id (ca_packs c)) \<and> map cp_id (ca_packs c) = sort (map cp_id (ca_packs c)) \<and>
     ca_pack_count c = int (length (ca_packs c)) \<and> ca_control_count c = sum_list (map cp_control_count (ca_packs c))"

section \<open>Reading and dumping models\<close>

text \<open>\<open>extra="forbid"\<close> and no defaults: the keys are exactly the fields.\<close>

definition exact_fields :: "string list \<Rightarrow> json \<Rightarrow> (string \<Rightarrow> json option) option" where
  "exact_fields names j = (case j of JObj kvs \<Rightarrow> if set (map fst kvs) = set names then Some (map_of kvs) else None | _ \<Rightarrow> None)"

fun as_text :: "json \<Rightarrow> string option" where
  "as_text (JStr s) = Some s"
| "as_text _ = None"

fun as_list :: "json \<Rightarrow> json list option" where
  "as_list (JList xs) = Some xs"
| "as_list _ = None"

definition checked :: "('v \<Rightarrow> bool) \<Rightarrow> 'v \<Rightarrow> 'v option" where
  "checked P v = (if P v then Some v else None)"

definition text_field :: "json \<Rightarrow> string option" where
  "text_field j = as_text j \<bind> checked trimmed_text"

definition enum_field :: "(string \<times> 'e) list \<Rightarrow> json \<Rightarrow> 'e option" where
  "enum_field values j = as_text j \<bind> map_of values"

definition sequence_field :: "bool \<Rightarrow> string list \<Rightarrow> json \<Rightarrow> string list option" where
  "sequence_field lexical order j =
     as_list j \<bind> (\<lambda>xs. those (map as_text xs) \<bind> checked (ordered_unique_sequence lexical order))"

definition enum_sequence_field :: "string list \<Rightarrow> (string \<times> 'e) list \<Rightarrow> json \<Rightarrow> 'e list option" where
  "enum_sequence_field order values j = sequence_field False order j \<bind> (\<lambda>vs. those (map (map_of values) vs))"

definition provenance_field :: "json \<Rightarrow> (string \<times> string) option" where
  "provenance_field j = do {
     f \<leftarrow> exact_fields [''source_locator'', ''notes''] j;
     locator \<leftarrow> f ''source_locator'' \<bind> text_field;
     notes \<leftarrow> f ''notes'' \<bind> text_field;
     Some (locator, notes) }"

definition mappings_field :: "json \<Rightarrow> (string list \<times> string list \<times> string list \<times> string list) option" where
  "mappings_field j = do {
     f \<leftarrow> exact_fields [''nist_csf_ids'', ''sp80053_ids'', ''stig_ids'', ''cisa_reference_ids''] j;
     nist \<leftarrow> f ''nist_csf_ids'' \<bind> sequence_field True [];
     sp \<leftarrow> f ''sp80053_ids'' \<bind> sequence_field True [];
     stig \<leftarrow> f ''stig_ids'' \<bind> sequence_field True [];
     cisa \<leftarrow> f ''cisa_reference_ids'' \<bind> sequence_field True [];
     Some (nist, sp, stig, cisa) }"

definition control_field_names :: "string list" where
  "control_field_names = [''control_id'', ''title'', ''platform'', ''profiles'', ''severity'', ''disruption'', ''rollback_complexity'',
     ''auto_remediation_candidate'', ''reboot_required'', ''guidance_summary'', ''detection_summary'', ''remediation_summary'',
     ''rollback_summary'', ''provenance'', ''mappings'']"

definition validate_control :: "(json \<Rightarrow> bool option) \<Rightarrow> json \<Rightarrow> source_control option" where
  "validate_control as_bool j = do {
     f \<leftarrow> exact_fields control_field_names j;
     control_id \<leftarrow> f ''control_id'' \<bind> text_field;
     title \<leftarrow> f ''title'' \<bind> text_field;
     platform \<leftarrow> f ''platform'' \<bind> enum_field platform_values;
     profiles \<leftarrow> f ''profiles'' \<bind> enum_sequence_field canonical_profile_order profile_values;
     severity \<leftarrow> f ''severity'' \<bind> enum_field severity_values;
     disruption \<leftarrow> f ''disruption'' \<bind> enum_field disruption_values;
     complexity \<leftarrow> f ''rollback_complexity'' \<bind> enum_field rollback_values;
     auto_remediation \<leftarrow> f ''auto_remediation_candidate'' \<bind> as_bool;
     reboot \<leftarrow> f ''reboot_required'' \<bind> as_bool;
     guidance \<leftarrow> f ''guidance_summary'' \<bind> text_field;
     detection \<leftarrow> f ''detection_summary'' \<bind> text_field;
     remediation \<leftarrow> f ''remediation_summary'' \<bind> text_field;
     rollback \<leftarrow> f ''rollback_summary'' \<bind> text_field;
     (locator, notes) \<leftarrow> f ''provenance'' \<bind> provenance_field;
     (nist, sp, stig, cisa) \<leftarrow> f ''mappings'' \<bind> mappings_field;
     checked control_formulas
       \<lparr>sc_id = control_id, sc_title = title, sc_platform = platform, sc_profiles = profiles, sc_severity = severity,
        sc_disruption = disruption, sc_rollback_complexity = complexity, sc_auto_remediation = auto_remediation,
        sc_reboot_required = reboot, sc_guidance = guidance, sc_detection = detection, sc_remediation = remediation,
        sc_rollback = rollback, sc_locator = locator, sc_notes = notes, sc_nist_csf = nist, sc_sp80053 = sp,
        sc_stig = stig, sc_cisa = cisa\<rparr> }"

definition pack_field_names :: "string list" where
  "pack_field_names = [''pack_id'', ''source_family'', ''source_name'', ''source_version'', ''generated_at'', ''source_url'',
     ''platforms'', ''profiles'', ''summary'', ''controls'']"

definition validate_pack :: "(json \<Rightarrow> bool option) \<Rightarrow> json \<Rightarrow> source_pack option" where
  "validate_pack as_bool j = do {
     f \<leftarrow> exact_fields pack_field_names j;
     pack_id \<leftarrow> f ''pack_id'' \<bind> text_field;
     family \<leftarrow> f ''source_family'' \<bind> enum_field family_values;
     name \<leftarrow> f ''source_name'' \<bind> text_field;
     version \<leftarrow> f ''source_version'' \<bind> text_field;
     generated_at \<leftarrow> f ''generated_at'' \<bind> text_field \<bind> checked (\<lambda>v. v = pinned_generated_at);
     url \<leftarrow> f ''source_url'' \<bind> text_field;
     platforms \<leftarrow> f ''platforms'' \<bind> enum_sequence_field canonical_platform_order platform_values;
     profiles \<leftarrow> f ''profiles'' \<bind> enum_sequence_field canonical_profile_order profile_values;
     summary \<leftarrow> f ''summary'' \<bind> text_field;
     items \<leftarrow> f ''controls'' \<bind> as_list;
     controls \<leftarrow> those (map (validate_control as_bool) items) \<bind> checked (\<lambda>cs. cs \<noteq> []);
     checked pack_shape
       \<lparr>pk_id = pack_id, pk_family = family, pk_name = name, pk_version = version, pk_generated_at = generated_at,
        pk_url = url, pk_platforms = platforms, pk_profiles = profiles, pk_summary = summary, pk_controls = controls\<rparr> }"

definition summary_field_names :: "string list" where
  "summary_field_names = [''pack_id'', ''source_family'', ''source_name'', ''source_version'', ''control_count'']"

definition validate_summary :: "(json \<Rightarrow> int option) \<Rightarrow> json \<Rightarrow> pack_summary option" where
  "validate_summary as_int j = do {
     f \<leftarrow> exact_fields summary_field_names j;
     pack_id \<leftarrow> f ''pack_id'' \<bind> text_field;
     family \<leftarrow> f ''source_family'' \<bind> enum_field family_values;
     name \<leftarrow> f ''source_name'' \<bind> text_field;
     version \<leftarrow> f ''source_version'' \<bind> text_field;
     count \<leftarrow> f ''control_count'' \<bind> as_int \<bind> checked (\<lambda>n. 1 \<le> n);
     Some \<lparr>cp_id = pack_id, cp_family = family, cp_name = name, cp_version = version, cp_control_count = count\<rparr> }"

definition validate_catalog :: "(json \<Rightarrow> int option) \<Rightarrow> json \<Rightarrow> source_catalog option" where
  "validate_catalog as_int j = do {
     f \<leftarrow> exact_fields [''generated_at'', ''pack_count'', ''control_count'', ''packs''] j;
     generated_at \<leftarrow> f ''generated_at'' \<bind> text_field \<bind> checked (\<lambda>v. v = pinned_generated_at);
     pack_count \<leftarrow> f ''pack_count'' \<bind> as_int \<bind> checked (\<lambda>n. 1 \<le> n);
     control_count \<leftarrow> f ''control_count'' \<bind> as_int \<bind> checked (\<lambda>n. 1 \<le> n);
     items \<leftarrow> f ''packs'' \<bind> as_list;
     packs \<leftarrow> those (map (validate_summary as_int) items) \<bind> checked (\<lambda>ks. ks \<noteq> []);
     checked catalog_summary_ok
       \<lparr>ca_generated_at = generated_at, ca_pack_count = pack_count, ca_control_count = control_count, ca_packs = packs\<rparr> }"

definition texts_json :: "string list \<Rightarrow> json" where
  "texts_json vs = JList (map JStr vs)"

definition enum_json :: "(string \<times> 'e) list \<Rightarrow> 'e \<Rightarrow> json" where
  "enum_json values e = JStr (enum_value values e)"

text \<open>\<open>model_dump(mode="json")\<close>; dictionaries are written with their keys in the order of the fields.\<close>

definition dump_control :: "source_control \<Rightarrow> json" where
  "dump_control c = JObj
     [(''control_id'', JStr (sc_id c)), (''title'', JStr (sc_title c)), (''platform'', enum_json platform_values (sc_platform c)),
      (''profiles'', JList (map (enum_json profile_values) (sc_profiles c))), (''severity'', enum_json severity_values (sc_severity c)),
      (''disruption'', enum_json disruption_values (sc_disruption c)),
      (''rollback_complexity'', enum_json rollback_values (sc_rollback_complexity c)),
      (''auto_remediation_candidate'', JBool (sc_auto_remediation c)), (''reboot_required'', JBool (sc_reboot_required c)),
      (''guidance_summary'', JStr (sc_guidance c)), (''detection_summary'', JStr (sc_detection c)),
      (''remediation_summary'', JStr (sc_remediation c)), (''rollback_summary'', JStr (sc_rollback c)),
      (''provenance'', JObj [(''source_locator'', JStr (sc_locator c)), (''notes'', JStr (sc_notes c))]),
      (''mappings'', JObj [(''nist_csf_ids'', texts_json (sc_nist_csf c)), (''sp80053_ids'', texts_json (sc_sp80053 c)),
         (''stig_ids'', texts_json (sc_stig c)), (''cisa_reference_ids'', texts_json (sc_cisa c))])]"

definition dump_pack :: "source_pack \<Rightarrow> json" where
  "dump_pack k = JObj
     [(''pack_id'', JStr (pk_id k)), (''source_family'', enum_json family_values (pk_family k)), (''source_name'', JStr (pk_name k)),
      (''source_version'', JStr (pk_version k)), (''generated_at'', JStr (pk_generated_at k)), (''source_url'', JStr (pk_url k)),
      (''platforms'', JList (map (enum_json platform_values) (pk_platforms k))),
      (''profiles'', JList (map (enum_json profile_values) (pk_profiles k))), (''summary'', JStr (pk_summary k)),
      (''controls'', JList (map dump_control (pk_controls k)))]"

definition summary_json :: "string \<Rightarrow> source_family \<Rightarrow> string \<Rightarrow> string \<Rightarrow> int \<Rightarrow> json" where
  "summary_json pack_id family name version count = JObj
     [(''pack_id'', JStr pack_id), (''source_family'', enum_json family_values family), (''source_name'', JStr name),
      (''source_version'', JStr version), (''control_count'', JInt count)]"

definition dump_catalog :: "source_catalog \<Rightarrow> json" where
  "dump_catalog c = JObj
     [(''generated_at'', JStr (ca_generated_at c)), (''pack_count'', JInt (ca_pack_count c)), (''control_count'', JInt (ca_control_count c)),
      (''packs'', JList (map (\<lambda>k. summary_json (cp_id k) (cp_family k) (cp_name k) (cp_version k) (cp_control_count k)) (ca_packs c)))]"

section \<open>The pinned inventory\<close>

record mappings_spec =
  ms_nist_csf :: "string list"
  ms_sp80053 :: "string list"
  ms_stig :: "string list"
  ms_cisa :: "string list"

record control_spec =
  cs_id :: string
  cs_title :: string
  cs_platform :: platform
  cs_profiles :: "source_profile list"
  cs_severity :: source_severity
  cs_disruption :: disruption
  cs_rollback_complexity :: rollback_complexity
  cs_auto_remediation :: bool
  cs_reboot_required :: bool
  cs_locator :: string
  cs_mappings :: mappings_spec

record pack_spec =
  ps_filename :: string
  ps_id :: string
  ps_family :: source_family
  ps_name :: string
  ps_version :: string
  ps_url :: string
  ps_controls :: "control_spec list"

definition public_mappings :: "string list \<Rightarrow> string list \<Rightarrow> string list \<Rightarrow> string list \<Rightarrow> mappings_spec" where
  "public_mappings nist sp stig cisa = \<lparr>ms_nist_csf = nist, ms_sp80053 = sp, ms_stig = stig, ms_cisa = cisa\<rparr>"

definition control_spec ::
  "string \<Rightarrow> string \<Rightarrow> platform \<Rightarrow> source_profile list \<Rightarrow> source_severity \<Rightarrow> disruption \<Rightarrow> rollback_complexity \<Rightarrow> bool \<Rightarrow> bool \<Rightarrow>
   string \<Rightarrow> mappings_spec \<Rightarrow> control_spec" where
  "control_spec control_id title platform profiles severity disruption complexity auto_remediation reboot locator mappings =
     \<lparr>cs_id = control_id, cs_title = title, cs_platform = platform, cs_profiles = profiles, cs_severity = severity,
      cs_disruption = disruption, cs_rollback_complexity = complexity, cs_auto_remediation = auto_remediation,
      cs_reboot_required = reboot, cs_locator = locator, cs_mappings = mappings\<rparr>"

definition nist_800_53_pack :: pack_spec where
  "nist_800_53_pack = \<lparr>ps_filename = ''nist.800-53-rev5-starter.json'', ps_id = ''pack.public.nist-800-53-rev5-starter'', ps_family = Nist80053,
     ps_name = ''NIST SP 800-53 Rev. 5 Starter'', ps_version = ''5.2.0'',
     ps_url = ''https://raw.githubusercontent.com/usnistgov/oscal-content/main/nist.gov/SP800-53/rev5/json/NIST_SP-800-53_rev5_catalog.json'',
     ps_controls =
      [control_spec ''control.public.nist-800-53.ac-17'' ''Remote Access'' Windows
         [DomainController, EndpointProfile, ServerProfile] SevHigh DisMinimal RollLow False False
         ''NIST SP 800-53 Rev. 5 control AC-17''
         (public_mappings [] [''AC-17''] [] []),
       control_spec ''control.public.nist-800-53.au-11'' ''Audit Record Retention'' Linux
         [ServerProfile] SevMedium DisMinimal RollLow False False
         ''NIST SP 800-53 Rev. 5 control AU-11''
         (public_mappings [] [''AU-11''] [] []),
       control_spec ''control.public.nist-800-53.cm-2'' ''Baseline Configuration'' Windows
         [DomainController, EndpointProfile, ServerProfile] SevHigh DisMinimal RollMedium False False
         ''NIST SP 800-53 Rev. 5 control CM-2''
         (public_mappings [] [''CM-2''] [] [])]\<rparr>"

definition disa_windows_server_2022_pack :: pack_spec where
  "disa_windows_server_2022_pack = \<lparr>ps_filename = ''disa.windows-server-2022-v2r5-starter.json'', ps_id = ''pack.public.disa-windows-server-2022-v2r5-starter'', ps_family = DisaStig,
     ps_name = ''DISA Microsoft Windows Server 2022 STIG V2R5 Starter'', ps_version = ''V2R5'',
     ps_url = ''https://dl.dod.cyber.mil/wp-content/uploads/stigs/zip/U_MS_Windows_Server_2022_V2R5_STIG.zip'',
     ps_controls =
      [control_spec ''control.public.disa-windows-server-2022.wn22-00-000010'' ''Separate administrator and standard user accounts'' Windows
         [ServerProfile] SevMedium DisModerate RollMedium False False
         ''DISA Windows Server 2022 STIG V2R5 WN22-00-000010 / V-254238''
         (public_mappings [] [] [''WN22-00-000010''] []),
       control_spec ''control.public.disa-windows-server-2022.wn22-au-000010'' ''Back up audit records separately'' Windows
         [ServerProfile] SevMedium DisMinimal RollMedium False False
         ''DISA Windows Server 2022 STIG V2R5 WN22-AU-000010 / V-254294''
         (public_mappings [] [] [''WN22-AU-000010''] []),
       control_spec ''control.public.disa-windows-server-2022.wn22-cc-000020'' ''Disable WDigest authentication'' Windows
         [ServerProfile] SevMedium DisMinimal RollLow True False
         ''DISA Windows Server 2022 STIG V2R5 WN22-CC-000020 / V-254334''
         (public_mappings [] [] [''WN22-CC-000020''] [])]\<rparr>"

definition cisa_nsa_hardening_pack :: pack_spec where
  "cisa_nsa_hardening_pack = \<lparr>ps_filename = ''cisa_nsa.communications-hardening-starter.json'', ps_id = ''pack.public.cisa-nsa-communications-hardening-starter'', ps_family = CisaNsa,
     ps_name = ''CISA NSA Communications Hardening Starter'', ps_version = ''2025-06'',
     ps_url = ''https://www.cisa.gov/resources-tools/resources/enhanced-visibility-and-hardening-guidance-communications-infrastructure'',
     ps_controls =
      [control_spec ''control.public.cisa-nsa.accounts.review-least-privilege'' ''Review accounts for least privilege'' Linux
         [ServerProfile] SevHigh DisMinimal RollMedium False False
         ''Enhanced Visibility and Hardening Guidance / Remove unnecessary accounts and review privileges''
         (public_mappings [] [] [] [''enhanced-visibility-account-review'']),
       control_spec ''control.public.cisa-nsa.remote-management.trusted-networks'' ''Limit management access to trusted networks'' Linux
         [ServerProfile] SevHigh DisModerate RollMedium True False
         ''Enhanced Visibility and Hardening Guidance / Device management from trusted networks''
         (public_mappings [] [] [] [''enhanced-visibility-trusted-management'']),
       control_spec ''control.public.cisa-nsa.ssh.disable-version-1'' ''Disable SSH version 1'' Linux
         [ServerProfile] SevCritical DisMinimal RollLow True False
         ''Enhanced Visibility and Hardening Guidance / Disable Secure Shell version 1''
         (public_mappings [] [] [] [''enhanced-visibility-disable-ssh-v1''])]\<rparr>"

definition sha_implemented_endpoint_response_pack :: pack_spec where
  "sha_implemented_endpoint_response_pack = \<lparr>ps_filename = ''sha.implemented-endpoint-response-starter.json'', ps_id = ''pack.sha.implemented-endpoint-response-starter'', ps_family = ShaBuiltin,
     ps_name = ''SHA Implemented Endpoint Response Starter'', ps_version = ''2026.06'',
     ps_url = ''https://www.cisa.gov/sites/default/files/2024-08/Federal_Government_Cybersecurity_Incident_and_Vulnerability_Response_Playbooks_508C.pdf'',
     ps_controls =
      [control_spec ''control.windows.defender-real-time-protection'' ''Windows Defender real-time protection'' Windows
         [EndpointProfile, ServerProfile] SevCritical DisMinimal RollLow True False
         ''SHA Windows bootstrap / Microsoft Defender Antivirus always-on protection''
         (public_mappings [] [''SI-3'', ''SI-4''] [] []),
       control_spec ''control.windows.firewall-all-profiles'' ''Windows firewall all profiles'' Windows
         [EndpointProfile, ServerProfile] SevHigh DisMinimal RollLow True False
         ''SHA Windows bootstrap / Windows Firewall profile containment''
         (public_mappings [] [''CM-7'', ''SC-7''] [] []),
       control_spec ''control.windows.firewall-endpoint-isolated'' ''Windows endpoint network isolation'' Windows
         [EndpointProfile, ServerProfile] SevCritical DisDisruptive RollMedium True False
         ''CISA Incident Response Playbook containment step 7d / SHA Windows firewall isolation''
         (public_mappings [] [''IR-4'', ''IR-5'', ''SC-7''] [] [''incident-playbook-containment-7d'']),
       control_spec ''linux.network.endpoint-isolated'' ''Linux endpoint network isolation'' Linux
         [ServerProfile] SevCritical DisDisruptive RollMedium True False
         ''CISA Incident Response Playbook containment step 7d / SHA Linux iptables isolation''
         (public_mappings [] [''IR-4'', ''IR-5'', ''SC-7''] [] [''incident-playbook-containment-7d'']),
       control_spec ''linux.ssh.password-authentication-disabled'' ''Linux SSH password authentication disabled'' Linux
         [ServerProfile] SevHigh DisMinimal RollLow True False
         ''SHA Linux bootstrap / SSH PasswordAuthentication hardening''
         (public_mappings [] [''AC-17'', ''IA-2''] [] []),
       control_spec ''macos.disk.filevault-enabled'' ''macOS FileVault enabled'' MacOS
         [EndpointProfile] SevHigh DisModerate RollMedium False False
         ''SHA macOS bootstrap / FileVault observe-only posture check''
         (public_mappings [] [''SC-28''] [] []),
       control_spec ''macos.firewall.application-firewall-enabled'' ''macOS Application Firewall enabled'' MacOS
         [EndpointProfile] SevMedium DisMinimal RollLow False False
         ''SHA macOS bootstrap / Application Firewall observe-only posture check''
         (public_mappings [] [''CM-7'', ''SC-7''] [] []),
       control_spec ''macos.gatekeeper.assessments-enabled'' ''macOS Gatekeeper assessments enabled'' MacOS
         [EndpointProfile] SevHigh DisMinimal RollLow False False
         ''SHA macOS bootstrap / Gatekeeper observe-only posture check''
         (public_mappings [] [''CM-7'', ''SI-3''] [] [])]\<rparr>"

definition curated_pack_specs :: "pack_spec list" where
  "curated_pack_specs = [cisa_nsa_hardening_pack, disa_windows_server_2022_pack, nist_800_53_pack,
     sha_implemented_endpoint_response_pack]"

definition curated_pack_files :: "string list" where
  "curated_pack_files = map ps_filename curated_pack_specs"

definition control_payload :: "string \<Rightarrow> control_spec \<Rightarrow> json" where
  "control_payload source_name c = JObj
     [(''control_id'', JStr (cs_id c)), (''title'', JStr (cs_title c)), (''platform'', enum_json platform_values (cs_platform c)),
      (''profiles'', JList (map (enum_json profile_values) (cs_profiles c))), (''severity'', enum_json severity_values (cs_severity c)),
      (''disruption'', enum_json disruption_values (cs_disruption c)),
      (''rollback_complexity'', enum_json rollback_values (cs_rollback_complexity c)),
      (''auto_remediation_candidate'', JBool (cs_auto_remediation c)), (''reboot_required'', JBool (cs_reboot_required c)),
      (''guidance_summary'', JStr (''Starter guidance for '' @ cs_title c @ ''.'')),
      (''detection_summary'', JStr (''Check state for '' @ cs_title c @ ''.'')),
      (''remediation_summary'', JStr (''Apply desired state for '' @ cs_title c @ ''.'')),
      (''rollback_summary'', JStr (''Rollback desired state for '' @ cs_title c @ ''.'')),
      (''provenance'', JObj [(''source_locator'', JStr (cs_locator c)),
         (''notes'', JStr (''Starter control selected for '' @ source_name @ ''.''))]),
      (''mappings'', JObj [(''nist_csf_ids'', texts_json (ms_nist_csf (cs_mappings c))), (''sp80053_ids'', texts_json (ms_sp80053 (cs_mappings c))),
         (''stig_ids'', texts_json (ms_stig (cs_mappings c))), (''cisa_reference_ids'', texts_json (ms_cisa (cs_mappings c)))])]"

definition pack_payload :: "pack_spec \<Rightarrow> json" where
  "pack_payload s = JObj
     [(''pack_id'', JStr (ps_id s)), (''source_family'', enum_json family_values (ps_family s)), (''source_name'', JStr (ps_name s)),
      (''source_version'', JStr (ps_version s)), (''generated_at'', JStr pinned_generated_at), (''source_url'', JStr (ps_url s)),
      (''platforms'', texts_json (ordered_subset (map (\<lambda>c. enum_value platform_values (cs_platform c)) (ps_controls s)) canonical_platform_order)),
      (''profiles'', texts_json (ordered_subset (concat (map (\<lambda>c. map (enum_value profile_values) (cs_profiles c)) (ps_controls s))) canonical_profile_order)),
      (''summary'', JStr (''Curated starter pack for '' @ ps_name s @ ''.'')),
      (''controls'', JList (map (control_payload (ps_name s)) (ps_controls s)))]"

definition catalog_payload :: "source_pack list \<Rightarrow> json" where
  "catalog_payload packs =
     (let ordered = order_by pk_id packs in JObj
       [(''generated_at'', JStr pinned_generated_at), (''pack_count'', JInt (int (length ordered))),
        (''control_count'', JInt (int (sum_list (map (\<lambda>k. length (pk_controls k)) ordered)))),
        (''packs'', JList (map (\<lambda>k. summary_json (pk_id k) (pk_family k) (pk_name k) (pk_version k) (int (length (pk_controls k)))) ordered))])"

section \<open>Packs and catalog on disk\<close>

text \<open>
  The repository directory: whether \<open>control-packs/packs\<close> is a directory, the files below it by relative path
  (a symbolic link to a file is a file), and \<open>control-packs/catalog.json\<close>.
\<close>

record pack_file =
  pf_path :: string
  pf_symlink :: bool
  pf_json :: "json option"

record pack_repo =
  rp_packs_dir :: bool
  rp_files :: "pack_file list"
  rp_catalog :: "json option option"

text \<open>The last component of a path, and its suffix as \<open>pathlib\<close> takes it.\<close>

definition path_name :: "string \<Rightarrow> string" where
  "path_name path = rev (takeWhile (\<lambda>c. c \<noteq> CHR ''/'') (rev path))"

definition path_suffix :: "string \<Rightarrow> string" where
  "path_suffix path =
     (let name = path_name path; ending = takeWhile (\<lambda>c. c \<noteq> CHR ''.'') (rev name)
      in if ending = [] \<or> length name \<le> length ending + 1 then [] else CHR ''.'' # rev ending)"

definition pack_file_at :: "pack_repo \<Rightarrow> string \<Rightarrow> pack_file option" where
  "pack_file_at repo path = (if rp_packs_dir repo then List.find (\<lambda>f. pf_path f = path) (rp_files repo) else None)"

definition load_json :: "string \<Rightarrow> json option \<Rightarrow> json result" where
  "load_json name content = (case content of None \<Rightarrow> Inl (ValueError (name @ '' is malformed JSON'')) | Some j \<Rightarrow> Inr j)"

definition validate_pack_against_spec :: "source_pack \<Rightarrow> pack_spec \<Rightarrow> unit result" where
  "validate_pack_against_spec k s = ensure (dump_pack k = pack_payload s)
     (ValueError (ps_filename s @ '' does not match the pinned curated starter inventory''))"

definition load_curated_pack :: "(json \<Rightarrow> bool option) \<Rightarrow> pack_repo \<Rightarrow> pack_spec \<Rightarrow> source_pack result" where
  "load_curated_pack as_bool repo s =
     (case pack_file_at repo (ps_filename s) of
        None \<Rightarrow> Inl (ValueError (''curated pack must be a regular file: '' @ ps_filename s))
      | Some file \<Rightarrow>
          andThen (ensure (\<not> pf_symlink file) (ValueError (''curated pack must be a regular file: '' @ ps_filename s))) (\<lambda>_.
          andThen (load_json (ps_filename s) (pf_json file)) (\<lambda>payload.
          case validate_pack as_bool payload of
            None \<Rightarrow> Inl (ValueError (ps_filename s @ '' failed validation''))
          | Some k \<Rightarrow> andThen (validate_pack_against_spec k s) (\<lambda>_. Inr k))))"

definition unexpected_files :: "pack_repo \<Rightarrow> string list" where
  "unexpected_files repo = filter (\<lambda>relative. CHR ''/'' \<in> set relative \<or> path_name relative \<notin> set curated_pack_files)
     (sort (map pf_path (filter (\<lambda>f. lower (path_suffix (pf_path f)) = ''.json'') (rp_files repo))))"

definition duplicate_ids :: "source_pack list \<Rightarrow> unit result" where
  "duplicate_ids packs =
     andThen (ensure (distinct (map pk_id packs)) (ValueError ''duplicate pack_id values are not allowed'')) (\<lambda>_.
     ensure (distinct (concat (map (\<lambda>k. map sc_id (pk_controls k)) packs))) (ValueError ''duplicate control_id values are not allowed''))"

definition load_curated_packs :: "(json \<Rightarrow> bool option) \<Rightarrow> pack_repo \<Rightarrow> source_pack list result" where
  "load_curated_packs as_bool repo =
     andThen (ensure (rp_packs_dir repo) (ValueError ''missing curated packs directory'')) (\<lambda>_.
     andThen (ensure (unexpected_files repo = [])
       (ValueError (''unexpected curated JSON file(s): '' @ join '', '' (unexpected_files repo)))) (\<lambda>_.
     let missing = filter (\<lambda>f. pack_file_at repo f = None) curated_pack_files in
     andThen (ensure (missing = []) (ValueError (''missing curated JSON file(s): '' @ join '', '' missing))) (\<lambda>_.
     andThen (traverse (load_curated_pack as_bool repo) curated_pack_specs) (\<lambda>packs.
     andThen (duplicate_ids packs) (\<lambda>_. Inr packs)))))"

definition write_catalog :: "pack_repo \<Rightarrow> source_catalog \<Rightarrow> pack_repo" where
  "write_catalog repo c = repo\<lparr>rp_catalog := Some (Some (dump_catalog c))\<rparr>"

definition build_source_catalog ::
  "(json \<Rightarrow> bool option) \<Rightarrow> (json \<Rightarrow> int option) \<Rightarrow> pack_repo \<Rightarrow> pack_repo \<times> source_catalog result" where
  "build_source_catalog as_bool as_int repo =
     (case andThen (load_curated_packs as_bool repo) (\<lambda>packs.
             andThen (duplicate_ids packs) (\<lambda>_.
             case validate_catalog as_int (catalog_payload packs) of
               None \<Rightarrow> Inl (ValueError ''validation error'')
             | Some c \<Rightarrow> Inr c)) of
        Inl e \<Rightarrow> (repo, Inl e)
      | Inr c \<Rightarrow> (write_catalog repo c, Inr c))"

definition load_source_catalog :: "(json \<Rightarrow> int option) \<Rightarrow> pack_repo \<Rightarrow> source_catalog result" where
  "load_source_catalog as_int repo =
     (case rp_catalog repo of
        None \<Rightarrow> Inl FileNotFoundError
      | Some content \<Rightarrow> andThen (load_json ''catalog.json'' content) (\<lambda>j.
          case validate_catalog as_int j of None \<Rightarrow> Inl (ValueError ''validation error'') | Some c \<Rightarrow> Inr c))"

definition load_source_pack :: "(json \<Rightarrow> bool option) \<Rightarrow> pack_repo \<Rightarrow> string \<Rightarrow> source_pack result" where
  "load_source_pack as_bool repo pack_id =
     (case List.find (\<lambda>s. ps_id s = pack_id) (rev curated_pack_specs) of
        None \<Rightarrow> Inl FileNotFoundError
      | Some s \<Rightarrow>
          (case pack_file_at repo (ps_filename s) of
             None \<Rightarrow> Inl FileNotFoundError
           | Some file \<Rightarrow> andThen (load_json (ps_filename s) (pf_json file)) (\<lambda>j.
               case validate_pack as_bool j of None \<Rightarrow> Inl (ValueError ''validation error'') | Some k \<Rightarrow> Inr k)))"

section \<open>Handlers\<close>

definition value_error_to :: "string \<Rightarrow> 'a result \<Rightarrow> 'a result" where
  "value_error_to detail r = (case r of Inl (ValueError _) \<Rightarrow> Inl (HTTPException 503 detail) | _ \<Rightarrow> r)"

definition list_source_packs ::
  "(json \<Rightarrow> bool option) \<Rightarrow> (json \<Rightarrow> int option) \<Rightarrow> principal \<Rightarrow> pack_repo \<Rightarrow> pack_repo \<times> source_catalog result" where
  "list_source_packs as_bool as_int p repo =
     (case require_permission ''catalog.read'' p of
        Inl e \<Rightarrow> (repo, Inl e)
      | Inr _ \<Rightarrow>
          (case load_source_catalog as_int repo of
             Inl FileNotFoundError \<Rightarrow>
               let (repo, built) = build_source_catalog as_bool as_int repo
               in (repo, value_error_to ''source pack catalog unavailable'' built)
           | loaded \<Rightarrow> (repo, value_error_to ''source pack catalog unavailable'' loaded)))"

definition get_source_pack ::
  "(json \<Rightarrow> bool option) \<Rightarrow> (json \<Rightarrow> int option) \<Rightarrow> principal \<Rightarrow> string \<Rightarrow> pack_repo \<Rightarrow> pack_repo \<times> source_pack result" where
  "get_source_pack as_bool as_int p pack_id repo =
     (case require_permission ''catalog.read'' p of
        Inl e \<Rightarrow> (repo, Inl e)
      | Inr _ \<Rightarrow>
          (case load_source_pack as_bool repo pack_id of
             Inl FileNotFoundError \<Rightarrow>
               (case build_source_catalog as_bool as_int repo of
                  (repo, Inl e) \<Rightarrow> (repo, value_error_to ''source pack unavailable'' (Inl e))
                | (repo, Inr _) \<Rightarrow>
                    (case load_source_pack as_bool repo pack_id of
                       Inl FileNotFoundError \<Rightarrow> (repo, Inl (HTTPException 404 ''source pack not found''))
                     | loaded \<Rightarrow> (repo, value_error_to ''source pack unavailable'' loaded)))
           | loaded \<Rightarrow> (repo, value_error_to ''source pack unavailable'' loaded)))"

text \<open>What \<open>control_registry\<close> takes from \<open>load_source_packs\<close>.\<close>

definition registry_pack :: "source_pack \<Rightarrow> pack" where
  "registry_pack k = map (\<lambda>c. (sc_id c, sc_title c, sc_platform c)) (pk_controls k)"

definition load_source_packs :: "(json \<Rightarrow> bool option) \<Rightarrow> pack_repo \<Rightarrow> pack list result" where
  "load_source_packs as_bool repo = andThen (load_curated_packs as_bool repo) (\<lambda>packs. Inr (map registry_pack packs))"

text \<open>\<open>list_control_registry\<close>: aliases sorted, actions in their fixed order, controls by id.\<close>

definition action_order :: "control_action \<Rightarrow> nat" where
  "action_order a = (case a of ActApply \<Rightarrow> 0 | ActRollback \<Rightarrow> 1)"

definition list_control_registry :: "pack list \<Rightarrow> principal \<Rightarrow> registered_control list result" where
  "list_control_registry packs p =
     andThen (require_permission ''catalog.read'' p) (\<lambda>_.
     andThen (control_registry packs) (\<lambda>registry.
     traverse (\<lambda>control_id. case map_of registry control_id of
         None \<Rightarrow> Inl (KeyError control_id)
       | Some c \<Rightarrow> Inr (c\<lparr>rc_aliases := sort (rc_aliases c), rc_actions := order_by action_order (rc_actions c)\<rparr>))
       (sort (map fst registry))))"

end
