(* ===== verification/Source_Catalog.thy ===== *)
theory Source_Catalog
  imports Source_Packs
begin

text \<open>
  What the source packs promise: reading inverts dumping, a loaded inventory is the pinned one, the control registry
  builds on it, and the catalog that is written is the one read back.
\<close>

section \<open>Enum values and ordered subsets\<close>

lemma set_seen_values [simp]: "set (seen_values vs) = set vs"
proof -
  have "set (foldl (\<lambda>seen v. if v \<in> set seen then seen else seen @ [v]) acc vs) = set acc \<union> set vs" for acc
    by (induction vs arbitrary: acc) auto
  from this[of "[]"] show ?thesis by (simp add: seen_values_def)
qed

lemma ordered_subset_filter: "ordered_subset vs order = filter (\<lambda>v. v \<in> set vs) order"
  by (simp add: ordered_subset_def)

definition enum_table :: "(string \<times> 'e) list \<Rightarrow> bool" where
  "enum_table values \<longleftrightarrow> distinct (map fst values) \<and> distinct (map snd values) \<and> (\<forall>e. e \<in> snd ` set values)"

lemma enum_tables [simp]:
  "enum_table family_values" "enum_table platform_values" "enum_table profile_values"
  "enum_table severity_values" "enum_table disruption_values" "enum_table rollback_values"
proof -
  show "enum_table family_values" unfolding enum_table_def family_values_def by (auto intro: source_family.exhaust)
  show "enum_table platform_values" unfolding enum_table_def platform_values_def by (auto intro: platform.exhaust)
  show "enum_table profile_values" unfolding enum_table_def profile_values_def by (auto intro: source_profile.exhaust)
  show "enum_table severity_values" unfolding enum_table_def severity_values_def by (auto intro: source_severity.exhaust)
  show "enum_table disruption_values" unfolding enum_table_def disruption_values_def by (auto intro: disruption.exhaust)
  show "enum_table rollback_values" unfolding enum_table_def rollback_values_def by (auto intro: rollback_complexity.exhaust)
qed

lemma enum_value_member:
  assumes "enum_table values"
  shows "(enum_value values e, e) \<in> set values"
proof -
  have "e \<in> snd ` set values" using assms by (simp add: enum_table_def)
  then have "List.find (\<lambda>v. snd v = e) values \<noteq> None" by (auto simp: find_None_iff)
  then obtain v where v: "List.find (\<lambda>v. snd v = e) values = Some v" by blast
  then have "v \<in> set values" "snd v = e" using find_eq_Some_first[OF v] by simp_all
  with v show ?thesis by (cases v) (simp add: enum_value_def)
qed

lemma map_of_enum_value [simp]: "enum_table values \<Longrightarrow> map_of values (enum_value values e) = Some e"
  by (rule map_of_is_SomeI) (simp_all add: enum_table_def enum_value_member)

lemma enum_value_of: "enum_table values \<Longrightarrow> map_of values s = Some e \<Longrightarrow> enum_value values e = s"
proof -
  assume t: "enum_table values" and "map_of values s = Some e"
  then have "(s, e) \<in> set values" by (simp add: map_of_SomeD)
  moreover have "(enum_value values e, e) \<in> set values" by (rule enum_value_member[OF t])
  moreover have "inj_on snd (set values)" using t by (simp add: enum_table_def distinct_map)
  ultimately show "enum_value values e = s" by (metis inj_onD fst_conv snd_conv)
qed

lemma enum_value_inj: "enum_table values \<Longrightarrow> enum_value values e = enum_value values e' \<Longrightarrow> e = e'"
  by (metis map_of_enum_value option.inject)

lemma those_Some: "those xs = Some ys \<longleftrightarrow> xs = map Some ys"
  by (induction xs arbitrary: ys) (auto split: option.splits)

lemma those_map_texts [simp]: "those (map (as_text \<circ> JStr) vs) = Some vs"
  by (simp add: those_Some)

lemma as_text_Some: "as_text j = Some s \<longleftrightarrow> j = JStr s"
  by (cases j) auto

lemma checked_Some [simp]: "checked P v = Some w \<longleftrightarrow> w = v \<and> P v"
  by (auto simp: checked_def)

lemma exact_fields_obj [simp]: "set (map fst kvs) = set names \<Longrightarrow> exact_fields names (JObj kvs) = Some (map_of kvs)"
  by (simp add: exact_fields_def)

lemma text_field_Some [simp]: "text_field j = Some s \<longleftrightarrow> j = JStr s \<and> trimmed_text s"
  by (auto simp: text_field_def bind_eq_Some_conv as_text_Some)

lemma enum_field_json [simp]: "enum_table values \<Longrightarrow> enum_field values (enum_json values e) = Some e"
  by (simp add: enum_field_def enum_json_def)

lemma sequence_field_Some: "sequence_field lexical order j = Some vs \<longleftrightarrow> j = texts_json vs \<and> ordered_unique_sequence lexical order vs"
proof -
  have "(map as_text xs = map Some vs) = (xs = map JStr vs)" for xs
    by (induction xs arbitrary: vs) (auto simp: as_text_Some Cons_eq_map_conv)
  then show ?thesis
    by (cases j) (auto simp: sequence_field_def texts_json_def bind_eq_Some_conv those_Some)
qed

definition enum_sequence_ok :: "string list \<Rightarrow> (string \<times> 'e) list \<Rightarrow> 'e list \<Rightarrow> bool" where
  "enum_sequence_ok order values es \<longleftrightarrow> ordered_unique_sequence False order (map (enum_value values) es)"

lemma enum_json_texts: "JList (map (enum_json values) es) = texts_json (map (enum_value values) es)"
  by (simp add: texts_json_def enum_json_def)

lemma enum_sequence_field_Some:
  assumes "enum_table values"
  shows "enum_sequence_field order values j = Some es \<longleftrightarrow> j = JList (map (enum_json values) es) \<and> enum_sequence_ok order values es"
proof -
  have "map (map_of values) vs = map Some es \<longleftrightarrow> vs = map (enum_value values) es" for vs
    using assms enum_value_of[OF assms] by (induction vs arbitrary: es) (auto simp: Cons_eq_map_conv)
  then show ?thesis
    by (auto simp: enum_sequence_field_def bind_eq_Some_conv sequence_field_Some those_Some enum_json_texts enum_sequence_ok_def)
qed

section \<open>Round trips\<close>

text \<open>What Pydantic is relied on for: true Booleans and integers are read as themselves.\<close>

definition reads_bools :: "(json \<Rightarrow> bool option) \<Rightarrow> bool" where
  "reads_bools as_bool \<longleftrightarrow> (\<forall>b. as_bool (JBool b) = Some b)"

definition reads_ints :: "(json \<Rightarrow> int option) \<Rightarrow> bool" where
  "reads_ints as_int \<longleftrightarrow> (\<forall>i. as_int (JInt i) = Some i)"

definition control_ok :: "source_control \<Rightarrow> bool" where
  "control_ok c \<longleftrightarrow> list_all trimmed_text (control_texts c) \<and> control_formulas c \<and>
     enum_sequence_ok canonical_profile_order profile_values (sc_profiles c) \<and>
     list_all (ordered_unique_sequence True []) [sc_nist_csf c, sc_sp80053 c, sc_stig c, sc_cisa c]"

definition pack_ok :: "source_pack \<Rightarrow> bool" where
  "pack_ok k \<longleftrightarrow> list_all trimmed_text [pk_id k, pk_name k, pk_version k, pk_url k, pk_summary k] \<and>
     trimmed_text pinned_generated_at \<and> pk_generated_at k = pinned_generated_at \<and>
     enum_sequence_ok canonical_platform_order platform_values (pk_platforms k) \<and>
     enum_sequence_ok canonical_profile_order profile_values (pk_profiles k) \<and>
     pk_controls k \<noteq> [] \<and> list_all control_ok (pk_controls k) \<and> pack_shape k"

lemma provenance_dump [simp]:
  "provenance_field (JObj [(''source_locator'', JStr a), (''notes'', JStr b)]) = (if trimmed_text a \<and> trimmed_text b then Some (a, b) else None)"
  by (simp add: provenance_field_def text_field_def checked_def)

lemma sequence_field_texts [simp]:
  "sequence_field lexical order (texts_json vs) = (if ordered_unique_sequence lexical order vs then Some vs else None)"
  by (simp add: sequence_field_def texts_json_def checked_def)

lemma enum_sequence_field_json [simp]:
  "enum_table values \<Longrightarrow> enum_sequence_field order values (JList (map (enum_json values) es)) =
     (if enum_sequence_ok order values es then Some es else None)"
  by (cases "enum_sequence_ok order values es")
    (auto simp: enum_sequence_field_Some enum_sequence_field_def enum_sequence_ok_def enum_json_texts those_Some)

lemma mappings_dump [simp]:
  "mappings_field (JObj [(''nist_csf_ids'', texts_json a), (''sp80053_ids'', texts_json b), (''stig_ids'', texts_json c),
     (''cisa_reference_ids'', texts_json d)]) =
   (if list_all (ordered_unique_sequence True []) [a, b, c, d] then Some (a, b, c, d) else None)"
  by (simp add: mappings_field_def)

lemma text_field_JStr [simp]: "text_field (JStr s) = (if trimmed_text s then Some s else None)"
  by (simp add: text_field_def checked_def)

lemma control_roundtrip:
  assumes "reads_bools as_bool"
  shows "validate_control as_bool (dump_control c) = (if control_ok c then Some c else None)"
proof -
  have names: "set (map fst [(''control_id'', JStr (sc_id c)), (''title'', JStr (sc_title c)), (''platform'', enum_json platform_values (sc_platform c)),
      (''profiles'', JList (map (enum_json profile_values) (sc_profiles c))), (''severity'', enum_json severity_values (sc_severity c)),
      (''disruption'', enum_json disruption_values (sc_disruption c)),
      (''rollback_complexity'', enum_json rollback_values (sc_rollback_complexity c)),
      (''auto_remediation_candidate'', JBool (sc_auto_remediation c)), (''reboot_required'', JBool (sc_reboot_required c)),
      (''guidance_summary'', JStr (sc_guidance c)), (''detection_summary'', JStr (sc_detection c)),
      (''remediation_summary'', JStr (sc_remediation c)), (''rollback_summary'', JStr (sc_rollback c)),
      (''provenance'', JObj [(''source_locator'', JStr (sc_locator c)), (''notes'', JStr (sc_notes c))]),
      (''mappings'', JObj [(''nist_csf_ids'', texts_json (sc_nist_csf c)), (''sp80053_ids'', texts_json (sc_sp80053 c)),
         (''stig_ids'', texts_json (sc_stig c)), (''cisa_reference_ids'', texts_json (sc_cisa c))])]) = set control_field_names"
    unfolding control_field_names_def by simp
  have eta: "\<lparr>sc_id = sc_id c, sc_title = sc_title c, sc_platform = sc_platform c, sc_profiles = sc_profiles c, sc_severity = sc_severity c,
      sc_disruption = sc_disruption c, sc_rollback_complexity = sc_rollback_complexity c, sc_auto_remediation = sc_auto_remediation c,
      sc_reboot_required = sc_reboot_required c, sc_guidance = sc_guidance c, sc_detection = sc_detection c,
      sc_remediation = sc_remediation c, sc_rollback = sc_rollback c, sc_locator = sc_locator c, sc_notes = sc_notes c,
      sc_nist_csf = sc_nist_csf c, sc_sp80053 = sc_sp80053 c, sc_stig = sc_stig c, sc_cisa = sc_cisa c\<rparr> = c" by simp
  show ?thesis
    unfolding validate_control_def dump_control_def exact_fields_obj[OF names]
    using assms by (simp add: reads_bools_def control_ok_def control_texts_def checked_def eta)
qed


lemma validated_control_ok:
  assumes "validate_control as_bool j = Some c"
  shows "control_ok c"
  using assms
  by (auto simp: validate_control_def bind_eq_Some_conv enum_sequence_field_Some provenance_field_def mappings_field_def
      sequence_field_Some control_ok_def control_texts_def split: prod.splits)

lemma those_validated:
  "those (map f xs) = Some ys \<Longrightarrow> y \<in> set ys \<Longrightarrow> \<exists>x\<in>set xs. f x = Some y"
  by (auto simp: those_Some) (metis image_eqI imageE list.set_map)

lemma pack_roundtrip:
  assumes "reads_bools as_bool"
  shows "validate_pack as_bool (dump_pack k) = (if pack_ok k then Some k else None)"
proof -
  have names: "set (map fst [(''pack_id'', JStr (pk_id k)), (''source_family'', enum_json family_values (pk_family k)),
      (''source_name'', JStr (pk_name k)), (''source_version'', JStr (pk_version k)), (''generated_at'', JStr (pk_generated_at k)),
      (''source_url'', JStr (pk_url k)), (''platforms'', JList (map (enum_json platform_values) (pk_platforms k))),
      (''profiles'', JList (map (enum_json profile_values) (pk_profiles k))), (''summary'', JStr (pk_summary k)),
      (''controls'', JList (map dump_control (pk_controls k)))]) = set pack_field_names"
    unfolding pack_field_names_def by simp
  have controls: "those (map (validate_control as_bool \<circ> dump_control) cs) = (if list_all control_ok cs then Some cs else None)" for cs
    by (induction cs) (simp_all add: control_roundtrip[OF assms])
  have eta: "\<lparr>pk_id = pk_id k, pk_family = pk_family k, pk_name = pk_name k, pk_version = pk_version k, pk_generated_at = pk_generated_at k,
        pk_url = pk_url k, pk_platforms = pk_platforms k, pk_profiles = pk_profiles k, pk_summary = pk_summary k,
        pk_controls = pk_controls k\<rparr> = k" by simp
  have eta': "\<lparr>pk_id = pk_id k, pk_family = pk_family k, pk_name = pk_name k, pk_version = pk_version k, pk_generated_at = pinned_generated_at,
        pk_url = pk_url k, pk_platforms = pk_platforms k, pk_profiles = pk_profiles k, pk_summary = pk_summary k,
        pk_controls = pk_controls k\<rparr> = k" if "pk_generated_at k = pinned_generated_at"
    using that by (metis eta)
  show ?thesis
    unfolding validate_pack_def dump_pack_def exact_fields_obj[OF names]
    by (auto simp add: pack_ok_def checked_def controls eta eta')
qed

lemma validated_pack_ok:
  assumes "validate_pack as_bool j = Some k"
  shows "pack_ok k"
proof -
  have ok: "those (map (validate_control as_bool) xs) = Some cs \<Longrightarrow> list_all control_ok cs" for xs cs
    using those_validated[of "validate_control as_bool" xs cs] validated_control_ok unfolding list_all_iff by blast
  show ?thesis
    using assms by (auto simp: validate_pack_def bind_eq_Some_conv enum_sequence_field_Some pack_ok_def dest!: ok)
qed

text \<open>
  C34.  The schema of a control pack is exact: what it reads meets every rule of the contract, and a pack meets them if
  and only if its dump is read back as the same pack.
\<close>

theorem validate_pack_exact:
  assumes "reads_bools as_bool"
  shows "(validate_pack as_bool (dump_pack k) = Some k \<longleftrightarrow> pack_ok k) \<and> (validate_pack as_bool j = Some k \<longrightarrow> pack_ok k) \<and>
    (\<forall>k'. validate_pack as_bool (dump_pack k) = Some k' \<longrightarrow> k' = k)"
  using pack_roundtrip[OF assms, of k] validated_pack_ok[of as_bool j k] by auto

section \<open>The pinned inventory\<close>

definition spec_control :: "string \<Rightarrow> control_spec \<Rightarrow> source_control" where
  "spec_control name c =
     \<lparr>sc_id = cs_id c, sc_title = cs_title c, sc_platform = cs_platform c, sc_profiles = cs_profiles c, sc_severity = cs_severity c,
      sc_disruption = cs_disruption c, sc_rollback_complexity = cs_rollback_complexity c, sc_auto_remediation = cs_auto_remediation c,
      sc_reboot_required = cs_reboot_required c, sc_guidance = ''Starter guidance for '' @ cs_title c @ ''.'',
      sc_detection = ''Check state for '' @ cs_title c @ ''.'', sc_remediation = ''Apply desired state for '' @ cs_title c @ ''.'',
      sc_rollback = ''Rollback desired state for '' @ cs_title c @ ''.'', sc_locator = cs_locator c,
      sc_notes = ''Starter control selected for '' @ name @ ''.'', sc_nist_csf = ms_nist_csf (cs_mappings c),
      sc_sp80053 = ms_sp80053 (cs_mappings c), sc_stig = ms_stig (cs_mappings c), sc_cisa = ms_cisa (cs_mappings c)\<rparr>"

definition spec_pack :: "pack_spec \<Rightarrow> source_pack" where
  "spec_pack s =
     \<lparr>pk_id = ps_id s, pk_family = ps_family s, pk_name = ps_name s, pk_version = ps_version s, pk_generated_at = pinned_generated_at,
      pk_url = ps_url s, pk_platforms = ordered_subset (map cs_platform (ps_controls s)) [Windows, Linux, MacOS],
      pk_profiles = ordered_subset (concat (map cs_profiles (ps_controls s))) [DomainController, EndpointProfile, ServerProfile],
      pk_summary = ''Curated starter pack for '' @ ps_name s @ ''.'', pk_controls = map (spec_control (ps_name s)) (ps_controls s)\<rparr>"

definition curated_packs :: "source_pack list" where
  "curated_packs = map spec_pack curated_pack_specs"

lemma ordered_subset_map: "inj f \<Longrightarrow> map f (ordered_subset vs order) = ordered_subset (map f vs) (map f order)"
  by (auto simp: ordered_subset_filter filter_map comp_def inj_image_mem_iff)

lemma inj_enum_value: "enum_table values \<Longrightarrow> inj (enum_value values)"
  by (rule injI) (rule enum_value_inj)

lemma canonical_orders:
  "canonical_platform_order = map (enum_value platform_values) [Windows, Linux, MacOS]"
  "canonical_profile_order = map (enum_value profile_values) [DomainController, EndpointProfile, ServerProfile]"
  by (simp_all add: canonical_platform_order_def canonical_profile_order_def enum_value_def platform_values_def profile_values_def)

lemma pack_payload_dump: "pack_payload s = dump_pack (spec_pack s)"
proof -
  have "control_payload n = dump_control \<circ> spec_control n" for n
    by (simp add: fun_eq_iff control_payload_def dump_control_def spec_control_def)
  then show ?thesis
    by (simp add: pack_payload_def dump_pack_def spec_pack_def enum_json_texts canonical_orders ordered_subset_map inj_enum_value
        map_concat comp_def del: list.map)
qed

lemma map_inj_eq: "map f xs = map f ys \<Longrightarrow> (\<And>x y. f x = f y \<Longrightarrow> x = y) \<Longrightarrow> xs = ys"
  by (metis injI inj_map_eq_map)

lemma enum_json_inj: "enum_table values \<Longrightarrow> enum_json values e = enum_json values e' \<Longrightarrow> e = e'"
  by (simp add: enum_json_def enum_value_inj)

lemma texts_json_inj [simp]: "texts_json vs = texts_json ws \<longleftrightarrow> vs = ws"
  by (auto simp: texts_json_def dest: map_inj_eq)

lemma dump_control_inj: "dump_control c = dump_control d \<Longrightarrow> c = d"
  by (cases c; cases d) (auto simp: dump_control_def dest!: enum_json_inj[rotated] map_inj_eq[of "enum_json profile_values"])

lemma dump_pack_inj: "dump_pack k = dump_pack k' \<Longrightarrow> k = k'"
  by (cases k; cases k') (auto simp: dump_pack_def dest!: enum_json_inj[rotated] map_inj_eq[OF _ dump_control_inj]
      map_inj_eq[of "enum_json profile_values"] map_inj_eq[of "enum_json platform_values"])


lemma curated_specs_ok: "list_all pack_ok curated_packs"
proof -
  have "pack_ok (spec_pack cisa_nsa_hardening_pack)" by code_simp
  moreover have "pack_ok (spec_pack disa_windows_server_2022_pack)" by code_simp
  moreover have "pack_ok (spec_pack nist_800_53_pack)" by code_simp
  moreover have "pack_ok (spec_pack sha_implemented_endpoint_response_pack)" by code_simp
  ultimately show ?thesis by (simp add: curated_packs_def curated_pack_specs_def)
qed


text \<open>The controls the registry takes from the inventory.\<close>

definition curated_registry_packs :: "pack list" where
  "curated_registry_packs = map registry_pack curated_packs"

lemma curated_registry_packs_spec:
  "curated_registry_packs = map (\<lambda>s. map (\<lambda>c. (cs_id c, cs_title c, cs_platform c)) (ps_controls s)) curated_pack_specs"
  by (simp add: curated_registry_packs_def curated_packs_def registry_pack_def spec_pack_def spec_control_def comp_def)

lemma control_registry_builds:
  assumes "list_all (\<lambda>k. k \<notin> fst ` set operational_observations) (map fst (concat packs))"
    and "list_all (\<lambda>k. k \<in> fst ` set (concat packs) \<union> fst ` set operational_observations) (map fst supported_actions @ map fst observation_aliases)"
  shows "\<exists>registry. control_registry packs = Inr registry"
proof -
  let ?defs = "dict_update [] (map (\<lambda>(k, title, p). (k, (title, p, BenchmarkControl))) (concat packs))"
  let ?all = "dict_update ?defs (map (\<lambda>(k, title, p). (k, (title, p, OperationalObservation))) operational_observations)"
  have img: "fst ` set (map (\<lambda>(k, title, p). (k, (title, p, kind))) xs) = fst ` set xs" for kind :: control_kind and xs :: pack
    by (force simp: image_iff)
  have defs: "fst ` set ?defs = fst ` set (concat packs)" unfolding keys_dict_update img by simp
  have all: "fst ` set ?all = fst ` set (concat packs) \<union> fst ` set operational_observations" unfolding keys_dict_update img by simp
  have "\<forall>k\<in>set (map fst ?defs). k \<notin> fst ` set operational_observations"
    using assms(1) unfolding list.set_map defs by (simp add: list_all_iff)
  then have "filter (\<lambda>k. k \<in> fst ` set operational_observations) (map fst ?defs) = []" by (simp add: filter_empty_conv)
  moreover have "filter (\<lambda>k. k \<notin> fst ` set ?all) (map fst supported_actions) = []"
    "filter (\<lambda>k. k \<notin> fst ` set ?all) (map fst observation_aliases) = []"
    using assms(2) unfolding all by (auto simp: filter_empty_conv list_all_iff)
  ultimately show ?thesis unfolding control_registry_def Let_def by simp
qed

text \<open>The names a registry knows, with the control each stands for.\<close>

definition known_names :: "pack list \<Rightarrow> (string \<times> string) list" where
  "known_names packs = map (\<lambda>k. (k, k)) (map fst (concat packs) @ map fst operational_observations) @
     concat (map (\<lambda>(c, names). map (\<lambda>n. (n, c)) names) observation_aliases)"

lemma registry_aliases:
  assumes "control_registry packs = Inr registry" and "(k, c) \<in> set registry"
  shows "rc_aliases c = (case map_of observation_aliases k of Some xs \<Rightarrow> xs | None \<Rightarrow> [])"
  using assms by (auto simp: control_registry_def Let_def split: if_splits)

lemma observation_keys_known:
  assumes "control_registry packs = Inr registry"
  shows "set (observation_keys registry) \<subseteq> set (known_names packs)"
proof
  fix x assume "x \<in> set (observation_keys registry)"
  then obtain k c where c: "(k, c) \<in> set registry" "snd x = rc_id c" "fst x \<in> set (rc_id c # rc_aliases c)"
    by (auto simp: observation_keys_def)
  have id: "rc_id c = k" using control_registry_keys(2)[OF assms c(1)] .
  have "k \<in> fst ` set registry" using c(1) by force
  then have k: "k \<in> fst ` set (concat packs) \<union> fst ` set operational_observations" using control_registry_keys(3)[OF assms] by simp
  show "x \<in> set (known_names packs)"
  proof (cases "fst x = k")
    case True
    then have "x = (k, k)" using c(2) id by (metis prod.collapse)
    then show ?thesis using k unfolding known_names_def by auto
  next
    case False
    then have "fst x \<in> set (rc_aliases c)" using c(3) id by simp
    then obtain names where "map_of observation_aliases k = Some names" "fst x \<in> set names"
      unfolding registry_aliases[OF assms c(1)] by (cases "map_of observation_aliases k") auto
    then have "(k, names) \<in> set observation_aliases" "x = (fst x, k)" using c(2) id by (auto dest: map_of_SomeD)
    with \<open>fst x \<in> set names\<close> show ?thesis unfolding known_names_def by force
  qed
qed

lemma alias_loop_runs:
  assumes "\<And>a c b d. (a, c) \<in> set ks \<Longrightarrow> (b, d) \<in> set ks \<Longrightarrow> lower a = lower b \<Longrightarrow> c = d"
    and "\<And>a c. (a, c) \<in> set ks \<Longrightarrow> aliases (lower a) = None \<or> aliases (lower a) = Some c"
  shows "\<exists>table. alias_loop aliases ks = Inr table"
  using assms
proof (induction ks arbitrary: aliases)
  case (Cons x ks)
  obtain a c where x: "x = (a, c)" by (cases x)
  have "\<exists>table. alias_loop (aliases(lower a \<mapsto> c)) ks = Inr table"
  proof (rule Cons.IH)
    show "c' = d" if "(a', c') \<in> set ks" "(b, d) \<in> set ks" "lower a' = lower b" for a' c' b d
      using Cons.prems(1) that by (meson list.set_intros(2))
    show "(aliases(lower a \<mapsto> c)) (lower a') = None \<or> (aliases(lower a \<mapsto> c)) (lower a') = Some c'" if "(a', c') \<in> set ks" for a' c'
      using Cons.prems(1)[of a c a' c'] Cons.prems(2)[of a' c'] that x by auto
  qed
  moreover have "aliases (lower a) = None \<or> aliases (lower a) = Some c" using Cons.prems(2) x by simp
  ultimately show ?case by (auto simp: x Let_def)
qed simp

lemma observation_control_ids_build:
  assumes "control_registry packs = Inr registry" and "distinct (map (\<lambda>n. lower (fst n)) (known_names packs))"
  shows "\<exists>table. observation_control_ids packs = Inr table"
proof -
  have "inj_on (\<lambda>n. lower (fst n)) (set (known_names packs))" using assms(2) by (simp add: distinct_map)
  then have "c = d" if "(a, c) \<in> set (known_names packs)" "(b, d) \<in> set (known_names packs)" "lower a = lower b" for a b c d
    using inj_onD[of "\<lambda>n. lower (fst n)" "set (known_names packs)" "(a, c)" "(b, d)"] that by simp
  then have "\<exists>table. alias_loop (\<lambda>_. None) (observation_keys registry) = Inr table"
    using observation_keys_known[OF assms(1)] by (intro alias_loop_runs) (blast, simp)
  then show ?thesis using assms(1) by (simp add: observation_control_ids_def)
qed

lemma curated_registry_builds:
  "\<exists>registry. control_registry curated_registry_packs = Inr registry"
  "\<exists>table. observation_control_ids curated_registry_packs = Inr table"
proof -
  show built: "\<exists>registry. control_registry curated_registry_packs = Inr registry"
    unfolding curated_registry_packs_spec by (rule control_registry_builds; code_simp)
  have "distinct (map (\<lambda>n. lower (fst n)) (known_names (map (\<lambda>s. map (\<lambda>c. (cs_id c, cs_title c, cs_platform c)) (ps_controls s)) curated_pack_specs)))"
    by code_simp
  then show "\<exists>table. observation_control_ids curated_registry_packs = Inr table"
    using built observation_control_ids_build unfolding curated_registry_packs_spec by blast
qed

lemma curated_duplicates: "duplicate_ids curated_packs = Inr ()"
proof -
  have "map pk_id curated_packs = map ps_id curated_pack_specs"
    "concat (map (\<lambda>k. map sc_id (pk_controls k)) curated_packs) = concat (map (\<lambda>s. map cs_id (ps_controls s)) curated_pack_specs)"
    by (simp_all add: curated_packs_def spec_pack_def spec_control_def comp_def)
  moreover have "distinct (map ps_id curated_pack_specs)" by code_simp
  moreover have "distinct (concat (map (\<lambda>s. map cs_id (ps_controls s)) curated_pack_specs))" by code_simp
  ultimately show ?thesis by (simp add: duplicate_ids_def)
qed


lemma load_curated_pack_Inr:
  "load_curated_pack as_bool repo s = Inr k \<longleftrightarrow> k = spec_pack s \<and> (\<exists>file j. pack_file_at repo (ps_filename s) = Some file \<and>
     \<not> pf_symlink file \<and> pf_json file = Some j \<and> validate_pack as_bool j = Some (spec_pack s))"
  by (auto simp: load_curated_pack_def load_json_def andThen_eq_Inr validate_pack_against_spec_def pack_payload_dump
      dest: dump_pack_inj split: option.splits)

text \<open>
  A JSON file lies nowhere under the packs directory but at the path of a pinned one, and every pinned one reads as its pack.
\<close>

definition inventory_present :: "(json \<Rightarrow> bool option) \<Rightarrow> pack_repo \<Rightarrow> bool" where
  "inventory_present as_bool repo \<longleftrightarrow> rp_packs_dir repo \<and>
     (\<forall>file\<in>set (rp_files repo). lower (path_suffix (pf_path file)) = ''.json'' \<longrightarrow> pf_path file \<in> set curated_pack_files) \<and>
     (\<forall>s\<in>set curated_pack_specs. \<exists>file j. pack_file_at repo (ps_filename s) = Some file \<and>
        \<not> pf_symlink file \<and> pf_json file = Some j \<and> validate_pack as_bool j = Some (spec_pack s))"

lemma path_name_plain:
  assumes "CHR ''/'' \<notin> set p"
  shows "path_name p = p"
proof -
  have "takeWhile (\<lambda>c. c \<noteq> CHR ''/'') (rev p) = rev p"
    using assms by (intro takeWhile_eq_all_conv[THEN iffD2]) auto
  then show ?thesis unfolding path_name_def by (simp only: rev_rev_ident)
qed

lemma unexpected_files_Nil:
  "unexpected_files repo = [] \<longleftrightarrow>
     (\<forall>file\<in>set (rp_files repo). lower (path_suffix (pf_path file)) = ''.json'' \<longrightarrow> pf_path file \<in> set curated_pack_files)"
proof -
  have "list_all (\<lambda>n. CHR ''/'' \<notin> set n) curated_pack_files" by code_simp
  then have plain: "CHR ''/'' \<notin> set n" if "n \<in> set curated_pack_files" for n using that by (auto simp: list_all_iff)
  have "CHR ''/'' \<in> set p \<or> path_name p \<notin> set curated_pack_files \<longleftrightarrow> p \<notin> set curated_pack_files" for p
    using plain[of p] path_name_plain[of p] by (cases "CHR ''/'' \<in> set p") auto
  then show ?thesis by (auto simp: unexpected_files_def filter_empty_conv)
qed

lemma load_curated_packs_Inr: "load_curated_packs as_bool repo = Inr packs \<longleftrightarrow> packs = curated_packs \<and> inventory_present as_bool repo"
proof -
  have all: "traverse (load_curated_pack as_bool repo) ss = Inr packs \<longleftrightarrow> packs = map spec_pack ss \<and>
      (\<forall>s\<in>set ss. \<exists>file j. pack_file_at repo (ps_filename s) = Some file \<and>
        \<not> pf_symlink file \<and> pf_json file = Some j \<and> validate_pack as_bool j = Some (spec_pack s))" for ss packs
    by (induction ss arbitrary: packs) (auto simp: andThen_eq_Inr load_curated_pack_Inr)
  have "filter (\<lambda>f. pack_file_at repo f = None) curated_pack_files = []" if "inventory_present as_bool repo"
    using that by (force simp: inventory_present_def curated_pack_files_def filter_empty_conv)
  then show ?thesis
    using curated_duplicates
    by (auto simp: load_curated_packs_def andThen_eq_Inr Let_def all inventory_present_def unexpected_files_Nil curated_packs_def)
qed

text \<open>
  C33.  The server works with the pinned inventory or with none: packs load exactly when every pinned file is a regular
  file whose JSON reads as the pinned pack and no other JSON file lies beside them; what loads is then the pinned packs,
  and the control registry and its table of observation names build on them.
\<close>

theorem load_source_packs_pinned:
  shows "(load_source_packs as_bool repo = Inr packs \<longleftrightarrow> packs = curated_registry_packs \<and> inventory_present as_bool repo) \<and>
    (\<exists>registry table. control_registry curated_registry_packs = Inr registry \<and> observation_control_ids curated_registry_packs = Inr table \<and>
       fst ` set supported_actions \<subseteq> fst ` set registry)"
proof -
  obtain registry where "control_registry curated_registry_packs = Inr registry" using curated_registry_builds(1) by blast
  then show ?thesis
    using curated_registry_builds(2) control_registry_keys(4)
    by (auto simp: load_source_packs_def andThen_eq_Inr load_curated_packs_Inr curated_registry_packs_def)
qed

section \<open>The catalog\<close>

definition catalog_of :: "source_pack list \<Rightarrow> source_catalog" where
  "catalog_of packs =
     \<lparr>ca_generated_at = pinned_generated_at, ca_pack_count = int (length packs),
      ca_control_count = int (sum_list (map (\<lambda>k. length (pk_controls k)) (order_by pk_id packs))),
      ca_packs = map (\<lambda>k. \<lparr>cp_id = pk_id k, cp_family = pk_family k, cp_name = pk_name k, cp_version = pk_version k,
        cp_control_count = int (length (pk_controls k))\<rparr>) (order_by pk_id packs)\<rparr>"

definition summary_ok :: "pack_summary \<Rightarrow> bool" where
  "summary_ok k \<longleftrightarrow> list_all trimmed_text [cp_id k, cp_name k, cp_version k] \<and> 1 \<le> cp_control_count k"

definition catalog_ok :: "source_catalog \<Rightarrow> bool" where
  "catalog_ok c \<longleftrightarrow> trimmed_text pinned_generated_at \<and> ca_generated_at c = pinned_generated_at \<and> 1 \<le> ca_pack_count c \<and>
     1 \<le> ca_control_count c \<and> ca_packs c \<noteq> [] \<and> list_all summary_ok (ca_packs c) \<and> catalog_summary_ok c"

lemma catalog_payload_dump: "catalog_payload packs = dump_catalog (catalog_of packs)"
  by (simp add: catalog_payload_def dump_catalog_def catalog_of_def Let_def comp_def order_by_def)

lemma summary_roundtrip:
  assumes "reads_ints as_int"
  shows "validate_summary as_int (summary_json (cp_id k) (cp_family k) (cp_name k) (cp_version k) (cp_control_count k)) =
    (if summary_ok k then Some k else None)"
proof -
  have names: "set (map fst [(''pack_id'', JStr (cp_id k)), (''source_family'', enum_json family_values (cp_family k)), (''source_name'', JStr (cp_name k)),
      (''source_version'', JStr (cp_version k)), (''control_count'', JInt (cp_control_count k))]) = set summary_field_names"
    unfolding summary_field_names_def by simp
  have eta: "\<lparr>cp_id = cp_id k, cp_family = cp_family k, cp_name = cp_name k, cp_version = cp_version k,
      cp_control_count = cp_control_count k\<rparr> = k" by simp
  show ?thesis
    unfolding validate_summary_def summary_json_def exact_fields_obj[OF names]
    using assms by (simp add: summary_ok_def checked_def reads_ints_def eta)
qed

lemma catalog_roundtrip:
  assumes "reads_ints as_int"
  shows "validate_catalog as_int (dump_catalog c) = (if catalog_ok c then Some c else None)"
proof -
  have summaries: "those (map (validate_summary as_int \<circ> (\<lambda>k. summary_json (cp_id k) (cp_family k) (cp_name k) (cp_version k) (cp_control_count k))) ks) =
      (if list_all summary_ok ks then Some ks else None)" for ks
    by (induction ks) (simp_all add: summary_roundtrip[OF assms])
  have eta: "\<lparr>ca_generated_at = ca_generated_at c, ca_pack_count = ca_pack_count c, ca_control_count = ca_control_count c,
      ca_packs = ca_packs c\<rparr> = c" by simp
  have eta': "\<lparr>ca_generated_at = pinned_generated_at, ca_pack_count = ca_pack_count c, ca_control_count = ca_control_count c,
      ca_packs = ca_packs c\<rparr> = c" if "ca_generated_at c = pinned_generated_at" using that by (metis eta)
  show ?thesis
    unfolding validate_catalog_def dump_catalog_def
    using assms by (auto simp add: catalog_ok_def checked_def reads_ints_def summaries eta eta')
qed

lemma curated_catalog_ok: "catalog_ok (catalog_of curated_packs)"
  by code_simp

lemma build_source_catalog_outcome:
  assumes "reads_ints as_int"
  shows "build_source_catalog as_bool as_int repo =
    (if inventory_present as_bool repo then (write_catalog repo (catalog_of curated_packs), Inr (catalog_of curated_packs))
     else (repo, snd (build_source_catalog as_bool as_int repo)))"
    and "\<not> inventory_present as_bool repo \<Longrightarrow> \<exists>m. snd (build_source_catalog as_bool as_int repo) = Inl (ValueError m)"
proof -
  have err: "\<exists>m. e = ValueError m" if "load_curated_pack as_bool repo s = Inl e" for s e
    using that by (auto simp: load_curated_pack_def load_json_def validate_pack_against_spec_def andThen_eq_Inl split: option.splits)
  have errs: "\<exists>m. e = ValueError m" if "traverse (load_curated_pack as_bool repo) ss = Inl e" for ss e
    using that err by (induction ss) (auto simp: andThen_eq_Inl)
  have load: "\<exists>m. load_curated_packs as_bool repo = Inl (ValueError m)" if "\<not> inventory_present as_bool repo"
  proof (cases "load_curated_packs as_bool repo")
    case (Inl e)
    then have "\<exists>m. e = ValueError m" by (auto simp: load_curated_packs_def andThen_eq_Inl Let_def duplicate_ids_def dest!: errs)
    with Inl show ?thesis by blast
  next
    case (Inr packs)
    then show ?thesis using that by (simp add: load_curated_packs_Inr)
  qed
  show "\<exists>m. snd (build_source_catalog as_bool as_int repo) = Inl (ValueError m)" if "\<not> inventory_present as_bool repo"
    using load[OF that] by (auto simp: build_source_catalog_def)
  show "build_source_catalog as_bool as_int repo =
    (if inventory_present as_bool repo then (write_catalog repo (catalog_of curated_packs), Inr (catalog_of curated_packs))
     else (repo, snd (build_source_catalog as_bool as_int repo)))"
  proof (cases "inventory_present as_bool repo")
    case True
    then have "load_curated_packs as_bool repo = Inr curated_packs" by (simp add: load_curated_packs_Inr)
    then show ?thesis
      using True by (simp add: build_source_catalog_def curated_duplicates catalog_payload_dump catalog_roundtrip[OF assms] curated_catalog_ok)
  next
    case False
    then show ?thesis using load[OF False] by (auto simp: build_source_catalog_def)
  qed
qed

lemma load_written_catalog:
  assumes "reads_ints as_int" and "catalog_ok c"
  shows "load_source_catalog as_int (write_catalog repo c) = Inr c"
  using assms by (simp add: load_source_catalog_def write_catalog_def load_json_def catalog_roundtrip)

lemma load_source_catalog_cases:
  "(\<exists>c. load_source_catalog as_int repo = Inr c) \<or> (\<exists>m. load_source_catalog as_int repo = Inl (ValueError m)) \<or>
     load_source_catalog as_int repo = Inl FileNotFoundError \<and> rp_catalog repo = None"
  by (auto simp: load_source_catalog_def load_json_def split: option.splits)

text \<open>
  What the catalog endpoint answers: the catalog, or 403 without the permission, or 503, and nothing else.  The
  packs stay as they are; a missing catalog is built exactly when the pinned inventory is complete, and from then on
  every reader gets what the first one got.
\<close>

theorem list_source_packs_outcome:
  fixes as_int :: "json \<Rightarrow> int option" and as_bool :: "json \<Rightarrow> bool option" and p :: principal and repo :: pack_repo
  assumes "reads_ints as_int"
  defines "call \<equiv> list_source_packs as_bool as_int p repo"
  shows "((\<exists>c. snd call = Inr c) \<or> (\<exists>m. snd call = Inl (HTTPException 403 m)) \<or> (\<exists>m. snd call = Inl (HTTPException 503 m))) \<and>
    rp_packs_dir (fst call) = rp_packs_dir repo \<and> rp_files (fst call) = rp_files repo \<and>
    (\<forall>c. snd call = Inr c \<longrightarrow> load_source_catalog as_int (fst call) = Inr c \<and>
       (rp_catalog repo = None \<longrightarrow> inventory_present as_bool repo \<and> c = catalog_of curated_packs)) \<and>
    (rp_catalog repo \<noteq> None \<longrightarrow> fst call = repo)"
proof (cases "require_permission ''catalog.read'' p")
  case (Inl e)
  then have "\<exists>m. e = HTTPException 403 m" by (auto simp: require_permission_def split: if_splits)
  then show ?thesis using Inl by (auto simp: call_def list_source_packs_def)
next
  case (Inr q)
  consider (loaded) c where "load_source_catalog as_int repo = Inr c" | (broken) m where "load_source_catalog as_int repo = Inl (ValueError m)"
    | (missing) "load_source_catalog as_int repo = Inl FileNotFoundError" "rp_catalog repo = None"
    using load_source_catalog_cases[of as_int repo] by metis
  then show ?thesis
  proof cases
    case loaded
    then have "call = (repo, Inr c)" using Inr by (simp add: call_def list_source_packs_def value_error_to_def)
    then show ?thesis using loaded by (auto simp: load_source_catalog_def)
  next
    case broken
    then have "call = (repo, Inl (HTTPException 503 ''source pack catalog unavailable''))"
      using Inr by (simp add: call_def list_source_packs_def value_error_to_def)
    then show ?thesis by simp
  next
    case missing
    show ?thesis
    proof (cases "inventory_present as_bool repo")
      case True
      then have "call = (write_catalog repo (catalog_of curated_packs), Inr (catalog_of curated_packs))"
        using Inr missing build_source_catalog_outcome(1)[OF assms(1), of as_bool repo]
        by (simp add: call_def list_source_packs_def value_error_to_def)
      then show ?thesis
        using True missing(2) load_written_catalog[OF assms(1) curated_catalog_ok] by (simp add: write_catalog_def)
    next
      case False
      then obtain m where "snd (build_source_catalog as_bool as_int repo) = Inl (ValueError m)"
        using build_source_catalog_outcome(2)[OF assms(1)] by blast
      then have "build_source_catalog as_bool as_int repo = (repo, Inl (ValueError m))"
        using build_source_catalog_outcome(1)[OF assms(1), of as_bool repo] False by (metis (full_types))
      then have "call = (repo, Inl (HTTPException 503 ''source pack catalog unavailable''))"
        using Inr missing by (simp add: call_def list_source_packs_def value_error_to_def)
      then show ?thesis using missing(2) by simp
    qed
  qed
qed

section \<open>The repository as it ships\<close>

text \<open>Pydantic's strict reading, and the files of the pinned inventory.\<close>

fun strict_bool :: "json \<Rightarrow> bool option" where
  "strict_bool (JBool b) = Some b"
| "strict_bool _ = None"

fun strict_int :: "json \<Rightarrow> int option" where
  "strict_int (JInt i) = Some i"
| "strict_int _ = None"

definition shipped_repo :: pack_repo where
  "shipped_repo = \<lparr>rp_packs_dir = True,
     rp_files = map (\<lambda>s. \<lparr>pf_path = ps_filename s, pf_symlink = False, pf_json = Some (pack_payload s)\<rparr>) curated_pack_specs,
     rp_catalog = None\<rparr>"

lemma strict_reads [simp]: "reads_bools strict_bool" "reads_ints strict_int"
  by (simp_all add: reads_bools_def reads_ints_def)

lemma shipped_inventory: "inventory_present strict_bool shipped_repo"
proof -
  have "distinct (map ps_filename curated_pack_specs)" by code_simp
  then have find: "s \<in> set ss \<Longrightarrow> distinct (map ps_filename ss) \<Longrightarrow>
      List.find (\<lambda>f. pf_path f = ps_filename s) (map (\<lambda>s. \<lparr>pf_path = ps_filename s, pf_symlink = False, pf_json = Some (pack_payload s)\<rparr>) ss) =
      Some \<lparr>pf_path = ps_filename s, pf_symlink = False, pf_json = Some (pack_payload s)\<rparr>" for s ss
    by (induction ss) (auto simp: rev_image_eqI)
  have "pack_ok (spec_pack s)" if "s \<in> set curated_pack_specs" for s
    using curated_specs_ok that by (simp add: curated_packs_def list_all_iff)
  then have "validate_pack strict_bool (pack_payload s) = Some (spec_pack s)" if "s \<in> set curated_pack_specs" for s
    using that by (simp add: pack_payload_dump pack_roundtrip)
  moreover have "\<forall>file\<in>set (rp_files shipped_repo). pf_path file \<in> set curated_pack_files"
    by (simp add: shipped_repo_def curated_pack_files_def)
  ultimately show ?thesis
    unfolding inventory_present_def pack_file_at_def using find[OF _ \<open>distinct (map ps_filename curated_pack_specs)\<close>]
    by (simp add: shipped_repo_def)
qed

theorem validate_pack_exact_witness:
  "validate_pack strict_bool (dump_pack (spec_pack nist_800_53_pack)) = Some (spec_pack nist_800_53_pack)"
  using validate_pack_exact[OF strict_reads(1), of "spec_pack nist_800_53_pack" JNull] curated_specs_ok
  by (simp add: curated_packs_def curated_pack_specs_def)

theorem list_source_packs_outcome_witness:
  "\<exists>repo. load_source_catalog strict_int repo = Inr (catalog_of curated_packs)"
proof -
  define p where "p = \<lparr>p_subject = ''api-token:readonly'', p_display_name = ''Read only'', p_role = Readonly, p_method = ReadonlyToken, p_user = None,
     p_identity = None, p_session = None, p_grants = [synthetic_global_grant ''reader'' [''catalog.read'']], p_endpoint = None,
     p_credential = None, p_token = None\<rparr>"
  have "require_permission ''catalog.read'' p = Inr p"
    by (simp add: p_def require_permission_def has_permission_def synthetic_global_grant_def)
  then have "snd (list_source_packs strict_bool strict_int p shipped_repo) = Inr (catalog_of curated_packs)"
    using build_source_catalog_outcome(1)[OF strict_reads(2), of strict_bool shipped_repo] shipped_inventory
    by (simp add: list_source_packs_def load_source_catalog_def shipped_repo_def value_error_to_def)
  then show ?thesis
    using list_source_packs_outcome[OF strict_reads(2), of strict_bool p shipped_repo] by blast
qed

end
