(* ===== verification/Evidence.thy ===== *)
theory Evidence
  imports Posture_Contract Source_Catalog Approval_Lifecycle
begin

text \<open>
  \<open>app/api/endpoints/evidence.py\<close>: the compliance export, which sweeps expired grants, collects what the
  caller may see of a scope with the source catalog, and leaves one audit row; and what the export is worth.
\<close>

section \<open>The export\<close>

record endpoint_evidence =
  ee_id :: string
  ee_hostname :: string
  ee_platform :: platform
  ee_platform_version :: "string option"
  ee_agent_version :: string
  ee_client :: string
  ee_location :: string
  ee_tenant :: "string option"
  ee_site :: "string option"
  ee_status :: endpoint_status
  ee_connectivity :: "connectivity option"
  ee_last_seen_at :: string
  ee_last_heartbeat_at :: "string option"
  ee_created_at :: string
  ee_updated_at :: string
  ee_last_platform_profile :: "string option"
  ee_capabilities :: "string list"
  ee_hooks :: "execution_hooks option"

definition endpoint_evidence_payload :: "endpoint_row \<Rightarrow> endpoint_evidence" where
  "endpoint_evidence_payload e =
     \<lparr>ee_id = ep_id e, ee_hostname = ep_hostname e, ee_platform = ep_platform e, ee_platform_version = ep_platform_version e,
      ee_agent_version = ep_agent_version e, ee_client = ep_client e, ee_location = ep_location e, ee_tenant = ep_tenant e,
      ee_site = ep_site e, ee_status = ep_status e, ee_connectivity = ep_connectivity e, ee_last_seen_at = ep_last_seen_at e,
      ee_last_heartbeat_at = ep_last_heartbeat_at e, ee_created_at = ep_created_at e, ee_updated_at = ep_updated_at e,
      ee_last_platform_profile = ep_platform_profile e, ee_capabilities = parse_declared_capabilities e, ee_hooks = ep_hooks e\<rparr>"

text \<open>\<open>_posture_result_payload\<close>, and a snapshot with its results.\<close>

record result_evidence =
  re_control_key :: string
  re_result_status :: posture_status
  re_current_value :: "string option"
  re_recommended_value :: "string option"
  re_severity :: "string option"
  re_evidence_summary :: string
  re_reboot_required :: bool

definition posture_result_payload :: "posture_row \<Rightarrow> result_evidence" where
  "posture_result_payload r =
     \<lparr>re_control_key = po_control_key r, re_result_status = po_status r, re_current_value = po_current_value r,
      re_recommended_value = po_recommended_value r, re_severity = po_severity r, re_evidence_summary = po_evidence_summary r,
      re_reboot_required = po_reboot_required r\<rparr>"

record evidence =
  ce_exported_at :: string
  ce_catalog :: source_catalog
  ce_endpoints :: "endpoint_evidence list"
  ce_snapshots :: "(snapshot_row \<times> result_evidence list) list"
  ce_requests :: "(request_row \<times> event_row list) list"
  ce_grants :: "grant_row list"
  ce_actions :: "action_row list"

text \<open>The two optional comparisons the export adds to a query.\<close>

definition in_selection :: "string option \<Rightarrow> string option \<Rightarrow> string option \<Rightarrow> string option \<Rightarrow> bool" where
  "in_selection client location c l \<longleftrightarrow>
     (case client of None \<Rightarrow> True | Some k \<Rightarrow> c = Some k) \<and> (case location of None \<Rightarrow> True | Some k \<Rightarrow> l = Some k)"

definition exported_endpoints :: "principal \<Rightarrow> string option \<Rightarrow> string option \<Rightarrow> db \<Rightarrow> endpoint_row list" where
  "exported_endpoints p client location db =
     order_by (\<lambda>e. (ep_created_at e, ep_id e)) (filter (\<lambda>e.
       where_clause (scope_clause p ''compliance_evidence.export'') (Some (ep_client e)) (Some (ep_location e)) \<and>
       in_selection client location (Some (ep_client e)) (Some (ep_location e))) (db_endpoints db))"

definition exported_snapshots :: "string list \<Rightarrow> db \<Rightarrow> (snapshot_row \<times> result_evidence list) list" where
  "exported_snapshots endpoint_ids db =
     (let snapshots = order_by (\<lambda>s. (sn_observed_at s, sn_id s)) (filter (\<lambda>s. sn_endpoint s \<in> set endpoint_ids) (db_snapshots db));
          results = order_by (\<lambda>r. (po_snapshot r, po_control_key r))
            (filter (\<lambda>r. po_snapshot r \<in> set (map sn_id snapshots)) (db_postures db))
      in map (\<lambda>s. (s, map posture_result_payload (filter (\<lambda>r. po_snapshot r = sn_id s) results))) snapshots)"

definition collect_evidence ::
  "string \<Rightarrow> source_catalog \<Rightarrow> principal \<Rightarrow> string option \<Rightarrow> string option \<Rightarrow> db \<Rightarrow> evidence" where
  "collect_evidence now_str catalog p client location db =
     (let endpoints = exported_endpoints p client location db;
          endpoint_ids = map ep_id endpoints;
          requests = order_by (\<lambda>r. (rq_created_at r, rq_id r)) (filter (\<lambda>r. in_selection client location (rq_client r) (rq_location r))
            (visible_requests p ''compliance_evidence.export'' db))
      in \<lparr>ce_exported_at = now_str, ce_catalog = catalog, ce_endpoints = map endpoint_evidence_payload endpoints,
          ce_snapshots = exported_snapshots endpoint_ids db,
          ce_requests = map (\<lambda>r. (r, collect_request_events db (rq_id r))) requests,
          ce_grants = order_by (\<lambda>g. (gr_created_at g, gr_id g)) (filter (\<lambda>g. in_selection client location (gr_client g) (gr_location g))
            (visible_grants p ''compliance_evidence.export'' db)),
          ce_actions = map response_action_payload (order_by (\<lambda>a. (ac_created_at a, ac_id a))
            (filter (\<lambda>a. ac_endpoint a \<in> set endpoint_ids) (db_actions db)))\<rparr>)"

text \<open>The sweep is a transaction of its own; the rest commits with the audit row.\<close>

definition export_compliance_evidence ::
  "(json \<Rightarrow> int option) \<Rightarrow> pack_repo \<Rightarrow> (nat \<Rightarrow> string) \<Rightarrow> nat \<Rightarrow> principal \<Rightarrow> string option \<Rightarrow> string option \<Rightarrow> db \<Rightarrow> db \<times> evidence result" where
  "export_compliance_evidence as_int repo draw now p client_id location_id db =
     (case require_permission ''compliance_evidence.export'' p of
        Inl e \<Rightarrow> (db, Inl e)
      | Inr p \<Rightarrow>
          let now_str = strftime_z now; (n, db) = sync_expired_grants draw now_str db in transaction db (
          andThen (selected_scope db p ''compliance_evidence.export'' client_id location_id) (\<lambda>(client, location).
          andThen (load_source_catalog as_int repo) (\<lambda>catalog.
          let out = collect_evidence now_str catalog p client location db in
          andThen (record_audit_event (draw n) now_str
            ((audit_call_of ''compliance_evidence_exported'')\<lparr>ax_principal := Some p, ax_client := client, ax_location := location,
               ax_target_type := Some ''compliance_evidence'',
               ax_metadata := [(''endpoint_count'', JInt (int (length (ce_endpoints out))))],
               ax_created_at := Some now_str\<rparr>) db) (\<lambda>db.
          Inr (db, out))))))"

section \<open>What an export is worth\<close>

lemma in_selection_iff: "in_selection client location c l \<longleftrightarrow> pred_option (\<lambda>k. c = Some k) client \<and> pred_option (\<lambda>k. l = Some k) location"
  by (cases client; cases location) (simp_all add: in_selection_def)

lemma swept_grants_live:
  assumes "approvals_ok db" and "fresh_draws draw db" and "sync_expired_grants draw t db = (n, db')"
    and "g \<in> set (db_grants db')" and "gr_status g = GrantApproved"
  shows "t < gr_expires_at g"
proof -
  define gs where "gs = filter (\<lambda>g. gr_status g = GrantApproved) (db_grants db)"
  obtain evs where sw: "db' = swept gs t db evs" using sync_expired_grants_swept[OF assms(1-3)] unfolding gs_def by blast
  have "db_grants db' = update_where (sweeps_grant gs t) (expire_grant_row t) (db_grants db)" by (simp add: sw swept_def)
  with assms(4) have "g \<in> set (update_where (sweeps_grant gs t) (expire_grant_row t) (db_grants db))" by (simp only:)
  then obtain x where x: "x \<in> set (db_grants db)" "g = (if sweeps_grant gs t x then expire_grant_row t x else x)"
    unfolding in_set_update_where by blast
  have "gr_status (expire_grant_row t x) = GrantExpired" by (simp add: expire_grant_row_def)
  then have not: "\<not> sweeps_grant gs t x" using x(2) assms(5) by (cases "sweeps_grant gs t x") simp_all
  then have "g = x" using x(2) by simp
  then have "g \<in> set gs" using x(1) assms(5) by (simp add: gs_def)
  then show ?thesis using not \<open>g = x\<close> by (simp add: sweeps_grant_def not_le)
qed

lemma swept_tables:
  assumes "approvals_ok db" and "fresh_draws draw db" and "sync_expired_grants draw t db = (n, db')"
  shows "db_endpoints db' = db_endpoints db" "db_snapshots db' = db_snapshots db" "db_postures db' = db_postures db"
    "db_actions db' = db_actions db" "db_audits db' = db_audits db"
proof -
  obtain evs where "db' = swept (filter (\<lambda>g. gr_status g = GrantApproved) (db_grants db)) t db evs"
    using sync_expired_grants_swept[OF assms] by blast
  then show "db_endpoints db' = db_endpoints db" "db_snapshots db' = db_snapshots db" "db_postures db' = db_postures db"
    "db_actions db' = db_actions db" "db_audits db' = db_audits db" by (simp_all add: swept_def)
qed

lemma exported_snapshots_fst: "set (map fst (exported_snapshots ids db)) = {s \<in> set (db_snapshots db). sn_endpoint s \<in> set ids}"
  by (simp add: exported_snapshots_def Let_def comp_def)

lemma exported_results:
  assumes "(s, rs) \<in> set (exported_snapshots ids db)"
  shows "mset rs = mset (map posture_result_payload (filter (\<lambda>r. po_snapshot r = sn_id s) (db_postures db)))"
proof -
  define snapshots where "snapshots = order_by (\<lambda>s. (sn_observed_at s, sn_id s)) (filter (\<lambda>s. sn_endpoint s \<in> set ids) (db_snapshots db))"
  define results where "results = order_by (\<lambda>r. (po_snapshot r, po_control_key r)) (filter (\<lambda>r. po_snapshot r \<in> set (map sn_id snapshots)) (db_postures db))"
  have s: "s \<in> set snapshots" and rs: "rs = map posture_result_payload (filter (\<lambda>r. po_snapshot r = sn_id s) results)"
    using assms unfolding exported_snapshots_def Let_def snapshots_def[symmetric] results_def[symmetric] by auto
  have "sn_id s \<in> set (map sn_id snapshots)" using s by simp
  then have "filter (\<lambda>r. po_snapshot r = sn_id s) (filter (\<lambda>r. po_snapshot r \<in> set (map sn_id snapshots)) (db_postures db)) =
      filter (\<lambda>r. po_snapshot r = sn_id s) (db_postures db)"
    unfolding filter_filter by (intro filter_cong) auto
  then have "mset (filter (\<lambda>r. po_snapshot r = sn_id s) results) = mset (filter (\<lambda>r. po_snapshot r = sn_id s) (db_postures db))"
    unfolding mset_filter results_def mset_order_by unfolding mset_filter[symmetric] by (rule arg_cong)
  then show ?thesis unfolding rs by (simp only: mset_map)
qed

definition may_export :: "principal \<Rightarrow> string option \<Rightarrow> string option \<Rightarrow> string option \<Rightarrow> string option \<Rightarrow> bool" where
  "may_export p client location c l \<longleftrightarrow> permits_scope p ''compliance_evidence.export'' c l \<and>
     pred_option (\<lambda>k. c = Some k) client \<and> pred_option (\<lambda>k. l = Some k) location"

text \<open>
  C30.  A compliance export is complete and stays within the authority of its caller: it holds exactly the endpoints of
  the selected scope the caller may export, all their posture snapshots with all results, all their response actions
  without the lease secret, and the approval requests and grants of that scope; no grant in it is shown as approved past
  its deadline, and the same transaction leaves one audit row of the export.
\<close>

theorem compliance_export_exact:
  assumes "approvals_ok db" and "fresh_draws draw db"
    and "export_compliance_evidence as_int repo draw now p client_id location_id db = (db', Inr out)"
  shows "\<exists>c l. selected_scope db' p ''compliance_evidence.export'' client_id location_id = Inr (c, l) \<and>
    (let seen = {e \<in> set (db_endpoints db). may_export p c l (Some (ep_client e)) (Some (ep_location e))} in
      set (ce_endpoints out) = endpoint_evidence_payload ` seen \<and>
      set (map fst (ce_snapshots out)) = {s \<in> set (db_snapshots db). sn_endpoint s \<in> ep_id ` seen} \<and>
      (\<forall>(s, rs)\<in>set (ce_snapshots out). mset rs = mset (map posture_result_payload (filter (\<lambda>r. po_snapshot r = sn_id s) (db_postures db)))) \<and>
      set (ce_actions out) = (\<lambda>a. a\<lparr>ac_lease_hash := None\<rparr>) ` {a \<in> set (db_actions db). ac_endpoint a \<in> ep_id ` seen} \<and>
      set (map fst (ce_requests out)) = {r \<in> set (db_requests db'). rq_scope_state r = ScopeActive \<and> may_export p c l (rq_client r) (rq_location r)} \<and>
      set (ce_grants out) = {g \<in> set (db_grants db'). gr_scope_state g = ScopeActive \<and> may_export p c l (gr_client g) (gr_location g)} \<and>
      (\<forall>g\<in>set (ce_grants out). gr_status g = GrantApproved \<longrightarrow> strftime_z now < gr_expires_at g) \<and>
      (\<exists>a. db_audits db' = db_audits db @ [a] \<and> au_type a = ''compliance_evidence_exported'' \<and> au_actor a = audit_actor p \<and>
         au_client a = c \<and> au_location a = l \<and> au_created_at a = strftime_z now))"
proof -
  let ?q = "''compliance_evidence.export''"
  have perm: "require_permission ?q p = Inr p"
    using assms(3) require_permission_same by (cases "require_permission ?q p") (auto simp: export_compliance_evidence_def)
  obtain n db1 where sync: "sync_expired_grants draw (strftime_z now) db = (n, db1)" by fastforce
  note run = assms(3)[unfolded export_compliance_evidence_def perm sum.case Let_def sync prod.case transaction_Inr]
  obtain c l where scope: "selected_scope db1 p ?q client_id location_id = Inr (c, l)"
    using run by (auto simp: andThen_eq_Inr)
  note run = run[unfolded scope andThen_Inr prod.case]
  obtain catalog where catalog: "load_source_catalog as_int repo = Inr catalog" using run unfolding andThen_eq_Inr by blast
  note run = run[unfolded catalog andThen_Inr]
  have out: "out = collect_evidence (strftime_z now) catalog p c l db1" using run by (auto simp: andThen_eq_Inr)
  define x where "x = (audit_call_of ''compliance_evidence_exported'')\<lparr>ax_principal := Some p, ax_client := c, ax_location := l,
      ax_target_type := Some ''compliance_evidence'', ax_metadata := [(''endpoint_count'', JInt (int (length (ce_endpoints out))))],
      ax_created_at := Some (strftime_z now)\<rparr>"
  have "record_audit_event (draw n) (strftime_z now) x db1 = Inr db'"
    using run unfolding out[symmetric] x_def[symmetric] by (auto simp: andThen_eq_Inr)
  then have db': "db' = db1\<lparr>db_audits := db_audits db1 @ [audit_event (draw n) (strftime_z now) x]\<rparr>" by (rule record_audit_Inr)
  have scope': "selected_scope db' p ?q client_id location_id = Inr (c, l)"
  proof -
    have tables: "location_of_client k m db' = location_of_client k m db1" "db_clients db' = db_clients db1" for k m
      by (simp_all add: db' location_of_client_def)
    have "validate_scope_filter db' = validate_scope_filter db1"
      by (rule ext)+ (unfold validate_scope_filter_def tables, rule refl)
    then show ?thesis using scope by (simp add: selected_scope_def)
  qed
  note swept = swept_tables[OF assms(1,2) sync]
  define seen where "seen = {e \<in> set (db_endpoints db). may_export p c l (Some (ep_client e)) (Some (ep_location e))}"
  have endpoints: "set (exported_endpoints p c l db1) = seen"
    by (auto simp: exported_endpoints_def seen_def may_export_def where_scope_clause in_selection_iff swept(1))
  have parts: "ce_endpoints out = map endpoint_evidence_payload (exported_endpoints p c l db1)"
    "ce_snapshots out = exported_snapshots (map ep_id (exported_endpoints p c l db1)) db1"
    "set (ce_actions out) = response_action_payload ` {a \<in> set (db_actions db). ac_endpoint a \<in> ep_id ` seen}"
    "set (map fst (ce_requests out)) = {r \<in> set (visible_requests p ?q db1). in_selection c l (rq_client r) (rq_location r)}"
    "set (ce_grants out) = {g \<in> set (visible_grants p ?q db1). in_selection c l (gr_client g) (gr_location g)}"
    using endpoints by (simp_all add: out collect_evidence_def Let_def comp_def swept(4))
  show ?thesis
    unfolding Let_def
  proof (intro exI conjI)
    show "selected_scope db' p ?q client_id location_id = Inr (c, l)" by (rule scope')
    show "set (ce_endpoints out) = endpoint_evidence_payload ` {e \<in> set (db_endpoints db). may_export p c l (Some (ep_client e)) (Some (ep_location e))}"
      using endpoints unfolding parts(1) seen_def by simp
    show "set (map fst (ce_snapshots out)) = {s \<in> set (db_snapshots db). sn_endpoint s \<in>
        ep_id ` {e \<in> set (db_endpoints db). may_export p c l (Some (ep_client e)) (Some (ep_location e))}}"
      unfolding parts(2) exported_snapshots_fst swept(2) seen_def[symmetric] using endpoints by simp
    show "\<forall>(s, rs)\<in>set (ce_snapshots out). mset rs = mset (map posture_result_payload (filter (\<lambda>r. po_snapshot r = sn_id s) (db_postures db)))"
      unfolding parts(2) using exported_results swept(3) by fastforce
    show "set (ce_actions out) = (\<lambda>a. a\<lparr>ac_lease_hash := None\<rparr>) ` {a \<in> set (db_actions db). ac_endpoint a \<in>
        ep_id ` {e \<in> set (db_endpoints db). may_export p c l (Some (ep_client e)) (Some (ep_location e))}}"
      unfolding parts(3) seen_def response_action_payload_def by simp
    show "set (map fst (ce_requests out)) = {r \<in> set (db_requests db'). rq_scope_state r = ScopeActive \<and> may_export p c l (rq_client r) (rq_location r)}"
      unfolding parts(4) by (auto simp: visible_requests_def where_scope_clause may_export_def in_selection_iff db')
    show "set (ce_grants out) = {g \<in> set (db_grants db'). gr_scope_state g = ScopeActive \<and> may_export p c l (gr_client g) (gr_location g)}"
      unfolding parts(5) by (auto simp: visible_grants_def where_scope_clause may_export_def in_selection_iff db')
    show "\<forall>g\<in>set (ce_grants out). gr_status g = GrantApproved \<longrightarrow> strftime_z now < gr_expires_at g"
      unfolding parts(5) visible_grants_def using swept_grants_live[OF assms(1,2) sync] by simp
    show "db_audits db' = db_audits db @ [audit_event (draw n) (strftime_z now) x]" by (simp add: db' swept(5))
  qed (simp_all add: x_def audit_event_def audit_call_of_def text_or_def)
qed

section \<open>A concrete export\<close>

definition ev_exporter :: principal where
  "ev_exporter = ex_operator\<lparr>p_grants := [synthetic_global_grant ''exporter'' [''compliance_evidence.export'']]\<rparr>"

definition ev_repo :: pack_repo where
  "ev_repo = write_catalog shipped_repo (catalog_of curated_packs)"

theorem compliance_export_exact_witness:
  "\<exists>db' out. export_compliance_evidence strict_int ev_repo ex_draw demo_now ev_exporter None None ex_db = (db', Inr out) \<and>
     set (ce_endpoints out) = {endpoint_evidence_payload ex_endpoint} \<and> length (db_audits db') = 1"
proof -
  have perm: "require_permission ''compliance_evidence.export'' ev_exporter = Inr ev_exporter"
    by (simp add: ev_exporter_def ex_operator_def require_permission_def has_permission_def synthetic_global_grant_def)
  have scope: "selected_scope d ev_exporter q None None = Inr (None, None)" for d q
    by (simp add: selected_scope_def validate_scope_filter_def normalize_optional_id_def)
  have catalog: "load_source_catalog strict_int ev_repo = Inr (catalog_of curated_packs)"
    unfolding ev_repo_def by (rule load_written_catalog[OF strict_reads(2) curated_catalog_ok])
  have sync: "sync_expired_grants ex_draw t ex_db = (0, ex_db)" for t by (simp add: sync_expired_grants_def)
  define out where "out = collect_evidence (strftime_z demo_now) (catalog_of curated_packs) ev_exporter None None ex_db"
  define x where "x = (audit_call_of ''compliance_evidence_exported'')\<lparr>ax_principal := Some ev_exporter, ax_client := None, ax_location := None,
      ax_target_type := Some ''compliance_evidence'', ax_metadata := [(''endpoint_count'', JInt (int (length (ce_endpoints out))))],
      ax_created_at := Some (strftime_z demo_now)\<rparr>"
  have cols: "au_client (audit_event u t x) = None" "au_location (audit_event u t x) = None" "au_user (audit_event u t x) = None" for u t
    by (simp_all add: audit_event_def x_def ev_exporter_def)
  have "\<exists>db'. record_audit_event (ex_draw 0) (strftime_z demo_now) x ex_db = Inr db'"
    unfolding record_audit_event_def insert_audit_def cols by (simp add: client_exists_def location_exists_def)
  then obtain db' where "record_audit_event (ex_draw 0) (strftime_z demo_now) x ex_db = Inr db'" by blast
  then have run: "export_compliance_evidence strict_int ev_repo ex_draw demo_now ev_exporter None None ex_db = (db', Inr out)"
    unfolding export_compliance_evidence_def perm sum.case sync Let_def prod.case scope catalog andThen_Inr out_def[symmetric] x_def[symmetric]
    by simp
  have ok: "approvals_ok ex_db" "fresh_draws ex_draw ex_db"
    by (simp_all add: approvals_ok_def unique_on_def fresh_draws_def ex_draw_inj)
  have "may_export ev_exporter None None c l" for c l
    by (simp add: may_export_def permits_scope_def permits_def synthetic_global_grant_def ev_exporter_def)
  then have "set (ce_endpoints out) = {endpoint_evidence_payload ex_endpoint}" "length (db_audits db') = 1"
    using compliance_export_exact[OF ok run] scope[of db' "''compliance_evidence.export''"] by (auto simp: Let_def)
  with run show ?thesis by blast
qed


end
