(* ===== verification/Installer_Artifacts.thy ===== *)
theory Installer_Artifacts
  imports Json_Text Browser_Auth
begin

text \<open>
  \<open>app/installer_artifacts.py\<close>: the bootstrap scripts an installer profile is rendered to.  The texts of the three
  reporter programs (\<open>_linux_reporter_script\<close> and its siblings, constants of the file) are arguments; what
  surrounds them, the configuration they read and the file name are written out.
\<close>

section \<open>The configuration\<close>

text \<open>\<open>json.dumps(payload, indent=2)\<close>.\<close>

definition json_newline :: "nat \<Rightarrow> string" where
  "json_newline level = CHR 10 # replicate (2 * level) (CHR '' '')"

fun json_pretty :: "nat \<Rightarrow> json \<Rightarrow> string" where
  "json_pretty level JNull = ''null''"
| "json_pretty level (JBool b) = (if b then ''true'' else ''false'')"
| "json_pretty level (JInt i) = int_text i"
| "json_pretty level (JStr s) = json_string True s"
| "json_pretty level (JList xs) = (if xs = [] then ''[]'' else ''['' @ json_newline (level + 1) @
     join ('','' @ json_newline (level + 1)) (map (json_pretty (level + 1)) xs) @ json_newline level @ '']'')"
| "json_pretty level (JObj kvs) = (if kvs = [] then ''{}'' else ''{'' @ json_newline (level + 1) @
     join ('','' @ json_newline (level + 1)) (map (\<lambda>kv. json_string True (fst kv) @ '': '' @ json_pretty (level + 1) (snd kv)) kvs) @
     json_newline level @ ''}'')"

fun installer_channel_value :: "installer_channel \<Rightarrow> string" where
  "installer_channel_value Stable = ''stable''"
| "installer_channel_value Preview = ''preview''"

fun policy_mode_value :: "policy_mode \<Rightarrow> string" where
  "policy_mode_value Observe = ''observe''"
| "policy_mode_value SafeAuto = ''safe_auto''"
| "policy_mode_value ApprovalRequired = ''approval_required''"

definition read_only_reporter_capabilities :: "string list" where
  "read_only_reporter_capabilities = [''collect_posture_snapshot'', ''collect_remediation_evidence'', ''collect_security_context'',
     ''enroll'', ''heartbeat'', ''inspect_control'', ''request_elevated_troubleshooting'']"

definition acting_reporter_capabilities :: "string list" where
  "acting_reporter_capabilities = sort (read_only_reporter_capabilities @ [''apply_control'', ''rollback_control''])"

definition read_only_execution_hooks :: execution_hooks where
  "read_only_execution_hooks = \<lparr>captures_rollback_artifacts = False, reports_execution_results = True, supports_dry_run = False\<rparr>"

definition acting_execution_hooks :: execution_hooks where
  "acting_execution_hooks = \<lparr>captures_rollback_artifacts = True, reports_execution_results = True, supports_dry_run = False\<rparr>"

fun optional_json :: "string option \<Rightarrow> json" where
  "optional_json None = JNull"
| "optional_json (Some s) = JStr s"

definition profile_payload :: "profile_row \<Rightarrow> string \<Rightarrow> string \<Rightarrow> string option \<Rightarrow> string list \<Rightarrow> execution_hooks \<Rightarrow> json" where
  "profile_payload p agent_version platform_profile agent_bearer capabilities hooks = JObj
     [(''profile_id'', JStr (pr_id p)), (''profile_name'', JStr (pr_name p)), (''platform'', JStr (platform_value (pr_platform p))),
      (''channel'', JStr (installer_channel_value (pr_channel p))), (''control_plane_url'', JStr (pr_control_plane_url p)),
      (''policy_mode'', JStr (policy_mode_value (pr_policy_mode p))), (''tenant_id'', optional_json (pr_tenant p)),
      (''site_id'', optional_json (pr_site p)), (''agent_version'', JStr agent_version),
      (''platform_profile'', JStr platform_profile), (''api_token'', optional_json agent_bearer),
      (''capabilities'', JList (map JStr capabilities)),
      (''execution_hooks'', JObj [(''captures_rollback_artifacts'', JBool (captures_rollback_artifacts hooks)),
         (''reports_execution_results'', JBool (reports_execution_results hooks)), (''supports_dry_run'', JBool (supports_dry_run hooks))])]"

definition profile_config :: "profile_row \<Rightarrow> string \<Rightarrow> string \<Rightarrow> string option \<Rightarrow> string list \<Rightarrow> execution_hooks \<Rightarrow> string" where
  "profile_config p agent_version platform_profile agent_bearer capabilities hooks =
     json_pretty 0 (profile_payload p agent_version platform_profile agent_bearer capabilities hooks)"

section \<open>File names\<close>

text \<open>\<open>re.sub(r"[^a-z0-9]+", "-", name.lower()).strip("-") or "profile"\<close>.\<close>

fun dash_runs :: "bool \<Rightarrow> string \<Rightarrow> string" where
  "dash_runs in_run [] = []"
| "dash_runs in_run (c # cs) = (if slug_char c then c # dash_runs False cs
     else if in_run then dash_runs True cs else CHR ''-'' # dash_runs True cs)"

definition profile_slug :: "string \<Rightarrow> string" where
  "profile_slug name =
     (let slug = rstrip_char (CHR ''-'') (dropWhile (\<lambda>c. c = CHR ''-'') (dash_runs False (lower name)))
      in if slug = [] then ''profile'' else slug)"

definition artifact_filename :: "profile_row \<Rightarrow> string \<Rightarrow> string" where
  "artifact_filename p extension =
     ''sha-'' @ platform_value (pr_platform p) @ ''-'' @ profile_slug (pr_name p) @ ''-'' @ pr_id p @ ''.'' @ extension"

section \<open>The scripts\<close>

definition apostrophe :: string where
  "apostrophe = [CHR 0x27]"

definition backslash :: string where
  "backslash = [CHR 0x5C]"

definition lines_text :: "string list \<Rightarrow> string" where
  "lines_text ls = join [CHR 10] ls"

text \<open>\<open>_render_linux_bootstrap\<close>: the constant lines between the parts that vary, and the two units.\<close>

definition linux_head :: "string list" where
  \<open>linux_head =
    [''#!/usr/bin/env bash'',
     ''set -euo pipefail'',
     '''',
     ''if ['' @ ''[ "${EUID:-$(id -u)}" -ne 0 ]'' @ '']; then'',
     ''  echo "sha bootstrap requires root" >&2'',
     ''  exit 1'',
     ''fi'',
     '''',
     ''if ! command -v systemctl >/dev/null 2>&1; then'',
     ''  echo "sha bootstrap requires systemd/systemctl" >&2'',
     ''  exit 1'',
     ''fi'',
     '''',
     ''if ! command -v python3 >/dev/null 2>&1; then'',
     ''  echo "sha bootstrap requires python3" >&2'',
     ''  exit 1'',
     ''fi'',
     '''',
     ''install -d -m 0755 /opt/sha'',
     ''install -d -m 0700 /etc/sha'',
     '''',
     ''cat > /etc/sha/reporter-config.json <<'' @ apostrophe @ ''JSON'' @ apostrophe]\<close>

definition linux_after_config :: "string list" where
  \<open>linux_after_config =
    [''JSON'',
     ''chmod 0600 /etc/sha/reporter-config.json'',
     '''',
     ''cat > /opt/sha/reporter.py <<'' @ apostrophe @ ''PY'' @ apostrophe]\<close>

definition linux_after_script :: "string list" where
  \<open>linux_after_script =
    [''PY'',
     ''chmod 0755 /opt/sha/reporter.py'',
     '''',
     ''cat > /etc/systemd/system/sha-reporter.service <<'' @ apostrophe @ ''UNIT'' @ apostrophe]\<close>

definition linux_after_service :: "string list" where
  \<open>linux_after_service =
    [''UNIT'',
     '''',
     ''cat > /etc/systemd/system/sha-reporter.timer <<'' @ apostrophe @ ''UNIT'' @ apostrophe]\<close>

definition linux_after_timer :: "string list" where
  \<open>linux_after_timer =
    [''UNIT'',
     '''',
     ''systemctl daemon-reload'',
     ''systemctl enable --now sha-reporter.timer'',
     ''systemctl start sha-reporter.service'',
     '''']\<close>

definition linux_service_unit :: "string list" where
  \<open>linux_service_unit =
    [''[Unit]'',
     ''Description=SHA posture reporter'',
     ''Wants=network-online.target'',
     ''After=network-online.target'',
     '''',
     ''[Service]'',
     ''Type=oneshot'',
     ''ExecStart=/usr/bin/env python3 /opt/sha/reporter.py'',
     '''',
     ''[Install]'',
     ''WantedBy=multi-user.target'']\<close>

definition linux_timer_unit :: "string list" where
  \<open>linux_timer_unit =
    [''[Unit]'',
     ''Description=Run SHA posture reporter every 15 minutes'',
     '''',
     ''[Timer]'',
     ''OnBootSec=1min'',
     ''OnUnitActiveSec=15min'',
     ''Persistent=true'',
     ''Unit=sha-reporter.service'',
     '''',
     ''[Install]'',
     ''WantedBy=timers.target'']\<close>

text \<open>\<open>_render_macos_bootstrap\<close>.\<close>

definition macos_head :: "string list" where
  \<open>macos_head =
    [''#!/usr/bin/env bash'',
     ''set -euo pipefail'',
     '''',
     ''if ['' @ ''[ "${EUID:-$(id -u)}" -ne 0 ]'' @ '']; then'',
     ''  echo "sha bootstrap requires root" >&2'',
     ''  exit 1'',
     ''fi'',
     '''',
     ''if ['' @ ''[ "$(uname -s)" != "Darwin" ]'' @ '']; then'',
     ''  echo "sha macOS bootstrap must run on Darwin/macOS" >&2'',
     ''  exit 1'',
     ''fi'',
     '''',
     ''if ! command -v python3 >/dev/null 2>&1; then'',
     ''  echo "sha bootstrap requires python3" >&2'',
     ''  exit 1'',
     ''fi'',
     '''',
     ''SHA_ROOT='' @ apostrophe @ ''/Library/Application Support/SHA'' @ apostrophe,
     ''CONFIG_PATH="${SHA_ROOT}/reporter-config.json"'',
     ''REPORTER_PATH="${SHA_ROOT}/reporter.py"'',
     ''PLIST_PATH='' @ apostrophe @ ''/Library/LaunchDaemons/com.sha.reporter.plist'' @ apostrophe,
     '''',
     ''install -d -m 0755 "${SHA_ROOT}" /Library/LaunchDaemons /Library/Logs'',
     '''',
     ''cat > "${CONFIG_PATH}" <<'' @ apostrophe @ ''JSON'' @ apostrophe]\<close>

definition macos_after_config :: "string list" where
  \<open>macos_after_config =
    [''JSON'',
     ''chmod 600 "${CONFIG_PATH}"'',
     '''',
     ''cat > "${REPORTER_PATH}" <<'' @ apostrophe @ ''PY'' @ apostrophe]\<close>

definition macos_after_script :: "string list" where
  \<open>macos_after_script =
    [''PY'',
     ''chmod 755 "${REPORTER_PATH}"'',
     '''',
     ''cat > "${PLIST_PATH}" <<'' @ apostrophe @ ''PLIST'' @ apostrophe]\<close>

definition macos_after_daemon :: "string list" where
  \<open>macos_after_daemon =
    [''PLIST'',
     ''chown root:wheel "${CONFIG_PATH}" "${REPORTER_PATH}" "${PLIST_PATH}"'',
     ''chmod 644 "${PLIST_PATH}"'',
     '''',
     ''launchctl bootout system/com.sha.reporter >/dev/null 2>&1 || true'',
     ''launchctl bootstrap system "${PLIST_PATH}"'',
     ''launchctl enable system/com.sha.reporter'',
     ''launchctl kickstart -k system/com.sha.reporter'',
     '''']\<close>

definition macos_launch_daemon :: "string list" where
  \<open>macos_launch_daemon =
    [''<?xml version="1.0" encoding="UTF-8"?>'',
     ''<!DOCTYPE plist PUBLIC "-//Apple//DTD PLIST 1.0//EN" "http://www.apple.com/DTDs/PropertyList-1.0.dtd">'',
     ''<plist version="1.0">'',
     ''<dict>'',
     ''  <key>Label</key>'',
     ''  <string>com.sha.reporter</string>'',
     ''  <key>ProgramArguments</key>'',
     ''  <array>'',
     ''    <string>/usr/bin/env</string>'',
     ''    <string>python3</string>'',
     ''    <string>/Library/Application Support/SHA/reporter.py</string>'',
     ''  </array>'',
     ''  <key>EnvironmentVariables</key>'',
     ''  <dict>'',
     ''    <key>PATH</key>'',
     ''    <string>/usr/local/bin:/opt/homebrew/bin:/usr/bin:/bin:/usr/sbin:/sbin</string>'',
     ''  </dict>'',
     ''  <key>RunAtLoad</key>'',
     ''  <true/>'',
     ''  <key>StartInterval</key>'',
     ''  <integer>900</integer>'',
     ''  <key>StandardOutPath</key>'',
     ''  <string>/Library/Logs/sha-reporter.log</string>'',
     ''  <key>StandardErrorPath</key>'',
     ''  <string>/Library/Logs/sha-reporter.err</string>'',
     ''</dict>'',
     ''</plist>'']\<close>

text \<open>\<open>_render_windows_bootstrap\<close>.\<close>

definition windows_head :: "string list" where
  \<open>windows_head =
    [''#Requires -Version 5.1'',
     ''Set-StrictMode -Version Latest'',
     ''$ErrorActionPreference = '' @ apostrophe @ ''Stop'' @ apostrophe,
     '''',
     ''$currentPrincipal = New-Object Security.Principal.WindowsPrincipal([Security.Principal.WindowsIdentity]::GetCurrent())'',
     ''if (-not $currentPrincipal.IsInRole([Security.Principal.WindowsBuiltInRole]::Administrator)) {'',
     ''    throw '' @ apostrophe @ ''sha bootstrap requires an elevated PowerShell session'' @ apostrophe,
     ''}'',
     '''',
     ''$ShaRoot = '' @ apostrophe @ ''C:'' @ backslash @ ''ProgramData'' @ backslash @ ''SHA'' @ apostrophe,
     ''$ConfigPath = Join-Path $ShaRoot '' @ apostrophe @ ''reporter-config.json'' @ apostrophe,
     ''$ReporterPath = Join-Path $ShaRoot '' @ apostrophe @ ''reporter.ps1'' @ apostrophe,
     '''',
     ''New-Item -ItemType Directory -Force -Path $ShaRoot | Out-Null'',
     ''$restrictedPrincipals = @('' @ apostrophe @ ''*S-1-5-18'' @ apostrophe @ '', '' @ apostrophe @ ''*S-1-5-32-544'' @ apostrophe @ '')'',
     ''& icacls.exe $ShaRoot /inheritance:r /grant:r "$($restrictedPrincipals[0]):(OI)(CI)(F)" "$($restrictedPrincipals[1]):(OI)(CI)(F)" | Out-Null'',
     ''if ($LASTEXITCODE -ne 0) { throw '' @ apostrophe @ ''failed to restrict SHA data directory ACL'' @ apostrophe @ '' }'',
     '''',
     ''@'' @ apostrophe]\<close>

definition windows_after_config :: "string list" where
  \<open>windows_after_config =
    [apostrophe @ ''@ | Set-Content -LiteralPath $ConfigPath -Encoding UTF8'',
     ''& icacls.exe $ConfigPath /inheritance:r /grant:r "$($restrictedPrincipals[0]):(F)" "$($restrictedPrincipals[1]):(F)" | Out-Null'',
     ''if ($LASTEXITCODE -ne 0) { throw '' @ apostrophe @ ''failed to restrict SHA reporter config ACL'' @ apostrophe @ '' }'',
     '''',
     ''@'' @ apostrophe]\<close>

definition windows_after_script :: "string list" where
  \<open>windows_after_script =
    [apostrophe @ ''@ | Set-Content -LiteralPath $ReporterPath -Encoding UTF8'',
     '''',
     ''$action = New-ScheduledTaskAction -Execute '' @ apostrophe @ ''PowerShell.exe'' @ apostrophe @ '' -Argument ('' @ apostrophe @ ''-NoProfile -NonInteractive -ExecutionPolicy Bypass -File '' @ apostrophe @ '' + $ReporterPath)'',
     ''$repeatTrigger = New-ScheduledTaskTrigger -Once -At ((Get-Date).AddMinutes(1)) -RepetitionInterval (New-TimeSpan -Minutes 15) -RepetitionDuration (New-TimeSpan -Days 3650)'',
     ''$startupTrigger = New-ScheduledTaskTrigger -AtStartup'',
     ''$principal = New-ScheduledTaskPrincipal -UserId '' @ apostrophe @ ''SYSTEM'' @ apostrophe @ '' -LogonType ServiceAccount -RunLevel Highest'',
     ''$settings = New-ScheduledTaskSettingsSet -StartWhenAvailable -AllowStartIfOnBatteries -DontStopIfGoingOnBatteries -MultipleInstances IgnoreNew'',
     '''',
     ''Register-ScheduledTask -TaskName '' @ apostrophe @ ''SHA Reporter'' @ apostrophe @ '' -Action $action -Trigger @($repeatTrigger, $startupTrigger) -Principal $principal -Settings $settings -Force | Out-Null'',
     ''& PowerShell.exe -NoProfile -ExecutionPolicy Bypass -File $ReporterPath'',
     '''']\<close>

text \<open>The last line of each script.\<close>

definition linux_echo :: "string \<Rightarrow> string" where
  \<open>linux_echo profile_id = ''echo "SHA bootstrap installed for profile '' @ profile_id @ ''"''\<close>

definition macos_echo :: "string \<Rightarrow> string" where
  \<open>macos_echo profile_id = ''echo "SHA bootstrap installed for macOS profile '' @ profile_id @ ''"''\<close>

definition windows_echo :: "string \<Rightarrow> string" where
  "windows_echo profile_id = ''Write-Host '' @ apostrophe @ ''SHA bootstrap installed for profile '' @ profile_id @ apostrophe"

definition linux_bootstrap :: "string \<Rightarrow> string \<Rightarrow> string \<Rightarrow> string list" where
  \<open>linux_bootstrap config_json reporter_script profile_id =
     linux_head @ [config_json] @ linux_after_config @ [reporter_script] @ linux_after_script @ [lines_text linux_service_unit] @
     linux_after_service @ [lines_text linux_timer_unit] @ linux_after_timer @
     [linux_echo profile_id, '''']\<close>

definition macos_bootstrap :: "string \<Rightarrow> string \<Rightarrow> string \<Rightarrow> string list" where
  \<open>macos_bootstrap config_json reporter_script profile_id =
     macos_head @ [config_json] @ macos_after_config @ [reporter_script] @ macos_after_script @ [lines_text macos_launch_daemon] @
     macos_after_daemon @ [macos_echo profile_id, '''']\<close>

definition windows_bootstrap :: "string \<Rightarrow> string \<Rightarrow> string \<Rightarrow> string list" where
  \<open>windows_bootstrap config_json reporter_script profile_id =
     windows_head @ [config_json] @ windows_after_config @ [reporter_script] @ windows_after_script @
     [windows_echo profile_id, '''']\<close>

definition linux_config :: "profile_row \<Rightarrow> string option \<Rightarrow> string" where
  "linux_config p agent_bearer = profile_config p ''bootstrap-linux-v1'' ''linux-bootstrap-v1'' agent_bearer
     acting_reporter_capabilities acting_execution_hooks"

definition macos_config :: "profile_row \<Rightarrow> string option \<Rightarrow> string" where
  "macos_config p agent_bearer = profile_config p ''bootstrap-macos-v1'' ''macos-bootstrap-v1'' agent_bearer
     read_only_reporter_capabilities read_only_execution_hooks"

definition windows_config :: "profile_row \<Rightarrow> string option \<Rightarrow> string" where
  "windows_config p agent_bearer = profile_config p ''bootstrap-windows-v1'' ''windows-bootstrap-v1'' agent_bearer
     acting_reporter_capabilities acting_execution_hooks"

text \<open>The reporter programs of the three platforms.\<close>

record reporter_scripts =
  rs_linux :: string
  rs_macos :: string
  rs_windows :: string

definition render_linux_bootstrap :: "reporter_scripts \<Rightarrow> profile_row \<Rightarrow> string option \<Rightarrow> string" where
  "render_linux_bootstrap scripts p agent_bearer =
     lines_text (linux_bootstrap (linux_config p agent_bearer) (rstrip_char (CHR 10) (rs_linux scripts)) (pr_id p))"

definition render_macos_bootstrap :: "reporter_scripts \<Rightarrow> profile_row \<Rightarrow> string option \<Rightarrow> string" where
  "render_macos_bootstrap scripts p agent_bearer =
     lines_text (macos_bootstrap (macos_config p agent_bearer) (rstrip_char (CHR 10) (rs_macos scripts)) (pr_id p))"

definition render_windows_bootstrap :: "reporter_scripts \<Rightarrow> profile_row \<Rightarrow> string option \<Rightarrow> string" where
  "render_windows_bootstrap scripts p agent_bearer =
     lines_text (windows_bootstrap (windows_config p agent_bearer) (rstrip_char (CHR 10) (rs_windows scripts)) (pr_id p))"

text \<open>File name, media type and content.\<close>

definition render_installer_artifact :: "reporter_scripts \<Rightarrow> profile_row \<Rightarrow> string option \<Rightarrow> string \<times> string \<times> string" where
  "render_installer_artifact scripts p agent_bearer =
     (case pr_platform p of
        Linux \<Rightarrow> (artifact_filename p ''sh'', ''text/x-shellscript; charset=utf-8'', render_linux_bootstrap scripts p agent_bearer)
      | Windows \<Rightarrow> (artifact_filename p ''ps1'', ''text/x-powershell; charset=utf-8'', render_windows_bootstrap scripts p agent_bearer)
      | MacOS \<Rightarrow> (artifact_filename p ''sh'', ''text/x-shellscript; charset=utf-8'', render_macos_bootstrap scripts p agent_bearer))"

end
