(* ===== verification/Agent_Packages.thy ===== *)
theory Agent_Packages
  imports Json_Text Browser_Auth
begin

text \<open>
  \<open>app/agent_packages.py\<close>: the signed release catalog the server hands packages out of, and the packages it has
  personalised for a profile.  The two programs it runs, the verifier of the release directory and the package tool, are
  arguments (what they do to the spool included); a path is its root and its components, as \<open>pathlib\<close> keeps it.  No route
  calls \<open>create_personalized\<close> or \<open>artifact_path\<close>; they are the provider's own interface.
\<close>

section \<open>Paths and files\<close>

datatype package_error = AgentPackageError string | PathValueError string | UnicodeDecodeError | PackageOSError

type_synonym posix_path = "string \<times> string list"

text \<open>\<open>Path(text)\<close>: empty components and single dots vanish; exactly two leading slashes are a root of their own.\<close>

definition path_root :: "string \<Rightarrow> string" where
  "path_root s =
     (let slashes = takeWhile (\<lambda>c. c = CHR ''/'') s
      in if slashes = [] then [] else if length slashes = 2 then ''//'' else ''/'')"

definition posix_path :: "string \<Rightarrow> posix_path" where
  "posix_path s = (path_root s, filter (\<lambda>c. c \<noteq> [] \<and> c \<noteq> ''.'') (split_on (\<lambda>c. c = CHR ''/'') s))"

definition path_join :: "posix_path \<Rightarrow> string \<Rightarrow> posix_path" where
  "path_join p s =
     (if fst (posix_path s) \<noteq> [] then posix_path s else (fst p, snd p @ snd (posix_path s)))"

definition path_parent :: "posix_path \<Rightarrow> posix_path" where
  "path_parent p = (fst p, butlast (snd p))"

definition path_text :: "posix_path \<Rightarrow> string" where
  "path_text p = (if fst p = [] \<and> snd p = [] then ''.'' else fst p @ join ''/'' (snd p))"

definition path_absolute :: "posix_path \<Rightarrow> bool" where
  "path_absolute p \<longleftrightarrow> fst p \<noteq> []"

text \<open>What \<open>lstat\<close> tells of a path, and the content of a regular file.\<close>

datatype node = RegularFile "nat list" | SymbolicLink | Directory

record file_system =
  fs_node :: "posix_path \<Rightarrow> node option"
  fs_mode :: "posix_path \<Rightarrow> nat"
  fs_owner :: "posix_path \<Rightarrow> nat"
  fs_executable :: "posix_path \<Rightarrow> bool"
  fs_resolve :: "posix_path \<Rightarrow> posix_path option"

definition regular :: "file_system \<Rightarrow> posix_path \<Rightarrow> bool" where
  "regular fs p \<longleftrightarrow> (case fs_node fs p of Some (RegularFile _) \<Rightarrow> True | _ \<Rightarrow> False)"

section \<open>The provider\<close>

record published_package =
  pa_platform :: string
  pa_architecture :: string
  pa_filename :: string
  pa_sha256 :: string
  pa_size :: int
  pa_version :: string
  pa_signing_identity :: string
  pa_signing_key_id :: string

record package_provider =
  pp_release_root :: posix_path
  pp_trust_policy :: posix_path
  pp_signing_key :: posix_path
  pp_signing_identity :: string
  pp_signing_key_id :: string
  pp_spool_root :: posix_path
  pp_tool :: posix_path
  pp_ca_bundle :: "posix_path option"

text \<open>\<open>_secure_directory\<close> on a POSIX host with the effective user id \<open>euid\<close>.\<close>

definition secure_directory :: "file_system \<Rightarrow> nat \<Rightarrow> string \<Rightarrow> string \<Rightarrow> package_error + posix_path" where
  "secure_directory fs euid text label =
     (let path = posix_path text in
      andThen (ensure (path_absolute path) (PathValueError (label @ '' must be an absolute path''))) (\<lambda>_.
      case (fs_resolve fs path, fs_node fs path) of
        (Some resolved, Some info) \<Rightarrow>
          andThen (ensure (resolved = path \<and> info = Directory) (PathValueError (label @ '' must be a canonical non-symlink directory''))) (\<lambda>_.
          andThen (ensure (fs_mode fs path mod 64 = 0) (PathValueError (label @ '' must not grant group or world permissions''))) (\<lambda>_.
          andThen (ensure (fs_owner fs path = 0 \<or> fs_owner fs path = euid) (PathValueError (label @ '' has an untrusted owner''))) (\<lambda>_.
          Inr resolved)))
      | _ \<Rightarrow> Inl (PathValueError (label @ '' could not be resolved''))))"

definition provided_file :: "file_system \<Rightarrow> posix_path \<Rightarrow> string \<Rightarrow> package_error + unit" where
  "provided_file fs path label =
     ensure (path_absolute path \<and> regular fs path) (PathValueError (label @ '' must be an absolute regular non-symlink file''))"

definition resolved_file :: "file_system \<Rightarrow> posix_path \<Rightarrow> package_error + posix_path" where
  "resolved_file fs path = (case fs_resolve fs path of Some p \<Rightarrow> Inr p | None \<Rightarrow> Inl PackageOSError)"

record provider_paths =
  pi_release_root :: string
  pi_trust_policy :: string
  pi_signing_key :: string
  pi_signing_identity :: string
  pi_signing_key_id :: string
  pi_spool_root :: string
  pi_tool :: string
  pi_ca_bundle :: "string option"

definition from_paths :: "file_system \<Rightarrow> nat \<Rightarrow> provider_paths \<Rightarrow> package_error + package_provider" where
  "from_paths fs euid c =
     andThen (secure_directory fs euid (pi_release_root c) ''agent release root'') (\<lambda>root.
     andThen (secure_directory fs euid (pi_spool_root c) ''agent package spool'') (\<lambda>spool.
     let trust = posix_path (pi_trust_policy c); signing_key = posix_path (pi_signing_key c); tool = posix_path (pi_tool c);
         ca = (case pi_ca_bundle c of None \<Rightarrow> None | Some f \<Rightarrow> if f = [] then None else Some (posix_path f))
     in andThen (provided_file fs trust ''agent release trust policy'') (\<lambda>_.
        andThen (provided_file fs signing_key ''agent profile signing key'') (\<lambda>_.
        andThen (provided_file fs tool ''agent profile package tool'') (\<lambda>_.
        andThen (ensure (fs_executable fs tool) (PathValueError ''agent profile package tool must be executable'')) (\<lambda>_.
        andThen (case ca of None \<Rightarrow> Inr () | Some f \<Rightarrow>
            ensure (path_absolute f \<and> regular fs f) (PathValueError ''agent profile CA bundle must be an absolute regular non-symlink file'')) (\<lambda>_.
        andThen (ensure (pi_signing_identity c \<noteq> [] \<and> pi_signing_key_id c \<noteq> [])
            (PathValueError ''agent profile signing identity and key ID are required'')) (\<lambda>_.
        andThen (resolved_file fs trust) (\<lambda>trust.
        andThen (resolved_file fs signing_key) (\<lambda>signing_key.
        andThen (resolved_file fs tool) (\<lambda>tool.
        andThen (case ca of None \<Rightarrow> Inr None | Some f \<Rightarrow> andThen (resolved_file fs f) (\<lambda>f. Inr (Some f))) (\<lambda>ca.
        Inr \<lparr>pp_release_root = root, pp_trust_policy = trust, pp_signing_key = signing_key,
             pp_signing_identity = pi_signing_identity c, pp_signing_key_id = pi_signing_key_id c, pp_spool_root = spool,
             pp_tool = tool, pp_ca_bundle = ca\<rparr>))))))))))))"

section \<open>The release catalog\<close>

text \<open>What reading and parsing \<open>release-index.json\<close> gives.\<close>

datatype index_text = IndexJson json | IndexUnreadable | IndexNotUtf8

definition verifier_arguments :: "package_provider \<Rightarrow> string list" where
  "verifier_arguments pp =
     [path_text (path_join (pp_release_root pp) ''verify-release-index.sh''),
      ''--index'', path_text (path_join (pp_release_root pp) ''release-index.json''),
      ''--signature'', path_text (path_join (pp_release_root pp) ''release-index.json.sig''),
      ''--trust-policy'', path_text (pp_trust_policy pp)]"

text \<open>The release directory and the verifier: \<open>run arguments\<close> says whether the process ends well in time.\<close>

record release_host =
  rh_files :: file_system
  rh_run :: "string list \<Rightarrow> bool"
  rh_index :: index_text

definition verified_index :: "release_host \<Rightarrow> package_provider \<Rightarrow> package_error + (string \<times> json) list" where
  "verified_index h pp =
     (let verifier = path_join (pp_release_root pp) ''verify-release-index.sh'' in
      andThen (ensure (regular (rh_files h) verifier \<and> fs_executable (rh_files h) verifier)
        (AgentPackageError ''signed agent release catalog is not available'')) (\<lambda>_.
      andThen (ensure (rh_run h (verifier_arguments pp)) (AgentPackageError ''signed agent release catalog verification failed'')) (\<lambda>_.
      case rh_index h of
        IndexNotUtf8 \<Rightarrow> Inl UnicodeDecodeError
      | IndexUnreadable \<Rightarrow> Inl (AgentPackageError ''signed agent release catalog verification failed'')
      | IndexJson (JObj payload) \<Rightarrow> Inr payload
      | IndexJson _ \<Rightarrow> Inl (AgentPackageError ''signed agent release catalog is invalid''))))"

text \<open>\<open>str(value)\<close>; the representation of a list or an object is the argument \<open>repr\<close>.\<close>

definition json_str :: "(json \<Rightarrow> string) \<Rightarrow> json \<Rightarrow> string" where
  "json_str repr v =
     (case v of JStr s \<Rightarrow> s | JNull \<Rightarrow> ''None'' | JBool b \<Rightarrow> (if b then ''True'' else ''False'') | JInt i \<Rightarrow> int_text i | _ \<Rightarrow> repr v)"

text \<open>\<open>int(text)\<close>: blanks around, one sign, decimal digits with single underscores between them, at most 4300.\<close>

definition int_space :: "char \<Rightarrow> bool" where
  "int_space c = (let n = (of_char c :: nat) in (9 \<le> n \<and> n \<le> 13) \<or> n = 32 \<or> n = 133 \<or> n = 160)"

definition digit_char :: "char \<Rightarrow> bool" where
  "digit_char c = (let n = (of_char c :: nat) in 48 \<le> n \<and> n \<le> 57)"

definition digits_value :: "string \<Rightarrow> nat" where
  "digits_value s = foldl (\<lambda>n c. 10 * n + (of_char c - 48)) 0 s"

definition int_of_digits :: "string \<Rightarrow> nat option" where
  "int_of_digits s =
     (let groups = split_on (\<lambda>c. c = CHR ''_'') s
      in if list_all (\<lambda>g. g \<noteq> [] \<and> list_all digit_char g) groups \<and> length (concat groups) \<le> 4300
         then Some (digits_value (concat groups)) else None)"

definition int_of_text :: "string \<Rightarrow> int option" where
  "int_of_text s =
     (let t = rev (dropWhile int_space (rev (dropWhile int_space s)))
      in case t of
           [] \<Rightarrow> None
         | c # r \<Rightarrow>
             if c = CHR ''-'' then map_option (\<lambda>n. - int n) (int_of_digits r)
             else if c = CHR ''+'' then map_option int (int_of_digits r)
             else map_option int (int_of_digits t))"

text \<open>
  \<open>int(value)\<close>.  The type of JSON values has no fractional numbers, so a size written \<open>2.0\<close>, which Python reads as a float and
  truncates, is outside the model.
\<close>

definition json_int :: "json \<Rightarrow> int option" where
  "json_int v =
     (case v of JInt i \<Rightarrow> Some i | JBool b \<Rightarrow> Some (if b then 1 else 0) | JStr s \<Rightarrow> int_of_text s | _ \<Rightarrow> None)"

definition safe_release_value :: "string \<Rightarrow> bool" where
  "safe_release_value s \<longleftrightarrow>
     (case s of [] \<Rightarrow> False | c # r \<Rightarrow> alnum_char c \<and> list_all (\<lambda>x. alnum_char x \<or> x \<in> set ''._-'') r \<and> length r \<le> 127)"

definition package_row :: "(json \<Rightarrow> string) \<Rightarrow> string \<Rightarrow> string \<Rightarrow> string \<Rightarrow> json \<Rightarrow> package_error + published_package" where
  "package_row repr version identity key_id row =
     (case row of
        JObj values \<Rightarrow>
          (case (map_of values ''platform'', map_of values ''architecture'', map_of values ''file'', map_of values ''sha256'',
                 Option.bind (map_of values ''size'') json_int) of
             (Some platform, Some architecture, Some file, Some sha256, Some n) \<Rightarrow>
               Inr \<lparr>pa_platform = json_str repr platform, pa_architecture = json_str repr architecture,
                    pa_filename = json_str repr file, pa_sha256 = json_str repr sha256, pa_size = n, pa_version = version,
                    pa_signing_identity = identity, pa_signing_key_id = key_id\<rparr>
           | _ \<Rightarrow> Inl (AgentPackageError ''signed agent release package row is invalid''))
      | _ \<Rightarrow> Inl (AgentPackageError ''signed agent release package row is invalid''))"

definition list_packages :: "(json \<Rightarrow> string) \<Rightarrow> release_host \<Rightarrow> package_provider \<Rightarrow> package_error + published_package list" where
  "list_packages repr h pp = andThen (verified_index h pp) (\<lambda>payload.
     case (map_of payload ''version'', map_of payload ''signing'', map_of payload ''packages'') of
       (Some (JStr version), Some (JObj signing), Some (JList rows)) \<Rightarrow>
         andThen (ensure (safe_release_value version) (AgentPackageError ''signed agent release catalog metadata is invalid'')) (\<lambda>_.
         case (map_of signing ''identity'', map_of signing ''key_id'') of
           (Some (JStr identity), Some (JStr key_id)) \<Rightarrow> traverse (package_row repr version identity key_id) rows
         | _ \<Rightarrow> Inl (AgentPackageError ''signed agent release identity is invalid''))
     | _ \<Rightarrow> Inl (AgentPackageError ''signed agent release catalog metadata is invalid''))"

definition package :: "(json \<Rightarrow> string) \<Rightarrow> release_host \<Rightarrow> package_provider \<Rightarrow> string \<Rightarrow> string \<Rightarrow> package_error + published_package" where
  "package repr h pp platform architecture = andThen (list_packages repr h pp) (\<lambda>packages.
     case filter (\<lambda>a. pa_platform a = platform \<and> pa_architecture a = architecture) packages of
       [a] \<Rightarrow> Inr a
     | _ \<Rightarrow> Inl (AgentPackageError ''requested signed agent package is not published''))"

definition max_package_bytes :: int where
  "max_package_bytes = 536870912"

definition read_generic :: "release_host \<Rightarrow> package_provider \<Rightarrow> published_package \<Rightarrow> package_error + nat list" where
  "read_generic h pp a =
     (let path = path_join (pp_release_root pp) (pa_filename a) in
      if path_parent path \<noteq> pp_release_root pp then Inl (AgentPackageError ''signed agent package file is unavailable'')
      else case fs_node (rh_files h) path of
        Some (RegularFile content) \<Rightarrow>
          andThen (ensure (pa_size a \<le> max_package_bytes) (AgentPackageError ''signed agent package exceeds service size limit'')) (\<lambda>_.
          andThen (ensure (int (length content) = pa_size a) (AgentPackageError ''signed agent package changed after verification'')) (\<lambda>_.
          Inr content))
      | _ \<Rightarrow> Inl (AgentPackageError ''signed agent package file is unavailable''))"

section \<open>Personalised packages\<close>

definition safe_artifact_id :: "string \<Rightarrow> bool" where
  "safe_artifact_id s \<longleftrightarrow>
     take 4 s = ''ipa_'' \<and> length s = 36 \<and> list_all (\<lambda>c. c \<in> set ''0123456789abcdef'') (drop 4 s)"

record personalization =
  pz_artifact_id :: string
  pz_package :: published_package
  pz_control_plane_url :: string
  pz_enrollment_token :: string
  pz_profile_id :: string
  pz_client_id :: string
  pz_location_id :: string
  pz_approval_policy :: string
  pz_max_uses :: int
  pz_expires_at :: string

definition artifact_suffix :: "published_package \<Rightarrow> string" where
  "artifact_suffix a = (if pa_platform a = ''windows'' then ''.zip'' else ''.tar.gz'')"

definition tool_arguments :: "package_provider \<Rightarrow> personalization \<Rightarrow> posix_path \<Rightarrow> string list" where
  "tool_arguments pp z output =
     (let a = pz_package z;
          stage = path_join (pp_release_root pp)
            (''sha-agent-'' @ pa_version a @ ''-'' @ pa_platform a @ ''-'' @ pa_architecture a)
      in [path_text (pp_tool pp), ''--release-dir'', path_text stage, ''--output'', path_text output,
          ''--trust-policy'', path_text (pp_trust_policy pp), ''--signing-key-file'', path_text (pp_signing_key pp),
          ''--signing-identity'', pp_signing_identity pp, ''--signing-key-id'', pp_signing_key_id pp,
          ''--control-plane-url'', pz_control_plane_url z, ''--enrollment-token-stdin'', ''--profile-id'', pz_profile_id z,
          ''--client-id'', pz_client_id z, ''--location-id'', pz_location_id z, ''--approval-policy'', pz_approval_policy z,
          ''--max-uses'', int_text (pz_max_uses z), ''--expires-at'', pz_expires_at z] @
         (case pp_ca_bundle pp of None \<Rightarrow> [] | Some f \<Rightarrow> [''--ca-bundle'', path_text f]))"

text \<open>
  The entries of the spool directory with their permissions.  \<open>tool arguments input\<close> is the run of the package tool: what
  it leaves in the spool, and whether it ended well in time.
\<close>

type_synonym spool = "string \<Rightarrow> (node \<times> nat) option"

definition unlink_output :: "string \<Rightarrow> package_error \<Rightarrow> spool \<Rightarrow> spool \<times> package_error" where
  "unlink_output filename e s =
     (case s filename of Some (Directory, _) \<Rightarrow> (s, PackageOSError) | _ \<Rightarrow> (s(filename := None), e))"

definition create_personalized ::
  "(string list \<Rightarrow> string \<Rightarrow> spool \<Rightarrow> spool \<times> bool) \<Rightarrow> package_provider \<Rightarrow> personalization \<Rightarrow> spool \<Rightarrow>
   spool \<times> (package_error + string \<times> posix_path)" where
  "create_personalized tool pp z s =
     (if \<not> safe_artifact_id (pz_artifact_id z) then (s, Inl (AgentPackageError ''agent package artifact ID is invalid''))
      else
        let filename = pz_artifact_id z @ artifact_suffix (pz_package z); output = path_join (pp_spool_root pp) filename;
            arguments = tool_arguments pp z output
        in if s filename \<noteq> None then (s, Inl (AgentPackageError ''agent package artifact already exists''))
           else if list_ex (\<lambda>a. CHR 0x00 \<in> set a) arguments then (s, Inl (PathValueError ''embedded null byte''))
           else
             let (s, ok) = tool arguments (pz_enrollment_token z @ [CHR 10]) s in
             case (ok, s filename) of
               (True, Some (RegularFile content, _)) \<Rightarrow> (s(filename := Some (RegularFile content, 384)), Inr (filename, output))
             | (True, Some _) \<Rightarrow>
                 apsnd Inl (unlink_output filename (AgentPackageError ''signed personalized agent package output is unsafe'') s)
             | _ \<Rightarrow>
                 apsnd Inl (unlink_output filename (AgentPackageError ''signed personalized agent package generation failed'') s))"

definition artifact_path :: "package_provider \<Rightarrow> string \<Rightarrow> string \<Rightarrow> package_error + posix_path" where
  "artifact_path pp artifact_id filename =
     andThen (ensure (safe_artifact_id artifact_id) (AgentPackageError ''agent package artifact ID is invalid'')) (\<lambda>_.
     andThen (ensure (filename = artifact_id @ ''.zip'' \<or> filename = artifact_id @ ''.tar.gz'')
       (AgentPackageError ''agent package artifact filename is invalid'')) (\<lambda>_.
     Inr (path_join (pp_spool_root pp) filename)))"


section \<open>What the catalog lets out\<close>

lemma split_on_plain: "\<forall>w\<in>set (split_on q s). \<forall>c\<in>set w. \<not> q c"
  by (induction s) (auto split: list.splits)

lemma posix_path_component:
  "w \<in> set (snd (posix_path s)) \<Longrightarrow> w \<noteq> [] \<and> w \<noteq> ''.'' \<and> CHR ''/'' \<notin> set w"
  using split_on_plain[of "\<lambda>c. c = CHR ''/''" s] by (auto simp: posix_path_def)

text \<open>A file name that stays in its directory is one component.\<close>

lemma path_join_inside:
  assumes "path_parent (path_join d s) = d" and "path_join d s \<noteq> d"
  shows "\<exists>w. path_join d s = (fst d, snd d @ [w]) \<and> w \<noteq> [] \<and> w \<noteq> ''.'' \<and> CHR ''/'' \<notin> set w"
proof -
  let ?p = "path_join d s"
  have fst: "fst ?p = fst d" and front: "butlast (snd ?p) = snd d" using assms(1) by (auto simp: path_parent_def prod_eq_iff)
  have ne: "snd ?p \<noteq> []" using assms(2) fst front by (auto simp: prod_eq_iff)
  have "snd (posix_path s) \<noteq> []"
  proof
    assume "snd (posix_path s) = []"
    then have "snd ?p = [] \<or> snd ?p = snd d" by (auto simp: path_join_def)
    then show False using ne front by (metis length_butlast diff_less length_greater_0_conv less_one nat_neq_iff)
  qed
  then have "last (snd ?p) \<in> set (snd (posix_path s))" by (auto simp: path_join_def)
  moreover have "?p = (fst d, snd d @ [last (snd ?p)])" using fst front ne by (metis append_butlast_last_id prod.collapse)
  ultimately show ?thesis using posix_path_component by blast
qed

lemma package_row_version: "package_row repr version identity key_id row = Inr a \<Longrightarrow> pa_version a = version"
  by (auto simp: package_row_def split: json.splits option.splits)

lemma catalog_version:
  assumes "list_packages repr h pp = Inr packages" and "a \<in> set packages"
  shows "safe_release_value (pa_version a)"
proof -
  obtain payload where listed: "list_packages repr h pp = Inr packages" "verified_index h pp = Inr payload"
    using assms(1) by (auto simp: list_packages_def andThen_eq_Inr)
  note run = listed(1)[unfolded list_packages_def listed(2) andThen_Inr]
  obtain j where j: "map_of payload ''version'' = Some j" using run by (cases "map_of payload ''version''") simp_all
  obtain version where version: "j = JStr version" using run j by (cases j) simp_all
  obtain k where k: "map_of payload ''signing'' = Some k" using run j version by (cases "map_of payload ''signing''") simp_all
  obtain signing where signing: "k = JObj signing" using run j version k by (cases k) simp_all
  obtain l where l: "map_of payload ''packages'' = Some l" using run j version k signing by (cases "map_of payload ''packages''") simp_all
  obtain rows where rows: "l = JList rows" using run j version k signing l by (cases l) simp_all
  note run = run[unfolded j version k signing l rows option.case json.case prod.case]
  have v: "safe_release_value version" using run by (simp add: andThen_eq_Inr)
  note run = run[unfolded eqTrueI[OF v] ensure_True andThen_Inr]
  obtain i where i: "map_of signing ''identity'' = Some i" using run by (cases "map_of signing ''identity''") simp_all
  obtain identity where identity: "i = JStr identity" using run i by (cases i) simp_all
  obtain m where m: "map_of signing ''key_id'' = Some m" using run i identity by (cases "map_of signing ''key_id''") simp_all
  obtain key_id where key_id: "m = JStr key_id" using run i identity m by (cases m) simp_all
  have rows: "traverse (package_row repr version identity key_id) rows = Inr packages" using run by (simp add: i identity m key_id)
  from rows assms(2) obtain row where "package_row repr version identity key_id row = Inr a"
    unfolding traverse_eq_Inr by (auto simp: list_all2_conv_all_nth in_set_conv_nth)
  then show ?thesis using v package_row_version by metis
qed

lemma package_Inr:
  assumes "package repr h pp platform architecture = Inr a"
  shows "\<exists>packages. list_packages repr h pp = Inr packages \<and>
    filter (\<lambda>b. pa_platform b = platform \<and> pa_architecture b = architecture) packages = [a]"
proof -
  obtain packages where p: "list_packages repr h pp = Inr packages" using assms by (auto simp: package_def andThen_eq_Inr)
  define found where "found = filter (\<lambda>b. pa_platform b = platform \<and> pa_architecture b = architecture) packages"
  have "(case found of [a] \<Rightarrow> Inr a | _ \<Rightarrow> Inl (AgentPackageError ''requested signed agent package is not published'')) = Inr a"
    using assms unfolding package_def p andThen_Inr found_def .
  then have "found = [a]" by (cases found; cases "tl found") auto
  then show ?thesis using p by (auto simp: found_def)
qed

text \<open>
  C37.  A package leaves the server only when the verifier accepted the signature of the index under the configured trust
  policy, exactly one row of that index names the platform and the architecture, and its file is a regular file directly in
  the release directory whose length is the one the index states and at most 512 MiB; these are its bytes.
\<close>

theorem served_package_is_published:
  assumes "fs_node (rh_files h) (pp_release_root pp) = Some Directory"
    and "package repr h pp platform architecture = Inr a" and "read_generic h pp a = Inr content"
  shows "rh_run h (verifier_arguments pp)
    \<and> (\<exists>packages. list_packages repr h pp = Inr packages \<and>
        filter (\<lambda>b. pa_platform b = platform \<and> pa_architecture b = architecture) packages = [a])
    \<and> safe_release_value (pa_version a)
    \<and> (\<exists>name. path_join (pp_release_root pp) (pa_filename a) = (fst (pp_release_root pp), snd (pp_release_root pp) @ [name])
        \<and> name \<noteq> [] \<and> name \<noteq> ''.'' \<and> CHR ''/'' \<notin> set name
        \<and> fs_node (rh_files h) (fst (pp_release_root pp), snd (pp_release_root pp) @ [name]) = Some (RegularFile content))
    \<and> int (length content) = pa_size a \<and> pa_size a \<le> 2 ^ 29"
proof -
  let ?p = "path_join (pp_release_root pp) (pa_filename a)"
  have stored: "path_parent ?p = pp_release_root pp" "fs_node (rh_files h) ?p = Some (RegularFile content)"
    and bytes: "int (length content) = pa_size a" "pa_size a \<le> 2 ^ 29"
    using assms(3) by (auto simp: read_generic_def Let_def andThen_eq_Inr max_package_bytes_def split: if_splits option.splits node.splits)
  have "?p \<noteq> pp_release_root pp" using stored(2) assms(1) by auto
  then obtain w where w: "?p = (fst (pp_release_root pp), snd (pp_release_root pp) @ [w])" "w \<noteq> []" "w \<noteq> ''.''" "CHR ''/'' \<notin> set w"
    using path_join_inside[OF stored(1)] by blast
  obtain packages where listed: "list_packages repr h pp = Inr packages"
    and only: "filter (\<lambda>b. pa_platform b = platform \<and> pa_architecture b = architecture) packages = [a]"
    using package_Inr[OF assms(2)] by blast
  have "a \<in> set packages" using arg_cong[OF only, of set] by auto
  obtain payload where index: "verified_index h pp = Inr payload" using listed by (auto simp: list_packages_def andThen_eq_Inr)
  have "rh_run h (verifier_arguments pp)" using index by (auto simp: verified_index_def Let_def andThen_eq_Inr)
  moreover have "safe_release_value (pa_version a)"
    using catalog_version[OF listed \<open>a \<in> set packages\<close>] .
  ultimately show ?thesis using listed only w stored(2) bytes by auto
qed


definition example_provider :: package_provider where
  "example_provider =
     \<lparr>pp_release_root = (''/'', [''srv'', ''release'']), pp_trust_policy = (''/'', [''etc'', ''trust.json'']),
      pp_signing_key = (''/'', [''etc'', ''key'']), pp_signing_identity = ''release'', pp_signing_key_id = ''key-1'',
      pp_spool_root = (''/'', [''spool'']), pp_tool = (''/'', [''bin'', ''tool'']), pp_ca_bundle = None\<rparr>"

definition example_host :: release_host where
  "example_host =
     \<lparr>rh_files =
        \<lparr>fs_node = (\<lambda>p. map_of [((''/'', [''srv'', ''release'']), Directory),
             ((''/'', [''srv'', ''release'', ''verify-release-index.sh'']), RegularFile []),
             ((''/'', [''srv'', ''release'', ''a.zip'']), RegularFile [80, 75])] p),
         fs_mode = (\<lambda>_. 0), fs_owner = (\<lambda>_. 0), fs_executable = (\<lambda>_. True), fs_resolve = Some\<rparr>,
      rh_run = (\<lambda>arguments. arguments = verifier_arguments example_provider),
      rh_index = IndexJson (JObj [(''version'', JStr ''1.2.0''),
        (''signing'', JObj [(''identity'', JStr ''release''), (''key_id'', JStr ''key-1'')]),
        (''packages'', JList [JObj [(''platform'', JStr ''windows''), (''architecture'', JStr ''amd64''), (''file'', JStr ''a.zip''),
           (''sha256'', JStr ''00''), (''size'', JStr '' 2 '')]])])\<rparr>"

definition example_package :: published_package where
  "example_package = \<lparr>pa_platform = ''windows'', pa_architecture = ''amd64'', pa_filename = ''a.zip'', pa_sha256 = ''00'', pa_size = 2,
     pa_version = ''1.2.0'', pa_signing_identity = ''release'', pa_signing_key_id = ''key-1''\<rparr>"

theorem served_package_is_published_witness:
  "rh_run example_host (verifier_arguments example_provider) \<and> pa_size example_package \<le> 2 ^ 29"
proof -
  have dir: "fs_node (rh_files example_host) (pp_release_root example_provider) = Some Directory"
    by (simp add: example_host_def example_provider_def)
  have found: "package (\<lambda>_. []) example_host example_provider ''windows'' ''amd64'' = Inr example_package" by code_simp
  have bytes: "read_generic example_host example_provider example_package = Inr [80, 75]" by code_simp
  show ?thesis using served_package_is_published[OF dir found bytes] by simp
qed

section \<open>What the personalised packages promise\<close>

lemma safe_artifact_path:
  assumes "safe_artifact_id i" and "suffix = ''.zip'' \<or> suffix = ''.tar.gz''"
  shows "path_join d (i @ suffix) = (fst d, snd d @ [i @ suffix])"
proof -
  have i: "i = ''ipa_'' @ drop 4 i" using assms(1) append_take_drop_id[of 4 i] by (simp add: safe_artifact_id_def)
  have "CHR ''/'' \<notin> set (drop 4 i)" using assms(1) by (auto simp: safe_artifact_id_def list_all_iff)
  then have "CHR ''/'' \<notin> set i" using i set_append[of "''ipa_''" "drop 4 i"] by auto
  then have plain: "CHR ''/'' \<notin> set (i @ suffix)" using assms(2) by auto
  have single: "split_on q w = [w]" if "\<forall>c\<in>set w. \<not> q c" for q w using that by (induction w) auto
  have split: "split_on (\<lambda>c. c = CHR ''/'') (i @ suffix) = [i @ suffix]" by (rule single) (use plain in metis)
  have "i \<noteq> []" using i by (cases i) auto
  then have "takeWhile (\<lambda>c. c = CHR ''/'') (i @ suffix) = []" using \<open>CHR ''/'' \<notin> set i\<close> by (cases i) auto
  then have "path_root (i @ suffix) = []" by (simp add: path_root_def)
  moreover have "i @ suffix \<noteq> ''.''" using assms(1) by (cases i) (auto simp: safe_artifact_id_def)
  ultimately show ?thesis using \<open>i \<noteq> []\<close> by (simp add: path_join_def posix_path_def split)
qed

lemma spool_entry_cases:
  obtains (nothing) "s name = None" | (file_there) content mode where "s name = Some (RegularFile content, mode)"
    | (link) mode where "s name = Some (SymbolicLink, mode)" | (directory) mode where "s name = Some (Directory, mode)"
proof (cases "s name")
  case (Some e)
  then show ?thesis using that(2-4) by (cases e; cases "fst e") auto
qed (rule that(1))

text \<open>
  C38.  Personalising a package is one run of the tool on one free name, or nothing.  The tool runs only for a well-formed
  artifact id, over a spool without an entry of that name and with no NUL in its arguments, and it gets the enrollment token
  on its standard input; otherwise the call fails and the spool is as it was.  After a run, success means that the tool ended
  well and left a regular file under the name, which lies directly in the spool, is then readable by the service alone and is
  what \<open>artifact_path\<close> answers for that id and name; on failure that name is free again, unless the tool put a directory
  there, which stays and is reported as an operating-system error.  Every other entry is what the tool left.
\<close>

theorem personalized_package_found:
  "let name = pz_artifact_id z @ artifact_suffix (pz_package z);
       output = (fst (pp_spool_root pp), snd (pp_spool_root pp) @ [name])
   in if safe_artifact_id (pz_artifact_id z) \<and> s name = None \<and>
         list_all (\<lambda>a. CHR 0x00 \<notin> set a) (tool_arguments pp z output)
      then \<exists>t ok. tool (tool_arguments pp z output) (pz_enrollment_token z @ [CHR 10]) s = (t, ok) \<and>
        (if ok \<and> (\<exists>content mode. t name = Some (RegularFile content, mode))
         then \<exists>content mode. t name = Some (RegularFile content, mode) \<and>
           create_personalized tool pp z s = (t(name := Some (RegularFile content, 384)), Inr (name, output)) \<and>
           artifact_path pp (pz_artifact_id z) name = Inr output
         else if \<exists>mode. t name = Some (Directory, mode) then create_personalized tool pp z s = (t, Inl PackageOSError)
         else \<exists>text. create_personalized tool pp z s = (t(name := None), Inl (AgentPackageError text)))
      else \<exists>e. create_personalized tool pp z s = (s, Inl e)"
proof (cases "safe_artifact_id (pz_artifact_id z)")
  case safe: True
  define name where "name = pz_artifact_id z @ artifact_suffix (pz_package z)"
  define out where "out = path_join (pp_spool_root pp) name"
  obtain t ok where run: "tool (tool_arguments pp z out) (pz_enrollment_token z @ [CHR 10]) s = (t, ok)" by fastforce
  have suffix: "artifact_suffix (pz_package z) = ''.zip'' \<or> artifact_suffix (pz_package z) = ''.tar.gz''" by (simp add: artifact_suffix_def)
  then have path: "(fst (pp_spool_root pp), snd (pp_spool_root pp) @ [name]) = out"
    unfolding out_def name_def by (rule safe_artifact_path[OF safe, symmetric])
  have lookup: "artifact_path pp (pz_artifact_id z) name = Inr out"
    using safe suffix by (auto simp: artifact_path_def out_def name_def)
  have nul: "list_ex (\<lambda>a. CHR 0x00 \<in> set a) l \<longleftrightarrow> \<not> list_all (\<lambda>a. CHR 0x00 \<notin> set a) l" for l
    by (simp add: list_ex_iff list_all_iff)
  note made = create_personalized_def[of tool pp z s, unfolded Let_def, folded name_def, folded out_def, unfolded run nul]
  show ?thesis
  proof (cases "s name = None \<and> list_all (\<lambda>a. CHR 0x00 \<notin> set a) (tool_arguments pp z out)")
    case False
    then have no: "\<not> (safe_artifact_id (pz_artifact_id z) \<and> s name = None \<and>
        list_all (\<lambda>a. CHR 0x00 \<notin> set a) (tool_arguments pp z out))" by blast
    have "\<exists>e. create_personalized tool pp z s = (s, Inl e)" using safe False by (cases "s name") (simp_all add: made)
    then show ?thesis unfolding name_def[symmetric] Let_def path if_not_P[OF no] .
  next
    case free: True
    then have yes: "safe_artifact_id (pz_artifact_id z) \<and> s name = None \<and>
        list_all (\<lambda>a. CHR 0x00 \<notin> set a) (tool_arguments pp z out)" using safe by blast
    have "create_personalized tool pp z s = (case (ok, t name) of
        (True, Some (RegularFile content, _)) \<Rightarrow> (t(name := Some (RegularFile content, 384)), Inr (name, out))
      | (True, Some _) \<Rightarrow> apsnd Inl (unlink_output name (AgentPackageError ''signed personalized agent package output is unsafe'') t)
      | _ \<Rightarrow> apsnd Inl (unlink_output name (AgentPackageError ''signed personalized agent package generation failed'') t))"
      using free safe by (simp add: made)
    then have "if ok \<and> (\<exists>content mode. t name = Some (RegularFile content, mode))
         then \<exists>content mode. t name = Some (RegularFile content, mode) \<and>
           create_personalized tool pp z s = (t(name := Some (RegularFile content, 384)), Inr (name, out)) \<and>
           artifact_path pp (pz_artifact_id z) name = Inr out
         else if \<exists>mode. t name = Some (Directory, mode) then create_personalized tool pp z s = (t, Inl PackageOSError)
         else \<exists>text. create_personalized tool pp z s = (t(name := None), Inl (AgentPackageError text))"
      by (cases rule: spool_entry_cases[of t name]; cases ok) (simp_all add: unlink_output_def lookup)
    then show ?thesis unfolding name_def[symmetric] Let_def path if_P[OF yes] using run by blast
  qed
qed (auto simp: create_personalized_def Let_def)

theorem personalized_package_found_witness:
  "artifact_path example_provider ''ipa_0123456789abcdef0123456789abcdef'' ''ipa_0123456789abcdef0123456789abcdef.zip'' =
     Inr (''/'', [''spool'', ''ipa_0123456789abcdef0123456789abcdef.zip''])"
proof -
  define z where "z = \<lparr>pz_artifact_id = ''ipa_0123456789abcdef0123456789abcdef'', pz_package = example_package,
    pz_control_plane_url = ''https://sha.example'', pz_enrollment_token = ''t'', pz_profile_id = ''p'', pz_client_id = ''c'',
    pz_location_id = ''l'', pz_approval_policy = ''manual'', pz_max_uses = 1, pz_expires_at = ''2026-01-01T00:00:00Z''\<rparr>"
  define name where "name = ''ipa_0123456789abcdef0123456789abcdef.zip''"
  define dest where "dest = (fst (pp_spool_root example_provider), snd (pp_spool_root example_provider) @ [name])"
  define tool :: "string list \<Rightarrow> string \<Rightarrow> spool \<Rightarrow> spool \<times> bool" where
    "tool = (\<lambda>_ _ t. (t(name := Some (RegularFile [80, 75], 420)), True))"
  have name: "pz_artifact_id z @ artifact_suffix (pz_package z) = name" and id: "safe_artifact_id (pz_artifact_id z)"
    and plain: "list_all (\<lambda>a. CHR 0x00 \<notin> set a) (tool_arguments example_provider z dest)"
    unfolding z_def name_def dest_def by code_simp+
  have "artifact_path example_provider (pz_artifact_id z) name = Inr dest"
    using personalized_package_found[of z example_provider "\<lambda>_. None" tool, unfolded Let_def name, folded dest_def] id plain
    by (auto simp: tool_def split: if_splits)
  then show ?thesis by (simp add: z_def dest_def name_def example_provider_def)
qed

end
