(* ===== verification/Installers.thy ===== *)
theory Installers
  imports Installer_Artifacts Agent_Packages Principals Fleet_Metadata
begin

text \<open>
  \<open>app/api/endpoints/installers.py\<close> and the normalisers of \<open>app/utils.py\<close> it uses: profiles of installers, and what
  their artifact route hands out.  The reporter programs, the release directory with its verifier, SHA-256 and the check
  of bracketed hosts are arguments.
\<close>

section \<open>Normalisers\<close>

definition installer_channels :: "string list" where
  "installer_channels = [''stable'', ''preview'']"

definition installer_policy_modes :: "string list" where
  "installer_policy_modes = [''observe'', ''safe_auto'', ''approval_required'']"

definition normalize_installer_channel :: "string \<Rightarrow> string result" where
  "normalize_installer_channel v = normalize_choice v ''channel'' installer_channels"

definition normalize_policy_mode :: "string \<Rightarrow> string result" where
  "normalize_policy_mode v = normalize_choice v ''policy_mode'' installer_policy_modes"

definition validate_http_url :: "(string \<Rightarrow> bool) \<Rightarrow> string \<Rightarrow> string result" where
  "validate_http_url bracketed_ok value =
     andThen (trim_required value ''control_plane_url'') (\<lambda>trimmed.
     andThen (urlsplit bracketed_ok trimmed) (\<lambda>parsed.
     if sp_scheme parsed \<notin> {''http'', ''https''} \<or> sp_netloc parsed = []
     then Inl (unprocessable ''control_plane_url must be an absolute http or https URL'') else Inr trimmed))"

section \<open>Profiles\<close>

definition insert_profile :: "profile_row \<Rightarrow> db \<Rightarrow> db result" where
  "insert_profile p db =
     (if fetch pr_id (pr_id p) (db_profiles db) = None
         \<and> fetch (\<lambda>x. (pr_client x, pr_platform x, pr_name_normalized x)) (pr_client p, pr_platform p, pr_name_normalized p) (db_profiles db) = None
         \<and> location_exists db (Some (pr_client p)) (Some (pr_location p))
      then Inr (db\<lparr>db_profiles := db_profiles db @ [p]\<rparr>) else Inl IntegrityError)"

record profile_in =
  pf_name :: string
  pf_platform :: platform
  pf_channel :: installer_channel
  pf_control_plane_url :: string
  pf_policy_mode :: policy_mode
  pf_scope :: scope_in

text \<open>The three ways an operator may sign in.\<close>

definition operator_auth_configured :: "app_state \<Rightarrow> bool" where
  "operator_auth_configured st \<longleftrightarrow> truthy (st_api_token st) \<or> truthy (st_external_token st) \<or> st_oidc_client st"

definition list_installer_profiles :: "principal \<Rightarrow> string option \<Rightarrow> string option \<Rightarrow> db \<Rightarrow> profile_row list result" where
  "list_installer_profiles p client_id location_id db =
     andThen (require_permission ''installer_profile.read'' p) (\<lambda>p.
     andThen (selected_scope db p ''installer_profile.read'' client_id location_id) (\<lambda>(client, location).
     Inr (order_by (\<lambda>x. (pr_created_at x, pr_id x)) (filter (\<lambda>x.
       where_clause (scope_clause p ''installer_profile.read'') (Some (pr_client x)) (Some (pr_location x)) \<and>
       (case client of None \<Rightarrow> True | Some c \<Rightarrow> pr_client x = c) \<and>
       (case location of None \<Rightarrow> True | Some l \<Rightarrow> pr_location x = l)) (db_profiles db)))))"

definition create_installer_profile ::
  "(string \<Rightarrow> bool) \<Rightarrow> app_state \<Rightarrow> (nat \<Rightarrow> string) \<Rightarrow> nat \<Rightarrow> principal \<Rightarrow> profile_in \<Rightarrow> db \<Rightarrow> db \<times> profile_row result" where
  "create_installer_profile bracketed_ok st draw now p payload db = transaction db (
     andThen (require_permission ''installer_profile.manage'' p) (\<lambda>p.
     andThen (normalize_required_string (pf_name payload) ''name'') (\<lambda>name.
     andThen (normalize_platform (platform_value (pf_platform payload))) (\<lambda>_.
     andThen (normalize_installer_channel (installer_channel_value (pf_channel payload))) (\<lambda>_.
     andThen (validate_http_url bracketed_ok (pf_control_plane_url payload)) (\<lambda>url.
     andThen (normalize_policy_mode (policy_mode_value (pf_policy_mode payload))) (\<lambda>_.
     let name_normalized = lower name; now_str = strftime_z now in
     andThen (resolve_scope db (pf_scope payload)) (\<lambda>scope.
     andThen (require_scope p ''installer_profile.manage'' (rs_client scope) (Some (rs_location scope)) True) (\<lambda>_.
     andThen (ensure (fetch (\<lambda>x. (pr_client x, pr_platform x, pr_name_normalized x))
         (rs_client scope, pf_platform payload, name_normalized) (db_profiles db) = None)
         (conflict ''installer profile already exists for client and platform'')) (\<lambda>_.
     let x = \<lparr>pr_id = generate_prefixed_id ''ip'' (draw 0), pr_name = name, pr_name_normalized = name_normalized,
           pr_platform = pf_platform payload, pr_channel = pf_channel payload, pr_control_plane_url = url,
           pr_policy_mode = pf_policy_mode payload,
           pr_runtime_kind = (if operator_auth_configured st then GoAgent else LegacyReporter),
           pr_client = rs_client scope, pr_location = rs_location scope, pr_tenant = rs_tenant scope, pr_site = rs_site scope,
           pr_created_at = now_str, pr_updated_at = now_str\<rparr>
     in andThen (insert_profile x db) (\<lambda>db.
        andThen (record_audit_event (draw 1) now_str
          ((audit_call_of ''installer_profile_created'')\<lparr>ax_principal := Some p, ax_client := Some (pr_client x),
             ax_location := Some (pr_location x), ax_target_type := Some ''installer_profile'', ax_target_id := Some (pr_id x),
             ax_created_at := Some now_str\<rparr>) db) (\<lambda>db.
        Inr (db, x)))))))))))))"

section \<open>Artifacts\<close>

record artifact_response =
  ar_content :: "nat list"
  ar_media_type :: string
  ar_filename :: string
  ar_sha256 :: string
  ar_signing :: "(string \<times> string) option"

text \<open>What an error of the package provider becomes: only its own errors are caught.\<close>

fun package_failure :: "package_error \<Rightarrow> py_error" where
  "package_failure (AgentPackageError detail) = HTTPException 503 detail"
| "package_failure (PathValueError detail) = ValueError detail"
| "package_failure UnicodeDecodeError = ValueError ''invalid utf-8''"
| "package_failure PackageOSError = FileNotFoundError"

definition provided :: "package_error + 'a \<Rightarrow> 'a result" where
  "provided r = (case r of Inl e \<Rightarrow> Inl (package_failure e) | Inr x \<Rightarrow> Inr x)"

definition architecture_ok :: "string \<Rightarrow> bool" where
  "architecture_ok s \<longleftrightarrow>
     (case s of [] \<Rightarrow> False | c # r \<Rightarrow> slug_char c \<and> list_all (\<lambda>x. slug_char x \<or> x \<in> set ''._-'') r \<and> length r \<le> 31)"

definition endswith :: "string \<Rightarrow> string \<Rightarrow> bool" where
  "endswith s suffix \<longleftrightarrow> startswith (rev s) (rev suffix)"

definition package_response :: "published_package \<Rightarrow> nat list \<Rightarrow> artifact_response" where
  "package_response a content =
     \<lparr>ar_content = content, ar_media_type = (if endswith (pa_filename a) ''.zip'' then ''application/zip'' else ''application/gzip''),
      ar_filename = pa_filename a, ar_sha256 = pa_sha256 a, ar_signing = Some (pa_signing_identity a, pa_signing_key_id a)\<rparr>"

definition go_agent_artifact ::
  "(json \<Rightarrow> string) \<Rightarrow> release_host \<Rightarrow> package_provider option \<Rightarrow> profile_row \<Rightarrow> string \<Rightarrow> artifact_response result" where
  "go_agent_artifact repr host provider profile architecture =
     (case provider of
        None \<Rightarrow> Inl (HTTPException 503 ''signed agent package service is not configured'')
      | Some pp \<Rightarrow>
          andThen (provided (package repr host pp (platform_value (pr_platform profile)) architecture)) (\<lambda>a.
          andThen (provided (read_generic host pp a)) (\<lambda>content. Inr (package_response a content))))"

definition script_response :: "(nat list \<Rightarrow> string) \<Rightarrow> string \<times> string \<times> string \<Rightarrow> artifact_response" where
  "script_response sha256_hex artifact =
     (case artifact of (filename, media_type, content) \<Rightarrow>
        \<lparr>ar_content = utf8 content, ar_media_type = media_type, ar_filename = filename, ar_sha256 = sha256_hex (utf8 content), ar_signing = None\<rparr>)"

definition legacy_artifact ::
  "(nat list \<Rightarrow> string) \<Rightarrow> reporter_scripts \<Rightarrow> app_state \<Rightarrow> instant \<Rightarrow> profile_row \<Rightarrow> artifact_response result" where
  "legacy_artifact sha256_hex scripts st clock profile =
     (if st_auth_mode st \<noteq> ''development_open'' \<and>
         (case st_policy st of None \<Rightarrow> False | Some policy \<Rightarrow> \<not> policy_allows policy clock)
      then Inl (HTTPException 410 ''legacy reporter artifact generation is disabled or expired'')
      else if operator_auth_configured st \<and> \<not> truthy (st_agent_bearer st)
      then Inl (HTTPException 503 ''agent API token is required to generate installer artifacts when operator authentication is configured'')
      else Inr (script_response sha256_hex (render_installer_artifact scripts profile (st_agent_bearer st))))"

definition get_installer_artifact ::
  "(json \<Rightarrow> string) \<Rightarrow> release_host \<Rightarrow> package_provider option \<Rightarrow> (nat list \<Rightarrow> string) \<Rightarrow> reporter_scripts \<Rightarrow> app_state \<Rightarrow> instant \<Rightarrow>
   principal \<Rightarrow> string \<Rightarrow> string \<Rightarrow> db \<Rightarrow> artifact_response result" where
  "get_installer_artifact repr host provider sha256_hex scripts st clock p raw_profile_id architecture db =
     andThen (require_permission ''installer_artifact.download'' p) (\<lambda>p.
     andThen (ensure (architecture_ok architecture) (unprocessable ''request validation'')) (\<lambda>_.
     andThen (normalize_required_string raw_profile_id ''profile_id'') (\<lambda>profile_id.
     case List.find (\<lambda>x. pr_id x = profile_id \<and>
         where_clause (scope_clause p ''installer_artifact.download'') (Some (pr_client x)) (Some (pr_location x))) (db_profiles db) of
       None \<Rightarrow> Inl (not_found ''installer profile not found'')
     | Some profile \<Rightarrow>
         (case pr_runtime_kind profile of
            GoAgent \<Rightarrow> go_agent_artifact repr host provider profile architecture
          | LegacyReporter \<Rightarrow> legacy_artifact sha256_hex scripts st clock profile))))"


section \<open>Profiles stay consistent\<close>

text \<open>
  Ids name one profile, and so do client, platform and normalised name; a profile belongs to a location, and its name
  and the normalised one agree.
\<close>

definition profiles_ok :: "db \<Rightarrow> bool" where
  "profiles_ok db \<longleftrightarrow>
     unique_on pr_id (db_profiles db) \<and> unique_on (\<lambda>x. (pr_client x, pr_platform x, pr_name_normalized x)) (db_profiles db) \<and>
     list_all (\<lambda>x. location_exists db (Some (pr_client x)) (Some (pr_location x)) \<and> pr_name x \<noteq> [] \<and>
       pr_name_normalized x = lower (pr_name x)) (db_profiles db)"

lemma insert_profile_Inr:
  "insert_profile x db = Inr db' \<longleftrightarrow>
     db' = db\<lparr>db_profiles := db_profiles db @ [x]\<rparr> \<and> fetch pr_id (pr_id x) (db_profiles db) = None \<and>
     fetch (\<lambda>x. (pr_client x, pr_platform x, pr_name_normalized x)) (pr_client x, pr_platform x, pr_name_normalized x) (db_profiles db) = None \<and>
     location_exists db (Some (pr_client x)) (Some (pr_location x))"
  by (auto simp: insert_profile_def)

lemma validate_http_url_Inr:
  "validate_http_url ok v = Inr url \<longleftrightarrow>
     url = strip v \<and> url \<noteq> [] \<and> (\<exists>u. urlsplit ok url = Inr u \<and> sp_scheme u \<in> {''http'', ''https''} \<and> sp_netloc u \<noteq> [])"
  by (auto simp: validate_http_url_def trim_required_def Let_def andThen_eq_Inr split: if_splits)

lemma create_installer_profile_stored:
  assumes "create_installer_profile ok st draw now p payload db = (db', Inr x)"
  shows "insert_profile x db = Inr (db\<lparr>db_profiles := db_profiles db @ [x]\<rparr>)"
    and "db_profiles db' = db_profiles db @ [x]" and "db_locations db' = db_locations db"
    and "permits_scope p ''installer_profile.manage'' (Some (pr_client x)) (Some (pr_location x))"
    and "open_scope db (pr_client x) (pr_location x)"
    and "pr_name x = strip (pf_name payload)" "pr_name x \<noteq> []" "pr_name_normalized x = lower (pr_name x)"
    and "validate_http_url ok (pf_control_plane_url payload) = Inr (pr_control_plane_url x)"
    and "pr_runtime_kind x = (if operator_auth_configured st then GoAgent else LegacyReporter)"
proof -
  from assms[unfolded create_installer_profile_def transaction_Inr Let_def andThen_eq_Inr] obtain q name url scope db1 where
    q: "require_permission ''installer_profile.manage'' p = Inr q"
    and name: "normalize_required_string (pf_name payload) ''name'' = Inr name"
    and url: "validate_http_url ok (pf_control_plane_url payload) = Inr url"
    and scope: "resolve_scope db (pf_scope payload) = Inr scope"
    and within: "require_scope q ''installer_profile.manage'' (rs_client scope) (Some (rs_location scope)) True = Inr ()"
    and x: "x = \<lparr>pr_id = generate_prefixed_id ''ip'' (draw 0), pr_name = name, pr_name_normalized = lower name,
           pr_platform = pf_platform payload, pr_channel = pf_channel payload, pr_control_plane_url = url,
           pr_policy_mode = pf_policy_mode payload,
           pr_runtime_kind = (if operator_auth_configured st then GoAgent else LegacyReporter),
           pr_client = rs_client scope, pr_location = rs_location scope, pr_tenant = rs_tenant scope, pr_site = rs_site scope,
           pr_created_at = strftime_z now, pr_updated_at = strftime_z now\<rparr>"
    and stored: "insert_profile x db = Inr db1"
    and audit: "record_audit_event (draw 1) (strftime_z now)
          ((audit_call_of ''installer_profile_created'')\<lparr>ax_principal := Some q, ax_client := Some (pr_client x),
             ax_location := Some (pr_location x), ax_target_type := Some ''installer_profile'', ax_target_id := Some (pr_id x),
             ax_created_at := Some (strftime_z now)\<rparr>) db1 = Inr db'"
    by auto
  have "q = p" using q by (simp add: require_permission_def split: if_splits)
  have db1: "db1 = db\<lparr>db_profiles := db_profiles db @ [x]\<rparr>" using stored by (simp add: insert_profile_Inr)
  obtain a where "db' = db1\<lparr>db_audits := db_audits db1 @ [a]\<rparr>" using record_audit_Inr[OF audit] by blast
  then show "db_profiles db' = db_profiles db @ [x]" "db_locations db' = db_locations db" by (simp_all add: db1)
  show "insert_profile x db = Inr (db\<lparr>db_profiles := db_profiles db @ [x]\<rparr>)" using stored db1 by simp
  show "permits_scope p ''installer_profile.manage'' (Some (pr_client x)) (Some (pr_location x))"
    using within \<open>q = p\<close> by (simp add: require_scope_def x split: if_splits)
  show "open_scope db (pr_client x) (pr_location x)" using resolve_scope_open[OF scope] by (simp add: x)
  show "pr_name x = strip (pf_name payload)" "pr_name x \<noteq> []"
    using name by (auto simp: x normalize_required_string_def trim_required_def Let_def split: if_splits)
  show "pr_name_normalized x = lower (pr_name x)" "validate_http_url ok (pf_control_plane_url payload) = Inr (pr_control_plane_url x)"
    "pr_runtime_kind x = (if operator_auth_configured st then GoAgent else LegacyReporter)"
    by (simp_all add: x url)
qed

text \<open>
  A created profile is one new row inside the author's scope and in an open location, named once for its client and
  platform, with an absolute http address, and bound to the signed agent exactly when operators have a way to sign in; the
  table of profiles stays consistent, and a refused request changes nothing.
\<close>

theorem created_profile_consistent:
  assumes "profiles_ok db" and "create_installer_profile ok st draw now p payload db = (db', r)"
  shows "profiles_ok db' \<and>
    (case r of
       Inl _ \<Rightarrow> db' = db
     | Inr x \<Rightarrow>
         db_profiles db' = db_profiles db @ [x]
         \<and> list_all (\<lambda>y. (pr_client y, pr_platform y, pr_name_normalized y) \<noteq> (pr_client x, pr_platform x, pr_name_normalized x)) (db_profiles db)
         \<and> permits_scope p ''installer_profile.manage'' (Some (pr_client x)) (Some (pr_location x))
         \<and> open_scope db (pr_client x) (pr_location x)
         \<and> (\<exists>u. urlsplit ok (pr_control_plane_url x) = Inr u \<and> sp_scheme u \<in> {''http'', ''https''} \<and> sp_netloc u \<noteq> [])
         \<and> (pr_runtime_kind x = GoAgent \<longleftrightarrow> operator_auth_configured st))"
proof (cases r)
  case (Inl e)
  then have "db' = db" using assms(2) by (simp add: create_installer_profile_def transaction_Inl)
  then show ?thesis using assms(1) Inl by simp
next
  case (Inr x)
  note made = create_installer_profile_stored[OF assms(2)[unfolded Inr]]
  have new: "fetch pr_id (pr_id x) (db_profiles db) = None" "location_exists db (Some (pr_client x)) (Some (pr_location x))"
    "fetch (\<lambda>x. (pr_client x, pr_platform x, pr_name_normalized x)) (pr_client x, pr_platform x, pr_name_normalized x) (db_profiles db) = None"
    using made(1) by (simp_all add: insert_profile_Inr)
  have places: "location_exists db' = location_exists db" by (intro ext) (simp only: location_exists_def made(3))
  have ids: "pr_id x \<notin> pr_id ` set (db_profiles db)" using new(1) by (auto simp: fetch_None)
  have names: "(pr_client x, pr_platform x, pr_name_normalized x) \<notin>
      (\<lambda>x. (pr_client x, pr_platform x, pr_name_normalized x)) ` set (db_profiles db)"
    using new(3) unfolding fetch_None .
  then have fresh: "list_all (\<lambda>y. (pr_client y, pr_platform y, pr_name_normalized y) \<noteq> (pr_client x, pr_platform x, pr_name_normalized x)) (db_profiles db)"
    unfolding list_all_iff by (intro ballI notI) (drule sym, force simp del: prod.inject)
  have "profiles_ok db'"
    using assms(1) ids names new(2) made(7,8) unfolding profiles_ok_def made(2) places by simp
  moreover have "(pr_runtime_kind x = GoAgent) = operator_auth_configured st" using made(10) by simp
  ultimately show ?thesis using made(2,4,5,9) fresh by (auto simp: Inr validate_http_url_Inr)
qed


definition example_profile_in :: profile_in where
  "example_profile_in = \<lparr>pf_name = '' Fleet '', pf_platform = Linux, pf_channel = Stable,
     pf_control_plane_url = ''https://sha.example'', pf_policy_mode = Observe,
     pf_scope = \<lparr>si_client_id = Some ''cl_1'', si_location_id = Some ''loc_1'', si_tenant_id = None, si_site_id = None,
       si_canonical_supplied = True, si_tenant_supplied = False, si_site_supplied = False\<rparr>\<rparr>"

definition example_state :: app_state where
  "example_state = \<lparr>st_auth_mode = ''protected'', st_api_token = Some ''operator'', st_agent_bearer = Some ''agent'',
     st_readonly_token = None, st_external_token = None, st_credential_key = None, st_oidc_client = False, st_oidc_issuer = None,
     st_session_key = None, st_idle_minutes = 30, st_public_base_url = None, st_policy = None, st_lifetime_days = 30\<rparr>"

theorem created_profile_consistent_witness:
  "\<exists>x. create_installer_profile (\<lambda>_. True) example_state (\<lambda>_. ''1'') 0 ex_operator example_profile_in ex_db =
      (fst (create_installer_profile (\<lambda>_. True) example_state (\<lambda>_. ''1'') 0 ex_operator example_profile_in ex_db), Inr x)
    \<and> pr_name x = ''Fleet'' \<and> pr_runtime_kind x = GoAgent
    \<and> profiles_ok (fst (create_installer_profile (\<lambda>_. True) example_state (\<lambda>_. ''1'') 0 ex_operator example_profile_in ex_db))"
proof -
  obtain db' r where run: "create_installer_profile (\<lambda>_. True) example_state (\<lambda>_. ''1'') 0 ex_operator example_profile_in ex_db = (db', r)"
    by fastforce
  have ok: "profiles_ok ex_db" by (simp add: profiles_ok_def)
  have inputs: "normalize_required_string '' Fleet '' ''name'' = Inr ''Fleet''" "normalize_platform (platform_value Linux) = Inr ''linux''"
    "normalize_installer_channel (installer_channel_value Stable) = Inr ''stable''"
    "validate_http_url (\<lambda>_. True) ''https://sha.example'' = Inr ''https://sha.example''"
    "normalize_platform ''linux'' = Inr ''linux''" "normalize_installer_channel ''stable'' = Inr ''stable''" "normalize_policy_mode ''observe'' = Inr ''observe''"
    "normalize_policy_mode (policy_mode_value Observe) = Inr ''observe''"
    "normalize_required_string ''cl_1'' ''client_id'' = Inr ''cl_1''" "normalize_required_string ''loc_1'' ''location_id'' = Inr ''loc_1''"
    by code_simp+
  have scope: "resolve_scope ex_db (pf_scope example_profile_in) = Inr \<lparr>rs_client = ''cl_1'', rs_location = ''loc_1'', rs_tenant = Some ''acme'', rs_site = lo_key ex_location\<rparr>"
    by (simp add: example_profile_in_def resolve_scope_def resolve_canonical_def normalize_optional_string_def inputs load_scope_def
        location_of_client_def fetch_def)
  have "\<exists>x. r = Inr x \<and> pr_name x = ''Fleet''"
    using run unfolding create_installer_profile_def scope
    by (auto simp: example_profile_in_def inputs ex_operator_permits legacy_operator_permissions_def require_scope_def insert_profile_def record_audit_event_def
        insert_audit_def location_exists_def client_exists_def audit_event_def audit_call_of_def fetch_def Let_def)
  then show ?thesis using created_profile_consistent[OF ok run] run by (auto simp: operator_auth_configured_def example_state_def truthy_def)
qed

section \<open>What the artifact route hands out\<close>

lemma find_profile:
  "List.find (\<lambda>x. pr_id x = i \<and> where_clause (scope_clause p q) (Some (pr_client x)) (Some (pr_location x))) xs = Some x \<Longrightarrow>
     x \<in> set xs \<and> pr_id x = i \<and> permits_scope p q (Some (pr_client x)) (Some (pr_location x))"
  by (auto dest!: find_eq_Some_first simp: where_clause_def scope_clause_def scope_clause_loop_true permits_scope_def list_ex_iff)

lemma provided_Inr: "provided r = Inr x \<longleftrightarrow> r = Inr x"
  by (cases r) (simp_all add: provided_def)

text \<open>
  C36.  The artifact route serves only profiles the caller may download.  For a profile of the signed agent it serves the
  published package of the platform and nothing else, so never the shared agent token; the script of a legacy profile is
  the rendered one, and in protected operation it is served only while the legacy reporter policy admits reporters and,
  once operators have a way to sign in, only with a token for the reporter in it.
\<close>

theorem installer_artifact_exact:
  assumes "get_installer_artifact repr host provider sha256_hex scripts st clock p raw_profile_id architecture db = Inr out"
  shows "\<exists>x\<in>set (db_profiles db). pr_id x = strip raw_profile_id
    \<and> permits_scope p ''installer_artifact.download'' (Some (pr_client x)) (Some (pr_location x))
    \<and> (case pr_runtime_kind x of
         GoAgent \<Rightarrow> \<exists>pp a. provider = Some pp \<and> package repr host pp (platform_value (pr_platform x)) architecture = Inr a
           \<and> read_generic host pp a = Inr (ar_content out) \<and> ar_filename out = pa_filename a \<and> ar_sha256 out = pa_sha256 a
           \<and> ar_signing out = Some (pa_signing_identity a, pa_signing_key_id a)
       | LegacyReporter \<Rightarrow>
           out = script_response sha256_hex (render_installer_artifact scripts x (st_agent_bearer st))
           \<and> (st_auth_mode st = ''development_open'' \<or> st_policy st = None \<or> (\<exists>policy. st_policy st = Some policy \<and> policy_allows policy clock))
           \<and> (\<not> operator_auth_configured st \<or> truthy (st_agent_bearer st)))"
proof -
  from assms obtain q i x where q: "require_permission ''installer_artifact.download'' p = Inr q"
    and i: "normalize_required_string raw_profile_id ''profile_id'' = Inr i"
    and found: "List.find (\<lambda>x. pr_id x = i \<and>
         where_clause (scope_clause q ''installer_artifact.download'') (Some (pr_client x)) (Some (pr_location x))) (db_profiles db) = Some x"
    and run: "(case pr_runtime_kind x of GoAgent \<Rightarrow> go_agent_artifact repr host provider x architecture
        | LegacyReporter \<Rightarrow> legacy_artifact sha256_hex scripts st clock x) = Inr out"
    by (auto simp: get_installer_artifact_def andThen_eq_Inr split: option.splits)
  have "q = p" using q by (simp add: require_permission_def split: if_splits)
  then have visible: "x \<in> set (db_profiles db)" "pr_id x = i" "permits_scope p ''installer_artifact.download'' (Some (pr_client x)) (Some (pr_location x))"
    using find_profile[OF found] by auto
  have "i = strip raw_profile_id" using i by (auto simp: normalize_required_string_def trim_required_def Let_def split: if_splits)
  moreover have "case pr_runtime_kind x of
         GoAgent \<Rightarrow> \<exists>pp a. provider = Some pp \<and> package repr host pp (platform_value (pr_platform x)) architecture = Inr a
           \<and> read_generic host pp a = Inr (ar_content out) \<and> ar_filename out = pa_filename a \<and> ar_sha256 out = pa_sha256 a
           \<and> ar_signing out = Some (pa_signing_identity a, pa_signing_key_id a)
       | LegacyReporter \<Rightarrow>
           out = script_response sha256_hex (render_installer_artifact scripts x (st_agent_bearer st))
           \<and> (st_auth_mode st = ''development_open'' \<or> st_policy st = None \<or> (\<exists>policy. st_policy st = Some policy \<and> policy_allows policy clock))
           \<and> (\<not> operator_auth_configured st \<or> truthy (st_agent_bearer st))"
  proof (cases "pr_runtime_kind x")
    case GoAgent
    then obtain pp where pp: "provider = Some pp" using run by (cases provider) (simp_all add: go_agent_artifact_def)
    have "go_agent_artifact repr host provider x architecture = Inr out" using run GoAgent by simp
    then obtain a content where "package repr host pp (platform_value (pr_platform x)) architecture = Inr a"
      "read_generic host pp a = Inr content" "out = package_response a content"
      by (auto simp: go_agent_artifact_def pp andThen_eq_Inr provided_Inr)
    then show ?thesis using GoAgent pp by (auto simp: package_response_def)
  next
    case LegacyReporter
    then have "legacy_artifact sha256_hex scripts st clock x = Inr out" using run by simp
    then show ?thesis using LegacyReporter by (auto simp: legacy_artifact_def split: if_splits option.splits)
  qed
  ultimately show ?thesis using visible by blast
qed


theorem installer_artifact_exact_witness:
  "\<exists>out. get_installer_artifact (\<lambda>_. []) example_host (Some example_provider) (\<lambda>_. []) \<lparr>rs_linux = [], rs_macos = [], rs_windows = []\<rparr>
      example_state (0, 0) ex_operator ''ip_1'' ''amd64''
      (ex_db\<lparr>db_profiles := [\<lparr>pr_id = ''ip_1'', pr_name = ''Fleet'', pr_name_normalized = ''fleet'', pr_platform = Windows, pr_channel = Stable,
         pr_control_plane_url = ''https://sha.example'', pr_policy_mode = Observe, pr_runtime_kind = GoAgent, pr_client = ''cl_1'',
         pr_location = ''loc_1'', pr_tenant = None, pr_site = None, pr_created_at = [], pr_updated_at = []\<rparr>]\<rparr>) = Inr out
    \<and> ar_content out = [80, 75] \<and> ar_filename out = pa_filename example_package"
proof -
  define x :: profile_row where "x = \<lparr>pr_id = ''ip_1'', pr_name = ''Fleet'', pr_name_normalized = ''fleet'', pr_platform = Windows,
     pr_channel = Stable, pr_control_plane_url = ''https://sha.example'', pr_policy_mode = Observe, pr_runtime_kind = GoAgent,
     pr_client = ''cl_1'', pr_location = ''loc_1'', pr_tenant = None, pr_site = None, pr_created_at = [], pr_updated_at = []\<rparr>"
  let ?get = "get_installer_artifact (\<lambda>_. []) example_host (Some example_provider) (\<lambda>_. []) \<lparr>rs_linux = [], rs_macos = [], rs_windows = []\<rparr>
      example_state (0, 0) ex_operator ''ip_1'' ''amd64'' (ex_db\<lparr>db_profiles := [x]\<rparr>)"
  have x: "pr_id x = ''ip_1''" "pr_platform x = Windows" "pr_runtime_kind x = GoAgent" by (simp_all add: x_def)
  have found: "package (\<lambda>_. []) example_host example_provider ''windows'' ''amd64'' = Inr example_package"
    "read_generic example_host example_provider example_package = Inr [80, 75]"
    "architecture_ok ''amd64''" "normalize_required_string ''ip_1'' ''profile_id'' = Inr ''ip_1''" "strip ''ip_1'' = ''ip_1''"
    by code_simp+
  have may: "''installer_artifact.download'' \<in> set legacy_operator_permissions" by (simp add: legacy_operator_permissions_def)
  have "permits_scope ex_operator ''installer_artifact.download'' (Some (pr_client x)) (Some (pr_location x))"
    by (rule ex_operator_permits(1)[OF may])
  then have "where_clause (scope_clause ex_operator ''installer_artifact.download'') (Some (pr_client x)) (Some (pr_location x))"
    by (simp add: where_clause_def scope_clause_def scope_clause_loop_true permits_scope_def list_ex_iff)
  then have run: "?get = Inr (package_response example_package [80, 75])"
    by (simp add: get_installer_artifact_def ex_operator_permits(3)[OF may] found x go_agent_artifact_def provided_def)
  show ?thesis
    using installer_artifact_exact[OF run] by (intro exI[of _ "package_response example_package [80, 75]"])
      (auto simp: run[unfolded x_def] x found)
qed

end
