(* ===== verification/Service_Config.thy ===== *)
theory Service_Config
  imports Installers Oidc_Login Principals
begin

text \<open>
  \<open>app/config.py\<close> and \<open>create_app\<close> of \<open>app/main.py\<close>: the files secrets are read from, the settings, and the
  application state every request is served with.  The values of the environment are the record \<open>settings\<close>; what
  the libraries answer while the application is built is the record \<open>app_libraries\<close>.
\<close>

section \<open>Secret files\<close>

text \<open>
  The host of the service: its files, whether a path lies on a read-only mount (\<open>None\<close> when \<open>statvfs\<close> fails), whether a
  file opens without following a link, and the effective user.
\<close>

record config_host =
  ch_files :: file_system
  ch_read_only :: "posix_path \<Rightarrow> bool option"
  ch_opens :: "posix_path \<Rightarrow> bool"
  ch_euid :: nat

text \<open>\<open>mode & 0o077\<close> and \<open>mode & 0o022\<close>.\<close>

definition others_may :: "nat \<Rightarrow> bool" where
  "others_may mode \<longleftrightarrow> mode mod 64 \<noteq> 0"

definition others_may_write :: "nat \<Rightarrow> bool" where
  "others_may_write mode \<longleftrightarrow> odd (mode div 2) \<or> odd (mode div 16)"

definition open_secure_file :: "config_host \<Rightarrow> string \<Rightarrow> bool \<Rightarrow> string \<Rightarrow> nat list result" where
  "open_secure_file h label public_readable file_path =
     (let path = posix_path file_path; fs = ch_files h in
      andThen (ensure (path_absolute path) (ValueError (label @ '' file path must be absolute''))) (\<lambda>_.
      case fs_resolve fs path of
        None \<Rightarrow> Inl (ValueError (label @ '' file could not be resolved securely''))
      | Some resolved \<Rightarrow>
        (case ch_read_only h resolved of
           None \<Rightarrow> Inl (ValueError (label @ '' file could not be resolved securely''))
         | Some read_only_mount \<Rightarrow>
             andThen (ensure (resolved = path \<or> read_only_mount) (ValueError (label @ '' file must use a canonical path with no symlink components; '' @
               ''immutable read-only container mounts are the only exception''))) (\<lambda>_.
             andThen (ensure (ch_opens h resolved) (ValueError (label @ '' file could not be opened securely''))) (\<lambda>_.
             case fs_node fs resolved of
               Some (RegularFile content) \<Rightarrow>
                 andThen (ensure (public_readable \<or> \<not> others_may (fs_mode fs resolved))
                   (ValueError (label @ '' file must not grant group or world permissions''))) (\<lambda>_.
                 andThen (ensure (\<not> public_readable \<or> \<not> others_may_write (fs_mode fs resolved))
                   (ValueError (label @ '' file must not be group- or world-writable''))) (\<lambda>_.
                 andThen (ensure (fs_owner fs resolved = 0 \<or> fs_owner fs resolved = ch_euid h \<or> read_only_mount)
                   (ValueError (label @ '' file must be owned by root or the service effective user unless mounted read-only''))) (\<lambda>_.
                 Inr content)))
             | _ \<Rightarrow> Inl (ValueError (label @ '' file must be a regular, non-symlink file'')))))))"

definition validate_secure_file_path :: "config_host \<Rightarrow> string \<Rightarrow> string \<Rightarrow> string result" where
  "validate_secure_file_path h label file_path =
     andThen (open_secure_file h label False file_path) (\<lambda>_. Inr file_path)"

text \<open>\<open>bytes.strip()\<close>.\<close>

definition byte_space :: "nat \<Rightarrow> bool" where
  "byte_space b \<longleftrightarrow> (9 \<le> b \<and> b \<le> 13) \<or> b = 32"

definition strip_bytes :: "nat list \<Rightarrow> nat list" where
  "strip_bytes bs = rev (dropWhile byte_space (rev (dropWhile byte_space bs)))"

definition read_secure_file :: "config_host \<Rightarrow> string \<Rightarrow> nat \<Rightarrow> nat \<Rightarrow> bool \<Rightarrow> string \<Rightarrow> nat list result" where
  "read_secure_file h label minimum_bytes maximum_bytes public_readable file_path =
     andThen (open_secure_file h label public_readable file_path) (\<lambda>content.
     let v = strip_bytes (take (maximum_bytes + 1) content) in
     andThen (ensure (length v \<le> maximum_bytes)
       (ValueError (label @ '' file must not exceed '' @ nat_text maximum_bytes @ '' bytes''))) (\<lambda>_.
     andThen (ensure (minimum_bytes \<le> length v)
       (ValueError (label @ '' file must contain at least '' @ nat_text minimum_bytes @ '' bytes''))) (\<lambda>_. Inr v)))"

definition read_secure_secret_file :: "config_host \<Rightarrow> string \<Rightarrow> nat \<Rightarrow> nat \<Rightarrow> string \<Rightarrow> nat list result" where
  "read_secure_secret_file h label minimum_bytes maximum_bytes file_path =
     read_secure_file h label minimum_bytes maximum_bytes False file_path"

definition read_secure_public_file :: "config_host \<Rightarrow> string \<Rightarrow> nat \<Rightarrow> nat \<Rightarrow> string \<Rightarrow> nat list result" where
  "read_secure_public_file h label minimum_bytes maximum_bytes file_path =
     read_secure_file h label minimum_bytes maximum_bytes True file_path"

section \<open>Settings\<close>

record settings =
  se_auth_mode :: string
  se_database_url :: string
  se_database_url_file :: "string option"
  se_migration_mode :: string
  se_api_token :: "string option"
  se_api_token_file :: "string option"
  se_agent_api_token :: "string option"
  se_agent_api_token_file :: "string option"
  se_readonly_api_token :: "string option"
  se_readonly_api_token_file :: "string option"
  se_external_token :: "string option"
  se_external_token_file :: "string option"
  se_credential_key_file :: "string option"
  se_public_base_url :: "string option"
  se_oidc_issuer :: "string option"
  se_oidc_metadata_url :: "string option"
  se_oidc_client_id :: "string option"
  se_oidc_client_secret :: "string option"
  se_oidc_client_secret_file :: "string option"
  se_oidc_ca_bundle_file :: "string option"
  se_browser_key_file :: "string option"
  se_idle_minutes :: int
  se_absolute_hours :: int
  se_login_ttl_minutes :: int
  se_legacy_mode :: string
  se_legacy_until :: "string option"
  se_lifetime_days :: int
  se_release_root :: "string option"
  se_trust_policy_file :: "string option"
  se_signing_key_file :: "string option"
  se_signing_identity :: "string option"
  se_signing_key_id :: "string option"
  se_spool_root :: "string option"
  se_package_tool :: "string option"
  se_ca_bundle_file :: "string option"

text \<open>\<open>value or None\<close>, and the text of a secret.\<close>

definition or_none :: "string option \<Rightarrow> string option" where
  "or_none v = (if truthy v then v else None)"

definition decode_utf8 :: "nat list \<Rightarrow> string result" where
  "decode_utf8 bs = (case utf8_decode bs of None \<Rightarrow> Inl (ValueError ''invalid utf-8'') | Some s \<Rightarrow> Inr s)"

definition from_file :: "config_host \<Rightarrow> string option \<Rightarrow> string option \<Rightarrow> string option result" where
  "from_file h v file_path =
     (if truthy file_path
      then andThen (read_secure_secret_file h ''configuration secret'' 1 16384 (the file_path)) (\<lambda>bs.
           andThen (decode_utf8 bs) (\<lambda>s. Inr (or_none (Some s))))
      else Inr (or_none v))"

definition resolved_database_url :: "config_host \<Rightarrow> settings \<Rightarrow> string result" where
  "resolved_database_url h se =
     andThen (from_file h (Some (se_database_url se)) (se_database_url_file se)) (\<lambda>url.
     Inr (case url of Some u \<Rightarrow> u | None \<Rightarrow> se_database_url se))"

definition resolved_key :: "config_host \<Rightarrow> string \<Rightarrow> string option \<Rightarrow> nat list option result" where
  "resolved_key h label file_path =
     (if truthy file_path then andThen (read_secure_secret_file h label 32 4096 (the file_path)) (\<lambda>k. Inr (Some k)) else Inr None)"

definition resolved_credential_hmac_key :: "config_host \<Rightarrow> settings \<Rightarrow> nat list option result" where
  "resolved_credential_hmac_key h se = resolved_key h ''credential HMAC key'' (se_credential_key_file se)"

definition resolved_browser_session_key :: "config_host \<Rightarrow> settings \<Rightarrow> nat list option result" where
  "resolved_browser_session_key h se = resolved_key h ''browser session key'' (se_browser_key_file se)"

definition resolved_oidc_client_secret :: "config_host \<Rightarrow> settings \<Rightarrow> string option result" where
  "resolved_oidc_client_secret h se =
     (if truthy (se_oidc_client_secret_file se)
      then andThen (read_secure_secret_file h ''OIDC client secret'' 1 4096 (the (se_oidc_client_secret_file se))) (\<lambda>bs.
           andThen (decode_utf8 bs) (\<lambda>s. Inr (Some s)))
      else Inr (or_none (se_oidc_client_secret se)))"

section \<open>The application\<close>

text \<open>The arguments of \<open>create_app\<close> that replace a setting.\<close>

record create_args =
  ca_database_url :: "string option"
  ca_migration_mode :: "string option"
  ca_api_token :: "string option"
  ca_agent_token :: "string option"
  ca_readonly_token :: "string option"
  ca_external_token :: "string option"
  ca_credential_key :: "nat list option"
  ca_browser_key :: "nat list option"
  ca_oidc_client :: bool
  ca_oidc_config :: "oidc_config option"
  ca_public_base_url :: "string option"
  ca_auth_mode :: "string option"
  ca_legacy_mode :: "string option"
  ca_legacy_until :: "string option"
  ca_lifetime_days :: "int option"
  ca_provider :: "package_provider option"

definition given_or :: "'a option \<Rightarrow> 'a option result \<Rightarrow> 'a option result" where
  "given_or v r = (case v of None \<Rightarrow> r | Some x \<Rightarrow> Inr (Some x))"

definition effective_legacy_mode :: "create_args \<Rightarrow> settings \<Rightarrow> string" where
  "effective_legacy_mode a se =
     (case ca_legacy_mode a of
        Some mode \<Rightarrow> mode
      | None \<Rightarrow> if se_legacy_mode se \<noteq> ''disabled'' then se_legacy_mode se
                else if ca_auth_mode a = Some ''development_open'' then ''migration'' else ''disabled'')"

definition effective_legacy_until :: "create_args \<Rightarrow> settings \<Rightarrow> string option" where
  "effective_legacy_until a se =
     (case ca_legacy_until a of
        Some until \<Rightarrow> Some until
      | None \<Rightarrow> if truthy (se_legacy_until se) then se_legacy_until se
                else if effective_legacy_mode a se = ''migration'' then Some ''2029-12-31T23:59:59Z'' else None)"

definition package_fields :: "settings \<Rightarrow> string option list" where
  "package_fields se =
     [se_release_root se, se_trust_policy_file se, se_signing_key_file se, se_signing_identity se, se_signing_key_id se,
      se_spool_root se, se_package_tool se]"

definition configured_provider :: "config_host \<Rightarrow> create_args \<Rightarrow> settings \<Rightarrow> package_provider option result" where
  "configured_provider h a se =
     (if ca_provider a = None \<and> list_ex truthy (package_fields se) then
        if \<not> list_all truthy (package_fields se) then Inl (ValueError ''signed agent package configuration is incomplete'')
        else andThen (provided (from_paths (ch_files h) (ch_euid h)
          \<lparr>pi_release_root = the (se_release_root se), pi_trust_policy = the (se_trust_policy_file se),
           pi_signing_key = the (se_signing_key_file se), pi_signing_identity = the (se_signing_identity se),
           pi_signing_key_id = the (se_signing_key_id se), pi_spool_root = the (se_spool_root se),
           pi_tool = the (se_package_tool se), pi_ca_bundle = se_ca_bundle_file se\<rparr>)) (\<lambda>pp. Inr (Some pp))
      else Inr (ca_provider a))"

text \<open>\<open>certificates bytes\<close> is the number of certificates of a PEM text, \<open>None\<close> when it does not parse.\<close>

definition check_ca_bundle :: "config_host \<Rightarrow> (nat list \<Rightarrow> nat option) \<Rightarrow> string \<Rightarrow> unit result" where
  "check_ca_bundle h certificates path =
     andThen (read_secure_public_file h ''OIDC CA bundle'' 1 4194304 path) (\<lambda>pem.
     case certificates pem of
       None \<Rightarrow> Inl (ValueError ''OIDC CA bundle must contain parseable PEM certificates'')
     | Some n \<Rightarrow> ensure (0 < n) (ValueError ''OIDC CA bundle must contain at least one certificate''))"

definition configured_oidc :: "config_host \<Rightarrow> create_args \<Rightarrow> settings \<Rightarrow> oidc_config option result" where
  "configured_oidc h a se =
     andThen (resolved_oidc_client_secret h se) (\<lambda>secret.
     let fields = [se_oidc_issuer se, se_oidc_metadata_url se, se_oidc_client_id se, secret, se_public_base_url se] in
     if ca_oidc_config a = None \<and> list_ex truthy fields then
       if \<not> list_all truthy fields
       then Inl (ValueError ''OIDC configuration requires issuer, metadata URL, client ID, client secret, and public base URL'')
       else Inr (Some \<lparr>oc_issuer = the (se_oidc_issuer se), oc_metadata_url = the (se_oidc_metadata_url se),
              oc_client_id = the (se_oidc_client_id se), oc_client_secret = the secret,
              oc_public_base_url = the (se_public_base_url se), oc_ca_bundle_file = se_oidc_ca_bundle_file se\<rparr>)
     else Inr (ca_oidc_config a))"

text \<open>
  The libraries: the parser of bracketed hosts, of PEM certificates and of ISO dates, SQLAlchemy taking a database URL to an
  engine, the OAuth library registering a client, and the routes FastAPI built from the included routers.
\<close>

record app_libraries =
  al_bracketed :: "string \<Rightarrow> bool"
  al_certificates :: "nat list \<Rightarrow> nat option"
  al_fromiso :: "string \<Rightarrow> py_datetime option"
  al_engine :: "string \<Rightarrow> unit result"
  al_register :: "oidc_config \<Rightarrow> unit result"
  al_routes :: "api_route list"

definition database_store :: "app_libraries \<Rightarrow> string \<Rightarrow> string \<Rightarrow> (string \<times> string) result" where
  "database_store lib url migration_mode = andThen (al_engine lib url) (\<lambda>_. Inr (url, migration_mode))"

definition build_oidc_client :: "app_libraries \<Rightarrow> config_host \<Rightarrow> oidc_config \<Rightarrow> unit result" where
  "build_oidc_client lib h c =
     andThen (validate_oidc_config (al_bracketed lib) (check_ca_bundle h (al_certificates lib)) c) (\<lambda>_. al_register lib c)"

text \<open>What the routes read from \<open>app.state\<close>.\<close>

record application =
  ap_store :: "string \<times> string"
  ap_policies :: "string \<times> string \<Rightarrow> string option"
  ap_state :: app_state
  ap_login :: login_settings
  ap_provider :: "package_provider option"

definition create_app ::
  "app_libraries \<Rightarrow> config_host \<Rightarrow> settings \<Rightarrow> create_args \<Rightarrow> application result" where
  "create_app lib h se a =
     andThen (if truthy (ca_database_url a) then Inr (the (ca_database_url a)) else resolved_database_url h se) (\<lambda>url.
     andThen (database_store lib url (if truthy (ca_migration_mode a) then the (ca_migration_mode a) else se_migration_mode se)) (\<lambda>store.
     andThen (given_or (ca_api_token a) (from_file h (se_api_token se) (se_api_token_file se))) (\<lambda>api_token.
     andThen (given_or (ca_agent_token a) (from_file h (se_agent_api_token se) (se_agent_api_token_file se))) (\<lambda>agent_bearer.
     andThen (given_or (ca_readonly_token a) (from_file h (se_readonly_api_token se) (se_readonly_api_token_file se))) (\<lambda>readonly.
     andThen (given_or (ca_external_token a) (from_file h (se_external_token se) (se_external_token_file se))) (\<lambda>external.
     andThen (given_or (ca_credential_key a) (resolved_credential_hmac_key h se)) (\<lambda>credential_key.
     andThen (validate_hmac_key credential_key) (\<lambda>credential_key.
     andThen (legacy_policy_from_config (al_fromiso lib) (effective_legacy_mode a se) (effective_legacy_until a se)) (\<lambda>policy.
     let lifetime = (case ca_lifetime_days a of Some n \<Rightarrow> n | None \<Rightarrow> se_lifetime_days se) in
     andThen (ensure (1 \<le> lifetime \<and> lifetime \<le> 3650) (ValueError ''device credential lifetime days must be between 1 and 3650'')) (\<lambda>_.
     andThen (configured_provider h a se) (\<lambda>provider.
     andThen (given_or (ca_browser_key a) (resolved_browser_session_key h se)) (\<lambda>browser_key.
     andThen (ensure (case browser_key of None \<Rightarrow> True | Some k \<Rightarrow> 32 \<le> length k)
       (ValueError ''browser session key must contain at least 32 bytes'')) (\<lambda>_.
     andThen (configured_oidc h a se) (\<lambda>oidc.
     andThen (ensure (ca_oidc_client a \<longrightarrow> oidc \<noteq> None) (ValueError ''an injected OIDC client requires OIDC configuration'')) (\<lambda>_.
     andThen (case oidc of
         None \<Rightarrow> Inr ()
       | Some c \<Rightarrow>
           andThen (validate_oidc_config (al_bracketed lib) (check_ca_bundle h (al_certificates lib)) c) (\<lambda>_.
           andThen (ensure (browser_key \<noteq> None) (ValueError ''OIDC authentication requires a browser session key'')) (\<lambda>_.
           if ca_oidc_client a then Inr () else build_oidc_client lib h c))) (\<lambda>_.
     andThen (ensure (0 < se_idle_minutes se) (ValueError ''session idle minutes must be greater than zero'')) (\<lambda>_.
     andThen (ensure (0 < se_absolute_hours se) (ValueError ''session absolute hours must be greater than zero'')) (\<lambda>_.
     andThen (ensure (0 < se_login_ttl_minutes se) (ValueError ''OIDC login TTL minutes must be greater than zero'')) (\<lambda>_.
     let configured = truthy api_token \<or> truthy agent_bearer \<or> truthy readonly \<or> truthy external \<or>
           (credential_key \<noteq> None \<and> credential_key \<noteq> Some []) \<or> oidc \<noteq> None
     in andThen (classify_api_routes (al_routes lib)) (\<lambda>policies. Inr
       \<lparr>ap_store = store, ap_policies = policies,
        ap_state =
          \<lparr>st_auth_mode = (case ca_auth_mode a of Some mode \<Rightarrow> mode | None \<Rightarrow> if configured then ''protected'' else se_auth_mode se),
           st_api_token = api_token, st_agent_bearer = agent_bearer, st_readonly_token = readonly, st_external_token = external,
           st_credential_key = credential_key, st_oidc_client = (oidc \<noteq> None), st_oidc_issuer = map_option oc_issuer oidc,
           st_session_key = browser_key, st_idle_minutes = se_idle_minutes se,
           st_public_base_url = (case oidc of Some c \<Rightarrow> Some (oc_public_base_url c)
             | None \<Rightarrow> if truthy (ca_public_base_url a) then ca_public_base_url a else se_public_base_url se),
           st_policy = Some policy, st_lifetime_days = lifetime\<rparr>,
        ap_login = \<lparr>lg_config = oidc, lg_login_ttl_minutes = se_login_ttl_minutes se, lg_session_hours = se_absolute_hours se\<rparr>,
        ap_provider = provider\<rparr>))))))))))))))))))))"


section \<open>Accepted secrets\<close>

lemma open_secure_file_Inr:
  assumes "open_secure_file h label public file_path = Inr content"
  obtains resolved mount where "path_absolute (posix_path file_path)" "fs_resolve (ch_files h) (posix_path file_path) = Some resolved"
    "ch_read_only h resolved = Some mount" "resolved = posix_path file_path \<or> mount"
    "fs_node (ch_files h) resolved = Some (RegularFile content)"
    "if public then \<not> others_may_write (fs_mode (ch_files h) resolved) else \<not> others_may (fs_mode (ch_files h) resolved)"
    "fs_owner (ch_files h) resolved = 0 \<or> fs_owner (ch_files h) resolved = ch_euid h \<or> mount"
proof -
  obtain resolved where r: "fs_resolve (ch_files h) (posix_path file_path) = Some resolved"
    using assms by (cases "fs_resolve (ch_files h) (posix_path file_path)") (auto simp: open_secure_file_def Let_def andThen_eq_Inr)
  obtain mount where m: "ch_read_only h resolved = Some mount"
    using assms r by (cases "ch_read_only h resolved") (auto simp: open_secure_file_def Let_def andThen_eq_Inr)
  obtain found where "fs_node (ch_files h) resolved = Some found"
    using assms r m by (cases "fs_node (ch_files h) resolved") (auto simp: open_secure_file_def Let_def andThen_eq_Inr)
  then show thesis
    using assms r m that[of resolved mount] by (cases found) (auto simp: open_secure_file_def Let_def andThen_eq_Inr)
qed

text \<open>
  C40.  A secret comes from a regular file at an absolute path that others may not read (a public one: not write), under a
  canonical path and a trusted owner or on a read-only mount, and keeps to the stated lengths.  It is the file without
  the white space around it when the file is at most one byte longer than the limit; of a longer file only the bytes up
  to the limit and one more count, so a file past the limit is accepted, cut, when white space follows the limit.
\<close>

theorem secret_file_bounds:
  assumes "read_secure_file h label minimum_bytes maximum_bytes public file_path = Inr v"
  shows "minimum_bytes \<le> length v \<and> length v \<le> maximum_bytes
    \<and> (\<exists>resolved mount content.
        path_absolute (posix_path file_path) \<and> fs_resolve (ch_files h) (posix_path file_path) = Some resolved
        \<and> ch_read_only h resolved = Some mount \<and> (resolved = posix_path file_path \<or> mount)
        \<and> fs_node (ch_files h) resolved = Some (RegularFile content)
        \<and> (if public then \<not> others_may_write (fs_mode (ch_files h) resolved) else \<not> others_may (fs_mode (ch_files h) resolved))
        \<and> (fs_owner (ch_files h) resolved = 0 \<or> fs_owner (ch_files h) resolved = ch_euid h \<or> mount)
        \<and> v = strip_bytes (take (maximum_bytes + 1) content)
        \<and> (length content \<le> maximum_bytes + 1 \<longrightarrow> v = strip_bytes content))"
proof -
  obtain content where opened: "open_secure_file h label public file_path = Inr content"
    and v: "v = strip_bytes (take (maximum_bytes + 1) content)" "minimum_bytes \<le> length v" "length v \<le> maximum_bytes"
    using assms by (auto simp: read_secure_file_def Let_def andThen_eq_Inr)
  have "length content \<le> maximum_bytes + 1 \<longrightarrow> v = strip_bytes content" using v(1) by simp
  then show ?thesis using open_secure_file_Inr[OF opened] v by (smt (verit) )
qed

definition example_config_host :: "nat list \<Rightarrow> config_host" where
  "example_config_host content =
     \<lparr>ch_files = \<lparr>fs_node = (\<lambda>_. Some (RegularFile content)), fs_mode = (\<lambda>_. 256), fs_owner = (\<lambda>_. 0), fs_executable = (\<lambda>_. False),
        fs_resolve = Some\<rparr>, ch_read_only = (\<lambda>_. Some False), ch_opens = (\<lambda>_. True), ch_euid = 7\<rparr>"

theorem secret_file_bounds_witness:
  "read_secure_file (example_config_host [65, 66, 67, 68, 32, 69]) ''key'' 1 4 False ''/key'' = Inr [65, 66, 67, 68]
    \<and> length [65, 66, 67, 68 :: nat] \<le> 4 \<and> [65, 66, 67, 68] \<noteq> strip_bytes [65, 66, 67, 68, 32, 69]"
proof -
  have run: "read_secure_file (example_config_host [65, 66, 67, 68, 32, 69]) ''key'' 1 4 False ''/key'' = Inr [65, 66, 67, 68]" by code_simp
  have cut: "[65, 66, 67, 68] \<noteq> strip_bytes [65, 66, 67, 68, 32, 69]" by code_simp
  show ?thesis using secret_file_bounds[OF run] run cut by blast
qed

section \<open>The application that starts\<close>

lemma given_or_Inr: "given_or v r = Inr x \<longleftrightarrow> (case v of None \<Rightarrow> r = Inr x | Some y \<Rightarrow> x = Some y)"
  by (auto simp: given_or_def split: option.splits)

lemma validate_hmac_key_Inr: "validate_hmac_key key = Inr k \<Longrightarrow> k = key \<and> (case k of None \<Rightarrow> True | Some b \<Rightarrow> 32 \<le> length b)"
  by (auto simp: validate_hmac_key_def split: option.splits if_splits)

text \<open>With anything configured to authenticate with, the middleware never takes a request for the development principal.\<close>

lemma configured_never_development:
  assumes "authentication_configured st" and "api_token_middleware hmac ok st clock r db = (db', Inr (Forward (Some p) tok))"
  shows "p_method p \<noteq> DevelopmentOpen"
proof -
  have no: "authentic hmac ok st clock r d p \<Longrightarrow> p_method p \<noteq> DevelopmentOpen" for d
    using assms(1) by (auto simp: authentic_def)
  have "h_path r \<notin> set open_paths" using assms(2) by (auto simp: api_token_middleware_def)
  with assms(2) show ?thesis
  proof (cases rule: api_token_middleware_cases)
    case development
    then show ?thesis using assms(1) by simp
  next
    case (session q raw)
    then have "q = p" using authorize_Forward by blast
    from session(1) show ?thesis by (cases rule: browser_session_cases) (simp add: \<open>q = p\<close>)
  next
    case external
    then show ?thesis using external_gate_sound no by blast
  next
    case (bearer db1)
    then show ?thesis using bearer_gate_sound no by blast
  qed
qed

text \<open>
  C39.  An application that starts is fit for what the handlers rely on: keys hold at least 32 bytes, the life of a device
  credential lies between 1 and 3650 days, sessions and logins last some time, OIDC is configured as a whole, with a
  validated configuration, a session key and the issuer and base URL the middleware compares with, there is a legacy
  policy, the database engine exists, and every method of every API route is in the table of route policies.  When there is
  any way to authenticate, the application runs protected unless the caller chose a mode, and in any mode its
  middleware takes no request for the development principal.
\<close>

theorem started_application_sound:
  assumes "create_app lib h se a = Inr app"
  shows "pred_option (\<lambda>k. 32 \<le> length k) (st_credential_key (ap_state app)) \<and> pred_option (\<lambda>k. 32 \<le> length k) (st_session_key (ap_state app))
    \<and> 1 \<le> st_lifetime_days (ap_state app) \<and> st_lifetime_days (ap_state app) \<le> 3650
    \<and> 0 < st_idle_minutes (ap_state app) \<and> 0 < lg_session_hours (ap_login app) \<and> 0 < lg_login_ttl_minutes (ap_login app)
    \<and> (st_oidc_client (ap_state app) \<longleftrightarrow> lg_config (ap_login app) \<noteq> None)
    \<and> pred_option (\<lambda>c. (\<exists>key. oidc_state (ap_state app) (ap_login app) = Inr (c, key))
        \<and> st_oidc_issuer (ap_state app) = Some (oc_issuer c) \<and> st_public_base_url (ap_state app) = Some (oc_public_base_url c)
        \<and> validate_oidc_config (al_bracketed lib) (check_ca_bundle h (al_certificates lib)) c = Inr ()) (lg_config (ap_login app))
    \<and> st_policy (ap_state app) \<noteq> None
    \<and> al_engine lib (fst (ap_store app)) = Inr ()
    \<and> (\<forall>route\<in>set (al_routes lib). \<forall>m\<in>set (rt_methods route). rt_api route \<and> startswith (rt_path route) ''/api/'' \<and>
        m \<notin> {''HEAD'', ''OPTIONS''} \<longrightarrow> (m, rt_path route) \<in> dom (ap_policies app))
    \<and> (authentication_configured (ap_state app) \<and> ca_auth_mode a = None \<longrightarrow> st_auth_mode (ap_state app) = ''protected'')
    \<and> (\<forall>hmac ok clock r db db' q tok. authentication_configured (ap_state app) \<and>
        api_token_middleware hmac ok (ap_state app) clock r db = (db', Inr (Forward (Some q) tok)) \<longrightarrow> p_method q \<noteq> DevelopmentOpen)"
proof -
  define st lg where "st = ap_state app" and "lg = ap_login app"
  define oidc browser_key where "oidc = lg_config lg" and "browser_key = st_session_key st"
  note app = st_def lg_def oidc_def browser_key_def authentication_configured_def
  note run = assms[unfolded create_app_def Let_def andThen_eq_Inr]
  obtain credential_key where credential: "validate_hmac_key credential_key = Inr (st_credential_key st)"
    and browser: "case browser_key of None \<Rightarrow> True | Some k \<Rightarrow> 32 \<le> length k"
    using run by (auto simp: app)
  have valid: "validate_oidc_config (al_bracketed lib) (check_ca_bundle h (al_certificates lib)) c = Inr () \<and> browser_key \<noteq> None" if "oidc = Some c" for c
    using run that by (auto simp: app andThen_eq_Inr)
  have bounds: "1 \<le> st_lifetime_days st" "st_lifetime_days st \<le> 3650" "0 < st_idle_minutes st" "0 < lg_session_hours lg" "0 < lg_login_ttl_minutes lg"
    using run by (auto simp: app)
  have parts: "st_oidc_client st = (oidc \<noteq> None)" "st_oidc_issuer st = map_option oc_issuer oidc" "st_policy st \<noteq> None"
    "st_public_base_url st = (case oidc of Some c \<Rightarrow> Some (oc_public_base_url c)
       | None \<Rightarrow> if truthy (ca_public_base_url a) then ca_public_base_url a else se_public_base_url se)"
    using run by (auto simp: app)
  have mode: "authentication_configured st \<and> ca_auth_mode a = None \<longrightarrow> st_auth_mode st = ''protected''"
    using run by (auto simp: app)
  have engine: "al_engine lib (fst (ap_store app)) = Inr ()" and routes: "classify_api_routes (al_routes lib) = Inr (ap_policies app)"
    using run by (auto simp: database_store_def andThen_eq_Inr)
  have keys: "pred_option (\<lambda>k. 32 \<le> length k) (st_credential_key st)" "pred_option (\<lambda>k. 32 \<le> length k) browser_key"
    using validate_hmac_key_Inr[OF credential] browser by (auto split: option.splits)
  have login: "pred_option (\<lambda>c. (\<exists>key. oidc_state st lg = Inr (c, key)) \<and> st_oidc_issuer st = Some (oc_issuer c)
      \<and> st_public_base_url st = Some (oc_public_base_url c)
      \<and> validate_oidc_config (al_bracketed lib) (check_ca_bundle h (al_certificates lib)) c = Inr ()) oidc"
  proof (cases oidc)
    case (Some c)
    note valid = valid[OF Some]
    then obtain k where "st_session_key st = Some k" by (auto simp: browser_key_def)
    then have "oidc_state st lg = Inr (c, k)" using Some parts(1) by (simp add: oidc_state_def oidc_def)
    then show ?thesis using Some valid parts(2,4) by simp
  qed simp
  have classified: "\<forall>route\<in>set (al_routes lib). \<forall>m\<in>set (rt_methods route). rt_api route \<and> startswith (rt_path route) ''/api/'' \<and>
      m \<notin> {''HEAD'', ''OPTIONS''} \<longrightarrow> (m, rt_path route) \<in> dom (ap_policies app)"
    unfolding classify_api_routes_complete[OF routes, THEN conjunct1] by blast
  show ?thesis
    using keys bounds parts(1,3) mode login
    by (intro conjI engine classified allI impI) (auto simp: st_def lg_def oidc_def browser_key_def dest: configured_never_development)
qed


definition example_settings :: settings where
  "example_settings =
     \<lparr>se_auth_mode = ''development_open'', se_database_url = ''sqlite://'', se_database_url_file = None, se_migration_mode = ''check'', se_api_token = None,
      se_api_token_file = Some ''/token'', se_agent_api_token = None, se_agent_api_token_file = None, se_readonly_api_token = None,
      se_readonly_api_token_file = None, se_external_token = None, se_external_token_file = None, se_credential_key_file = None,
      se_public_base_url = Some ''https://sha.example'', se_oidc_issuer = Some ''https://id.example'',
      se_oidc_metadata_url = Some ''https://id.example/m'', se_oidc_client_id = Some ''sha'', se_oidc_client_secret = Some ''s'',
      se_oidc_client_secret_file = None, se_oidc_ca_bundle_file = None, se_browser_key_file = None, se_idle_minutes = 30,
      se_absolute_hours = 12, se_login_ttl_minutes = 10, se_legacy_mode = ''disabled'', se_legacy_until = None, se_lifetime_days = 90,
      se_release_root = None, se_trust_policy_file = None, se_signing_key_file = None, se_signing_identity = None,
      se_signing_key_id = None, se_spool_root = None, se_package_tool = None, se_ca_bundle_file = None\<rparr>"

definition example_args :: create_args where
  "example_args =
     \<lparr>ca_database_url = None, ca_migration_mode = None, ca_api_token = None, ca_agent_token = None, ca_readonly_token = None, ca_external_token = None, ca_credential_key = None,
      ca_browser_key = Some (replicate 32 1), ca_oidc_client = False, ca_oidc_config = None, ca_public_base_url = None,
      ca_auth_mode = None, ca_legacy_mode = None, ca_legacy_until = None, ca_lifetime_days = None, ca_provider = None\<rparr>"

definition example_libraries :: app_libraries where
  "example_libraries =
     \<lparr>al_bracketed = (\<lambda>_. True), al_certificates = (\<lambda>_. None), al_fromiso = (\<lambda>_. None), al_engine = (\<lambda>_. Inr ()),
      al_register = (\<lambda>_. Inr ()), al_routes = demo_routes\<rparr>"

definition example_start :: "application result" where
  "example_start = create_app example_libraries (example_config_host [115, 10]) example_settings example_args"

theorem started_application_sound_witness:
  "\<exists>app. example_start = Inr app \<and> st_auth_mode (ap_state app) = ''protected'' \<and> st_api_token (ap_state app) = Some ''s''
     \<and> lg_config (ap_login app) \<noteq> None \<and> 1 \<le> st_lifetime_days (ap_state app)"
proof -
  let ?host = "example_config_host [115, 10]"
  let ?oidc = "\<lparr>oc_issuer = ''https://id.example'', oc_metadata_url = ''https://id.example/m'', oc_client_id = ''sha'',
    oc_client_secret = ''s'', oc_public_base_url = ''https://sha.example'', oc_ca_bundle_file = None\<rparr>"
  have path: "path_absolute (posix_path ''/token'')" by code_simp
  have stripped: "strip_bytes [115, 10] = [115]" by code_simp
  have token: "read_secure_secret_file ?host ''configuration secret'' 1 16384 ''/token'' = Inr [115]"
    by (simp add: read_secure_secret_file_def read_secure_file_def open_secure_file_def example_config_host_def path others_may_def stripped)
  have decoded: "decode_utf8 [115] = Inr ''s''" by code_simp
  have urls: "check_https_url (\<lambda>_. True) (''OIDC issuer'', ''https://id.example'') = urlsplit (\<lambda>_. True) ''https://id.example''"
    "check_https_url (\<lambda>_. True) (''OIDC metadata URL'', ''https://id.example/m'') = urlsplit (\<lambda>_. True) ''https://id.example/m''"
    "check_https_url (\<lambda>_. True) (''public base URL'', ''https://sha.example'') = urlsplit (\<lambda>_. True) ''https://sha.example''"
    "urlsplit (\<lambda>_. True) ''https://id.example'' = Inr \<lparr>sp_scheme = ''https'', sp_netloc = ''id.example'', sp_path = [], sp_query = [], sp_fragment = []\<rparr>"
    "urlsplit (\<lambda>_. True) ''https://id.example/m'' = Inr \<lparr>sp_scheme = ''https'', sp_netloc = ''id.example'', sp_path = ''/m'', sp_query = [], sp_fragment = []\<rparr>"
    "urlsplit (\<lambda>_. True) ''https://sha.example'' = Inr \<lparr>sp_scheme = ''https'', sp_netloc = ''sha.example'', sp_path = [], sp_query = [], sp_fragment = []\<rparr>"
    "strip ''sha'' = ''sha''" "strip ''s'' = ''s''"
    by code_simp+
  have valid: "validate_oidc_config (\<lambda>_. True) check ?oidc = Inr ()" for check by (simp add: validate_oidc_config_def urls)
  obtain table where table: "classify_api_routes demo_routes = Inr table" using demo_routes_classified by blast
  have run: "case example_start of Inl _ \<Rightarrow> False | Inr app \<Rightarrow> st_api_token (ap_state app) = Some ''s'' \<and> authentication_configured (ap_state app)
      \<and> lg_config (ap_login app) \<noteq> None"
    by (simp add: example_start_def create_app_def example_settings_def example_args_def given_or_def from_file_def token[unfolded One_nat_def] decoded or_none_def
        truthy_def validate_hmac_key_def resolved_credential_hmac_key_def resolved_key_def legacy_policy_from_config_def effective_legacy_mode_def
        effective_legacy_until_def configured_provider_def package_fields_def configured_oidc_def resolved_oidc_client_secret_def valid
        authentication_configured_def Let_def example_libraries_def resolved_database_url_def database_store_def build_oidc_client_def table)
  then obtain app where app: "example_start = Inr app" "st_api_token (ap_state app) = Some ''s''" "authentication_configured (ap_state app)"
    "lg_config (ap_login app) \<noteq> None"
    by (auto split: sum.splits)
  have "ca_auth_mode example_args = None" by (simp add: example_args_def)
  then show ?thesis
    using started_application_sound[OF app(1)[unfolded example_start_def]] app by blast
qed

end
