(* ===== verification/Installer_Scripts.thy ===== *)
theory Installer_Scripts
  imports Installer_Artifacts
begin

text \<open>
  What a shell makes of the rendered scripts: the configuration reaches its file unchanged and nothing a profile says is
  run, whatever the name, the URL or the token contain.
\<close>

section \<open>Lines\<close>

definition text_lines :: "string \<Rightarrow> string list" where
  "text_lines s = split_on (\<lambda>c. c = CHR 10) s"

lemma text_lines_not_Nil [simp]: "text_lines s \<noteq> []"
proof -
  have "split_on p s \<noteq> []" for p by (induction s) (auto split: list.splits)
  then show ?thesis by (simp add: text_lines_def)
qed

lemma text_lines_plain: "CHR 10 \<notin> set s \<Longrightarrow> text_lines s = [s]"
  unfolding text_lines_def by (induction s) auto

lemma text_lines_newline: "text_lines (s @ CHR 10 # t) = text_lines s @ text_lines t"
  unfolding text_lines_def
proof (induction s)
  case (Cons c s)
  have "split_on (\<lambda>c. c = CHR 10) s \<noteq> []" using text_lines_not_Nil by (simp add: text_lines_def)
  then show ?case using Cons by (auto split: list.splits simp: append_eq_Cons_conv)
qed simp

lemma text_lines_lines_text: "ls \<noteq> [] \<Longrightarrow> text_lines (lines_text ls) = concat (map text_lines ls)"
proof (induction ls)
  case (Cons l ls)
  then show ?case by (cases ls) (simp_all add: lines_text_def text_lines_newline)
qed simp

lemma text_lines_unit: "ls \<noteq> [] \<Longrightarrow> list_all (\<lambda>l. CHR 10 \<notin> set l) ls \<Longrightarrow> text_lines (lines_text ls) = ls"
proof -
  assume "ls \<noteq> []" and plain: "list_all (\<lambda>l. CHR 10 \<notin> set l) ls"
  have "concat (map text_lines ls) = ls" using plain by (induction ls) (simp_all add: text_lines_plain)
  with \<open>ls \<noteq> []\<close> show ?thesis by (simp add: text_lines_lines_text)
qed

lemma concat_plain: "list_all (\<lambda>l. CHR 10 \<notin> set l) ls \<Longrightarrow> concat (map text_lines ls) = ls"
  by (induction ls) (simp_all add: text_lines_plain)

section \<open>Pretty-printed JSON\<close>

text \<open>A text every newline of which is followed by a blank.\<close>

definition soft :: "string \<Rightarrow> bool" where
  "soft s \<longleftrightarrow> (\<forall>u v. s = u @ CHR 10 # v \<longrightarrow> (\<exists>w. v = CHR '' '' # w))"

lemma soft_plain: "CHR 10 \<notin> set s \<Longrightarrow> soft s"
  by (auto simp: soft_def)

lemma soft_append: "soft s \<Longrightarrow> soft t \<Longrightarrow> soft (s @ t)"
  unfolding soft_def by (fastforce simp: append_eq_append_conv2 append_eq_Cons_conv Cons_eq_append_conv)

lemma soft_Nil [simp]: "soft []"
  by (simp add: soft_plain)

lemma soft_Cons [simp]: "c \<noteq> CHR 10 \<Longrightarrow> soft (c # s) \<longleftrightarrow> soft s"
proof
  assume "c \<noteq> CHR 10" and "soft s"
  then show "soft (c # s)" using soft_append[of "[c]" s] soft_plain[of "[c]"] by simp
next
  assume "soft (c # s)"
  then show "soft s" unfolding soft_def by (metis append_Cons)
qed

lemma soft_newline: "0 < level \<Longrightarrow> soft (json_newline level)"
proof -
  assume "0 < level"
  define s where "s = replicate (2 * level - 1) (CHR '' '')"
  have s: "json_newline level = CHR 10 # CHR '' '' # s" "CHR 10 \<notin> set (CHR '' '' # s)"
    using \<open>0 < level\<close> unfolding json_newline_def s_def by (cases level, simp_all)
  show ?thesis
    unfolding soft_def s(1)
  proof (intro allI impI)
    fix u v assume uv: "CHR 10 # CHR '' '' # s = u @ CHR 10 # v"
    show "\<exists>w. v = CHR '' '' # w"
    proof (cases u)
      case (Cons a u')
      then have "CHR 10 \<in> set (CHR '' '' # s)" using uv by simp
      then show ?thesis using s(2) by simp
    qed (use uv in auto)
  qed
qed

lemma soft_join: "soft sep \<Longrightarrow> list_all soft xs \<Longrightarrow> soft (join sep xs)"
  by (induction sep xs rule: join.induct) (simp_all add: soft_append soft_plain)

lemma json_char_plain: "CHR 10 \<notin> set (json_char True c)"
proof -
  have hex: "hex_digit_char n \<noteq> CHR 10" if "n < 16" for n
  proof -
    have "(of_char (hex_digit_char n) :: nat) \<noteq> 10" using that by (simp add: hex_digit_char_def)
    then show ?thesis by auto
  qed
  have c: "of_char c div 16 < (16 :: nat)" using nat_of_char_less_256[of c] by (simp add: less_mult_imp_div_less)
  have "c \<noteq> CHR 10" if "(of_char c :: nat) \<noteq> 10" using that by auto
  moreover have "hex_digit_char (of_char c div 16) \<noteq> CHR 10" "hex_digit_char (of_char c mod 16) \<noteq> CHR 10"
    using c by (simp_all add: hex)
  ultimately show ?thesis by (auto simp: json_char_def Let_def)
qed

lemma json_string_plain: "CHR 10 \<notin> set (json_string True s)"
  using json_char_plain by (auto simp: json_string_def)

lemma nat_text_plain: "CHR 10 \<notin> set (nat_text n)"
proof (induction n rule: nat_text.induct)
  case (1 n)
  have digit: "char_of (48 + m) \<noteq> CHR 10" if "m < 10" for m :: nat
  proof -
    have "(of_char (char_of (48 + m) :: char) :: nat) \<noteq> of_char (CHR 10)" using that by simp
    then show ?thesis by metis
  qed
  show ?case using 1 digit[of n] digit[of "n mod 10"] by (subst nat_text.simps) auto
qed

lemma int_text_plain: "CHR 10 \<notin> set (int_text i)"
  using nat_text_plain by (auto simp: int_text_def)

lemma soft_json: "0 < level \<Longrightarrow> soft (json_pretty level j)"
proof (induction level j rule: json_pretty.induct)
  case (5 level xs)
  then have "list_all soft (map (json_pretty (level + 1)) xs)" by (cases xs) (auto simp: list_all_iff)
  then show ?case using 5(2) by (auto intro!: soft_append soft_join soft_newline)
next
  case (6 level kvs)
  have "soft (json_string True (fst kv) @ '': '' @ json_pretty (level + 1) (snd kv))" if "kv \<in> set kvs" for kv
    using 6(1)[of kv] that soft_plain[OF json_string_plain] by (cases kvs) (auto intro!: soft_append)
  then have "list_all soft (map (\<lambda>kv. json_string True (fst kv) @ '': '' @ json_pretty (level + 1) (snd kv)) kvs)" by (auto simp: list_all_iff)
  then show ?case using 6(2) by (auto intro!: soft_append soft_join soft_newline)
qed (auto simp: soft_plain json_string_plain int_text_plain)

lemma soft_lines: "soft s \<Longrightarrow> l \<in> set (tl (text_lines s)) \<Longrightarrow> \<exists>w. l = CHR '' '' # w"
proof (induction s)
  case (Cons c s)
  have "soft s" using Cons.prems(1) unfolding soft_def by (metis append_Cons)
  show ?case
  proof (cases "c = CHR 10")
    case True
    then obtain w where w: "s = CHR '' '' # w" using Cons.prems(1) unfolding soft_def by (metis append_Nil)
    have "l \<in> set (text_lines s)" using Cons.prems(2) True by (simp add: text_lines_def)
    moreover have "hd (text_lines s) = CHR '' '' # hd (text_lines w)"
      using text_lines_not_Nil[of w] by (auto simp: w text_lines_def split: list.splits)
    ultimately show ?thesis using Cons.IH[OF \<open>soft s\<close>] text_lines_not_Nil[of s] by (cases "text_lines s") auto
  next
    case False
    then have "tl (text_lines (c # s)) = tl (text_lines s)"
      using text_lines_not_Nil[of s] by (auto simp: text_lines_def split: list.splits)
    then show ?thesis using Cons.IH[OF \<open>soft s\<close>] Cons.prems(2) by simp
  qed
qed (simp add: text_lines_def)

text \<open>Every line of a configuration is a brace or starts with a blank.\<close>

lemma config_lines:
  assumes "kvs \<noteq> []" and "l \<in> set (text_lines (json_pretty 0 (JObj kvs)))"
  shows "l = ''{'' \<or> l = ''}'' \<or> (\<exists>w. l = CHR '' '' # w)"
proof -
  define body where "body = join ('','' @ json_newline 1) (map (\<lambda>kv. json_string True (fst kv) @ '': '' @ json_pretty 1 (snd kv)) kvs)"
  have "list_all soft (map (\<lambda>kv. json_string True (fst kv) @ '': '' @ json_pretty 1 (snd kv)) kvs)"
    using soft_plain[OF json_string_plain] by (auto simp: list_all_iff intro!: soft_append soft_json)
  then have "soft body" unfolding body_def by (intro soft_join) (simp_all add: soft_newline)
  have dump: "json_pretty 0 (JObj kvs) = (''{'' @ json_newline 1 @ body) @ CHR 10 # ''}''"
    using assms(1) by (simp add: body_def json_newline_def)
  have "soft (''{'' @ json_newline 1 @ body)" using \<open>soft body\<close> soft_append soft_newline by simp
  moreover have "hd (text_lines (''{'' @ json_newline 1 @ body)) = ''{''"
  proof -
    have "''{'' @ json_newline 1 @ body = ''{'' @ CHR 10 # (''  '' @ body)" by (simp add: json_newline_def numeral_2_eq_2)
    then have "text_lines (''{'' @ json_newline 1 @ body) = text_lines ''{'' @ text_lines (''  '' @ body)"
      using text_lines_newline[of "''{''" "''  '' @ body"] by (simp only:)
    moreover have "text_lines ''{'' = [''{'']" by (rule text_lines_plain) simp
    ultimately show ?thesis by (metis append_Cons list.sel(1))
  qed
  moreover have "l \<in> set (text_lines (''{'' @ json_newline 1 @ body)) \<or> l = ''}''"
    using assms(2) unfolding dump text_lines_newline by (auto simp: text_lines_plain)
  ultimately show ?thesis
    using soft_lines[of "''{'' @ json_newline 1 @ body" l] text_lines_not_Nil[of "''{'' @ json_newline 1 @ body"]
    by (cases "text_lines (''{'' @ json_newline 1 @ body)") auto
qed

section \<open>What a shell reads\<close>

text \<open>A line of bash that opens a quoted here-document ends with \<open><<'WORD'\<close>.\<close>

definition heredoc_word :: "string \<Rightarrow> string option" where
  "heredoc_word l =
     (case rev l of
        [] \<Rightarrow> None
      | c # r \<Rightarrow>
          let w = takeWhile (\<lambda>x. x \<noteq> CHR 0x27) r; front = dropWhile (\<lambda>x. x \<noteq> CHR 0x27) r
          in if c = CHR 0x27 \<and> take 3 front = CHR 0x27 # ''<<'' then Some (rev w) else None)"

text \<open>The commands of a script, and the here-documents they are given.\<close>

function shell_commands :: "string list \<Rightarrow> string list" where
  "shell_commands [] = []"
| "shell_commands (l # ls) = l # shell_commands
     (case heredoc_word l of None \<Rightarrow> ls | Some w \<Rightarrow> tl (dropWhile (\<lambda>x. x \<noteq> w) ls))"
  by pat_completeness auto

lemma length_after_heredoc_Suc: "length (dropWhile P ls) - Suc 0 < Suc (length ls)"
  using length_dropWhile_le[of P ls] by simp

termination shell_commands
  by (relation "measure length") (auto split: option.splits simp: length_after_heredoc_Suc)

function shell_files :: "string list \<Rightarrow> (string \<times> string list) list" where
  "shell_files [] = []"
| "shell_files (l # ls) =
     (case heredoc_word l of
        None \<Rightarrow> shell_files ls
      | Some w \<Rightarrow> (l, takeWhile (\<lambda>x. x \<noteq> w) ls) # shell_files (tl (dropWhile (\<lambda>x. x \<noteq> w) ls)))"
  by pat_completeness auto

termination shell_files
  by (relation "measure length") (auto simp: length_after_heredoc_Suc)

text \<open>PowerShell: a here-string opens at the end of a line and closes at the start of one, where the command goes on.\<close>

definition opens_here_string :: "string \<Rightarrow> bool" where
  "opens_here_string l \<longleftrightarrow> take 2 (rev l) = [CHR 0x27, CHR ''@'']"

definition closes_here_string :: "string \<Rightarrow> bool" where
  "closes_here_string l \<longleftrightarrow> take 2 l = [CHR 0x27, CHR ''@'']"

function powershell_commands :: "string list \<Rightarrow> string list" where
  "powershell_commands [] = []"
| "powershell_commands (l # ls) = l # powershell_commands
     (if opens_here_string l then dropWhile (\<lambda>x. \<not> closes_here_string x) ls else ls)"
  by pat_completeness auto

termination powershell_commands
  by (relation "measure length") (auto simp: length_dropWhile_le le_imp_less_Suc)

function powershell_files :: "string list \<Rightarrow> string list list" where
  "powershell_files [] = []"
| "powershell_files (l # ls) =
     (if opens_here_string l then takeWhile (\<lambda>x. \<not> closes_here_string x) ls # powershell_files (dropWhile (\<lambda>x. \<not> closes_here_string x) ls)
      else powershell_files ls)"
  by pat_completeness auto

termination powershell_files
  by (relation "measure length") (auto simp: length_dropWhile_le le_imp_less_Suc)

lemma dropWhile_to: "w \<notin> set body \<Longrightarrow> dropWhile (\<lambda>x. x \<noteq> w) (body @ w # ls) = w # ls"
  by (induction body) auto

lemma takeWhile_to: "w \<notin> set body \<Longrightarrow> takeWhile (\<lambda>x. x \<noteq> w) (body @ w # ls) = body"
  by (induction body) auto

lemma shell_plain:
  "list_all (\<lambda>l. heredoc_word l = None) ls \<Longrightarrow> shell_commands (ls @ rest) = ls @ shell_commands rest"
  "list_all (\<lambda>l. heredoc_word l = None) ls \<Longrightarrow> shell_files (ls @ rest) = shell_files rest"
  by (induction ls) auto

lemma shell_heredoc:
  assumes "heredoc_word l = Some w" and "w \<notin> set body"
  shows "shell_commands (l # body @ w # rest) = l # shell_commands rest"
    and "shell_files (l # body @ w # rest) = (l, body) # shell_files rest"
  using assms by (simp_all add: dropWhile_to takeWhile_to)

text \<open>A piece of a script whose last line opens a here-document, before its body and its end.\<close>

definition opens :: "string \<Rightarrow> string list \<Rightarrow> bool" where
  "opens w ls \<longleftrightarrow> ls \<noteq> [] \<and> list_all (\<lambda>l. heredoc_word l = None) (butlast ls) \<and> heredoc_word (last ls) = Some w"

lemma shell_piece:
  assumes "opens w ls" and "w \<notin> set body"
  shows "shell_commands (ls @ body @ w # rest) = ls @ shell_commands rest"
    and "shell_files (ls @ body @ w # rest) = (last ls, body) # shell_files rest"
proof -
  have ls: "ls = butlast ls @ [last ls]" using assms(1) by (simp add: opens_def)
  have h: "heredoc_word (last ls) = Some w" "list_all (\<lambda>l. heredoc_word l = None) (butlast ls)" using assms(1) by (simp_all add: opens_def)
  have "shell_commands (butlast ls @ last ls # body @ w # rest) = butlast ls @ last ls # shell_commands rest"
    "shell_files (butlast ls @ last ls # body @ w # rest) = (last ls, body) # shell_files rest"
    by (simp_all only: shell_plain[OF h(2)] shell_heredoc[OF h(1) assms(2)])
  then show "shell_commands (ls @ body @ w # rest) = ls @ shell_commands rest"
    "shell_files (ls @ body @ w # rest) = (last ls, body) # shell_files rest"
    using ls by (metis append.assoc append_Cons append_Nil)+
qed

section \<open>The rendered scripts\<close>

text \<open>No line of a configuration is the word a here-document ends with, and none closes a here-string.\<close>

lemma config_ends:
  assumes "kvs \<noteq> []" and "w \<noteq> ''{''" and "w \<noteq> ''}''" and "w \<noteq> []" and "hd w \<noteq> CHR '' ''"
  shows "w \<notin> set (text_lines (json_pretty 0 (JObj kvs)))"
proof
  assume "w \<in> set (text_lines (json_pretty 0 (JObj kvs)))"
  then have "w = ''{'' \<or> w = ''}'' \<or> (\<exists>v. w = CHR '' '' # v)" by (rule config_lines[OF assms(1)])
  then show False using assms by auto
qed

lemma config_open:
  assumes "kvs \<noteq> []" and "l \<in> set (text_lines (json_pretty 0 (JObj kvs)))"
  shows "\<not> closes_here_string l"
  using config_lines[OF assms] by (auto simp: closes_here_string_def)

lemma linux_constants:
  "opens ''JSON'' linux_head" "opens ''PY'' (tl linux_after_config)" "opens ''UNIT'' (tl linux_after_script)"
  "opens ''UNIT'' (tl linux_after_service)"
  "hd linux_after_config = ''JSON''" "hd linux_after_script = ''PY''" "hd linux_after_service = ''UNIT''"
  "hd linux_after_timer = ''UNIT''"
  "linux_after_config \<noteq> []" "linux_after_script \<noteq> []" "linux_after_service \<noteq> []" "linux_after_timer \<noteq> []"
  "''UNIT'' \<notin> set linux_service_unit" "''UNIT'' \<notin> set linux_timer_unit"
  by code_simp+

lemma linux_plain:
  "list_all (\<lambda>l. CHR 10 \<notin> set l) (linux_head @ linux_after_config @ linux_after_script @ linux_after_service @ linux_after_timer)"
  "list_all (\<lambda>l. CHR 10 \<notin> set l) linux_service_unit" "list_all (\<lambda>l. CHR 10 \<notin> set l) linux_timer_unit"
  "list_all (\<lambda>l. heredoc_word l = None) (tl linux_after_timer)"
  by code_simp+

lemma echo_lines:
  assumes "CHR 10 \<notin> set profile_id"
  shows "text_lines (linux_echo profile_id) = [linux_echo profile_id]"
    and "text_lines (macos_echo profile_id) = [macos_echo profile_id]"
    and "text_lines (windows_echo profile_id) = [windows_echo profile_id]"
  using assms by (auto intro!: text_lines_plain simp: linux_echo_def macos_echo_def windows_echo_def apostrophe_def)

lemma text_lines_Nil: "text_lines [] = [[]]"
  by (rule text_lines_plain) simp

lemma linux_lines:
  assumes "CHR 10 \<notin> set profile_id"
  shows "text_lines (lines_text (linux_bootstrap config script profile_id)) =
    linux_head @ text_lines config @ linux_after_config @ text_lines script @ linux_after_script @ linux_service_unit @
    linux_after_service @ linux_timer_unit @ linux_after_timer @ [linux_echo profile_id, '''']"
proof -
  have units: "linux_service_unit \<noteq> []" "linux_timer_unit \<noteq> []" by (simp_all add: linux_service_unit_def linux_timer_unit_def)
  have plain: "concat (map text_lines linux_head) = linux_head" "concat (map text_lines linux_after_config) = linux_after_config"
    "concat (map text_lines linux_after_script) = linux_after_script" "concat (map text_lines linux_after_service) = linux_after_service"
    "concat (map text_lines linux_after_timer) = linux_after_timer"
    using linux_plain(1) by (simp_all only: list_all_append concat_plain)
  have "linux_bootstrap config script profile_id \<noteq> []" by (simp add: linux_bootstrap_def)
  then show ?thesis
    unfolding text_lines_lines_text[OF \<open>linux_bootstrap config script profile_id \<noteq> []\<close>] unfolding linux_bootstrap_def
    by (simp only: map_append concat_append list.map concat.simps echo_lines[OF assms] text_lines_Nil plain
        text_lines_unit[OF units(1) linux_plain(2)] text_lines_unit[OF units(2) linux_plain(3)] append.simps append_Nil2 append_assoc)
qed

lemma linux_shell:
  assumes "CHR 10 \<notin> set profile_id" and "''JSON'' \<notin> set (text_lines config)" and "''PY'' \<notin> set (text_lines script)"
  shows "shell_commands (text_lines (lines_text (linux_bootstrap config script profile_id))) =
      linux_head @ tl linux_after_config @ tl linux_after_script @ tl linux_after_service @ tl linux_after_timer @ [linux_echo profile_id, '''']"
    and "map snd (shell_files (text_lines (lines_text (linux_bootstrap config script profile_id)))) =
      [text_lines config, text_lines script, linux_service_unit, linux_timer_unit]"
proof -
  define tail where "tail = tl linux_after_timer @ [linux_echo profile_id, '''']"
  have "heredoc_word (linux_echo profile_id) = None" "heredoc_word '''' = None"
    by (simp_all add: heredoc_word_def linux_echo_def Let_def)
  then have tail: "shell_commands tail = tail" "shell_files tail = []"
    using shell_plain[of tail "[]"] linux_plain(4) by (simp_all add: tail_def)
  have lines: "text_lines (lines_text (linux_bootstrap config script profile_id)) =
      linux_head @ text_lines config @ ''JSON'' # tl linux_after_config @ text_lines script @ ''PY'' # tl linux_after_script @
      linux_service_unit @ ''UNIT'' # tl linux_after_service @ linux_timer_unit @ ''UNIT'' # tail"
    unfolding linux_lines[OF assms(1)] tail_def
    by (metis append_Cons linux_constants(5-12) list.collapse)
  note pieces = shell_piece[OF linux_constants(1) assms(2)] shell_piece[OF linux_constants(2) assms(3)]
    shell_piece[OF linux_constants(3,13)] shell_piece[OF linux_constants(4,14)]
  show "shell_commands (text_lines (lines_text (linux_bootstrap config script profile_id))) =
      linux_head @ tl linux_after_config @ tl linux_after_script @ tl linux_after_service @ tl linux_after_timer @ [linux_echo profile_id, '''']"
    unfolding lines pieces tail(1) by (simp only: tail_def)
  show "map snd (shell_files (text_lines (lines_text (linux_bootstrap config script profile_id)))) =
      [text_lines config, text_lines script, linux_service_unit, linux_timer_unit]"
    unfolding lines pieces tail(2) by simp
qed

text \<open>macOS.\<close>

lemma macos_constants:
  "opens ''JSON'' macos_head" "opens ''PY'' (tl macos_after_config)" "opens ''PLIST'' (tl macos_after_script)"
  "hd macos_after_config = ''JSON''" "hd macos_after_script = ''PY''" "hd macos_after_daemon = ''PLIST''"
  "macos_after_config \<noteq> []" "macos_after_script \<noteq> []" "macos_after_daemon \<noteq> []"
  "''PLIST'' \<notin> set macos_launch_daemon"
  by code_simp+

lemma macos_plain:
  "list_all (\<lambda>l. CHR 10 \<notin> set l) (macos_head @ macos_after_config @ macos_after_script @ macos_after_daemon)"
  "list_all (\<lambda>l. CHR 10 \<notin> set l) macos_launch_daemon"
  "list_all (\<lambda>l. heredoc_word l = None) (tl macos_after_daemon)"
  by code_simp+

lemma macos_lines:
  assumes "CHR 10 \<notin> set profile_id"
  shows "text_lines (lines_text (macos_bootstrap config script profile_id)) =
    macos_head @ text_lines config @ macos_after_config @ text_lines script @ macos_after_script @ macos_launch_daemon @
    macos_after_daemon @ [macos_echo profile_id, '''']"
proof -
  have "macos_launch_daemon \<noteq> []" by (simp add: macos_launch_daemon_def)
  note daemon = text_lines_unit[OF this macos_plain(2)]
  have plain: "concat (map text_lines macos_head) = macos_head" "concat (map text_lines macos_after_config) = macos_after_config"
    "concat (map text_lines macos_after_script) = macos_after_script" "concat (map text_lines macos_after_daemon) = macos_after_daemon"
    using macos_plain(1) by (simp_all only: list_all_append concat_plain)
  have "macos_bootstrap config script profile_id \<noteq> []" by (simp add: macos_bootstrap_def)
  then show ?thesis
    unfolding text_lines_lines_text[OF \<open>macos_bootstrap config script profile_id \<noteq> []\<close>] unfolding macos_bootstrap_def
    by (simp only: map_append concat_append list.map concat.simps echo_lines[OF assms] text_lines_Nil plain daemon append.simps append_Nil2 append_assoc)
qed

lemma macos_shell:
  assumes "CHR 10 \<notin> set profile_id" and "''JSON'' \<notin> set (text_lines config)" and "''PY'' \<notin> set (text_lines script)"
  shows "shell_commands (text_lines (lines_text (macos_bootstrap config script profile_id))) =
      macos_head @ tl macos_after_config @ tl macos_after_script @ tl macos_after_daemon @ [macos_echo profile_id, '''']"
    and "map snd (shell_files (text_lines (lines_text (macos_bootstrap config script profile_id)))) =
      [text_lines config, text_lines script, macos_launch_daemon]"
proof -
  define tail where "tail = tl macos_after_daemon @ [macos_echo profile_id, '''']"
  have "heredoc_word (macos_echo profile_id) = None" "heredoc_word '''' = None"
    by (simp_all add: heredoc_word_def macos_echo_def Let_def)
  then have tail: "shell_commands tail = tail" "shell_files tail = []"
    using shell_plain[of tail "[]"] macos_plain(3) by (simp_all add: tail_def)
  have lines: "text_lines (lines_text (macos_bootstrap config script profile_id)) =
      macos_head @ text_lines config @ ''JSON'' # tl macos_after_config @ text_lines script @ ''PY'' # tl macos_after_script @
      macos_launch_daemon @ ''PLIST'' # tail"
    unfolding macos_lines[OF assms(1)] tail_def
    by (metis append_Cons macos_constants(4-9) list.collapse)
  note pieces = shell_piece[OF macos_constants(1) assms(2)] shell_piece[OF macos_constants(2) assms(3)] shell_piece[OF macos_constants(3,10)]
  show "shell_commands (text_lines (lines_text (macos_bootstrap config script profile_id))) =
      macos_head @ tl macos_after_config @ tl macos_after_script @ tl macos_after_daemon @ [macos_echo profile_id, '''']"
    unfolding lines pieces tail(1) by (simp only: tail_def)
  show "map snd (shell_files (text_lines (lines_text (macos_bootstrap config script profile_id)))) =
      [text_lines config, text_lines script, macos_launch_daemon]"
    unfolding lines pieces tail(2) by simp
qed

text \<open>Windows.\<close>

definition opens_ps :: "string list \<Rightarrow> bool" where
  "opens_ps ls \<longleftrightarrow> ls \<noteq> [] \<and> list_all (\<lambda>l. \<not> opens_here_string l) (butlast ls) \<and> opens_here_string (last ls)"

lemma powershell_plain:
  "list_all (\<lambda>l. \<not> opens_here_string l) ls \<Longrightarrow> powershell_commands (ls @ rest) = ls @ powershell_commands rest"
  "list_all (\<lambda>l. \<not> opens_here_string l) ls \<Longrightarrow> powershell_files (ls @ rest) = powershell_files rest"
  by (induction ls) auto

lemma powershell_piece:
  assumes "opens_ps ls" and "list_all (\<lambda>l. \<not> closes_here_string l) body" and "after \<noteq> []" and "closes_here_string (hd after)"
  shows "powershell_commands (ls @ body @ after @ rest) = ls @ powershell_commands (after @ rest)"
    and "powershell_files (ls @ body @ after @ rest) = body # powershell_files (after @ rest)"
proof -
  have ls: "ls = butlast ls @ [last ls]" using assms(1) by (simp add: opens_ps_def)
  have h: "opens_here_string (last ls)" "list_all (\<lambda>l. \<not> opens_here_string l) (butlast ls)" using assms(1) by (simp_all add: opens_ps_def)
  obtain n ns where after: "after = n # ns" "closes_here_string n" using assms(3,4) by (cases "after") auto
  have body: "\<forall>l \<in> set body. \<not> closes_here_string l" using assms(2) by (simp add: list_all_iff)
  have "powershell_commands (butlast ls @ last ls # body @ after @ rest) = butlast ls @ last ls # powershell_commands (after @ rest)"
    "powershell_files (butlast ls @ last ls # body @ after @ rest) = body # powershell_files (after @ rest)"
    using h(1) after body by (simp_all add: powershell_plain[OF h(2)] dropWhile_append2 takeWhile_append2)
  then show "powershell_commands (ls @ body @ after @ rest) = ls @ powershell_commands (after @ rest)"
    "powershell_files (ls @ body @ after @ rest) = body # powershell_files (after @ rest)"
    using ls by (metis append.assoc append_Cons append_Nil)+
qed

lemma windows_constants:
  "opens_ps windows_head" "opens_ps windows_after_config" "closes_here_string (hd windows_after_config)" "closes_here_string (hd windows_after_script)"
  "windows_after_config \<noteq> []" "windows_after_script \<noteq> []"
  by code_simp+

lemma windows_plain:
  "list_all (\<lambda>l. CHR 10 \<notin> set l) (windows_head @ windows_after_config @ windows_after_script)"
  "list_all (\<lambda>l. \<not> opens_here_string l) windows_after_script"
  by code_simp+

lemma windows_echo_open: "CHR ''@'' \<notin> set profile_id \<Longrightarrow> \<not> opens_here_string (windows_echo profile_id)"
proof -
  assume "CHR ''@'' \<notin> set profile_id"
  have "rev (windows_echo profile_id) = CHR 0x27 # rev profile_id @ rev (''Write-Host '' @ apostrophe @ ''SHA bootstrap installed for profile '')"
    by (simp add: windows_echo_def apostrophe_def)
  moreover have "CHR ''@'' \<noteq> CHR '' ''" by simp
  ultimately show ?thesis using \<open>CHR ''@'' \<notin> set profile_id\<close>
    by (cases "rev profile_id") (auto simp: opens_here_string_def numeral_2_eq_2 simp flip: set_rev[of profile_id])
qed

lemma windows_shell:
  assumes "CHR 10 \<notin> set profile_id" and "CHR ''@'' \<notin> set profile_id" and "list_all (\<lambda>l. \<not> closes_here_string l) (text_lines config)"
    and "list_all (\<lambda>l. \<not> closes_here_string l) (text_lines script)"
  shows "powershell_commands (text_lines (lines_text (windows_bootstrap config script profile_id))) =
      windows_head @ windows_after_config @ windows_after_script @ [windows_echo profile_id, '''']"
    and "powershell_files (text_lines (lines_text (windows_bootstrap config script profile_id))) = [text_lines config, text_lines script]"
proof -
  define tail where "tail = windows_after_script @ [windows_echo profile_id, '''']"
  have "\<not> opens_here_string (windows_echo profile_id)"
    using assms(2) windows_echo_open by blast
  moreover have "\<not> opens_here_string ''''" by (simp add: opens_here_string_def)
  ultimately have tail: "powershell_commands tail = tail" "powershell_files tail = []"
    using powershell_plain[of tail "[]"] windows_plain(2) by (simp_all add: tail_def)
  have plain: "concat (map text_lines windows_head) = windows_head" "concat (map text_lines windows_after_config) = windows_after_config"
    "concat (map text_lines windows_after_script) = windows_after_script"
    using windows_plain(1) by (simp_all only: list_all_append concat_plain)
  have ne: "windows_bootstrap config script profile_id \<noteq> []" by (simp add: windows_bootstrap_def)
  have lines: "text_lines (lines_text (windows_bootstrap config script profile_id)) =
      windows_head @ text_lines config @ windows_after_config @ text_lines script @ tail"
    unfolding text_lines_lines_text[OF ne] tail_def unfolding windows_bootstrap_def
    by (simp only: map_append concat_append list.map concat.simps echo_lines[OF assms(1)] text_lines_Nil plain append.simps append_Nil2 append_assoc)
  have tl: "tail \<noteq> []" "closes_here_string (hd tail)" using windows_constants(4,6) by (simp_all add: tail_def)
  note pieces = powershell_piece[OF windows_constants(1) assms(3) windows_constants(5,3)]
    powershell_piece[OF windows_constants(2) assms(4) tl, of "[]", unfolded append_Nil2]
  show "powershell_commands (text_lines (lines_text (windows_bootstrap config script profile_id))) =
      windows_head @ windows_after_config @ windows_after_script @ [windows_echo profile_id, '''']"
    unfolding lines pieces tail(1) by (simp only: tail_def)
  show "powershell_files (text_lines (lines_text (windows_bootstrap config script profile_id))) = [text_lines config, text_lines script]"
    unfolding lines pieces tail(2) by simp
qed

section \<open>The installer of a profile\<close>

definition script_commands :: "platform \<Rightarrow> string \<Rightarrow> string list" where
  "script_commands platform content =
     (if platform = Windows then powershell_commands (text_lines content) else shell_commands (text_lines content))"

definition script_files :: "platform \<Rightarrow> string \<Rightarrow> string list list" where
  "script_files platform content =
     (if platform = Windows then powershell_files (text_lines content) else map snd (shell_files (text_lines content)))"

text \<open>What a platform's installer runs, which only the profile's id varies, and the files it writes.\<close>

definition installer_commands :: "platform \<Rightarrow> string \<Rightarrow> string list" where
  "installer_commands platform profile_id =
     (case platform of
        Linux \<Rightarrow> linux_head @ tl linux_after_config @ tl linux_after_script @ tl linux_after_service @ tl linux_after_timer @
          [linux_echo profile_id, '''']
      | Windows \<Rightarrow> windows_head @ windows_after_config @ windows_after_script @ [windows_echo profile_id, '''']
      | MacOS \<Rightarrow> macos_head @ tl macos_after_config @ tl macos_after_script @ tl macos_after_daemon @ [macos_echo profile_id, ''''])"

definition platform_config :: "profile_row \<Rightarrow> string option \<Rightarrow> string" where
  "platform_config p agent_bearer =
     (case pr_platform p of Linux \<Rightarrow> linux_config p agent_bearer | Windows \<Rightarrow> windows_config p agent_bearer | MacOS \<Rightarrow> macos_config p agent_bearer)"

definition platform_script :: "reporter_scripts \<Rightarrow> platform \<Rightarrow> string" where
  "platform_script scripts platform = rstrip_char (CHR 10)
     (case platform of Linux \<Rightarrow> rs_linux scripts | Windows \<Rightarrow> rs_windows scripts | MacOS \<Rightarrow> rs_macos scripts)"

definition platform_units :: "platform \<Rightarrow> string list list" where
  "platform_units platform =
     (case platform of Linux \<Rightarrow> [linux_service_unit, linux_timer_unit] | Windows \<Rightarrow> [] | MacOS \<Rightarrow> [macos_launch_daemon])"

definition ends_text :: "platform \<Rightarrow> string \<Rightarrow> bool" where
  "ends_text platform l = (if platform = Windows then closes_here_string l else l = ''PY'')"

lemma profile_config_pairs: "\<exists>kvs. kvs \<noteq> [] \<and> profile_config p v f b c h = json_pretty 0 (JObj kvs)"
proof -
  have "\<exists>kv kvs. profile_payload p v f b c h = JObj (kv # kvs)" 
    by (simp only: profile_payload_def json.inject list.inject simp_thms) blast
  then obtain kv kvs where "profile_payload p v f b c h = JObj (kv # kvs)" by (elim exE)
  then show ?thesis unfolding profile_config_def by (intro exI[of _ "kv # kvs"]) simp
qed

lemma config_closed:
  "w \<noteq> ''{'' \<Longrightarrow> w \<noteq> ''}'' \<Longrightarrow> w \<noteq> [] \<Longrightarrow> hd w \<noteq> CHR '' '' \<Longrightarrow> w \<notin> set (text_lines (profile_config p v f b c h))"
  "list_all (\<lambda>l. \<not> closes_here_string l) (text_lines (profile_config p v f b c h))"
proof -
  obtain kvs where kvs: "kvs \<noteq> []" "profile_config p v f b c h = json_pretty 0 (JObj kvs)" using profile_config_pairs by metis
  show "w \<noteq> ''{'' \<Longrightarrow> w \<noteq> ''}'' \<Longrightarrow> w \<noteq> [] \<Longrightarrow> hd w \<noteq> CHR '' '' \<Longrightarrow> w \<notin> set (text_lines (profile_config p v f b c h))"
    unfolding kvs(2) by (rule config_ends[OF kvs(1)])
  show "list_all (\<lambda>l. \<not> closes_here_string l) (text_lines (profile_config p v f b c h))"
    unfolding kvs(2) list_all_iff using config_open[OF kvs(1)] by blast
qed

text \<open>
  C35.  Whatever the name, the addresses and the token of a profile say, its installer runs the same commands, into which
  only the profile's id is written, and the first file it writes is the configuration, line by line, followed by the
  reporter program and the units of the platform: no value of a profile ends the quoted text it stands in.  A reporter
  program must not contain the line that ends its quotation.
\<close>

theorem installer_injects_nothing:
  assumes "CHR 10 \<notin> set (pr_id p)" and "CHR ''@'' \<notin> set (pr_id p)"
    and "list_all (\<lambda>l. \<not> ends_text (pr_platform p) l) (text_lines (platform_script scripts (pr_platform p)))"
  shows "script_commands (pr_platform p) (snd (snd (render_installer_artifact scripts p agent_bearer))) =
      installer_commands (pr_platform p) (pr_id p)
    \<and> script_files (pr_platform p) (snd (snd (render_installer_artifact scripts p agent_bearer))) =
      text_lines (platform_config p agent_bearer) # text_lines (platform_script scripts (pr_platform p)) # platform_units (pr_platform p)"
proof (cases "pr_platform p")
  case Linux
  have py: "''PY'' \<notin> set (text_lines (rstrip_char (CHR 10) (rs_linux scripts)))"
    using assms(3) by (auto simp: Linux ends_text_def platform_script_def list_all_iff)
  have "''JSON'' \<notin> set (text_lines (linux_config p agent_bearer))" unfolding linux_config_def by (rule config_closed) simp_all
  note shell = linux_shell[OF assms(1) this py]
  show ?thesis
    by (simp only: Linux render_installer_artifact_def platform.simps snd_conv render_linux_bootstrap_def script_commands_def
        script_files_def installer_commands_def platform_config_def platform_script_def platform_units_def shell if_False simp_thms)
next
  case MacOS
  have py: "''PY'' \<notin> set (text_lines (rstrip_char (CHR 10) (rs_macos scripts)))"
    using assms(3) by (auto simp: MacOS ends_text_def platform_script_def list_all_iff)
  have "''JSON'' \<notin> set (text_lines (macos_config p agent_bearer))" unfolding macos_config_def by (rule config_closed) simp_all
  note shell = macos_shell[OF assms(1) this py]
  show ?thesis
    by (simp only: MacOS render_installer_artifact_def platform.simps snd_conv render_macos_bootstrap_def script_commands_def
        script_files_def installer_commands_def platform_config_def platform_script_def platform_units_def shell if_False simp_thms)
next
  case Windows
  have ps: "list_all (\<lambda>l. \<not> closes_here_string l) (text_lines (rstrip_char (CHR 10) (rs_windows scripts)))"
    using assms(3) by (simp add: Windows ends_text_def platform_script_def)
  have "list_all (\<lambda>l. \<not> closes_here_string l) (text_lines (windows_config p agent_bearer))"
    unfolding windows_config_def by (rule config_closed)
  note shell = windows_shell[OF assms(1,2) this ps]
  show ?thesis
    by (simp only: Windows render_installer_artifact_def platform.simps snd_conv render_windows_bootstrap_def script_commands_def
        script_files_def installer_commands_def platform_config_def platform_script_def platform_units_def shell if_True simp_thms)
qed

definition example_installer_profile :: profile_row where
  "example_installer_profile = \<lparr>pr_id = ''profile-1'', pr_name = ''Fleet'', pr_name_normalized = ''fleet'', pr_platform = Linux,
     pr_channel = Stable, pr_control_plane_url = ''https://sha.example'', pr_policy_mode = Observe, pr_runtime_kind = LegacyReporter,
     pr_client = ''client-1'', pr_location = ''location-1'', pr_tenant = None, pr_site = None,
     pr_created_at = ''2026-07-17T00:00:00Z'', pr_updated_at = ''2026-07-17T00:00:00Z''\<rparr>"

theorem installer_injects_nothing_witness:
  "script_commands Linux (snd (snd (render_installer_artifact \<lparr>rs_linux = ''print(1)'', rs_macos = [], rs_windows = []\<rparr> example_installer_profile None))) =
    installer_commands Linux ''profile-1''"
proof -
  let ?s = "\<lparr>rs_linux = ''print(1)'', rs_macos = [], rs_windows = []\<rparr>"
  have id: "pr_platform example_installer_profile = Linux" "pr_id example_installer_profile = ''profile-1''"
    by (simp_all add: example_installer_profile_def)
  have "list_all (\<lambda>l. \<not> ends_text Linux l) (text_lines (platform_script ?s Linux))" by code_simp
  then show ?thesis
    using installer_injects_nothing[of example_installer_profile ?s None] by (simp only: id) simp
qed

end
